(* ===== verification/Prelude.thy ===== *)
theory Prelude
  imports Main "HOL-Library.Multiset"
begin

text \<open>
  What every component shares: the exceptions the services throw, the two result monads of the
  model (pure computations that may throw, and store operations that may throw after they have
  written), the loops over lists, JavaScript's truthiness tests on optional strings, and database
  tables as lists of rows with an interface of their own (\<open>keyed_table\<close>).
\<close>

section \<open>Fact collections\<close>

named_theorems res_simps \<open>unfolding the result monads\<close>
named_theorems entity_simps \<open>unfolding builders and mappers of entities\<close>

section \<open>Exceptions\<close>

text \<open>
  The HTTP exception classes of NestJS the services throw, and JavaScript's own \<open>Error\<close>, each
  with its message (shortened where the source's message is long or holds run-time values), and the
  error of the iyzico client with the provider's code.
\<close>

datatype exn =
    BadRequest string | NotFound string | Conflict string | Forbidden string
  | Unauthorized string | BadGateway string | JsError string | IyzicoRefundRejected string

section \<open>Computations that may throw\<close>

type_synonym 'a res = "exn + 'a"

fun bindE :: "'e + 'a \<Rightarrow> ('a \<Rightarrow> 'e + 'b) \<Rightarrow> 'e + 'b" where
  "bindE (Inl e) f = Inl e"
| "bindE (Inr x) f = f x"

definition throwIf :: "bool \<Rightarrow> 'e \<Rightarrow> 'e + unit" where
  "throwIf c e = (if c then Inl e else Inr ())"

text \<open>\<open>xs.map(f)\<close> and \<open>for (const x of xs) \<dots>\<close> where the body may throw.\<close>

fun mapE :: "('a \<Rightarrow> 'e + 'b) \<Rightarrow> 'a list \<Rightarrow> 'e + 'b list" where
  "mapE f [] = Inr []"
| "mapE f (x # xs) = bindE (f x) (\<lambda>y. bindE (mapE f xs) (\<lambda>ys. Inr (y # ys)))"

fun foldE :: "('s \<Rightarrow> 'a \<Rightarrow> 'e + 's) \<Rightarrow> 's \<Rightarrow> 'a list \<Rightarrow> 'e + 's" where
  "foldE f s [] = Inr s"
| "foldE f s (x # xs) = bindE (f s x) (\<lambda>s'. foldE f s' xs)"

definition of_option :: "'e \<Rightarrow> 'a option \<Rightarrow> 'e + 'a" where
  "of_option e m = (case m of None \<Rightarrow> Inl e | Some x \<Rightarrow> Inr x)"

text \<open>\<open>xs[0]\<close> where the code goes on to use its fields: missing, it is a \<open>TypeError\<close>.\<close>

definition firstE :: "'e \<Rightarrow> 'a list \<Rightarrow> 'e + 'a" where
  "firstE e xs = (case xs of [] \<Rightarrow> Inl e | x # _ \<Rightarrow> Inr x)"

lemma firstE_Inr [simp]: "firstE e xs = Inr x \<longleftrightarrow> (\<exists>rest. xs = x # rest)"
  by (auto simp: firstE_def split: list.splits)

lemma bindE_InrE:
  assumes "bindE m f = Inr y"
  obtains x where "m = Inr x" and "f x = Inr y"
  using assms by (cases m) auto

lemma bindE_Inr_iff [res_simps]: "bindE m f = Inr y \<longleftrightarrow> (\<exists>x. m = Inr x \<and> f x = Inr y)"
  by (cases m) auto

lemma bindE_Inl_iff [res_simps]:
  "bindE m f = Inl e \<longleftrightarrow> m = Inl e \<or> (\<exists>x. m = Inr x \<and> f x = Inl e)"
  by (cases m) auto

lemma bindE_throwIf [simp]: "bindE (throwIf c e) f = (if c then Inl e else f ())"
  by (simp add: throwIf_def)

lemma throwIf_Inr [simp]: "throwIf c e = Inr u \<longleftrightarrow> \<not> c"
  by (simp add: throwIf_def)

lemma throwIf_Inl [simp]: "throwIf c e = Inl e' \<longleftrightarrow> c \<and> e' = e"
  by (auto simp: throwIf_def)

lemma of_option_Inr [simp]: "of_option e m = Inr x \<longleftrightarrow> m = Some x"
  by (cases m) (simp_all add: of_option_def)

lemma of_option_Inr' [simp]: "Inr x = of_option e m \<longleftrightarrow> m = Some x"
  by (cases m) (auto simp: of_option_def)

lemma of_option_simps [simp]: "of_option e (Some x) = Inr x" "of_option e None = Inl e"
  by (simp_all add: of_option_def)

lemma foldE_append: "foldE f s (xs @ ys) = bindE (foldE f s xs) (\<lambda>t. foldE f t ys)"
proof (induction xs arbitrary: s)
  case (Cons x xs)
  then show ?case by (cases "f s x") simp_all
qed simp

text \<open>An invariant of the loop body is an invariant of the loop.\<close>

lemma foldE_invariant:
  assumes "foldE f s xs = Inr t" and "P s"
    and "\<And>s x s'. x \<in> set xs \<Longrightarrow> P s \<Longrightarrow> f s x = Inr s' \<Longrightarrow> P s'"
  shows "P t"
  using assms
proof (induction xs arbitrary: s)
  case (Cons x xs)
  from Cons.prems(1) obtain s' where "f s x = Inr s'" "foldE f s' xs = Inr t"
    by (auto simp: res_simps)
  note s' = this
  have "P s'" by (rule Cons.prems(3) [OF _ Cons.prems(2) s'(1)]) simp
  from s'(2) this show ?case by (rule Cons.IH) (use Cons.prems(3) in auto)
qed simp

lemma mapE_length: "mapE f xs = Inr ys \<Longrightarrow> length ys = length xs"
  by (induction xs arbitrary: ys) (auto simp: res_simps)

lemma mapE_nth:
  "mapE f xs = Inr ys \<Longrightarrow> i < length xs \<Longrightarrow> f (xs ! i) = Inr (ys ! i)"
proof (induction xs arbitrary: ys i)
  case (Cons x xs)
  then show ?case by (cases i) (auto simp: res_simps)
qed simp

lemma mapE_set: "mapE f xs = Inr ys \<Longrightarrow> y \<in> set ys \<Longrightarrow> \<exists>x \<in> set xs. f x = Inr y"
  by (induction xs arbitrary: ys) (auto simp: res_simps)

lemma mapE_all: "mapE f xs = Inr ys \<Longrightarrow> x \<in> set xs \<Longrightarrow> \<exists>y \<in> set ys. f x = Inr y"
  by (induction xs arbitrary: ys) (auto simp: res_simps)

section \<open>Store operations that may throw\<close>

text \<open>
  An operation of a service takes the store and returns the store after it with its value, or
  with the exception: writes made before a \<open>throw\<close> stay, unless the code runs them in a database
  transaction (\<open>transactionS\<close>), which rolls back.
\<close>

type_synonym ('s, 'a) act = "'s \<Rightarrow> 's \<times> 'a res"

definition returnS :: "'a \<Rightarrow> ('s, 'a) act" where
  "returnS x s = (s, Inr x)"

definition throwS :: "exn \<Rightarrow> ('s, 'a) act" where
  "throwS e s = (s, Inl e)"

definition bindS :: "('s, 'a) act \<Rightarrow> ('a \<Rightarrow> ('s, 'b) act) \<Rightarrow> ('s, 'b) act" where
  "bindS m f s = (case m s of (s', Inl e) \<Rightarrow> (s', Inl e) | (s', Inr x) \<Rightarrow> f x s')"

definition readS :: "('s \<Rightarrow> 'a) \<Rightarrow> ('s, 'a) act" where
  "readS g s = (s, Inr (g s))"

definition modifyS :: "('s \<Rightarrow> 's) \<Rightarrow> ('s, unit) act" where
  "modifyS g s = (g s, Inr ())"

definition liftS :: "'a res \<Rightarrow> ('s, 'a) act" where
  "liftS r s = (s, r)"

definition guardS :: "bool \<Rightarrow> exn \<Rightarrow> ('s, unit) act" where
  "guardS c e s = (if c then (s, Inl e) else (s, Inr ()))"

definition transactionS :: "('s, 'a) act \<Rightarrow> ('s, 'a) act" where
  "transactionS m s = (case m s of (s', Inr x) \<Rightarrow> (s', Inr x) | (_, Inl e) \<Rightarrow> (s, Inl e))"

text \<open>\<open>try { m } finally { c }\<close> where the clean-up only writes.\<close>

definition finallyS :: "('s, 'a) act \<Rightarrow> ('s \<Rightarrow> 's) \<Rightarrow> ('s, 'a) act" where
  "finallyS m c s = (case m s of (s', r) \<Rightarrow> (c s', r))"

text \<open>\<open>try { m } catch (e) { h }\<close>.\<close>

definition catchS :: "('s, 'a) act \<Rightarrow> (exn \<Rightarrow> ('s, 'a) act) \<Rightarrow> ('s, 'a) act" where
  "catchS m h s = (case m s of (s', Inr x) \<Rightarrow> (s', Inr x) | (s', Inl e) \<Rightarrow> h e s')"

text \<open>\<open>for (const x of xs) { f(x) }\<close>.\<close>

fun forS :: "'a list \<Rightarrow> ('a \<Rightarrow> ('s, unit) act) \<Rightarrow> ('s, unit) act" where
  "forS [] f = returnS ()"
| "forS (x # xs) f = bindS (f x) (\<lambda>_. forS xs f)"

text \<open>A loop that also carries a value from one round to the next.\<close>

fun foldS :: "('b \<Rightarrow> 'a \<Rightarrow> ('s, 'b) act) \<Rightarrow> 'b \<Rightarrow> 'a list \<Rightarrow> ('s, 'b) act" where
  "foldS f acc [] = returnS acc"
| "foldS f acc (x # xs) = bindS (f acc x) (\<lambda>acc'. foldS f acc' xs)"

lemma bindS_Inr [res_simps]:
  "bindS m f s = (t, Inr y) \<longleftrightarrow> (\<exists>u x. m s = (u, Inr x) \<and> f x u = (t, Inr y))"
proof (cases "m s")
  case (Pair u q)
  then show ?thesis by (cases q) (simp_all add: bindS_def)
qed

lemma bindS_Inl [res_simps]:
  "bindS m f s = (t, Inl e) \<longleftrightarrow>
     m s = (t, Inl e) \<or> (\<exists>u x. m s = (u, Inr x) \<and> f x u = (t, Inl e))"
proof (cases "m s")
  case (Pair u q)
  then show ?thesis by (cases q) (simp_all add: bindS_def)
qed

lemma returnS_eq [simp]: "returnS x s = (t, r) \<longleftrightarrow> t = s \<and> r = Inr x"
  by (auto simp: returnS_def)

lemma readS_eq [simp]: "readS g s = (t, r) \<longleftrightarrow> t = s \<and> r = Inr (g s)"
  by (auto simp: readS_def)

lemma modifyS_eq [simp]: "modifyS g s = (t, r) \<longleftrightarrow> t = g s \<and> r = Inr ()"
  by (auto simp: modifyS_def)

lemma liftS_eq [simp]: "liftS q s = (t, r) \<longleftrightarrow> t = s \<and> q = r"
  by (auto simp: liftS_def)

lemma throwS_eq [simp]: "throwS e s = (t, r) \<longleftrightarrow> t = s \<and> r = Inl e"
  by (auto simp: throwS_def)

lemma guardS_Inr [simp]: "guardS c e s = (t, Inr u) \<longleftrightarrow> \<not> c \<and> t = s"
  by (auto simp: guardS_def)

lemma guardS_Inl [simp]: "guardS c e s = (t, Inl e') \<longleftrightarrow> c \<and> t = s \<and> e' = e"
  by (auto simp: guardS_def)

lemma transactionS_Inr [simp]: "transactionS m s = (t, Inr x) \<longleftrightarrow> m s = (t, Inr x)"
proof (cases "m s")
  case (Pair u q)
  then show ?thesis by (cases q) (simp_all add: transactionS_def)
qed

lemma transactionS_Inl: "transactionS m s = (t, Inl e) \<Longrightarrow> t = s"
proof (cases "m s")
  case (Pair u q)
  then show "transactionS m s = (t, Inl e) \<Longrightarrow> t = s"
    by (cases q) (simp_all add: transactionS_def)
qed

lemmas run_simps = bindS_def returnS_def readS_def modifyS_def liftS_def throwS_def
  guardS_def transactionS_def finallyS_def catchS_def

text \<open>What every step of a loop keeps, the loop keeps, also when it stops with an exception.\<close>

lemma forS_invariant:
  assumes "forS xs f s = (t, r)" and "P s"
    and "\<And>x s t r. x \<in> set xs \<Longrightarrow> P s \<Longrightarrow> f x s = (t, r) \<Longrightarrow> P t"
  shows "P t"
  using assms
proof (induction xs arbitrary: s)
  case (Cons x xs)
  obtain u q where u: "f x s = (u, q)" by fastforce
  have "P u" by (rule Cons.prems(3) [OF _ Cons.prems(2) u]) simp
  show ?case
  proof (cases q)
    case (Inl e)
    with u Cons.prems(1) \<open>P u\<close> show ?thesis by (simp add: bindS_def)
  next
    case (Inr y)
    with u Cons.prems(1) have "forS xs f u = (t, r)" by (simp add: bindS_def)
    from this \<open>P u\<close> show ?thesis by (rule Cons.IH) (use Cons.prems(3) in auto)
  qed
qed (auto)

lemma foldS_invariant:
  assumes "foldS f acc xs s = (t, r)" and "P s"
    and "\<And>acc x s t r. x \<in> set xs \<Longrightarrow> P s \<Longrightarrow> f acc x s = (t, r) \<Longrightarrow> P t"
  shows "P t"
  using assms
proof (induction xs arbitrary: s acc)
  case (Cons x xs)
  obtain u q where u: "f acc x s = (u, q)" by fastforce
  have "P u" by (rule Cons.prems(3) [OF _ Cons.prems(2) u]) simp
  show ?case
  proof (cases q)
    case (Inl e)
    with u Cons.prems(1) \<open>P u\<close> show ?thesis by (simp add: bindS_def)
  next
    case (Inr y)
    with u Cons.prems(1) have "foldS f y xs u = (t, r)" by (simp add: bindS_def)
    from this \<open>P u\<close> show ?thesis
      by (rule Cons.IH) (meson Cons.prems(3) list.set_intros(2))
  qed
qed auto

section \<open>Invariants of store operations\<close>

text \<open>
  An operation preserves a predicate on the store when it does so on every path, an exception
  included. The rules follow the shape of the operation, so that \<open>intro preserves\<close> takes a whole
  handler apart down to its writes.
\<close>

definition preserves :: "('s \<Rightarrow> bool) \<Rightarrow> ('s, 'a) act \<Rightarrow> bool" where
  "preserves P m \<longleftrightarrow> (\<forall>s t r. P s \<longrightarrow> m s = (t, r) \<longrightarrow> P t)"

named_theorems preserves \<open>an operation keeps an invariant when its parts do\<close>

lemma preservesD: "preserves P m \<Longrightarrow> P s \<Longrightarrow> m s = (t, r) \<Longrightarrow> P t"
  unfolding preserves_def by blast

lemma preservesI: "(\<And>s t r. P s \<Longrightarrow> m s = (t, r) \<Longrightarrow> P t) \<Longrightarrow> preserves P m"
  unfolding preserves_def by blast

lemma preserves_bindS [preserves]:
  "preserves P m \<Longrightarrow> (\<And>x. preserves P (f x)) \<Longrightarrow> preserves P (bindS m f)"
proof (rule preservesI)
  fix s t r
  assume m: "preserves P m" and f: "\<And>x. preserves P (f x)" and s: "P s" "bindS m f s = (t, r)"
  obtain u q where u: "m s = (u, q)" by (cases "m s")
  from m s(1) u have "P u" by (rule preservesD)
  with u s(2) show "P t" by (cases q) (auto simp: bindS_def dest: preservesD [OF f])
qed

lemma preserves_basic [preserves]:
  "preserves P (returnS x)" "preserves P (throwS e)" "preserves P (readS g)"
  "preserves P (liftS q)" "preserves P (guardS c e)"
  by (auto simp: preserves_def guardS_def)

lemma preserves_modifyS [preserves]: "(\<And>s. P s \<Longrightarrow> P (g s)) \<Longrightarrow> preserves P (modifyS g)"
  by (simp add: preserves_def)

lemma preserves_transactionS [preserves]: "preserves P m \<Longrightarrow> preserves P (transactionS m)"
proof (rule preservesI)
  fix s t r
  assume m: "preserves P m" and s: "P s" "transactionS m s = (t, r)"
  obtain u q where u: "m s = (u, q)" by (cases "m s")
  from m s(1) u have "P u" by (rule preservesD)
  with u s show "P t" by (cases q) (auto simp: transactionS_def)
qed

lemma preserves_finallyS [preserves]:
  "preserves P m \<Longrightarrow> (\<And>s. P s \<Longrightarrow> P (c s)) \<Longrightarrow> preserves P (finallyS m c)"
  by (auto simp: preserves_def finallyS_def split: prod.splits)

lemma preserves_catchS [preserves]:
  "preserves P m \<Longrightarrow> (\<And>e. preserves P (h e)) \<Longrightarrow> preserves P (catchS m h)"
proof (rule preservesI)
  fix s t r
  assume m: "preserves P m" and h: "\<And>e. preserves P (h e)" and s: "P s" "catchS m h s = (t, r)"
  obtain u q where u: "m s = (u, q)" by (cases "m s")
  from m s(1) u have "P u" by (rule preservesD)
  with u s(2) show "P t" by (cases q) (auto simp: catchS_def dest: preservesD [OF h])
qed

lemma preserves_forS [preserves]: "(\<And>x. preserves P (f x)) \<Longrightarrow> preserves P (forS xs f)"
  by (induction xs) (simp_all add: preserves_basic preserves_bindS)

lemma preserves_foldS [preserves]:
  "(\<And>acc x. preserves P (f acc x)) \<Longrightarrow> preserves P (foldS f acc xs)"
  by (induction xs arbitrary: acc) (simp_all add: preserves_basic preserves_bindS)

lemma preserves_if [preserves]:
  "(c \<Longrightarrow> preserves P m) \<Longrightarrow> (\<not> c \<Longrightarrow> preserves P n) \<Longrightarrow> preserves P (if c then m else n)"
  by simp

lemma preserves_option [preserves]:
  "(x = None \<Longrightarrow> preserves P m) \<Longrightarrow> (\<And>y. x = Some y \<Longrightarrow> preserves P (n y)) \<Longrightarrow>
     preserves P (case x of None \<Rightarrow> m | Some y \<Rightarrow> n y)"
  by (cases x) simp_all

lemma preserves_prod [preserves]:
  "(\<And>a b. x = (a, b) \<Longrightarrow> preserves P (f a b)) \<Longrightarrow> preserves P (case x of (a, b) \<Rightarrow> f a b)"
  by (cases x) simp

lemma preserves_let [preserves]: "(\<And>x. preserves P (f x)) \<Longrightarrow> preserves P (Let y f)"
  by (simp add: Let_def)

section \<open>JavaScript tests on optional strings\<close>

text \<open>
  \<open>undefined\<close> and \<open>null\<close> are \<open>None\<close>. A string is false in a condition when it is missing or
  empty; \<open>trim\<close> removes white space at both ends.
\<close>

definition is_space :: "char \<Rightarrow> bool" where
  "is_space c \<longleftrightarrow> c \<in> {CHR '' '', CHR 0x09, CHR 0x0A, CHR 0x0B, CHR 0x0C, CHR 0x0D}"

definition trim :: "string \<Rightarrow> string" where
  "trim s = rev (dropWhile is_space (rev (dropWhile is_space s)))"

fun falsy :: "string option \<Rightarrow> bool" where
  "falsy None = True"
| "falsy (Some s) = (s = [])"

abbreviation truthy :: "string option \<Rightarrow> bool" where
  "truthy x \<equiv> \<not> falsy x"

definition blank :: "string \<Rightarrow> bool" where
  "blank s \<longleftrightarrow> trim s = []"

text \<open>\<open>a ?? b\<close>.\<close>

definition nullish :: "'a option \<Rightarrow> 'a \<Rightarrow> 'a" where
  "nullish x d = (case x of None \<Rightarrow> d | Some v \<Rightarrow> v)"

lemma nullish_simps [simp]: "nullish None d = d" "nullish (Some v) d = v"
  by (simp_all add: nullish_def)

lemma dropWhile_all_iff: "(\<forall>c \<in> set (dropWhile P s). P c) \<longleftrightarrow> (\<forall>c \<in> set s. P c)"
  by (induction s) auto

lemma blank_iff: "blank s \<longleftrightarrow> (\<forall>c \<in> set s. is_space c)"
  by (simp add: blank_def trim_def dropWhile_eq_Nil_conv dropWhile_all_iff)

section \<open>Lists\<close>

text \<open>\<open>new Set(xs).size === xs.length\<close> is \<open>distinct\<close>; a \<open>Set\<close> iterates in insertion order.\<close>

fun unique :: "'a list \<Rightarrow> 'a list" where
  "unique [] = []"
| "unique (x # xs) = x # filter (\<lambda>y. y \<noteq> x) (unique xs)"

lemma set_unique [simp]: "set (unique xs) = set xs"
  by (induction xs) auto

lemma distinct_unique [simp]: "distinct (unique xs)"
  by (induction xs) auto

lemma find_Some_in: "List.find P xs = Some x \<Longrightarrow> x \<in> set xs \<and> P x"
  by (induction xs) (auto split: if_splits)

lemma find_None_all: "List.find P xs = None \<Longrightarrow> x \<in> set xs \<Longrightarrow> \<not> P x"
  by (induction xs) (auto split: if_splits)

lemma find_distinct_key:
  assumes "distinct (map f xs)" and "x \<in> set xs"
  shows "List.find (\<lambda>y. f y = f x) xs = Some x"
  using assms by (induction xs) (auto simp: image_iff)

lemma sum_list_filter_le:
  fixes f :: "'a \<Rightarrow> 'b :: {ordered_comm_monoid_add, linorder}"
  assumes "\<And>x. x \<in> set xs \<Longrightarrow> 0 \<le> f x"
  shows "(\<Sum>x\<leftarrow>filter P xs. f x) \<le> (\<Sum>x\<leftarrow>xs. f x)"
  using assms
proof (induction xs)
  case (Cons a xs)
  then have "0 \<le> f a" and IH: "(\<Sum>x\<leftarrow>filter P xs. f x) \<le> (\<Sum>x\<leftarrow>xs. f x)" by auto
  then show ?case using add_mono [OF \<open>0 \<le> f a\<close> IH] by (simp add: add_mono)
qed simp

section \<open>Tables\<close>

text \<open>
  A database table is the list of its rows. \<open>findOne\<close> takes the first match and \<open>find\<close> all of
  them (\<open>List.find\<close> and \<open>filter\<close>); \<open>save\<close> replaces the row with the entity's primary key, or
  inserts it.
\<close>

fun upsert :: "('r \<Rightarrow> 'k) \<Rightarrow> 'r \<Rightarrow> 'r list \<Rightarrow> 'r list" where
  "upsert key r [] = [r]"
| "upsert key r (x # xs) = (if key x = key r then r # xs else x # upsert key r xs)"

definition by_key :: "('r \<Rightarrow> 'k) \<Rightarrow> 'r list \<Rightarrow> 'k \<Rightarrow> 'r option" where
  "by_key key t k = List.find (\<lambda>r. key r = k) t"

lemma by_key_upsert:
  "by_key key (upsert key r t) k = (if k = key r then Some r else by_key key t k)"
  by (induction t) (auto simp: by_key_def)

lemma by_key_in: "by_key key t k = Some r \<Longrightarrow> r \<in> set t \<and> key r = k"
  using find_Some_in by (fastforce simp: by_key_def)

lemma set_upsert_subset: "set (upsert key r t) \<subseteq> insert r (set t)"
  by (induction t) auto

lemma upsert_in: "x \<in> set (upsert key r t) \<Longrightarrow> x = r \<or> x \<in> set t"
  using set_upsert_subset [of key r t] by auto

lemma distinct_upsert:
  "distinct (map key t) \<Longrightarrow> distinct (map key (upsert key r t))"
proof (induction t)
  case (Cons x t)
  have "key ` set (upsert key r t) \<subseteq> insert (key r) (key ` set t)"
    using set_upsert_subset [of key r t] by auto
  with Cons show ?case by (auto simp: image_iff)
qed simp

lemma set_upsert_distinct:
  "distinct (map key t) \<Longrightarrow> set (upsert key r t) = insert r {x \<in> set t. key x \<noteq> key r}"
  by (induction t) (auto simp: image_iff)

lemma upsert_fresh: "key r \<notin> key ` set t \<Longrightarrow> upsert key r t = t @ [r]"
  by (induction t) auto

lemma sum_list_upsert_new:
  fixes f :: "'r \<Rightarrow> 'm :: comm_monoid_add"
  shows "by_key key t (key r) = None \<Longrightarrow>
           (\<Sum>x\<leftarrow>upsert key r t. f x) = (\<Sum>x\<leftarrow>t. f x) + f r"
  by (induction t) (auto simp: by_key_def add.assoc split: if_splits)

lemma sum_list_upsert_old:
  fixes f :: "'r \<Rightarrow> 'm :: ab_group_add"
  shows "by_key key t (key r) = Some x \<Longrightarrow>
           (\<Sum>y\<leftarrow>upsert key r t. f y) = (\<Sum>y\<leftarrow>t. f y) - f x + f r"
  by (induction t) (auto simp: by_key_def algebra_simps split: if_splits)

text \<open>
  The interface of a table towards the services: what a look-up returns after a save. The clients
  need no more than this law.
\<close>

locale keyed_table =
  fixes lookup :: "'t \<Rightarrow> 'k \<Rightarrow> 'r option"
    and save :: "'r \<Rightarrow> 't \<Rightarrow> 't"
    and key :: "'r \<Rightarrow> 'k"
  assumes lookup_save: "lookup (save r t) k = (if k = key r then Some r else lookup t k)"
begin

lemma lookup_save_same: "lookup (save r t) (key r) = Some r"
  by (simp add: lookup_save)

lemma lookup_save_other: "k \<noteq> key r \<Longrightarrow> lookup (save r t) k = lookup t k"
  by (simp add: lookup_save)

lemma save_twice: "key r = key r' \<Longrightarrow> lookup (save r (save r' t)) = lookup (save r t)"
  by (rule ext) (simp add: lookup_save)

lemma save_swap:
  "key r \<noteq> key r' \<Longrightarrow> lookup (save r (save r' t)) = lookup (save r' (save r t))"
  by (rule ext) (auto simp: lookup_save)

lemma lookup_save_list_other:
  "k \<notin> key ` set rs \<Longrightarrow> lookup (fold save rs t) k = lookup t k"
proof (induction rs arbitrary: t)
  case (Cons r rs)
  then have "k \<notin> key ` set rs" and "k \<noteq> key r" by auto
  then show ?case using Cons.IH [of "save r t"] by (simp add: lookup_save)
qed simp

lemma lookup_save_list_in:
  "distinct (map key rs) \<Longrightarrow> r \<in> set rs \<Longrightarrow> lookup (fold save rs t) (key r) = Some r"
proof (induction rs arbitrary: t)
  case (Cons x rs)
  show ?case
  proof (cases "r = x")
    case True
    with Cons.prems have "key r \<notin> key ` set rs" by auto
    then show ?thesis using True by (simp add: lookup_save_list_other lookup_save)
  next
    case False
    with Cons show ?thesis by simp
  qed
qed simp

end

end
