(* ===== verification/Decimal_Text.thy ===== *)
theory Decimal_Text
  imports Complex_Main Prelude
begin

text \<open>
  Decimal numbers as text: the form the services exchange amounts in (\<open>toFixed(4)\<close> and the pattern
  \<open>^\d+(\.\d{1,4})?$\<close> they check), and the texts of whole numbers.
\<close>

section \<open>Digits\<close>

definition digit :: "nat \<Rightarrow> char" where
  "digit n = char_of (48 + n)"

definition is_digit :: "char \<Rightarrow> bool" where
  "is_digit c \<longleftrightarrow> 48 \<le> (of_char c :: nat) \<and> (of_char c :: nat) \<le> 57"

definition digits_value :: "string \<Rightarrow> nat" where
  "digits_value s = foldl (\<lambda>a c. 10 * a + (of_char c - 48)) 0 s"

fun nat_text :: "nat \<Rightarrow> string" where
  "nat_text n = (if n < 10 then [digit n] else nat_text (n div 10) @ [digit (n mod 10)])"

declare nat_text.simps [simp del]

text \<open>\<open>String(n).padStart(w, '0')\<close>.\<close>

definition padStart0 :: "nat \<Rightarrow> string \<Rightarrow> string" where
  "padStart0 w s = replicate (w - length s) (CHR ''0'') @ s"

lemma of_char_digit: "n < 10 \<Longrightarrow> of_char (digit n) = (48 + n :: nat)"
  by (simp add: digit_def)

lemma is_digit_digit [simp]: "n < 10 \<Longrightarrow> is_digit (digit n)"
  by (simp add: is_digit_def of_char_digit)

lemma is_digit_zero [simp]: "is_digit (CHR ''0'')"
  by (simp add: is_digit_def)

lemma point_not_digit [simp]: "\<not> is_digit (CHR ''.'')" "\<not> is_digit (CHR ''-'')"
  by (simp_all add: is_digit_def)

lemma nat_text_digits: "c \<in> set (nat_text n) \<Longrightarrow> is_digit c"
proof (induction n rule: nat_text.induct)
  case (1 n)
  then show ?case by (subst (asm) (2) nat_text.simps) (auto split: if_splits)
qed

lemma nat_text_not_Nil [simp]: "nat_text n \<noteq> []"
  by (simp add: nat_text.simps)

lemma digits_value_snoc: "digits_value (s @ [c]) = 10 * digits_value s + (of_char c - 48)"
  by (simp add: digits_value_def)

lemma digits_value_nat_text [simp]: "digits_value (nat_text n) = n"
proof (induction n rule: nat_text.induct)
  case (1 n)
  show ?case
  proof (cases "n < 10")
    case True
    then show ?thesis by (simp add: nat_text.simps digits_value_def of_char_digit)
  next
    case False
    with 1 show ?thesis
      by (subst nat_text.simps) (simp add: digits_value_snoc of_char_digit)
  qed
qed

lemma digits_value_zeros [simp]: "digits_value (replicate n (CHR ''0'') @ s) = digits_value s"
  by (induction n) (simp_all add: digits_value_def)

lemma digits_value_padStart0 [simp]: "digits_value (padStart0 w s) = digits_value s"
  by (simp add: padStart0_def)

lemma nat_text_inj: "nat_text m = nat_text n \<Longrightarrow> m = n"
  by (metis digits_value_nat_text)

lemma nat_text_length: "n < 10 ^ w \<Longrightarrow> 0 < w \<Longrightarrow> length (nat_text n) \<le> w"
proof (induction n arbitrary: w rule: nat_text.induct)
  case (1 n)
  show ?case
  proof (cases "n < 10")
    case True
    with 1 show ?thesis by (simp add: nat_text.simps)
  next
    case False
    with 1(2,3) have w: "1 < w" by (cases "w = 1") auto
    then have "n div 10 < 10 ^ (w - 1)" using 1(2) by (cases w) (auto simp: div_less_iff_less_mult mult.commute)
    with 1(1) [OF False, of "w - 1"] w False show ?thesis by (subst nat_text.simps) simp
  qed
qed

lemma padStart0_length: "length s \<le> w \<Longrightarrow> length (padStart0 w s) = w"
  by (simp add: padStart0_def)

lemma padStart0_digits: "\<forall>c \<in> set s. is_digit c \<Longrightarrow> c \<in> set (padStart0 w s) \<Longrightarrow> is_digit c"
  by (auto simp: padStart0_def)

section \<open>Decimals\<close>

definition int_part :: "string \<Rightarrow> string" where
  "int_part s = takeWhile is_digit s"

definition after_int :: "string \<Rightarrow> string" where
  "after_int s = dropWhile is_digit s"

definition decimal_value :: "string \<Rightarrow> rat" where
  "decimal_value s =
     of_nat (digits_value (int_part s)) +
     of_nat (digits_value (tl (after_int s))) / 10 ^ length (tl (after_int s))"

text \<open>The pattern \<open>^\d+(\.\d{1,n})?$\<close>.\<close>

definition plain_decimal :: "nat \<Rightarrow> string \<Rightarrow> bool" where
  "plain_decimal n s \<longleftrightarrow> int_part s \<noteq> [] \<and>
     (after_int s = [] \<or>
      hd (after_int s) = CHR ''.'' \<and> list_all is_digit (tl (after_int s)) \<and>
      1 \<le> length (tl (after_int s)) \<and> length (tl (after_int s)) \<le> n)"

text \<open>\<open>toFixed(4)\<close> of the decimal \<open>k / 10000\<close>.\<close>

definition fixed4_text :: "nat \<Rightarrow> string" where
  "fixed4_text k = nat_text (k div 10000) @ CHR ''.'' # padStart0 4 (nat_text (k mod 10000))"

lemma fixed4_parts:
  "int_part (fixed4_text k) = nat_text (k div 10000)"
  "after_int (fixed4_text k) = CHR ''.'' # padStart0 4 (nat_text (k mod 10000))"
  unfolding fixed4_text_def int_part_def after_int_def
  by (simp_all add: takeWhile_append2 dropWhile_append2 nat_text_digits)

lemma length_frac4: "length (padStart0 4 (nat_text (k mod 10000))) = 4"
  by (rule padStart0_length, rule nat_text_length) simp_all

lemma fixed4_plain: "plain_decimal 4 (fixed4_text k)"
proof -
  have "list_all is_digit (padStart0 4 (nat_text (k mod 10000)))"
    unfolding list_all_iff using nat_text_digits padStart0_digits [of "nat_text (k mod 10000)" _ 4]
    by blast
  then show ?thesis by (simp add: plain_decimal_def fixed4_parts length_frac4)
qed

lemma fixed4_value: "decimal_value (fixed4_text k) = of_nat k / 10000"
proof -
  have "decimal_value (fixed4_text k) = of_nat (k div 10000) + of_nat (k mod 10000) / 10 ^ 4"
    unfolding decimal_value_def fixed4_parts list.sel length_frac4 by simp
  also have "\<dots> = (of_nat (k div 10000) * 10000 + of_nat (k mod 10000)) / 10000"
    by (simp add: add_divide_distrib)
  also have "of_nat (k div 10000) * 10000 + of_nat (k mod 10000) =
      (of_nat (k div 10000 * 10000 + k mod 10000) :: rat)"
    by (simp only: of_nat_add of_nat_mult of_nat_numeral)
  also have "k div 10000 * 10000 + k mod 10000 = k" by simp
  finally show ?thesis .
qed

lemma fixed4_not_minus: "hd (fixed4_text k) \<noteq> CHR ''-''"
proof -
  have "is_digit (hd (nat_text (k div 10000)))"
    by (rule nat_text_digits [of _ "k div 10000"]) simp
  then show ?thesis by (auto simp: fixed4_text_def)
qed

lemma decimal_value_nonneg: "0 \<le> decimal_value s"
  by (simp add: decimal_value_def)

lemma plain_decimal_mono: "m \<le> n \<Longrightarrow> plain_decimal m s \<Longrightarrow> plain_decimal n s"
  by (auto simp: plain_decimal_def)

end
