(* ===== verification/Numbers.thy ===== *)
theory Numbers
  imports Decimal_Text
begin

text \<open>
  \<open>libs/common-utils/src/type-assertion.ts\<close> and \<open>amount-calculations.ts\<close>: the arithmetic every
  amount of the program goes through.

  A JavaScript number is represented by the decimal it prints as (\<open>new Big(x)\<close> reads a number
  through that decimal), a rational here. \<open>big.js\<close> is not part of the repository: its operations,
  \<open>Number(big)\<close> (rounding to a double, read back as its decimal) and the native floating-point
  operators are the fields of the parameter \<open>bigjs\<close>; \<open>bigjs_ok\<close> states what their documentation
  promises and \<open>num_exact\<close> that a double keeps decimals of four places up to a bound, as IEEE 754
  doubles do up to fifteen significant digits.
\<close>

section \<open>The arithmetic the code is given\<close>

record bigjs =
  big_plus :: "rat \<Rightarrow> rat \<Rightarrow> rat"
  big_minus :: "rat \<Rightarrow> rat \<Rightarrow> rat"
  big_times :: "rat \<Rightarrow> rat \<Rightarrow> rat"
  big_div :: "rat \<Rightarrow> rat \<Rightarrow> rat"
  big_round :: "nat \<Rightarrow> nat \<Rightarrow> rat \<Rightarrow> rat"
  big_num :: "rat \<Rightarrow> rat"
  big_parse :: "string \<Rightarrow> rat option"
  big_toFixed4 :: "rat \<Rightarrow> string"
  js_add :: "rat \<Rightarrow> rat \<Rightarrow> rat"
  js_sub :: "rat \<Rightarrow> rat \<Rightarrow> rat"
  js_mul :: "rat \<Rightarrow> rat \<Rightarrow> rat"
  js_div :: "rat \<Rightarrow> rat \<Rightarrow> rat"

text \<open>
  Rounding to \<open>dp\<close> decimal places as \<open>big.js\<close> documents it: mode 0 truncates, mode 1 rounds half
  away from zero, mode 3 rounds away from zero.
\<close>

definition round_abs :: "nat \<Rightarrow> nat \<Rightarrow> rat \<Rightarrow> rat" where
  "round_abs dp rm x =
     (if rm = 0 then of_int \<lfloor>x * 10 ^ dp\<rfloor>
      else if rm = 1 then of_int \<lfloor>x * 10 ^ dp + 1 / 2\<rfloor>
      else of_int \<lceil>x * 10 ^ dp\<rceil>) / 10 ^ dp"

definition round_dp :: "nat \<Rightarrow> nat \<Rightarrow> rat \<Rightarrow> rat" where
  "round_dp dp rm x = (if 0 \<le> x then round_abs dp rm x else - round_abs dp rm (- x))"

definition bigjs_ok :: "bigjs \<Rightarrow> bool" where
  "bigjs_ok B \<longleftrightarrow>
     (\<forall>x y. big_plus B x y = x + y) \<and> (\<forall>x y. big_minus B x y = x - y) \<and>
     (\<forall>x y. big_times B x y = x * y) \<and>
     (\<forall>x y. y \<noteq> 0 \<longrightarrow> big_div B x y = round_dp 20 1 (x / y)) \<and>
     (\<forall>dp rm x. rm \<in> {0, 1, 3} \<longrightarrow> big_round B dp rm x = round_dp dp rm x) \<and>
     big_num B 0 = 0 \<and>
     (\<forall>n s. plain_decimal n s \<longrightarrow> big_parse B s = Some (decimal_value s)) \<and>
     (\<forall>x. 0 \<le> x \<longrightarrow> big_toFixed4 B x = fixed4_text (nat \<lfloor>x * 10000 + 1 / 2\<rfloor>))"

definition dec :: "nat \<Rightarrow> rat \<Rightarrow> bool" where
  "dec dp x \<longleftrightarrow> x * 10 ^ dp = of_int \<lfloor>x * 10 ^ dp\<rfloor>"

abbreviation dec4 :: "rat \<Rightarrow> bool" where
  "dec4 \<equiv> dec 4"

definition num_exact :: "bigjs \<Rightarrow> rat \<Rightarrow> bool" where
  "num_exact B M \<longleftrightarrow> (\<forall>x. dec4 x \<longrightarrow> \<bar>x\<bar> \<le> M \<longrightarrow> big_num B x = x)"

definition num_close :: "bigjs \<Rightarrow> rat \<Rightarrow> bool" where
  "num_close B e \<longleftrightarrow> (\<forall>x. \<bar>big_num B x - x\<bar> \<le> e * \<bar>x\<bar>)"

text \<open>Native \<open>+\<close> and \<open>-\<close> on doubles up to \<open>M\<close> are off by at most \<open>e\<close>.\<close>

definition native_close :: "bigjs \<Rightarrow> rat \<Rightarrow> rat \<Rightarrow> bool" where
  "native_close B M e \<longleftrightarrow>
     (\<forall>x y. \<bar>x\<bar> \<le> M \<longrightarrow> \<bar>y\<bar> \<le> M \<longrightarrow>
        \<bar>js_add B x y - (x + y)\<bar> \<le> e \<and> \<bar>js_sub B x y - (x - y)\<bar> \<le> e)"

text \<open>A concrete arithmetic with these laws: decimals with no rounding but \<open>big.js\<close>'s own.\<close>

definition exact_bigjs :: bigjs where
  "exact_bigjs = \<lparr>big_plus = (+), big_minus = (-), big_times = (*),
     big_div = (\<lambda>x y. round_dp 20 1 (x / y)), big_round = round_dp, big_num = (\<lambda>x. x),
     big_parse = (\<lambda>s. if plain_decimal (length s) s then Some (decimal_value s) else None),
     big_toFixed4 = (\<lambda>x. if 0 \<le> x then fixed4_text (nat \<lfloor>x * 10000 + 1 / 2\<rfloor>)
       else CHR ''-'' # fixed4_text (nat \<lfloor>- x * 10000 + 1 / 2\<rfloor>)),
     js_add = (+), js_sub = (-), js_mul = (*), js_div = (/)\<rparr>"

lemma exact_bigjs_sel [simp]:
  "big_plus exact_bigjs = (+)" "big_minus exact_bigjs = (-)" "big_times exact_bigjs = (*)"
  "big_div exact_bigjs = (\<lambda>x y. round_dp 20 1 (x / y))" "big_round exact_bigjs = round_dp"
  "big_num exact_bigjs = (\<lambda>x. x)"
  "big_parse exact_bigjs = (\<lambda>s. if plain_decimal (length s) s then Some (decimal_value s) else None)"
  "0 \<le> x \<Longrightarrow> big_toFixed4 exact_bigjs x = fixed4_text (nat \<lfloor>x * 10000 + 1 / 2\<rfloor>)"
  "js_add exact_bigjs = (+)" "js_sub exact_bigjs = (-)"
  "js_mul exact_bigjs = (*)" "js_div exact_bigjs = (/)"
  by (simp_all add: exact_bigjs_def)

lemma exact_bigjs_ok [simp]: "bigjs_ok exact_bigjs"
proof -
  have "plain_decimal (length s) s" if "plain_decimal n s" for n s
  proof -
    have "length (tl (after_int s)) \<le> length s"
      using length_dropWhile_le [of is_digit s] by (simp add: after_int_def)
    with that show ?thesis by (auto simp: plain_decimal_def)
  qed
  then show ?thesis by (auto simp: bigjs_ok_def)
qed

lemma exact_num_exact [simp]: "num_exact exact_bigjs M"
  by (simp add: num_exact_def)

lemma exact_num_close [simp]: "0 \<le> e \<Longrightarrow> num_close exact_bigjs e"
  by (simp add: num_close_def)

text \<open>\<open>new Big(text)\<close>, and \<open>toFixed(4)\<close> read back.\<close>

definition bigOf :: "bigjs \<Rightarrow> string \<Rightarrow> rat res" where
  "bigOf B s = of_option (JsError ''[big.js] Invalid number'') (big_parse B s)"

lemma exact_native_close [simp]: "0 \<le> e \<Longrightarrow> native_close exact_bigjs M e"
  by (simp add: native_close_def)

section \<open>Decimals of a fixed number of places\<close>

lemma dec_iff: "dec dp x \<longleftrightarrow> (\<exists>k::int. x = of_int k / 10 ^ dp)"
proof
  assume "dec dp x"
  then have "x = of_int \<lfloor>x * 10 ^ dp\<rfloor> / 10 ^ dp" by (simp add: dec_def field_simps)
  then show "\<exists>k::int. x = of_int k / 10 ^ dp" by blast
next
  assume "\<exists>k::int. x = of_int k / 10 ^ dp"
  then show "dec dp x" by (auto simp: dec_def)
qed

lemma dec_0 [simp]: "dec dp 0"
  by (simp add: dec_def)

lemma dec_of_int: "dec dp (of_int k)"
  using floor_of_int [of "k * 10 ^ dp", where 'a = rat] by (simp add: dec_def)

lemma dec_add [intro]: "dec dp x \<Longrightarrow> dec dp y \<Longrightarrow> dec dp (x + y)"
  unfolding dec_iff by (metis add_divide_distrib of_int_add)

lemma dec_diff [intro]: "dec dp x \<Longrightarrow> dec dp y \<Longrightarrow> dec dp (x - y)"
  unfolding dec_iff by (metis diff_divide_distrib of_int_diff)

lemma dec_uminus [intro]: "dec dp x \<Longrightarrow> dec dp (- x)"
  using dec_diff [of dp 0 x] by simp

lemma dec_abs [intro]: "dec dp x \<Longrightarrow> dec dp \<bar>x\<bar>"
  by (auto simp: abs_if)

lemma dec_sum_list: "(\<And>x. x \<in> set xs \<Longrightarrow> dec dp (f x)) \<Longrightarrow> dec dp (\<Sum>x\<leftarrow>xs. f x)"
  by (induction xs) auto

lemma dec_round_abs: "dec dp (round_abs dp rm x)"
  unfolding dec_iff round_abs_def by auto

lemma dec_round_dp [simp]: "dec dp (round_dp dp rm x)"
  by (auto simp: round_dp_def dec_round_abs)

lemma round_down_le: "0 \<le> x \<Longrightarrow> round_dp dp 0 x \<le> x"
  by (simp add: round_dp_def round_abs_def field_simps)

lemma round_down_ge0: "0 \<le> x \<Longrightarrow> 0 \<le> round_dp dp 0 x"
  by (simp add: round_dp_def round_abs_def)

lemma round_down_mono_dec: "0 \<le> x \<Longrightarrow> x \<le> y \<Longrightarrow> dec dp y \<Longrightarrow> round_dp dp 0 x \<le> y"
  using round_down_le order_trans by blast

lemma round_dec_id: "dec dp x \<Longrightarrow> rm \<in> {0, 1, 3} \<Longrightarrow> round_dp dp rm x = x"
proof -
  have nonneg: "round_abs dp rm y = y" if "dec dp y" "rm \<in> {0, 1, 3}" for y
  proof -
    from that(1) obtain k where y: "y = of_int k / 10 ^ dp" by (auto simp: dec_iff)
    have "\<lfloor>(of_int k :: rat) + 1 / 2\<rfloor> = k" by linarith
    with that(2) y show ?thesis by (auto simp: round_abs_def)
  qed
  show "dec dp x \<Longrightarrow> rm \<in> {0, 1, 3} \<Longrightarrow> round_dp dp rm x = x"
    using nonneg [of x] nonneg [of "- x"] dec_uminus [of dp x] by (auto simp: round_dp_def)
qed

lemma round_half_error: "\<bar>round_dp dp 1 x - x\<bar> \<le> 1 / (2 * 10 ^ dp)"
proof -
  have base: "\<bar>round_abs dp 1 y - y\<bar> \<le> 1 / (2 * 10 ^ dp)" for y
  proof -
    define n where "n = \<lfloor>y * 10 ^ dp + 1 / 2\<rfloor>"
    have n: "of_int n \<le> y * 10 ^ dp + 1 / 2" "y * 10 ^ dp + 1 / 2 < of_int n + 1"
      unfolding n_def by linarith+
    then have "\<bar>of_int n - y * 10 ^ dp\<bar> \<le> 1 / 2" by linarith
    then have "\<bar>of_int n - y * 10 ^ dp\<bar> / 10 ^ dp \<le> (1 / 2) / 10 ^ dp"
      by (intro divide_right_mono) auto
    moreover have "of_int n / 10 ^ dp - y = (of_int n - y * 10 ^ dp) / 10 ^ dp"
      by (simp add: diff_divide_distrib)
    then have "\<bar>of_int n / 10 ^ dp - y\<bar> = \<bar>of_int n - y * 10 ^ dp\<bar> / 10 ^ dp"
      by (simp only: abs_divide) simp
    ultimately show ?thesis by (simp add: round_abs_def n_def)
  qed
  show ?thesis
  proof (cases "0 \<le> x")
    case True
    then show ?thesis using base [of x] by (simp add: round_dp_def)
  next
    case False
    then show ?thesis using base [of "- x"] by (simp add: round_dp_def abs_minus_commute)
  qed
qed

text \<open>A value within half a unit of the last place of a decimal rounds to that decimal.\<close>

lemma round_half_absorbs:
  assumes "dec dp d" and "\<bar>x - d\<bar> < 1 / (2 * 10 ^ dp)"
  shows "round_dp dp 1 x = d"
proof -
  have half: "round_abs dp 1 y = c" if c: "dec dp c" "\<bar>y - c\<bar> < 1 / (2 * 10 ^ dp)" for y c
  proof -
    from c(1) obtain k where k: "c = of_int k / 10 ^ dp" by (auto simp: dec_iff)
    have "\<bar>y - c\<bar> * 10 ^ dp < 1 / (2 * 10 ^ dp) * 10 ^ dp"
      using c(2) by (intro mult_strict_right_mono) auto
    moreover have "(y - c) * 10 ^ dp = y * 10 ^ dp - of_int k" by (simp add: k algebra_simps)
    then have "\<bar>y - c\<bar> * 10 ^ dp = \<bar>y * 10 ^ dp - of_int k\<bar>"
      by (metis abs_mult abs_of_nonneg zero_le_numeral zero_le_power)
    ultimately have "\<bar>y * 10 ^ dp - of_int k\<bar> < 1 / 2" by simp
    then have "\<lfloor>y * 10 ^ dp + 1 / 2\<rfloor> = k" by linarith
    then show ?thesis by (simp add: round_abs_def k)
  qed
  show ?thesis
  proof (cases "0 \<le> x")
    case True
    then show ?thesis using half [OF assms] by (simp add: round_dp_def)
  next
    case False
    have "round_abs dp 1 (- x) = - d"
      using assms by (intro half) (auto simp: abs_minus_commute)
    then show ?thesis using False by (simp add: round_dp_def)
  qed
qed

lemma round_up_ge: "0 \<le> x \<Longrightarrow> x \<le> round_dp dp 3 x"
  by (simp add: round_dp_def round_abs_def field_simps)

lemma round_up_lt: "0 \<le> x \<Longrightarrow> round_dp dp 3 x < x + 1 / 10 ^ dp"
proof -
  assume "0 \<le> x"
  have "of_int \<lceil>x * 10 ^ dp\<rceil> < x * 10 ^ dp + 1" by linarith
  then have "of_int \<lceil>x * 10 ^ dp\<rceil> / 10 ^ dp < (x * 10 ^ dp + 1) / 10 ^ dp"
    by (intro divide_strict_right_mono) auto
  with \<open>0 \<le> x\<close> show ?thesis by (simp add: round_dp_def round_abs_def add_divide_distrib)
qed

lemma round_down_gt: "0 \<le> x \<Longrightarrow> x - 1 / 10 ^ dp < round_dp dp 0 x"
proof -
  assume "0 \<le> x"
  have "x * 10 ^ dp - 1 < of_int \<lfloor>x * 10 ^ dp\<rfloor>" by linarith
  then have "(x * 10 ^ dp - 1) / 10 ^ dp < of_int \<lfloor>x * 10 ^ dp\<rfloor> / 10 ^ dp"
    by (intro divide_strict_right_mono) auto
  with \<open>0 \<le> x\<close> show ?thesis by (simp add: round_dp_def round_abs_def diff_divide_distrib)
qed

lemma toFixed4_plain: "bigjs_ok B \<Longrightarrow> 0 \<le> x \<Longrightarrow> plain_decimal 4 (big_toFixed4 B x)"
  by (simp add: bigjs_ok_def fixed4_plain)

lemma bigOf_plain: "bigjs_ok B \<Longrightarrow> plain_decimal n s \<Longrightarrow> bigOf B s = Inr (decimal_value s)"
  unfolding bigOf_def bigjs_ok_def by fastforce

text \<open>Printing with four decimals and reading back rounds half away from zero.\<close>

lemma toFixed4_value:
  assumes "bigjs_ok B" and "0 \<le> x"
  shows "decimal_value (big_toFixed4 B x) = round_dp 4 1 x"
proof -
  have "0 \<le> \<lfloor>x * 10000 + 1 / 2\<rfloor>" using assms(2) by simp
  then show ?thesis
    using assms by (simp add: bigjs_ok_def fixed4_value round_dp_def round_abs_def of_nat_nat)
qed

section \<open>TypeAssertionUtil\<close>

text \<open>
  The run-time values a \<open>number\<close> field can hold: a missing field, \<open>null\<close>, or a number, which may be
  \<open>NaN\<close> or infinite (\<open>True\<close> for \<open>+Infinity\<close>).
\<close>

datatype jsnum = Fin rat | NaN | Inf bool

datatype jsval = VUndefined | VNull | VNum jsnum

abbreviation vnum :: "rat \<Rightarrow> jsval" where
  "vnum x \<equiv> VNum (Fin x)"

fun Number :: "jsval \<Rightarrow> jsnum" where
  "Number VUndefined = NaN"
| "Number VNull = Fin 0"
| "Number (VNum n) = n"

fun assertIsNumber :: "jsval \<Rightarrow> string \<Rightarrow> unit res" where
  "assertIsNumber (VNum NaN) msg = Inl (JsError msg)"
| "assertIsNumber (VNum n) msg = Inr ()"
| "assertIsNumber v msg = Inl (JsError msg)"

text \<open>\<open>new Big(n)\<close> throws for anything that is not a finite decimal.\<close>

fun newBig :: "jsnum \<Rightarrow> rat res" where
  "newBig (Fin x) = Inr x"
| "newBig _ = Inl (JsError ''[big.js] Invalid number'')"

section \<open>AmountCalculationUtil\<close>

definition mustBeNumber :: string where
  "mustBeNumber = ''must be a number''"

definition accumulate :: "(rat \<Rightarrow> rat \<Rightarrow> rat) \<Rightarrow> rat \<Rightarrow> jsval \<Rightarrow> rat res" where
  "accumulate f acc v =
     bindE (assertIsNumber (VNum (Number v)) mustBeNumber) (\<lambda>_.
     bindE (newBig (Number v)) (\<lambda>x. Inr (f acc x)))"

definition addNumberValues :: "bigjs \<Rightarrow> jsval list \<Rightarrow> rat res" where
  "addNumberValues B values =
     bindE (foldE (accumulate (big_plus B)) 0 values) (\<lambda>t. Inr (big_num B t))"

definition minusNumberValues :: "bigjs \<Rightarrow> jsval \<Rightarrow> jsval list \<Rightarrow> rat res" where
  "minusNumberValues B initial values =
     bindE (assertIsNumber initial mustBeNumber) (\<lambda>_.
     bindE (newBig (Number initial)) (\<lambda>x.
     bindE (foldE (accumulate (big_minus B)) x values) (\<lambda>t. Inr (big_num B t))))"

definition multiplyNumberValues :: "bigjs \<Rightarrow> jsval list \<Rightarrow> rat res" where
  "multiplyNumberValues B values =
     bindE (foldE (accumulate (big_times B)) 1 values) (\<lambda>t. Inr (big_num B t))"

definition divideNumberValues :: "bigjs \<Rightarrow> jsval \<Rightarrow> jsval list \<Rightarrow> rat res" where
  "divideNumberValues B initial values =
     (if initial = vnum 0 then Inr 0
      else bindE (assertIsNumber initial mustBeNumber) (\<lambda>_.
           bindE (multiplyNumberValues B values) (\<lambda>divisor.
           if divisor = 0 then Inl (JsError ''Division by zero is not allowed'')
           else bindE (newBig (Number initial)) (\<lambda>x. Inr (big_num B (big_div B x divisor))))))"

definition calculateComissionAmountByPercent :: "bigjs \<Rightarrow> jsval \<Rightarrow> jsval \<Rightarrow> rat res" where
  "calculateComissionAmountByPercent B amount percent =
     bindE (assertIsNumber (VNum (Number amount)) mustBeNumber) (\<lambda>_.
     bindE (assertIsNumber (VNum (Number percent)) mustBeNumber) (\<lambda>_.
     bindE (multiplyNumberValues B [VNum (Number amount), VNum (Number percent)]) (\<lambda>product.
     divideNumberValues B (vnum product) [vnum 100])))"

text \<open>
  The same routines on finite numbers, as the entities hold them: they cannot throw but for a
  division by zero. The rest of the model calls these.
\<close>

definition addN :: "bigjs \<Rightarrow> rat list \<Rightarrow> rat" where
  "addN B xs = big_num B (foldl (big_plus B) 0 xs)"

definition minusN :: "bigjs \<Rightarrow> rat \<Rightarrow> rat list \<Rightarrow> rat" where
  "minusN B x ys = big_num B (foldl (big_minus B) x ys)"

definition mulN :: "bigjs \<Rightarrow> rat list \<Rightarrow> rat" where
  "mulN B xs = big_num B (foldl (big_times B) 1 xs)"

definition divN :: "bigjs \<Rightarrow> rat \<Rightarrow> rat list \<Rightarrow> rat res" where
  "divN B x ys =
     (if x = 0 then Inr 0
      else let divisor = mulN B ys in
        if divisor = 0 then Inl (JsError ''Division by zero is not allowed'')
        else Inr (big_num B (big_div B x divisor)))"

definition commissionN :: "bigjs \<Rightarrow> rat \<Rightarrow> rat \<Rightarrow> rat res" where
  "commissionN B amount percent = divN B (mulN B [amount, percent]) [100]"

lemma foldE_accumulate: "foldE (accumulate f) t (map vnum xs) = Inr (foldl f t xs)"
  by (induction xs arbitrary: t) (simp_all add: accumulate_def)

lemma addNumberValues_finite: "addNumberValues B (map vnum xs) = Inr (addN B xs)"
  by (simp add: addNumberValues_def addN_def foldE_accumulate)

lemma minusNumberValues_finite: "minusNumberValues B (vnum x) (map vnum ys) = Inr (minusN B x ys)"
  by (simp add: minusNumberValues_def minusN_def foldE_accumulate)

lemma multiplyNumberValues_finite: "multiplyNumberValues B (map vnum xs) = Inr (mulN B xs)"
  by (simp add: multiplyNumberValues_def mulN_def foldE_accumulate)

lemma divideNumberValues_finite: "divideNumberValues B (vnum x) (map vnum ys) = divN B x ys"
  by (simp add: divideNumberValues_def divN_def multiplyNumberValues_finite)

lemma commission_finite:
  "calculateComissionAmountByPercent B (vnum a) (vnum p) = commissionN B a p"
  using multiplyNumberValues_finite [of B "[a, p]"] divideNumberValues_finite [of B _ "[100]"]
  by (simp add: calculateComissionAmountByPercent_def commissionN_def)

section \<open>What the laws of the arithmetic give\<close>

named_theorems amount_simps \<open>the amount routines under the laws of big.js\<close>

lemma foldl_plus: "foldl (+) a xs = a + sum_list (xs :: rat list)"
  by (induction xs arbitrary: a) (simp_all add: add.assoc)

lemma foldl_minus: "foldl (-) a xs = a - sum_list (xs :: rat list)"
  by (induction xs arbitrary: a) simp_all

lemma bigjs_okD:
  assumes "bigjs_ok B"
  shows "big_plus B = (+)" and "big_minus B = (-)" and "big_times B = (*)"
  using assms by (auto simp: bigjs_ok_def fun_eq_iff)

lemma big_div_ok: "bigjs_ok B \<Longrightarrow> y \<noteq> 0 \<Longrightarrow> big_div B x y = round_dp 20 1 (x / y)"
  by (simp add: bigjs_ok_def)

lemma big_round_ok: "bigjs_ok B \<Longrightarrow> rm \<in> {0, 1, 3} \<Longrightarrow> big_round B dp rm x = round_dp dp rm x"
  unfolding bigjs_ok_def by blast

lemma big_num_0: "bigjs_ok B \<Longrightarrow> big_num B 0 = 0"
  by (simp add: bigjs_ok_def)

lemma addN_sum [amount_simps]: "bigjs_ok B \<Longrightarrow> addN B xs = big_num B (sum_list xs)"
  by (simp add: addN_def bigjs_okD foldl_plus)

lemma minusN_diff [amount_simps]: "bigjs_ok B \<Longrightarrow> minusN B x ys = big_num B (x - sum_list ys)"
  by (simp add: minusN_def bigjs_okD foldl_minus)

lemma num_exactD: "num_exact B M \<Longrightarrow> dec4 x \<Longrightarrow> \<bar>x\<bar> \<le> M \<Longrightarrow> big_num B x = x"
  by (simp add: num_exact_def)

lemma addN_exact:
  assumes "bigjs_ok B" "num_exact B M" "\<And>x. x \<in> set xs \<Longrightarrow> dec4 x" "\<bar>sum_list xs\<bar> \<le> M"
  shows "addN B xs = sum_list xs"
  using assms dec_sum_list [of xs 4 "\<lambda>x. x"] by (simp add: amount_simps num_exactD)

lemma minusN_exact:
  assumes "bigjs_ok B" "num_exact B M" "dec4 x" "\<And>y. y \<in> set ys \<Longrightarrow> dec4 y"
    "\<bar>x - sum_list ys\<bar> \<le> M"
  shows "minusN B x ys = x - sum_list ys"
  using assms dec_sum_list [of ys 4 "\<lambda>x. x"] by (simp add: amount_simps num_exactD dec_diff)

lemma addN2_exact:
  "bigjs_ok B \<Longrightarrow> num_exact B M \<Longrightarrow> dec4 x \<Longrightarrow> dec4 y \<Longrightarrow> \<bar>x + y\<bar> \<le> M \<Longrightarrow> addN B [x, y] = x + y"
  by (rule addN_exact [of B M "[x, y]", simplified]) auto

lemma minusN1_exact:
  "bigjs_ok B \<Longrightarrow> num_exact B M \<Longrightarrow> dec4 x \<Longrightarrow> dec4 y \<Longrightarrow> \<bar>x - y\<bar> \<le> M \<Longrightarrow> minusN B x [y] = x - y"
  by (rule minusN_exact [of B M x "[y]", simplified]) auto

text \<open>A loop of native additions of non-negative amounts drifts by at most \<open>e\<close> per step.\<close>

lemma native_sum_error:
  assumes "native_close B M e" and "0 \<le> e"
    and "\<forall>x \<in> set xs. 0 \<le> x" and "\<bar>a - b\<bar> \<le> of_nat k * e" and "0 \<le> b"
    and "of_nat (k + length xs) * e \<le> 1" and "b + sum_list xs + 1 \<le> M"
  shows "\<bar>foldl (js_add B) a xs - (b + sum_list xs)\<bar> \<le> of_nat (k + length xs) * e"
  using assms(3-)
proof (induction xs arbitrary: a b k)
  case (Cons x xs)
  have rest: "0 \<le> sum_list xs" using Cons.prems(1) by (intro sum_list_nonneg) auto
  have "of_nat k * e \<le> of_nat (k + length (x # xs)) * e"
    using \<open>0 \<le> e\<close> by (intro mult_right_mono) auto
  with Cons.prems(4) have k1: "of_nat k * e \<le> 1" by linarith
  have x: "0 \<le> x" using Cons.prems(1) by simp
  have "\<bar>a\<bar> \<le> b + 1" using Cons.prems(2,3) k1 by linarith
  then have bounds: "\<bar>a\<bar> \<le> M" "\<bar>x\<bar> \<le> M" using Cons.prems(3,5) rest x by auto
  from assms(1) bounds have "\<bar>js_add B a x - (a + x)\<bar> \<le> e" by (simp add: native_close_def)
  then have "\<bar>js_add B a x - (b + x)\<bar> \<le> of_nat (Suc k) * e"
    using Cons.prems(2) by (simp add: algebra_simps)
  then have "\<bar>foldl (js_add B) (js_add B a x) xs - (b + x + sum_list xs)\<bar>
      \<le> of_nat (Suc k + length xs) * e"
    by (rule Cons.IH [rotated]) (use Cons.prems x in \<open>auto simp: add.assoc\<close>)
  then show ?case by (simp add: add.assoc)
qed simp

lemma addN_exact_bigjs [simp]: "addN exact_bigjs xs = sum_list xs"
  by (simp add: amount_simps)

lemma minusN_exact_bigjs [simp]: "minusN exact_bigjs x ys = x - sum_list ys"
  by (simp add: amount_simps)

lemma mulN_exact_bigjs [simp]: "mulN exact_bigjs xs = prod_list xs"
proof -
  have "foldl (*) a xs = a * prod_list xs" for a :: rat
    by (induction xs arbitrary: a) (simp_all add: mult.assoc)
  then show ?thesis by (simp add: mulN_def)
qed

section \<open>Properties\<close>

text \<open>
  C27: \<open>addNumberValues\<close> sums the decimal values exactly and converts to a double once, at the end:
  the result depends on the multiset of the values only, not on the order in which a caller lists
  them (native \<open>+\<close> on doubles has no such law).
\<close>

theorem addNumberValues_order_independent:
  assumes "bigjs_ok B" and "mset xs = mset ys"
  shows "addNumberValues B (map vnum xs) = addNumberValues B (map vnum ys) \<and>
         addNumberValues B (map vnum xs) = Inr (big_num B (sum_list xs))"
proof -
  have "sum_list xs = sum_list ys" using assms(2) by (metis sum_mset_sum_list)
  with assms(1) show ?thesis by (simp add: addNumberValues_finite amount_simps)
qed

theorem addNumberValues_order_independent_witness:
  "addNumberValues exact_bigjs (map vnum [1 / 10, 2 / 10]) =
     addNumberValues exact_bigjs (map vnum [2 / 10, 1 / 10]) \<and>
   addNumberValues exact_bigjs (map vnum [1 / 10, 2 / 10]) = Inr (3 / 10)"
  using addNumberValues_order_independent [of exact_bigjs "[1 / 10, 2 / 10]" "[2 / 10, 1 / 10]"]
  by simp argo

lemma foldE_accumulate_throws:
  assumes "v \<in> set vs" and "Number v = NaN"
  shows "\<exists>e. foldE (accumulate f) t vs = Inl e"
  using assms
proof (induction vs arbitrary: t)
  case (Cons w vs)
  show ?case
  proof (cases "accumulate f t w")
    case (Inr t')
    with Cons.prems have "v \<noteq> w" by (auto simp: accumulate_def)
    with Cons Inr show ?thesis by simp
  qed simp
qed simp

text \<open>
  A value that is missing or \<open>NaN\<close> anywhere in the argument list makes \<open>addNumberValues\<close>,
  \<open>minusNumberValues\<close> and \<open>multiplyNumberValues\<close> throw, so no total is silently \<open>NaN\<close>; \<open>null\<close>
  counts as zero.
\<close>

lemma amounts_reject_nan:
  assumes "v \<in> set vs" and "Number v = NaN"
  shows "(\<exists>e. addNumberValues B vs = Inl e) \<and> (\<exists>e. minusNumberValues B i vs = Inl e) \<and>
         (\<exists>e. multiplyNumberValues B vs = Inl e)"
proof -
  note throws = foldE_accumulate_throws [OF assms]
  from throws obtain e where "foldE (accumulate (big_plus B)) 0 vs = Inl e" by blast
  moreover from throws obtain e' where "foldE (accumulate (big_times B)) 1 vs = Inl e'" by blast
  moreover have "\<exists>e. minusNumberValues B i vs = Inl e"
  proof (cases "minusNumberValues B i vs")
    case (Inr r)
    then obtain x t where "foldE (accumulate (big_minus B)) x vs = Inr t"
      by (auto simp: minusNumberValues_def res_simps)
    moreover from throws obtain e'' where "foldE (accumulate (big_minus B)) x vs = Inl e''"
      by blast
    ultimately show ?thesis by simp
  qed simp
  ultimately show ?thesis by (simp add: addNumberValues_def multiplyNumberValues_def)
qed

lemma amounts_reject_nan_witness:
  "(\<exists>e. addNumberValues exact_bigjs [vnum 1, VUndefined] = Inl e) \<and>
   (\<exists>e. minusNumberValues exact_bigjs (vnum 3) [vnum 1, VUndefined] = Inl e) \<and>
   (\<exists>e. multiplyNumberValues exact_bigjs [vnum 1, VUndefined] = Inl e)"
  by (rule amounts_reject_nan [of VUndefined]) simp_all

end
