(* ===== verification/Grouping.thy ===== *)
theory Grouping
  imports Numbers
begin

text \<open>
  \<open>libs/common-utils/src/array-to-object.ts\<close>: JavaScript objects and maps used as dictionaries, and
  the loops that sort the elements of a list into the entries of one.
\<close>

section \<open>ArrayToObjectUtil\<close>

text \<open>
  A JavaScript object used as a map is the list of its properties in the order of their insertion.
  \<open>Object.values\<close> lists the properties whose key is an array index first, in ascending order, and
  then the others in the order of insertion. Keys that print a number are kept as the number.
\<close>

type_synonym ('k, 'v) jsobj = "('k \<times> 'v) list"

abbreviation obj_get :: "('k, 'v) jsobj \<Rightarrow> 'k \<Rightarrow> ('k \<times> 'v) option" where
  "obj_get \<equiv> by_key fst"

abbreviation obj_set :: "('k \<times> 'v) \<Rightarrow> ('k, 'v) jsobj \<Rightarrow> ('k, 'v) jsobj" where
  "obj_set \<equiv> upsert fst"

interpretation obj: keyed_table obj_get obj_set fst
  by unfold_locales (simp add: by_key_upsert)

definition array_index :: "rat \<Rightarrow> bool" where
  "array_index k \<longleftrightarrow> of_int \<lfloor>k\<rfloor> = k \<and> 0 \<le> k \<and> k < 4294967295"

definition number_keys_order :: "(rat, 'v) jsobj \<Rightarrow> (rat, 'v) jsobj" where
  "number_keys_order m =
     sort_key fst (filter (\<lambda>e. array_index (fst e)) m) @ filter (\<lambda>e. \<not> array_index (fst e)) m"

definition insertToGroup :: "('k, 'v list) jsobj \<Rightarrow> 'k \<Rightarrow> 'v \<Rightarrow> ('k, 'v list) jsobj" where
  "insertToGroup m key x =
     (case obj_get m key of
        Some (_, arr) \<Rightarrow> obj_set (key, arr @ [x]) m
      | None \<Rightarrow> obj_set (key, [x]) m)"

definition arrayConditionCirculation ::
  "'a list \<Rightarrow> ('a \<Rightarrow> 'k) \<Rightarrow> ('a \<Rightarrow> 'k \<Rightarrow> ('k, 'v) jsobj \<Rightarrow> ('k, 'v) jsobj res) \<Rightarrow> ('k, 'v) jsobj res"
where
  "arrayConditionCirculation objects keyGenerator callback =
     foldE (\<lambda>m x. callback x (keyGenerator x) m) [] objects"

definition groupBySpecialCondition :: "'a list \<Rightarrow> ('a \<Rightarrow> 'k) \<Rightarrow> ('k, 'a list) jsobj" where
  "groupBySpecialCondition objects condition =
     foldl (\<lambda>m x. insertToGroup m (condition x) x) [] objects"

lemma groupBySpecialCondition_circulation:
  "arrayConditionCirculation xs c (\<lambda>x k m. Inr (insertToGroup m k x)) =
     Inr (groupBySpecialCondition xs c)"
proof -
  have "foldE (\<lambda>m x. Inr (insertToGroup m (c x) x)) m xs =
      Inr (foldl (\<lambda>m x. insertToGroup m (c x) x) m xs)" for m
    by (induction xs arbitrary: m) simp_all
  then show ?thesis by (simp add: arrayConditionCirculation_def groupBySpecialCondition_def)
qed

lemma mset_number_keys_order [simp]: "mset (number_keys_order m) = mset m"
  by (simp add: number_keys_order_def)

lemma set_number_keys_order [simp]: "set (number_keys_order m) = set m"
  using mset_number_keys_order by (metis set_mset_mset)

lemma sum_number_keys_order:
  "(\<Sum>e\<leftarrow>number_keys_order m. f e) = (\<Sum>e\<leftarrow>m. (f e :: rat))"
  by (metis mset_map mset_number_keys_order sum_mset_sum_list)

text \<open>What a group holds: the elements with its key, in their order.\<close>

lemma group_lookup:
  "map_option snd (obj_get (groupBySpecialCondition xs c) k) =
     (let g = filter (\<lambda>x. c x = k) xs in if g = [] then None else Some g)"
proof (induction xs rule: rev_induct)
  case Nil
  then show ?case by (simp add: groupBySpecialCondition_def by_key_def)
next
  case (snoc x xs)
  let ?m = "groupBySpecialCondition xs c"
  have step: "groupBySpecialCondition (xs @ [x]) c = insertToGroup ?m (c x) x"
    by (simp add: groupBySpecialCondition_def)
  show ?case
  proof (cases "c x = k")
    case True
    with snoc step show ?thesis
      by (auto simp: insertToGroup_def by_key_upsert Let_def split: option.splits if_splits)
  next
    case False
    with snoc step show ?thesis
      by (auto simp: insertToGroup_def by_key_upsert Let_def split: option.splits if_splits)
  qed
qed

section \<open>Loops that accumulate per key\<close>

text \<open>
  The shape the services' own loops share: look the key's entry up, make it or extend it, put it
  back. An element's key decides the only entry it touches, and entries keep the order in which
  their keys first appeared.
\<close>

definition fold_group ::
  "('a \<Rightarrow> 'k) \<Rightarrow> ('v option \<Rightarrow> 'a \<Rightarrow> 'v) \<Rightarrow> ('k, 'v) jsobj \<Rightarrow> 'a list \<Rightarrow> ('k, 'v) jsobj"
where
  "fold_group key step m xs =
     foldl (\<lambda>m a. obj_set (key a, step (map_option snd (obj_get m (key a))) a) m) m xs"

lemma fold_group_simps [simp]:
  "fold_group key step m [] = m"
  "fold_group key step m (x # xs) =
     fold_group key step (obj_set (key x, step (map_option snd (obj_get m (key x))) x) m) xs"
  by (simp_all add: fold_group_def)

text \<open>What the entry of a key holds: the fold of the step over the elements with that key.\<close>

lemma fold_group_lookup:
  "map_option snd (obj_get (fold_group key step m xs) k) =
     foldl (\<lambda>v a. Some (step v a)) (map_option snd (obj_get m k)) (filter (\<lambda>a. key a = k) xs)"
  by (induction xs arbitrary: m) (auto simp: by_key_upsert)

lemma keys_upsert: "fst ` set (obj_set e m) = insert (fst e) (fst ` set m)"
  by (induction m) auto

lemma fold_group_keys: "fst ` set (fold_group key step m xs) = fst ` set m \<union> key ` set xs"
  by (induction xs arbitrary: m) (auto simp: keys_upsert)

lemma fold_group_distinct:
  "distinct (map fst m) \<Longrightarrow> distinct (map fst (fold_group key step m xs))"
  by (induction xs arbitrary: m) (auto simp: distinct_upsert)

lemma obj_get_distinct: "distinct (map fst m) \<Longrightarrow> (k, v) \<in> set m \<Longrightarrow> obj_get m k = Some (k, v)"
  using find_distinct_key [of fst m "(k, v)"] by (simp add: by_key_def)

lemma sum_partition:
  fixes f :: "'a \<Rightarrow> 'm :: comm_monoid_add"
  assumes "finite K" and "key ` set xs \<subseteq> K"
  shows "(\<Sum>k\<in>K. \<Sum>a\<leftarrow>filter (\<lambda>a. key a = k) xs. f a) = (\<Sum>a\<leftarrow>xs. f a)"
  using assms(2)
proof (induction xs)
  case (Cons x xs)
  have "(\<Sum>k\<in>K. \<Sum>a\<leftarrow>filter (\<lambda>a. key a = k) (x # xs). f a) =
      (\<Sum>k\<in>K. (if key x = k then f x else 0) + (\<Sum>a\<leftarrow>filter (\<lambda>a. key a = k) xs. f a))"
    by (rule sum.cong) auto
  also have "\<dots> = f x + (\<Sum>k\<in>K. \<Sum>a\<leftarrow>filter (\<lambda>a. key a = k) xs. f a)"
    using Cons.prems assms(1) by (simp add: sum.distrib sum.delta')
  finally show ?case using Cons by simp
qed simp

text \<open>
  Hence, where the step adds up an amount of its elements, the entries of a new object hold the sums
  of their keys' elements, and together the sum of all.
\<close>

locale accumulation =
  fixes key :: "'a \<Rightarrow> 'k" and step :: "'v option \<Rightarrow> 'a \<Rightarrow> 'v"
    and amount :: "'a \<Rightarrow> rat" and total :: "'v \<Rightarrow> rat"
    and element :: "'a \<Rightarrow> bool" and M :: rat
  assumes amount_nonneg: "element a \<Longrightarrow> 0 \<le> amount a"
    and step_first: "element a \<Longrightarrow> total (step None a) = amount a"
    and step_next: "element a \<Longrightarrow> dec4 (total v) \<Longrightarrow> 0 \<le> total v \<Longrightarrow> total v + amount a \<le> M \<Longrightarrow>
      total (step (Some v) a) = total v + amount a"
    and amount_dec: "element a \<Longrightarrow> dec4 (amount a)"
begin

lemma entry_total:
  assumes "\<forall>a \<in> set xs. element a" and "(\<Sum>a\<leftarrow>xs. amount a) \<le> M"
    and "foldl (\<lambda>v a. Some (step v a)) None xs = Some v"
  shows "total v = (\<Sum>a\<leftarrow>xs. amount a)"
  using assms
proof (induction xs arbitrary: v rule: rev_induct)
  case (snoc x xs)
  have x: "element x" using snoc.prems by simp
  have sums: "0 \<le> (\<Sum>a\<leftarrow>xs. amount a)" "dec4 (\<Sum>a\<leftarrow>xs. amount a)"
    using snoc.prems amount_nonneg amount_dec by (auto intro!: sum_list_nonneg dec_sum_list)
  have le: "(\<Sum>a\<leftarrow>xs. amount a) \<le> M" using snoc.prems amount_nonneg [OF x] by simp
  show ?case
  proof (cases "foldl (\<lambda>v a. Some (step v a)) None xs")
    case None
    have "xs = []"
    proof (rule ccontr)
      assume "xs \<noteq> []"
      then obtain ys y where "xs = ys @ [y]" by (metis rev_exhaust)
      with None show False by simp
    qed
    with snoc.prems x step_first show ?thesis by auto
  next
    case (Some w)
    with snoc.IH [of w] snoc.prems le have "total w = (\<Sum>a\<leftarrow>xs. amount a)" by simp
    with snoc.prems Some sums step_next [OF x, of w] show ?thesis by auto
  qed
qed simp

lemma sum_filter_le:
  assumes "\<forall>a \<in> set xs. element a"
  shows "(\<Sum>a\<leftarrow>filter P xs. amount a) \<le> (\<Sum>a\<leftarrow>xs. amount a)"
  using assms amount_nonneg by (intro sum_list_filter_le) auto

lemma group_entry:
  assumes "\<forall>a \<in> set xs. element a" and "(\<Sum>a\<leftarrow>xs. amount a) \<le> M"
    and "(k, v) \<in> set (fold_group key step [] xs)"
  shows "total v = (\<Sum>a\<leftarrow>filter (\<lambda>a. key a = k) xs. amount a)"
proof (rule entry_total)
  have "obj_get (fold_group key step [] xs) k = Some (k, v)"
    by (rule obj_get_distinct [OF fold_group_distinct assms(3)]) simp
  then show "foldl (\<lambda>v a. Some (step v a)) None (filter (\<lambda>a. key a = k) xs) = Some v"
    using fold_group_lookup [of key step "[]" xs k] by (simp add: by_key_def)
qed (use assms sum_filter_le [OF assms(1), of "\<lambda>a. key a = k"] in auto)

lemma group_total:
  assumes "\<forall>a \<in> set xs. element a" and "(\<Sum>a\<leftarrow>xs. amount a) \<le> M"
  shows "(\<Sum>e\<leftarrow>fold_group key step [] xs. total (snd e)) = (\<Sum>a\<leftarrow>xs. amount a)"
proof -
  let ?m = "fold_group key step [] xs"
  have "distinct (map fst ?m)" by (rule fold_group_distinct) simp
  then have d: "distinct ?m" "inj_on fst (set ?m)" by (auto simp: distinct_map)
  have "(\<Sum>e\<leftarrow>?m. total (snd e)) = (\<Sum>e\<in>set ?m. total (snd e))"
    using d(1) by (simp add: sum_list_distinct_conv_sum_set)
  also have "\<dots> = (\<Sum>e\<in>set ?m. \<Sum>a\<leftarrow>filter (\<lambda>a. key a = fst e) xs. amount a)"
    by (rule sum.cong) (use group_entry [OF assms] in force)+
  also have "\<dots> = (\<Sum>k\<in>fst ` set ?m. \<Sum>a\<leftarrow>filter (\<lambda>a. key a = k) xs. amount a)"
    using d(2) by (simp add: sum.reindex)
  also have "\<dots> = (\<Sum>a\<leftarrow>xs. amount a)"
    by (rule sum_partition) (auto simp: fold_group_keys)
  finally show ?thesis .
qed

end

end
