(* ===== verification/Tax_Calc.thy ===== *)
theory Tax_Calc
  imports Numbers Grouping
begin

text \<open>
  \<open>libs/common-utils/src/tax-calculations.ts\<close>: the split of a taxed amount into tax and untaxed
  price, and the merging of tax records.
\<close>

section \<open>TaxCalculationUtil\<close>

record tax =
  tx_name :: string
  tx_full :: rat
  tx_percent :: rat
  tx_amount :: rat
  tx_untax :: rat

definition calculateUntaxedPrice :: "bigjs \<Rightarrow> rat \<Rightarrow> rat \<Rightarrow> rat" where
  "calculateUntaxedPrice B fullAmount taxAmount = minusN B fullAmount [taxAmount]"

definition calculatePercent :: "bigjs \<Rightarrow> rat \<Rightarrow> rat \<Rightarrow> rat res" where
  "calculatePercent B fullAmount taxAmount =
     bindE (divN B taxAmount [calculateUntaxedPrice B fullAmount taxAmount]) (\<lambda>q.
     Inr (mulN B [q, 100]))"

definition calculateTaxAmount :: "bigjs \<Rightarrow> rat \<Rightarrow> rat \<Rightarrow> rat res" where
  "calculateTaxAmount B fullAmount percent =
     (let fullPercent = addN B [percent, 100] in
      divN B (mulN B [percent, fullAmount]) [fullPercent])"

definition generateTaxDto ::
  "bigjs \<Rightarrow> string \<Rightarrow> rat \<Rightarrow> rat option \<Rightarrow> rat option \<Rightarrow> tax res"
where
  "generateTaxDto B name full percent taxAmount =
     (case (percent, taxAmount) of
        (None, None) \<Rightarrow> Inl (BadRequest ''There is no enough information'')
      | (Some p, _) \<Rightarrow>
          bindE (calculateTaxAmount B full p) (\<lambda>t.
          Inr \<lparr>tx_name = name, tx_full = full, tx_percent = p, tx_amount = t,
               tx_untax = calculateUntaxedPrice B full t\<rparr>)
      | (None, Some t) \<Rightarrow>
          bindE (calculatePercent B full t) (\<lambda>p.
          Inr \<lparr>tx_name = name, tx_full = full, tx_percent = p, tx_amount = t,
               tx_untax = calculateUntaxedPrice B full t\<rparr>))"

definition mergeTaxes :: "bigjs \<Rightarrow> tax list \<Rightarrow> tax res" where
  "mergeTaxes B taxes =
     (let (fullTotal, taxTotal) =
        foldl (\<lambda>(f, t) tx. (addN B [f, tx_full tx], addN B [t, tx_amount tx])) (0, 0) taxes
      in generateTaxDto B ''Total'' fullTotal None (Some taxTotal))"

definition mergeTaxesByPercent :: "bigjs \<Rightarrow> tax list \<Rightarrow> tax list res" where
  "mergeTaxesByPercent B taxes =
     bindE (arrayConditionCirculation taxes tx_percent
       (\<lambda>tx key m. case obj_get m key of
            Some (_, old) \<Rightarrow> bindE (mergeTaxes B [old, tx]) (\<lambda>merged. Inr (obj_set (key, merged) m))
          | None \<Rightarrow> Inr (obj_set (key, tx) m)))
     (\<lambda>m. Inr (map snd (number_keys_order m)))"

section \<open>Consistent tax records\<close>

text \<open>
  The invariant of a tax record: amounts of four decimals, the tax below the full amount (or both
  zero), and the untaxed price the difference.
\<close>

definition tax_ok :: "tax \<Rightarrow> bool" where
  "tax_ok t \<longleftrightarrow> dec4 (tx_full t) \<and> dec4 (tx_amount t) \<and> 0 \<le> tx_amount t \<and>
     (tx_amount t < tx_full t \<or> tx_full t = 0 \<and> tx_amount t = 0) \<and>
     tx_untax t = tx_full t - tx_amount t"

lemma tax_ok_nonneg: "tax_ok t \<Longrightarrow> 0 \<le> tx_full t \<and> 0 \<le> tx_amount t \<and> tx_amount t \<le> tx_full t"
  by (auto simp: tax_ok_def)

lemma generateTaxDto_from_amount:
  assumes B: "bigjs_ok B" "num_exact B M"
    and f: "dec4 f" "dec4 t" "0 \<le> t" "t < f \<or> f = 0 \<and> t = 0" "f \<le> M"
  shows "\<exists>c. generateTaxDto B n f None (Some t) = Inr c \<and> tax_ok c \<and>
             tx_full c = f \<and> tx_amount c = t"
proof -
  have untax: "calculateUntaxedPrice B f t = f - t"
    unfolding calculateUntaxedPrice_def using f by (intro minusN1_exact [OF B]) auto
  have "\<exists>p. calculatePercent B f t = Inr p"
  proof (cases "t = 0")
    case False
    then have "mulN B [f - t] = f - t"
      using f B by (simp add: mulN_def bigjs_okD num_exactD dec_diff)
    with False f(4) show ?thesis by (simp add: calculatePercent_def untax divN_def Let_def)
  qed (simp add: calculatePercent_def divN_def)
  then show ?thesis using f untax by (auto simp: generateTaxDto_def tax_ok_def)
qed

lemma mergeTaxes_two:
  assumes B: "bigjs_ok B" "num_exact B M"
    and ok: "tax_ok a" "tax_ok b" and "tx_full a + tx_full b \<le> M"
  shows "\<exists>c. mergeTaxes B [a, b] = Inr c \<and> tax_ok c \<and>
             tx_full c = tx_full a + tx_full b \<and> tx_amount c = tx_amount a + tx_amount b"
proof -
  note nn = tax_ok_nonneg [OF ok(1)] tax_ok_nonneg [OF ok(2)]
  have d: "dec4 (tx_full a)" "dec4 (tx_full b)" "dec4 (tx_amount a)" "dec4 (tx_amount b)"
    using ok by (auto simp: tax_ok_def)
  have "addN B [0, tx_full a] = tx_full a" "addN B [0, tx_amount a] = tx_amount a"
    "addN B [tx_full a, tx_full b] = tx_full a + tx_full b"
    "addN B [tx_amount a, tx_amount b] = tx_amount a + tx_amount b"
    using addN2_exact [OF B, of 0 "tx_full a"] addN2_exact [OF B, of 0 "tx_amount a"]
      addN2_exact [OF B, of "tx_full a" "tx_full b"]
      addN2_exact [OF B, of "tx_amount a" "tx_amount b"] nn d assms(5)
    by simp_all
  then have "mergeTaxes B [a, b] = generateTaxDto B ''Total'' (tx_full a + tx_full b) None
      (Some (tx_amount a + tx_amount b))"
    by (simp add: mergeTaxes_def)
  moreover have "tx_amount a + tx_amount b < tx_full a + tx_full b \<or>
      tx_full a + tx_full b = 0 \<and> tx_amount a + tx_amount b = 0"
    using ok by (auto simp: tax_ok_def)
  ultimately show ?thesis
    using generateTaxDto_from_amount [OF B, of "tx_full a + tx_full b" "tx_amount a + tx_amount b"]
      nn d assms(5) by auto
qed

section \<open>Properties\<close>

text \<open>
  \<open>generateTaxDto\<close> needs a percent or a tax amount (\<open>BadRequest\<close> otherwise), prefers the
  percent, keeps the full amount, and splits it: the untaxed price is the double nearest to full
  amount minus tax, so tax and untaxed price add up to the full amount within the relative error
  \<open>e\<close> of one conversion to a double.
\<close>

lemma generateTaxDto_split:
  assumes "bigjs_ok B" and "num_close B e"
  shows "generateTaxDto B n full None None = Inl (BadRequest ''There is no enough information'') \<and>
    (generateTaxDto B n full p a = Inr t \<longrightarrow>
       tx_full t = full \<and> (\<forall>x. p = Some x \<longrightarrow> tx_percent t = x) \<and>
       (p = None \<longrightarrow> a = Some (tx_amount t)) \<and>
       \<bar>tx_amount t + tx_untax t - full\<bar> \<le> e * \<bar>full - tx_amount t\<bar>)"
proof -
  have close: "\<bar>a + calculateUntaxedPrice B full a - full\<bar> \<le> e * \<bar>full - a\<bar>" for a
  proof -
    have "\<bar>big_num B (full - a) - (full - a)\<bar> \<le> e * \<bar>full - a\<bar>"
      using assms(2) by (simp add: num_close_def)
    then show ?thesis using assms(1) by (simp add: calculateUntaxedPrice_def amount_simps algebra_simps)
  qed
  show ?thesis using close
    by (auto simp: generateTaxDto_def res_simps split: option.splits)
qed

lemma generateTaxDto_split_witness:
  "\<exists>t. generateTaxDto exact_bigjs ''KDV'' 120 (Some 20) None = Inr t \<and> tx_amount t = 20 \<and>
     \<bar>tx_amount t + tx_untax t - 120\<bar> \<le> 0 * \<bar>120 - tx_amount t\<bar>"
proof -
  let ?t = "\<lparr>tx_name = ''KDV'', tx_full = 120, tx_percent = 20, tx_amount = 20, tx_untax = 100\<rparr>"
  have "generateTaxDto exact_bigjs ''KDV'' 120 (Some 20) None = Inr ?t"
    by (simp add: generateTaxDto_def calculateTaxAmount_def calculateUntaxedPrice_def divN_def
        Let_def round_dec_id dec_def)
  then show ?thesis
    using generateTaxDto_split [of exact_bigjs 0 "''KDV''" 120 "Some 20" None ?t]
    by (intro exI [of _ ?t]) simp
qed

lemma mergeTaxesByPercent_loop:
  assumes B: "bigjs_ok B" "num_exact B M"
    and "\<forall>t \<in> set ts. tax_ok t" and "\<forall>e \<in> set m. tax_ok (snd e)"
    and "(\<Sum>e\<leftarrow>m. tx_full (snd e)) + (\<Sum>t\<leftarrow>ts. tx_full t) \<le> M"
  shows "\<exists>m'. foldE (\<lambda>m tx. case obj_get m (tx_percent tx) of
            Some (_, old) \<Rightarrow>
              bindE (mergeTaxes B [old, tx]) (\<lambda>merged. Inr (obj_set (tx_percent tx, merged) m))
          | None \<Rightarrow> Inr (obj_set (tx_percent tx, tx) m)) m ts = Inr m' \<and>
      (\<forall>e \<in> set m'. tax_ok (snd e)) \<and>
      (\<Sum>e\<leftarrow>m'. tx_full (snd e)) = (\<Sum>e\<leftarrow>m. tx_full (snd e)) + (\<Sum>t\<leftarrow>ts. tx_full t) \<and>
      (\<Sum>e\<leftarrow>m'. tx_amount (snd e)) = (\<Sum>e\<leftarrow>m. tx_amount (snd e)) + (\<Sum>t\<leftarrow>ts. tx_amount t)"
  using assms(3-)
proof (induction ts arbitrary: m)
  case (Cons tx ts)
  have rest: "0 \<le> (\<Sum>t\<leftarrow>ts. tx_full t)"
    using Cons.prems(1) tax_ok_nonneg by (intro sum_list_nonneg) auto
  show ?case
  proof (cases "obj_get m (tx_percent tx)")
    case None
    let ?m = "obj_set (tx_percent tx, tx) m"
    have sums: "(\<Sum>e\<leftarrow>?m. g (snd e)) = (\<Sum>e\<leftarrow>m. g (snd e)) + g tx" for g :: "tax \<Rightarrow> rat"
      using sum_list_upsert_new [of fst m "(tx_percent tx, tx)" "\<lambda>e. g (snd e)"] None by simp
    have "\<forall>e \<in> set ?m. tax_ok (snd e)" using Cons.prems upsert_in by fastforce
    with Cons.IH [of ?m] Cons.prems sums None show ?thesis by (simp add: algebra_simps)
  next
    case (Some e)
    obtain k old where e: "e = (k, old)" by fastforce
    with Some have old: "(k, old) \<in> set m" "k = tx_percent tx" by (auto dest: by_key_in)
    have all: "\<forall>x \<in> set (map (\<lambda>e. tx_full (snd e)) m). 0 \<le> x"
      using Cons.prems(2) tax_ok_nonneg by auto
    have "tx_full old \<le> (\<Sum>e\<leftarrow>m. tx_full (snd e))"
      using member_le_sum_list [of "tx_full old" "map (\<lambda>e. tx_full (snd e)) m"] old all by force
    with Cons.prems rest have "tx_full old + tx_full tx \<le> M" by simp
    then obtain c where c: "mergeTaxes B [old, tx] = Inr c" "tax_ok c"
      "tx_full c = tx_full old + tx_full tx" "tx_amount c = tx_amount old + tx_amount tx"
      using mergeTaxes_two [OF B, of old tx] Cons.prems old by fastforce
    let ?m = "obj_set (tx_percent tx, c) m"
    have sums: "(\<Sum>e\<leftarrow>?m. g (snd e)) = (\<Sum>e\<leftarrow>m. g (snd e)) - g old + g c"
      for g :: "tax \<Rightarrow> rat"
      using sum_list_upsert_old [of fst m "(tx_percent tx, c)" "(k, old)" "\<lambda>e. g (snd e)"] Some e
      by simp
    have "\<forall>e \<in> set ?m. tax_ok (snd e)" using Cons.prems c upsert_in by fastforce
    with Cons.IH [of ?m] Cons.prems sums c Some e show ?thesis by (simp add: algebra_simps)
  qed
qed simp

text \<open>
  C28: \<open>mergeTaxesByPercent\<close> loses no money: for consistent tax records whose total stays in the
  range where doubles keep four decimals it returns (never a division by zero), every merged record
  is consistent again, and the sums of the full amounts and of the tax amounts are those of the
  input.
\<close>

theorem mergeTaxesByPercent_preserves_totals:
  assumes "bigjs_ok B" and "num_exact B M"
    and "\<forall>t \<in> set taxes. tax_ok t" and "(\<Sum>t\<leftarrow>taxes. tx_full t) \<le> M"
  shows "\<exists>merged. mergeTaxesByPercent B taxes = Inr merged \<and> (\<forall>t \<in> set merged. tax_ok t) \<and>
    (\<Sum>t\<leftarrow>merged. tx_full t) = (\<Sum>t\<leftarrow>taxes. tx_full t) \<and>
    (\<Sum>t\<leftarrow>merged. tx_amount t) = (\<Sum>t\<leftarrow>taxes. tx_amount t)"
proof -
  from mergeTaxesByPercent_loop [OF assms(1,2), of taxes "[]"] assms(3,4)
  obtain m' where m': "arrayConditionCirculation taxes tx_percent
       (\<lambda>tx key m. case obj_get m key of
            Some (_, old) \<Rightarrow> bindE (mergeTaxes B [old, tx]) (\<lambda>merged. Inr (obj_set (key, merged) m))
          | None \<Rightarrow> Inr (obj_set (key, tx) m)) = Inr m'"
      "\<forall>e \<in> set m'. tax_ok (snd e)"
      "(\<Sum>e\<leftarrow>m'. tx_full (snd e)) = (\<Sum>t\<leftarrow>taxes. tx_full t)"
      "(\<Sum>e\<leftarrow>m'. tx_amount (snd e)) = (\<Sum>t\<leftarrow>taxes. tx_amount t)"
    by (auto simp: arrayConditionCirculation_def)
  then show ?thesis
    using sum_number_keys_order [of "\<lambda>e. tx_full (snd e)" m']
      sum_number_keys_order [of "\<lambda>e. tx_amount (snd e)" m']
    by (auto simp: mergeTaxesByPercent_def o_def)
qed

abbreviation sample_tax :: "rat \<Rightarrow> rat \<Rightarrow> rat \<Rightarrow> tax" where
  "sample_tax p f t \<equiv>
     \<lparr>tx_name = ''KDV'', tx_full = f, tx_percent = p, tx_amount = t, tx_untax = f - t\<rparr>"

theorem mergeTaxesByPercent_preserves_totals_witness:
  "\<exists>merged. mergeTaxesByPercent exact_bigjs [sample_tax 20 120 20, sample_tax 1 101 1, sample_tax 20 60 10]
       = Inr merged \<and> (\<forall>t \<in> set merged. tax_ok t) \<and>
    (\<Sum>t\<leftarrow>merged. tx_full t) = 281 \<and> (\<Sum>t\<leftarrow>merged. tx_amount t) = 31"
  using mergeTaxesByPercent_preserves_totals [of exact_bigjs 1000
      "[sample_tax 20 120 20, sample_tax 1 101 1, sample_tax 20 60 10]"]
  by (simp add: tax_ok_def dec_def)

end
