(* ===== verification/Return_Url.thy ===== *)
theory Return_Url
  imports Decimal_Text
begin

text \<open>
  \<open>util/payment-return-url.util.ts\<close>: which frontend addresses a browser may be sent back to. The
  WHATWG \<open>URL\<close> class is the platform's: its parser and \<open>searchParams.set\<close> are the parameter
  \<open>url_api\<close>. Strings are UTF-8 byte sequences, so \<open>encodeURIComponent\<close> works byte by byte.
\<close>

section \<open>URLs\<close>

record url =
  u_protocol :: string
  u_username :: string
  u_password :: string
  u_origin :: string
  u_pathname :: string
  u_search :: string
  u_hash :: string
  u_href :: string

text \<open>
  \<open>new URL(s)\<close> (\<open>None\<close> when it throws), \<open>new URL(s, base)\<close> and \<open>url.searchParams.set(key, value)\<close>.
\<close>

record url_api =
  url_parse :: "string \<Rightarrow> url option"
  url_parse_base :: "string \<Rightarrow> string \<Rightarrow> url option"
  url_set_param :: "url \<Rightarrow> string \<Rightarrow> string \<Rightarrow> url"

section \<open>encodeURIComponent\<close>

definition hex_digit :: "nat \<Rightarrow> char" where
  "hex_digit n = (if n < 10 then char_of (48 + n) else char_of (55 + n))"

definition uri_unreserved :: "char \<Rightarrow> bool" where
  "uri_unreserved c \<longleftrightarrow> (let n = (of_char c :: nat) in
     48 \<le> n \<and> n \<le> 57 \<or> 65 \<le> n \<and> n \<le> 90 \<or> 97 \<le> n \<and> n \<le> 122 \<or>
     c \<in> {CHR ''-'', CHR ''_'', CHR ''.'', CHR ''!'', CHR ''~'', CHR ''*'', CHR 0x27, CHR ''('', CHR '')''})"

definition encode_byte :: "char \<Rightarrow> string" where
  "encode_byte c =
     (if uri_unreserved c then [c]
      else [CHR ''%'', hex_digit (of_char c div 16), hex_digit (of_char c mod 16)])"

definition encodeURIComponent :: "string \<Rightarrow> string" where
  "encodeURIComponent s = concat (map encode_byte s)"

lemma of_char_hex: "n < 16 \<Longrightarrow> of_char (hex_digit n) = (if n < 10 then 48 + n else 55 + n)"
  by (simp add: hex_digit_def)

lemma hex_digit_inj:
  assumes "m < 16" "n < 16" "hex_digit m = hex_digit n"
  shows "m = n"
proof -
  have "(of_char (hex_digit m) :: nat) = of_char (hex_digit n)" by (simp only: assms(3))
  then show ?thesis using assms(1,2) unfolding of_char_hex [OF assms(1)] of_char_hex [OF assms(2)]
    by (simp split: if_splits)
qed

lemma high_digit: "(of_char (c :: char) :: nat) div 16 < 16"
  by (rule less_mult_imp_div_less) simp

lemma percent_reserved: "\<not> uri_unreserved (CHR ''%'')"
  by (simp add: uri_unreserved_def)

lemma encode_byte_Nil [simp]: "encode_byte c \<noteq> []"
  by (simp add: encode_byte_def)

text \<open>The encoding of a byte can be read off the front of an encoded string.\<close>

lemma encode_byte_prefix:
  assumes "encode_byte c @ s = encode_byte d @ t"
  shows "c = d \<and> s = t"
proof (cases "uri_unreserved c")
  case True
  with assms percent_reserved show ?thesis by (auto simp: encode_byte_def split: if_splits)
next
  case False
  show ?thesis
  proof (cases "uri_unreserved d")
    case True
    with False assms percent_reserved show ?thesis by (auto simp: encode_byte_def)
  next
    case d: False
    let ?m = "of_char c :: nat" and ?n = "of_char d :: nat"
    from False d assms have h: "hex_digit (?m div 16) = hex_digit (?n div 16)"
      "hex_digit (?m mod 16) = hex_digit (?n mod 16)" "s = t" by (auto simp: encode_byte_def)
    have b: "?m div 16 < 16" "?n div 16 < 16" by (rule high_digit)+
    have "?m div 16 = ?n div 16" by (rule hex_digit_inj [OF b h(1)])
    moreover have "?m mod 16 = ?n mod 16" by (rule hex_digit_inj [OF _ _ h(2)]) simp_all
    ultimately have "?m = ?n" by (metis div_mult_mod_eq)
    then have "c = d" by (metis char_of_char)
    with h(3) show ?thesis by simp
  qed
qed

lemma encode_byte_safe:
  assumes "x \<in> set (encode_byte c)"
  shows "uri_unreserved x \<or> x = CHR ''%''"
proof (cases "uri_unreserved c")
  case False
  have hex: "uri_unreserved (hex_digit n)" if "n < 16" for n
    using of_char_hex [OF that] that by (auto simp: uri_unreserved_def Let_def split: if_splits)
  have "(of_char c :: nat) div 16 < 16" by (rule high_digit)
  with False assms hex show ?thesis by (auto simp: encode_byte_def)
qed (use assms in \<open>simp add: encode_byte_def\<close>)

section \<open>The validation of return addresses\<close>

definition MAX_RETURN_URL_LENGTH :: nat where
  "MAX_RETURN_URL_LENGTH = 2048"

definition MAX_RETURN_ORIGINS :: nat where
  "MAX_RETURN_ORIGINS = 50"

definition publicApiPath :: "string option \<Rightarrow> string" where
  "publicApiPath setting =
     (let path = (if falsy setting then ''/service/payment/api/'' else nullish setting [])
      in if last path = CHR ''/'' then path else path @ ''/'')"

definition parseHttpUrl :: "url_api \<Rightarrow> string \<Rightarrow> url option" where
  "parseHttpUrl U value =
     (case url_parse U value of
        None \<Rightarrow> None
      | Some url \<Rightarrow>
          if u_protocol url \<notin> {''http:'', ''https:''} \<or> u_username url \<noteq> [] \<or> u_password url \<noteq> []
          then None else Some url)"

text \<open>An entry of the list is \<open>None\<close> when it is not a string.\<close>

definition normalize_origin :: "url_api \<Rightarrow> string list \<Rightarrow> string option \<Rightarrow> string list res" where
  "normalize_origin U origins value =
     (case (case value of None \<Rightarrow> None | Some v \<Rightarrow> parseHttpUrl U (trim v)) of
        None \<Rightarrow> Inl (BadRequest ''Invalid return origin'')
      | Some url \<Rightarrow>
          if u_pathname url \<noteq> ''/'' \<or> u_search url \<noteq> [] \<or> u_hash url \<noteq> []
          then Inl (BadRequest ''Invalid return origin'')
          else Inr (if u_origin url \<in> set origins then origins else origins @ [u_origin url]))"

definition normalizeReturnOrigins :: "url_api \<Rightarrow> string option list option \<Rightarrow> string list res" where
  "normalizeReturnOrigins U input =
     (case input of
        None \<Rightarrow> Inr []
      | Some values \<Rightarrow>
          if MAX_RETURN_ORIGINS < length values
          then Inl (BadRequest ''Allowed return origins must be a list of at most 50 items'')
          else foldE (normalize_origin U) [] values)"

definition validateReturnUrl ::
  "url_api \<Rightarrow> bool \<Rightarrow> string option \<Rightarrow> string list option \<Rightarrow> string res"
where
  "validateReturnUrl U production value allowedOrigins =
     (if falsy value \<or> MAX_RETURN_URL_LENGTH < length (nullish value [])
      then Inl (BadRequest ''Invalid redirectUrl'')
      else case parseHttpUrl U (nullish value []) of
        None \<Rightarrow> Inl (BadRequest ''redirectUrl must be an absolute http(s) URL without credentials'')
      | Some url \<Rightarrow>
          if production \<and> nullish allowedOrigins [] = []
          then Inl (BadRequest ''Allowed return origins are not configured'')
          else if production \<and> u_origin url \<notin> set (nullish allowedOrigins [])
          then Inl (BadRequest ''redirectUrl origin is not allowed'')
          else Inr (u_href url))"

definition operationReturnPath :: "string option \<Rightarrow> string \<Rightarrow> string" where
  "operationReturnPath setting operationRecordId =
     publicApiPath setting @ ''payment/operation/'' @ encodeURIComponent operationRecordId @ ''/return''"

text \<open>The pattern \<open>^[a-z][a-z\d+.-]*:\<close>, case-insensitive.\<close>

definition is_alpha :: "char \<Rightarrow> bool" where
  "is_alpha c \<longleftrightarrow> (let n = (of_char c :: nat) in 65 \<le> n \<and> n \<le> 90 \<or> 97 \<le> n \<and> n \<le> 122)"

definition has_scheme :: "string \<Rightarrow> bool" where
  "has_scheme s \<longleftrightarrow> (case s of [] \<Rightarrow> False | c # cs \<Rightarrow> is_alpha c \<and>
     (case dropWhile (\<lambda>c. is_alpha c \<or> is_digit c \<or> c \<in> {CHR ''+'', CHR ''.'', CHR ''-''}) cs of
        [] \<Rightarrow> False | d # _ \<Rightarrow> d = CHR '':''))"

definition invalid_url :: "'a res" where
  "invalid_url = Inl (JsError ''TypeError: Invalid URL'')"

definition withChannelReturnUrl :: "url_api \<Rightarrow> string option \<Rightarrow> string \<Rightarrow> string \<Rightarrow> string res" where
  "withChannelReturnUrl U setting channelRedirectUrl returnUrl =
     (let absolute = has_scheme channelRedirectUrl;
          source = (if absolute \<or> take 1 channelRedirectUrl = ''/'' then channelRedirectUrl
                    else publicApiPath setting @ channelRedirectUrl)
      in case url_parse_base U source ''http://postral.invalid'' of
           None \<Rightarrow> invalid_url
         | Some url \<Rightarrow>
             let url' = url_set_param U url ''redirectUrl'' returnUrl
             in Inr (if absolute then u_href url' else u_pathname url' @ u_search url' @ u_hash url'))"

definition appendReturnParams :: "url_api \<Rightarrow> string \<Rightarrow> (string \<times> string) list \<Rightarrow> string res" where
  "appendReturnParams U returnUrl params =
     (case url_parse U returnUrl of
        None \<Rightarrow> invalid_url
      | Some url \<Rightarrow> Inr (u_href (foldl (\<lambda>u (k, v). url_set_param U u k v) url params)))"

section \<open>Properties\<close>



definition sample_url :: url where
  "sample_url = \<lparr>u_protocol = ''https:'', u_username = [], u_password = [],
     u_origin = ''https://shop.example'', u_pathname = ''/done'', u_search = [], u_hash = [],
     u_href = ''https://shop.example/done''\<rparr>"

definition sample_urls :: url_api where
  "sample_urls = \<lparr>url_parse = (\<lambda>s. if s = u_href sample_url then Some sample_url else None),
     url_parse_base = (\<lambda>s b. None), url_set_param = (\<lambda>u k v. u)\<rparr>"


end
