(* ===== verification/Entities.thy ===== *)
theory Entities
  imports Numbers Return_Url
begin

text \<open>
  The database of the payment core: the entities of \<open>libs/postral-entities/src/entity\<close> as records
  (one field per column; a nullable column is an option; a relation is the id column that carries
  it), the money columns' transformer, and the store that holds one list of rows per table.
  Timestamps are milliseconds.
\<close>

section \<open>Enumerations\<close>

datatype payment_type = PURCHASE | REFUND

datatype payment_status = PS_INITIATED | PS_WAITING | PS_COMPLETED | PS_FAILED

datatype payment_error = PE_FAILED | PE_CANCELLED | PE_EXPIRED

text \<open>
  \<open>PaymentOperationStatus\<close>; a channel's reply may carry any other text, which the services that
  check for it refuse.
\<close>

datatype operation_status = OS_WAITING | OS_READY | OS_COMPLETED | OS_FAILED | OS_OTHER string

datatype debit_from = SELLER | PLATFORM

datatype refund_status = RR_PENDING | RR_APPROVED | RR_REJECTED

datatype seller_order_type = CREDIT_TO_SELLER | DEBIT_FROM_SELLER

datatype direction = DEBIT | CREDIT

datatype account_type = INDIVIDUAL | COMMERCIAL

section \<open>Money columns\<close>

text \<open>
  \<open>MoneyDbField\<close>: a column \<open>decimal(19,4)\<close> is written with \<open>toFixed(4)\<close> (round half away from
  zero) and read back as a number.
\<close>

definition money :: "bigjs \<Rightarrow> rat \<Rightarrow> rat" where
  "money B v = big_num B (big_round B 4 1 v)"

lemma money_exact:
  "bigjs_ok B \<Longrightarrow> num_exact B M \<Longrightarrow> dec4 x \<Longrightarrow> \<bar>x\<bar> \<le> M \<Longrightarrow> money B x = x"
  by (simp add: money_def big_round_ok round_dec_id num_exactD)

lemma money_absorbs:
  assumes "bigjs_ok B" "num_exact B M" "dec4 d" "\<bar>d\<bar> \<le> M" "\<bar>x - d\<bar> < 1 / 20000"
  shows "money B x = d"
  using assms round_half_absorbs [of 4 d x] by (simp add: money_def big_round_ok num_exactD)

lemma money_exact_bigjs [simp]: "money exact_bigjs x = round_dp 4 1 x"
  by (simp add: money_def)

section \<open>Payments\<close>

record payment_row =
  p_id :: string
  p_billingCode :: "string option"
  p_type :: payment_type
  p_note :: "string option"
  p_totalAmount :: rat
  p_taxAmount :: rat
  p_currency :: string
  p_customerAccountId :: "string option"
  p_billingAddressId :: "string option"
  p_customerSnapshotAddressId :: "string option"
  p_customerSnapshotAccountId :: "string option"
  p_paymentStatus :: payment_status
  p_errorStatus :: "payment_error option"
  p_paymentChannelId :: "string option"
  p_paymentChannelOperationId :: "string option"
  p_paymentChannelOperationUrl :: "string option"
  p_channelUrlExpiryDate :: "nat option"
  p_createdAt :: nat
  p_updatedAt :: nat
  p_refundRequestId :: "string option"
  p_refundApprovalToken :: "string option"
  p_refundApprovalExpiresAt :: "nat option"
  p_includeInReportDigestion :: bool
  p_openPayment :: bool
  p_externalPlatformId :: "string option"
  p_externalPlatformOrderId :: "string option"
  p_activeSessionId :: "string option"
  p_failOnPaymentChannelFailure :: bool

record item_row =
  i_id :: string
  i_originalPaymentItemId :: "string option"
  i_itemId :: string
  i_entityGroup :: "string option"
  i_entityName :: "string option"
  i_entityId :: "string option"
  i_isPhysical :: bool
  i_metaEntityGroup :: "string option"
  i_metaEntityName :: "string option"
  i_metaEntityId :: "string option"
  i_variation :: string
  i_name :: string
  i_note :: "string option"
  i_quantity :: rat
  i_totalAmount :: rat
  i_originalUnitAmount :: rat
  i_unitAmount :: rat
  i_taxPercent :: rat
  i_taxAmount :: rat
  i_unTaxAmount :: rat
  i_paymentId :: string
  i_sellerAccountId :: "string option"
  i_sellerSnapshotAccountId :: "string option"
  i_sellerSnapshotAddressId :: "string option"
  i_unit :: string
  i_refunded :: bool
  i_refundCount :: rat
  i_refundPaymentId :: "string option"
  i_refundDate :: "nat option"
  i_itemClass :: string
  i_appComissionAmount :: rat
  i_appComissionPercent :: rat
  i_paymentServiceFeeAmount :: rat
  i_paymentServiceFeePercent :: rat

text \<open>\<open>new PostralPaymentItem()\<close>: the initialisers of the class.\<close>

definition new_item :: item_row where
  "new_item =
     \<lparr>i_id = [], i_originalPaymentItemId = None, i_itemId = [], i_entityGroup = None,
      i_entityName = None, i_entityId = None, i_isPhysical = False, i_metaEntityGroup = None,
      i_metaEntityName = None, i_metaEntityId = None, i_variation = [], i_name = [],
      i_note = None, i_quantity = 0, i_totalAmount = 0, i_originalUnitAmount = 0,
      i_unitAmount = 0, i_taxPercent = 0, i_taxAmount = 0, i_unTaxAmount = 0, i_paymentId = [],
      i_sellerAccountId = None, i_sellerSnapshotAccountId = None,
      i_sellerSnapshotAddressId = None, i_unit = [], i_refunded = False, i_refundCount = 0,
      i_refundPaymentId = None, i_refundDate = None, i_itemClass = [], i_appComissionAmount = 0,
      i_appComissionPercent = 0, i_paymentServiceFeeAmount = 0, i_paymentServiceFeePercent = 0\<rparr>"

record payment_tax_row =
  pt_id :: string
  pt_taxAmount :: rat
  pt_untaxAmount :: rat
  pt_fullAmount :: rat
  pt_percent :: rat
  pt_paymentId :: string

section \<open>Channel operations and the plans of refunds\<close>

text \<open>
  \<open>RefundChannelLine\<close> and \<open>RefundChannelPlan\<close>
  (\<open>payment-common/src/dto/refund-channel-plan.dto.ts\<close>): the captured channel operation a refund
  goes back to, and for every payment item the refund amount in the ledger (\<open>nominal\<close>) and the
  amount the provider pays back, both as text.
\<close>

record refund_line =
  rl_originalPaymentItemId :: string
  rl_nominalAmount :: string
  rl_providerAmount :: string

record refund_plan =
  rp_originalOperationId :: string
  rp_originalChannelOperationId :: string
  rp_channelData :: "(string \<times> string) list option"
  rp_roundingAccountId :: "string option"
  rp_lines :: "refund_line list"

record channel_operation_row =
  op_id :: string
  op_paymentChannelId :: string
  op_operationId :: "string option"
  op_redirectUrl :: string
  op_returnUrl :: "string option"
  op_amount :: rat
  op_operationType :: payment_type
  op_currency :: string
  op_status :: operation_status
  op_paymentId :: string
  op_originalOperationId :: "string option"
  op_refundPlan :: "refund_plan option"
  op_settledRefundItemIds :: "string list option"
  op_createdAt :: nat
  op_updatedAt :: nat
  op_providerFee :: rat
  op_providerFeeDebitFrom :: debit_from
  op_feeCutInstantly :: bool

text \<open>\<open>new PaymentChannelOperation()\<close>: the initialisers of the class.\<close>

definition new_operation :: "nat \<Rightarrow> channel_operation_row" where
  "new_operation now =
     \<lparr>op_id = [], op_paymentChannelId = [], op_operationId = None, op_redirectUrl = [],
      op_returnUrl = None, op_amount = 0, op_operationType = PURCHASE, op_currency = [],
      op_status = OS_WAITING, op_paymentId = [], op_originalOperationId = None,
      op_refundPlan = None, op_settledRefundItemIds = None, op_createdAt = now,
      op_updatedAt = now, op_providerFee = 0, op_providerFeeDebitFrom = PLATFORM,
      op_feeCutInstantly = False\<rparr>"

section \<open>Refund requests\<close>

datatype refund_reason_key =
    DAMAGED | DEFECTIVE | WRONG_ITEM | MISSING_PARTS | NOT_AS_DESCRIBED | CHANGED_MIND
  | OTHER | UNKNOWN_REASON string

record refund_request_item_row =
  ri_id :: string
  ri_refundRequestId :: string
  ri_variation :: string
  ri_paymentItemId :: string
  ri_realItemId :: string
  ri_refundCount :: rat
  ri_itemName :: "string option"
  ri_unitAmount :: "rat option"
  ri_unitAmountWithoutTax :: "rat option"
  ri_refundAmount :: rat
  ri_refundAmountWithoutTax :: rat
  ri_refundTaxAmount :: "rat option"
  ri_itemClass :: string
  ri_appComissionAmount :: rat
  ri_appComissionPercent :: rat

record refund_request_row =
  rr_id :: string
  rr_idempotencyKey :: "string option"
  rr_channelRefundPlan :: "refund_plan list option"
  rr_paymentId :: string
  rr_status :: refund_status
  rr_items :: "refund_request_item_row list"
  rr_requestedByAccountId :: string
  rr_requestedByPaymentAccountId :: "string option"
  rr_requestedToPaymentAccountId :: "string option"
  rr_currency :: "string option"
  rr_reasonKeys :: "refund_reason_key list option"
  rr_requestNote :: "string option"
  rr_resolutionNote :: "string option"
  rr_resolvedByAccountId :: "string option"
  rr_createdAt :: nat
  rr_updatedAt :: nat

section \<open>Seller orders and account transactions\<close>

record seller_order_row =
  so_id :: string
  so_amount :: rat
  so_taxAmount :: rat
  so_untaxedAmount :: rat
  so_currency :: string
  so_paymentId :: string
  so_targetAccountId :: string
  so_sourceAccountId :: string
  so_billingAddressId :: "string option"
  so_paymentStatus :: payment_status
  so_errorStatus :: "payment_error option"
  so_invoiceCount :: int
  so_hasFinalizedInvoice :: bool
  so_openPayment :: bool
  so_sellerOrderType :: seller_order_type
  so_createdAt :: nat
  so_updatedAt :: nat
  so_lastOperationDate :: nat
  so_operationNote :: string
  so_description :: string
  so_customerSnapshotAddressId :: "string option"
  so_customerSnapshotAccountId :: "string option"
  so_sellerSnapshotAddressId :: "string option"
  so_sellerSnapshotAccountId :: "string option"

record account_transaction_row =
  tr_id :: string
  tr_corelationId :: string
  tr_accountId :: string
  tr_accountName :: string
  tr_paymentId :: string
  tr_paymentSellerOrderId :: "string option"
  tr_roundingOperationId :: "string option"
  tr_type :: direction
  tr_status :: payment_status
  tr_amount :: rat
  tr_taxAmount :: rat
  tr_creationDate :: nat
  tr_updateDate :: nat
  tr_operationNote :: string
  tr_description :: string

section \<open>Accounts and settings\<close>

record account_row =
  a_id :: string
  a_name :: string
  a_phone :: "string option"
  a_website :: "string option"
  a_contactName :: "string option"
  a_legalIdentity :: string
  a_type :: account_type
  a_isExternal :: bool
  a_defaultAddressId :: "string option"
  a_deactivated :: bool
  a_bankName :: "string option"
  a_bankIban :: "string option"
  a_bankBic :: "string option"
  a_bankSwift :: "string option"
  a_taxOffice :: "string option"
  a_emailAddress :: "string option"
  a_createdAt :: nat
  a_updatedAt :: nat
  a_externalPlatformId :: "string option"
  a_externalPlatformAccountId :: "string option"

text \<open>\<open>comissionItemTax\<close> is the tax row the id column refers to: the rates of its variations.\<close>

record admin_settings =
  as_sellerPaysPaymentServiceFee :: bool
  as_comissionsCalculatedFromNet :: bool
  as_comissionItemTax :: "rat list option"
  as_billingAccountId :: "string option"
  as_billingDays :: "nat list option"
  as_allowedReturnOrigins :: "string list option"

section \<open>What the channels exchange with the core\<close>

text \<open>
  The payload of an initialisation: the payment with its items, what is to be captured, and for a
  refund the operation it gives back.
\<close>

record channel_init =
  ci_channelId :: string
  ci_payment :: payment_row
  ci_items :: "item_row list"
  ci_paidAmount :: rat
  ci_currency :: string
  ci_originalChannelOperationId :: "string option"
  ci_refundOperationId :: "string option"
  ci_refundPlan :: "refund_plan option"

record refund_settlement =
  rs_originalPaymentItemId :: string
  rs_providerAmount :: string

record channel_status =
  cs_paymentChannelId :: "string option"
  cs_paymentChannelOperationId :: "string option"
  cs_paymentStatus :: operation_status
  cs_redirectUrl :: "string option"
  cs_providerFee :: "rat option"
  cs_feeCutInstantly :: "bool option"
  cs_refundSettlements :: "refund_settlement list option"

record refund_capture =
  rc_originalOperationId :: string
  rc_originalChannelOperationId :: "string option"
  rc_paymentChannelId :: string
  rc_amount :: rat

record prepare_refund =
  pr_purchasePaymentId :: string
  pr_purchaseAmount :: rat
  pr_currency :: string
  pr_captures :: "refund_capture list"
  pr_items :: "(string \<times> string) list"

text \<open>The messages and events the core sends, in the order it sends them.\<close>

datatype event =
    EvInit channel_init
  | EvStatusCheck string "string option"
  | EvCancel string "string option"
  | EvFire string "string option"
  | EvPrepare string prepare_refund
  | EvPaymentInitialized string
  | EvPaymentStream string payment_status
  | EvPaymentCompleted string
  | EvDigestionInsert string
  | EvWebhook string string

section \<open>The store and the environment\<close>

record store =
  st_payments :: "payment_row list"
  st_items :: "item_row list"
  st_taxes :: "payment_tax_row list"
  st_operations :: "channel_operation_row list"
  st_refundRequests :: "refund_request_row list"
  st_orders :: "seller_order_row list"
  st_transactions :: "account_transaction_row list"
  st_accounts :: "account_row list"
  st_addresses :: "string list"
  st_settings :: admin_settings
  st_log :: "event list"
  st_seq :: nat

text \<open>
  What the core is given: the arithmetic, the identifiers the database and \<open>uuid\<close> draw (the
  \<open>n\<close>-th is \<open>env_uuid n\<close>), the clock (one reading per operation), the platform's URL class, the
  process environment (\<open>PAYMENT_EXPIRE_MS\<close> as \<open>parseInt\<close> reads it), and the channels' replies, which may depend on everything
  sent before.
\<close>

record env =
  env_big :: bigjs
  env_uuid :: "nat \<Rightarrow> string"
  env_now :: nat
  env_url :: url_api
  env_production :: bool
  env_public_path :: "string option"
  env_expire_ms :: "int option"
  env_channel_init :: "event list \<Rightarrow> channel_init \<Rightarrow> channel_status res"
  env_channel_status :: "event list \<Rightarrow> string \<Rightarrow> string option \<Rightarrow> channel_status res"
  env_channel_cancel :: "event list \<Rightarrow> string \<Rightarrow> string option \<Rightarrow> channel_status res"
  env_channel_fire :: "event list \<Rightarrow> string \<Rightarrow> string option \<Rightarrow> channel_status res"
  env_channel_prepare :: "event list \<Rightarrow> string \<Rightarrow> prepare_refund \<Rightarrow> refund_plan list res"

definition newId :: "env \<Rightarrow> (store, string) act" where
  "newId E s = (s\<lparr>st_seq := Suc (st_seq s)\<rparr>, Inr (env_uuid E (st_seq s)))"

definition emit :: "event \<Rightarrow> (store, unit) act" where
  "emit e = modifyS (\<lambda>s. s\<lparr>st_log := st_log s @ [e]\<rparr>)"

text \<open>Send a message and wait for its reply.\<close>

definition request :: "event \<Rightarrow> (event list \<Rightarrow> 'a res) \<Rightarrow> (store, 'a) act" where
  "request e reply s = (s\<lparr>st_log := st_log s @ [e]\<rparr>, reply (st_log s))"

section \<open>Saving rows\<close>

text \<open>\<open>repository.save\<close>: the money columns pass through their transformer.\<close>

definition payment_columns :: "bigjs \<Rightarrow> payment_row \<Rightarrow> payment_row" where
  "payment_columns B p =
     p\<lparr>p_totalAmount := money B (p_totalAmount p), p_taxAmount := money B (p_taxAmount p)\<rparr>"

definition save_payment :: "bigjs \<Rightarrow> payment_row \<Rightarrow> store \<Rightarrow> store" where
  "save_payment B p s = s\<lparr>st_payments := upsert p_id (payment_columns B p) (st_payments s)\<rparr>"

definition find_payment :: "store \<Rightarrow> string \<Rightarrow> payment_row option" where
  "find_payment s = by_key p_id (st_payments s)"

definition item_columns :: "bigjs \<Rightarrow> item_row \<Rightarrow> item_row" where
  "item_columns B i =
     i\<lparr>i_quantity := money B (i_quantity i), i_totalAmount := money B (i_totalAmount i),
       i_originalUnitAmount := money B (i_originalUnitAmount i),
       i_unitAmount := money B (i_unitAmount i), i_taxPercent := money B (i_taxPercent i),
       i_taxAmount := money B (i_taxAmount i), i_unTaxAmount := money B (i_unTaxAmount i),
       i_refundCount := money B (i_refundCount i),
       i_appComissionAmount := money B (i_appComissionAmount i),
       i_appComissionPercent := money B (i_appComissionPercent i),
       i_paymentServiceFeeAmount := money B (i_paymentServiceFeeAmount i),
       i_paymentServiceFeePercent := money B (i_paymentServiceFeePercent i)\<rparr>"

definition save_item :: "bigjs \<Rightarrow> item_row \<Rightarrow> store \<Rightarrow> store" where
  "save_item B i s = s\<lparr>st_items := upsert i_id (item_columns B i) (st_items s)\<rparr>"

definition items_of :: "store \<Rightarrow> string \<Rightarrow> item_row list" where
  "items_of s pid = filter (\<lambda>i. i_paymentId i = pid) (st_items s)"

definition operation_columns :: "bigjs \<Rightarrow> channel_operation_row \<Rightarrow> channel_operation_row" where
  "operation_columns B r =
     r\<lparr>op_amount := money B (op_amount r), op_providerFee := money B (op_providerFee r)\<rparr>"

definition save_operation :: "bigjs \<Rightarrow> channel_operation_row \<Rightarrow> store \<Rightarrow> store" where
  "save_operation B r s =
     s\<lparr>st_operations := upsert op_id (operation_columns B r) (st_operations s)\<rparr>"

definition find_operation :: "store \<Rightarrow> string \<Rightarrow> channel_operation_row option" where
  "find_operation s = by_key op_id (st_operations s)"

definition order_columns :: "bigjs \<Rightarrow> seller_order_row \<Rightarrow> seller_order_row" where
  "order_columns B r =
     r\<lparr>so_amount := money B (so_amount r), so_taxAmount := money B (so_taxAmount r),
       so_untaxedAmount := money B (so_untaxedAmount r)\<rparr>"

definition save_order :: "bigjs \<Rightarrow> seller_order_row \<Rightarrow> store \<Rightarrow> store" where
  "save_order B r s = s\<lparr>st_orders := upsert so_id (order_columns B r) (st_orders s)\<rparr>"

definition transaction_columns :: "bigjs \<Rightarrow> account_transaction_row \<Rightarrow> account_transaction_row" where
  "transaction_columns B r =
     r\<lparr>tr_amount := money B (tr_amount r), tr_taxAmount := money B (tr_taxAmount r)\<rparr>"

definition save_transaction :: "bigjs \<Rightarrow> account_transaction_row \<Rightarrow> store \<Rightarrow> store" where
  "save_transaction B r s =
     s\<lparr>st_transactions := upsert tr_id (transaction_columns B r) (st_transactions s)\<rparr>"

definition tax_columns :: "bigjs \<Rightarrow> payment_tax_row \<Rightarrow> payment_tax_row" where
  "tax_columns B r =
     r\<lparr>pt_taxAmount := money B (pt_taxAmount r), pt_untaxAmount := money B (pt_untaxAmount r),
       pt_fullAmount := money B (pt_fullAmount r), pt_percent := money B (pt_percent r)\<rparr>"

definition save_tax :: "bigjs \<Rightarrow> payment_tax_row \<Rightarrow> store \<Rightarrow> store" where
  "save_tax B r s = s\<lparr>st_taxes := upsert pt_id (tax_columns B r) (st_taxes s)\<rparr>"

definition save_request :: "refund_request_row \<Rightarrow> store \<Rightarrow> store" where
  "save_request r s = s\<lparr>st_refundRequests := upsert rr_id r (st_refundRequests s)\<rparr>"

definition find_request :: "store \<Rightarrow> string \<Rightarrow> refund_request_row option" where
  "find_request s = by_key rr_id (st_refundRequests s)"

definition find_account :: "store \<Rightarrow> string \<Rightarrow> account_row option" where
  "find_account s = by_key a_id (st_accounts s)"

section \<open>The tables as interfaces\<close>

lemma columns_keys [simp]:
  "p_id (payment_columns B p) = p_id p" "i_id (item_columns B i) = i_id i"
  "op_id (operation_columns B r) = op_id r"
  by (simp_all add: payment_columns_def item_columns_def operation_columns_def)

text \<open>
  A saved entity is found under its id, with its money columns rounded; other rows are untouched.
\<close>

interpretation payments: keyed_table find_payment
    "\<lambda>p s. s\<lparr>st_payments := upsert p_id p (st_payments s)\<rparr>" p_id
  by unfold_locales (simp add: find_payment_def by_key_upsert)

interpretation operations: keyed_table find_operation
    "\<lambda>r s. s\<lparr>st_operations := upsert op_id r (st_operations s)\<rparr>" op_id
  by unfold_locales (simp add: find_operation_def by_key_upsert)

interpretation requests: keyed_table find_request save_request rr_id
  by unfold_locales (simp add: find_request_def save_request_def by_key_upsert)

lemma find_save_payment:
  "find_payment (save_payment B p s) k =
     (if k = p_id p then Some (payment_columns B p) else find_payment s k)"
  using payments.lookup_save [of "payment_columns B p" s k] by (simp add: save_payment_def)

lemma find_save_operation:
  "find_operation (save_operation B r s) k =
     (if k = op_id r then Some (operation_columns B r) else find_operation s k)"
  using operations.lookup_save [of "operation_columns B r" s k] by (simp add: save_operation_def)

lemma find_payment_in: "find_payment s k = Some p \<Longrightarrow> p \<in> set (st_payments s) \<and> p_id p = k"
  by (auto simp: find_payment_def dest: by_key_in)

lemma find_operation_in: "find_operation s k = Some r \<Longrightarrow> r \<in> set (st_operations s) \<and> op_id r = k"
  by (auto simp: find_operation_def dest: by_key_in)

lemma emit_eq [simp]: "emit e s = (t, r) \<longleftrightarrow> t = s\<lparr>st_log := st_log s @ [e]\<rparr> \<and> r = Inr ()"
  by (simp add: emit_def)

lemma request_eq [simp]:
  "request e f s = (t, r) \<longleftrightarrow> t = s\<lparr>st_log := st_log s @ [e]\<rparr> \<and> f (st_log s) = r"
  by (auto simp: request_def)

lemma newId_eq [simp]:
  "newId E s = (t, r) \<longleftrightarrow> t = s\<lparr>st_seq := Suc (st_seq s)\<rparr> \<and> r = Inr (env_uuid E (st_seq s))"
  by (auto simp: newId_def)

lemma preserves_log [preserves]:
  "(\<And>s. P s \<Longrightarrow> P (s\<lparr>st_log := st_log s @ [e]\<rparr>)) \<Longrightarrow> preserves P (emit e)"
  "(\<And>s. P s \<Longrightarrow> P (s\<lparr>st_log := st_log s @ [e]\<rparr>)) \<Longrightarrow> preserves P (request e f)"
  by (auto simp: preserves_def)

lemma preserves_newId [preserves]:
  "(\<And>s. P s \<Longrightarrow> P (s\<lparr>st_seq := Suc (st_seq s)\<rparr>)) \<Longrightarrow> preserves P (newId E)"
  by (auto simp: preserves_def)

text \<open>Saving in one table leaves the others as they are.\<close>

lemma save_other_tables [simp]:
  "st_operations (save_payment B p s) = st_operations s"
  "st_transactions (save_payment B p s) = st_transactions s"
  "st_items (save_payment B p s) = st_items s" "st_orders (save_payment B p s) = st_orders s"
  "st_log (save_payment B p s) = st_log s" "st_seq (save_payment B p s) = st_seq s"
  "st_settings (save_payment B p s) = st_settings s"
  "st_accounts (save_payment B p s) = st_accounts s"
  "st_payments (save_operation B r s) = st_payments s"
  "st_transactions (save_operation B r s) = st_transactions s"
  "st_items (save_operation B r s) = st_items s" "st_orders (save_operation B r s) = st_orders s"
  "st_log (save_operation B r s) = st_log s" "st_seq (save_operation B r s) = st_seq s"
  "st_settings (save_operation B r s) = st_settings s"
  "st_accounts (save_operation B r s) = st_accounts s"
  "st_payments (save_transaction B x s) = st_payments s"
  "st_operations (save_transaction B x s) = st_operations s"
  "st_items (save_transaction B x s) = st_items s" "st_orders (save_transaction B x s) = st_orders s"
  "st_log (save_transaction B x s) = st_log s" "st_seq (save_transaction B x s) = st_seq s"
  "st_settings (save_transaction B x s) = st_settings s"
  "st_accounts (save_transaction B x s) = st_accounts s"
  "st_payments (save_item B i s) = st_payments s"
  "st_operations (save_item B i s) = st_operations s"
  "st_transactions (save_item B i s) = st_transactions s"
  "st_orders (save_item B i s) = st_orders s"
  "st_log (save_item B i s) = st_log s" "st_seq (save_item B i s) = st_seq s"
  "st_settings (save_item B i s) = st_settings s" "st_accounts (save_item B i s) = st_accounts s"
  "st_payments (save_order B d s) = st_payments s"
  "st_operations (save_order B d s) = st_operations s"
  "st_transactions (save_order B d s) = st_transactions s"
  "st_items (save_order B d s) = st_items s"
  "st_log (save_order B d s) = st_log s" "st_seq (save_order B d s) = st_seq s"
  "st_settings (save_order B d s) = st_settings s" "st_accounts (save_order B d s) = st_accounts s"
  by (simp_all add: save_payment_def save_operation_def save_transaction_def save_item_def
      save_order_def)

lemma find_payment_other [simp]:
  "find_payment (s\<lparr>st_log := l\<rparr>) = find_payment s"
  "find_payment (s\<lparr>st_seq := n\<rparr>) = find_payment s"
  "find_payment (save_operation B r s) = find_payment s"
  "find_payment (save_item B i s) = find_payment s"
  "find_payment (save_order B d s) = find_payment s"
  "find_payment (save_transaction B x s) = find_payment s"
  by (simp_all add: find_payment_def fun_eq_iff)

lemma find_operation_other [simp]:
  "find_operation (s\<lparr>st_log := l\<rparr>) = find_operation s"
  "find_operation (s\<lparr>st_seq := n\<rparr>) = find_operation s"
  "find_operation (save_payment B p s) = find_operation s"
  "find_operation (save_item B i s) = find_operation s"
  "find_operation (save_order B d s) = find_operation s"
  "find_operation (save_transaction B x s) = find_operation s"
  by (simp_all add: find_operation_def fun_eq_iff)

section \<open>Sample rows\<close>

text \<open>Concrete rows, a store and an environment for the examples of the other theories.\<close>

definition sample_account :: "string \<Rightarrow> account_row" where
  "sample_account i =
     \<lparr>a_id = i, a_name = ''Account '' @ i, a_phone = None, a_website = None, a_contactName = None,
      a_legalIdentity = ''1'', a_type = COMMERCIAL, a_isExternal = False,
      a_defaultAddressId = Some ''address'', a_deactivated = False, a_bankName = None,
      a_bankIban = None, a_bankBic = None, a_bankSwift = None, a_taxOffice = None,
      a_emailAddress = None, a_createdAt = 0, a_updatedAt = 0, a_externalPlatformId = None,
      a_externalPlatformAccountId = None\<rparr>"

definition sample_settings :: admin_settings where
  "sample_settings =
     \<lparr>as_sellerPaysPaymentServiceFee = False, as_comissionsCalculatedFromNet = False,
      as_comissionItemTax = None, as_billingAccountId = Some ''platform'', as_billingDays = None,
      as_allowedReturnOrigins = None\<rparr>"

definition sample_payment :: "string \<Rightarrow> payment_type \<Rightarrow> payment_status \<Rightarrow> rat \<Rightarrow> payment_row" where
  "sample_payment i ty st amt =
     \<lparr>p_id = i, p_billingCode = None, p_type = ty, p_note = None, p_totalAmount = amt,
      p_taxAmount = 0, p_currency = ''TRY'', p_customerAccountId = Some ''customer'',
      p_billingAddressId = Some ''address'', p_customerSnapshotAddressId = None,
      p_customerSnapshotAccountId = None, p_paymentStatus = st, p_errorStatus = None,
      p_paymentChannelId = None, p_paymentChannelOperationId = None,
      p_paymentChannelOperationUrl = None, p_channelUrlExpiryDate = None, p_createdAt = 0,
      p_updatedAt = 0, p_refundRequestId = None, p_refundApprovalToken = None,
      p_refundApprovalExpiresAt = None, p_includeInReportDigestion = True,
      p_openPayment = False, p_externalPlatformId = None, p_externalPlatformOrderId = None,
      p_activeSessionId = None, p_failOnPaymentChannelFailure = False\<rparr>"

definition sample_item :: "string \<Rightarrow> string \<Rightarrow> string \<Rightarrow> rat \<Rightarrow> item_row" where
  "sample_item i pid seller amt =
     new_item\<lparr>i_id := i, i_paymentId := pid, i_itemId := ''item'', i_name := ''Tea'',
       i_quantity := 2, i_totalAmount := amt, i_unitAmount := amt / 2,
       i_sellerAccountId := Some seller\<rparr>"

definition sample_operation ::
  "string \<Rightarrow> string \<Rightarrow> payment_type \<Rightarrow> operation_status \<Rightarrow> rat \<Rightarrow> channel_operation_row"
where
  "sample_operation i pid ty st amount =
     (new_operation 0)\<lparr>op_id := i, op_paymentChannelId := ''IYZICO'',
       op_operationId := Some (''channel-'' @ i), op_amount := amount, op_operationType := ty,
       op_currency := ''TRY'', op_status := st, op_paymentId := pid\<rparr>"

definition sample_store :: store where
  "sample_store =
     \<lparr>st_payments = [], st_items = [], st_taxes = [], st_operations = [], st_refundRequests = [],
      st_orders = [], st_transactions = [],
      st_accounts = [sample_account ''customer'', sample_account ''seller'', sample_account ''platform''],
      st_addresses = [''address''], st_settings = sample_settings, st_log = [], st_seq = 0\<rparr>"

definition sample_reply :: "operation_status \<Rightarrow> channel_status" where
  "sample_reply st =
     \<lparr>cs_paymentChannelId = Some ''IYZICO'', cs_paymentChannelOperationId = Some ''channel-op'',
      cs_paymentStatus = st, cs_redirectUrl = None, cs_providerFee = None,
      cs_feeCutInstantly = None, cs_refundSettlements = None\<rparr>"

definition sample_env :: "operation_status \<Rightarrow> env" where
  "sample_env st =
     \<lparr>env_big = exact_bigjs, env_uuid = (\<lambda>n. ''u'' @ nat_text n), env_now = 1000,
      env_url = sample_urls, env_production = False, env_public_path = None,
      env_expire_ms = None,
      env_channel_init = (\<lambda>_ _. Inr (sample_reply st)),
      env_channel_status = (\<lambda>_ _ _. Inr (sample_reply st)),
      env_channel_cancel = (\<lambda>_ _ _. Inr (sample_reply st)),
      env_channel_fire = (\<lambda>_ _ _. Inr (sample_reply st)),
      env_channel_prepare = (\<lambda>_ _ _. Inr [])\<rparr>"

lemma sample_env_inj [simp]: "inj (env_uuid (sample_env st))"
  by (auto simp: sample_env_def intro!: injI dest: nat_text_inj)

lemma sample_env_big [simp]: "env_big (sample_env st) = exact_bigjs"
  by (simp add: sample_env_def)

lemmas sample_defs = sample_account_def sample_settings_def sample_payment_def sample_item_def
  sample_operation_def sample_store_def sample_reply_def sample_env_def new_item_def
  new_operation_def

end
