(* ===== verification/Order_Calculation.thy ===== *)
theory Order_Calculation
  imports Entities Tax_Calc
begin

text \<open>
  \<open>order-calculation.service.ts\<close> with the look-ups it makes: the commission rule
  (\<open>app-commission.service.ts\<close>) and the prices (\<open>item-price.service.ts\<close>). \<open>AccountService.fetchOne\<close>
  and \<open>ItemTaxService.fetchOne\<close> are the base class's look-up by id.
\<close>

section \<open>The catalogue\<close>

record catalog_item =
  ct_id :: string
  ct_name :: string
  ct_entityGroup :: string
  ct_entityName :: string
  ct_entityId :: string
  ct_isPhysical :: bool
  ct_metaEntityGroup :: "string option"
  ct_metaEntityName :: "string option"
  ct_metaEntityId :: "string option"
  ct_unit :: string
  ct_itemTaxId :: string
  ct_sellerAccountId :: string
  ct_itemClass :: string

record item_tax =
  it_id :: string
  it_taxName :: string
  it_variations :: "(string \<times> rat) list"

record item_price =
  ip_id :: string
  ip_itemId :: string
  ip_variation :: string
  ip_itemPrice :: rat
  ip_region :: string
  ip_currency :: string
  ip_activityOrder :: int
  ip_activeStartAt :: "nat option"
  ip_activeExpireAt :: "nat option"

record app_comission =
  ac_id :: string
  ac_sellerAccountId :: "string option"
  ac_itemClass :: "string option"
  ac_externalPlatformId :: "string option"
  ac_percent :: rat
  ac_bias :: int

record catalog =
  cat_items :: "catalog_item list"
  cat_taxes :: "item_tax list"
  cat_prices :: "item_price list"
  cat_comissions :: "app_comission list"
  cat_accounts :: "account_row list"
  cat_settings :: admin_settings

section \<open>Choosing by rank\<close>

text \<open>\<open>ORDER BY rank DESC LIMIT 1\<close>: the first row of the highest rank.\<close>

fun first_max :: "('a \<Rightarrow> int) \<Rightarrow> 'a list \<Rightarrow> 'a option" where
  "first_max f [] = None"
| "first_max f (x # xs) =
     (case first_max f xs of None \<Rightarrow> Some x | Some y \<Rightarrow> if f x < f y then Some y else Some x)"

lemma first_max_in: "first_max f xs = Some x \<Longrightarrow> x \<in> set xs"
  by (induction xs) (auto split: option.splits if_splits)

lemma first_max_ge: "first_max f xs = Some x \<Longrightarrow> y \<in> set xs \<Longrightarrow> f y \<le> f x"
proof (induction xs arbitrary: x)
  case (Cons a xs)
  show ?case
  proof (cases "first_max f xs")
    case None
    then have "xs = []" by (cases xs) (auto split: option.splits if_splits)
    with Cons.prems show ?thesis by simp
  next
    case (Some z)
    with Cons show ?thesis by (fastforce split: if_splits)
  qed
qed simp

lemma first_max_None [simp]: "first_max f xs = None \<longleftrightarrow> xs = []"
  by (cases xs) (auto split: option.splits if_splits)

section \<open>AppComissionService\<close>

definition comission_applies :: "string \<Rightarrow> string \<Rightarrow> string option \<Rightarrow> app_comission \<Rightarrow> bool" where
  "comission_applies seller itemClass platform c \<longleftrightarrow>
     (ac_externalPlatformId c = None \<or> truthy platform \<and> ac_externalPlatformId c = platform) \<and>
     (ac_sellerAccountId c = None \<or> seller \<noteq> [] \<and> ac_sellerAccountId c = Some seller) \<and>
     (ac_itemClass c = Some [] \<or> itemClass \<noteq> [] \<and> ac_itemClass c = Some itemClass)"

definition fetchOneForCalculation :: "catalog \<Rightarrow> string \<Rightarrow> string \<Rightarrow> string option \<Rightarrow> rat" where
  "fetchOneForCalculation C seller itemClass platform =
     (case first_max ac_bias (filter (comission_applies seller itemClass platform) (cat_comissions C)) of
        None \<Rightarrow> 0
      | Some c \<Rightarrow> ac_percent c)"

section \<open>ItemPriceService\<close>

definition region_any :: string where
  "region_any = ''any''"

definition price_active :: "nat \<Rightarrow> item_price \<Rightarrow> bool" where
  "price_active now p \<longleftrightarrow>
     (case ip_activeStartAt p of None \<Rightarrow> True | Some t \<Rightarrow> t < now) \<and>
     (case ip_activeExpireAt p of None \<Rightarrow> True | Some t \<Rightarrow> now < t)"

definition allDefaultPrices :: "catalog \<Rightarrow> string \<Rightarrow> string option \<Rightarrow> string \<Rightarrow> item_price list" where
  "allDefaultPrices C itemId variation currency =
     filter (\<lambda>p. ip_itemId p = itemId \<and> (variation = None \<or> variation = Some (ip_variation p)) \<and>
                 ip_region p = region_any \<and> ip_currency p = currency \<and> ip_activityOrder p = 0)
       (cat_prices C)"

definition latest_candidates ::
  "catalog \<Rightarrow> nat \<Rightarrow> string \<Rightarrow> string option \<Rightarrow> string \<Rightarrow> item_price \<Rightarrow> item_price list"
where
  "latest_candidates C now itemId variation currency p =
     filter (\<lambda>q. ip_region p = ip_region q \<and> ip_currency p = ip_currency q \<and>
                 ip_itemId p = ip_itemId q \<and> ip_variation p = ip_variation q \<and>
                 ip_itemId q = itemId \<and>
                 (falsy variation \<or> variation = Some (ip_variation q)) \<and>
                 ip_region q = region_any \<and>
                 (currency = [] \<or> ip_currency q = currency) \<and> price_active now q)
       (cat_prices C)"

definition allLatestPrices ::
  "catalog \<Rightarrow> nat \<Rightarrow> string \<Rightarrow> string option \<Rightarrow> string \<Rightarrow> item_price list"
where
  "allLatestPrices C now itemId variation currency =
     filter (\<lambda>p. map_option ip_id
         (first_max ip_activityOrder (latest_candidates C now itemId variation currency p)) =
         Some (ip_id p)) (cat_prices C)"

section \<open>OrderCalculationService\<close>

record item_input =
  ii_itemId :: "string option"
  ii_note :: "string option"
  ii_entityGroup :: "string option"
  ii_entityName :: "string option"
  ii_entityId :: "string option"
  ii_variation :: "string option"
  ii_quantity :: rat

record calculation =
  ca_items :: "item_row list"
  ca_totalAmount :: rat
  ca_totalTaxAmount :: rat
  ca_taxes :: "tax list"

definition MAX_PAYMENT_NOTE_LENGTH :: nat where
  "MAX_PAYMENT_NOTE_LENGTH = 10000"

definition note_too_long :: "string option \<Rightarrow> bool" where
  "note_too_long n = (case n of None \<Rightarrow> False | Some s \<Rightarrow> MAX_PAYMENT_NOTE_LENGTH < length s)"

definition item_matches :: "item_input \<Rightarrow> catalog_item \<Rightarrow> bool" where
  "item_matches i c =
     (if truthy (ii_itemId i) then ii_itemId i = Some (ct_id c)
      else ii_entityGroup i = Some (ct_entityGroup c) \<and> ii_entityId i = Some (ct_entityId c) \<and>
           ii_entityName i = Some (ct_entityName c))"

definition calculated_row ::
  "item_input \<Rightarrow> catalog_item \<Rightarrow> rat \<Rightarrow> item_price \<Rightarrow> item_price \<Rightarrow> tax \<Rightarrow> rat \<Rightarrow> rat \<Rightarrow>
   rat \<Rightarrow> item_row"
where
  "calculated_row i item taxPercent active standard tax totalAmount comission comissionAmount =
     new_item\<lparr>i_note := ii_note i, i_variation := ip_variation active,
           i_entityGroup := Some (ct_entityGroup item), i_entityId := Some (ct_entityId item),
           i_entityName := Some (ct_entityName item), i_isPhysical := ct_isPhysical item,
           i_metaEntityGroup := ct_metaEntityGroup item,
           i_metaEntityName := ct_metaEntityName item, i_metaEntityId := ct_metaEntityId item,
           i_itemClass := ct_itemClass item, i_totalAmount := totalAmount,
           i_taxPercent := taxPercent, i_itemId := ct_id item,
           i_sellerAccountId := Some (ct_sellerAccountId item),
           i_originalUnitAmount := ip_itemPrice standard, i_unitAmount := ip_itemPrice active,
           i_unit := ct_unit item, i_name := ct_name item, i_taxAmount := tx_amount tax,
           i_unTaxAmount := tx_untax tax, i_quantity := ii_quantity i,
           i_appComissionPercent := comission,
           i_appComissionAmount := comissionAmount\<rparr>"

lemma calculated_row_sel [simp]:
  "i_itemId (calculated_row i c tp a d t tot co ca) = ct_id c"
  "i_unitAmount (calculated_row i c tp a d t tot co ca) = ip_itemPrice a"
  "i_quantity (calculated_row i c tp a d t tot co ca) = ii_quantity i"
  "i_totalAmount (calculated_row i c tp a d t tot co ca) = tot"
  "i_taxPercent (calculated_row i c tp a d t tot co ca) = tp"
  "i_taxAmount (calculated_row i c tp a d t tot co ca) = tx_amount t"
  "i_appComissionPercent (calculated_row i c tp a d t tot co ca) = co"
  by (simp_all add: calculated_row_def)

text \<open>
  The body of the loop for one input, up to the item it appends: every look-up and its exception, in
  the order of the code. A missing price is a \<open>TypeError\<close> (\<open>itemPriceActive[0]\<close> is undefined).
\<close>

definition calculateItem ::
  "bigjs \<Rightarrow> catalog \<Rightarrow> nat \<Rightarrow> string \<Rightarrow> string \<Rightarrow> item_input \<Rightarrow> (item_row \<times> tax) res"
where
  "calculateItem B C now saleMode currency i =
     bindE (throwIf (falsy (ii_itemId i) \<and>
         (falsy (ii_entityGroup i) \<or> falsy (ii_entityId i) \<or> falsy (ii_entityName i)))
       (NotFound ''Item identification is missing for payment init'')) (\<lambda>_.
     bindE (of_option (NotFound ''Item not found for payment init'')
       (List.find (item_matches i) (cat_items C))) (\<lambda>item.
     let comission = fetchOneForCalculation C (ct_sellerAccountId item) (ct_itemClass item) None in
     bindE (of_option (NotFound ''Seller account not found for payment init'')
       (by_key a_id (cat_accounts C) (ct_sellerAccountId item))) (\<lambda>account.
     bindE (throwIf (a_type account \<noteq> COMMERCIAL)
       (NotFound ''seller account is not commercial for payment init'')) (\<lambda>_.
     bindE (of_option (NotFound ''Item tax not found for payment init'')
       (by_key it_id (cat_taxes C) (ct_itemTaxId item))) (\<lambda>itemTax.
     bindE (of_option (NotFound ''Item tax variation not found for sale mode'')
       (map_option snd (List.find (\<lambda>v. fst v = saleMode) (it_variations itemTax)))) (\<lambda>taxPercent.
     bindE (firstE (JsError ''TypeError'')
       (allLatestPrices C now (ct_id item) (ii_variation i) currency)) (\<lambda>active.
     let totalAmount = mulN B [ip_itemPrice active, ii_quantity i] in
     bindE (firstE (JsError ''TypeError'')
       (allDefaultPrices C (ct_id item) (ii_variation i) currency)) (\<lambda>standard.
     bindE (generateTaxDto B (it_taxName itemTax @ '' - '' @ saleMode) totalAmount
       (Some taxPercent) None) (\<lambda>tax.
     bindE (commissionN B (if as_comissionsCalculatedFromNet (cat_settings C)
         then tx_untax tax else totalAmount) comission) (\<lambda>comissionAmount.
     Inr (calculated_row i item taxPercent active standard tax totalAmount comission comissionAmount,
          tax)))))))))))"

definition calculation_step ::
  "bigjs \<Rightarrow> catalog \<Rightarrow> nat \<Rightarrow> string \<Rightarrow> string \<Rightarrow> calculation \<Rightarrow> item_input \<Rightarrow> calculation res"
where
  "calculation_step B C now saleMode currency acc i =
     bindE (calculateItem B C now saleMode currency i) (\<lambda>(item, tax).
     Inr \<lparr>ca_items = ca_items acc @ [item],
          ca_totalAmount = addN B [ca_totalAmount acc, i_totalAmount item],
          ca_totalTaxAmount = addN B [ca_totalTaxAmount acc, tx_amount tax],
          ca_taxes = ca_taxes acc @ [tax]\<rparr>)"

definition calculateTotalAmount ::
  "bigjs \<Rightarrow> catalog \<Rightarrow> nat \<Rightarrow> string \<Rightarrow> string \<Rightarrow> item_input list \<Rightarrow> calculation res"
where
  "calculateTotalAmount B C now saleMode currency items =
     bindE (throwIf (list_ex (\<lambda>i. note_too_long (ii_note i)) items)
       (BadRequest ''Payment notes cannot exceed 10000 characters'')) (\<lambda>_.
     foldE (calculation_step B C now saleMode currency)
       \<lparr>ca_items = [], ca_totalAmount = 0, ca_totalTaxAmount = 0, ca_taxes = []\<rparr> items)"

section \<open>What a calculated item is made of\<close>

lemma calculateItem_InrE:
  assumes "calculateItem B C now saleMode currency i = Inr (row, tax)"
  obtains item account itemTax p rest where
    "List.find (item_matches i) (cat_items C) = Some item"
    "by_key a_id (cat_accounts C) (ct_sellerAccountId item) = Some account"
    "a_type account = COMMERCIAL"
    "by_key it_id (cat_taxes C) (ct_itemTaxId item) = Some itemTax"
    "(saleMode, i_taxPercent row) \<in> set (it_variations itemTax)"
    "allLatestPrices C now (ct_id item) (ii_variation i) currency = p # rest"
    "i_itemId row = ct_id item" "i_unitAmount row = ip_itemPrice p"
    "i_quantity row = ii_quantity i" "i_totalAmount row = mulN B [ip_itemPrice p, ii_quantity i]"
    "i_appComissionPercent row =
      fetchOneForCalculation C (ct_sellerAccountId item) (ct_itemClass item) None"
proof -
  from assms obtain item account itemTax v p rest where
    f: "List.find (item_matches i) (cat_items C) = Some item"
    "by_key a_id (cat_accounts C) (ct_sellerAccountId item) = Some account"
    "a_type account = COMMERCIAL"
    "by_key it_id (cat_taxes C) (ct_itemTaxId item) = Some itemTax"
    "List.find (\<lambda>v. fst v = saleMode) (it_variations itemTax) = Some v"
    "allLatestPrices C now (ct_id item) (ii_variation i) currency = p # rest"
    and row: "i_itemId row = ct_id item" "i_unitAmount row = ip_itemPrice p"
    "i_quantity row = ii_quantity i" "i_totalAmount row = mulN B [ip_itemPrice p, ii_quantity i]"
    "i_taxPercent row = snd v"
    "i_appComissionPercent row =
      fetchOneForCalculation C (ct_sellerAccountId item) (ct_itemClass item) None"
    by (auto simp: calculateItem_def res_simps Let_def split: if_splits)
  have "(saleMode, i_taxPercent row) \<in> set (it_variations itemTax)"
    using find_Some_in [OF f(5)] row(5) by (cases v) auto
  with f row that show thesis by simp
qed

lemma allLatestPrices_in: "p \<in> set (allLatestPrices C now i v cur) \<Longrightarrow> p \<in> set (cat_prices C)"
  by (simp add: allLatestPrices_def)

lemma calculateItem_amount:
  assumes "calculateItem B C now saleMode currency i = Inr (row, tax)"
  shows "\<exists>p \<in> set (cat_prices C). i_unitAmount row = ip_itemPrice p \<and>
    i_quantity row = ii_quantity i \<and> i_totalAmount row = mulN B [ip_itemPrice p, ii_quantity i]"
  using assms
proof (rule calculateItem_InrE)
  fix item p rest
  assume p: "allLatestPrices C now (ct_id item) (ii_variation i) currency = p # rest"
    and row: "i_unitAmount row = ip_itemPrice p" "i_quantity row = ii_quantity i"
      "i_totalAmount row = mulN B [ip_itemPrice p, ii_quantity i]"
  have "p \<in> set (cat_prices C)"
    by (rule allLatestPrices_in [of p C now "ct_id item" "ii_variation i" currency]) (simp add: p)
  with row show ?thesis by blast
qed

lemma calculation_step_Inr:
  assumes "calculation_step B C now m cur acc i = Inr acc'"
  shows "\<exists>row tax. calculateItem B C now m cur i = Inr (row, tax) \<and>
    ca_items acc' = ca_items acc @ [row] \<and>
    ca_totalAmount acc' = addN B [ca_totalAmount acc, i_totalAmount row]"
  using assms by (auto simp: calculation_step_def res_simps)

text \<open>The loop appends one row per input, and adds its amount to the running total.\<close>

lemma calculation_loop:
  assumes "foldE (calculation_step B C now m cur) acc inputs = Inr c"
  shows "\<exists>rows. ca_items c = ca_items acc @ rows \<and>
    list_all2 (\<lambda>i row. \<exists>tax. calculateItem B C now m cur i = Inr (row, tax)) inputs rows \<and>
    ca_totalAmount c = foldl (\<lambda>t row. addN B [t, i_totalAmount row]) (ca_totalAmount acc) rows"
  using assms
proof (induction inputs arbitrary: acc)
  case (Cons i inputs)
  from Cons.prems obtain acc' where acc': "calculation_step B C now m cur acc i = Inr acc'"
    "foldE (calculation_step B C now m cur) acc' inputs = Inr c"
    by (auto simp: res_simps)
  from calculation_step_Inr [OF acc'(1)] obtain row tax where
    row: "calculateItem B C now m cur i = Inr (row, tax)" "ca_items acc' = ca_items acc @ [row]"
      "ca_totalAmount acc' = addN B [ca_totalAmount acc, i_totalAmount row]" by blast
  from Cons.IH [OF acc'(2)] obtain rows where rows: "ca_items c = ca_items acc' @ rows"
    "list_all2 (\<lambda>i row. \<exists>tax. calculateItem B C now m cur i = Inr (row, tax)) inputs rows"
    "ca_totalAmount c = foldl (\<lambda>t row. addN B [t, i_totalAmount row]) (ca_totalAmount acc') rows"
    by blast
  show ?case by (rule exI [of _ "row # rows"]) (use row rows in auto)
qed simp

lemma calculateTotalAmount_loop:
  assumes "calculateTotalAmount B C now m cur inputs = Inr c"
  shows "list_all2 (\<lambda>i row. \<exists>tax. calculateItem B C now m cur i = Inr (row, tax)) inputs (ca_items c) \<and>
    ca_totalAmount c = foldl (\<lambda>t row. addN B [t, i_totalAmount row]) 0 (ca_items c) \<and>
    (\<forall>i \<in> set inputs. \<not> note_too_long (ii_note i))"
  using assms calculation_loop [of B C now m cur _ inputs c]
  by (fastforce simp: calculateTotalAmount_def list_ex_iff split: if_splits)

lemma running_total_exact:
  assumes B: "bigjs_ok B" "num_exact B M"
    and "\<forall>x \<in> set xs. dec4 x \<and> 0 \<le> x" and "dec4 t" "0 \<le> t" and "t + sum_list xs \<le> M"
  shows "foldl (\<lambda>t x. addN B [t, x]) t xs = t + sum_list xs"
  using assms(3-)
proof (induction xs arbitrary: t)
  case (Cons x xs)
  then have "0 \<le> sum_list xs" by (intro sum_list_nonneg) auto
  with Cons.prems have "addN B [t, x] = t + x" by (intro addN2_exact [OF B]) auto
  with Cons show ?case by (simp add: dec_add add.assoc)
qed simp

lemma dec4_times_nat: "dec4 x \<Longrightarrow> dec4 (x * of_nat n)"
proof -
  assume "dec4 x"
  then obtain k where "x = of_int k / 10 ^ 4" by (auto simp: dec_iff)
  then have "x * of_nat n = of_int (k * int n) / 10 ^ 4" by simp
  then show ?thesis unfolding dec_iff by blast
qed

section \<open>Properties\<close>

text \<open>What a row of a priced order has to be, for its input.\<close>

definition priced_row ::
  "catalog \<Rightarrow> nat \<Rightarrow> string \<Rightarrow> string \<Rightarrow> item_input \<Rightarrow> item_row \<Rightarrow> bool"
where
  "priced_row C now m cur i row \<longleftrightarrow>
     \<not> note_too_long (ii_note i) \<and> i_quantity row = ii_quantity i \<and>
     i_totalAmount row = i_unitAmount row * i_quantity row \<and>
     (\<exists>item \<in> set (cat_items C). item_matches i item \<and> i_itemId row = ct_id item \<and>
       (\<exists>a. by_key a_id (cat_accounts C) (ct_sellerAccountId item) = Some a \<and>
            a_type a = COMMERCIAL) \<and>
       (\<exists>t. by_key it_id (cat_taxes C) (ct_itemTaxId item) = Some t \<and>
            (m, i_taxPercent row) \<in> set (it_variations t)) \<and>
       (\<exists>p \<in> set (allLatestPrices C now (ct_id item) (ii_variation i) cur).
            i_unitAmount row = ip_itemPrice p) \<and>
       i_appComissionPercent row =
         fetchOneForCalculation C (ct_sellerAccountId item) (ct_itemClass item) None)"


text \<open>A catalogue with one item sold at 12.50 with a tax of 25 percent and a commission of 10.\<close>

definition sample_catalog :: catalog where
  "sample_catalog =
     \<lparr>cat_items = [\<lparr>ct_id = ''item'', ct_name = ''Tea'', ct_entityGroup = ''g'', ct_entityName = ''n'',
        ct_entityId = ''e'', ct_isPhysical = True, ct_metaEntityGroup = None,
        ct_metaEntityName = None, ct_metaEntityId = None, ct_unit = ''KG'', ct_itemTaxId = ''tax'',
        ct_sellerAccountId = ''seller'', ct_itemClass = ''FOOD''\<rparr>],
      cat_taxes = [\<lparr>it_id = ''tax'', it_taxName = ''KDV'', it_variations = [(''DEFAULT'', 25)]\<rparr>],
      cat_prices =
        [\<lparr>ip_id = ''p0'', ip_itemId = ''item'', ip_variation = ''default'', ip_itemPrice = 15,
          ip_region = ''any'', ip_currency = ''TRY'', ip_activityOrder = 0, ip_activeStartAt = None,
          ip_activeExpireAt = None\<rparr>,
         \<lparr>ip_id = ''p1'', ip_itemId = ''item'', ip_variation = ''default'', ip_itemPrice = 25 / 2,
          ip_region = ''any'', ip_currency = ''TRY'', ip_activityOrder = 1, ip_activeStartAt = Some 5,
          ip_activeExpireAt = Some 20\<rparr>],
      cat_comissions = [\<lparr>ac_id = ''c'', ac_sellerAccountId = None, ac_itemClass = Some ''FOOD'',
        ac_externalPlatformId = None, ac_percent = 10, ac_bias = 2\<rparr>],
      cat_accounts = [sample_account ''seller''], cat_settings = sample_settings\<rparr>"

definition sample_input :: item_input where
  "sample_input =
     \<lparr>ii_itemId = Some ''item'', ii_note = None, ii_entityGroup = None, ii_entityName = None,
      ii_entityId = None, ii_variation = Some ''default'', ii_quantity = 2\<rparr>"

lemmas sample_catalog_defs = sample_account_def sample_settings_def sample_catalog_def
  sample_input_def

lemma sample_calculation:
  "(case calculateTotalAmount exact_bigjs sample_catalog 10 ''DEFAULT'' ''TRY'' [sample_input] of
      Inl e \<Rightarrow> False | Inr c \<Rightarrow> map (\<lambda>r. i_unitAmount r * i_quantity r) (ca_items c) = [25])"
  by code_simp


text \<open>
  \<open>allLatestPrices\<close> returns active prices of the requested item, currency and variation only,
  each of the highest \<open>activityOrder\<close> among the active prices of its variation.
\<close>

lemma allLatestPrices_highest:
  assumes "distinct (map ip_id (cat_prices C))" and "cur \<noteq> []"
    and "p \<in> set (allLatestPrices C now itemId variation cur)"
  shows "p \<in> set (cat_prices C) \<and> ip_itemId p = itemId \<and> ip_currency p = cur \<and>
    ip_region p = region_any \<and> price_active now p \<and>
    (truthy variation \<longrightarrow> variation = Some (ip_variation p)) \<and>
    (\<forall>q \<in> set (cat_prices C). ip_itemId q = itemId \<and> ip_currency q = cur \<and>
       ip_region q = region_any \<and> ip_variation q = ip_variation p \<and> price_active now q \<longrightarrow>
       ip_activityOrder q \<le> ip_activityOrder p)"
proof -
  let ?cand = "latest_candidates C now itemId variation cur p"
  from assms(3) obtain r where r: "first_max ip_activityOrder ?cand = Some r" "ip_id r = ip_id p"
    and p: "p \<in> set (cat_prices C)" by (auto simp: allLatestPrices_def)
  from first_max_in [OF r(1)] have rc: "r \<in> set ?cand" .
  then have "r \<in> set (cat_prices C)" by (simp add: latest_candidates_def)
  with r(2) p assms(1) have "r = p" by (metis inj_on_eq_iff distinct_map)
  with rc p assms(2) first_max_ge [OF r(1)] show ?thesis
    by (auto simp: latest_candidates_def)
qed

lemma allLatestPrices_highest_witness:
  "\<exists>ps. allLatestPrices sample_catalog 10 ''item'' (Some ''default'') ''TRY'' = ps \<and> ps \<noteq> [] \<and>
     (\<forall>p \<in> set ps. price_active 10 p \<and> ip_currency p = ''TRY'')"
proof -
  let ?ps = "allLatestPrices sample_catalog 10 ''item'' (Some ''default'') ''TRY''"
  have "?ps \<noteq> []" by code_simp
  moreover have "price_active 10 p \<and> ip_currency p = ''TRY''" if "p \<in> set ?ps" for p
    using allLatestPrices_highest [OF _ _ that] by (simp add: sample_catalog_def)
  ultimately show ?thesis by blast
qed

text \<open>
  The commission of a sale is that of an applicable rule no other applicable rule outranks, and
  zero when no rule applies. A rule applies when each of its platform, seller and item class is
  general or that of the sale.
\<close>

lemma commission_rule_highest_bias:
  "let r = fetchOneForCalculation C seller cls platform;
       rules = filter (comission_applies seller cls platform) (cat_comissions C)
   in if rules = [] then r = 0
      else \<exists>c \<in> set rules. r = ac_percent c \<and> (\<forall>d \<in> set rules. ac_bias d \<le> ac_bias c)"
proof (cases "first_max ac_bias (filter (comission_applies seller cls platform) (cat_comissions C))")
  case None
  then show ?thesis by (simp add: fetchOneForCalculation_def Let_def)
next
  case (Some c)
  with first_max_in [OF Some] first_max_ge [OF Some] show ?thesis
    by (auto simp: fetchOneForCalculation_def Let_def)
qed

lemma commission_rule_highest_bias_witness:
  "\<exists>c \<in> set (cat_comissions sample_catalog).
     fetchOneForCalculation sample_catalog ''seller'' ''FOOD'' None = ac_percent c"
  using commission_rule_highest_bias [of sample_catalog "''seller''" "''FOOD''" None]
  by (auto simp: sample_catalog_def comission_applies_def)

end
