(* ===== verification/Ledger.thy ===== *)
theory Ledger
  imports Entities Tax_Calc Grouping
begin

text \<open>
  The ledger of a payment: the orders its sellers get (\<open>transaction.mapper.ts\<close>,
  \<open>seller-payment-order.service.ts\<close>) and the account transactions it books
  (\<open>account-payment-transaction.service.ts\<close> with its mapper). A missing seller id is refused by the
  database, whose columns are not nullable.
\<close>

section \<open>Orders of the sellers\<close>

record order_dto =
  od_amount :: rat
  od_taxAmount :: rat
  od_currency :: string
  od_paymentId :: string
  od_sourceAccountId :: "string option"
  od_targetAccountId :: "string option"
  od_billingAddressId :: "string option"
  od_paymentStatus :: payment_status
  od_errorStatus :: "payment_error option"
  od_operationNote :: "string option"
  od_transactionType :: seller_order_type
  od_openPayment :: "bool option"
  od_sellerSnapshotAccountId :: "string option"
  od_sellerSnapshotAddressId :: "string option"
  od_customerSnapshotAccountId :: "string option"
  od_customerSnapshotAddressId :: "string option"

definition fromPaymentItem :: "item_row \<Rightarrow> payment_row \<Rightarrow> order_dto" where
  "fromPaymentItem item payment =
     \<lparr>od_amount = i_totalAmount item, od_taxAmount = i_taxAmount item,
      od_currency = p_currency payment, od_paymentId = p_id payment,
      od_sourceAccountId = p_customerAccountId payment,
      od_targetAccountId = i_sellerAccountId item,
      od_billingAddressId = p_billingAddressId payment,
      od_paymentStatus = p_paymentStatus payment, od_errorStatus = None, od_operationNote = None,
      od_transactionType =
        (if p_type payment = PURCHASE then CREDIT_TO_SELLER else DEBIT_FROM_SELLER),
      od_openPayment = Some (p_openPayment payment),
      od_sellerSnapshotAccountId = i_sellerSnapshotAccountId item,
      od_sellerSnapshotAddressId = i_sellerSnapshotAddressId item,
      od_customerSnapshotAccountId = p_customerSnapshotAccountId payment,
      od_customerSnapshotAddressId = p_customerSnapshotAddressId payment\<rparr>"

text \<open>The grouping key is one string; a missing part prints \<open>undefined\<close>.\<close>

definition print_option :: "string option \<Rightarrow> string" where
  "print_option x = (case x of None \<Rightarrow> ''undefined'' | Some s \<Rightarrow> s)"

fun order_type_text :: "seller_order_type \<Rightarrow> string" where
  "order_type_text CREDIT_TO_SELLER = ''CREDIT_TO_SELLER''"
| "order_type_text DEBIT_FROM_SELLER = ''DEBIT_FROM_SELLER''"

fun status_text :: "payment_status \<Rightarrow> string" where
  "status_text PS_INITIATED = ''INITIATED''"
| "status_text PS_WAITING = ''WAITING''"
| "status_text PS_COMPLETED = ''COMPLETED''"
| "status_text PS_FAILED = ''FAILED''"

definition order_key :: "order_dto \<Rightarrow> string" where
  "order_key a = print_option (od_sourceAccountId a) @ ''|'' @ print_option (od_targetAccountId a) @
     ''|'' @ order_type_text (od_transactionType a) @ ''|'' @ od_paymentId a @ ''|'' @
     od_currency a @ ''|'' @ status_text (od_paymentStatus a)"

text \<open>The object a group starts from: the literal of the code, without \<open>openPayment\<close>.\<close>

definition group_start :: "order_dto \<Rightarrow> order_dto" where
  "group_start a = a\<lparr>od_amount := 0, od_taxAmount := 0, od_openPayment := None\<rparr>"

definition group_add :: "bigjs \<Rightarrow> order_dto \<Rightarrow> order_dto \<Rightarrow> order_dto" where
  "group_add B g a = g\<lparr>od_amount := js_add B (od_amount g) (od_amount a),
     od_taxAmount := js_add B (od_taxAmount g) (od_taxAmount a)\<rparr>"

definition group_step :: "bigjs \<Rightarrow> order_dto option \<Rightarrow> order_dto \<Rightarrow> order_dto" where
  "group_step B g a = group_add B (case g of None \<Rightarrow> group_start a | Some g' \<Rightarrow> g') a"

definition group_orders :: "bigjs \<Rightarrow> order_dto list \<Rightarrow> (string, order_dto) jsobj" where
  "group_orders B transactions = fold_group order_key (group_step B) [] transactions"

definition order_fromDto :: "env \<Rightarrow> order_dto \<Rightarrow> string \<Rightarrow> string \<Rightarrow> string \<Rightarrow> seller_order_row" where
  "order_fromDto E dto i source target =
     \<lparr>so_id = i, so_amount = od_amount dto, so_taxAmount = od_taxAmount dto,
      so_untaxedAmount =
        calculateUntaxedPrice (env_big E) (od_amount dto) (od_taxAmount dto),
      so_currency = od_currency dto, so_paymentId = od_paymentId dto,
      so_targetAccountId = target, so_sourceAccountId = source,
      so_billingAddressId = od_billingAddressId dto, so_paymentStatus = od_paymentStatus dto,
      so_errorStatus = od_errorStatus dto, so_invoiceCount = 0, so_hasFinalizedInvoice = False,
      so_openPayment = nullish (od_openPayment dto) False,
      so_sellerOrderType = od_transactionType dto, so_createdAt = env_now E,
      so_updatedAt = env_now E, so_lastOperationDate = env_now E,
      so_operationNote = nullish (od_operationNote dto) [], so_description = [],
      so_customerSnapshotAddressId = od_customerSnapshotAddressId dto,
      so_customerSnapshotAccountId = od_customerSnapshotAccountId dto,
      so_sellerSnapshotAddressId = od_sellerSnapshotAddressId dto,
      so_sellerSnapshotAccountId = od_sellerSnapshotAccountId dto\<rparr>"

definition same_order :: "order_dto \<Rightarrow> seller_order_row \<Rightarrow> bool" where
  "same_order tr r \<longleftrightarrow> od_sourceAccountId tr = Some (so_sourceAccountId r) \<and>
     od_targetAccountId tr = Some (so_targetAccountId r) \<and>
     so_sellerOrderType r = od_transactionType tr \<and> so_paymentId r = od_paymentId tr \<and>
     so_currency r = od_currency tr"

text \<open>
  The update of an order that exists: its amounts stay. TypeORM leaves a column alone when the
  entity's field is \<open>undefined\<close>.
\<close>

definition update_order :: "env \<Rightarrow> order_dto \<Rightarrow> seller_order_row \<Rightarrow> seller_order_row" where
  "update_order E tr r =
     r\<lparr>so_paymentStatus := od_paymentStatus tr, so_updatedAt := env_now E,
       so_errorStatus := (case od_errorStatus tr of None \<Rightarrow> so_errorStatus r | x \<Rightarrow> x),
       so_operationNote := nullish (od_operationNote tr) (so_operationNote r),
       so_sellerSnapshotAccountId := (case od_sellerSnapshotAccountId tr of
          None \<Rightarrow> so_sellerSnapshotAccountId r | x \<Rightarrow> x),
       so_sellerSnapshotAddressId := (case od_sellerSnapshotAddressId tr of
          None \<Rightarrow> so_sellerSnapshotAddressId r | x \<Rightarrow> x),
       so_customerSnapshotAccountId := (case od_customerSnapshotAccountId tr of
          None \<Rightarrow> so_customerSnapshotAccountId r | x \<Rightarrow> x),
       so_customerSnapshotAddressId := (case od_customerSnapshotAddressId tr of
          None \<Rightarrow> so_customerSnapshotAddressId r | x \<Rightarrow> x)\<rparr>"

definition not_null :: "string option \<Rightarrow> string res" where
  "not_null = of_option (JsError ''Column cannot be null'')"

definition addTransaction :: "env \<Rightarrow> order_dto \<Rightarrow> (store, unit) act" where
  "addTransaction E tr =
     bindS (readS (\<lambda>s. List.find (same_order tr) (st_orders s))) (\<lambda>existing.
     case existing of
       Some r \<Rightarrow> modifyS (save_order (env_big E) (update_order E tr r))
     | None \<Rightarrow>
         bindS (liftS (not_null (od_sourceAccountId tr))) (\<lambda>source.
         bindS (liftS (not_null (od_targetAccountId tr))) (\<lambda>target.
         bindS (newId E) (\<lambda>i.
         modifyS (save_order (env_big E) (order_fromDto E tr i source target))))))"

definition addSellerPaymentOrders :: "env \<Rightarrow> order_dto list \<Rightarrow> (store, unit) act" where
  "addSellerPaymentOrders E transactions =
     forS (map snd (group_orders (env_big E) transactions)) (addTransaction E)"

definition generateSellerPaymentOrders :: "env \<Rightarrow> payment_row \<Rightarrow> item_row list \<Rightarrow> (store, unit) act" where
  "generateSellerPaymentOrders E payment items =
     addSellerPaymentOrders E (map (\<lambda>i. fromPaymentItem i payment) items)"

definition updateInvoiceStatus :: "string \<Rightarrow> int \<Rightarrow> bool \<Rightarrow> store \<Rightarrow> store" where
  "updateInvoiceStatus i n final s =
     s\<lparr>st_orders := map (\<lambda>r. if so_id r = i
        then r\<lparr>so_invoiceCount := n, so_hasFinalizedInvoice := final\<rparr> else r) (st_orders s)\<rparr>"

definition closeOpenPaymentOrders :: "string \<Rightarrow> store \<Rightarrow> store" where
  "closeOpenPaymentOrders pid s =
     s\<lparr>st_orders := map (\<lambda>r. if so_paymentId r = pid then r\<lparr>so_openPayment := False\<rparr> else r)
        (st_orders s)\<rparr>"

section \<open>Account transactions\<close>

text \<open>A transaction before it has an id; \<open>at_accountId\<close> may be missing.\<close>

record transaction_dto =
  at_corelationId :: string
  at_accountId :: "string option"
  at_accountName :: string
  at_amount :: rat
  at_taxAmount :: rat
  at_paymentId :: string
  at_type :: direction
  at_status :: payment_status
  at_description :: string

fun type_text :: "payment_type \<Rightarrow> string" where
  "type_text PURCHASE = ''purchase''"
| "type_text REFUND = ''refund''"

definition accountName :: "store \<Rightarrow> string option \<Rightarrow> string" where
  "accountName s a =
     (case a of None \<Rightarrow> [] | Some i \<Rightarrow> (case find_account s i of None \<Rightarrow> [] | Some r \<Rightarrow> a_name r))"

fun join :: "string \<Rightarrow> string list \<Rightarrow> string" where
  "join sep [] = []"
| "join sep [x] = x"
| "join sep (x # y # ys) = x @ sep @ join sep (y # ys)"

definition seller_entry ::
  "bigjs \<Rightarrow> (string option \<Rightarrow> string) \<Rightarrow> payment_row \<Rightarrow> string \<Rightarrow>
   transaction_dto option \<Rightarrow> item_row \<Rightarrow> transaction_dto"
where
  "seller_entry B names payment korelasyon old item =
     (case old of
        Some t \<Rightarrow> t\<lparr>at_amount := addN B [at_amount t, i_totalAmount item],
                    at_taxAmount := addN B [at_taxAmount t, i_taxAmount item]\<rparr>
      | None \<Rightarrow>
          \<lparr>at_corelationId = korelasyon, at_accountId = i_sellerAccountId item,
           at_accountName = names (i_sellerAccountId item), at_amount = i_totalAmount item,
           at_taxAmount = i_taxAmount item, at_paymentId = p_id payment,
           at_type = (if p_type payment = PURCHASE then CREDIT else DEBIT),
           at_status = p_paymentStatus payment,
           at_description = ''Payment '' @ type_text (p_type payment) @ '' for payment id '' @
             p_id payment @ ''. Customer: '' @ names (p_customerAccountId payment)\<rparr>)"

definition seller_transactions ::
  "bigjs \<Rightarrow> (string option \<Rightarrow> string) \<Rightarrow> payment_row \<Rightarrow> item_row list \<Rightarrow> string \<Rightarrow>
   (string option, transaction_dto) jsobj"
where
  "seller_transactions B names payment items korelasyon =
     fold_group i_sellerAccountId (seller_entry B names payment korelasyon) [] items"

definition customer_transaction ::
  "(string option \<Rightarrow> string) \<Rightarrow> payment_row \<Rightarrow> item_row list \<Rightarrow> string \<Rightarrow> transaction_dto"
where
  "customer_transaction names payment items korelasyon =
     \<lparr>at_corelationId = korelasyon, at_accountId = p_customerAccountId payment,
       at_accountName = names (p_customerAccountId payment), at_amount = p_totalAmount payment,
       at_taxAmount = p_taxAmount payment, at_paymentId = p_id payment,
       at_type = (if p_type payment = PURCHASE then DEBIT else CREDIT),
       at_status = p_paymentStatus payment,
       at_description = ''Payment '' @ type_text (p_type payment) @ '' for payment id '' @
         p_id payment @ ''. Sellers: '' @
         join '', '' (unique (map (\<lambda>i. names (i_sellerAccountId i)) items))\<rparr>"

definition payment_transactions ::
  "bigjs \<Rightarrow> (string option \<Rightarrow> string) \<Rightarrow> payment_row \<Rightarrow> item_row list \<Rightarrow> string \<Rightarrow> transaction_dto list"
where
  "payment_transactions B names payment items korelasyon =
     map snd (seller_transactions B names payment items korelasyon) @
     [customer_transaction names payment items korelasyon]"

definition transaction_toEntity :: "env \<Rightarrow> string \<Rightarrow> string \<Rightarrow> transaction_dto \<Rightarrow> account_transaction_row" where
  "transaction_toEntity E i account dto =
     \<lparr>tr_id = i, tr_corelationId = at_corelationId dto, tr_accountId = account,
      tr_accountName = at_accountName dto, tr_paymentId = at_paymentId dto,
      tr_paymentSellerOrderId = None, tr_roundingOperationId = None, tr_type = at_type dto,
      tr_status = at_status dto, tr_amount = at_amount dto, tr_taxAmount = at_taxAmount dto,
      tr_creationDate = env_now E, tr_updateDate = env_now E, tr_operationNote = [],
      tr_description = at_description dto\<rparr>"

definition save_dto :: "env \<Rightarrow> transaction_dto \<Rightarrow> (store, unit) act" where
  "save_dto E dto =
     bindS (liftS (not_null (at_accountId dto))) (\<lambda>account.
     bindS (newId E) (\<lambda>i.
     modifyS (save_transaction (env_big E) (transaction_toEntity E i account dto))))"

text \<open>\<open>repo.save([\<dots>])\<close> saves a list in one database transaction.\<close>

definition save_dtos :: "env \<Rightarrow> transaction_dto list \<Rightarrow> (store, unit) act" where
  "save_dtos E dtos = transactionS (forS dtos (save_dto E))"

definition old_transaction :: "transaction_dto list \<Rightarrow> account_transaction_row \<Rightarrow> bool" where
  "old_transaction dtos r \<longleftrightarrow> list_ex (\<lambda>d.
     (case at_accountId d of None \<Rightarrow> True | Some a \<Rightarrow> tr_accountId r = a) \<and>
     tr_paymentId r = at_paymentId d \<and> tr_type r = at_type d \<and> tr_roundingOperationId r = None) dtos"

definition deleteOldTransactions :: "transaction_dto list \<Rightarrow> store \<Rightarrow> store" where
  "deleteOldTransactions dtos s =
     s\<lparr>st_transactions := filter (\<lambda>r. \<not> old_transaction dtos r) (st_transactions s)\<rparr>"

definition createNew :: "env \<Rightarrow> transaction_dto list \<Rightarrow> (store, unit) act" where
  "createNew E dtos = bindS (modifyS (deleteOldTransactions dtos)) (\<lambda>_. save_dtos E dtos)"

text \<open>With a transaction manager the old transactions are not looked for.\<close>

definition fromPayment :: "env \<Rightarrow> payment_row \<Rightarrow> item_row list \<Rightarrow> bool \<Rightarrow> (store, unit) act" where
  "fromPayment E payment items managed =
     bindS (newId E) (\<lambda>korelasyon.
     bindS (readS (\<lambda>s. payment_transactions (env_big E) (accountName s) payment items korelasyon)) (\<lambda>dtos.
     if managed then save_dtos E dtos else createNew E dtos))"

section \<open>Sums per seller\<close>

definition good_item :: "bigjs \<Rightarrow> rat \<Rightarrow> item_row \<Rightarrow> bool" where
  "good_item B M i \<longleftrightarrow> bigjs_ok B \<and> num_exact B M \<and> dec4 (i_totalAmount i) \<and> 0 \<le> i_totalAmount i \<and>
     dec4 (i_taxAmount i) \<and> 0 \<le> i_taxAmount i"

interpretation seller_amounts: accumulation i_sellerAccountId "seller_entry B names payment kor"
    i_totalAmount at_amount "good_item B M" M
  for B names payment kor M
  by unfold_locales (auto simp: good_item_def seller_entry_def intro!: addN2_exact)

interpretation seller_taxes: accumulation i_sellerAccountId "seller_entry B names payment kor"
    i_taxAmount at_taxAmount "good_item B M" M
  for B names payment kor M
  by unfold_locales (auto simp: good_item_def seller_entry_def intro!: addN2_exact)

text \<open>What every seller's entry carries over from its first item and from the payment.\<close>

lemma seller_entry_fold:
  assumes "foldl (\<lambda>v a. Some (seller_entry B names p kor v a)) v0 xs = Some t"
    and "\<forall>a \<in> set xs. i_sellerAccountId a = k"
    and "v0 = None \<or> (\<exists>u. v0 = Some u \<and> at_accountId u = k \<and> at_corelationId u = kor \<and>
      at_paymentId u = p_id p \<and> at_status u = p_paymentStatus p \<and>
      at_type u = (if p_type p = PURCHASE then CREDIT else DEBIT))"
  shows "at_accountId t = k \<and> at_corelationId t = kor \<and> at_paymentId t = p_id p \<and>
    at_status t = p_paymentStatus p \<and> at_type t = (if p_type p = PURCHASE then CREDIT else DEBIT)"
  using assms
proof (induction xs arbitrary: v0)
  case (Cons x xs)
  show ?case
    by (rule Cons.IH [of "Some (seller_entry B names p kor v0 x)"])
      (use Cons.prems in \<open>auto simp: seller_entry_def split: option.splits\<close>)
qed auto

lemma seller_transactions_entry:
  assumes "(k, t) \<in> set (seller_transactions B names p items kor)"
  shows "at_accountId t = k \<and> at_corelationId t = kor \<and> at_paymentId t = p_id p \<and>
    at_status t = p_paymentStatus p \<and> at_type t = (if p_type p = PURCHASE then CREDIT else DEBIT)"
proof (rule seller_entry_fold)
  let ?m = "fold_group i_sellerAccountId (seller_entry B names p kor) [] items"
  have "obj_get ?m k = Some (k, t)"
    by (rule obj_get_distinct [OF fold_group_distinct]) (use assms in \<open>simp_all add: seller_transactions_def\<close>)
  then show "foldl (\<lambda>v a. Some (seller_entry B names p kor v a)) None
      (filter (\<lambda>a. i_sellerAccountId a = k) items) = Some t"
    using fold_group_lookup [of i_sellerAccountId "seller_entry B names p kor" "[]" items k]
    by (simp add: by_key_def)
qed auto

section \<open>Saving the grouped orders\<close>

text \<open>The identifiers still to be drawn are none of the table's.\<close>

definition fresh_orders :: "env \<Rightarrow> store \<Rightarrow> bool" where
  "fresh_orders E s \<longleftrightarrow> inj (env_uuid E) \<and>
     (\<forall>r \<in> set (st_orders s). \<forall>n \<ge> st_seq s. so_id r \<noteq> env_uuid E n)"

text \<open>The row a grouped order becomes, up to its id.\<close>

definition order_row_of :: "env \<Rightarrow> order_dto \<Rightarrow> seller_order_row \<Rightarrow> bool" where
  "order_row_of E d r \<longleftrightarrow> (\<exists>i source target.
     od_sourceAccountId d = Some source \<and> od_targetAccountId d = Some target \<and>
     r = order_columns (env_big E) (order_fromDto E d i source target))"

lemma addTransaction_new:
  assumes "fresh_orders E s" and "\<forall>r \<in> set (st_orders s). \<not> same_order d r"
    and "od_sourceAccountId d = Some c" and "od_targetAccountId d = Some k"
  shows "\<exists>t r. addTransaction E d s = (t, Inr ()) \<and> st_orders t = st_orders s @ [r] \<and>
    order_row_of E d r \<and> fresh_orders E t"
proof -
  let ?r = "order_columns (env_big E) (order_fromDto E d (env_uuid E (st_seq s)) c k)"
  have none: "List.find (same_order d) (st_orders s) = None"
    using assms(2) by (simp add: find_None_iff)
  have i: "so_id ?r = env_uuid E (st_seq s)" by (simp add: order_columns_def order_fromDto_def)
  have "so_id ?r \<notin> so_id ` set (st_orders s)"
    unfolding i using assms(1) by (force simp: fresh_orders_def)
  then have saved: "upsert so_id ?r (st_orders s) = st_orders s @ [?r]" by (rule upsert_fresh)
  let ?t = "s\<lparr>st_seq := Suc (st_seq s), st_orders := st_orders s @ [?r]\<rparr>"
  have "addTransaction E d s = (?t, Inr ())"
    using none saved assms(3,4)
    by (simp add: addTransaction_def run_simps newId_def not_null_def save_order_def)
  moreover have "order_row_of E d ?r" using assms(3,4) by (auto simp: order_row_of_def)
  moreover have "fresh_orders E ?t"
    using assms(1) i by (auto simp: fresh_orders_def dest: injD)
  ultimately show ?thesis by fastforce
qed

lemma order_row_same: "order_row_of E d r \<Longrightarrow> same_order d' r \<Longrightarrow> od_targetAccountId d' = od_targetAccountId d"
  by (auto simp: order_row_of_def same_order_def order_columns_def order_fromDto_def)

lemma add_new_orders:
  assumes "fresh_orders E s" and "\<forall>d \<in> set ds. \<forall>r \<in> set (st_orders s). \<not> same_order d r"
    and "\<forall>d \<in> set ds. od_sourceAccountId d \<noteq> None \<and> od_targetAccountId d \<noteq> None"
    and "distinct (map od_targetAccountId ds)"
  shows "\<exists>t rows. forS ds (addTransaction E) s = (t, Inr ()) \<and> st_orders t = st_orders s @ rows \<and>
    list_all2 (order_row_of E) ds rows"
  using assms
proof (induction ds arbitrary: s)
  case (Cons d ds)
  from Cons.prems obtain c k where "od_sourceAccountId d = Some c" "od_targetAccountId d = Some k"
    by auto
  with Cons.prems addTransaction_new [of E s d c k] obtain u r where
    u: "addTransaction E d s = (u, Inr ())" "st_orders u = st_orders s @ [r]" "order_row_of E d r"
      "fresh_orders E u" by auto
  have "\<forall>d' \<in> set ds. \<forall>x \<in> set (st_orders u). \<not> same_order d' x"
    using Cons.prems u order_row_same [OF u(3)] by (fastforce simp: image_iff)
  with Cons.IH [OF u(4)] Cons.prems obtain t rows where
    "forS ds (addTransaction E) u = (t, Inr ())" "st_orders t = st_orders u @ rows"
    "list_all2 (order_row_of E) ds rows" by auto
  with u show ?case by (intro exI [of _ t] exI [of _ "r # rows"]) (simp add: bindS_def)
qed (simp add: returnS_def)

lemma list_all2_in_set_right:
  "list_all2 R xs ys \<Longrightarrow> y \<in> set ys \<Longrightarrow> \<exists>x \<in> set xs. R x y"
  by (induction rule: list_all2_induct) auto

text \<open>The groups of one payment's items are its sellers.\<close>

lemma order_key_seller:
  assumes "i_sellerAccountId i = Some a" and "i_sellerAccountId j = Some b"
  shows "order_key (fromPaymentItem i p) = order_key (fromPaymentItem j p) \<longleftrightarrow> a = b"
  using assms by (auto simp: order_key_def fromPaymentItem_def print_option_def)

text \<open>What a group keeps of its first item, and the fold its amounts are.\<close>

lemma group_fold:
  assumes "foldl (\<lambda>v a. Some (group_step B v a)) (Some g) xs = Some g'"
  shows "g' = g\<lparr>od_amount := foldl (js_add B) (od_amount g) (map od_amount xs),
    od_taxAmount := foldl (js_add B) (od_taxAmount g) (map od_taxAmount xs)\<rparr>"
  using assms
proof (induction xs arbitrary: g)
  case (Cons x xs)
  then show ?case by (fastforce simp: group_step_def group_add_def)
qed simp

lemma group_fold_start:
  assumes "foldl (\<lambda>v a. Some (group_step B v a)) None xs = Some g"
  shows "xs \<noteq> [] \<and> g = (hd xs)\<lparr>od_amount := foldl (js_add B) 0 (map od_amount xs),
    od_taxAmount := foldl (js_add B) 0 (map od_taxAmount xs), od_openPayment := None\<rparr>"
proof (cases xs)
  case (Cons x ys)
  with assms group_fold [of B "group_step B None x" ys g] show ?thesis
    by (auto simp: group_step_def group_add_def group_start_def)
qed (use assms in simp)

lemma group_orders_entry:
  assumes "(key, g) \<in> set (group_orders B ds)"
  shows "filter (\<lambda>d. order_key d = key) ds \<noteq> [] \<and>
    g = (hd (filter (\<lambda>d. order_key d = key) ds))
      \<lparr>od_amount := foldl (js_add B) 0 (map od_amount (filter (\<lambda>d. order_key d = key) ds)),
       od_taxAmount := foldl (js_add B) 0 (map od_taxAmount (filter (\<lambda>d. order_key d = key) ds)),
       od_openPayment := None\<rparr>"
proof (rule group_fold_start)
  let ?m = "fold_group order_key (group_step B) [] ds"
  have "obj_get ?m key = Some (key, g)"
    by (rule obj_get_distinct [OF fold_group_distinct]) (use assms in \<open>simp_all add: group_orders_def\<close>)
  then show "foldl (\<lambda>v a. Some (group_step B v a)) None (filter (\<lambda>d. order_key d = key) ds) = Some g"
    using fold_group_lookup [of order_key "group_step B" "[]" ds key] by (simp add: by_key_def)
qed

text \<open>A group of one payment's orders: its seller, its sums.\<close>

lemma payment_group:
  assumes sellers: "\<forall>i \<in> set items. i_sellerAccountId i \<noteq> None"
    and "(key, g) \<in> set (group_orders B (map (\<lambda>i. fromPaymentItem i p) items))"
  obtains i where "i \<in> set items" "key = order_key (fromPaymentItem i p)"
    "od_targetAccountId g = i_sellerAccountId i" "od_sourceAccountId g = p_customerAccountId p"
    "od_paymentId g = p_id p" "od_openPayment g = None" "od_currency g = p_currency p"
    "od_transactionType g = (if p_type p = PURCHASE then CREDIT_TO_SELLER else DEBIT_FROM_SELLER)"
    "od_amount g = foldl (js_add B) 0
       (map i_totalAmount (filter (\<lambda>j. i_sellerAccountId j = i_sellerAccountId i) items))"
    "od_taxAmount g = foldl (js_add B) 0
       (map i_taxAmount (filter (\<lambda>j. i_sellerAccountId j = i_sellerAccountId i) items))"
proof -
  let ?f = "filter (\<lambda>d. order_key d = key) (map (\<lambda>i. fromPaymentItem i p) items)"
  note g = group_orders_entry [OF assms(2)]
  then have "hd ?f \<in> set ?f" using hd_in_set [of ?f] by blast
  then obtain i where i: "i \<in> set items" "hd ?f = fromPaymentItem i p"
    "key = order_key (fromPaymentItem i p)" by auto
  have same: "order_key (fromPaymentItem j p) = key \<longleftrightarrow> i_sellerAccountId j = i_sellerAccountId i"
    if "j \<in> set items" for j
  proof -
    have "i_sellerAccountId j \<noteq> None" "i_sellerAccountId i \<noteq> None"
      using sellers i(1) that by blast+
    then obtain a b where ab: "i_sellerAccountId j = Some a" "i_sellerAccountId i = Some b" by auto
    have "order_key (fromPaymentItem j p) = key \<longleftrightarrow> a = b"
      unfolding i(3) by (rule order_key_seller [OF ab])
    also have "\<dots> \<longleftrightarrow> i_sellerAccountId j = i_sellerAccountId i" unfolding ab by simp
    finally show ?thesis .
  qed
  have f: "?f = map (\<lambda>i. fromPaymentItem i p)
      (filter (\<lambda>j. i_sellerAccountId j = i_sellerAccountId i) items)"
    unfolding filter_map o_def using same by (simp cong: filter_cong)
  have sums: "map od_amount ?f =
      map i_totalAmount (filter (\<lambda>j. i_sellerAccountId j = i_sellerAccountId i) items)"
    "map od_taxAmount ?f =
      map i_taxAmount (filter (\<lambda>j. i_sellerAccountId j = i_sellerAccountId i) items)"
    unfolding f by (simp_all add: fromPaymentItem_def)
  show thesis
    by (rule that [OF i(1,3)]) (use g sums i(2) in \<open>simp_all add: fromPaymentItem_def\<close>)
qed

lemma payment_groups_distinct:
  assumes "\<forall>i \<in> set items. i_sellerAccountId i \<noteq> None"
  shows "distinct (map od_targetAccountId
           (map snd (group_orders B (map (\<lambda>i. fromPaymentItem i p) items))))"
proof -
  let ?m = "group_orders B (map (\<lambda>i. fromPaymentItem i p) items)"
  have d: "distinct ?m" "inj_on fst (set ?m)"
    using fold_group_distinct [of "[]" order_key "group_step B"]
    by (auto simp: group_orders_def distinct_map)
  have "x = y" if xy: "x \<in> set ?m" "y \<in> set ?m" "od_targetAccountId (snd x) = od_targetAccountId (snd y)"
    for x y
  proof -
    obtain k g k' g' where e: "x = (k, g)" "y = (k', g')" by fastforce
    from xy(1) e obtain i where i: "i \<in> set items" "k = order_key (fromPaymentItem i p)"
      "od_targetAccountId g = i_sellerAccountId i" by (auto elim: payment_group [OF assms])
    from xy(2) e obtain j where j: "j \<in> set items" "k' = order_key (fromPaymentItem j p)"
      "od_targetAccountId g' = i_sellerAccountId j" by (auto elim: payment_group [OF assms])
    from i j xy(3) e have "i_sellerAccountId i = i_sellerAccountId j" by simp
    then obtain a where a: "i_sellerAccountId i = Some a" "i_sellerAccountId j = Some a"
      using assms i(1) by fastforce
    have "k = k'" unfolding i(2) j(2) by (simp only: order_key_seller [OF a])
    then have "fst x = fst y" by (simp only: e fst_conv)
    from inj_onD [OF d(2) this xy(1,2)] show "x = y" .
  qed
  then have "inj_on (\<lambda>e. od_targetAccountId (snd e)) (set ?m)" by (auto intro: inj_onI)
  with d(1) show ?thesis by (simp add: distinct_map o_def comp_inj_on_iff [symmetric] inj_on_imageI)
qed

lemma payment_groups_sellers:
  assumes "\<forall>i \<in> set items. i_sellerAccountId i \<noteq> None"
  shows "od_targetAccountId ` set (map snd (group_orders B (map (\<lambda>i. fromPaymentItem i p) items))) =
    i_sellerAccountId ` set items"
proof (intro equalityI subsetI)
  let ?ds = "map (\<lambda>i. fromPaymentItem i p) items"
  fix a assume "a \<in> od_targetAccountId ` set (map snd (group_orders B ?ds))"
  then obtain k g where "(k, g) \<in> set (group_orders B ?ds)" "a = od_targetAccountId g" by auto
  then show "a \<in> i_sellerAccountId ` set items" by (auto elim!: payment_group [OF assms])
next
  let ?ds = "map (\<lambda>i. fromPaymentItem i p) items"
  fix a assume "a \<in> i_sellerAccountId ` set items"
  then obtain i where i: "i \<in> set items" "a = i_sellerAccountId i" by auto
  have "order_key (fromPaymentItem i p) \<in> fst ` set (group_orders B ?ds)"
    using fold_group_keys [of order_key "group_step B" "[]" ?ds] i(1) by (auto simp: group_orders_def)
  then obtain g where g: "(order_key (fromPaymentItem i p), g) \<in> set (group_orders B ?ds)" by auto
  then obtain j where j: "j \<in> set items" "order_key (fromPaymentItem i p) = order_key (fromPaymentItem j p)"
    "od_targetAccountId g = i_sellerAccountId j" by (auto elim: payment_group [OF assms])
  obtain x y where "i_sellerAccountId i = Some x" "i_sellerAccountId j = Some y" using assms i j by blast
  with j(2,3) i(2) order_key_seller [of i x j y p] have "a = od_targetAccountId g" by simp
  with g show "a \<in> od_targetAccountId ` set (map snd (group_orders B ?ds))" by force
qed

section \<open>Properties\<close>

text \<open>
  C15: the account transactions of a payment balance: one entry per seller and one for the customer,
  all with one correlation id, the customer on the side opposite to the sellers (debit for a
  purchase, credit for a refund); every seller's amount and tax are the sums of its items, and if
  the payment's totals are the sums of its items, the customer's entry is the sum of the sellers'.
\<close>

theorem payment_transactions_balanced:
  assumes items: "\<forall>i \<in> set items. good_item B M i"
    and amount: "p_totalAmount p = (\<Sum>i\<leftarrow>items. i_totalAmount i)" "p_totalAmount p \<le> M"
    and tax: "p_taxAmount p = (\<Sum>i\<leftarrow>items. i_taxAmount i)" "p_taxAmount p \<le> M"
  shows "\<exists>sellers customer. payment_transactions B names p items kor = sellers @ [customer] \<and>
    at_accountId customer = p_customerAccountId p \<and>
    set (map at_accountId sellers) = set (map i_sellerAccountId items) \<and>
    distinct (map at_accountId sellers) \<and>
    (\<forall>t \<in> set (sellers @ [customer]). at_corelationId t = kor \<and> at_paymentId t = p_id p) \<and>
    at_type customer = (if p_type p = PURCHASE then DEBIT else CREDIT) \<and>
    (\<forall>t \<in> set sellers. at_type t = (if p_type p = PURCHASE then CREDIT else DEBIT) \<and>
       at_amount t = (\<Sum>i\<leftarrow>filter (\<lambda>i. i_sellerAccountId i = at_accountId t) items. i_totalAmount i) \<and>
       at_taxAmount t = (\<Sum>i\<leftarrow>filter (\<lambda>i. i_sellerAccountId i = at_accountId t) items. i_taxAmount i)) \<and>
    at_amount customer = (\<Sum>t\<leftarrow>sellers. at_amount t) \<and>
    at_taxAmount customer = (\<Sum>t\<leftarrow>sellers. at_taxAmount t)"
proof -
  let ?m = "seller_transactions B names p items kor"
  let ?sellers = "map snd ?m"
  have le: "(\<Sum>i\<leftarrow>items. i_totalAmount i) \<le> M" "(\<Sum>i\<leftarrow>items. i_taxAmount i) \<le> M"
    using amount tax by simp_all
  have accounts: "map at_accountId ?sellers = map fst ?m"
    using seller_transactions_entry by (fastforce simp: o_def)
  have keys: "set (map fst ?m) = set (map i_sellerAccountId items)" "distinct (map fst ?m)"
    using fold_group_keys [of i_sellerAccountId _ "[]" items] fold_group_distinct [of "[]"]
    by (simp_all add: seller_transactions_def)
  have entry: "at_type t = (if p_type p = PURCHASE then CREDIT else DEBIT) \<and>
       at_amount t = (\<Sum>i\<leftarrow>filter (\<lambda>i. i_sellerAccountId i = at_accountId t) items. i_totalAmount i) \<and>
       at_taxAmount t = (\<Sum>i\<leftarrow>filter (\<lambda>i. i_sellerAccountId i = at_accountId t) items. i_taxAmount i) \<and>
       at_corelationId t = kor \<and> at_paymentId t = p_id p" if "t \<in> set ?sellers" for t
  proof -
    from that obtain k where k: "(k, t) \<in> set ?m" by auto
    note e = seller_transactions_entry [OF k]
    from k have k': "(k, t) \<in> set (fold_group i_sellerAccountId (seller_entry B names p kor) [] items)"
      by (simp add: seller_transactions_def)
    show ?thesis
      using e seller_amounts.group_entry [OF items le(1) k'] seller_taxes.group_entry [OF items le(2) k']
      by simp
  qed
  have sums: "(\<Sum>t\<leftarrow>?sellers. at_amount t) = (\<Sum>i\<leftarrow>items. i_totalAmount i)"
    "(\<Sum>t\<leftarrow>?sellers. at_taxAmount t) = (\<Sum>i\<leftarrow>items. i_taxAmount i)"
    using seller_amounts.group_total [OF items le(1), of names p kor]
      seller_taxes.group_total [OF items le(2), of names p kor]
    by (simp_all add: seller_transactions_def o_def)
  let ?c = "customer_transaction names p items kor"
  have c: "at_accountId ?c = p_customerAccountId p" "at_corelationId ?c = kor"
    "at_paymentId ?c = p_id p" "at_type ?c = (if p_type p = PURCHASE then DEBIT else CREDIT)"
    "at_amount ?c = p_totalAmount p" "at_taxAmount ?c = p_taxAmount p"
    by (simp_all add: customer_transaction_def)
  have sellers: "\<forall>t \<in> set ?sellers. at_corelationId t = kor \<and> at_paymentId t = p_id p"
    using entry by blast
  have common: "\<forall>t \<in> set (?sellers @ [?c]). at_corelationId t = kor \<and> at_paymentId t = p_id p"
    unfolding set_append list.set ball_Un using sellers c(2,3) by blast
  show ?thesis
  proof (rule exI [of _ ?sellers], rule exI [of _ ?c], intro conjI)
    show "payment_transactions B names p items kor = ?sellers @ [?c]"
      by (simp add: payment_transactions_def)
    show "set (map at_accountId ?sellers) = set (map i_sellerAccountId items)"
      "distinct (map at_accountId ?sellers)" unfolding accounts by (rule keys)+
    show "at_amount ?c = (\<Sum>t\<leftarrow>?sellers. at_amount t)"
      "at_taxAmount ?c = (\<Sum>t\<leftarrow>?sellers. at_taxAmount t)"
      unfolding sums c using amount tax by simp_all
  qed (use common c entry in \<open>blast+\<close>)
qed

abbreviation sample_items :: "item_row list" where
  "sample_items \<equiv> [sample_item ''i1'' ''p'' ''seller'' (25 / 2), sample_item ''i2'' ''p'' ''other'' 30,
     sample_item ''i3'' ''p'' ''seller'' 10]"

lemma sample_items_good [simp]: "\<forall>i \<in> set sample_items. good_item exact_bigjs M i"
  by (simp add: good_item_def sample_defs dec_def)

theorem payment_transactions_balanced_witness:
  "\<exists>sellers customer. payment_transactions exact_bigjs (\<lambda>_. ''n'')
       (sample_payment ''p'' PURCHASE PS_COMPLETED (105 / 2)) sample_items ''k'' = sellers @ [customer] \<and>
     at_type customer = DEBIT \<and> (\<forall>t \<in> set sellers. at_type t = CREDIT) \<and>
     at_amount customer = (\<Sum>t\<leftarrow>sellers. at_amount t) \<and>
     set (map at_accountId sellers) = {Some ''seller'', Some ''other''}"
  using payment_transactions_balanced [of sample_items exact_bigjs 100
      "sample_payment ''p'' PURCHASE PS_COMPLETED (105 / 2)" "\<lambda>_. ''n''" "''k''"] sample_items_good
  by (fastforce simp: sample_payment_def sample_item_def new_item_def)

text \<open>
  C32: a payment without orders gets one order per seller, of the side its type asks for, holding
  exactly the sums of the seller's items, although the code adds with native floating-point
  additions: their drift (at most \<open>e\<close> each) is below the half unit the four-decimal column rounds
  away, so long as it totals less than 1/20000.
\<close>

theorem seller_orders_exact:
  assumes B: "bigjs_ok (env_big E)" "num_exact (env_big E) M" "native_close (env_big E) M e"
    and e: "0 \<le> e" "of_nat (length items) * e < 1 / 20000"
    and items: "\<forall>i \<in> set items. good_item (env_big E) M i \<and> i_sellerAccountId i \<noteq> None"
    and bound: "(\<Sum>i\<leftarrow>items. i_totalAmount i) + 1 \<le> M" "(\<Sum>i\<leftarrow>items. i_taxAmount i) + 1 \<le> M"
    and p: "p_customerAccountId p = Some c" "\<forall>r \<in> set (st_orders s). so_paymentId r \<noteq> p_id p"
    and fresh: "fresh_orders E s"
  shows "\<exists>t rows. generateSellerPaymentOrders E p items s = (t, Inr ()) \<and>
    st_orders t = st_orders s @ rows \<and> distinct (map so_targetAccountId rows) \<and>
    Some ` so_targetAccountId ` set rows = i_sellerAccountId ` set items \<and>
    (\<forall>r \<in> set rows. so_paymentId r = p_id p \<and> so_sourceAccountId r = c \<and>
       so_sellerOrderType r = (if p_type p = PURCHASE then CREDIT_TO_SELLER else DEBIT_FROM_SELLER) \<and>
       so_amount r =
         (\<Sum>i\<leftarrow>filter (\<lambda>i. i_sellerAccountId i = Some (so_targetAccountId r)) items. i_totalAmount i) \<and>
       so_taxAmount r =
         (\<Sum>i\<leftarrow>filter (\<lambda>i. i_sellerAccountId i = Some (so_targetAccountId r)) items. i_taxAmount i))"
proof -
  let ?B = "env_big E"
  let ?ds = "map (\<lambda>i. fromPaymentItem i p) items"
  let ?gs = "map snd (group_orders ?B ?ds)"
  have sellers: "\<forall>i \<in> set items. i_sellerAccountId i \<noteq> None" using items by blast
  have group: "\<exists>i \<in> set items. od_targetAccountId g = i_sellerAccountId i \<and>
      od_sourceAccountId g = Some c \<and> od_paymentId g = p_id p \<and>
      od_transactionType g = (if p_type p = PURCHASE then CREDIT_TO_SELLER else DEBIT_FROM_SELLER) \<and>
      od_amount g = foldl (js_add ?B) 0
        (map i_totalAmount (filter (\<lambda>j. i_sellerAccountId j = i_sellerAccountId i) items)) \<and>
      od_taxAmount g = foldl (js_add ?B) 0
        (map i_taxAmount (filter (\<lambda>j. i_sellerAccountId j = i_sellerAccountId i) items))"
    if g: "g \<in> set ?gs" for g
  proof -
    from g obtain k where "(k, g) \<in> set (group_orders ?B ?ds)" by auto
    then show ?thesis by (rule payment_group [OF sellers]) (use p(1) in auto)
  qed
  have "\<forall>d \<in> set ?gs. od_sourceAccountId d \<noteq> None \<and> od_targetAccountId d \<noteq> None"
    using group sellers by fastforce
  moreover have "\<forall>d \<in> set ?gs. \<forall>r \<in> set (st_orders s). \<not> same_order d r"
    using group p(2) unfolding same_order_def by metis
  ultimately obtain t rows where t: "forS ?gs (addTransaction E) s = (t, Inr ())"
    "st_orders t = st_orders s @ rows" and rows: "list_all2 (order_row_of E) ?gs rows"
    using add_new_orders [OF fresh _ _ payment_groups_distinct [OF sellers]] by blast
  have targets: "map (Some \<circ> so_targetAccountId) rows = map od_targetAccountId ?gs"
    using rows by (induction rule: list_all2_induct)
      (auto simp: order_row_of_def order_columns_def order_fromDto_def)
  have exact: "money ?B (foldl (js_add ?B) 0 (map f (filter P items))) =
      (\<Sum>i\<leftarrow>filter P items. f i)"
    if f: "\<forall>i \<in> set items. 0 \<le> f i \<and> dec4 (f i)" "(\<Sum>i\<leftarrow>items. f i) + 1 \<le> M" for f P
  proof (rule money_absorbs [OF B(1,2)])
    have le: "(\<Sum>i\<leftarrow>filter P items. f i) \<le> (\<Sum>i\<leftarrow>items. f i)"
      by (rule sum_list_filter_le) (use f in auto)
    have pos: "0 \<le> (\<Sum>i\<leftarrow>filter P items. f i)" by (rule sum_list_nonneg) (use f in auto)
    show "\<bar>\<Sum>i\<leftarrow>filter P items. f i\<bar> \<le> M" using le pos f(2) by simp
    show "dec4 (\<Sum>i\<leftarrow>filter P items. f i)" by (rule dec_sum_list) (use f in auto)
    have "of_nat (length (filter P items)) * e \<le> of_nat (length items) * e"
      using e(1) by (intro mult_right_mono) auto
    then have small: "of_nat (length (filter P items)) * e < 1 / 20000" using e(2) by linarith
    have "\<bar>foldl (js_add ?B) 0 (map f (filter P items)) - (0 + sum_list (map f (filter P items)))\<bar>
        \<le> of_nat (0 + length (map f (filter P items))) * e"
      by (rule native_sum_error [OF B(3) e(1)]) (use f le small in auto)
    then show "\<bar>foldl (js_add ?B) 0 (map f (filter P items)) - (\<Sum>i\<leftarrow>filter P items. f i)\<bar> < 1 / 20000"
      using small by simp
  qed
  have row: "so_paymentId r = p_id p \<and> so_sourceAccountId r = c \<and>
       so_sellerOrderType r = (if p_type p = PURCHASE then CREDIT_TO_SELLER else DEBIT_FROM_SELLER) \<and>
       so_amount r =
         (\<Sum>i\<leftarrow>filter (\<lambda>i. i_sellerAccountId i = Some (so_targetAccountId r)) items. i_totalAmount i) \<and>
       so_taxAmount r =
         (\<Sum>i\<leftarrow>filter (\<lambda>i. i_sellerAccountId i = Some (so_targetAccountId r)) items. i_taxAmount i)"
    if r: "r \<in> set rows" for r
  proof -
    from rows r obtain g where g: "g \<in> set ?gs" "order_row_of E g r"
      by (meson list_all2_in_set_right)
    from g(2) obtain n a k where ak: "od_sourceAccountId g = Some a" "od_targetAccountId g = Some k"
      "r = order_columns ?B (order_fromDto E g n a k)" by (auto simp: order_row_of_def)
    note grp = group [OF g(1)]
    have f: "\<forall>i \<in> set items. 0 \<le> i_totalAmount i \<and> dec4 (i_totalAmount i)"
      "\<forall>i \<in> set items. 0 \<le> i_taxAmount i \<and> dec4 (i_taxAmount i)"
      using items by (auto simp: good_item_def)
    show ?thesis
      using grp ak exact [OF f(1) bound(1)] exact [OF f(2) bound(2)]
      by (auto simp: order_columns_def order_fromDto_def)
  qed
  have "map Some (map so_targetAccountId rows) = map od_targetAccountId ?gs"
    using targets by (simp add: o_def)
  then have "distinct (map so_targetAccountId rows)"
    using payment_groups_distinct [OF sellers, of ?B p] by (metis distinct_map)
  moreover have "Some ` so_targetAccountId ` set rows = i_sellerAccountId ` set items"
  proof -
    have "Some ` so_targetAccountId ` set rows = set (map (Some \<circ> so_targetAccountId) rows)"
      by (simp only: set_map image_comp)
    then show ?thesis
      using payment_groups_sellers [OF sellers, of ?B p] unfolding targets set_map by simp
  qed
  ultimately show ?thesis
    using t row
    by (intro exI [of _ t] exI [of _ rows])
      (simp add: generateSellerPaymentOrders_def addSellerPaymentOrders_def)
qed

theorem seller_orders_exact_witness:
  "\<exists>t rows. generateSellerPaymentOrders (sample_env OS_COMPLETED)
       (sample_payment ''p'' PURCHASE PS_COMPLETED (105 / 2)) sample_items sample_store = (t, Inr ()) \<and>
     st_orders t = rows \<and>
     (\<forall>r \<in> set rows. so_sellerOrderType r = CREDIT_TO_SELLER \<and> so_paymentId r = ''p'')"
proof -
  have "fresh_orders (sample_env OS_COMPLETED) sample_store"
    by (simp add: fresh_orders_def sample_store_def)
  moreover have "\<forall>i \<in> set sample_items.
      good_item (env_big (sample_env OS_COMPLETED)) 100 i \<and> i_sellerAccountId i \<noteq> None"
    using sample_items_good by (simp add: sample_item_def)
  ultimately show ?thesis
    using seller_orders_exact [of "sample_env OS_COMPLETED" 100 0 sample_items
        "sample_payment ''p'' PURCHASE PS_COMPLETED (105 / 2)" "''customer''" sample_store]
    by (fastforce simp: sample_payment_def sample_item_def new_item_def sample_store_def)
qed

lemma group_orders_not_open:
  "g \<in> set (map snd (group_orders B ds)) \<Longrightarrow> od_openPayment g = None"
  using group_orders_entry by fastforce

text \<open>
  No order ever becomes an open-payment order: after \<open>generateSellerPaymentOrders\<close>, for an open
  payment too, an order with \<open>openPayment\<close> set is one that had it before. The grouping literal
  leaves out the field that \<open>fromPaymentItem\<close> copies from the payment.
\<close>

lemma generated_orders_never_open:
  assumes "generateSellerPaymentOrders E p items s = (t, res)"
    and "row \<in> set (st_orders t)" and "so_openPayment row"
  shows "\<exists>old \<in> set (st_orders s). so_id old = so_id row \<and> so_openPayment old"
proof -
  let ?P = "\<lambda>u. \<forall>r \<in> set (st_orders u). so_openPayment r \<longrightarrow>
      (\<exists>old \<in> set (st_orders s). so_id old = so_id r \<and> so_openPayment old)"
  let ?ds = "map snd (group_orders (env_big E) (map (\<lambda>i. fromPaymentItem i p) items))"
  have "?P t"
  proof (rule forS_invariant [of ?ds "addTransaction E" s t res])
    show "forS ?ds (addTransaction E) s = (t, res)"
      using assms(1) by (simp add: generateSellerPaymentOrders_def addSellerPaymentOrders_def)
    show "?P s" by blast
    fix d u v res'
    assume d: "d \<in> set ?ds" and P: "?P u" and v: "addTransaction E d u = (v, res')"
    note closed = group_orders_not_open [OF d]
    show "?P v"
    proof (cases "List.find (same_order d) (st_orders u)")
      case (Some r)
      then have "st_orders v =
          upsert so_id (order_columns (env_big E) (update_order E d r)) (st_orders u)"
        using v by (auto simp: addTransaction_def run_simps save_order_def)
      then show ?thesis
        using P find_Some_in [OF Some] by (auto dest!: upsert_in simp: order_columns_def update_order_def)
    next
      case None
      then have "st_orders v = st_orders u \<or>
          (\<exists>i a k. st_orders v =
             upsert so_id (order_columns (env_big E) (order_fromDto E d i a k)) (st_orders u))"
        using v by (auto simp: addTransaction_def run_simps save_order_def not_null_def newId_def
            of_option_def split: option.splits) blast
      then show ?thesis
        using P closed by (auto dest!: upsert_in simp: order_columns_def order_fromDto_def)
    qed
  qed
  with assms(2,3) show ?thesis by blast
qed

lemma generated_orders_never_open_witness:
  "\<exists>t res. generateSellerPaymentOrders (sample_env OS_COMPLETED)
       (sample_payment ''p'' PURCHASE PS_WAITING 10 \<lparr>p_openPayment := True\<rparr>)
       [sample_item ''i1'' ''p'' ''seller'' 10] sample_store = (t, res) \<and>
     (\<forall>row \<in> set (st_orders t). \<not> so_openPayment row)"
proof -
  let ?run = "generateSellerPaymentOrders (sample_env OS_COMPLETED)
       (sample_payment ''p'' PURCHASE PS_WAITING 10 \<lparr>p_openPayment := True\<rparr>)
       [sample_item ''i1'' ''p'' ''seller'' 10] sample_store"
  obtain t res where run: "?run = (t, res)" by fastforce
  have "\<not> so_openPayment row" if "row \<in> set (st_orders t)" for row
    using generated_orders_never_open [OF run that] by (auto simp: sample_store_def)
  with run show ?thesis by blast
qed

lemma save_dtos_shape:
  assumes "forS dtos (save_dto E) s = (t, Inr ())"
    and "inj (env_uuid E)" and "\<forall>r \<in> set (st_transactions s). \<forall>n \<ge> st_seq s. tr_id r \<noteq> env_uuid E n"
  shows "\<exists>rows. st_transactions t = st_transactions s @ rows \<and>
    list_all2 (\<lambda>d r. \<exists>i a. at_accountId d = Some a \<and>
      r = transaction_columns (env_big E) (transaction_toEntity E i a d)) dtos rows"
  using assms
proof (induction dtos arbitrary: s)
  case (Cons d dtos)
  from Cons.prems(1) obtain u where u: "save_dto E d s = (u, Inr ())" "forS dtos (save_dto E) u = (t, Inr ())"
    by (auto simp: res_simps)
  from u(1) obtain a where a: "at_accountId d = Some a"
    and u': "u = save_transaction (env_big E) (transaction_toEntity E (env_uuid E (st_seq s)) a d)
        (s\<lparr>st_seq := Suc (st_seq s)\<rparr>)"
    by (auto simp: save_dto_def res_simps not_null_def)
  let ?r = "transaction_columns (env_big E) (transaction_toEntity E (env_uuid E (st_seq s)) a d)"
  have i: "tr_id ?r = env_uuid E (st_seq s)"
    by (simp add: transaction_columns_def transaction_toEntity_def)
  have "tr_id ?r \<notin> tr_id ` set (st_transactions s)" unfolding i using Cons.prems(3) by force
  then have saved: "st_transactions u = st_transactions s @ [?r]" "st_seq u = Suc (st_seq s)"
    using upsert_fresh [of tr_id ?r] by (simp_all add: u' save_transaction_def)
  have "\<forall>r \<in> set (st_transactions u). \<forall>n \<ge> st_seq u. tr_id r \<noteq> env_uuid E n"
    using saved i Cons.prems(2,3) by (auto dest: injD)
  from Cons.IH [OF u(2) Cons.prems(2) this] obtain rows where
    "st_transactions t = st_transactions u @ rows"
    "list_all2 (\<lambda>d r. \<exists>i a. at_accountId d = Some a \<and>
      r = transaction_columns (env_big E) (transaction_toEntity E i a d)) dtos rows" by blast
  with saved a show ?case by (intro exI [of _ "?r # rows"]) auto
qed (simp add: returnS_def)

text \<open>
  \<open>createNew\<close> replaces: booking a payment's transactions again removes every earlier entry
  of the same account, payment and direction, so afterwards the entries that are not rounding
  adjustments and match the new ones are the new ones only; rounding adjustments and the entries
  of other payments survive. When the save fails, the old entries are already gone.
\<close>

lemma createNew_replaces:
  assumes "createNew E dtos s = (t, Inr ())" and "inj (env_uuid E)"
    and "\<forall>r \<in> set (st_transactions s). \<forall>n \<ge> st_seq s. tr_id r \<noteq> env_uuid E n"
  shows "\<exists>rows. st_transactions t =
      filter (\<lambda>r. \<not> old_transaction dtos r) (st_transactions s) @ rows \<and>
    length rows = length dtos \<and>
    (\<forall>r \<in> set rows. old_transaction dtos r) \<and>
    (\<forall>r \<in> set (st_transactions s). tr_roundingOperationId r \<noteq> None \<longrightarrow> r \<in> set (st_transactions t))"
proof -
  let ?s = "deleteOldTransactions dtos s"
  from assms(1) have run: "forS dtos (save_dto E) ?s = (t, Inr ())"
    by (simp add: createNew_def save_dtos_def res_simps)
  from save_dtos_shape [OF run assms(2)] assms(3) obtain rows where rows:
    "st_transactions t = st_transactions ?s @ rows"
    "list_all2 (\<lambda>d r. \<exists>i a. at_accountId d = Some a \<and>
      r = transaction_columns (env_big E) (transaction_toEntity E i a d)) dtos rows"
    by (auto simp: deleteOldTransactions_def)
  have "old_transaction dtos r" if "r \<in> set rows" for r
    using list_all2_in_set_right [OF rows(2) that]
    by (force simp: old_transaction_def list_ex_iff transaction_columns_def transaction_toEntity_def)
  moreover have "\<not> old_transaction dtos r" if "tr_roundingOperationId r \<noteq> None" for r
    using that by (simp add: old_transaction_def list_ex_iff)
  ultimately show ?thesis
    using rows list_all2_lengthD [OF rows(2)] by (auto simp: deleteOldTransactions_def)
qed

lemma sample_createNew:
  "snd (createNew (sample_env OS_COMPLETED) (payment_transactions exact_bigjs (\<lambda>_. ''n'')
     (sample_payment ''p'' PURCHASE PS_COMPLETED 10) [sample_item ''i1'' ''p'' ''seller'' 10] ''k'')
     sample_store) = Inr ()"
  by code_simp

lemma createNew_replaces_witness:
  "\<exists>t rows. createNew (sample_env OS_COMPLETED) (payment_transactions exact_bigjs (\<lambda>_. ''n'')
       (sample_payment ''p'' PURCHASE PS_COMPLETED 10) [sample_item ''i1'' ''p'' ''seller'' 10] ''k'')
       sample_store = (t, Inr ()) \<and> st_transactions t = rows"
proof -
  let ?d = "payment_transactions exact_bigjs (\<lambda>_. ''n'')
       (sample_payment ''p'' PURCHASE PS_COMPLETED 10) [sample_item ''i1'' ''p'' ''seller'' 10] ''k''"
  obtain t where t: "createNew (sample_env OS_COMPLETED) ?d sample_store = (t, Inr ())"
    using sample_createNew by (metis prod.collapse)
  from createNew_replaces [OF this] have
    "\<exists>rows. st_transactions t = rows \<and> length rows = length ?d"
    by (auto simp: sample_store_def)
  with t show ?thesis by blast
qed

end
