(* ===== verification/Channel_Operations.thy ===== *)
theory Channel_Operations
  imports Entities "HOL-Library.List_Lexorder" "HOL-Library.Char_ord"
begin

text \<open>
  \<open>payment-operation-management.service.ts\<close>: the operations the core runs in the payment channels,
  their records, the distribution of a refund over the captured operations, and the settlement of
  refunds with its rounding entries. Identifiers are ordered as byte strings (\<open>ORDER BY id\<close>,
  \<open>localeCompare\<close>). What the code tests of a message's run-time types holds of the typed records
  here.
\<close>

section \<open>Recording a channel's answer\<close>

definition fee_columns :: "admin_settings \<Rightarrow> channel_status \<Rightarrow> channel_operation_row \<Rightarrow> channel_operation_row"
where
  "fee_columns stgs result r =
     r\<lparr>op_providerFee := nullish (cs_providerFee result) (op_providerFee r),
       op_feeCutInstantly := nullish (cs_feeCutInstantly result) (op_feeCutInstantly r),
       op_providerFeeDebitFrom := (if as_sellerPaysPaymentServiceFee stgs then SELLER else PLATFORM)\<rparr>"

text \<open>The sum of a plan's nominal amounts; a text \<open>big.js\<close> cannot read throws.\<close>

definition add_nominal :: "bigjs \<Rightarrow> rat \<Rightarrow> refund_line \<Rightarrow> rat res" where
  "add_nominal B acc line = bindE (bigOf B (rl_nominalAmount line)) (\<lambda>x. Inr (big_plus B acc x))"

definition plan_nominal :: "bigjs \<Rightarrow> refund_line list \<Rightarrow> rat res" where
  "plan_nominal B lines = foldE (add_nominal B) 0 lines"

definition known_status :: "operation_status \<Rightarrow> bool" where
  "known_status st \<longleftrightarrow> st \<in> {OS_WAITING, OS_READY, OS_COMPLETED, OS_FAILED}"

definition invalid_settlement :: exn where
  "invalid_settlement = BadRequest ''Invalid channel refund settlement; reconciliation is required''"

definition rounding_transaction ::
  "env \<Rightarrow> string \<Rightarrow> string \<Rightarrow> account_row \<Rightarrow> string \<Rightarrow> string \<Rightarrow> string \<Rightarrow> direction \<Rightarrow> rat \<Rightarrow>
   account_transaction_row"
where
  "rounding_transaction E i corelation account pid opid item dir amount =
     \<lparr>tr_id = i, tr_corelationId = corelation, tr_accountId = a_id account,
      tr_accountName = a_name account, tr_paymentId = pid, tr_paymentSellerOrderId = None,
      tr_roundingOperationId = Some opid, tr_type = dir, tr_status = PS_COMPLETED,
      tr_amount = amount, tr_taxAmount = 0, tr_creationDate = env_now E,
      tr_updateDate = env_now E, tr_operationNote = [],
      tr_description = ''Refund rounding adjustment for '' @ opid @ ''/'' @ item\<rparr>"

definition booked ::
  "env \<Rightarrow> channel_operation_row \<Rightarrow> string \<Rightarrow> string \<Rightarrow> rat \<Rightarrow> account_row \<Rightarrow> account_row \<Rightarrow>
   string \<Rightarrow> string \<Rightarrow> string \<Rightarrow> store \<Rightarrow> store"
where
  "booked E operation pid item difference customer rounding corelation i j s =
     (let amount = big_num (env_big E) \<bar>difference\<bar> in
      save_transaction (env_big E) (rounding_transaction E j corelation rounding pid (op_id operation)
          item (if difference > 0 then DEBIT else CREDIT) amount)
       (save_transaction (env_big E) (rounding_transaction E i corelation customer pid (op_id operation)
          item (if difference > 0 then CREDIT else DEBIT) amount) s))"

text \<open>
  The two rounding entries of a settled line: the customer is credited and the rounding account
  debited when the provider pays back more than the nominal amount, the reverse when less.
\<close>

definition book_rounding ::
  "env \<Rightarrow> channel_operation_row \<Rightarrow> refund_plan \<Rightarrow> string \<Rightarrow> string \<Rightarrow> rat \<Rightarrow> (store, unit) act"
where
  "book_rounding E operation plan pid item difference =
     bindS (guardS (falsy (rp_roundingAccountId plan))
       (BadRequest ''Refund rounding account is missing'')) (\<lambda>_.
     bindS (readS (\<lambda>s. find_payment s pid)) (\<lambda>p.
     bindS (liftS (of_option (JsError ''EntityNotFoundError'') p)) (\<lambda>payment.
     bindS (guardS (falsy (p_customerAccountId payment) \<or>
         p_customerAccountId payment = rp_roundingAccountId plan)
       (BadRequest ''Invalid refund rounding counterparties'')) (\<lambda>_.
     bindS (newId E) (\<lambda>corelation.
     bindS (readS (\<lambda>s. find_account s (nullish (p_customerAccountId payment) []))) (\<lambda>c.
     bindS (liftS (of_option (BadRequest ''Refund rounding account not found'') c)) (\<lambda>customer.
     bindS (readS (\<lambda>s. find_account s (nullish (rp_roundingAccountId plan) []))) (\<lambda>r.
     bindS (liftS (of_option (BadRequest ''Refund rounding account not found'') r)) (\<lambda>rounding.
     bindS (newId E) (\<lambda>i.
     bindS (newId E) (\<lambda>j.
     modifyS (booked E operation pid item difference customer rounding corelation i j))))))))))))"

definition settle_line ::
  "env \<Rightarrow> channel_operation_row \<Rightarrow> refund_plan \<Rightarrow> string \<Rightarrow> string list \<Rightarrow> refund_settlement \<Rightarrow>
   (store, string list) act"
where
  "settle_line E operation plan pid settled settlement =
     (case List.find (\<lambda>c. rl_originalPaymentItemId c = rs_originalPaymentItemId settlement)
         (rp_lines plan) of
        None \<Rightarrow> throwS (BadRequest ''Channel refund settlement amount or line mismatch'')
      | Some line \<Rightarrow>
          bindS (guardS (rs_providerAmount settlement \<noteq> rl_providerAmount line)
            (BadRequest ''Channel refund settlement amount or line mismatch'')) (\<lambda>_.
          if rl_originalPaymentItemId line \<in> set settled then returnS settled
          else
            bindS (liftS (bigOf (env_big E) (rl_providerAmount line))) (\<lambda>provider.
            bindS (liftS (bigOf (env_big E) (rl_nominalAmount line))) (\<lambda>nominal.
            let difference = big_minus (env_big E) provider nominal in
            bindS (if difference = 0 then returnS ()
                   else book_rounding E operation plan pid (rl_originalPaymentItemId line) difference) (\<lambda>_.
            returnS (settled @ [rl_originalPaymentItemId line]))))))"

text \<open>The test on the operation, its plan and the settlements: \<open>Inr\<close> the plan and the settlements.\<close>

definition check_settlement ::
  "env \<Rightarrow> channel_operation_row \<Rightarrow> channel_status \<Rightarrow> string \<Rightarrow> (refund_plan \<times> refund_settlement list) res"
where
  "check_settlement E operation result pid =
     (case (op_refundPlan operation, cs_refundSettlements result) of
        (Some plan, Some settlements) \<Rightarrow>
          bindE (throwIf (op_operationType operation \<noteq> REFUND \<or>
              cs_paymentChannelId result \<noteq> Some (op_paymentChannelId operation) \<or>
              falsy (cs_paymentChannelOperationId result) \<or>
              truthy (op_operationId operation) \<and>
                cs_paymentChannelOperationId result \<noteq> op_operationId operation \<or>
              op_paymentId operation \<noteq> pid \<or> \<not> known_status (cs_paymentStatus result) \<or>
              \<not> distinct (map rs_originalPaymentItemId settlements)) invalid_settlement) (\<lambda>_.
          bindE (plan_nominal (env_big E) (rp_lines plan)) (\<lambda>total.
          bindE (throwIf (total \<noteq> op_amount operation \<or>
              cs_paymentStatus result = OS_COMPLETED \<and> length settlements \<noteq> length (rp_lines plan) \<or>
              cs_paymentStatus result = OS_FAILED \<and> settlements \<noteq> []) invalid_settlement) (\<lambda>_.
          Inr (plan, settlements))))
      | _ \<Rightarrow> Inl invalid_settlement)"

definition saveRefundSettlementRecord ::
  "env \<Rightarrow> channel_operation_row \<Rightarrow> channel_status \<Rightarrow> string \<Rightarrow> (store, channel_operation_row) act"
where
  "saveRefundSettlementRecord E record result pid =
     bindS (readS st_settings) (\<lambda>settings.
     transactionS (
       bindS (readS (\<lambda>s. find_operation s (op_id record))) (\<lambda>found.
       bindS (liftS (of_option (JsError ''EntityNotFoundError'') found)) (\<lambda>operation.
       bindS (liftS (check_settlement E operation result pid)) (\<lambda>(plan, settlements).
       let settled = unique (nullish (op_settledRefundItemIds operation) []) in
       bindS (guardS (op_status operation = OS_COMPLETED \<and> cs_paymentStatus result \<noteq> OS_COMPLETED)
         (Conflict ''Completed channel refund cannot regress'')) (\<lambda>_.
       bindS (guardS (list_ex (\<lambda>i. i \<notin> rs_originalPaymentItemId ` set settlements) settled)
         (Conflict ''Channel refund settlement cannot lose completed lines'')) (\<lambda>_.
       bindS (foldS (settle_line E operation plan pid) settled settlements) (\<lambda>settled'.
       let operation' = (fee_columns settings result operation)
         \<lparr>op_operationId := cs_paymentChannelOperationId result,
          op_status := cs_paymentStatus result, op_settledRefundItemIds := Some settled'\<rparr> in
       bindS (modifyS (save_operation (env_big E) operation')) (\<lambda>_.
       returnS operation')))))))))"

text \<open>The new record, besides what the channel answered; the callers read its status back.\<close>

definition savePaymentChannelRecord ::
  "env \<Rightarrow> channel_operation_row \<Rightarrow> channel_status \<Rightarrow> string \<Rightarrow> (store, channel_operation_row) act"
where
  "savePaymentChannelRecord E record result pid =
     (if op_operationType record = REFUND \<and> op_refundPlan record \<noteq> None
      then saveRefundSettlementRecord E record result pid
      else
        bindS (readS st_settings) (\<lambda>stgs.
        let record' = (fee_columns stgs result record)
          \<lparr>op_operationId := (case cs_paymentChannelOperationId result of
             None \<Rightarrow> op_operationId record | x \<Rightarrow> x),
           op_paymentId := pid,
           op_paymentChannelId := nullish (cs_paymentChannelId result) (op_paymentChannelId record),
           op_status := cs_paymentStatus result\<rparr> in
        bindS (modifyS (save_operation (env_big E) record')) (\<lambda>_.
        returnS record')))"

section \<open>Totals and refund allocations\<close>

definition operations_with :: "store \<Rightarrow> string \<Rightarrow> operation_status set \<Rightarrow> channel_operation_row list" where
  "operations_with s pid sts =
     filter (\<lambda>r. op_paymentId r = pid \<and> op_status r \<in> sts) (st_operations s)"

definition totalPaidOrAuthorizedOf :: "env \<Rightarrow> string \<Rightarrow> store \<Rightarrow> rat" where
  "totalPaidOrAuthorizedOf E pid s =
     addN (env_big E) (map op_amount (operations_with s pid {OS_READY, OS_COMPLETED}))"

text \<open>
  The loop over the captures: the part of the rest that falls to one of them, proportional to what
  it has left and rounded down to four decimals; the last one with anything left takes the rest.
\<close>

definition share :: "bigjs \<Rightarrow> rat \<Rightarrow> rat \<Rightarrow> rat \<Rightarrow> rat" where
  "share B remaining remainingAvailable available =
     (if remainingAvailable = 0 then 0
      else if remainingAvailable = available then remaining
      else big_num B (big_round B 4 0
        (big_div B (big_times B remaining available) remainingAvailable)))"

fun allocate :: "bigjs \<Rightarrow> rat \<Rightarrow> rat \<Rightarrow> ('o \<times> rat) list \<Rightarrow> ('o \<times> rat) list" where
  "allocate B remaining remainingAvailable [] = []"
| "allocate B remaining remainingAvailable ((operation, available) # rest) =
     (let amount = share B remaining remainingAvailable available in
      (operation, amount) #
      allocate B (minusN B remaining [amount]) (minusN B remainingAvailable [available]) rest)"

definition available_of ::
  "bigjs \<Rightarrow> channel_operation_row list \<Rightarrow> channel_operation_row \<Rightarrow> rat"
where
  "available_of B previousRefunds operation =
     minusN B (op_amount operation)
       [foldl (\<lambda>sum refund. addN B [sum, op_amount refund]) 0
          (filter (\<lambda>r. op_originalOperationId r = Some (op_id operation)) previousRefunds)]"

definition refundCaptureAllocations ::
  "bigjs \<Rightarrow> channel_operation_row list \<Rightarrow> channel_operation_row list \<Rightarrow> rat \<Rightarrow>
   (channel_operation_row \<times> rat) list res"
where
  "refundCaptureAllocations B ops previousRefunds amount =
     (let available = map (available_of B previousRefunds) ops;
          remainingAvailable = addN B available in
      if list_ex (\<lambda>a. a < 0) available \<or> amount > remainingAvailable
      then Inl (BadRequest ''Refund exceeds the remaining captured channel amount'')
      else Inr (filter (\<lambda>(_, a). a > 0)
        (allocate B amount remainingAvailable (zip ops available))))"

definition plan_mismatch ::
  "bigjs \<Rightarrow> (channel_operation_row \<times> rat) list \<Rightarrow> refund_plan \<Rightarrow> bool res"
where
  "plan_mismatch B allocations plan =
     (case List.find (\<lambda>(r, _). op_id r = rp_originalOperationId plan) allocations of
        None \<Rightarrow> Inr True
      | Some (r, amount) \<Rightarrow>
          if Some (rp_originalChannelOperationId plan) \<noteq> op_operationId r then Inr True
          else bindE (plan_nominal B (rp_lines plan)) (\<lambda>total. Inr (total \<noteq> amount)))"

definition validateRefundPlanAllocations ::
  "bigjs \<Rightarrow> refund_plan list \<Rightarrow> (channel_operation_row \<times> rat) list \<Rightarrow> unit res"
where
  "validateRefundPlanAllocations B plans allocations =
     (let mismatch = BadRequest ''Channel refund plan does not match the reserved capture amount'' in
      bindE (throwIf (\<not> distinct (map rp_originalOperationId plans)) mismatch) (\<lambda>_.
      foldE (\<lambda>_ plan. bindE (plan_mismatch B allocations plan) (\<lambda>bad. throwIf bad mismatch)) () plans))"

section \<open>Preparing a refund in the channels\<close>

text \<open>The lines of the request as the channels get them: item id and amount with four decimals.\<close>

definition prepare_line ::
  "bigjs \<Rightarrow> item_row list \<Rightarrow> refund_request_item_row \<Rightarrow> (string \<times> string) res"
where
  "prepare_line B items item =
     (let bad = BadRequest ''Refund original line or historical amount is invalid'' in
      case by_key i_id items (ri_paymentItemId item) of
        None \<Rightarrow> Inl bad
      | Some original \<Rightarrow>
          if ri_refundAmount item \<le> 0 \<or> ri_refundAmount item > i_totalAmount original \<or>
             ri_refundAmount item \<noteq> big_round B 4 1 (ri_refundAmount item)
          then Inl bad
          else Inr (ri_paymentItemId item, big_toFixed4 B (ri_refundAmount item)))"

definition big_or_zero :: "bigjs \<Rightarrow> string \<Rightarrow> rat" where
  "big_or_zero B s = nullish (big_parse B s) 0"

definition line_invalid :: "bigjs \<Rightarrow> (string \<times> string) list \<Rightarrow> refund_line \<Rightarrow> bool" where
  "line_invalid B lines line \<longleftrightarrow>
     \<not> plain_decimal 4 (rl_nominalAmount line) \<or> \<not> plain_decimal 4 (rl_providerAmount line) \<or>
     big_or_zero B (rl_nominalAmount line) \<le> 0 \<or> big_or_zero B (rl_providerAmount line) \<le> 0 \<or>
     \<not> list_ex (\<lambda>(i, nominal). i = rl_originalPaymentItemId line \<and>
         big_or_zero B nominal \<ge> big_or_zero B (rl_nominalAmount line)) lines"

text \<open>The account the channel names for the rounding is dropped: the core sets its own.\<close>

definition accept_plan ::
  "bigjs \<Rightarrow> channel_operation_row list \<Rightarrow> (string \<times> string) list \<Rightarrow> string \<Rightarrow> refund_plan list \<Rightarrow>
   refund_plan \<Rightarrow> refund_plan list res"
where
  "accept_plan B ops lines channelId plans plan =
     (let bad = BadRequest ''Channel returned invalid refund source or line amounts'' in
      case by_key op_id ops (rp_originalOperationId plan) of
        None \<Rightarrow> Inl bad
      | Some source \<Rightarrow>
          if op_paymentChannelId source \<noteq> channelId \<or>
             Some (rp_originalChannelOperationId plan) \<noteq> op_operationId source \<or>
             rp_originalOperationId plan \<in> set (map rp_originalOperationId plans) \<or>
             rp_lines plan = [] \<or> \<not> distinct (map rl_originalPaymentItemId (rp_lines plan)) \<or>
             list_ex (line_invalid B lines) (rp_lines plan)
          then Inl bad
          else Inr (plans @ [plan\<lparr>rp_roundingAccountId := None\<rparr>]))"

definition capture_of :: "channel_operation_row \<Rightarrow> refund_capture" where
  "capture_of r =
     \<lparr>rc_originalOperationId = op_id r, rc_originalChannelOperationId = op_operationId r,
      rc_paymentChannelId = op_paymentChannelId r, rc_amount = op_amount r\<rparr>"

definition planned_for :: "bigjs \<Rightarrow> refund_plan list \<Rightarrow> string \<Rightarrow> rat" where
  "planned_for B plans i =
     foldl (\<lambda>acc l. big_plus B acc (big_or_zero B (rl_nominalAmount l))) 0
       (filter (\<lambda>l. rl_originalPaymentItemId l = i) (concat (map rp_lines plans)))"

definition has_rounding :: "bigjs \<Rightarrow> refund_plan \<Rightarrow> bool" where
  "has_rounding B plan \<longleftrightarrow>
     list_ex (\<lambda>l. big_or_zero B (rl_nominalAmount l) \<noteq> big_or_zero B (rl_providerAmount l)) (rp_lines plan)"

text \<open>The completed captures of a purchase, ordered by id.\<close>

definition completed_captures :: "store \<Rightarrow> string \<Rightarrow> channel_operation_row list" where
  "completed_captures s pid =
     sort_key op_id (filter (\<lambda>r. op_paymentId r = pid \<and> op_status r = OS_COMPLETED \<and>
       op_operationType r = PURCHASE) (st_operations s))"

definition refunds_of :: "store \<Rightarrow> channel_operation_row list \<Rightarrow> channel_operation_row list" where
  "refunds_of s ops =
     filter (\<lambda>r. op_operationType r = REFUND \<and> op_originalOperationId r \<in> Some ` op_id ` set ops)
       (st_operations s)"

definition check_rounding_account ::
  "env \<Rightarrow> payment_row \<Rightarrow> refund_plan list \<Rightarrow> (store, string option) act"
where
  "check_rounding_account E purchase plans s =
     (if \<not> list_ex (has_rounding (env_big E)) plans then (s, Inr None)
      else let billing = as_billingAccountId (st_settings s);
               account = (if falsy billing then None else find_account s (nullish billing []))
           in case account of
                None \<Rightarrow> (s, Inl (BadRequest ''An active platform billing account is required''))
              | Some a \<Rightarrow>
                  if a_deactivated a \<or> a_isExternal a \<or> a_type a \<noteq> COMMERCIAL \<or>
                     billing = p_customerAccountId purchase
                  then (s, Inl (BadRequest ''An active platform billing account is required''))
                  else (s, Inr billing))"

definition prepareRefundChannelPlan ::
  "env \<Rightarrow> refund_request_item_row list \<Rightarrow> payment_row \<Rightarrow> item_row list \<Rightarrow>
   (store, refund_plan list) act"
where
  "prepareRefundChannelPlan E requested purchase items =
     bindS (readS (\<lambda>s. completed_captures s (p_id purchase))) (\<lambda>ops.
     bindS (guardS (ops = [] \<or>
         list_ex (\<lambda>r. falsy (op_operationId r) \<or> op_currency r \<noteq> p_currency purchase) ops \<or>
         p_paymentStatus purchase \<noteq> PS_COMPLETED \<or> p_type purchase \<noteq> PURCHASE)
       (BadRequest ''Completed purchase channel operations are required for refund preparation'')) (\<lambda>_.
     bindS (liftS (mapE (prepare_line (env_big E) items) requested)) (\<lambda>unsorted.
     let lines = sort_key fst unsorted in
     bindS (guardS (lines = [] \<or> \<not> distinct (map fst lines))
       (BadRequest ''Refund original line IDs must be unique and nonempty'')) (\<lambda>_.
     bindS (foldS (\<lambda>plans channelId.
         let req = \<lparr>pr_purchasePaymentId = p_id purchase, pr_purchaseAmount = p_totalAmount purchase,
                    pr_currency = p_currency purchase, pr_captures = map capture_of ops,
                    pr_items = lines\<rparr> in
         bindS (request (EvPrepare channelId req) (\<lambda>log. env_channel_prepare E log channelId req)) (\<lambda>prepared.
         liftS (foldE (accept_plan (env_big E) ops lines channelId) plans prepared)))
       [] (unique (map op_paymentChannelId ops))) (\<lambda>plans.
     bindS (guardS (list_ex (\<lambda>(i, nominal).
         planned_for (env_big E) plans i > big_or_zero (env_big E) nominal) lines)
       (BadRequest ''Channel plans exceed the requested refund line amount'')) (\<lambda>_.
     bindS (readS (\<lambda>s. refunds_of s ops)) (\<lambda>previousRefunds.
     bindS (liftS (if plans = [] then Inr ()
         else bindE (refundCaptureAllocations (env_big E) ops previousRefunds
                (big_num (env_big E) (foldl (\<lambda>acc l. big_plus (env_big E) acc
                  (big_or_zero (env_big E) (snd l))) 0 lines)))
              (validateRefundPlanAllocations (env_big E) plans))) (\<lambda>_.
     bindS (check_rounding_account E purchase plans) (\<lambda>roundingAccountId.
     returnS (map (\<lambda>plan. if has_rounding (env_big E) plan
                          then plan\<lparr>rp_roundingAccountId := roundingAccountId\<rparr> else plan) plans))))))))))"

section \<open>Starting operations\<close>

definition omitPaymentNotes :: "payment_row \<Rightarrow> item_row list \<Rightarrow> payment_row \<times> item_row list" where
  "omitPaymentNotes payment items =
     (payment\<lparr>p_note := None\<rparr>, map (\<lambda>i. i\<lparr>i_note := None\<rparr>) items)"

text \<open>
  The reservation of one capture's part, in a transaction that locks the refund payment: the
  operation and whether it was created now.
\<close>

definition reserve_refund ::
  "env \<Rightarrow> payment_row \<Rightarrow> channel_operation_row \<Rightarrow> rat \<Rightarrow> refund_plan option \<Rightarrow>
   (store, channel_operation_row \<times> bool) act"
where
  "reserve_refund E refundPayment element amount plan =
     transactionS (
       bindS (readS (\<lambda>s. find_payment s (p_id refundPayment))) (\<lambda>locked.
       bindS (liftS (of_option (JsError ''EntityNotFoundError'') locked)) (\<lambda>_.
       bindS (readS (\<lambda>s. List.find (\<lambda>r. op_paymentId r = p_id refundPayment \<and>
           op_originalOperationId r = Some (op_id element)) (st_operations s))) (\<lambda>existing.
       case existing of
         Some r \<Rightarrow>
           bindS (guardS (falsy (op_operationId r) \<or> op_status r = OS_FAILED \<or> op_amount r \<noteq> amount)
             (Conflict ''needs reconciliation; it will not be initialized twice'')) (\<lambda>_.
           returnS (r, False))
       | None \<Rightarrow>
           bindS (newId E) (\<lambda>i.
           let operation = (new_operation (env_now E))
             \<lparr>op_id := i, op_amount := amount, op_currency := p_currency refundPayment,
              op_operationType := REFUND, op_paymentChannelId := op_paymentChannelId element,
              op_paymentId := p_id refundPayment, op_originalOperationId := Some (op_id element),
              op_refundPlan := plan\<rparr> in
           bindS (modifyS (save_operation (env_big E) operation)) (\<lambda>_.
           returnS (operation, True)))))))"

text \<open>The rest of the loop body for a reservation made now: initialise in the channel and record its answer.\<close>

definition refund_continue ::
  "env \<Rightarrow> payment_row \<Rightarrow> item_row list \<Rightarrow> channel_operation_row \<Rightarrow> channel_operation_row \<Rightarrow>
   (store, unit) act"
where
  "refund_continue E refundPayment items element refundOp =
     (let (payment, sanitized) = omitPaymentNotes refundPayment items;
          msg = \<lparr>ci_channelId = op_paymentChannelId refundOp, ci_payment = payment,
            ci_items = sanitized, ci_paidAmount = op_amount refundOp,
            ci_currency = p_currency refundPayment,
            ci_originalChannelOperationId = op_operationId element,
            ci_refundOperationId = Some (op_id refundOp), ci_refundPlan = op_refundPlan refundOp\<rparr> in
      bindS (request (EvInit msg) (\<lambda>log. env_channel_init E log msg)) (\<lambda>result.
      bindS (guardS (falsy (cs_paymentChannelOperationId result) \<or>
          cs_paymentChannelId result \<noteq> Some (op_paymentChannelId refundOp) \<or>
          \<not> known_status (cs_paymentStatus result))
        (BadRequest ''Refund channel operation returned an invalid response'')) (\<lambda>_.
      bindS (savePaymentChannelRecord E refundOp result (p_id refundPayment)) (\<lambda>saved.
      guardS (op_status saved = OS_FAILED) (BadRequest ''Refund channel operation failed'')))))"

definition refund_one ::
  "env \<Rightarrow> payment_row \<Rightarrow> item_row list \<Rightarrow> refund_plan list \<Rightarrow> channel_operation_row \<times> rat \<Rightarrow>
   (store, unit) act"
where
  "refund_one E refundPayment items plans allocation =
     (let element = fst allocation;
          plan = List.find (\<lambda>p. rp_originalOperationId p = op_id element) plans in
      bindS (reserve_refund E refundPayment element (snd allocation) plan) (\<lambda>(refundOp, created).
      if \<not> created then returnS ()
      else refund_continue E refundPayment items element refundOp))"

definition startRefundPaymentOperationsForRefundRequest ::
  "env \<Rightarrow> payment_row \<Rightarrow> item_row list \<Rightarrow> payment_row \<Rightarrow> refund_plan list \<Rightarrow> (store, unit) act"
where
  "startRefundPaymentOperationsForRefundRequest E refundPayment items purchase plans =
     bindS (guardS (p_totalAmount refundPayment < 0 \<or> p_paymentStatus purchase \<noteq> PS_COMPLETED \<or>
         p_type purchase \<noteq> PURCHASE)
       (BadRequest ''Refund requires a completed purchase and a valid amount'')) (\<lambda>_.
     if p_totalAmount refundPayment = 0 then returnS ()
     else
       bindS (readS (\<lambda>s. completed_captures s (p_id purchase))) (\<lambda>ops.
       bindS (guardS (ops = [] \<or>
           list_ex (\<lambda>r. falsy (op_operationId r) \<or> op_currency r \<noteq> p_currency refundPayment) ops)
         (BadRequest ''Completed payment channel operations are required to refund this purchase'')) (\<lambda>_.
       bindS (readS (\<lambda>s. filter (\<lambda>r. op_paymentId r \<noteq> p_id refundPayment) (refunds_of s ops))) (\<lambda>previous.
       bindS (liftS (refundCaptureAllocations (env_big E) ops previous (p_totalAmount refundPayment))) (\<lambda>allocations.
       bindS (liftS (validateRefundPlanAllocations (env_big E) plans allocations)) (\<lambda>_.
       forS allocations (refund_one E refundPayment items plans)))))))"

text \<open>\<open>PaymentCaptureInfoDTO\<close>; \<open>cap_paidAmount\<close> is \<open>None\<close> when it is not a number.\<close>

record capture_info =
  cap_paidAmount :: "rat option"
  cap_paymentChannelId :: string
  cap_currency :: string
  cap_redirectUrl :: "string option"

text \<open>The amount a payment operation asks for, as the code computes it.\<close>

definition capture_amount :: "bigjs \<Rightarrow> rat \<Rightarrow> rat \<Rightarrow> rat \<Rightarrow> rat" where
  "capture_amount B requested totalAmount paid =
     (let remainingAmount = js_sub B totalAmount paid;
          clamped = (if requested > remainingAmount then remainingAmount else requested)
      in if clamped \<le> 0 then totalAmount else clamped)"

definition init_message :: "payment_row \<Rightarrow> item_row list \<Rightarrow> capture_info \<Rightarrow> rat \<Rightarrow> channel_init" where
  "init_message payment items captureInfo paidAmount =
     (let (payment', sanitized) = omitPaymentNotes payment items in
      \<lparr>ci_channelId = cap_paymentChannelId captureInfo, ci_payment = payment',
       ci_items = sanitized, ci_paidAmount = paidAmount, ci_currency = cap_currency captureInfo,
       ci_originalChannelOperationId = None, ci_refundOperationId = None, ci_refundPlan = None\<rparr>)"

text \<open>The URL to come back to, when the client named one; a bad one is refused.\<close>

definition checked_return_url :: "env \<Rightarrow> admin_settings \<Rightarrow> capture_info \<Rightarrow> string option res" where
  "checked_return_url E settings captureInfo =
     (if falsy (cap_redirectUrl captureInfo) then Inr None
      else bindE (validateReturnUrl (env_url E) (env_production E) (cap_redirectUrl captureInfo)
             (as_allowedReturnOrigins settings)) (\<lambda>u. Inr (Some u)))"

text \<open>The channel is to send the browser to the core's return endpoint, not to the front end.\<close>

definition channel_redirect :: "env \<Rightarrow> string option \<Rightarrow> string option \<Rightarrow> string \<Rightarrow> string option res" where
  "channel_redirect E returnUrl redirect i =
     (case (returnUrl, redirect) of
        (Some u, Some r) \<Rightarrow>
          if r = [] then Inr redirect
          else bindE (withChannelReturnUrl (env_url E) (env_public_path E) r
                 (operationReturnPath (env_public_path E) i)) (\<lambda>u. Inr (Some u))
      | _ \<Rightarrow> Inr redirect)"

definition payment_operation ::
  "env \<Rightarrow> payment_row \<Rightarrow> capture_info \<Rightarrow> rat \<Rightarrow> string option \<Rightarrow> string \<Rightarrow> channel_operation_row"
where
  "payment_operation E payment captureInfo paidAmount returnUrl i =
     (new_operation (env_now E))
       \<lparr>op_id := i, op_amount := paidAmount, op_currency := cap_currency captureInfo,
        op_operationType := p_type payment, op_returnUrl := returnUrl\<rparr>"

definition startPaymentOperation ::
  "env \<Rightarrow> payment_row \<Rightarrow> item_row list \<Rightarrow> capture_info \<Rightarrow>
   (store, channel_operation_row \<times> channel_status) act"
where
  "startPaymentOperation E payment items captureInfo =
     bindS (liftS (of_option (JsError ''paidAmount must be a number'') (cap_paidAmount captureInfo))) (\<lambda>requested.
     bindS (readS (totalPaidOrAuthorizedOf E (p_id payment))) (\<lambda>paid.
     let paidAmount = capture_amount (env_big E) requested (p_totalAmount payment) paid;
         msg = init_message payment items captureInfo paidAmount in
     bindS (readS st_settings) (\<lambda>settings.
     bindS (liftS (checked_return_url E settings captureInfo)) (\<lambda>returnUrl.
     bindS (request (EvInit msg) (\<lambda>log. env_channel_init E log msg)) (\<lambda>result.
     bindS (newId E) (\<lambda>i.
     bindS (liftS (channel_redirect E returnUrl (cs_redirectUrl result) i)) (\<lambda>redirectUrl.
     let result' = result\<lparr>cs_redirectUrl := redirectUrl\<rparr> in
     bindS (savePaymentChannelRecord E (payment_operation E payment captureInfo paidAmount returnUrl i)
       result' (p_id payment)) (\<lambda>record.
     returnS (record, result')))))))))"

section \<open>Polling, cancelling and firing\<close>

definition check_operation :: "env \<Rightarrow> channel_operation_row \<Rightarrow> (store, unit) act" where
  "check_operation E operation =
     (if falsy (op_operationId operation) then returnS ()
      else
        bindS (request (EvStatusCheck (op_paymentChannelId operation) (op_operationId operation))
          (\<lambda>log. env_channel_status E log (op_paymentChannelId operation) (op_operationId operation))) (\<lambda>result.
        bindS (savePaymentChannelRecord E operation result (op_paymentId operation)) (\<lambda>_. returnS ())))"

definition checkAndUpdateOperationStatusesRaw :: "env \<Rightarrow> channel_operation_row list \<Rightarrow> (store, unit) act" where
  "checkAndUpdateOperationStatusesRaw E ops = forS ops (check_operation E)"

definition checkAndUpdateOperationStatusByOpId :: "env \<Rightarrow> string \<Rightarrow> (store, unit) act" where
  "checkAndUpdateOperationStatusByOpId E operationId =
     bindS (readS (\<lambda>s. filter (\<lambda>r. op_operationId r = Some operationId \<and> op_status r = OS_WAITING)
       (st_operations s))) (checkAndUpdateOperationStatusesRaw E)"

definition checkAndUpdateOperationStatuses :: "env \<Rightarrow> string \<Rightarrow> (store, unit) act" where
  "checkAndUpdateOperationStatuses E pid =
     bindS (readS (\<lambda>s. operations_with s pid {OS_WAITING})) (checkAndUpdateOperationStatusesRaw E)"

text \<open>The answer of the channel is not used beyond a warning.\<close>

definition cancel_operation :: "env \<Rightarrow> channel_operation_row \<Rightarrow> (store, unit) act" where
  "cancel_operation E operation =
     bindS (request (EvCancel (op_paymentChannelId operation) (op_operationId operation))
       (\<lambda>log. env_channel_cancel E log (op_paymentChannelId operation) (op_operationId operation))) (\<lambda>_.
     modifyS (save_operation (env_big E) (operation\<lparr>op_status := OS_FAILED\<rparr>)))"

definition cancelPaymentOperationsByPaymentId :: "env \<Rightarrow> string \<Rightarrow> (store, unit) act" where
  "cancelPaymentOperationsByPaymentId E pid =
     bindS (readS (\<lambda>s. filter (\<lambda>r. op_operationType r = PURCHASE) (operations_with s pid {OS_WAITING})))
       (\<lambda>ops. forS ops (cancel_operation E))"

definition findOperationRecordById :: "string \<Rightarrow> store \<Rightarrow> channel_operation_row option" where
  "findOperationRecordById i s = find_operation s i"

definition findOperationById :: "string \<Rightarrow> store \<Rightarrow> channel_operation_row option" where
  "findOperationById operationId s =
     List.find (\<lambda>r. op_operationId r = Some operationId) (st_operations s)"

definition buildReturnTarget :: "env \<Rightarrow> channel_operation_row \<Rightarrow> string \<Rightarrow> store \<Rightarrow> string res" where
  "buildReturnTarget E operation paymentStatus s =
     bindE (validateReturnUrl (env_url E) (env_production E) (op_returnUrl operation)
       (as_allowedReturnOrigins (st_settings s))) (\<lambda>returnUrl.
     appendReturnParams (env_url E) returnUrl
       [(''paymentId'', op_paymentId operation), (''operationId'', op_id operation),
        (''status'', paymentStatus)])"

definition createOpenPaymentOperation :: "env \<Rightarrow> string \<Rightarrow> rat \<Rightarrow> string \<Rightarrow> (store, unit) act" where
  "createOpenPaymentOperation E pid amount currency =
     bindS (newId E) (\<lambda>i.
     modifyS (save_operation (env_big E) ((new_operation (env_now E))
       \<lparr>op_id := i, op_paymentId := pid, op_paymentChannelId := ''OPEN_PAYMENT'',
        op_operationId := Some ''OPEN_PAYMENT'', op_amount := amount, op_currency := currency,
        op_status := OS_COMPLETED, op_providerFee := 0, op_feeCutInstantly := False,
        op_providerFeeDebitFrom := PLATFORM\<rparr>)))"

definition fire_operation :: "env \<Rightarrow> channel_operation_row \<Rightarrow> (store, unit) act" where
  "fire_operation E operation =
     bindS (request (EvFire (op_paymentChannelId operation) (op_operationId operation))
       (\<lambda>log. env_channel_fire E log (op_paymentChannelId operation) (op_operationId operation))) (\<lambda>result.
     bindS (guardS (cs_paymentStatus result \<noteq> OS_COMPLETED)
       (JsError ''Payment operation could not be completed.'')) (\<lambda>_.
     bindS (savePaymentChannelRecord E operation result (op_paymentId operation)) (\<lambda>_. returnS ())))"

definition firePaymentOperationsByPaymentId :: "env \<Rightarrow> string \<Rightarrow> (store, unit) act" where
  "firePaymentOperationsByPaymentId E pid =
     bindS (readS (\<lambda>s. operations_with s pid {OS_READY})) (\<lambda>ops. forS ops (fire_operation E))"

definition hasOngoingPaymentOperations :: "string \<Rightarrow> store \<Rightarrow> bool" where
  "hasOngoingPaymentOperations pid s \<longleftrightarrow> operations_with s pid {OS_READY, OS_WAITING, OS_COMPLETED} \<noteq> []"

definition hasFailedPaymentOperations :: "string \<Rightarrow> store \<Rightarrow> bool" where
  "hasFailedPaymentOperations pid s \<longleftrightarrow> operations_with s pid {OS_FAILED} \<noteq> []"

end
