(* ===== verification/Refund_Allocations.thy ===== *)
theory Refund_Allocations
  imports Channel_Operations
begin

text \<open>
  The distribution of a refund over the captures of its purchase
  (\<open>payment-operation-management.service.ts\<close>): the parts are exact and stay within what each
  capture has left, and the refunds a purchase collects over time never exceed what was captured.
\<close>

section \<open>Rounding helpers\<close>

lemma dec_mono: "dec m x \<Longrightarrow> m \<le> n \<Longrightarrow> dec n x"
proof -
  assume "dec m x" "m \<le> n"
  then obtain k where k: "x = of_int k / 10 ^ m" by (auto simp: dec_iff)
  have "(10::rat) ^ n = 10 ^ m * 10 ^ (n - m)"
    using \<open>m \<le> n\<close> by (simp flip: power_add)
  then have "x = of_int (k * 10 ^ (n - m)) / 10 ^ n" by (simp add: k)
  then show ?thesis unfolding dec_iff by blast
qed

lemma dec4_dec20: "dec4 x \<Longrightarrow> dec 20 x"
  by (rule dec_mono [of 4]) simp_all

lemma round_half_mono: "0 \<le> x \<Longrightarrow> x \<le> y \<Longrightarrow> round_dp dp 1 x \<le> round_dp dp 1 y"
  by (auto simp: round_dp_def round_abs_def intro!: divide_right_mono floor_mono)

lemma round_half_ge: "dec dp d \<Longrightarrow> 0 \<le> d \<Longrightarrow> d \<le> x \<Longrightarrow> d \<le> round_dp dp 1 x"
  using round_half_mono [of d x dp] by (simp add: round_dec_id)

lemma round_half_le: "dec dp d \<Longrightarrow> 0 \<le> x \<Longrightarrow> x \<le> d \<Longrightarrow> round_dp dp 1 x \<le> d"
  using round_half_mono [of x d dp] by (simp add: round_dec_id)

lemma round_half_ge0: "0 \<le> x \<Longrightarrow> 0 \<le> round_dp dp 1 x"
  by (rule round_half_ge) simp_all

lemma round_down_ge: "dec dp d \<Longrightarrow> 0 \<le> d \<Longrightarrow> d \<le> x \<Longrightarrow> d \<le> round_dp dp 0 x"
proof -
  assume d: "dec dp d" "0 \<le> d" "d \<le> x"
  then have "round_abs dp 0 d \<le> round_abs dp 0 x"
    by (auto simp: round_abs_def intro!: divide_right_mono floor_mono)
  with d show ?thesis using round_dec_id [of dp d 0] by (simp add: round_dp_def)
qed

section \<open>One part\<close>

text \<open>A part is within what the capture has left, and leaves no more than the rest can take.\<close>

lemma share_bounds:
  assumes B: "bigjs_ok B" "num_exact B M"
    and r: "dec4 r" "0 \<le> r" "r \<le> R" and a: "dec4 a" "0 \<le> a" "a \<le> R"
    and R: "dec4 R" "R \<le> M"
  shows "dec4 (share B r R a) \<and> 0 \<le> share B r R a \<and> share B r R a \<le> a \<and>
         share B r R a \<le> r \<and> r - share B r R a \<le> R - a"
proof (cases "R = 0 \<or> R = a")
  case True
  with r a show ?thesis by (auto simp: share_def)
next
  case False
  with r a have pos: "0 < R" by linarith
  define q where "q = r * a / R"
  have q0: "0 \<le> q" using r a pos by (simp add: q_def)
  have "r * a \<le> R * a" and "r * a \<le> r * R"
    using r a by (auto intro: mult_right_mono mult_left_mono)
  then have qa: "q \<le> a" and qr: "q \<le> r"
    using pos by (auto simp: q_def pos_divide_le_eq mult.commute)
  have "0 \<le> (R - r) * (R - a)" using r a by simp
  then have "(r + a - R) * R \<le> r * a" by (simp add: algebra_simps)
  then have low: "r + a - R \<le> q" using pos by (simp add: q_def pos_le_divide_eq)
  define h where "h = round_dp 20 1 q"
  have h0: "0 \<le> h" using q0 unfolding h_def by (rule round_half_ge0)
  have ha: "h \<le> a" unfolding h_def by (rule round_half_le [OF dec4_dec20 [OF a(1)] q0 qa])
  have hr: "h \<le> r" unfolding h_def by (rule round_half_le [OF dec4_dec20 [OF r(1)] q0 qr])
  define y where "y = round_dp 4 0 h"
  have y: "dec4 y" "0 \<le> y" "y \<le> h"
    using h0 by (auto simp: y_def round_down_ge0 round_down_le)
  have "r + a - R \<le> y"
  proof (cases "0 \<le> r + a - R")
    case True
    have "dec4 (r + a - R)" using r a R by blast
    moreover from this True low have "r + a - R \<le> h"
      unfolding h_def by (intro round_half_ge dec4_dec20)
    ultimately show ?thesis using True unfolding y_def by (intro round_down_ge)
  qed (use y in linarith)
  moreover have "share B r R a = y"
    using B False pos y ha a R
    by (simp add: share_def big_round_ok big_div_ok bigjs_okD q_def [symmetric]
        h_def [symmetric, simplified] y_def [symmetric] num_exactD)
  ultimately show ?thesis using y ha hr by auto
qed

section \<open>All parts\<close>

lemma allocate_fst: "map fst (allocate B r R xs) = map fst xs"
  by (induction xs arbitrary: r R) (auto simp: Let_def)

lemma allocate_exact:
  assumes B: "bigjs_ok B" "num_exact B M"
    and "\<forall>x \<in> set xs. dec4 (snd x) \<and> 0 \<le> snd x" and "R = (\<Sum>x\<leftarrow>xs. snd x)" and "R \<le> M"
    and "dec4 r" "0 \<le> r" "r \<le> R"
  shows "(\<Sum>x\<leftarrow>allocate B r R xs. snd x) = r \<and>
         list_all2 (\<lambda>y x. fst y = fst x \<and> dec4 (snd y) \<and> 0 \<le> snd y \<and> snd y \<le> snd x)
           (allocate B r R xs) xs"
  using assms(3-)
proof (induction xs arbitrary: r R)
  case (Cons x xs)
  obtain o' a where x: "x = (o', a)" by (cases x)
  define y where "y = share B r R a"
  have rest: "0 \<le> (\<Sum>x\<leftarrow>xs. snd x)" using Cons.prems(1) by (intro sum_list_nonneg) auto
  have dR: "dec4 R" unfolding Cons.prems(2) using Cons.prems(1) by (intro dec_sum_list) auto
  have a: "dec4 a" "0 \<le> a" "a \<le> R" using Cons.prems(1,2) rest x by auto
  note y = share_bounds [OF B Cons.prems(4,5,6) a dR Cons.prems(3), folded y_def]
  have "minusN B r [y] = r - y" "minusN B R [a] = R - a"
    using y a dR Cons.prems by (auto intro!: minusN1_exact [OF B])
  moreover have "(\<Sum>x\<leftarrow>allocate B (r - y) (R - a) xs. snd x) = r - y \<and>
      list_all2 (\<lambda>y x. fst y = fst x \<and> dec4 (snd y) \<and> 0 \<le> snd y \<and> snd y \<le> snd x)
        (allocate B (r - y) (R - a) xs) xs"
    using Cons.prems y a dR x rest by (intro Cons.IH) auto
  ultimately show ?case using y by (simp add: x y_def [symmetric] Let_def)
qed auto

text \<open>What earlier refunds took from a capture.\<close>

definition reserved :: "channel_operation_row list \<Rightarrow> string \<Rightarrow> rat" where
  "reserved previous i =
     (\<Sum>r\<leftarrow>filter (\<lambda>r. op_originalOperationId r = Some i) previous. op_amount r)"

text \<open>Amounts as the money columns hold them, within the exact range of doubles.\<close>

definition money_rows :: "rat \<Rightarrow> channel_operation_row list \<Rightarrow> bool" where
  "money_rows M rows \<longleftrightarrow>
     (\<forall>r \<in> set rows. dec4 (op_amount r) \<and> 0 \<le> op_amount r) \<and> (\<Sum>r\<leftarrow>rows. op_amount r) \<le> M"

lemma money_rows_filter: "money_rows M rows \<Longrightarrow> money_rows M (filter P rows)"
  using sum_list_filter_le [of rows op_amount P] by (force simp: money_rows_def)

lemma reserved_bounds:
  assumes "money_rows M previous"
  shows "0 \<le> reserved previous i" "reserved previous i \<le> M" "dec4 (reserved previous i)"
  using money_rows_filter [OF assms, of "\<lambda>r. op_originalOperationId r = Some i"]
  by (auto simp: reserved_def money_rows_def intro!: dec_sum_list sum_list_nonneg)

lemma foldl_addN_exact:
  assumes "bigjs_ok B" "num_exact B M" and "\<forall>r \<in> set rs. dec4 (f r) \<and> 0 \<le> f r"
    and "dec4 a" "0 \<le> a" "a + (\<Sum>r\<leftarrow>rs. f r) \<le> M"
  shows "foldl (\<lambda>sum r. addN B [sum, f r]) a rs = a + (\<Sum>r\<leftarrow>rs. f r)"
  using assms(3-)
proof (induction rs arbitrary: a)
  case (Cons r rs)
  have "0 \<le> (\<Sum>r\<leftarrow>rs. f r)" using Cons.prems(1) by (intro sum_list_nonneg) auto
  then have "addN B [a, f r] = a + f r"
    using Cons.prems by (intro addN2_exact [OF assms(1,2)]) auto
  with Cons show ?case by (simp add: add.assoc dec_add)
qed simp

lemma available_exact:
  assumes B: "bigjs_ok B" "num_exact B M"
    and c: "dec4 (op_amount c)" "0 \<le> op_amount c" "op_amount c \<le> M" and p: "money_rows M previous"
  shows "available_of B previous c = op_amount c - reserved previous (op_id c)"
proof -
  have "foldl (\<lambda>sum refund. addN B [sum, op_amount refund]) 0
      (filter (\<lambda>r. op_originalOperationId r = Some (op_id c)) previous) = reserved previous (op_id c)"
    using foldl_addN_exact [OF B, of "filter (\<lambda>r. op_originalOperationId r = Some (op_id c)) previous"
        op_amount 0] reserved_bounds [OF p, of "op_id c"] p
    by (auto simp: reserved_def money_rows_def)
  then show ?thesis
    using c reserved_bounds [OF p, of "op_id c"]
    by (auto simp: available_of_def intro!: minusN1_exact [OF B])
qed

lemma sum_list_filter_pos:
  fixes xs :: "('a \<times> rat) list"
  shows "\<forall>x \<in> set xs. 0 \<le> snd x \<Longrightarrow>
    (\<Sum>x\<leftarrow>filter (\<lambda>(_, y). y > 0) xs. snd x) = (\<Sum>x\<leftarrow>xs. snd x)"
  by (induction xs) auto

lemma list_all2_zip_map:
  "list_all2 P ys (zip xs (map f xs)) \<Longrightarrow> y \<in> set ys \<Longrightarrow> \<exists>x \<in> set xs. P y (x, f x)"
proof (induction xs arbitrary: ys)
  case (Cons x xs)
  from Cons.prems(1) obtain z zs where z: "ys = z # zs" "P z (x, f x)"
    "list_all2 P zs (zip xs (map f xs))" by (auto simp: list_all2_Cons2)
  with Cons.prems(2) Cons.IH [OF z(3)] show ?case by auto
qed simp

section \<open>The allocation is exact\<close>

lemma allocations_cases:
  assumes B: "bigjs_ok B" "num_exact B M"
    and c: "money_rows M ops" and p: "money_rows M previous"
    and a: "dec4 amount" "0 \<le> amount"
  shows "refundCaptureAllocations B ops previous amount =
     (if (\<exists>c \<in> set ops. op_amount c < reserved previous (op_id c)) \<or>
         amount > (\<Sum>c\<leftarrow>ops. op_amount c - reserved previous (op_id c))
      then Inl (BadRequest ''Refund exceeds the remaining captured channel amount'')
      else Inr (filter (\<lambda>(_, a). a > 0) (allocate B amount
        (\<Sum>c\<leftarrow>ops. op_amount c - reserved previous (op_id c))
        (zip ops (map (\<lambda>c. op_amount c - reserved previous (op_id c)) ops)))))"
proof -
  have each: "op_amount c \<le> M" if "c \<in> set ops" for c
    using c that member_le_sum_list [of "op_amount c" "map op_amount ops"]
    by (force simp: money_rows_def)
  let ?left = "\<lambda>c. op_amount c - reserved previous (op_id c)"
  have av: "map (available_of B previous) ops = map ?left ops"
    using c each p by (auto simp: money_rows_def intro!: available_exact [OF B])
  have left: "dec4 (?left c)" "?left c \<le> op_amount c" if "c \<in> set ops" for c
    using c that reserved_bounds [OF p, of "op_id c"] by (auto simp: money_rows_def)
  show ?thesis
  proof (cases "\<exists>c \<in> set ops. op_amount c < reserved previous (op_id c)")
    case True
    then have "list_ex (\<lambda>a. a < 0) (map ?left ops)" by (auto simp: list_ex_iff)
    then show ?thesis using True by (simp only: refundCaptureAllocations_def Let_def av) simp
  next
    case False
    have nn: "0 \<le> (\<Sum>c\<leftarrow>ops. ?left c)" using False by (intro sum_list_nonneg) force
    have "(\<Sum>c\<leftarrow>ops. ?left c) \<le> (\<Sum>c\<leftarrow>ops. op_amount c)"
      using left(2) by (rule sum_list_mono)
    then have "addN B (map ?left ops) = (\<Sum>c\<leftarrow>ops. ?left c)"
      using left(1) c nn by (intro addN_exact [OF B]) (auto simp: money_rows_def)
    moreover have "\<not> list_ex (\<lambda>a. a < 0) (map ?left ops)"
      using False by (auto simp: list_ex_iff)
    ultimately show ?thesis using False
      by (simp only: refundCaptureAllocations_def Let_def av simp_thms if_False if_True)
  qed
qed

lemma refund_allocations:
  assumes "bigjs_ok B" "num_exact B M" and "money_rows M ops" "money_rows M previous"
    and "dec4 amount" "0 \<le> amount"
  shows "((\<exists>al. refundCaptureAllocations B ops previous amount = Inr al) \<longleftrightarrow>
            (\<forall>c \<in> set ops. reserved previous (op_id c) \<le> op_amount c) \<and>
            amount \<le> (\<Sum>c\<leftarrow>ops. op_amount c - reserved previous (op_id c))) \<and>
         (\<forall>al. refundCaptureAllocations B ops previous amount = Inr al \<longrightarrow>
            (\<Sum>x\<leftarrow>al. snd x) = amount \<and>
            (\<forall>(c, x) \<in> set al. c \<in> set ops \<and> dec4 x \<and> 0 < x \<and>
               reserved previous (op_id c) + x \<le> op_amount c))"
proof -
  let ?left = "\<lambda>c. op_amount c - reserved previous (op_id c)"
  let ?R = "\<Sum>c\<leftarrow>ops. ?left c"
  let ?xs = "zip ops (map ?left ops)"
  let ?al = "filter (\<lambda>(_, a). a > 0) (allocate B amount ?R ?xs)"
  note cases = allocations_cases [OF assms]
  have "(\<Sum>x\<leftarrow>?al. snd x) = amount \<and>
      (\<forall>(c, x) \<in> set ?al. c \<in> set ops \<and> dec4 x \<and> 0 < x \<and>
         reserved previous (op_id c) + x \<le> op_amount c)"
    if ok: "\<forall>c \<in> set ops. reserved previous (op_id c) \<le> op_amount c" "amount \<le> ?R"
  proof -
    have "\<forall>x \<in> set ?xs. dec4 (snd x) \<and> 0 \<le> snd x"
      using ok(1) assms(3) reserved_bounds [OF assms(4)]
      by (auto simp: set_zip money_rows_def intro!: dec_diff)
    moreover have sum: "?R = (\<Sum>x\<leftarrow>?xs. snd x)" by (simp add: zip_map2 zip_same_conv_map comp_def)
    moreover have "?R \<le> (\<Sum>c\<leftarrow>ops. op_amount c)"
      using reserved_bounds [OF assms(4)] by (intro sum_list_mono) auto
    then have "?R \<le> M" using assms(3) by (simp add: money_rows_def)
    ultimately have al: "(\<Sum>x\<leftarrow>allocate B amount ?R ?xs. snd x) = amount"
      "list_all2 (\<lambda>y x. fst y = fst x \<and> dec4 (snd y) \<and> 0 \<le> snd y \<and> snd y \<le> snd x)
         (allocate B amount ?R ?xs) ?xs"
      using allocate_exact [OF assms(1,2) _ _ _ assms(5,6) ok(2), of ?xs] by auto
    note each = list_all2_zip_map [OF al(2)]
    have nonneg: "\<forall>x \<in> set (allocate B amount ?R ?xs). 0 \<le> snd x"
      using each by fastforce
    have "(\<Sum>x\<leftarrow>?al. snd x) = amount"
      using al(1) sum_list_filter_pos [OF nonneg] by simp
    moreover have "\<forall>(c, x) \<in> set ?al. c \<in> set ops \<and> dec4 x \<and> 0 < x \<and>
        reserved previous (op_id c) + x \<le> op_amount c"
      using each by fastforce
    ultimately show ?thesis by blast
  qed
  note exact = this
  show ?thesis
  proof (cases "(\<forall>c \<in> set ops. reserved previous (op_id c) \<le> op_amount c) \<and> amount \<le> ?R")
    case True
    define al where "al = ?al"
    from True have res: "refundCaptureAllocations B ops previous amount = Inr al"
      unfolding cases al_def by (auto simp: not_less)
    note parts = exact [OF conjunct1 [OF True] conjunct2 [OF True], folded al_def]
    show ?thesis unfolding res using True parts by simp
  next
    case False
    then have "refundCaptureAllocations B ops previous amount =
        Inl (BadRequest ''Refund exceeds the remaining captured channel amount'')"
      unfolding cases by (auto simp: not_less)
    with False show ?thesis by simp
  qed
qed

text \<open>
  C12: \<open>refundCaptureAllocations\<close> succeeds exactly when no capture is overdrawn and the refund is
  within what all captures have left; then its parts are positive, have four decimals, add up to the
  refund exactly, and with the refunds taken before stay within their captures' amounts.
\<close>

theorem refundCaptureAllocations_exact:
  assumes "bigjs_ok B" "num_exact B M" and "money_rows M ops" "money_rows M previous"
    and "dec4 amount" "0 \<le> amount"
  shows "((\<exists>al. refundCaptureAllocations B ops previous amount = Inr al) \<longleftrightarrow>
            (\<forall>c \<in> set ops. reserved previous (op_id c) \<le> op_amount c) \<and>
            amount \<le> (\<Sum>c\<leftarrow>ops. op_amount c - reserved previous (op_id c))) \<and>
         (\<forall>al. refundCaptureAllocations B ops previous amount = Inr al \<longrightarrow>
            (\<Sum>x\<leftarrow>al. snd x) = amount \<and>
            (\<forall>(c, x) \<in> set al. c \<in> set ops \<and> dec4 x \<and> 0 < x \<and>
               reserved previous (op_id c) + x \<le> op_amount c))"
  by (rule refund_allocations [OF assms])

text \<open>A concrete split: 60 over captures of 100 (40 refunded already) and 50.\<close>

definition sample_captures :: "channel_operation_row list" where
  "sample_captures =
     [sample_operation ''a'' ''p'' PURCHASE OS_COMPLETED 100,
      sample_operation ''b'' ''p'' PURCHASE OS_COMPLETED 50]"

definition sample_refunded :: "channel_operation_row list" where
  "sample_refunded =
     [(sample_operation ''r'' ''q'' REFUND OS_COMPLETED 40)\<lparr>op_originalOperationId := Some ''a''\<rparr>]"

lemmas sample_split_defs = sample_captures_def sample_refunded_def money_rows_def reserved_def
  sample_operation_def new_operation_def dec_def

theorem refundCaptureAllocations_exact_witness:
  "\<exists>al. refundCaptureAllocations exact_bigjs sample_captures sample_refunded 60 = Inr al \<and>
     (\<Sum>x\<leftarrow>al. snd x) = 60 \<and>
     (\<forall>(c, x) \<in> set al. 0 < x \<and> reserved sample_refunded (op_id c) + x \<le> op_amount c)"
  using refundCaptureAllocations_exact
    [of exact_bigjs 200 sample_captures sample_refunded 60]
  by (force simp: sample_split_defs)

section \<open>Refunds over time\<close>

lemma distinct_map_sort: "distinct (map f (sort_key k xs)) = distinct (map f xs)"
  by (rule mset_eq_imp_distinct_iff) simp

lemma money_rows_sort: "money_rows M (sort_key k rows) = money_rows M rows"
proof -
  have "(\<Sum>r\<leftarrow>sort_key k rows. op_amount r) = (\<Sum>r\<leftarrow>rows. op_amount r)"
    by (metis mset_map mset_sort sum_mset_sum_list)
  then show ?thesis by (simp add: money_rows_def)
qed

lemma money_rows_le: "money_rows M rows \<Longrightarrow> r \<in> set rows \<Longrightarrow> op_amount r \<le> M"
  using member_le_sum_list [of "op_amount r" "map op_amount rows"] by (force simp: money_rows_def)

text \<open>
  What the refunds recorded so far take from a capture, and the invariant: no captured payment
  operation is refunded beyond its amount.
\<close>

definition refunded :: "store \<Rightarrow> string \<Rightarrow> rat" where
  "refunded s i =
     (\<Sum>r\<leftarrow>filter (\<lambda>r. op_operationType r = REFUND \<and> op_originalOperationId r = Some i)
        (st_operations s). op_amount r)"

definition captures_covered :: "store \<Rightarrow> bool" where
  "captures_covered s \<longleftrightarrow>
     (\<forall>c \<in> set (st_operations s). op_operationType c = PURCHASE \<longrightarrow> refunded s (op_id c) \<le> op_amount c)"

text \<open>Primary keys: rows have distinct ids, and ids to come are not in use.\<close>

definition fresh_operations :: "env \<Rightarrow> store \<Rightarrow> bool" where
  "fresh_operations E s \<longleftrightarrow>
     distinct (map op_id (st_operations s)) \<and>
     (\<forall>n \<ge> st_seq s. env_uuid E n \<notin> op_id ` set (st_operations s))"

definition has_own :: "string \<Rightarrow> string \<Rightarrow> store \<Rightarrow> bool" where
  "has_own pid i s \<longleftrightarrow>
     (\<exists>r \<in> set (st_operations s). op_paymentId r = pid \<and> op_originalOperationId r = Some i)"

text \<open>The columns those notions read; a channel's answer does not change them.\<close>

definition op_view :: "channel_operation_row \<Rightarrow> string \<times> rat \<times> payment_type \<times> string option \<times> string" where
  "op_view r = (op_id r, op_amount r, op_operationType r, op_originalOperationId r, op_paymentId r)"

definition views :: "store \<Rightarrow> (string \<times> rat \<times> payment_type \<times> string option \<times> string) list" where
  "views s = map op_view (st_operations s)"

lemma refunded_views:
  "refunded s i =
     (\<Sum>v\<leftarrow>filter (\<lambda>(_, _, ty, orig, _). ty = REFUND \<and> orig = Some i) (views s). fst (snd v))"
  by (simp add: refunded_def views_def op_view_def filter_map comp_def)

lemma covered_views:
  "captures_covered s \<longleftrightarrow>
     (\<forall>(i, a, ty, _, _) \<in> set (views s). ty = PURCHASE \<longrightarrow> refunded s i \<le> a)"
  by (auto simp: captures_covered_def views_def op_view_def)

lemma has_own_views: "has_own pid i s \<longleftrightarrow> (\<exists>(_, _, _, orig, p) \<in> set (views s). p = pid \<and> orig = Some i)"
  by (auto simp: has_own_def views_def op_view_def)

lemma fresh_views:
  "fresh_operations E s \<longleftrightarrow>
     distinct (map fst (views s)) \<and> (\<forall>n \<ge> st_seq s. env_uuid E n \<notin> fst ` set (views s))"
  by (simp add: fresh_operations_def views_def op_view_def comp_def image_image)

lemma same_views:
  assumes "views t = views s"
  shows "refunded t = refunded s" "captures_covered t = captures_covered s"
    "has_own pid i t = has_own pid i s"
    "st_seq s \<le> st_seq t \<Longrightarrow> fresh_operations E s \<Longrightarrow> fresh_operations E t"
proof -
  show r: "refunded t = refunded s" by (rule ext) (simp add: refunded_views assms)
  show "captures_covered t = captures_covered s" by (simp add: covered_views assms r)
  show "has_own pid i t = has_own pid i s" by (simp add: has_own_views assms)
  show "st_seq s \<le> st_seq t \<Longrightarrow> fresh_operations E s \<Longrightarrow> fresh_operations E t"
    by (auto simp: fresh_views assms)
qed

lemma upsert_same_map:
  "by_key key rows (key r) = Some r0 \<Longrightarrow> f r = f r0 \<Longrightarrow> map f (upsert key r rows) = map f rows"
  by (induction rows) (auto simp: by_key_def split: if_splits)

lemma save_same_view:
  assumes "find_operation s (op_id r) = Some r0" "op_view (operation_columns B r) = op_view r0"
  shows "views (save_operation B r s) = views s"
  using assms upsert_same_map [of op_id "st_operations s" "operation_columns B r" r0 op_view]
  by (simp add: views_def save_operation_def find_operation_def)

lemma fee_columns_sel [simp]:
  "op_id (fee_columns stgs result r) = op_id r"
  "op_amount (fee_columns stgs result r) = op_amount r"
  "op_operationType (fee_columns stgs result r) = op_operationType r"
  "op_originalOperationId (fee_columns stgs result r) = op_originalOperationId r"
  "op_paymentId (fee_columns stgs result r) = op_paymentId r"
  by (simp_all add: fee_columns_def)

lemma op_view_fee [simp]: "op_view (operation_columns B ((fee_columns stgs result r)
    \<lparr>op_operationId := i, op_status := st, op_settledRefundItemIds := l\<rparr>)) = op_view (operation_columns B r)"
  by (simp add: op_view_def operation_columns_def)

lemma settle_preserves:
  assumes "\<And>s. P s \<Longrightarrow> P (s\<lparr>st_seq := Suc (st_seq s)\<rparr>)" "\<And>s x. P s \<Longrightarrow> P (save_transaction (env_big E) x s)"
  shows "preserves P (settle_line E operation plan pid settled settlement)"
  unfolding settle_line_def book_rounding_def
  by (intro preserves assms) (simp_all add: booked_def Let_def assms)

lemma settlement_views:
  assumes "saveRefundSettlementRecord E r result pid s = (t, res)"
    and "find_operation s (op_id r) = Some r0" and "op_view (operation_columns (env_big E) r0) = op_view r0"
  shows "views t = views s \<and> st_seq s \<le> st_seq t"
proof (cases res)
  case (Inl e)
  with assms(1) have "t = s"
    by (auto simp: saveRefundSettlementRecord_def res_simps dest: transactionS_Inl)
  then show ?thesis by simp
next
  case (Inr row)
  with assms obtain plan settlements settled settled' u where
    loop: "foldS (settle_line E r0 plan pid) settled settlements s = (u, Inr settled')"
    and t: "t = save_operation (env_big E) ((fee_columns (st_settings s) result r0)
         \<lparr>op_operationId := cs_paymentChannelOperationId result,
          op_status := cs_paymentStatus result, op_settledRefundItemIds := Some settled'\<rparr>) u"
    by (auto simp: saveRefundSettlementRecord_def res_simps Let_def split: prod.splits)
  let ?P = "\<lambda>v. st_operations v = st_operations s \<and> st_seq s \<le> st_seq v"
  have "preserves ?P (foldS (settle_line E r0 plan pid) settled settlements)"
    by (intro preserves settle_preserves) auto
  from preservesD [OF this _ loop] have u: "st_operations u = st_operations s" "st_seq s \<le> st_seq u"
    by auto
  have "op_id r0 = op_id r" using assms(2) find_operation_in by blast
  then have "find_operation u (op_id r0) = Some r0" using assms(2) u(1) by (simp add: find_operation_def)
  then have "views t = views u"
    unfolding t by (intro save_same_view) (simp_all add: assms(3))
  then show ?thesis using u t by (simp add: views_def)
qed

lemma save_record_views:
  assumes "savePaymentChannelRecord E r result pid s = (t, res)"
    and "find_operation s (op_id r) = Some r0" and "op_view (operation_columns (env_big E) r) = op_view r0"
    and "op_view (operation_columns (env_big E) r0) = op_view r0" and "pid = op_paymentId r"
  shows "views t = views s \<and> st_seq s \<le> st_seq t"
proof (cases "op_operationType r = REFUND \<and> op_refundPlan r \<noteq> None")
  case True
  with assms settlement_views show ?thesis by (simp add: savePaymentChannelRecord_def)
next
  case False
  define r' where "r' = (fee_columns (st_settings s) result r)
    \<lparr>op_operationId := (case cs_paymentChannelOperationId result of
        None \<Rightarrow> op_operationId r | x \<Rightarrow> x), op_paymentId := pid,
     op_paymentChannelId := nullish (cs_paymentChannelId result) (op_paymentChannelId r),
     op_status := cs_paymentStatus result\<rparr>"
  from False assms(1) have "t = save_operation (env_big E) r' s"
    by (auto simp: savePaymentChannelRecord_def run_simps Let_def r'_def)
  moreover have "views (save_operation (env_big E) r' s) = views s"
    using assms(2,3,5) by (intro save_same_view) (auto simp: r'_def op_view_def operation_columns_def)
  ultimately show ?thesis by simp
qed

lemma reserve_refund_cases:
  assumes "reserve_refund E p c x plan s = (t, res)"
  obtains (failed) e where "res = Inl e" "t = s"
  | (found) r where "res = Inr (r, False)" "t = s"
  | (created) r where "res = Inr (r, True)" "\<not> has_own (p_id p) (op_id c) s"
      "t = save_operation (env_big E) r (s\<lparr>st_seq := Suc (st_seq s)\<rparr>)"
      "op_id r = env_uuid E (st_seq s)" "op_amount r = x" "op_operationType r = REFUND"
      "op_paymentId r = p_id p" "op_originalOperationId r = Some (op_id c)"
proof (cases res)
  case (Inl e)
  with assms have "t = s" by (auto simp: reserve_refund_def dest: transactionS_Inl)
  with Inl show ?thesis by (rule that(1))
next
  case (Inr y)
  with assms show ?thesis
    apply (auto simp: reserve_refund_def res_simps Let_def has_own_def find_None_iff
        split: option.splits intro: that(2))
    apply (rule that(3))
    apply (auto simp: has_own_def new_operation_def)
    done
qed

lemma find_views:
  assumes "views t = views s" "find_operation s i = Some r"
  shows "\<exists>r'. find_operation t i = Some r' \<and> op_view r' = op_view r"
proof -
  have "\<exists>r'. by_key op_id xs i = Some r' \<and> op_view r' = op_view r"
    if "map op_view xs = map op_view ys" "by_key op_id ys i = Some r" for xs ys
    using that
  proof (induction ys arbitrary: xs)
    case (Cons y ys)
    then obtain x xs' where "xs = x # xs'" "op_view x = op_view y" "map op_view xs' = map op_view ys"
      by auto
    with Cons show ?case by (auto simp: by_key_def op_view_def split: if_splits)
  qed (simp add: by_key_def)
  with assms show ?thesis by (simp add: views_def find_operation_def)
qed

lemma save_record_preserves:
  assumes "find_operation u (op_id r) = Some r0" "op_view r0 = op_view (operation_columns (env_big E) r)"
    and "money (env_big E) (op_amount r0) = op_amount r0" "pid = op_paymentId r"
  shows "preserves (\<lambda>v. views v = views u \<and> st_seq u \<le> st_seq v)
           (savePaymentChannelRecord E r result pid)"
proof (rule preservesI)
  fix v t res
  assume v: "views v = views u \<and> st_seq u \<le> st_seq v"
    and run: "savePaymentChannelRecord E r result pid v = (t, res)"
  from v find_views assms(1) obtain r1
    where r1: "find_operation v (op_id r) = Some r1" "op_view r1 = op_view r0" by blast
  with assms(3) have "op_view (operation_columns (env_big E) r1) = op_view r1"
    by (auto simp: op_view_def operation_columns_def)
  with save_record_views [OF run r1(1) _ _ assms(4)] r1(2) assms(2) v
  show "views t = views u \<and> st_seq u \<le> st_seq t" by simp
qed

lemma views_new:
  assumes "fresh_operations E s" "op_id r = env_uuid E (st_seq s)"
  shows "views (save_operation B r (s\<lparr>st_seq := Suc (st_seq s)\<rparr>)) =
           views s @ [op_view (operation_columns B r)]"
proof -
  have "op_id (operation_columns B r) \<notin> op_id ` set (st_operations s)"
    using assms by (simp add: fresh_operations_def)
  then show ?thesis by (simp add: views_def save_operation_def upsert_fresh)
qed

lemma fresh_new:
  assumes "fresh_operations E s" "inj (env_uuid E)" "Suc (st_seq s) \<le> st_seq t"
    and "views t = views s @ [(env_uuid E (st_seq s), v)]"
  shows "fresh_operations E t"
proof -
  have "env_uuid E n \<noteq> env_uuid E (st_seq s)" if "Suc (st_seq s) \<le> n" for n
    using assms(2) that by (simp add: inj_eq)
  then show ?thesis using assms(1,3,4) by (auto simp: fresh_views)
qed

text \<open>One round of the loop adds at most one row: the reservation, when there was none.\<close>

lemma refund_one_step:
  assumes run: "refund_one E p items plans (c, x) s = (t, res)"
    and fresh: "fresh_operations E s" "inj (env_uuid E)" and x: "money (env_big E) x = x"
  shows "fresh_operations E t \<and> (views t = views s \<or> \<not> has_own (p_id p) (op_id c) s \<and>
     views t = views s @ [(env_uuid E (st_seq s), x, REFUND, Some (op_id c), p_id p)])"
proof -
  define plan where "plan = List.find (\<lambda>p. rp_originalOperationId p = op_id c) plans"
  obtain u q where u: "reserve_refund E p c x plan s = (u, q)" by fastforce
  from u show ?thesis
  proof (cases rule: reserve_refund_cases)
    case (failed e)
    with run u fresh show ?thesis by (simp add: refund_one_def bindS_def plan_def)
  next
    case (found r)
    with run u fresh show ?thesis by (simp add: refund_one_def bindS_def returnS_def plan_def)
  next
    case (created r)
    let ?new = "(env_uuid E (st_seq s), x, REFUND, Some (op_id c), p_id p)"
    have view: "op_view (operation_columns (env_big E) r) = ?new"
      "op_view (operation_columns (env_big E) (operation_columns (env_big E) r)) = ?new"
      using created x by (auto simp: op_view_def operation_columns_def)
    have vu: "views u = views s @ [?new]" "st_seq u = Suc (st_seq s)"
      using created views_new [OF fresh(1) created(4)] view by simp_all
    have found: "find_operation u (op_id r) = Some (operation_columns (env_big E) r)"
      using created(3) by (simp add: find_save_operation)
    note saves = save_record_preserves [OF found, of E "p_id p"]
    have "preserves (\<lambda>v. views v = views u \<and> st_seq u \<le> st_seq v)
        (refund_continue E p items c r)"
      unfolding refund_continue_def
      by (intro preserves saves) (use view created in \<open>auto simp: views_def op_view_def operation_columns_def\<close>)
    moreover have "refund_continue E p items c r u = (t, res)"
      using run u created(1) by (simp add: refund_one_def bindS_def plan_def)
    ultimately have "views t = views u \<and> st_seq u \<le> st_seq t"
      by (auto dest: preservesD)
    with vu have "views t = views s @ [?new]" "Suc (st_seq s) \<le> st_seq t" by auto
    with created(2) fresh_new [OF fresh, of t] show ?thesis by simp
  qed
qed

text \<open>What is left of a capture for a part not reserved yet.\<close>

definition room :: "string \<Rightarrow> store \<Rightarrow> channel_operation_row \<times> rat \<Rightarrow> bool" where
  "room pid s y \<longleftrightarrow> has_own pid (op_id (fst y)) s \<or>
     (\<forall>v \<in> set (views s). fst v = op_id (fst y) \<longrightarrow> fst (snd (snd v)) = PURCHASE \<longrightarrow>
        refunded s (fst v) + snd y \<le> fst (snd v))"

lemma roomD:
  assumes "room pid s (c, x)" "\<not> has_own pid (op_id c) s" "(op_id c, a, PURCHASE, v) \<in> set (views s)"
  shows "refunded s (op_id c) + x \<le> a"
  using assms unfolding room_def by fastforce

lemma loop_covered:
  assumes run: "forS al (refund_one E p items plans) s = (t, res)"
    and "fresh_operations E s" "inj (env_uuid E)" "captures_covered s"
    and "distinct (map (op_id \<circ> fst) al)"
    and "\<forall>(c, x) \<in> set al. money (env_big E) x = x"
    and "\<forall>y \<in> set al. room (p_id p) s y"
  shows "captures_covered t"
  using assms
proof (induction al arbitrary: s)
  case (Cons y al)
  obtain c x where y: "y = (c, x)" by (cases y)
  obtain u q where u: "refund_one E p items plans (c, x) s = (u, q)" by fastforce
  have x: "money (env_big E) x = x" using Cons.prems(6) y by auto
  note step = refund_one_step [OF u Cons.prems(2,3) x]
  let ?new = "(env_uuid E (st_seq s), x, REFUND, Some (op_id c), p_id p)"
  have covered: "captures_covered u"
  proof (cases "views u = views s")
    case True
    with Cons.prems(4) show ?thesis using same_views(2) by blast
  next
    case False
    with step have new: "\<not> has_own (p_id p) (op_id c) s" "views u = views s @ [?new]" by auto
    have "refunded u i = refunded s i + (if i = op_id c then x else 0)" for i
      by (simp add: refunded_views new)
    note sums = this
    have "refunded u i \<le> a" if v: "(i, a, PURCHASE, orig, pid) \<in> set (views s)" for i a orig pid
    proof (cases "i = op_id c")
      case True
      from Cons.prems(7) y have "room (p_id p) s (c, x)" by simp
      from roomD [OF this new(1)] v True have "refunded s i + x \<le> a" by simp
      with sums True show ?thesis by simp
    next
      case False
      from Cons.prems(4) v have "refunded s i \<le> a" unfolding covered_views by auto
      with sums False show ?thesis by simp
    qed
    then show ?thesis by (auto simp: covered_views new(2))
  qed
  show ?case
  proof (cases q)
    case (Inl e)
    with u Cons.prems(1) y covered show ?thesis by (simp add: bindS_def)
  next
    case (Inr v)
    with u Cons.prems(1) y have rest: "forS al (refund_one E p items plans) u = (t, res)"
      by (simp add: bindS_def)
    have "\<forall>y \<in> set al. room (p_id p) u y"
    proof (cases "views u = views s")
      case True
      then show ?thesis using Cons.prems(7) by (simp add: room_def same_views(1,3) [OF True] True)
    next
      case False
      with step have new: "views u = views s @ [?new]" by auto
      have "refunded u i = refunded s i" if "i \<noteq> op_id c" for i
        using that by (simp add: refunded_views new)
      note same = this
      show ?thesis
      proof
        fix z assume z: "z \<in> set al"
        with Cons.prems(5) y have other: "op_id (fst z) \<noteq> op_id c" by (force simp: image_iff)
        from Cons.prems(7) z have "room (p_id p) s z" by simp
        with other same show "room (p_id p) u z" by (auto simp: room_def has_own_views new)
      qed
    qed
    from Cons.IH [OF rest conjunct1 [OF step] Cons.prems(3) covered _ _ this] Cons.prems(5,6)
    show ?thesis by simp
  qed
qed simp

lemma allocations_distinct:
  assumes "refundCaptureAllocations B ops previous amount = Inr al" "distinct (map op_id ops)"
  shows "distinct (map (op_id \<circ> fst) al)"
proof -
  have "distinct (map (op_id \<circ> fst) (allocate B r R (zip ops (map f ops))))" for r R and f :: "channel_operation_row \<Rightarrow> rat"
    using assms(2) arg_cong [OF allocate_fst, of "map op_id" B r R "zip ops (map f ops)"]
    by (simp add: comp_def)
  then show ?thesis
    using assms(1) by (auto simp: refundCaptureAllocations_def Let_def split: if_splits
        intro: distinct_map_filter)
qed

text \<open>
  C11: no captured operation is ever refunded beyond its amount. Whatever the channels answer, and
  also when the run stops with an exception on the way, starting the channel operations of a refund
  keeps the sum of the refund operations of each captured operation within what was captured.
\<close>

theorem refunds_never_exceed_captures:
  assumes "startRefundPaymentOperationsForRefundRequest E refundPayment items purchase plans s = (t, r)"
    and "captures_covered s" and "fresh_operations E s" "inj (env_uuid E)"
    and "bigjs_ok (env_big E)" "num_exact (env_big E) M" "money_rows M (st_operations s)"
    and "dec4 (p_totalAmount refundPayment)"
  shows "captures_covered t"
proof -
  define ops where "ops = completed_captures s (p_id purchase)"
  define previous where "previous = filter (\<lambda>r. op_paymentId r \<noteq> p_id refundPayment) (refunds_of s ops)"
  let ?amount = "p_totalAmount refundPayment"
  show ?thesis
  proof (cases "t = s")
    case False
    with assms(1) obtain al where al: "refundCaptureAllocations (env_big E) ops previous ?amount = Inr al"
      and run: "forS al (refund_one E refundPayment items plans) s = (t, r)" and amount: "0 \<le> ?amount"
      by (auto simp: startRefundPaymentOperationsForRefundRequest_def run_simps ops_def previous_def
          split: if_splits sum.splits)
    have ops: "set ops \<subseteq> set (st_operations s)" "distinct (map op_id ops)" "money_rows M ops"
      using assms(3,7) by (auto simp: ops_def completed_captures_def fresh_operations_def
          money_rows_sort money_rows_filter distinct_map_sort distinct_map_filter)
    have previous: "money_rows M previous"
      using assms(7) by (simp add: previous_def refunds_of_def money_rows_filter)
    note parts = conjunct2 [OF refund_allocations [OF assms(5,6) ops(3) previous assms(8) amount],
        rule_format, OF al]
    have each: "c \<in> set ops \<and> dec4 x \<and> 0 < x \<and> reserved previous (op_id c) + x \<le> op_amount c"
      if "(c, x) \<in> set al" for c x
      using parts that by auto
    show ?thesis
    proof (rule loop_covered [OF run assms(3,4,2) allocations_distinct [OF al ops(2)]])
      show "\<forall>(c, x) \<in> set al. money (env_big E) x = x"
      proof clarify
        fix c x assume c: "(c, x) \<in> set al"
        have "x \<le> M" using each [OF c] reserved_bounds [OF previous, of "op_id c"]
            money_rows_le [OF ops(3), of c] by auto
        with each [OF c] show "money (env_big E) x = x"
          by (intro money_exact [OF assms(5,6)]) auto
      qed
      show "\<forall>y \<in> set al. room (p_id refundPayment) s y"
      proof
        fix y assume "y \<in> set al"
        then obtain c x where y: "y = (c, x)" and c: "(c, x) \<in> set al" by (metis surj_pair)
        have "refunded s (op_id c) + x \<le> a"
          if own: "\<not> has_own (p_id refundPayment) (op_id c) s" and v: "(op_id c, a, v) \<in> set (views s)"
          for a v
        proof -
        from v obtain d where d: "d \<in> set (st_operations s)" "op_id d = op_id c" "op_amount d = a"
          by (auto simp: views_def op_view_def)
        with each [OF c] ops(1) assms(3) have "d = c"
          by (auto simp: fresh_operations_def distinct_map inj_on_def)
        have "filter (\<lambda>r. op_originalOperationId r = Some (op_id c)) previous =
            filter (\<lambda>r. op_operationType r = REFUND \<and> op_originalOperationId r = Some (op_id c)) (st_operations s)"
          using own each [OF c]
          by (auto simp: previous_def refunds_of_def has_own_def intro!: filter_cong)
        then have "refunded s (op_id c) = reserved previous (op_id c)"
          by (simp add: refunded_def reserved_def)
        with each [OF c] d(3) \<open>d = c\<close> show ?thesis by simp
        qed
        then show "room (p_id refundPayment) s y" by (auto simp: room_def y)
      qed
    qed
  qed (use assms(2) in simp)
qed

definition sample_refund_store :: store where
  "sample_refund_store = sample_store
     \<lparr>st_payments := [sample_payment ''q2'' REFUND PS_WAITING 60],
      st_operations := sample_captures @ sample_refunded\<rparr>"

lemma sample_refund_run:
  "let (t, r) = startRefundPaymentOperationsForRefundRequest (sample_env OS_COMPLETED)
         (sample_payment ''q2'' REFUND PS_WAITING 60) [] (sample_payment ''p'' PURCHASE PS_COMPLETED 150) []
         sample_refund_store
   in r = Inr () \<and> length (st_operations t) = 5"
  by code_simp

theorem refunds_never_exceed_captures_witness:
  "\<exists>t. startRefundPaymentOperationsForRefundRequest (sample_env OS_COMPLETED)
         (sample_payment ''q2'' REFUND PS_WAITING 60) [] (sample_payment ''p'' PURCHASE PS_COMPLETED 150) []
         sample_refund_store = (t, Inr ()) \<and> length (st_operations t) = 5 \<and> captures_covered t"
proof -
  from sample_refund_run obtain t where
    t: "startRefundPaymentOperationsForRefundRequest (sample_env OS_COMPLETED)
         (sample_payment ''q2'' REFUND PS_WAITING 60) [] (sample_payment ''p'' PURCHASE PS_COMPLETED 150) []
         sample_refund_store = (t, Inr ())" "length (st_operations t) = 5"
    by (auto split: prod.splits)
  have "captures_covered sample_refund_store"
    by (simp add: captures_covered_def refunded_def sample_refund_store_def sample_captures_def
        sample_refunded_def sample_operation_def new_operation_def)
  moreover have "fresh_operations (sample_env OS_COMPLETED) sample_refund_store"
    by (auto simp: fresh_operations_def sample_refund_store_def sample_captures_def sample_env_def
        sample_refunded_def sample_operation_def new_operation_def)
  moreover have "money_rows 1000 (st_operations sample_refund_store)"
    by (simp add: sample_refund_store_def sample_split_defs)
  moreover have "dec4 (p_totalAmount (sample_payment ''q2'' REFUND PS_WAITING 60))"
    by (simp add: sample_payment_def dec_def)
  ultimately have "captures_covered t"
    using refunds_never_exceed_captures [OF t(1)] by simp
  with t show ?thesis by blast
qed

end
