(* ===== verification/Refund_Settlement.thy ===== *)
theory Refund_Settlement
  imports Refund_Allocations
begin

text \<open>
  The settlement of a refund a channel reports (\<open>saveRefundSettlementRecord\<close>): what it books, that
  it books every line once, and that it is all or nothing.
\<close>

section \<open>The entries of one line\<close>

definition signed :: "account_transaction_row \<Rightarrow> rat" where
  "signed x = (if tr_type x = CREDIT then tr_amount x else - tr_amount x)"

definition fresh_transactions :: "env \<Rightarrow> store \<Rightarrow> bool" where
  "fresh_transactions E s \<longleftrightarrow> inj (env_uuid E) \<and>
     (\<forall>n \<ge> st_seq s. env_uuid E n \<notin> tr_id ` set (st_transactions s))"

text \<open>A pair of rounding entries: opposite sides, same amount, two different accounts.\<close>

definition rounding_pair ::
  "channel_operation_row \<Rightarrow> refund_plan \<Rightarrow> account_transaction_row \<Rightarrow> account_transaction_row \<Rightarrow> bool"
where
  "rounding_pair operation plan a b \<longleftrightarrow>
     signed a + signed b = 0 \<and> tr_roundingOperationId a = Some (op_id operation) \<and>
     tr_roundingOperationId b = Some (op_id operation) \<and> tr_corelationId a = tr_corelationId b \<and>
     Some (tr_accountId b) = rp_roundingAccountId plan \<and> tr_accountId a \<noteq> tr_accountId b"

lemma transactions_save:
  assumes "tr_id x \<notin> tr_id ` set (st_transactions s)"
  shows "st_transactions (save_transaction B x s) = st_transactions s @ [transaction_columns B x]"
  using assms by (simp add: save_transaction_def upsert_fresh transaction_columns_def)

lemma truthy_Some: "truthy x \<Longrightarrow> Some (nullish x d) = x"
  by (cases x) auto

lemma find_account_id: "find_account s i = Some a \<Longrightarrow> a_id a = i"
  unfolding find_account_def by (drule by_key_in) simp

lemma book_rounding_effect:
  assumes "book_rounding E operation plan pid item d s = (t, Inr u)" and "fresh_transactions E s"
  shows "\<exists>a b. st_transactions t = st_transactions s @ [a, b] \<and> rounding_pair operation plan a b \<and>
           fresh_transactions E t"
proof -
  let ?n = "st_seq s"
  from assms(1) obtain payment :: payment_row and customer rounding where
    raw: "truthy (rp_roundingAccountId plan)" "truthy (p_customerAccountId payment)"
      "p_customerAccountId payment \<noteq> rp_roundingAccountId plan" and
    acc: "find_account (s\<lparr>st_seq := Suc ?n\<rparr>) (nullish (p_customerAccountId payment) []) = Some customer"
      "find_account (s\<lparr>st_seq := Suc ?n\<rparr>) (nullish (rp_roundingAccountId plan) []) = Some rounding" and
    t: "t = booked E operation pid item d customer rounding (env_uuid E ?n) (env_uuid E (Suc ?n))
      (env_uuid E (Suc (Suc ?n))) (s\<lparr>st_seq := Suc (Suc (Suc ?n))\<rparr>)"
    by (auto simp: book_rounding_def res_simps)
  let ?a = "transaction_columns (env_big E) (rounding_transaction E (env_uuid E (Suc ?n))
      (env_uuid E ?n) customer pid (op_id operation) item (if d > 0 then CREDIT else DEBIT)
      (big_num (env_big E) \<bar>d\<bar>))"
  let ?b = "transaction_columns (env_big E) (rounding_transaction E (env_uuid E (Suc (Suc ?n)))
      (env_uuid E ?n) rounding pid (op_id operation) item (if d > 0 then DEBIT else CREDIT)
      (big_num (env_big E) \<bar>d\<bar>))"
  have ids: "env_uuid E (Suc (Suc ?n)) \<noteq> env_uuid E (Suc ?n)"
    "env_uuid E (Suc ?n) \<notin> tr_id ` set (st_transactions s)"
    "env_uuid E (Suc (Suc ?n)) \<notin> tr_id ` set (st_transactions s)"
    using assms(2) by (auto simp: fresh_transactions_def inj_eq)
  have rows: "st_transactions t = st_transactions s @ [?a, ?b]"
    unfolding t booked_def Let_def using ids
    by (subst transactions_save; (subst transactions_save)?)
      (auto simp: rounding_transaction_def transaction_columns_def)
  moreover have "rounding_pair operation plan ?a ?b"
    using find_account_id [OF acc(1)] find_account_id [OF acc(2)] raw(3)
      truthy_Some [OF raw(1), of "[]"] truthy_Some [OF raw(2), of "[]"]
    by (auto simp: rounding_pair_def signed_def rounding_transaction_def transaction_columns_def)
  moreover have "fresh_transactions E t"
  proof -
    have "st_seq t = Suc (Suc (Suc ?n))" unfolding t by (simp add: booked_def Let_def)
    then show ?thesis
      using assms(2) rows
      by (auto simp: fresh_transactions_def rounding_transaction_def transaction_columns_def inj_eq)
  qed
  ultimately show ?thesis by blast
qed

section \<open>The loop over the settlements\<close>

definition provider_differs :: "bigjs \<Rightarrow> refund_plan \<Rightarrow> string \<Rightarrow> bool" where
  "provider_differs B plan i =
     (case List.find (\<lambda>c. rl_originalPaymentItemId c = i) (rp_lines plan) of
        None \<Rightarrow> False
      | Some line \<Rightarrow> big_parse B (rl_providerAmount line) \<noteq> big_parse B (rl_nominalAmount line))"

text \<open>The lines reported now that still need rounding entries.\<close>

definition rounding_due :: "bigjs \<Rightarrow> refund_plan \<Rightarrow> string list \<Rightarrow> refund_settlement list \<Rightarrow> string list" where
  "rounding_due B plan settled settlements =
     filter (\<lambda>i. i \<notin> set settled \<and> provider_differs B plan i) (map rs_originalPaymentItemId settlements)"

lemma settle_line_effect:
  assumes "settle_line E operation plan pid settled x s = (t, Inr settled')"
    and "fresh_transactions E s" "bigjs_ok (env_big E)"
  shows "\<exists>new. st_transactions t = st_transactions s @ new \<and> fresh_transactions E t \<and>
     (new = [] \<and> rounding_due (env_big E) plan settled [x] = [] \<or>
      rounding_due (env_big E) plan settled [x] \<noteq> [] \<and>
        (\<exists>a b. new = [a, b] \<and> rounding_pair operation plan a b)) \<and>
     settled' = (if rs_originalPaymentItemId x \<in> set settled then settled
                 else settled @ [rs_originalPaymentItemId x]) \<and>
     rs_originalPaymentItemId x \<in> rl_originalPaymentItemId ` set (rp_lines plan)"
proof -
  from assms(1) obtain line where
    line: "List.find (\<lambda>c. rl_originalPaymentItemId c = rs_originalPaymentItemId x) (rp_lines plan) = Some line"
    by (auto simp: settle_line_def throwS_def split: option.splits)
  from find_Some_in [OF line]
  have here: "line \<in> set (rp_lines plan)" "rl_originalPaymentItemId line = rs_originalPaymentItemId x"
    and mem: "rs_originalPaymentItemId x \<in> rl_originalPaymentItemId ` set (rp_lines plan)"
    by (auto intro: image_eqI [OF sym])
  show ?thesis
  proof (cases "rs_originalPaymentItemId x \<in> set settled")
    case True
    with assms line here mem show ?thesis
      by (auto simp: settle_line_def res_simps rounding_due_def)
  next
    case False
    with assms(1) line here obtain p n where
      pn: "big_parse (env_big E) (rl_providerAmount line) = Some p"
        "big_parse (env_big E) (rl_nominalAmount line) = Some n"
      and run: "(if p = n then returnS () else
        book_rounding E operation plan pid (rl_originalPaymentItemId line) (p - n)) s = (t, Inr ())"
      and settled': "settled' = settled @ [rs_originalPaymentItemId x]"
      by (auto simp: settle_line_def res_simps bigOf_def Let_def bigjs_okD [OF assms(3)] split: if_splits)
    have due: "rounding_due (env_big E) plan settled [x] =
        (if p = n then [] else [rs_originalPaymentItemId x])"
      using False line pn by (simp add: rounding_due_def provider_differs_def)
    show ?thesis
    proof (cases "p = n")
      case True
      with run assms(2) due settled' False here mem show ?thesis by auto
    next
      case False
      with run have "book_rounding E operation plan pid (rl_originalPaymentItemId line) (p - n) s = (t, Inr ())"
        by simp
      from book_rounding_effect [OF this assms(2)] due False settled' mem
        \<open>rs_originalPaymentItemId x \<notin> set settled\<close>
      show ?thesis by auto
    qed
  qed
qed

lemma settle_loop:
  assumes "foldS (settle_line E operation plan pid) settled xs s = (t, Inr settled')"
    and "fresh_transactions E s" "bigjs_ok (env_big E)"
    and "distinct (map rs_originalPaymentItemId xs)" "distinct settled"
  shows "\<exists>pairs. st_transactions t = st_transactions s @ concat (map (\<lambda>(a, b). [a, b]) pairs) \<and>
     (\<forall>(a, b) \<in> set pairs. rounding_pair operation plan a b) \<and>
     length pairs = length (rounding_due (env_big E) plan settled xs) \<and>
     distinct settled' \<and> set settled' = set settled \<union> rs_originalPaymentItemId ` set xs \<and>
     rs_originalPaymentItemId ` set xs \<subseteq> rl_originalPaymentItemId ` set (rp_lines plan)"
  using assms
proof (induction xs arbitrary: settled s)
  case (Cons x xs)
  let ?i = "rs_originalPaymentItemId"
  from Cons.prems(1) obtain u settled1 where
    one: "settle_line E operation plan pid settled x s = (u, Inr settled1)" and
    rest: "foldS (settle_line E operation plan pid) settled1 xs u = (t, Inr settled')"
    by (auto simp: res_simps)
  from settle_line_effect [OF one Cons.prems(2,3)] obtain new where
    new: "st_transactions u = st_transactions s @ new" "fresh_transactions E u"
      "new = [] \<and> rounding_due (env_big E) plan settled [x] = [] \<or>
       rounding_due (env_big E) plan settled [x] \<noteq> [] \<and>
         (\<exists>a b. new = [a, b] \<and> rounding_pair operation plan a b)"
      "settled1 = (if ?i x \<in> set settled then settled else settled @ [?i x])"
      "?i x \<in> rl_originalPaymentItemId ` set (rp_lines plan)" by blast
  have d: "distinct settled1" "distinct (map ?i xs)" "set settled1 = insert (?i x) (set settled)"
    using Cons.prems(4,5) new(4) by auto
  have due: "rounding_due (env_big E) plan settled1 xs = rounding_due (env_big E) plan settled xs"
    using Cons.prems(4) d(3) by (auto simp: rounding_due_def intro!: filter_cong)
  from Cons.IH [OF rest new(2) Cons.prems(3) d(2,1)] obtain pairs where
    pairs: "st_transactions t = st_transactions u @ concat (map (\<lambda>(a, b). [a, b]) pairs)"
      "\<forall>(a, b) \<in> set pairs. rounding_pair operation plan a b"
      "length pairs = length (rounding_due (env_big E) plan settled xs)"
      "distinct settled'" "set settled' = set settled1 \<union> ?i ` set xs"
      "?i ` set xs \<subseteq> rl_originalPaymentItemId ` set (rp_lines plan)"
    unfolding due by blast
  have split: "length (rounding_due (env_big E) plan settled (x # xs)) =
      length (rounding_due (env_big E) plan settled [x]) + length (rounding_due (env_big E) plan settled xs)"
    by (simp add: rounding_due_def)
  have tail: "distinct settled' \<and> set settled' = set settled \<union> ?i ` set (x # xs) \<and>
      ?i ` set (x # xs) \<subseteq> rl_originalPaymentItemId ` set (rp_lines plan)"
    using pairs(4-6) d(3) new(5) by auto
  from new(3) show ?case
  proof
    assume "new = [] \<and> rounding_due (env_big E) plan settled [x] = []"
    with new(1) pairs(1-3) split tail show ?thesis by (intro exI [of _ pairs]) auto
  next
    assume "rounding_due (env_big E) plan settled [x] \<noteq> [] \<and>
        (\<exists>a b. new = [a, b] \<and> rounding_pair operation plan a b)"
    then obtain a b where ab: "new = [a, b]" "rounding_pair operation plan a b"
      "length (rounding_due (env_big E) plan settled [x]) = 1"
      by (auto simp: rounding_due_def split: if_splits)
    with new(1) pairs(1-3) split tail show ?thesis by (intro exI [of _ "(a, b) # pairs"]) auto
  qed
qed (auto simp: rounding_due_def intro: exI [of _ "[]"])

section \<open>The whole settlement\<close>

definition settled_ids :: "channel_operation_row \<Rightarrow> string list" where
  "settled_ids r = nullish (op_settledRefundItemIds r) []"

lemma rounding_due_unique: "rounding_due B plan (unique settled) xs = rounding_due B plan settled xs"
  by (simp add: rounding_due_def)

lemma check_settlement_facts:
  assumes "check_settlement E operation result pid = Inr (plan, settlements)"
  shows "op_refundPlan operation = Some plan" "cs_refundSettlements result = Some settlements"
    "distinct (map rs_originalPaymentItemId settlements)"
    "cs_paymentStatus result = OS_COMPLETED \<Longrightarrow> length settlements = length (rp_lines plan)"
  using assms by (auto simp: check_settlement_def res_simps split: option.splits if_splits)

lemma full_cover:
  assumes "distinct (map f xs)" "length xs = length ys" "f ` set xs \<subseteq> g ` set ys"
  shows "f ` set xs = g ` set ys"
proof -
  have "card (g ` set ys) \<le> length ys" using card_image_le card_length le_trans by blast
  also have "\<dots> = card (f ` set xs)"
    using assms(1,2) distinct_card [of "map f xs"] by simp
  finally show ?thesis using assms(3) by (simp add: card_seteq)
qed

text \<open>
  C13: a refund settlement is all or nothing and books each line once. When it is refused nothing
  changes. When it is recorded, the account entries grow by one balanced pair of rounding entries
  (customer against the plan's rounding account) for every line that is reported for the first time
  and whose provider amount differs from the nominal one, and by nothing else; no settled line is
  lost, a completed report settles every line of the plan, and a completed operation stays
  completed. A report repeated therefore books nothing.
\<close>

theorem settlement_books_once:
  assumes "saveRefundSettlementRecord E record result pid s = (t, res)"
    and "fresh_transactions E s" and "bigjs_ok (env_big E)"
  shows "case res of Inl e \<Rightarrow> t = s
    | Inr row \<Rightarrow> (\<exists>operation plan settlements pairs ids.
        find_operation s (op_id record) = Some operation \<and> op_refundPlan operation = Some plan \<and>
        cs_refundSettlements result = Some settlements \<and>
        st_transactions t = st_transactions s @ concat (map (\<lambda>(a, b). [a, b]) pairs) \<and>
        (\<forall>(a, b) \<in> set pairs. rounding_pair operation plan a b) \<and>
        length pairs = length (rounding_due (env_big E) plan (settled_ids operation) settlements) \<and>
        op_settledRefundItemIds row = Some ids \<and> distinct ids \<and>
        set (settled_ids operation) \<subseteq> set ids \<and>
        set ids = rs_originalPaymentItemId ` set settlements \<and>
        (op_status row = OS_COMPLETED \<longrightarrow> set ids = rl_originalPaymentItemId ` set (rp_lines plan)) \<and>
        (op_status operation = OS_COMPLETED \<longrightarrow> op_status row = OS_COMPLETED))"
proof (cases res)
  case (Inl e)
  with assms(1) have "t = s"
    by (auto simp: saveRefundSettlementRecord_def res_simps dest: transactionS_Inl)
  with Inl show ?thesis by simp
next
  case (Inr row)
  with assms(1) obtain operation plan settlements u ids where
    found: "find_operation s (op_id record) = Some operation" and
    check: "check_settlement E operation result pid = Inr (plan, settlements)" and
    guards: "\<not> (op_status operation = OS_COMPLETED \<and> cs_paymentStatus result \<noteq> OS_COMPLETED)"
      "\<not> list_ex (\<lambda>i. i \<notin> rs_originalPaymentItemId ` set settlements) (unique (settled_ids operation))" and
    loop: "foldS (settle_line E operation plan pid) (unique (settled_ids operation)) settlements s = (u, Inr ids)" and
    t: "st_transactions t = st_transactions u" and
    row: "op_settledRefundItemIds row = Some ids" "op_status row = cs_paymentStatus result"
    by (auto simp: saveRefundSettlementRecord_def res_simps Let_def settled_ids_def split: prod.splits)
  note facts = check_settlement_facts [OF check]
  from settle_loop [OF loop assms(2,3) facts(3)] obtain pairs where
    pairs: "st_transactions u = st_transactions s @ concat (map (\<lambda>(a, b). [a, b]) pairs)"
      "\<forall>(a, b) \<in> set pairs. rounding_pair operation plan a b"
      "length pairs = length (rounding_due (env_big E) plan (settled_ids operation) settlements)"
      "distinct ids" "set ids = set (settled_ids operation) \<union> rs_originalPaymentItemId ` set settlements"
      "rs_originalPaymentItemId ` set settlements \<subseteq> rl_originalPaymentItemId ` set (rp_lines plan)"
    by (auto simp: rounding_due_unique)
  have kept: "set (settled_ids operation) \<subseteq> rs_originalPaymentItemId ` set settlements"
    using guards(2) by (auto simp: list_ex_iff)
  have "set ids = rl_originalPaymentItemId ` set (rp_lines plan)" if "op_status row = OS_COMPLETED"
    using that row(2) facts(3,4) pairs(5,6) kept full_cover [OF facts(3) _ pairs(6)] by auto
  with Inr found facts t pairs row guards(1) kept show ?thesis by (auto intro!: exI)
qed

definition sample_plan :: refund_plan where
  "sample_plan =
     \<lparr>rp_originalOperationId = ''a'', rp_originalChannelOperationId = ''channel-a'',
      rp_channelData = None, rp_roundingAccountId = Some ''platform'',
      rp_lines = [\<lparr>rl_originalPaymentItemId = ''i1'', rl_nominalAmount = ''10.00'', rl_providerAmount = ''9.99''\<rparr>,
                  \<lparr>rl_originalPaymentItemId = ''i2'', rl_nominalAmount = ''5'', rl_providerAmount = ''5''\<rparr>]\<rparr>"

definition sample_planned :: channel_operation_row where
  "sample_planned = (sample_operation ''r'' ''q'' REFUND OS_WAITING 15)
     \<lparr>op_operationId := Some ''channel-op'', op_refundPlan := Some sample_plan\<rparr>"

definition sample_settled :: channel_status where
  "sample_settled = (sample_reply OS_COMPLETED)\<lparr>cs_refundSettlements := Some
     [\<lparr>rs_originalPaymentItemId = ''i1'', rs_providerAmount = ''9.99''\<rparr>,
      \<lparr>rs_originalPaymentItemId = ''i2'', rs_providerAmount = ''5''\<rparr>]\<rparr>"

definition sample_settle_store :: store where
  "sample_settle_store = sample_store\<lparr>st_payments := [sample_payment ''q'' REFUND PS_WAITING 15],
     st_operations := [sample_planned]\<rparr>"

lemma sample_settle_run:
  "let (t, r) = saveRefundSettlementRecord (sample_env OS_COMPLETED) sample_planned sample_settled ''q''
         sample_settle_store
   in (case r of Inr row \<Rightarrow> op_status row = OS_COMPLETED | _ \<Rightarrow> False)"
  by code_simp

lemma sample_settle_due:
  "rounding_due exact_bigjs sample_plan [] (nullish (cs_refundSettlements sample_settled) []) = [''i1'']"
  by code_simp

theorem settlement_books_once_witness:
  "\<exists>t row pairs. saveRefundSettlementRecord (sample_env OS_COMPLETED) sample_planned sample_settled ''q''
       sample_settle_store = (t, Inr row) \<and>
     st_transactions t = concat (map (\<lambda>(a, b). [a, b]) pairs) \<and> length pairs = 1 \<and>
     (\<forall>(a, b) \<in> set pairs. signed a + signed b = 0)"
proof -
  from sample_settle_run obtain t row where
    run: "saveRefundSettlementRecord (sample_env OS_COMPLETED) sample_planned sample_settled ''q''
       sample_settle_store = (t, Inr row)" by (auto split: prod.splits sum.splits)
  have "fresh_transactions (sample_env OS_COMPLETED) sample_settle_store"
    by (simp add: fresh_transactions_def sample_settle_store_def sample_store_def)
  from settlement_books_once [OF run this] obtain operation plan settlements pairs where
    "find_operation sample_settle_store ''r'' = Some operation" "op_refundPlan operation = Some plan"
    "cs_refundSettlements sample_settled = Some settlements"
    "st_transactions t = st_transactions sample_settle_store @ concat (map (\<lambda>(a, b). [a, b]) pairs)"
    "\<forall>(a, b) \<in> set pairs. rounding_pair operation plan a b"
    "length pairs = length (rounding_due exact_bigjs plan (settled_ids operation) settlements)"
    by (auto simp: sample_planned_def sample_operation_def)
  then have facts: "operation = sample_planned" "plan = sample_plan"
    "st_transactions t = concat (map (\<lambda>(a, b). [a, b]) pairs)"
    "\<forall>(a, b) \<in> set pairs. signed a + signed b = 0" "length pairs = 1"
    using sample_settle_due
    by (auto simp: find_operation_def by_key_def sample_settle_store_def sample_store_def sample_planned_def
        sample_operation_def settled_ids_def new_operation_def rounding_pair_def)
  with run show ?thesis by blast
qed

end
