(* ===== verification/Channel_Properties.thy ===== *)
theory Channel_Properties
  imports Refund_Settlement
begin

text \<open>
  What the other operations of \<open>payment-operation-management.service.ts\<close> guarantee: starting a
  payment operation, cancelling the waiting ones, and preparing a refund in the channels.
\<close>

section \<open>Starting a payment operation\<close>

text \<open>
  C33: starting a payment operation sends the channel exactly one initialisation, without any note of
  the payment or its items, for the amount it records. The amount is at most what was asked for
  and what remains of the payment when both are positive; but when nothing remains (or nothing
  positive is asked for) it is the payment's full amount again. The recorded operation has the status
  the channel answered, and the return URL it keeps is one that passed \<open>validateReturnUrl\<close>.
\<close>

theorem startPaymentOperation_charges:
  assumes "startPaymentOperation E payment items capture s = (t, Inr (row, reply))"
  shows "\<exists>requested msg. cap_paidAmount capture = Some requested \<and>
     st_log t = st_log s @ [EvInit msg] \<and> ci_paidAmount msg = op_amount row \<and>
     p_note (ci_payment msg) = None \<and> (\<forall>i \<in> set (ci_items msg). i_note i = None) \<and>
     (let remaining = js_sub (env_big E) (p_totalAmount payment) (totalPaidOrAuthorizedOf E (p_id payment) s) in
      (0 < requested \<and> 0 < remaining \<longrightarrow> op_amount row \<le> requested \<and> op_amount row \<le> remaining) \<and>
      (requested \<le> 0 \<or> remaining \<le> 0 \<longrightarrow> op_amount row = p_totalAmount payment)) \<and>
     op_paymentId row = p_id payment \<and> op_operationType row = p_type payment \<and>
     op_status row = cs_paymentStatus reply \<and>
     find_operation t (op_id row) = Some (operation_columns (env_big E) row) \<and>
     (\<forall>u. op_returnUrl row = Some u \<longrightarrow>
        validateReturnUrl (env_url E) (env_production E) (cap_redirectUrl capture)
          (as_allowedReturnOrigins (st_settings s)) = Inr u)"
proof -
  let ?B = "env_big E"
  from assms obtain requested returnUrl result i redirectUrl where
    req: "cap_paidAmount capture = Some requested" and
    url: "checked_return_url E (st_settings s) capture = Inr returnUrl" and
    save: "savePaymentChannelRecord E (payment_operation E payment capture
        (capture_amount ?B requested (p_totalAmount payment) (totalPaidOrAuthorizedOf E (p_id payment) s))
        returnUrl i) (result\<lparr>cs_redirectUrl := redirectUrl\<rparr>) (p_id payment)
        (s\<lparr>st_log := st_log s @ [EvInit (init_message payment items capture
            (capture_amount ?B requested (p_totalAmount payment) (totalPaidOrAuthorizedOf E (p_id payment) s)))],
           st_seq := Suc (st_seq s)\<rparr>) = (t, Inr row)" and
    reply: "reply = result\<lparr>cs_redirectUrl := redirectUrl\<rparr>"
    by (auto simp: startPaymentOperation_def res_simps Let_def)
  define amount where
    "amount = capture_amount ?B requested (p_totalAmount payment) (totalPaidOrAuthorizedOf E (p_id payment) s)"
  define msg where "msg = init_message payment items capture amount"
  note save = save [folded amount_def, folded msg_def]
  from save have row: "op_amount row = amount" "op_paymentId row = p_id payment"
      "op_operationType row = p_type payment" "op_returnUrl row = returnUrl"
      "op_status row = cs_paymentStatus reply"
    and t: "t = save_operation ?B row (s\<lparr>st_log := st_log s @ [EvInit msg], st_seq := Suc (st_seq s)\<rparr>)"
    by (auto simp: savePaymentChannelRecord_def res_simps Let_def payment_operation_def new_operation_def
        fee_columns_def reply)
  have log: "st_log t = st_log s @ [EvInit msg]" by (simp add: t)
  have found: "find_operation t (op_id row) = Some (operation_columns ?B row)"
    by (simp add: t find_save_operation)
  have m: "ci_paidAmount msg = amount" "p_note (ci_payment msg) = None"
      "\<forall>i \<in> set (ci_items msg). i_note i = None"
    by (auto simp: msg_def init_message_def omitPaymentNotes_def)
  have valid: "\<forall>u. op_returnUrl row = Some u \<longrightarrow> validateReturnUrl (env_url E) (env_production E)
      (cap_redirectUrl capture) (as_allowedReturnOrigins (st_settings s)) = Inr u"
    using url by (auto simp: row checked_return_url_def res_simps split: if_splits)
  have "let remaining = js_sub ?B (p_totalAmount payment) (totalPaidOrAuthorizedOf E (p_id payment) s) in
      (0 < requested \<and> 0 < remaining \<longrightarrow> amount \<le> requested \<and> amount \<le> remaining) \<and>
      (requested \<le> 0 \<or> remaining \<le> 0 \<longrightarrow> amount = p_totalAmount payment)"
    by (auto simp: amount_def capture_amount_def Let_def)
  with req log m valid found row show ?thesis by auto
qed

definition sample_capture :: "rat \<Rightarrow> capture_info" where
  "sample_capture a = \<lparr>cap_paidAmount = Some a, cap_paymentChannelId = ''IYZICO'',
     cap_currency = ''TRY'', cap_redirectUrl = None\<rparr>"

definition sample_paid_store :: store where
  "sample_paid_store = sample_store\<lparr>st_operations := [sample_operation ''a'' ''p'' PURCHASE OS_COMPLETED 100]\<rparr>"

lemma sample_start_run:
  "let (t, r) = startPaymentOperation (sample_env OS_WAITING)
         (sample_payment ''p'' PURCHASE PS_WAITING 100) [] (sample_capture 30) sample_paid_store
   in (case r of Inr _ \<Rightarrow> True | _ \<Rightarrow> False)"
  by code_simp

text \<open>A payment of 100 already paid in full is charged 100 once more.\<close>

theorem startPaymentOperation_charges_witness:
  "\<exists>t row reply. startPaymentOperation (sample_env OS_WAITING)
       (sample_payment ''p'' PURCHASE PS_WAITING 100) [] (sample_capture 30) sample_paid_store =
         (t, Inr (row, reply)) \<and> op_amount row = 100"
proof -
  from sample_start_run obtain t row reply where
    run: "startPaymentOperation (sample_env OS_WAITING)
       (sample_payment ''p'' PURCHASE PS_WAITING 100) [] (sample_capture 30) sample_paid_store =
         (t, Inr (row, reply))" by (auto split: prod.splits sum.splits)
  have "js_sub exact_bigjs (p_totalAmount (sample_payment ''p'' PURCHASE PS_WAITING 100))
      (totalPaidOrAuthorizedOf (sample_env OS_WAITING) (p_id (sample_payment ''p'' PURCHASE PS_WAITING 100))
        sample_paid_store) = 0"
    by (simp add: totalPaidOrAuthorizedOf_def operations_with_def sample_paid_store_def sample_payment_def
        sample_operation_def new_operation_def)
  with startPaymentOperation_charges [OF run] have "op_amount row = 100"
    by (auto simp: Let_def sample_payment_def)
  with run show ?thesis by blast
qed

section \<open>Cancelling the waiting operations\<close>

lemma upsert_map:
  "distinct (map key rows) \<Longrightarrow> key r \<in> key ` set rows \<Longrightarrow>
     upsert key r rows = map (\<lambda>x. if key x = key r then r else x) rows"
proof (induction rows)
  case (Cons x rows)
  show ?case
  proof (cases "key x = key r")
    case True
    with Cons.prems have "key r \<notin> key ` set rows" by auto
    then have "map (\<lambda>x. if key x = key r then r else x) rows = rows"
      by (intro map_idI) (metis imageI)
    with True show ?thesis by simp
  qed (use Cons in auto)
qed simp

lemma fold_upsert_map:
  assumes "distinct (map key rows)" "distinct (map key xs)" "key ` set xs \<subseteq> key ` set rows"
    and "\<And>x. key (g x) = key x"
  shows "fold (\<lambda>x. upsert key (g x)) xs rows =
    map (\<lambda>r. case List.find (\<lambda>x. key x = key r) xs of None \<Rightarrow> r | Some x \<Rightarrow> g x) rows"
  using assms(1-3)
proof (induction xs arbitrary: rows)
  case (Cons x xs)
  let ?rows = "upsert key (g x) rows"
  have rows: "?rows = map (\<lambda>r. if key r = key x then g x else r) rows"
    using Cons.prems upsert_map [of key rows "g x"] by (simp add: assms(4))
  have keys: "map key ?rows = map key rows" by (simp add: rows assms(4))
  then have "set (map key ?rows) = set (map key rows)" by simp
  then have "key ` set ?rows = key ` set rows" by simp
  with Cons.prems keys have IH: "fold (\<lambda>x. upsert key (g x)) xs ?rows =
      map (\<lambda>r. case List.find (\<lambda>x. key x = key r) xs of None \<Rightarrow> r | Some x \<Rightarrow> g x) ?rows"
    by (intro Cons.IH) auto
  have "List.find (\<lambda>y. key y = key x) xs = None"
    using Cons.prems(2) by (auto simp: find_None_iff image_iff)
  then show ?case
    unfolding fold_simps comp_def IH by (auto simp: rows assms(4))
qed simp

lemma cancel_loop:
  "forS xs (cancel_operation E) s = (t, Inr ()) \<Longrightarrow>
     st_operations t = fold (\<lambda>x. upsert op_id (operation_columns (env_big E) (x\<lparr>op_status := OS_FAILED\<rparr>)))
       xs (st_operations s)"
proof (induction xs arbitrary: s)
  case (Cons x xs)
  then obtain u where u: "cancel_operation E x s = (u, Inr ())"
    "forS xs (cancel_operation E) u = (t, Inr ())" by (auto simp: res_simps)
  then have "st_operations u =
      upsert op_id (operation_columns (env_big E) (x\<lparr>op_status := OS_FAILED\<rparr>)) (st_operations s)"
    by (auto simp: cancel_operation_def res_simps save_operation_def)
  with Cons.IH [OF u(2)] show ?case by simp
qed simp

definition cancelled_row :: "bigjs \<Rightarrow> string \<Rightarrow> channel_operation_row \<Rightarrow> channel_operation_row" where
  "cancelled_row B pid r =
     (if op_paymentId r = pid \<and> op_status r = OS_WAITING \<and> op_operationType r = PURCHASE
      then operation_columns B (r\<lparr>op_status := OS_FAILED\<rparr>) else r)"

text \<open>
  C34: cancelling a payment's operations marks exactly its waiting purchase operations as failed,
  whatever status the channel answers the cancellation with, and leaves every other operation, in
  particular its refunds and its authorised or completed ones, as it was.
\<close>

theorem cancel_fails_waiting_operations:
  assumes "cancelPaymentOperationsByPaymentId E pid s = (t, Inr ())"
    and "distinct (map op_id (st_operations s))"
  shows "st_operations t = map (cancelled_row (env_big E) pid) (st_operations s)"
proof -
  let ?P = "\<lambda>r. op_paymentId r = pid \<and> op_status r = OS_WAITING \<and> op_operationType r = PURCHASE"
  let ?xs = "filter ?P (st_operations s)"
  let ?g = "\<lambda>x. operation_columns (env_big E) (x\<lparr>op_status := OS_FAILED\<rparr>)"
  have "filter (\<lambda>r. op_operationType r = PURCHASE) (operations_with s pid {OS_WAITING}) = ?xs"
    by (simp add: operations_with_def conj_ac)
  with assms(1) have "forS ?xs (cancel_operation E) s = (t, Inr ())"
    by (auto simp: cancelPaymentOperationsByPaymentId_def res_simps)
  note run = cancel_loop [OF this]
  have "fold (\<lambda>x. upsert op_id (?g x)) ?xs (st_operations s) =
      map (\<lambda>r. case List.find (\<lambda>x. op_id x = op_id r) ?xs of None \<Rightarrow> r | Some x \<Rightarrow> ?g x) (st_operations s)"
    using assms(2) by (intro fold_upsert_map) (auto simp: distinct_map_filter)
  also have "\<dots> = map (cancelled_row (env_big E) pid) (st_operations s)"
  proof (rule map_cong [OF refl])
    fix r assume r: "r \<in> set (st_operations s)"
    show "(case List.find (\<lambda>x. op_id x = op_id r) ?xs of None \<Rightarrow> r | Some x \<Rightarrow> ?g x) =
        cancelled_row (env_big E) pid r"
    proof (cases "?P r")
      case True
      with r assms(2) have "List.find (\<lambda>x. op_id x = op_id r) ?xs = Some r"
        by (intro find_distinct_key) (auto simp: distinct_map_filter)
      with True show ?thesis by (simp add: cancelled_row_def)
    next
      case False
      have "List.find (\<lambda>x. op_id x = op_id r) ?xs = None"
        using False r assms(2) by (auto simp: find_None_iff distinct_map inj_on_def)
      then show ?thesis using False by (auto simp: cancelled_row_def)
    qed
  qed
  finally show ?thesis using run by simp
qed

lemma sample_cancel_run:
  "snd (cancelPaymentOperationsByPaymentId (sample_env OS_COMPLETED) ''p''
     (sample_store\<lparr>st_operations := [sample_operation ''a'' ''p'' PURCHASE OS_WAITING 100]\<rparr>)) = Inr ()"
  by code_simp

theorem cancel_fails_waiting_operations_witness:
  "\<exists>t. cancelPaymentOperationsByPaymentId (sample_env OS_COMPLETED) ''p''
        (sample_store\<lparr>st_operations := [sample_operation ''a'' ''p'' PURCHASE OS_WAITING 100]\<rparr>) = (t, Inr ()) \<and>
     map op_status (st_operations t) = [OS_FAILED]"
proof -
  let ?s = "sample_store\<lparr>st_operations := [sample_operation ''a'' ''p'' PURCHASE OS_WAITING 100]\<rparr>"
  obtain t r where tr: "cancelPaymentOperationsByPaymentId (sample_env OS_COMPLETED) ''p'' ?s = (t, r)"
    by (rule prod.exhaust)
  with sample_cancel_run have t: "cancelPaymentOperationsByPaymentId (sample_env OS_COMPLETED) ''p'' ?s = (t, Inr ())"
    by simp
  have "st_operations t = map (cancelled_row exact_bigjs ''p'') (st_operations ?s)"
    using cancel_fails_waiting_operations [OF t] by simp
  moreover have "op_status (cancelled_row exact_bigjs ''p'' (sample_operation ''a'' ''p'' PURCHASE OS_WAITING 100)) = OS_FAILED"
    by code_simp
  ultimately have "map op_status (st_operations t) = [OS_FAILED]" by simp
  with t show ?thesis by (intro exI [of _ t] conjI)
qed

section \<open>Preparing a refund in the channels\<close>

lemma foldS_result:
  assumes "foldS f acc xs s = (t, Inr r)" and "P acc"
    and "\<And>acc x s t acc'. P acc \<Longrightarrow> f acc x s = (t, Inr acc') \<Longrightarrow> P acc'"
  shows "P r"
  using assms(1,2)
proof (induction xs arbitrary: s acc)
  case (Cons x xs)
  from Cons.prems(1) obtain u acc' where u: "f acc x s = (u, Inr acc')" "foldS f acc' xs u = (t, Inr r)"
    by (auto simp: res_simps)
  from Cons.IH [OF u(2) assms(3) [OF Cons.prems(2) u(1)]] show ?case .
qed simp

text \<open>A plan the core accepts: it refunds a completed capture of the purchase.\<close>

definition sourced :: "channel_operation_row list \<Rightarrow> refund_plan \<Rightarrow> bool" where
  "sourced ops plan \<longleftrightarrow> rp_lines plan \<noteq> [] \<and> distinct (map rl_originalPaymentItemId (rp_lines plan)) \<and>
     (\<exists>c \<in> set ops. op_id c = rp_originalOperationId plan \<and>
        op_operationId c = Some (rp_originalChannelOperationId plan))"

definition accepted :: "channel_operation_row list \<Rightarrow> refund_plan list \<Rightarrow> bool" where
  "accepted ops plans \<longleftrightarrow> distinct (map rp_originalOperationId plans) \<and>
     (\<forall>plan \<in> set plans. sourced ops plan \<and> rp_roundingAccountId plan = None)"

lemma accept_plan_accepted:
  assumes "accept_plan B ops lines channelId plans plan = Inr plans'" and "accepted ops plans"
  shows "accepted ops plans'"
proof -
  from assms(1) obtain source where
    found: "by_key op_id ops (rp_originalOperationId plan) = Some source" and acc: "Some (rp_originalChannelOperationId plan) = op_operationId source"
      "rp_originalOperationId plan \<notin> set (map rp_originalOperationId plans)" "rp_lines plan \<noteq> []"
      "distinct (map rl_originalPaymentItemId (rp_lines plan))"
      "plans' = plans @ [plan\<lparr>rp_roundingAccountId := None\<rparr>]"
    by (auto simp: accept_plan_def Let_def split: option.splits if_splits)
  from by_key_in [OF found] acc assms(2) show ?thesis by (auto simp: accepted_def sourced_def)
qed

lemma foldE_accepted:
  "foldE (accept_plan B ops lines channelId) plans prepared = Inr plans' \<Longrightarrow> accepted ops plans \<Longrightarrow>
     accepted ops plans'"
  by (erule foldE_invariant) (auto intro: accept_plan_accepted)

lemma check_rounding_cases:
  assumes "check_rounding_account E purchase plans s = (t, Inr r)"
  shows "t = s \<and> (r = None \<and> \<not> list_ex (has_rounding (env_big E)) plans \<or>
     r = as_billingAccountId (st_settings s) \<and> r \<noteq> p_customerAccountId purchase \<and>
     (\<exists>a. find_account s (nullish r []) = Some a \<and> \<not> a_deactivated a \<and> \<not> a_isExternal a \<and>
        a_type a = COMMERCIAL))"
  using assms by (auto simp: check_rounding_account_def Let_def split: if_splits option.splits)

lemma prepare_keeps:
  assumes "prepareRefundChannelPlan E requested purchase items s = (t, res)"
  shows "st_operations t = st_operations s \<and> st_transactions t = st_transactions s \<and>
    st_settings t = st_settings s \<and> st_accounts t = st_accounts s"
proof -
  let ?P = "\<lambda>v. st_operations v = st_operations s \<and> st_transactions v = st_transactions s \<and>
    st_settings v = st_settings s \<and> st_accounts v = st_accounts s"
  have "preserves ?P (check_rounding_account E purchase plans)" for plans
    by (rule preservesI)
      (auto simp: check_rounding_account_def Let_def split: if_splits option.splits)
  then have "preserves ?P (prepareRefundChannelPlan E requested purchase items)"
    unfolding prepareRefundChannelPlan_def by (intro preserves) auto
  from preservesD [OF this _ assms] show ?thesis by simp
qed

text \<open>
  C35: accounting stays with the core. Preparing a refund in the channels writes nothing; the plans it
  returns refund different completed captures of the purchase, each under the channel's own id for
  it, and a plan's rounding account is never the one a channel names: it is none, or the platform's
  billing account, an active commercial account that is not the customer, whenever the plan's
  provider amounts differ from the nominal ones.
\<close>

theorem prepared_plans_core_owned:
  assumes "prepareRefundChannelPlan E requested purchase items s = (t, Inr plans)"
  shows "st_operations t = st_operations s \<and> st_transactions t = st_transactions s \<and>
     distinct (map rp_originalOperationId plans) \<and>
     (\<forall>plan \<in> set plans. sourced (completed_captures s (p_id purchase)) plan \<and>
        (rp_roundingAccountId plan = None \<and> \<not> has_rounding (env_big E) plan \<or>
         has_rounding (env_big E) plan \<and>
         rp_roundingAccountId plan = as_billingAccountId (st_settings s) \<and>
         rp_roundingAccountId plan \<noteq> p_customerAccountId purchase \<and>
         (\<exists>a. find_account s (nullish (rp_roundingAccountId plan) []) = Some a \<and>
            \<not> a_deactivated a \<and> \<not> a_isExternal a \<and> a_type a = COMMERCIAL)))"
proof -
  let ?ops = "completed_captures s (p_id purchase)"
  let ?B = "env_big E"
  from assms obtain lines u plans0 r where
    loop: "foldS (\<lambda>plans channelId.
         bindS (request (EvPrepare channelId \<lparr>pr_purchasePaymentId = p_id purchase,
                    pr_purchaseAmount = p_totalAmount purchase, pr_currency = p_currency purchase,
                    pr_captures = map capture_of ?ops, pr_items = lines\<rparr>)
            (\<lambda>log. env_channel_prepare E log channelId \<lparr>pr_purchasePaymentId = p_id purchase,
                    pr_purchaseAmount = p_totalAmount purchase, pr_currency = p_currency purchase,
                    pr_captures = map capture_of ?ops, pr_items = lines\<rparr>)) (\<lambda>prepared.
         liftS (foldE (accept_plan ?B ?ops lines channelId) plans prepared)))
       [] (unique (map op_paymentChannelId ?ops)) s = (u, Inr plans0)" and
    check: "check_rounding_account E purchase plans0 u = (t, Inr r)" and
    plans: "plans = map (\<lambda>plan. if has_rounding ?B plan then plan\<lparr>rp_roundingAccountId := r\<rparr> else plan) plans0"
    by (auto simp: prepareRefundChannelPlan_def res_simps Let_def)
  have acc: "accepted ?ops plans0"
    by (rule foldS_result [OF loop]) (auto simp: accepted_def [of _ "[]"] res_simps intro: foldE_accepted)
  note r = check_rounding_cases [OF check] and kept = prepare_keeps [OF assms]
  from r kept have "st_settings u = st_settings s" "find_account u = find_account s"
    by (auto simp: find_account_def)
  note r = r [unfolded this]
  have same: "has_rounding ?B (plan\<lparr>rp_roundingAccountId := x\<rparr>) = has_rounding ?B plan"
    "sourced ?ops (plan\<lparr>rp_roundingAccountId := x\<rparr>) = sourced ?ops plan" for plan x
    by (simp_all add: has_rounding_def sourced_def)
  have "map rp_originalOperationId plans = map rp_originalOperationId plans0" by (simp add: plans)
  with acc have "distinct (map rp_originalOperationId plans)" by (simp add: accepted_def)
  moreover have "sourced ?ops plan \<and>
        (rp_roundingAccountId plan = None \<and> \<not> has_rounding ?B plan \<or>
         has_rounding ?B plan \<and> rp_roundingAccountId plan = as_billingAccountId (st_settings s) \<and>
         rp_roundingAccountId plan \<noteq> p_customerAccountId purchase \<and>
         (\<exists>a. find_account s (nullish (rp_roundingAccountId plan) []) = Some a \<and>
            \<not> a_deactivated a \<and> \<not> a_isExternal a \<and> a_type a = COMMERCIAL))"
    if "plan \<in> set plans" for plan
  proof -
    from that obtain plan0 where plan0: "plan0 \<in> set plans0"
      "plan = (if has_rounding ?B plan0 then plan0\<lparr>rp_roundingAccountId := r\<rparr> else plan0)"
      by (auto simp: plans)
    with acc have "sourced ?ops plan0" "rp_roundingAccountId plan0 = None" by (auto simp: accepted_def)
    with plan0 r same show ?thesis by (auto simp: list_ex_iff)
  qed
  ultimately show ?thesis using kept by blast
qed

definition sample_request_item :: "string \<Rightarrow> rat \<Rightarrow> refund_request_item_row" where
  "sample_request_item i a =
     \<lparr>ri_id = i, ri_refundRequestId = ''rr'', ri_variation = [], ri_paymentItemId = i, ri_realItemId = i,
      ri_refundCount = 1, ri_itemName = None, ri_unitAmount = None, ri_unitAmountWithoutTax = None,
      ri_refundAmount = a, ri_refundAmountWithoutTax = a, ri_refundTaxAmount = None, ri_itemClass = [],
      ri_appComissionAmount = 0, ri_appComissionPercent = 0\<rparr>"

definition sample_prepare_env :: env where
  "sample_prepare_env = (sample_env OS_COMPLETED)
     \<lparr>env_channel_prepare := (\<lambda>_ _ _. Inr [sample_plan\<lparr>rp_roundingAccountId := Some ''channel account'',
        rp_lines := [\<lparr>rl_originalPaymentItemId = ''i1'', rl_nominalAmount = ''0.001'',
          rl_providerAmount = ''0.0009''\<rparr>]\<rparr>])\<rparr>"

definition sample_prepare :: "store \<times> refund_plan list res" where
  "sample_prepare = prepareRefundChannelPlan sample_prepare_env
     [sample_request_item ''i1'' (1 / 1000)]
     (sample_payment ''p'' PURCHASE PS_COMPLETED 100)
     [sample_item ''i1'' ''p'' ''seller'' 100] sample_paid_store"

lemma sample_prepare_run:
  "map_sum id (map rp_roundingAccountId) (snd sample_prepare) = Inr [Some ''platform'']"
  by code_simp

theorem prepared_plans_core_owned_witness:
  "\<exists>t plan. sample_prepare = (t, Inr [plan]) \<and> rp_roundingAccountId plan = Some ''platform'' \<and>
     has_rounding exact_bigjs plan \<and> st_transactions t = st_transactions sample_paid_store"
proof -
  obtain t r where tr: "sample_prepare = (t, r)" by (rule prod.exhaust)
  from sample_prepare_run have "map_sum id (map rp_roundingAccountId) r = Inr [Some ''platform'']"
    unfolding tr snd_conv .
  then obtain plan where plan: "r = Inr [plan]" "rp_roundingAccountId plan = Some ''platform''"
    by (cases r) auto
  note run = tr [unfolded plan(1)] plan(2)
  note facts = prepared_plans_core_owned [OF run(1) [unfolded sample_prepare_def]]
  have "env_big sample_prepare_env = exact_bigjs" by (simp add: sample_prepare_env_def)
  with facts run(2) have "has_rounding exact_bigjs plan" "st_transactions t = st_transactions sample_paid_store"
    by auto
  with run show ?thesis by (intro exI [of _ t] exI [of _ plan] conjI)
qed

end
