(* ===== verification/Payments.thy ===== *)
theory Payments
  imports Order_Calculation Ledger Channel_Properties
begin

text \<open>
  \<open>payment.service.ts\<close>, with the mappers it uses, \<open>payment-common.service.ts\<close>, and the start of an
  operation in \<open>payment.controller.ts\<close>: creating, resolving and completing payments. The snapshots of
  accounts and addresses taken at creation are represented by their ids; the files under
  \<open>invoice-account.mapper.ts\<close> and \<open>invoice-address.mapper.ts\<close> that fill them are not modelled.
\<close>

section \<open>Creating a payment\<close>

record payment_init =
  pi_type :: payment_type
  pi_note :: "string option"
  pi_currency :: string
  pi_saleMode :: "string option"
  pi_items :: "item_input list"
  pi_customerAccountId :: "string option"
  pi_billingAddressId :: "string option"
  pi_refundRequestId :: "string option"
  pi_activeSessionId :: "string option"
  pi_generateActiveSessionId :: bool
  pi_failOnPaymentChannelFailure :: bool

definition validatePaymentNotes :: "payment_init \<Rightarrow> unit res" where
  "validatePaymentNotes pdto =
     throwIf (list_ex note_too_long (pi_note pdto # map ii_note (pi_items pdto)))
       (BadRequest ''Payment notes cannot exceed 10000 characters'')"

definition unresolved :: "payment_row \<Rightarrow> bool" where
  "unresolved p \<longleftrightarrow> p_paymentStatus p \<in> {PS_INITIATED, PS_WAITING}"

definition session_used :: "string option \<Rightarrow> store \<Rightarrow> bool" where
  "session_used sid s \<longleftrightarrow>
     list_ex (\<lambda>p. p_activeSessionId p = sid \<and> unresolved p) (st_payments s)"

text \<open>
  The loop draws identifiers until one is not in use and not empty. The fuel bounds the rounds;
  \<open>generateActiveSessionId_returns\<close> shows that two more than the payments are enough.
\<close>

fun draw_session :: "nat \<Rightarrow> env \<Rightarrow> (store, string option) act" where
  "draw_session 0 E = returnS None"
| "draw_session (Suc n) E =
     bindS (newId E) (\<lambda>candidate.
     bindS (readS (session_used (Some candidate))) (\<lambda>existing.
     if \<not> existing \<and> candidate \<noteq> [] then returnS (Some candidate) else draw_session n E))"

definition generateActiveSessionId :: "env \<Rightarrow> (store, string option) act" where
  "generateActiveSessionId E s = draw_session (length (st_payments s) + 2) E s"

text \<open>\<open>PaymentItemMapper.toEntity\<close> and \<open>PaymentTaxMapper.toEntity\<close>: the fields they copy.\<close>

definition item_toEntity :: "item_row \<Rightarrow> item_row" where
  "item_toEntity d =
     new_item\<lparr>i_originalPaymentItemId := i_originalPaymentItemId d, i_itemId := i_itemId d,
       i_name := i_name d, i_note := i_note d, i_quantity := i_quantity d,
       i_unitAmount := i_unitAmount d, i_originalUnitAmount := i_originalUnitAmount d,
       i_totalAmount := i_totalAmount d, i_taxPercent := i_taxPercent d,
       i_taxAmount := i_taxAmount d, i_unTaxAmount := i_unTaxAmount d,
       i_variation := i_variation d, i_entityGroup := i_entityGroup d,
       i_entityId := i_entityId d, i_entityName := i_entityName d,
       i_isPhysical := i_isPhysical d, i_metaEntityGroup := i_metaEntityGroup d,
       i_metaEntityName := i_metaEntityName d, i_metaEntityId := i_metaEntityId d,
       i_sellerAccountId := i_sellerAccountId d,
       i_sellerSnapshotAccountId := i_sellerSnapshotAccountId d,
       i_sellerSnapshotAddressId := i_sellerSnapshotAddressId d,
       i_itemClass := i_itemClass d, i_unit := i_unit d,
       i_appComissionAmount := i_appComissionAmount d,
       i_appComissionPercent := i_appComissionPercent d\<rparr>"

definition tax_toEntity :: "tax \<Rightarrow> payment_tax_row" where
  "tax_toEntity t =
     \<lparr>pt_id = [], pt_taxAmount = tx_amount t, pt_untaxAmount = tx_untax t, pt_fullAmount = tx_full t,
      pt_percent = tx_percent t, pt_paymentId = []\<rparr>"

text \<open>The snapshots of the seller of one item: its account and its default address.\<close>

definition seller_snapshot :: "env \<Rightarrow> item_row \<Rightarrow> (store, item_row) act" where
  "seller_snapshot E item =
     bindS (guardS (falsy (i_sellerAccountId item)) (BadRequest ''Seller account ID is required for item'')) (\<lambda>_.
     bindS (readS (\<lambda>s. find_account s (nullish (i_sellerAccountId item) []))) (\<lambda>found.
     bindS (liftS (of_option (NotFound ''Seller account not found for item'') found)) (\<lambda>account.
     bindS (guardS (falsy (a_defaultAddressId account))
       (BadRequest ''Seller account does not have a default address'')) (\<lambda>_.
     bindS (readS (\<lambda>s. nullish (a_defaultAddressId account) [] \<in> set (st_addresses s))) (\<lambda>present.
     bindS (guardS (\<not> present) (NotFound ''Seller default address not found for item'')) (\<lambda>_.
     bindS (newId E) (\<lambda>i.
     bindS (newId E) (\<lambda>j.
     returnS (item\<lparr>i_sellerSnapshotAccountId := Some i, i_sellerSnapshotAddressId := Some j\<rparr>)))))))))"

definition applyItemSellerSnapshots :: "env \<Rightarrow> item_row list \<Rightarrow> (store, item_row list) act" where
  "applyItemSellerSnapshots E items =
     foldS (\<lambda>acc item. bindS (seller_snapshot E item) (\<lambda>item'. returnS (acc @ [item']))) [] items"

definition applyAccountSnapshot :: "env \<Rightarrow> payment_row \<Rightarrow> (store, payment_row) act" where
  "applyAccountSnapshot E p =
     bindS (newId E) (\<lambda>i. returnS (p\<lparr>p_customerSnapshotAccountId := Some i\<rparr>))"

definition applyAddressSnapshot :: "env \<Rightarrow> payment_row \<Rightarrow> (store, payment_row) act" where
  "applyAddressSnapshot E p =
     bindS (guardS (falsy (p_billingAddressId p))
       (BadRequest ''Valid billing address ID is required for payment init'')) (\<lambda>_.
     bindS (readS (\<lambda>s. nullish (p_billingAddressId p) [] \<in> set (st_addresses s))) (\<lambda>present.
     bindS (guardS (\<not> present) (NotFound ''Billing address not found'')) (\<lambda>_.
     bindS (newId E) (\<lambda>i.
     returnS (p\<lparr>p_customerSnapshotAddressId := Some i\<rparr>)))))"

text \<open>\<open>new Payment()\<close>: the initialisers of the class; the status is set by every creator.\<close>

definition new_payment :: "nat \<Rightarrow> payment_row" where
  "new_payment now =
     \<lparr>p_id = [], p_billingCode = None, p_type = PURCHASE, p_note = None, p_totalAmount = 0,
      p_taxAmount = 0, p_currency = [], p_customerAccountId = None, p_billingAddressId = None,
      p_customerSnapshotAddressId = None, p_customerSnapshotAccountId = None,
      p_paymentStatus = PS_INITIATED, p_errorStatus = None, p_paymentChannelId = None,
      p_paymentChannelOperationId = None, p_paymentChannelOperationUrl = None,
      p_channelUrlExpiryDate = None, p_createdAt = now, p_updatedAt = now,
      p_refundRequestId = None, p_refundApprovalToken = None, p_refundApprovalExpiresAt = None,
      p_includeInReportDigestion = True, p_openPayment = False, p_externalPlatformId = None,
      p_externalPlatformOrderId = None, p_activeSessionId = None,
      p_failOnPaymentChannelFailure = False\<rparr>"

text \<open>The catalogue with the accounts and settings of the store.\<close>

definition catalog_of :: "catalog \<Rightarrow> store \<Rightarrow> catalog" where
  "catalog_of C s = C\<lparr>cat_accounts := st_accounts s, cat_settings := st_settings s\<rparr>"

text \<open>The session a payment is bound to: drawn, or the caller's if no open payment has it.\<close>

definition session_for :: "env \<Rightarrow> payment_init \<Rightarrow> (store, string option) act" where
  "session_for E pdto =
     (if pi_generateActiveSessionId pdto
      then bindS (generateActiveSessionId E) (\<lambda>drawn.
           bindS (guardS (drawn = None) (JsError ''no identifier drawn'')) (\<lambda>_. returnS drawn))
      else if falsy (pi_activeSessionId pdto) then returnS (pi_activeSessionId pdto)
      else bindS (readS (session_used (pi_activeSessionId pdto))) (\<lambda>existing.
           bindS (guardS existing
             (BadRequest ''Active session ID is already in use for another payment'')) (\<lambda>_.
           returnS (pi_activeSessionId pdto))))"

definition sale_mode :: "payment_init \<Rightarrow> string" where
  "sale_mode pdto =
     (case pi_saleMode pdto of None \<Rightarrow> ''DEFAULT'' | Some m \<Rightarrow> if blank m then ''DEFAULT'' else m)"

definition init_row ::
  "env \<Rightarrow> payment_init \<Rightarrow> string option \<Rightarrow> account_row \<Rightarrow> calculation \<Rightarrow> payment_row"
where
  "init_row E pdto session customer calc =
     (new_payment (env_now E))
       \<lparr>p_type := pi_type pdto, p_note := pi_note pdto, p_currency := pi_currency pdto,
        p_totalAmount := ca_totalAmount calc, p_taxAmount := ca_totalTaxAmount calc,
        p_customerAccountId := pi_customerAccountId pdto, p_activeSessionId := session,
        p_failOnPaymentChannelFailure := pi_failOnPaymentChannelFailure pdto,
        p_billingAddressId := (case pi_billingAddressId pdto of
          None \<Rightarrow> a_defaultAddressId customer | x \<Rightarrow> x),
        p_refundRequestId := pi_refundRequestId pdto, p_paymentStatus := PS_INITIATED,
        p_includeInReportDigestion := True\<rparr>"

type_synonym draft = "payment_row \<times> item_row list \<times> payment_tax_row list"

definition generateEntityFromInitDto ::
  "env \<Rightarrow> catalog \<Rightarrow> payment_init \<Rightarrow> calculation option \<Rightarrow> (store, draft) act"
where
  "generateEntityFromInitDto E C pdto refundCalculation =
     bindS (liftS (validatePaymentNotes pdto)) (\<lambda>_.
     bindS (session_for E pdto) (\<lambda>session.
     bindS (readS (\<lambda>s. find_account s (nullish (pi_customerAccountId pdto) []))) (\<lambda>found.
     bindS (liftS (of_option (NotFound ''Customer account not found for payment init'') found)) (\<lambda>customer.
     bindS (guardS (pi_type pdto = REFUND \<and> falsy (pi_refundRequestId pdto))
       (BadRequest ''Refund request ID is required for REFUND type'')) (\<lambda>_.
     bindS (readS (\<lambda>s. case refundCalculation of Some c \<Rightarrow> Inr c
       | None \<Rightarrow> calculateTotalAmount (env_big E) (catalog_of C s) (env_now E) (sale_mode pdto)
           (pi_currency pdto) (pi_items pdto))) (\<lambda>calculated.
     bindS (liftS calculated) (\<lambda>calc.
     bindS (liftS (mergeTaxesByPercent (env_big E) (ca_taxes calc))) (\<lambda>taxes.
     bindS (applyItemSellerSnapshots E (map item_toEntity (ca_items calc))) (\<lambda>items.
     bindS (applyAccountSnapshot E (init_row E pdto session customer calc)) (\<lambda>p.
     bindS (applyAddressSnapshot E p) (\<lambda>p'.
     returnS (p', items, map tax_toEntity taxes))))))))))))"

text \<open>\<open>paymentrepo.save\<close> of a new payment inserts its items and taxes with it.\<close>

definition insert_item :: "env \<Rightarrow> string \<Rightarrow> item_row \<Rightarrow> (store, unit) act" where
  "insert_item E pid item =
     bindS (newId E) (\<lambda>i. modifyS (save_item (env_big E) (item\<lparr>i_id := i, i_paymentId := pid\<rparr>)))"

definition insert_tax :: "env \<Rightarrow> string \<Rightarrow> payment_tax_row \<Rightarrow> (store, unit) act" where
  "insert_tax E pid tax =
     bindS (newId E) (\<lambda>i. modifyS (save_tax (env_big E) (tax\<lparr>pt_id := i, pt_paymentId := pid\<rparr>)))"

definition insert_payment :: "env \<Rightarrow> draft \<Rightarrow> (store, payment_row) act" where
  "insert_payment E d =
     (case d of (p, items, taxes) \<Rightarrow>
        bindS (newId E) (\<lambda>pid.
        bindS (modifyS (save_payment (env_big E) (p\<lparr>p_id := pid\<rparr>))) (\<lambda>_.
        bindS (forS items (insert_item E pid)) (\<lambda>_.
        bindS (forS taxes (insert_tax E pid)) (\<lambda>_.
        returnS (p\<lparr>p_id := pid\<rparr>))))))"

definition init :: "env \<Rightarrow> catalog \<Rightarrow> payment_init \<Rightarrow> (store, payment_row) act" where
  "init E C pdto =
     bindS (generateEntityFromInitDto E C pdto None) (\<lambda>d.
     bindS (transactionS (insert_payment E d)) (\<lambda>saved.
     bindS (emit (EvPaymentInitialized (p_id saved))) (\<lambda>_.
     returnS saved)))"

section \<open>Refund payments\<close>

text \<open>One line of the refund payment, from the requested item and the line it refunds.\<close>

definition refund_row :: "item_row list \<Rightarrow> refund_request_item_row \<Rightarrow> item_row res" where
  "refund_row originals item =
     (let bad = BadRequest ''Refund item is missing original payment or amount information'' in
      case (by_key i_id originals (ri_paymentItemId item), ri_refundTaxAmount item) of
        (Some original, Some taxAmount) \<Rightarrow>
          Inr (original\<lparr>i_originalPaymentItemId := Some (i_id original),
            i_quantity := ri_refundCount item, i_totalAmount := ri_refundAmount item,
            i_taxAmount := taxAmount, i_unTaxAmount := ri_refundAmountWithoutTax item,
            i_appComissionAmount := ri_appComissionAmount item,
            i_sellerSnapshotAccountId := None, i_sellerSnapshotAddressId := None\<rparr>)
      | _ \<Rightarrow> Inl bad)"

text \<open>The tax's name, the percent as text, is not stored.\<close>

definition refund_calculation :: "bigjs \<Rightarrow> item_row list \<Rightarrow> calculation" where
  "refund_calculation B items =
     \<lparr>ca_items = items, ca_totalAmount = addN B (map i_totalAmount items),
      ca_totalTaxAmount = addN B (map i_taxAmount items),
      ca_taxes = map (\<lambda>i. \<lparr>tx_name = [], tx_full = i_totalAmount i, tx_percent = i_taxPercent i,
        tx_amount = i_taxAmount i, tx_untax = i_unTaxAmount i\<rparr>) items\<rparr>"

definition refund_init :: "payment_row \<Rightarrow> refund_request_row \<Rightarrow> item_row list \<Rightarrow> payment_init" where
  "refund_init original req items =
     \<lparr>pi_type = REFUND, pi_note = None, pi_currency = p_currency original, pi_saleMode = None,
      pi_items = map (\<lambda>i. \<lparr>ii_itemId = Some (i_itemId i), ii_note = i_note i,
        ii_entityGroup = i_entityGroup i, ii_entityName = i_entityName i,
        ii_entityId = i_entityId i, ii_variation = Some (i_variation i),
        ii_quantity = i_quantity i\<rparr>) items,
      pi_customerAccountId = p_customerAccountId original, pi_billingAddressId = None,
      pi_refundRequestId = Some (rr_id req), pi_activeSessionId = None,
      pi_generateActiveSessionId = False, pi_failOnPaymentChannelFailure = False\<rparr>"

text \<open>What is prepared before the transaction: the channels' plans and the refund payment.\<close>

definition prepare_refund_payment ::
  "env \<Rightarrow> catalog \<Rightarrow> refund_request_row \<Rightarrow> payment_row \<Rightarrow> item_row list \<Rightarrow>
   (store, refund_plan list \<times> draft) act"
where
  "prepare_refund_payment E C req original originals =
     bindS (prepareRefundChannelPlan E (rr_items req) original originals) (\<lambda>plan.
     bindS (liftS (mapE (refund_row originals) (rr_items req))) (\<lambda>items.
     bindS (generateEntityFromInitDto E C (refund_init original req items)
       (Some (refund_calculation (env_big E) items))) (\<lambda>(p, rows, taxes).
     returnS (plan, (p\<lparr>p_paymentStatus := PS_WAITING\<rparr>, rows, taxes)))))"

definition refund_payment_of :: "string \<Rightarrow> store \<Rightarrow> payment_row option" where
  "refund_payment_of rid s = List.find (\<lambda>p. p_refundRequestId p = Some rid) (st_payments s)"

text \<open>
  The transaction with the request locked: the refund payment that is there, or the prepared one
  with its orders and account entries.
\<close>

definition book_refund ::
  "env \<Rightarrow> refund_request_row \<Rightarrow> (refund_plan list \<times> draft) option \<Rightarrow>
   (store, payment_row \<times> refund_plan list) act"
where
  "book_refund E req prepared =
     transactionS (
       bindS (readS (\<lambda>s. find_request s (rr_id req))) (\<lambda>locked.
       bindS (guardS (case locked of None \<Rightarrow> True | Some r \<Rightarrow> rr_status r \<noteq> RR_PENDING)
         (BadRequest ''Refund request must be persisted and PENDING'')) (\<lambda>_.
       bindS (readS (refund_payment_of (rr_id req))) (\<lambda>existing.
       case existing of
         Some p \<Rightarrow>
           bindS (guardS (p_paymentStatus p = PS_FAILED)
             (BadRequest ''Refund payment failed; reconcile its channel operations before retrying'')) (\<lambda>_.
           returnS (p, nullish (case locked of None \<Rightarrow> None | Some r \<Rightarrow> rr_channelRefundPlan r) []))
       | None \<Rightarrow>
           bindS (liftS (of_option (BadRequest ''Refund payment changed during preparation; retry the same request'')
             prepared)) (\<lambda>(plan, d).
           bindS (modifyS (\<lambda>s. case locked of None \<Rightarrow> s
             | Some r \<Rightarrow> save_request (r\<lparr>rr_channelRefundPlan := Some plan\<rparr>) s)) (\<lambda>_.
           bindS (insert_payment E d) (\<lambda>saved.
           bindS (readS (\<lambda>s. (find_payment s (p_id saved), items_of s (p_id saved)))) (\<lambda>(found, items).
           bindS (liftS (of_option (JsError ''EntityNotFoundError'') found)) (\<lambda>full.
           bindS (generateSellerPaymentOrders E full items) (\<lambda>_.
           bindS (fromPayment E full items True) (\<lambda>_.
           returnS (saved, plan))))))))))))"

definition createRefundPayment :: "env \<Rightarrow> catalog \<Rightarrow> refund_request_row \<Rightarrow> (store, payment_row) act" where
  "createRefundPayment E C req =
     bindS (guardS (rr_status req = RR_APPROVED) (JsError ''Refund request is already approved'')) (\<lambda>_.
     bindS (readS (\<lambda>s. find_payment s (rr_paymentId req))) (\<lambda>found.
     bindS (liftS (of_option (NotFound ''Original payment not found for refund generation'') found)) (\<lambda>original.
     bindS (guardS (truthy (p_externalPlatformId original))
       (BadRequest ''External platform refunds are not supported yet'')) (\<lambda>_.
     bindS (guardS (p_type original \<noteq> PURCHASE \<or> p_paymentStatus original \<noteq> PS_COMPLETED)
       (BadRequest ''Can only refund completed PURCHASE payments'')) (\<lambda>_.
     bindS (readS (\<lambda>s. (refund_payment_of (rr_id req) s, items_of s (p_id original)))) (\<lambda>(existing, originals).
     bindS (if existing = None
            then bindS (prepare_refund_payment E C req original originals) (\<lambda>x. returnS (Some x))
            else returnS None) (\<lambda>prepared.
     bindS (book_refund E req prepared) (\<lambda>(saved, plan).
     bindS (readS (\<lambda>s. (find_payment s (p_id saved), items_of s (p_id saved)))) (\<lambda>(refund, items).
     bindS (liftS (of_option (NotFound ''Payment not found'') refund)) (\<lambda>refundPayment.
     bindS (readS (\<lambda>s. find_payment s (rr_paymentId req))) (\<lambda>purchase.
     bindS (liftS (of_option (NotFound ''Payment not found'') purchase)) (\<lambda>purchasePayment.
     bindS (startRefundPaymentOperationsForRefundRequest E refundPayment items purchasePayment plan) (\<lambda>_.
     returnS saved)))))))))))))"

section \<open>Completing a payment\<close>

definition postPaymentOperation :: "env \<Rightarrow> payment_row \<Rightarrow> (store, unit) act" where
  "postPaymentOperation E payment =
     bindS (readS (\<lambda>s. items_of s (p_id payment))) (\<lambda>items.
     bindS (generateSellerPaymentOrders E payment items) (\<lambda>_.
     bindS (readS (\<lambda>s. (find_payment s (p_id payment), items_of s (p_id payment)))) (\<lambda>(found, rows).
     bindS (liftS (of_option (NotFound ''Payment not found'') found)) (\<lambda>full.
     fromPayment E full rows False))))"

text \<open>
  One webhook per account of the payment, the customer's first; sending is not waited for.
\<close>

definition webhook_accounts :: "payment_row \<Rightarrow> item_row list \<Rightarrow> string list" where
  "webhook_accounts payment items =
     map (\<lambda>a. nullish a []) (filter truthy (unique (p_customerAccountId payment # map i_sellerAccountId items)))"

definition send_webhooks :: "payment_row \<Rightarrow> item_row list \<Rightarrow> (store, unit) act" where
  "send_webhooks payment items =
     forS (webhook_accounts payment items) (\<lambda>a. emit (EvWebhook a (p_id payment)))"

definition onPaymentCompleted :: "env \<Rightarrow> payment_row \<Rightarrow> (store, unit) act" where
  "onPaymentCompleted E payment =
     bindS (postPaymentOperation E payment) (\<lambda>_.
     bindS (readS (\<lambda>s. (find_payment s (p_id payment), items_of s (p_id payment)))) (\<lambda>(found, items).
     bindS (liftS (of_option (NotFound ''Payment not found'') found)) (\<lambda>full.
     bindS (emit (EvDigestionInsert (p_id full))) (\<lambda>_.
     bindS (emit (EvPaymentCompleted (p_id full))) (\<lambda>_.
     send_webhooks payment items)))))"

definition PAYMENT_EXPIRE_MS :: "env \<Rightarrow> int" where
  "PAYMENT_EXPIRE_MS E =
     (case env_expire_ms E of None \<Rightarrow> 15 * 60 * 1000 | Some n \<Rightarrow> if n = 0 then 15 * 60 * 1000 else n)"

definition expired :: "env \<Rightarrow> payment_row \<Rightarrow> bool" where
  "expired E p \<longleftrightarrow> unresolved p \<and> \<not> p_openPayment p \<and> p_type p \<noteq> REFUND \<and>
     int (env_now E) - int (p_createdAt p) > PAYMENT_EXPIRE_MS E"

text \<open>The branch for a payment that is not paid yet.\<close>

definition settle_unpaid :: "env \<Rightarrow> payment_row \<Rightarrow> (store, payment_row) act" where
  "settle_unpaid E payment =
     bindS (readS (hasFailedPaymentOperations (p_id payment))) (\<lambda>failed.
     if failed then
       (if p_failOnPaymentChannelFailure payment then returnS (payment\<lparr>p_paymentStatus := PS_FAILED\<rparr>)
        else bindS (readS (hasOngoingPaymentOperations (p_id payment))) (\<lambda>ongoing.
             returnS (if ongoing then payment else payment\<lparr>p_paymentStatus := PS_INITIATED\<rparr>)))
     else if expired E payment then
       bindS (cancelPaymentOperationsByPaymentId E (p_id payment)) (\<lambda>_.
       returnS (payment\<lparr>p_paymentStatus := PS_FAILED, p_errorStatus := Some PE_EXPIRED\<rparr>))
     else returnS payment)"

definition stream :: "env \<Rightarrow> payment_row \<Rightarrow> (store, payment_row) act" where
  "stream E payment =
     bindS (emit (EvPaymentStream (p_id payment) (p_paymentStatus payment))) (\<lambda>_. returnS payment)"

definition updatePaymentByOperationStatuses :: "env \<Rightarrow> string \<Rightarrow> bool \<Rightarrow> (store, payment_row) act" where
  "updatePaymentByOperationStatuses E pid check =
     bindS (readS (\<lambda>s. find_payment s pid)) (\<lambda>found.
     bindS (liftS (of_option (NotFound ''Payment not found'') found)) (\<lambda>payment.
     if \<not> unresolved payment then returnS payment
     else
       bindS (if check then checkAndUpdateOperationStatuses E pid else returnS ()) (\<lambda>_.
       bindS (readS (totalPaidOrAuthorizedOf E pid)) (\<lambda>paidAmount.
       if \<not> p_openPayment payment \<and> paidAmount \<ge> p_totalAmount payment then
         let completed = payment\<lparr>p_paymentStatus := PS_COMPLETED\<rparr> in
         bindS (modifyS (save_payment (env_big E) completed)) (\<lambda>_.
         bindS (firePaymentOperationsByPaymentId E pid) (\<lambda>_.
         bindS (onPaymentCompleted E completed) (\<lambda>_.
         stream E completed)))
       else
         bindS (settle_unpaid E payment) (\<lambda>payment'.
         bindS (modifyS (save_payment (env_big E) payment')) (\<lambda>_.
         stream E payment'))))))"

section \<open>Polling, cancelling, confirming\<close>

text \<open>The job that polls: an exception of one payment ends the round.\<close>

definition checkAndUpdateWaitingPayments :: "env \<Rightarrow> (store, unit) act" where
  "checkAndUpdateWaitingPayments E =
     bindS (readS (\<lambda>s. filter (\<lambda>p. unresolved p \<and> \<not> p_openPayment p) (st_payments s))) (\<lambda>waiting.
     forS waiting (\<lambda>p. bindS (updatePaymentByOperationStatuses E (p_id p) True) (\<lambda>_. returnS ())))"

definition handlePaymentOperationStatusUpdated :: "env \<Rightarrow> string \<Rightarrow> (store, unit) act" where
  "handlePaymentOperationStatusUpdated E operationId =
     bindS (checkAndUpdateOperationStatusByOpId E operationId) (\<lambda>_.
     bindS (readS (findOperationById operationId)) (\<lambda>found.
     bindS (liftS (of_option (NotFound ''Payment operation not found'') found)) (\<lambda>operation.
     bindS (updatePaymentByOperationStatuses E (op_paymentId operation) False) (\<lambda>_. returnS ()))))"

definition already_resolved :: exn where
  "already_resolved = JsError ''Payment is already resolved and cannot be cancelled again.''"

definition assertPaymentIsNotResolved :: "payment_row \<Rightarrow> unit res" where
  "assertPaymentIsNotResolved p = throwIf (\<not> unresolved p) already_resolved"

definition cancelPayment :: "env \<Rightarrow> string \<Rightarrow> (store, payment_row) act" where
  "cancelPayment E pid =
     bindS (readS (\<lambda>s. find_payment s pid)) (\<lambda>found.
     bindS (liftS (of_option (NotFound ''Payment not found'') found)) (\<lambda>payment.
     bindS (liftS (assertPaymentIsNotResolved payment)) (\<lambda>_.
     bindS (cancelPaymentOperationsByPaymentId E pid) (\<lambda>_.
     let cancelled = payment\<lparr>p_paymentStatus := PS_FAILED, p_errorStatus := Some PE_CANCELLED\<rparr> in
     bindS (modifyS (save_payment (env_big E) cancelled)) (\<lambda>_.
     stream E cancelled)))))"

definition startPayment :: "env \<Rightarrow> string \<Rightarrow> capture_info \<Rightarrow> (store, channel_status) act" where
  "startPayment E pid captureInfo =
     bindS (readS (\<lambda>s. (find_payment s pid, items_of s pid))) (\<lambda>(found, items).
     bindS (liftS (of_option (NotFound ''Payment not found'') found)) (\<lambda>payment.
     bindS (liftS (assertPaymentIsNotResolved payment)) (\<lambda>_.
     bindS (startPaymentOperation E payment items captureInfo) (\<lambda>(_, result).
     let waiting = payment\<lparr>p_paymentStatus := PS_WAITING\<rparr> in
     bindS (modifyS (save_payment (env_big E) waiting)) (\<lambda>_.
     bindS (stream E waiting) (\<lambda>_. returnS result))))))"

text \<open>One \<open>UPDATE\<close>, with no condition on the payment's status.\<close>

definition failPaymentIfSetFailFieldTrue :: "string \<Rightarrow> store \<Rightarrow> store" where
  "failPaymentIfSetFailFieldTrue pid s =
     s\<lparr>st_payments := map (\<lambda>p. if p_id p = pid \<and> p_failOnPaymentChannelFailure p
         then p\<lparr>p_errorStatus := Some PE_FAILED, p_paymentStatus := PS_FAILED\<rparr> else p) (st_payments s)\<rparr>"

text \<open>
  \<open>POST /:id/operation/start\<close> with the configurations found for the channel; a missing one makes
  \<open>paymentChList.content[0]\<close> undefined. Every exception is turned into the client's answer.
\<close>

record channel_config =
  cc_enabled :: bool
  cc_devOnly :: bool

fun client_error :: "exn \<Rightarrow> exn" where
  "client_error (BadGateway m) = BadRequest ''Failed to start payment operation''"
| "client_error (JsError m) = BadRequest ''Failed to start payment operation''"
| "client_error e = e"

definition start_refusal :: "env \<Rightarrow> channel_config list \<Rightarrow> bool \<Rightarrow> exn option res" where
  "start_refusal E configs ongoing =
     (case configs of
        [] \<Rightarrow> Inl (JsError ''TypeError'')
      | c # _ \<Rightarrow> Inr (if ongoing then Some (BadRequest ''There are ongoing payment operations'')
          else if cc_devOnly c \<and> env_production E
          then Some (BadRequest ''Payment channel is not available in production'')
          else if \<not> cc_enabled c then Some (BadRequest ''Payment channel is not enabled'') else None))"

definition startOperation ::
  "env \<Rightarrow> channel_config list \<Rightarrow> string \<Rightarrow> capture_info \<Rightarrow> (store, channel_status) act"
where
  "startOperation E configs pid captureInfo =
     catchS
       (bindS (readS (hasOngoingPaymentOperations pid)) (\<lambda>ongoing.
        bindS (liftS (start_refusal E configs ongoing)) (\<lambda>refusal.
        case refusal of
          Some e \<Rightarrow> bindS (modifyS (failPaymentIfSetFailFieldTrue pid)) (\<lambda>_. throwS e)
        | None \<Rightarrow> startPayment E pid captureInfo)))
       (\<lambda>e. bindS (modifyS (failPaymentIfSetFailFieldTrue pid)) (\<lambda>_. throwS (client_error e)))"

definition status_name :: "payment_status \<Rightarrow> string" where
  "status_name st = (case st of PS_INITIATED \<Rightarrow> ''INITIATED'' | PS_WAITING \<Rightarrow> ''WAITING''
     | PS_COMPLETED \<Rightarrow> ''COMPLETED'' | PS_FAILED \<Rightarrow> ''FAILED'')"

text \<open>The browser's return: a failed check still sends the user back with the last known status.\<close>

definition resolveOperationReturnUrl :: "env \<Rightarrow> string \<Rightarrow> (store, string) act" where
  "resolveOperationReturnUrl E recordId =
     bindS (readS (findOperationRecordById recordId)) (\<lambda>found.
     bindS (guardS (case found of None \<Rightarrow> True | Some r \<Rightarrow> falsy (op_returnUrl r))
       (NotFound ''Payment operation not found'')) (\<lambda>_.
     bindS (liftS (of_option (NotFound ''Payment operation not found'') found)) (\<lambda>operation.
     bindS (catchS
         (bindS (updatePaymentByOperationStatuses E (op_paymentId operation) True) (\<lambda>p.
          returnS (status_name (p_paymentStatus p))))
         (\<lambda>_. bindS (readS (\<lambda>s. find_payment s (op_paymentId operation))) (\<lambda>p.
          returnS (case p of None \<Rightarrow> ''WAITING'' | Some p \<Rightarrow> status_name (p_paymentStatus p))))) (\<lambda>status.
     bindS (readS (buildReturnTarget E operation status)) (\<lambda>target. liftS target)))))"

definition confirmOpenPayment :: "env \<Rightarrow> string \<Rightarrow> string \<Rightarrow> (store, payment_row) act" where
  "confirmOpenPayment E pid sellerAccountId =
     bindS (readS (\<lambda>s. (find_payment s pid, items_of s pid))) (\<lambda>(found, items).
     bindS (liftS (of_option (NotFound ''Payment not found'') found)) (\<lambda>payment.
     bindS (guardS (\<not> p_openPayment payment) (BadRequest ''This payment is not an open payment'')) (\<lambda>_.
     bindS (guardS (p_paymentStatus payment \<noteq> PS_WAITING) (BadRequest ''Open payment is already resolved'')) (\<lambda>_.
     bindS (guardS (p_customerAccountId payment \<noteq> Some sellerAccountId \<and>
         \<not> list_ex (\<lambda>i. i_sellerAccountId i = Some sellerAccountId) items)
       (Forbidden ''You are not authorized to confirm this payment'')) (\<lambda>_.
     let completed = payment\<lparr>p_paymentStatus := PS_COMPLETED\<rparr>;
         closed = completed\<lparr>p_openPayment := False\<rparr> in
     bindS (modifyS (save_payment (env_big E) completed)) (\<lambda>_.
     bindS (stream E completed) (\<lambda>_.
     bindS (postPaymentOperation E completed) (\<lambda>_.
     bindS (modifyS (closeOpenPaymentOrders pid)) (\<lambda>_.
     bindS (modifyS (save_payment (env_big E) closed)) (\<lambda>_.
     bindS (if p_includeInReportDigestion payment
            then bindS (emit (EvDigestionInsert pid)) (\<lambda>_. send_webhooks payment items)
            else returnS ()) (\<lambda>_.
     returnS completed)))))))))))"

section \<open>Billing payments\<close>

record billing_params =
  bp_customerAccountId :: string
  bp_sellerAccountId :: string
  bp_totalAmount :: rat
  bp_currency :: string
  bp_itemId :: string
  bp_itemName :: string
  bp_taxRate :: rat

definition billing_item :: "billing_params \<Rightarrow> tax \<Rightarrow> item_row" where
  "billing_item params tax =
     new_item\<lparr>i_itemId := bp_itemId params, i_name := bp_itemName params, i_quantity := 1,
       i_totalAmount := bp_totalAmount params, i_unitAmount := bp_totalAmount params,
       i_originalUnitAmount := bp_totalAmount params, i_taxPercent := bp_taxRate params,
       i_taxAmount := tx_amount tax, i_unTaxAmount := tx_untax tax,
       i_sellerAccountId := Some (bp_sellerAccountId params), i_variation := [],
       i_entityGroup := Some [], i_entityName := Some [], i_entityId := Some [],
       i_unit := ''ITEM''\<rparr>"

definition billing_row :: "env \<Rightarrow> billing_params \<Rightarrow> tax \<Rightarrow> payment_row" where
  "billing_row E params tax =
     (new_payment (env_now E))
       \<lparr>p_type := PURCHASE, p_currency := bp_currency params, p_totalAmount := bp_totalAmount params,
        p_taxAmount := tx_amount tax, p_customerAccountId := Some (bp_customerAccountId params),
        p_paymentStatus := PS_WAITING, p_openPayment := True, p_includeInReportDigestion := False\<rparr>"

text \<open>\<open>fetchOne\<close> of a missing customer gives no account to snapshot, a \<open>TypeError\<close>.\<close>

definition createBillingPayment :: "env \<Rightarrow> billing_params \<Rightarrow> (store, payment_row) act" where
  "createBillingPayment E params =
     bindS (liftS (generateTaxDto (env_big E) [] (bp_totalAmount params) (Some (bp_taxRate params)) None)) (\<lambda>tax.
     bindS (readS (\<lambda>s. find_account s (bp_customerAccountId params))) (\<lambda>customer.
     bindS (applyItemSellerSnapshots E [billing_item params tax]) (\<lambda>items.
     bindS (guardS (customer = None) (JsError ''TypeError'')) (\<lambda>_.
     bindS (applyAccountSnapshot E (billing_row E params tax)) (\<lambda>p.
     bindS (applyAddressSnapshot E p) (\<lambda>p'.
     bindS (transactionS (insert_payment E (p', items, []))) (\<lambda>saved.
     bindS (createOpenPaymentOperation E (p_id saved) (bp_totalAmount params) (bp_currency params)) (\<lambda>_.
     bindS (readS (\<lambda>s. items_of s (p_id saved))) (\<lambda>rows.
     bindS (generateSellerPaymentOrders E saved rows) (\<lambda>_.
     returnS saved))))))))))"

end
