(* ===== verification/Triples.thy ===== *)
theory Triples
  imports Entities
begin

text \<open>
  Hoare triples for store operations: what holds when the operation returns, and what holds when it
  throws after it has written. The rules follow the shape of a handler, in the order it runs, so
  that a value read is known to have been read from a store that satisfies the precondition.
\<close>

definition triple :: "('s \<Rightarrow> bool) \<Rightarrow> ('s, 'a) act \<Rightarrow> ('a \<Rightarrow> 's \<Rightarrow> bool) \<Rightarrow> ('s \<Rightarrow> bool) \<Rightarrow> bool" where
  "triple P m Q X \<longleftrightarrow>
     (\<forall>s t r. P s \<longrightarrow> m s = (t, r) \<longrightarrow> (case r of Inl e \<Rightarrow> X t | Inr x \<Rightarrow> Q x t))"

named_theorems triple_bind \<open>the first statement of a sequence\<close>
named_theorems triple_last \<open>the last statement of a sequence, and branches\<close>

lemma triple_Inr: "triple P m Q X \<Longrightarrow> P s \<Longrightarrow> m s = (t, Inr x) \<Longrightarrow> Q x t"
  by (fastforce simp: triple_def)

lemma triple_Inl: "triple P m Q X \<Longrightarrow> P s \<Longrightarrow> m s = (t, Inl e) \<Longrightarrow> X t"
  by (fastforce simp: triple_def)

lemma tripleD:
  "triple P m Q X \<Longrightarrow> P s \<Longrightarrow> m s = (t, r) \<Longrightarrow> (case r of Inl e \<Rightarrow> X t | Inr x \<Rightarrow> Q x t)"
  unfolding triple_def by blast

lemma tripleI:
  "(\<And>s t x. P s \<Longrightarrow> m s = (t, Inr x) \<Longrightarrow> Q x t) \<Longrightarrow>
   (\<And>s t e. P s \<Longrightarrow> m s = (t, Inl e) \<Longrightarrow> X t) \<Longrightarrow> triple P m Q X"
  by (auto simp: triple_def split: sum.splits)

lemma triple_bindS: "triple P m R X \<Longrightarrow> (\<And>x. triple (R x) (f x) Q X) \<Longrightarrow> triple P (bindS m f) Q X"
  by (rule tripleI) (auto simp: res_simps dest: triple_Inr triple_Inl)

lemma triple_weaken:
  "triple P m Q X \<Longrightarrow> (\<And>s. P' s \<Longrightarrow> P s) \<Longrightarrow> (\<And>x s. Q x s \<Longrightarrow> Q' x s) \<Longrightarrow> (\<And>s. X s \<Longrightarrow> X' s) \<Longrightarrow>
   triple P' m Q' X'"
  by (rule tripleI) (blast dest: triple_Inr, blast dest: triple_Inl)

lemma triple_pre: "(\<And>s. P s \<Longrightarrow> triple (\<lambda>u. u = s) m Q X) \<Longrightarrow> triple P m Q X"
  unfolding triple_def by blast

lemma triple_preserves: "triple P m (\<lambda>_. P) P \<longleftrightarrow> preserves P m"
  by (auto simp: triple_def preserves_def split: sum.splits)

lemma triple_keep:
  "preserves P m \<Longrightarrow> (\<And>x s. P s \<Longrightarrow> Q x s) \<Longrightarrow> (\<And>s. P s \<Longrightarrow> X s) \<Longrightarrow> triple P m Q X"
  by (rule tripleI) (auto dest: preservesD)

lemma triple_bind_readS [triple_bind]:
  "(\<And>s. P s \<Longrightarrow> triple P (f (g s)) Q X) \<Longrightarrow> triple P (bindS (readS g) f) Q X"
  by (rule tripleI) (auto simp: res_simps dest: triple_Inr triple_Inl)

lemma triple_bind_liftS [triple_bind]:
  "(\<And>x. q = Inr x \<Longrightarrow> triple P (f x) Q X) \<Longrightarrow> (\<And>s. P s \<Longrightarrow> X s) \<Longrightarrow>
   triple P (bindS (liftS q) f) Q X"
  by (rule tripleI) (auto simp: res_simps dest: triple_Inr triple_Inl)

lemma triple_bind_guardS [triple_bind]:
  "(\<not> c \<Longrightarrow> triple P (f ()) Q X) \<Longrightarrow> (\<And>s. P s \<Longrightarrow> X s) \<Longrightarrow> triple P (bindS (guardS c e) f) Q X"
  by (rule tripleI) (auto simp: res_simps dest: triple_Inr triple_Inl)

lemma triple_bind_modifyS:
  "(\<And>s. P s \<Longrightarrow> P' (g s)) \<Longrightarrow> triple P' (f ()) Q X \<Longrightarrow> triple P (bindS (modifyS g) f) Q X"
  by (rule tripleI) (auto simp: res_simps dest: triple_Inr triple_Inl)

lemma triple_bind_keep:
  "preserves P m \<Longrightarrow> (\<And>x. triple P (f x) Q X) \<Longrightarrow> (\<And>s. P s \<Longrightarrow> X s) \<Longrightarrow>
   triple P (bindS m f) Q X"
  by (rule triple_bindS [of P m "\<lambda>_. P"]) (auto intro: triple_keep)

lemma triple_transactionS:
  "triple P m Q (\<lambda>_. True) \<Longrightarrow> (\<And>s. P s \<Longrightarrow> X s) \<Longrightarrow> triple P (transactionS m) Q X"
  by (rule tripleI) (auto dest: triple_Inr transactionS_Inl)

lemma triple_catchS:
  "triple P m Q R \<Longrightarrow> (\<And>e. triple R (h e) Q X) \<Longrightarrow> triple P (catchS m h) Q X"
  by (fastforce simp: triple_def catchS_def split: prod.splits sum.splits)

lemma triple_returnS [triple_last]: "(\<And>s. P s \<Longrightarrow> Q x s) \<Longrightarrow> triple P (returnS x) Q X"
  by (rule tripleI) auto

lemma triple_throwS [triple_last]: "(\<And>s. P s \<Longrightarrow> X s) \<Longrightarrow> triple P (throwS e) Q X"
  by (rule tripleI) auto

lemma triple_modifyS [triple_last]: "(\<And>s. P s \<Longrightarrow> Q () (g s)) \<Longrightarrow> triple P (modifyS g) Q X"
  by (rule tripleI) auto

lemma triple_if [triple_last]:
  "(c \<Longrightarrow> triple P m Q X) \<Longrightarrow> (\<not> c \<Longrightarrow> triple P n Q X) \<Longrightarrow> triple P (if c then m else n) Q X"
  by simp

lemma triple_option [triple_last]:
  "(x = None \<Longrightarrow> triple P m Q X) \<Longrightarrow> (\<And>y. x = Some y \<Longrightarrow> triple P (n y) Q X) \<Longrightarrow>
   triple P (case x of None \<Rightarrow> m | Some y \<Rightarrow> n y) Q X"
  by (cases x) simp_all

lemma triple_prod [triple_last]:
  "(\<And>a b. x = (a, b) \<Longrightarrow> triple P (f a b) Q X) \<Longrightarrow> triple P (case x of (a, b) \<Rightarrow> f a b) Q X"
  by (cases x) simp

lemma triple_let [triple_last]: "triple P (f y) Q X \<Longrightarrow> triple P (Let y f) Q X"
  by (simp add: Let_def)

lemma triple_pure: "(b \<Longrightarrow> triple P m Q X) \<Longrightarrow> triple (\<lambda>s. P s \<and> b) m Q X"
  by (rule tripleI) (auto dest: triple_Inr triple_Inl)

text \<open>Loops whose result depends on the elements.\<close>

lemma triple_forS:
  "(\<And>x. x \<in> set xs \<Longrightarrow> triple P (f x) (\<lambda>_. P) X) \<Longrightarrow> (\<And>s. P s \<Longrightarrow> Q () s) \<Longrightarrow> triple P (forS xs f) Q X"
proof (induction xs)
  case (Cons x xs)
  have "triple P (f x) (\<lambda>_. P) X" by (rule Cons.prems(1)) simp
  moreover have "triple P (forS xs f) Q X" by (rule Cons.IH) (use Cons.prems in auto)
  ultimately show ?case by (auto intro: triple_bindS)
qed (auto intro: triple_last)

lemma triple_foldS:
  "(\<And>acc x. x \<in> set xs \<Longrightarrow> triple (I acc) (f acc x) I X) \<Longrightarrow> triple (I acc) (foldS f acc xs) I X"
proof (induction xs arbitrary: acc)
  case (Cons x xs)
  have "triple (I acc) (f acc x) I X" by (rule Cons.prems) simp
  moreover have "triple (I acc') (foldS f acc' xs) I X" for acc' by (rule Cons.IH) (use Cons.prems in auto)
  ultimately show ?case by (auto intro: triple_bindS)
qed (auto intro: triple_last)

section \<open>What the services leave alone\<close>

text \<open>
  What the payment service and the refund service rely on when they call the services of channels,
  orders and account transactions: those do not write payments, their items or refund requests, on
  any path. A predicate that looks at these tables only, and at the identifiers drawn so far, is kept
  by all of them.
\<close>

locale service_frame =
  fixes P :: "store \<Rightarrow> bool"
  assumes service_frame: "P s \<Longrightarrow> st_payments t = st_payments s \<Longrightarrow> st_items t = st_items s \<Longrightarrow>
    st_refundRequests t = st_refundRequests s \<Longrightarrow> st_seq s \<le> st_seq t \<Longrightarrow> P t"
begin

lemma writes:
  "P s \<Longrightarrow> P (s\<lparr>st_seq := Suc (st_seq s)\<rparr>)" "P s \<Longrightarrow> P (s\<lparr>st_log := st_log s @ [e]\<rparr>)"
  "P s \<Longrightarrow> P (save_operation B r s)" "P s \<Longrightarrow> P (save_order B d s)"
  "P s \<Longrightarrow> P (save_transaction B x s)" "P s \<Longrightarrow> P (save_tax B y s)"
  by (erule service_frame;
      simp add: save_tax_def save_operation_def save_order_def save_transaction_def)+

end

text \<open>A predicate on the payments alone is kept by writes of items and refund requests as well.\<close>

locale payments_only =
  fixes P :: "store \<Rightarrow> bool"
  assumes frame: "P s \<Longrightarrow> st_payments t = st_payments s \<Longrightarrow> st_seq s \<le> st_seq t \<Longrightarrow> P t"
begin

lemma row_writes: "P s \<Longrightarrow> P (save_item B i s)" "P s \<Longrightarrow> P (save_request z s)"
  by (erule frame; simp add: save_request_def)+

end

sublocale payments_only \<subseteq> service_frame
  by unfold_locales (rule frame)

text \<open>A predicate on the items and the refund requests alone.\<close>

locale refunds_only =
  fixes P :: "store \<Rightarrow> bool"
  assumes frame: "P s \<Longrightarrow> st_items t = st_items s \<Longrightarrow> st_refundRequests t = st_refundRequests s \<Longrightarrow>
    st_seq s \<le> st_seq t \<Longrightarrow> P t"
begin

lemma row_writes: "P s \<Longrightarrow> P (save_payment B p s)"
  by (erule frame; simp add: save_payment_def)

end

sublocale refunds_only \<subseteq> service_frame
  by unfold_locales (rule frame)

end
