(* ===== verification/Payment_Machine.thy ===== *)
theory Payment_Machine
  imports Entities
begin

text \<open>
  The specification of a payment's life, apart from how the services compute it: a table of payment
  states and the moves that are allowed on it, with the invariants of every table that is reached.
\<close>

section \<open>States and moves\<close>

record payment_state =
  v_id :: string
  v_status :: payment_status
  v_error :: "payment_error option"
  v_open :: bool
  v_session :: "string option"
  v_flag :: bool

definition pending :: "payment_state \<Rightarrow> bool" where
  "pending p \<longleftrightarrow> v_status p \<in> {PS_INITIATED, PS_WAITING}"

text \<open>
  A payment is created pending, in a session of its own. While it is pending it may go to and fro
  between \<open>INITIATED\<close> and \<open>WAITING\<close>, and it is resolved once: completed, or failed with the reason. An
  open payment is completed by its confirmation only, and is closed afterwards. A payment that is
  flagged to fail with its channel can be failed at any time.
\<close>

inductive payment_move :: "payment_state list \<Rightarrow> payment_state list \<Rightarrow> bool" where
  create: "\<lbrakk>v_id p \<notin> v_id ` set ps; pending p; v_error p = None;
     truthy (v_session p) \<longrightarrow> (\<forall>q \<in> set ps. pending q \<longrightarrow> v_session q \<noteq> v_session p)\<rbrakk>
     \<Longrightarrow> payment_move ps (ps @ [p])"
| advance: "\<lbrakk>by_key v_id ps i = Some p; pending p; st \<in> {PS_INITIATED, PS_WAITING}\<rbrakk>
     \<Longrightarrow> payment_move ps (upsert v_id (p\<lparr>v_status := st\<rparr>) ps)"
| complete: "\<lbrakk>by_key v_id ps i = Some p; pending p; \<not> v_open p\<rbrakk>
     \<Longrightarrow> payment_move ps (upsert v_id (p\<lparr>v_status := PS_COMPLETED\<rparr>) ps)"
| confirm: "\<lbrakk>by_key v_id ps i = Some p; v_status p = PS_WAITING; v_open p\<rbrakk>
     \<Longrightarrow> payment_move ps (upsert v_id (p\<lparr>v_status := PS_COMPLETED\<rparr>) ps)"
| close: "\<lbrakk>by_key v_id ps i = Some p; v_status p = PS_COMPLETED\<rbrakk>
     \<Longrightarrow> payment_move ps (upsert v_id (p\<lparr>v_open := False\<rparr>) ps)"
| fail: "\<lbrakk>by_key v_id ps i = Some p; pending p\<rbrakk>
     \<Longrightarrow> payment_move ps (upsert v_id (p\<lparr>v_status := PS_FAILED, v_error := e\<rparr>) ps)"
| fail_flagged: "payment_move ps
     (map (\<lambda>p. if v_id p = i \<and> v_flag p then p\<lparr>v_status := PS_FAILED, v_error := Some PE_FAILED\<rparr> else p) ps)"

inductive_cases payment_moveE: "payment_move ps qs"

abbreviation payment_moves :: "payment_state list \<Rightarrow> payment_state list \<Rightarrow> bool" where
  "payment_moves \<equiv> payment_move\<^sup>*\<^sup>*"

section \<open>Well-formed tables\<close>

text \<open>
  Identifiers are unique, no two pending payments share a session, and an error is recorded on
  failed payments only.
\<close>

definition table_ok :: "payment_state list \<Rightarrow> bool" where
  "table_ok ps \<longleftrightarrow> distinct (map v_id ps) \<and>
     (\<forall>p \<in> set ps. \<forall>q \<in> set ps. pending p \<longrightarrow> pending q \<longrightarrow> truthy (v_session p) \<longrightarrow>
        v_session p = v_session q \<longrightarrow> p = q) \<and>
     (\<forall>p \<in> set ps. v_error p \<noteq> None \<longrightarrow> v_status p = PS_FAILED)"

lemma table_ok_empty [simp]: "table_ok []"
  by (simp add: table_ok_def)

text \<open>Replacing a row by one that is pending only if the old one was, in the same session.\<close>

lemma table_ok_upsert:
  assumes ok: "table_ok ps" and p: "by_key v_id ps i = Some p"
    and q: "v_id q = v_id p" "v_session q = v_session p" "pending q \<Longrightarrow> pending p"
      "v_error q \<noteq> None \<Longrightarrow> v_status q = PS_FAILED"
  shows "table_ok (upsert v_id q ps)"
proof -
  from p have p': "p \<in> set ps" by (auto dest: by_key_in)
  have d: "distinct (map v_id ps)" using ok by (simp add: table_ok_def)
  have rows: "x \<in> set (upsert v_id q ps) \<longleftrightarrow> x = q \<or> x \<in> set ps \<and> v_id x \<noteq> v_id q" for x
    using set_upsert_distinct [OF d, of q] by auto
  have old: "v_id x = v_id q"
    if "pending x" "pending q" "truthy (v_session q)" "v_session x = v_session q" "x \<in> set ps" for x
    using that ok p' q unfolding table_ok_def by metis
  have "x = y" if "x \<in> set (upsert v_id q ps)" "y \<in> set (upsert v_id q ps)" "pending x" "pending y"
      "truthy (v_session x)" "v_session x = v_session y" for x y
    using that ok old [of x] old [of y] unfolding rows table_ok_def by metis
  moreover have "v_status x = PS_FAILED" if "x \<in> set (upsert v_id q ps)" "v_error x \<noteq> None" for x
    using that ok q(4) unfolding rows table_ok_def by blast
  ultimately show ?thesis using distinct_upsert [OF d, of q] unfolding table_ok_def by blast
qed

lemma table_ok_map:
  assumes ok: "table_ok ps"
    and f: "\<And>p. v_id (f p) = v_id p" "\<And>p. v_session (f p) = v_session p"
      "\<And>p. pending (f p) \<Longrightarrow> f p = p" "\<And>p. f p = p \<or> v_status (f p) = PS_FAILED"
  shows "table_ok (map f ps)"
proof -
  have "distinct (map v_id (map f ps)) = distinct (map v_id ps)" by (simp add: comp_def f(1))
  moreover have "v_error (f p) \<noteq> None \<Longrightarrow> p \<in> set ps \<Longrightarrow> v_status (f p) = PS_FAILED" for p
    using f(4) [of p] ok by (auto simp: table_ok_def)
  moreover have "f p = f q"
    if "p \<in> set ps" "q \<in> set ps" "pending (f p)" "pending (f q)" "truthy (v_session p)"
      "v_session p = v_session q" for p q
    using that ok f(3) [of p] f(3) [of q] by (auto simp: table_ok_def)
  ultimately show ?thesis using ok by (auto simp: table_ok_def f(2) simp del: map_map)
qed

lemma table_ok_session:
  "table_ok ps \<Longrightarrow> p \<in> set ps \<Longrightarrow> q \<in> set ps \<Longrightarrow> pending p \<Longrightarrow> pending q \<Longrightarrow>
     truthy (v_session p) \<Longrightarrow> v_session p = v_session q \<Longrightarrow> p = q"
  unfolding table_ok_def by blast

lemma pending_no_error: "table_ok ps \<Longrightarrow> by_key v_id ps i = Some p \<Longrightarrow> pending p \<Longrightarrow> v_error p = None"
  by (fastforce simp: table_ok_def pending_def dest: by_key_in)

lemma error_failed:
  "table_ok ps \<Longrightarrow> by_key v_id ps i = Some p \<Longrightarrow> v_status p = PS_COMPLETED \<Longrightarrow> v_error p = None"
  by (fastforce simp: table_ok_def dest: by_key_in)

lemma pending_status [simp]:
  "pending (p\<lparr>v_status := PS_COMPLETED\<rparr>) = False" "pending (p\<lparr>v_open := o'\<rparr>) = pending p"
  "pending (p\<lparr>v_status := PS_FAILED, v_error := e\<rparr>) = False"
  by (simp_all add: pending_def)

lemma move_table_ok: "payment_move ps qs \<Longrightarrow> table_ok ps \<Longrightarrow> table_ok qs"
proof (induction rule: payment_move.induct)
  case (create p ps)
  then show ?case by (fastforce simp: table_ok_def)
next
  case (advance ps i p st)
  then show ?case by (intro table_ok_upsert [of _ i p]) (auto simp: pending_no_error)
next
  case (complete ps i p)
  then show ?case by (intro table_ok_upsert [of _ i p]) (auto simp: pending_no_error)
next
  case (confirm ps i p)
  then have "pending p" by (simp add: pending_def)
  with confirm show ?case by (intro table_ok_upsert [of _ i p]) (auto simp: pending_no_error)
next
  case (close ps i p)
  then show ?case by (intro table_ok_upsert [of _ i p]) (auto simp: error_failed)
next
  case (fail ps i p e)
  then show ?case by (intro table_ok_upsert [of _ i p]) auto
next
  case (fail_flagged ps i)
  then show ?case by (rule table_ok_map) auto
qed

lemma moves_table_ok: "payment_moves ps qs \<Longrightarrow> table_ok ps \<Longrightarrow> table_ok qs"
  by (induction rule: rtranclp_induct) (auto intro: move_table_ok)

section \<open>A resolved payment stays resolved\<close>

definition same_outcome :: "payment_state \<Rightarrow> payment_state \<Rightarrow> bool" where
  "same_outcome p q \<longleftrightarrow> v_status q = v_status p \<and> v_error q = v_error p \<and> v_flag q = v_flag p"

lemma by_key_append: "by_key key (xs @ ys) k = (case by_key key xs k of None \<Rightarrow> by_key key ys k | x \<Rightarrow> x)"
  by (induction xs) (auto simp: by_key_def)

lemma by_key_map:
  "(\<And>x. key' (f x) = key x) \<Longrightarrow> by_key key' (map f xs) k = map_option f (by_key key xs k)"
  by (induction xs) (auto simp: by_key_def)

lemma by_key_key: "by_key key t k = Some r \<Longrightarrow> key r = k"
  using by_key_in by fastforce

lemma upsert_outcome:
  assumes "by_key v_id ps i = Some p'" "by_key v_id ps k = Some p" "v_id q = v_id p'"
    and "p' = p \<Longrightarrow> same_outcome p q"
  shows "\<exists>r. by_key v_id (upsert v_id q ps) k = Some r \<and> same_outcome p r"
  using assms by_key_key [OF assms(1)] by (auto simp: by_key_upsert same_outcome_def)

lemma move_resolved:
  "payment_move ps qs \<Longrightarrow> by_key v_id ps k = Some p \<Longrightarrow> \<not> pending p \<Longrightarrow> \<not> v_flag p \<Longrightarrow>
     \<exists>q. by_key v_id qs k = Some q \<and> same_outcome p q"
proof (induction rule: payment_move.induct)
  case (create p ps)
  then show ?case by (auto simp: by_key_append same_outcome_def)
next
  case (fail_flagged ps i)
  then show ?case
    by (subst by_key_map [where key = v_id]) (auto simp: same_outcome_def)
qed (erule (1) upsert_outcome, simp, force simp: same_outcome_def pending_def)+

lemma moves_resolved:
  "payment_moves ps qs \<Longrightarrow> by_key v_id ps k = Some p \<Longrightarrow> \<not> pending p \<Longrightarrow> \<not> v_flag p \<Longrightarrow>
     \<exists>q. by_key v_id qs k = Some q \<and> same_outcome p q"
proof (induction rule: rtranclp_induct)
  case base
  then show ?case by (auto simp: same_outcome_def)
next
  case (step qs rs)
  then obtain q where q: "by_key v_id qs k = Some q" "same_outcome p q" by blast
  with step.prems have "\<not> pending q" "\<not> v_flag q" by (auto simp: same_outcome_def pending_def)
  from move_resolved [OF step.hyps(2) q(1) this] q(2) show ?case by (auto simp: same_outcome_def)
qed

end
