(* ===== verification/Payment_Lifecycle.thy ===== *)
theory Payment_Lifecycle
  imports Payments Triples Payment_Machine
begin

text \<open>
  The life of payments: an abstract machine on the states of payments, the proof that every
  operation of the payment service is a sequence of its moves on every path, exceptions included,
  and what follows for every store the service can reach.
\<close>

section \<open>The other services leave the payments alone\<close>

context service_frame begin

lemma more_writes:
  "P s \<Longrightarrow> P (booked E operation pid item difference customer rounding corelation i j s)"
  "P s \<Longrightarrow> P (closeOpenPaymentOrders pid s)" "P s \<Longrightarrow> P (deleteOldTransactions dtos s)"
  by (erule service_frame; simp add: booked_def Let_def closeOpenPaymentOrders_def deleteOldTransactions_def
      save_transaction_def)+

lemmas keep = preserves writes more_writes

lemma keep_newId: "preserves P (newId E)"
  by (intro keep)

lemma keep_stream: "preserves P (stream E payment)"
  unfolding stream_def by (intro keep)

lemma keep_check_rounding_account: "preserves P (check_rounding_account E payment a)"
  by (rule preservesI) (auto simp: check_rounding_account_def Let_def split: if_splits option.splits)

lemma keep_book_rounding: "preserves P (book_rounding E operation plan pid item difference)"
  unfolding book_rounding_def
  by (intro keep)

lemma keep_settle_line: "preserves P (settle_line E operation plan pid settled settlement)"
  unfolding settle_line_def by (intro keep keep_book_rounding)

lemma keep_savePaymentChannelRecord: "preserves P (savePaymentChannelRecord E record result pid)"
  unfolding savePaymentChannelRecord_def saveRefundSettlementRecord_def
  by (intro keep keep_settle_line)

lemma keep_check_operations:
  "preserves P (checkAndUpdateOperationStatuses E pid)"
  "preserves P (checkAndUpdateOperationStatusByOpId E oid)"
  unfolding checkAndUpdateOperationStatuses_def checkAndUpdateOperationStatusByOpId_def
    checkAndUpdateOperationStatusesRaw_def check_operation_def
  by (intro keep keep_savePaymentChannelRecord; assumption)+

lemma keep_cancel: "preserves P (cancelPaymentOperationsByPaymentId E pid)"
  unfolding cancelPaymentOperationsByPaymentId_def cancel_operation_def
  by (intro keep)

lemma keep_fire: "preserves P (firePaymentOperationsByPaymentId E pid)"
  unfolding firePaymentOperationsByPaymentId_def fire_operation_def
  by (intro keep keep_savePaymentChannelRecord)

lemma keep_start: "preserves P (startPaymentOperation E payment items captureInfo)"
  unfolding startPaymentOperation_def
  by (intro keep keep_savePaymentChannelRecord)

lemma keep_start_refund:
  "preserves P (startRefundPaymentOperationsForRefundRequest E refundPayment items purchase plans)"
  unfolding startRefundPaymentOperationsForRefundRequest_def refund_one_def reserve_refund_def
    refund_continue_def
  by (intro keep keep_savePaymentChannelRecord)

lemma keep_prepare: "preserves P (prepareRefundChannelPlan E items payment originals)"
  unfolding prepareRefundChannelPlan_def by (intro keep keep_check_rounding_account)

lemma keep_open_operation: "preserves P (createOpenPaymentOperation E pid amount currency)"
  unfolding createOpenPaymentOperation_def by (intro keep)

lemma keep_orders:
  "preserves P (generateSellerPaymentOrders E payment items)"
  "preserves P (modifyS (closeOpenPaymentOrders pid))"
  unfolding generateSellerPaymentOrders_def addSellerPaymentOrders_def addTransaction_def
  by (intro keep; assumption)+

lemma keep_transactions: "preserves P (fromPayment E payment items managed)"
  unfolding fromPayment_def save_dtos_def createNew_def save_dto_def
  by (intro keep)

lemmas keep_services = keep_check_operations keep_cancel keep_fire keep_start
  keep_start_refund keep_prepare keep_open_operation keep_orders keep_transactions

lemma keep_completion:
  "preserves P (postPaymentOperation E payment)" "preserves P (send_webhooks payment items)"
  "preserves P (onPaymentCompleted E payment)"
  unfolding onPaymentCompleted_def postPaymentOperation_def send_webhooks_def
  by (intro keep keep_services; assumption)+

lemma keep_snapshots:
  "preserves P (applyItemSellerSnapshots E items)" "preserves P (applyAccountSnapshot E p)"
  "preserves P (applyAddressSnapshot E p)"
  unfolding applyItemSellerSnapshots_def seller_snapshot_def applyAccountSnapshot_def
    applyAddressSnapshot_def
  by (intro keep keep_services; assumption)+

lemma keep_draw: "preserves P (draw_session n E)"
  by (induction n) (auto intro!: keep)

end

section \<open>The abstraction\<close>

definition payment_view :: "payment_row \<Rightarrow> payment_state" where
  "payment_view p = \<lparr>v_id = p_id p, v_status = p_paymentStatus p, v_error = p_errorStatus p,
     v_open = p_openPayment p, v_session = p_activeSessionId p, v_flag = p_failOnPaymentChannelFailure p\<rparr>"

definition payments_view :: "store \<Rightarrow> payment_state list" where
  "payments_view s = map payment_view (st_payments s)"

text \<open>Every payment's identifier has been drawn.\<close>

definition known_ids :: "(nat \<Rightarrow> string) \<Rightarrow> store \<Rightarrow> bool" where
  "known_ids U s \<longleftrightarrow> p_id ` set (st_payments s) \<subseteq> U ` {..<st_seq s}"

definition pinned :: "(nat \<Rightarrow> string) \<Rightarrow> payment_row list \<Rightarrow> store \<Rightarrow> bool" where
  "pinned U V s \<longleftrightarrow> st_payments s = V \<and> known_ids U s"

definition moved :: "(nat \<Rightarrow> string) \<Rightarrow> payment_row list \<Rightarrow> store \<Rightarrow> bool" where
  "moved U V s \<longleftrightarrow> payment_moves (map payment_view V) (payments_view s) \<and> known_ids U s"

lemma known_ids_mono:
  "known_ids U s \<Longrightarrow> st_payments t = st_payments s \<Longrightarrow> st_seq s \<le> st_seq t \<Longrightarrow> known_ids U t"
  unfolding known_ids_def by (auto intro: order_less_le_trans dest!: subsetD)

interpretation pinned: payments_only "pinned U V" for U V
  by unfold_locales (auto simp: pinned_def intro: known_ids_mono)

interpretation moved: payments_only "moved U V" for U V
  by unfold_locales (auto simp: moved_def payments_view_def intro: known_ids_mono)

text \<open>An operation refines the machine: started on the payments \<open>V\<close>, it ends after some moves.\<close>

definition refines :: "(nat \<Rightarrow> string) \<Rightarrow> (store, 'a) act \<Rightarrow> bool" where
  "refines U m \<longleftrightarrow> (\<forall>V. triple (pinned U V) m (\<lambda>_. moved U V) (moved U V))"

lemma refinesI: "(\<And>V. triple (pinned U V) m (\<lambda>_. moved U V) (moved U V)) \<Longrightarrow> refines U m"
  by (simp add: refines_def)

lemma refinesD: "refines U m \<Longrightarrow> triple (pinned U V) m (\<lambda>_. moved U V) (moved U V)"
  by (simp add: refines_def)

lemma pinned_moved: "pinned U V s \<Longrightarrow> moved U V s"
  by (auto simp: pinned_def moved_def payments_view_def)

lemma moved_self: "known_ids U s \<Longrightarrow> pinned U (st_payments s) s"
  by (simp add: pinned_def)

lemma refines_keep: "(\<And>V. preserves (pinned U V) m) \<Longrightarrow> refines U m"
  by (rule refinesI, rule triple_keep) (auto intro: pinned_moved)

lemma refines_preserves: "refines U m \<Longrightarrow> preserves (moved U V) m"
proof (rule preservesI)
  fix s t r
  assume m: "refines U m" and s: "moved U V s" "m s = (t, r)"
  from s(1) have k: "known_ids U s" by (simp add: moved_def)
  with m s(2) have "moved U (st_payments s) t"
    by (cases r) (auto dest: triple_Inr [OF refinesD] triple_Inl [OF refinesD] moved_self)
  with s(1) show "moved U V t" unfolding moved_def payments_view_def by (meson rtranclp_trans)
qed

lemma refines_seq: "refines U m \<Longrightarrow> (\<And>x. refines U (f x)) \<Longrightarrow> refines U (bindS m f)"
  by (rule refinesI, rule triple_bindS, erule refinesD) (simp add: triple_preserves refines_preserves)

lemma map_upsert: "(\<And>x. key' (f x) = key x) \<Longrightarrow> map f (upsert key r xs) = upsert key' (f r) (map f xs)"
  by (induction xs) auto

lemma view_columns [simp]: "payment_view (payment_columns B p) = payment_view p"
  by (simp add: payment_view_def payment_columns_def)

lemma view_id [simp]: "v_id (payment_view p) = p_id p"
  by (simp add: payment_view_def)

lemma view_upsert:
  "map payment_view (upsert p_id q V) = upsert v_id (payment_view q) (map payment_view V)"
  by (rule map_upsert) simp

lemma pinned_find: "pinned U V s \<Longrightarrow> find_payment s i = by_key p_id V i"
  by (simp add: pinned_def find_payment_def)

lemma view_find: "by_key p_id V i = Some p \<Longrightarrow> by_key v_id (map payment_view V) i = Some (payment_view p)"
  using by_key_map [of v_id payment_view p_id V i] by simp

text \<open>Saving a payment that was found, with a change the machine allows.\<close>

lemma known_ids_save:
  "pinned U V s \<Longrightarrow> by_key p_id V i = Some p \<Longrightarrow> p_id q = p_id p \<Longrightarrow> known_ids U (save_payment B q s)"
  unfolding pinned_def known_ids_def by (auto simp: save_payment_def dest!: upsert_in by_key_in)

lemma save_moved:
  assumes "pinned U V s" "by_key p_id V i = Some p" "p_id q = p_id p"
    and "payment_move (map payment_view V) (upsert v_id (payment_view q) (map payment_view V))"
  shows "moved U V (save_payment B q s)"
  using assms known_ids_save [OF assms(1-3)]
  by (auto simp: moved_def payments_view_def pinned_def save_payment_def view_upsert)

section \<open>Creating payments\<close>

definition session_free :: "payment_row list \<Rightarrow> string option \<Rightarrow> bool" where
  "session_free V sid \<longleftrightarrow>
     (truthy sid \<longrightarrow> (\<forall>q \<in> set V. unresolved q \<longrightarrow> p_activeSessionId q \<noteq> sid))"

lemma session_used_pinned: "pinned U V s \<Longrightarrow> session_used sid s \<longleftrightarrow> list_ex (\<lambda>p. p_activeSessionId p = sid \<and> unresolved p) V"
  by (simp add: session_used_def pinned_def)

lemma draw_free:
  "triple (pinned U V) (draw_session n E) (\<lambda>r s. pinned U V s \<and> session_free V r) (pinned U V)"
proof (induction n)
  case 0
  then show ?case by (auto intro: triple_last simp: session_free_def)
next
  case (Suc n)
  then show ?case
    unfolding draw_session.simps
    by (intro triple_bind_keep [OF pinned.keep_newId] triple_bind triple_last)
      (auto simp: session_used_pinned session_free_def list_ex_iff)
qed

lemma session_for_free:
  "triple (pinned U V) (session_for E pdto) (\<lambda>r s. pinned U V s \<and> session_free V r) (pinned U V)"
proof -
  have drawn: "triple (pinned U V) (generateActiveSessionId E)
      (\<lambda>r s. pinned U V s \<and> session_free V r) (pinned U V)"
    unfolding generateActiveSessionId_def
    by (rule tripleI) (blast dest: triple_Inr [OF draw_free], blast dest: triple_Inl [OF draw_free])
  have "triple (\<lambda>s. pinned U V s \<and> session_free V x)
      (bindS (guardS (x = None) (JsError ''no identifier drawn'')) (\<lambda>_. returnS x))
      (\<lambda>r s. pinned U V s \<and> session_free V r) (pinned U V)" for x
    by (intro triple_bind triple_last) auto
  note generated = triple_bindS [OF drawn this]
  show ?thesis
    unfolding session_for_def
    by (intro triple_if generated) (rule triple_last triple_bind; auto simp: session_free_def session_used_pinned list_ex_iff)+
qed

lemma snapshot_view:
  "triple (pinned U V) (applyAccountSnapshot E p) (\<lambda>p' s. pinned U V s \<and> payment_view p' = payment_view p) (pinned U V)"
  "triple (pinned U V) (applyAddressSnapshot E p) (\<lambda>p' s. pinned U V s \<and> payment_view p' = payment_view p) (pinned U V)"
  unfolding applyAccountSnapshot_def applyAddressSnapshot_def
  by (intro triple_bind_keep [OF pinned.keep_newId] triple_bind triple_last; simp add: payment_view_def)+

definition drafted :: "payment_row list \<Rightarrow> payment_row \<Rightarrow> bool" where
  "drafted V p \<longleftrightarrow> unresolved p \<and> p_errorStatus p = None \<and> session_free V (p_activeSessionId p)"

lemma drafted_view: "payment_view q = payment_view p \<Longrightarrow> drafted V p \<Longrightarrow> drafted V q"
  by (simp add: drafted_def payment_view_def unresolved_def)

lemma generate_drafts:
  "triple (pinned U V) (generateEntityFromInitDto E C pdto rc) (\<lambda>d s. pinned U V s \<and> drafted V (fst d)) (pinned U V)"
proof -
  have row: "drafted V (init_row E pdto session customer calc)" if "session_free V session" for session customer calc
    using that by (simp add: drafted_def init_row_def new_payment_def unresolved_def)
  have address: "triple (\<lambda>s. pinned U V s \<and> drafted V p)
      (bindS (applyAddressSnapshot E p) (\<lambda>p'. returnS (p', items, taxes)))
      (\<lambda>d s. pinned U V s \<and> drafted V (fst d)) (pinned U V)" for p and items :: "item_row list" and taxes :: "payment_tax_row list"
    by (rule triple_pure, rule triple_bindS [OF snapshot_view(2)], rule triple_pure)
      (auto intro!: triple_last elim: drafted_view)
  have account: "triple (pinned U V)
      (bindS (applyAccountSnapshot E p) (\<lambda>p'. bindS (applyAddressSnapshot E p') (\<lambda>p''. returnS (p'', items, taxes))))
      (\<lambda>d s. pinned U V s \<and> drafted V (fst d)) (pinned U V)"
    if "drafted V p" for p and items :: "item_row list" and taxes :: "payment_tax_row list"
    using that
    by (intro triple_bindS [OF snapshot_view(1)] triple_weaken [OF address]) (auto elim: drafted_view)
  show ?thesis
    unfolding generateEntityFromInitDto_def
    by (rule triple_bind, rule triple_bindS [OF session_for_free], rule triple_pure, (rule triple_bind)+,
        rule triple_bind_keep [OF pinned.keep_snapshots(1)], rule account, erule row, assumption+)
qed

lemma known_ids_fresh:
  "inj U \<Longrightarrow> known_ids U s \<Longrightarrow> U (st_seq s) \<notin> p_id ` set (st_payments s)"
  unfolding known_ids_def by (auto dest!: subsetD dest: injD)

lemma insert_moved:
  assumes "inj (env_uuid E)" and "drafted V (fst d)"
  shows "triple (pinned (env_uuid E) V) (insert_payment E d) (\<lambda>_. moved (env_uuid E) V) (moved (env_uuid E) V)"
proof -
  let ?U = "env_uuid E"
  obtain p items taxes where d: "d = (p, items, taxes)" by (rule prod_cases3)
  let ?fresh = "\<lambda>pid s. pinned ?U V s \<and> pid \<notin> p_id ` set V \<and> pid \<in> ?U ` {..<st_seq s}"
  have new: "triple (pinned ?U V) (newId E) ?fresh (moved ?U V)"
  proof (rule tripleI)
    fix s t pid
    assume s: "pinned ?U V s" "newId E s = (t, Inr pid)"
    then have "pinned ?U V t" by (rule preservesD [OF pinned.keep_newId])
    with s known_ids_fresh [OF assms(1), of s] show "?fresh pid t" by (auto simp: pinned_def)
  qed simp
  have "moved ?U V (save_payment (env_big E) (p\<lparr>p_id := pid\<rparr>) s)" if "?fresh pid s" for pid s
  proof -
    let ?q = "p\<lparr>p_id := pid\<rparr>"
    have "payment_move (map payment_view V) (map payment_view V @ [payment_view ?q])"
      using that assms(2)
      by (intro payment_move.create)
        (auto simp: d payment_view_def pending_def drafted_def session_free_def unresolved_def)
    then have "payment_move (map payment_view V) (map payment_view (upsert p_id ?q V))"
      using that by (subst upsert_fresh) auto
    moreover have "known_ids ?U (save_payment (env_big E) ?q s)"
      using that unfolding pinned_def known_ids_def by (auto simp: save_payment_def dest!: upsert_in)
    ultimately show ?thesis
      using that by (auto simp: moved_def payments_view_def pinned_def save_payment_def view_upsert)
  qed
  then show ?thesis
    unfolding insert_payment_def d prod.case
    by (intro triple_bindS [OF new] triple_bind_modifyS [where P' = "moved ?U V"] triple_keep)
      (auto intro!: preserves moved.writes moved.row_writes simp: insert_item_def insert_tax_def)
qed

lemma generate_drafts_moved:
  "triple (pinned U V) (generateEntityFromInitDto E C pdto rc) (\<lambda>d s. pinned U V s \<and> drafted V (fst d)) (moved U V)"
  by (rule triple_weaken [OF generate_drafts]) (auto intro: pinned_moved)

lemma insert_transaction_moved:
  "inj (env_uuid E) \<Longrightarrow> drafted V (fst d) \<Longrightarrow>
   triple (pinned (env_uuid E) V) (transactionS (insert_payment E d))
     (\<lambda>_. moved (env_uuid E) V) (moved (env_uuid E) V)"
  by (rule triple_transactionS, rule triple_weaken [OF insert_moved]) (auto intro: pinned_moved)

lemma refines_init: "inj (env_uuid E) \<Longrightarrow> refines (env_uuid E) (init E C pdto)"
proof (rule refinesI)
  fix V assume inj: "inj (env_uuid E)"
  note insert = triple_bindS [OF insert_transaction_moved [OF inj]]
  show "triple (pinned (env_uuid E) V) (init E C pdto) (\<lambda>_. moved (env_uuid E) V) (moved (env_uuid E) V)"
    unfolding init_def
    by (rule triple_bindS [OF generate_drafts_moved], rule triple_pure, erule insert)
      (auto intro!: preserves moved.writes triple_keep)
qed

section \<open>Resolving payments\<close>

lemma preserves_refines: "(\<And>V. preserves (moved U V) m) \<Longrightarrow> refines U m"
  by (rule refinesI, rule triple_keep [of "moved U _", THEN triple_weaken]) (auto intro: pinned_moved)

lemma view_update [simp]:
  "payment_view (p\<lparr>p_paymentStatus := st\<rparr>) = (payment_view p)\<lparr>v_status := st\<rparr>"
  "payment_view (p\<lparr>p_paymentStatus := st, p_errorStatus := e\<rparr>) =
     (payment_view p)\<lparr>v_status := st, v_error := e\<rparr>"
  "payment_view (p\<lparr>p_openPayment := o'\<rparr>) = (payment_view p)\<lparr>v_open := o'\<rparr>"
  "pending (payment_view p) = unresolved p" "v_open (payment_view p) = p_openPayment p"
  "v_status (payment_view p) = p_paymentStatus p" "v_error (payment_view p) = p_errorStatus p"
  by (simp_all add: payment_view_def pending_def unresolved_def)

text \<open>What a payment found among \<open>V\<close> may be replaced by.\<close>

definition replaceable :: "payment_row list \<Rightarrow> payment_row \<Rightarrow> payment_row \<Rightarrow> bool" where
  "replaceable V p q \<longleftrightarrow> p_id q = p_id p \<and>
     payment_move (map payment_view V) (upsert v_id (payment_view q) (map payment_view V))"

lemma replaceable_unresolved:
  assumes "by_key p_id V i = Some p" "unresolved p"
  shows "replaceable V p (p\<lparr>p_paymentStatus := PS_INITIATED\<rparr>)"
    and "replaceable V p (p\<lparr>p_paymentStatus := PS_WAITING\<rparr>)"
    and "replaceable V p p"
    and "replaceable V p (p\<lparr>p_paymentStatus := PS_FAILED\<rparr>)"
    and "replaceable V p (p\<lparr>p_paymentStatus := PS_FAILED, p_errorStatus := e\<rparr>)"
    and "\<not> p_openPayment p \<Longrightarrow> replaceable V p (p\<lparr>p_paymentStatus := PS_COMPLETED\<rparr>)"
proof -
  have p: "by_key v_id (map payment_view V) i = Some (payment_view p)" "pending (payment_view p)"
    using assms view_find by auto
  show "replaceable V p (p\<lparr>p_paymentStatus := PS_INITIATED\<rparr>)"
    "replaceable V p (p\<lparr>p_paymentStatus := PS_WAITING\<rparr>)"
    using payment_move.advance [OF p] by (auto simp: replaceable_def)
  show "replaceable V p p"
    using payment_move.advance [OF p, of "v_status (payment_view p)"] assms(2)
    by (simp add: replaceable_def unresolved_def payment_view_def)
  show "replaceable V p (p\<lparr>p_paymentStatus := PS_FAILED, p_errorStatus := e\<rparr>)"
    "replaceable V p (p\<lparr>p_paymentStatus := PS_FAILED\<rparr>)"
    using payment_move.fail [OF p, of e] payment_move.fail [OF p, of "v_error (payment_view p)"]
    by (simp_all add: replaceable_def payment_view_def)
  show "\<not> p_openPayment p \<Longrightarrow> replaceable V p (p\<lparr>p_paymentStatus := PS_COMPLETED\<rparr>)"
    using payment_move.complete [OF p] by (auto simp: replaceable_def)
qed

lemma save_replaceable:
  "pinned U V s \<Longrightarrow> by_key p_id V i = Some p \<Longrightarrow> replaceable V p q \<Longrightarrow> moved U V (save_payment B q s)"
  unfolding replaceable_def by (blast intro: save_moved)

lemma settle_unpaid_replaceable:
  assumes "by_key p_id V i = Some p" "unresolved p"
  shows "triple (pinned U V) (settle_unpaid E p) (\<lambda>q s. pinned U V s \<and> replaceable V p q) (moved U V)"
  unfolding settle_unpaid_def
  by (intro triple_bind triple_bind_keep [OF pinned.keep_cancel] triple_last)
    (auto intro: replaceable_unresolved assms pinned_moved)

lemma pinned_found:
  "pinned U V s \<Longrightarrow> find_payment s i = Some p \<Longrightarrow> by_key p_id V i = Some p"
  by (simp add: pinned_find)

lemma refines_update: "refines U (updatePaymentByOperationStatuses E pid check)"
proof (rule refinesI)
  fix V
  have pay: "triple (pinned U V)
      (bindS (modifyS (save_payment (env_big E) q)) (\<lambda>_. m)) (\<lambda>_. moved U V) (moved U V)"
    if "by_key p_id V pid = Some p" "replaceable V p q" "preserves (moved U V) m" for p q and m :: "(store, payment_row) act"
    using that by (intro triple_bind_modifyS [where P' = "moved U V"] triple_keep) (auto intro: save_replaceable)
  have unpaid: "triple (pinned U V)
      (bindS (settle_unpaid E p) (\<lambda>q. bindS (modifyS (save_payment (env_big E) q)) (\<lambda>_. stream E q)))
      (\<lambda>_. moved U V) (moved U V)" if "by_key p_id V pid = Some p" "unresolved p" for p
    by (rule triple_bindS [OF settle_unpaid_replaceable [OF that]], rule triple_pure,
        rule pay [OF that(1)]) (auto intro: moved.keep_stream)
  have checks: "preserves (pinned U V) (if check then checkAndUpdateOperationStatuses E pid else returnS ())"
    by (intro preserves pinned.keep_check_operations)
  show "triple (pinned U V) (updatePaymentByOperationStatuses E pid check) (\<lambda>_. moved U V) (moved U V)"
    unfolding updatePaymentByOperationStatuses_def Let_def
    by (intro triple_bind triple_bind_keep [OF checks] triple_if)
      (auto intro!: pay unpaid preserves moved.keep_fire moved.keep_completion moved.keep_stream triple_last
        intro: pinned_moved replaceable_unresolved dest: pinned_found)
qed

lemma refines_check_waiting: "refines U (checkAndUpdateWaitingPayments E)"
  unfolding checkAndUpdateWaitingPayments_def
  by (intro preserves_refines preserves_bindS preserves_basic preserves_forS
      refines_preserves [OF refines_update])

lemma refines_status_updated: "refines U (handlePaymentOperationStatusUpdated E oid)"
  unfolding handlePaymentOperationStatusUpdated_def
  by (intro preserves_refines preserves_bindS preserves_basic moved.keep_check_operations
      refines_preserves [OF refines_update])

lemma refines_return_url: "refines U (resolveOperationReturnUrl E i)"
  unfolding resolveOperationReturnUrl_def
  by (intro preserves_refines preserves_bindS preserves_basic preserves_catchS
      refines_preserves [OF refines_update])

lemma refines_cancel: "refines U (cancelPayment E pid)"
  unfolding cancelPayment_def Let_def assertPaymentIsNotResolved_def
  by (intro refinesI triple_bind triple_bind_keep [OF pinned.keep_cancel]
      triple_bind_modifyS [where P' = "moved U _"])
    (auto intro: save_replaceable replaceable_unresolved pinned_moved triple_keep moved.keep_stream
      dest: pinned_found)

lemma refines_start: "refines U (startPayment E pid captureInfo)"
  unfolding startPayment_def Let_def assertPaymentIsNotResolved_def
  by (intro refinesI triple_bind triple_last triple_bind_keep [OF pinned.keep_start]
      triple_bind_modifyS [where P' = "moved U _"] triple_bind_keep [OF moved.keep_stream])
    (auto intro: save_replaceable replaceable_unresolved pinned_moved dest: pinned_found)

lemma fail_flagged_moved: "moved U V s \<Longrightarrow> moved U V (failPaymentIfSetFailFieldTrue pid s)"
proof -
  assume s: "moved U V s"
  have "payments_view (failPaymentIfSetFailFieldTrue pid s) = map (\<lambda>p. if v_id p = pid \<and> v_flag p
      then p\<lparr>v_status := PS_FAILED, v_error := Some PE_FAILED\<rparr> else p) (payments_view s)"
    by (auto simp: payments_view_def failPaymentIfSetFailFieldTrue_def payment_view_def)
  moreover have "map p_id (st_payments (failPaymentIfSetFailFieldTrue pid s)) = map p_id (st_payments s)"
    by (auto simp: failPaymentIfSetFailFieldTrue_def)
  then have "known_ids U (failPaymentIfSetFailFieldTrue pid s) = known_ids U s"
    unfolding known_ids_def set_map [symmetric] by (simp add: failPaymentIfSetFailFieldTrue_def)
  ultimately show ?thesis
    using s payment_move.fail_flagged [of "payments_view s" pid]
    by (auto simp: moved_def intro: rtranclp.rtrancl_into_rtrancl)
qed

lemma refines_start_operation: "refines U (startOperation E configs pid captureInfo)"
  unfolding startOperation_def
  by (intro preserves_refines preserves_catchS preserves_bindS preserves_basic preserves_option
      preserves_modifyS fail_flagged_moved refines_preserves [OF refines_start])

lemma moved_from:
  "payment_move (map payment_view V) (map payment_view W) \<Longrightarrow> moved U W s \<Longrightarrow> moved U V s"
  unfolding moved_def by (auto intro: converse_rtranclp_into_rtranclp)

lemma refines_confirm: "refines U (confirmOpenPayment E pid seller)"
proof (rule refinesI)
  fix V
  let ?B = "env_big E"
  have confirmed: "triple (pinned U V)
      (bindS (modifyS (save_payment ?B (p\<lparr>p_paymentStatus := PS_COMPLETED\<rparr>))) (\<lambda>_.
       bindS (stream E x) (\<lambda>_. bindS (postPaymentOperation E y) (\<lambda>_.
       bindS (modifyS (closeOpenPaymentOrders pid)) (\<lambda>_.
       bindS (modifyS (save_payment ?B (p\<lparr>p_paymentStatus := PS_COMPLETED, p_openPayment := False\<rparr>))) (\<lambda>_.
       n)))))) (\<lambda>_. moved U V) (moved U V)"
    if p: "by_key p_id V pid = Some p" "p_openPayment p" "p_paymentStatus p = PS_WAITING" "preserves (moved U V) n"
    for p x y and n :: "(store, payment_row) act"
  proof -
    let ?q = "payment_columns ?B (p\<lparr>p_paymentStatus := PS_COMPLETED\<rparr>)"
    let ?W = "upsert p_id ?q V"
    have move: "payment_move (map payment_view V) (map payment_view ?W)"
      using payment_move.confirm [OF view_find [OF p(1)]] p by (simp add: view_upsert)
    have W: "by_key p_id ?W pid = Some ?q"
      using p(1) by (auto simp: by_key_upsert payment_columns_def dest: by_key_in)
    have first: "pinned U ?W (save_payment ?B (p\<lparr>p_paymentStatus := PS_COMPLETED\<rparr>) s)"
      if "pinned U V s" for s
      using that known_ids_save [OF that p(1)] by (auto simp: pinned_def save_payment_def)
    have "replaceable ?W ?q (p\<lparr>p_paymentStatus := PS_COMPLETED, p_openPayment := False\<rparr>)"
      using payment_move.close [OF view_find [OF W]]
      by (simp add: replaceable_def payment_view_def payment_columns_def)
    then have second: "moved U V (save_payment ?B (p\<lparr>p_paymentStatus := PS_COMPLETED, p_openPayment := False\<rparr>) s)"
      if "pinned U ?W s" for s
      using that by (blast intro: moved_from [OF move] save_replaceable [OF that W])
    show ?thesis
      by (rule triple_bind_modifyS, erule first, rule triple_bind_keep [OF pinned.keep_stream],
          rule triple_bind_keep [OF pinned.keep_completion(1)],
          rule triple_bind_modifyS, erule pinned.more_writes(2),
          rule triple_bind_modifyS, erule second)
        (auto intro: triple_keep p moved_from [OF move] pinned_moved)
  qed
  show "triple (pinned U V) (confirmOpenPayment E pid seller) (\<lambda>_. moved U V) (moved U V)"
    unfolding confirmOpenPayment_def Let_def
    by (intro triple_bind triple_prod)
      (auto intro!: confirmed preserves moved.writes moved.keep_completion intro: pinned_moved dest: pinned_found)
qed

lemma refines_billing:
  assumes inj: "inj (env_uuid E)"
  shows "refines (env_uuid E) (createBillingPayment E params)"
proof (rule refinesI)
  fix V
  let ?U = "env_uuid E"
  have row: "drafted V (billing_row E params tax)" for tax
    by (simp add: drafted_def billing_row_def new_payment_def unresolved_def session_free_def)
  have snapshots: "triple (pinned ?U V) (applyAccountSnapshot E p) (\<lambda>p' s. pinned ?U V s \<and> payment_view p' = payment_view p) (moved ?U V)"
    "triple (pinned ?U V) (applyAddressSnapshot E p) (\<lambda>p' s. pinned ?U V s \<and> payment_view p' = payment_view p) (moved ?U V)" for p
    by (rule triple_weaken [OF snapshot_view(1)] triple_weaken [OF snapshot_view(2)]; auto intro: pinned_moved)+
  have insert: "triple (pinned ?U V) (bindS (transactionS (insert_payment E (q, items, []))) f) (\<lambda>_. moved ?U V) (moved ?U V)"
    if "payment_view p = payment_view (billing_row E params tax)" "payment_view q = payment_view p"
      "\<And>x. preserves (moved ?U V) (f x)"
    for p q tax items and f :: "payment_row \<Rightarrow> (store, payment_row) act"
    using that drafted_view [OF trans [OF that(2,1)] row]
    by (intro triple_bindS [OF insert_transaction_moved [OF inj]]) (auto intro: triple_keep)
  show "triple (pinned ?U V) (createBillingPayment E params) (\<lambda>_. moved ?U V) (moved ?U V)"
    unfolding createBillingPayment_def
    by (rule triple_bind, rule triple_bind, rule triple_bind_keep [OF pinned.keep_snapshots(1)],
        rule triple_bind, rule triple_bindS [OF snapshots(1)], rule triple_pure,
        rule triple_bindS [OF snapshots(2)], rule triple_pure, erule (1) insert)
      (auto intro!: preserves moved.keep_open_operation moved.keep_orders intro: pinned_moved)
qed

lemma refines_refund:
  assumes inj: "inj (env_uuid E)"
  shows "refines (env_uuid E) (createRefundPayment E C req)"
proof (rule refinesI)
  fix V
  let ?U = "env_uuid E"
  let ?ready = "\<lambda>x s. pinned ?U V s \<and> (\<forall>plan d. x = Some (plan, d) \<longrightarrow> drafted V (fst d))"
  have prepare: "triple (pinned ?U V) (prepare_refund_payment E C req original originals)
      (\<lambda>x s. pinned ?U V s \<and> drafted V (fst (snd x))) (moved ?U V)" for original originals
    unfolding prepare_refund_payment_def
    by (rule triple_bind_keep [OF pinned.keep_prepare], rule triple_bind,
        rule triple_bindS [OF generate_drafts_moved], rule triple_pure)
      (auto intro!: triple_last intro: pinned_moved simp: drafted_def unresolved_def)
  have prepared: "triple (pinned ?U V)
      (if existing = None then bindS (prepare_refund_payment E C req original originals) (\<lambda>x. returnS (Some x))
       else returnS None) ?ready (moved ?U V)" for existing :: "payment_row option" and original originals
    by (rule triple_if, rule triple_bindS [OF prepare], rule triple_pure) (auto intro!: triple_last)
  have save: "pinned ?U V (case locked of None \<Rightarrow> s | Some r \<Rightarrow> save_request (f r) s)" if "pinned ?U V s" for locked f s
    using that by (cases locked) (auto intro: pinned.row_writes)
  have body: "triple (pinned ?U V)
      (bindS (modifyS (\<lambda>s. case locked of None \<Rightarrow> s | Some r \<Rightarrow> save_request (f r) s)) (\<lambda>_.
       bindS (insert_payment E d) g)) (\<lambda>_. moved ?U V) (moved ?U V)"
    if "drafted V (fst d)" "\<And>y. preserves (moved ?U V) (g y)"
    for locked f d and g :: "payment_row \<Rightarrow> (store, payment_row \<times> refund_plan list) act"
    by (rule triple_bind_modifyS, erule save, rule triple_bindS [OF insert_moved [OF inj that(1)]])
      (auto intro: triple_keep that(2))
  have book: "triple (pinned ?U V) (book_refund E req x) (\<lambda>_. moved ?U V) (moved ?U V)"
    if "\<forall>plan d. x = Some (plan, d) \<longrightarrow> drafted V (fst d)" for x
    unfolding book_refund_def
    by (rule triple_transactionS,
        rule triple_weaken [of "pinned ?U V" _ "\<lambda>_. moved ?U V" "moved ?U V"],
        intro triple_bind triple_option triple_prod)
      (use that in \<open>auto intro!: body triple_last preserves moved.keep_orders moved.keep_transactions intro: pinned_moved\<close>)
  show "triple (pinned ?U V) (createRefundPayment E C req) (\<lambda>_. moved ?U V) (moved ?U V)"
    unfolding createRefundPayment_def
    by (intro triple_bind triple_prod; (rule triple_bindS [OF prepared], rule triple_pure, rule triple_bindS, erule book)?)
      (auto intro!: triple_keep preserves moved.keep_start_refund intro: pinned_moved)
qed

section \<open>Shared facts\<close>

interpretation same_payments: payments_only "\<lambda>s. st_payments s = V" for V
  by unfold_locales simp

lemma send_webhooks_log:
  "send_webhooks payment items s =
     (s\<lparr>st_log := st_log s @ map (\<lambda>a. EvWebhook a (p_id payment)) (webhook_accounts payment items)\<rparr>, Inr ())"
proof -
  have "forS xs (\<lambda>a. emit (EvWebhook a i)) s = (s\<lparr>st_log := st_log s @ map (\<lambda>a. EvWebhook a i) xs\<rparr>, Inr ())" for xs i
    by (induction xs arbitrary: s) (simp_all add: returnS_def bindS_def emit_def modifyS_def)
  then show ?thesis by (simp add: send_webhooks_def)
qed

end
