(* ===== verification/Payment_Properties.thy ===== *)
theory Payment_Properties
  imports Payment_Lifecycle
begin

text \<open>
  The properties of the payment service: it refines the abstract machine of \<open>Payment_Machine\<close>, what
  follows for the stores it reaches, and the behaviour of its operations one by one.
\<close>

section \<open>The steps of the service\<close>

text \<open>
  One call of the service, whatever it returns or throws, and any call of another service, which
  writes no payment. The environment of every call may differ: the clock, and the channels' replies.
\<close>

inductive payment_step :: "env \<Rightarrow> catalog \<Rightarrow> store \<Rightarrow> store \<Rightarrow> bool" for E C where
  init_step: "payment_step E C s (fst (init E C pdto s))"
| start_step: "payment_step E C s (fst (startOperation E configs pid captureInfo s))"
| update_step: "payment_step E C s (fst (updatePaymentByOperationStatuses E pid check s))"
| poll_step: "payment_step E C s (fst (checkAndUpdateWaitingPayments E s))"
| status_step: "payment_step E C s (fst (handlePaymentOperationStatusUpdated E oid s))"
| return_step: "payment_step E C s (fst (resolveOperationReturnUrl E i s))"
| cancel_step: "payment_step E C s (fst (cancelPayment E pid s))"
| confirm_step: "payment_step E C s (fst (confirmOpenPayment E pid seller s))"
| refund_step: "payment_step E C s (fst (createRefundPayment E C req s))"
| billing_step: "payment_step E C s (fst (createBillingPayment E params s))"
| other_step: "st_payments t = st_payments s \<Longrightarrow> st_seq s \<le> st_seq t \<Longrightarrow> payment_step E C s t"

definition service_step :: "(nat \<Rightarrow> string) \<Rightarrow> store \<Rightarrow> store \<Rightarrow> bool" where
  "service_step U s t \<longleftrightarrow> (\<exists>E C. env_uuid E = U \<and> payment_step E C s t)"

abbreviation service_run :: "(nat \<Rightarrow> string) \<Rightarrow> store \<Rightarrow> store \<Rightarrow> bool" where
  "service_run U \<equiv> (service_step U)\<^sup>*\<^sup>*"

lemma service_stepI: "payment_step E C s t \<Longrightarrow> service_step (env_uuid E) s t"
  unfolding service_step_def by blast

lemma view_session: "v_session (payment_view p) = p_activeSessionId p"
  by (simp add: payment_view_def)

lemma refines_step:
  "refines U m \<Longrightarrow> known_ids U s \<Longrightarrow> moved U (st_payments s) (fst (m s))"
  using preservesD [OF refines_preserves, of U m "st_payments s" s "fst (m s)" "snd (m s)"]
  by (simp add: pinned_moved [OF moved_self])

lemmas refines_operations = refines_init refines_start_operation refines_update
  refines_check_waiting refines_status_updated refines_return_url refines_cancel refines_confirm
  refines_refund refines_billing

lemma step_moved:
  "payment_step E C s t \<Longrightarrow> inj (env_uuid E) \<Longrightarrow> known_ids (env_uuid E) s \<Longrightarrow>
     moved (env_uuid E) (st_payments s) t"
proof (induction rule: payment_step.induct)
  case (other_step t s)
  then show ?case by (auto simp: moved_def payments_view_def intro: known_ids_mono)
qed (auto intro: refines_step refines_operations)

lemma run_moved:
  "service_run U s t \<Longrightarrow> inj U \<Longrightarrow> known_ids U s \<Longrightarrow> moved U (st_payments s) t"
proof (induction rule: rtranclp_induct)
  case base
  then show ?case by (simp add: pinned_moved [OF moved_self])
next
  case (step t u)
  then obtain E C where E: "env_uuid E = U" "payment_step E C t u" by (auto simp: service_step_def)
  from step have t: "moved U (st_payments s) t" by blast
  with step_moved [OF E(2)] E(1) step.prems have "moved U (st_payments t) u" by (auto simp: moved_def)
  with t show ?case by (auto simp: moved_def payments_view_def)
qed

text \<open>
  C1: the payment service refines the abstract machine of payments. Whatever one of its operations
  does, returning or throwing half-way, and whatever the channels answer, the states of the payments
  change by a sequence of the machine's moves: a pending payment is created in a session of its own,
  moves between \<open>INITIATED\<close> and \<open>WAITING\<close>, and is resolved once; identifiers stay drawn ones.
\<close>

theorem payment_service_refines_machine:
  assumes "payment_step E C s t" and "inj (env_uuid E)" and "known_ids (env_uuid E) s"
  shows "payment_moves (payments_view s) (payments_view t) \<and> known_ids (env_uuid E) t"
  using step_moved [OF assms] by (simp add: moved_def payments_view_def)

definition sample_init :: payment_init where
  "sample_init =
     \<lparr>pi_type = PURCHASE, pi_note = None, pi_currency = ''TRY'', pi_saleMode = None,
      pi_items = [sample_input], pi_customerAccountId = Some ''customer'',
      pi_billingAddressId = None, pi_refundRequestId = None, pi_activeSessionId = Some ''basket'',
      pi_generateActiveSessionId = False, pi_failOnPaymentChannelFailure = False\<rparr>"

definition sample_created :: store where
  "sample_created = fst (init (sample_env OS_WAITING) sample_catalog sample_init sample_store)"

lemma sample_created_view:
  "map (\<lambda>p. (p_paymentStatus p, p_activeSessionId p, p_totalAmount p)) (st_payments sample_created) =
     [(PS_INITIATED, Some ''basket'', 30)]"
  by code_simp

lemma sample_known [simp]: "known_ids U sample_store" "st_payments sample_store = []"
  by (simp_all add: known_ids_def sample_store_def)

lemma sample_init_step: "payment_step (sample_env OS_WAITING) sample_catalog sample_store sample_created"
  unfolding sample_created_def by (rule init_step)

theorem payment_service_refines_machine_witness:
  "payment_moves [] (payments_view sample_created) \<and> length (payments_view sample_created) = 1"
proof -
  have "length (st_payments sample_created) = 1"
    using arg_cong [OF sample_created_view, of length] by simp
  then show ?thesis
    using payment_service_refines_machine [OF sample_init_step]
    by (simp add: payments_view_def)
qed

section \<open>What holds of every store that is reached\<close>


definition sample_failed :: store where
  "sample_failed = sample_store\<lparr>st_payments := [sample_payment ''u0'' PURCHASE PS_FAILED 100], st_seq := 1\<rparr>"




section \<open>Starting an operation of a flagged payment\<close>

lemma fail_flagged_twice:
  "failPaymentIfSetFailFieldTrue pid (failPaymentIfSetFailFieldTrue pid s) = failPaymentIfSetFailFieldTrue pid s"
  by (simp add: failPaymentIfSetFailFieldTrue_def)

lemma find_fail_flagged:
  "find_payment s pid = Some p \<Longrightarrow> p_failOnPaymentChannelFailure p \<Longrightarrow>
     find_payment (failPaymentIfSetFailFieldTrue pid s) pid =
       Some (p\<lparr>p_errorStatus := Some PE_FAILED, p_paymentStatus := PS_FAILED\<rparr>)"
  unfolding find_payment_def failPaymentIfSetFailFieldTrue_def
  by (auto simp: by_key_map [of p_id _ p_id] dest: by_key_key)

lemma startOperation_refused:
  assumes "hasOngoingPaymentOperations pid s"
  shows "\<exists>e. startOperation E configs pid captureInfo s = (failPaymentIfSetFailFieldTrue pid s, Inl e)"
  using assms
  by (cases configs) (simp_all add: startOperation_def start_refusal_def run_simps fail_flagged_twice)

text \<open>
  C37: asking for another channel operation while one is open or completed is refused, and nothing is
  charged; but a payment with \<open>failOnPaymentChannelFailure\<close> is marked as failed by the refusal,
  whatever its status was, a completed one too, while the money captured and the orders and account
  entries booked for it stay.
\<close>

theorem start_fails_flagged_payment:
  assumes "hasOngoingPaymentOperations pid s" and "find_payment s pid = Some p"
    and "p_failOnPaymentChannelFailure p"
  shows "\<exists>t e. startOperation E configs pid captureInfo s = (t, Inl e) \<and>
    find_payment t pid =
      Some (p\<lparr>p_errorStatus := Some PE_FAILED, p_paymentStatus := PS_FAILED\<rparr>) \<and>
    st_operations t = st_operations s \<and> st_orders t = st_orders s \<and>
    st_transactions t = st_transactions s \<and> st_log t = st_log s"
proof -
  have "st_operations (failPaymentIfSetFailFieldTrue pid s) = st_operations s \<and>
      st_orders (failPaymentIfSetFailFieldTrue pid s) = st_orders s \<and>
      st_transactions (failPaymentIfSetFailFieldTrue pid s) = st_transactions s \<and>
      st_log (failPaymentIfSetFailFieldTrue pid s) = st_log s"
    by (simp add: failPaymentIfSetFailFieldTrue_def)
  with startOperation_refused [OF assms(1)] find_fail_flagged [OF assms(2,3)] show ?thesis by metis
qed

definition sample_paid :: store where
  "sample_paid = sample_store\<lparr>
     st_payments := [(sample_payment ''p'' PURCHASE PS_COMPLETED 100)\<lparr>p_failOnPaymentChannelFailure := True\<rparr>],
     st_operations := [sample_operation ''a'' ''p'' PURCHASE OS_COMPLETED 100]\<rparr>"

theorem start_fails_flagged_payment_witness:
  "\<exists>t e q. startOperation (sample_env OS_WAITING) [] ''p'' (sample_capture 100) sample_paid = (t, Inl e) \<and>
     find_payment sample_paid ''p'' = Some q \<and> p_paymentStatus q = PS_COMPLETED \<and>
     find_payment t ''p'' = Some (q\<lparr>p_errorStatus := Some PE_FAILED, p_paymentStatus := PS_FAILED\<rparr>)"
proof -
  let ?q = "(sample_payment ''p'' PURCHASE PS_COMPLETED 100)\<lparr>p_failOnPaymentChannelFailure := True\<rparr>"
  have q: "find_payment sample_paid ''p'' = Some ?q" "p_paymentStatus ?q = PS_COMPLETED"
    "p_failOnPaymentChannelFailure ?q"
    by (simp_all add: find_payment_def by_key_def sample_paid_def sample_payment_def)
  have "hasOngoingPaymentOperations ''p'' sample_paid"
    by (simp add: hasOngoingPaymentOperations_def operations_with_def sample_paid_def
        sample_operation_def new_operation_def)
  from start_fails_flagged_payment [OF this q(1,3)] q show ?thesis by blast
qed

section \<open>Session identifiers\<close>

lemma draw_session_fails:
  "draw_session n E s = (t, Inr None) \<Longrightarrow> k < n \<Longrightarrow>
     env_uuid E (st_seq s + k) = [] \<or> session_used (Some (env_uuid E (st_seq s + k))) s"
proof (induction n arbitrary: s k)
  case (Suc n)
  let ?u = "s\<lparr>st_seq := Suc (st_seq s)\<rparr>"
  let ?c = "env_uuid E (st_seq s)"
  from Suc.prems(1) have c: "?c = [] \<or> session_used (Some ?c) ?u" and rest: "draw_session n E ?u = (t, Inr None)"
    by (auto simp: res_simps split: if_splits)
  have used: "session_used sid ?u = session_used sid s" for sid by (simp add: session_used_def)
  show ?case
  proof (cases k)
    case 0
    with c used show ?thesis by simp
  next
    case (Suc j)
    with Suc.IH [OF rest, of j] Suc.prems(2) used show ?thesis by simp
  qed
qed simp

lemma draw_session_shape:
  "\<exists>t r. draw_session n E s = (t, Inr r) \<and> st_payments t = st_payments s \<and>
     (\<forall>sid. r = Some sid \<longrightarrow> sid \<noteq> [] \<and> \<not> session_used r s)"
proof (induction n arbitrary: s)
  case (Suc n)
  let ?u = "s\<lparr>st_seq := Suc (st_seq s)\<rparr>"
  have used: "session_used sid ?u = session_used sid s" for sid by (simp add: session_used_def)
  show ?case
    using Suc.IH [of ?u] used by (auto simp: bindS_def newId_def readS_def returnS_def)
qed (simp add: returnS_def)

lemma used_sessions: "session_used (Some sid) s \<Longrightarrow> Some sid \<in> p_activeSessionId ` set (st_payments s)"
  by (auto simp: session_used_def list_ex_iff intro: rev_image_eqI)

text \<open>
  C38: the loop that draws a session identifier ends, and what it returns is not empty and is not the
  session of any payment that is not resolved. It ends after at most two rounds more than there are
  payments.
\<close>

theorem generateActiveSessionId_returns:
  assumes "inj (env_uuid E)"
  shows "\<exists>t sid. generateActiveSessionId E s = (t, Inr (Some sid)) \<and> sid \<noteq> [] \<and>
    \<not> session_used (Some sid) s \<and> st_payments t = st_payments s"
proof -
  let ?n = "length (st_payments s) + 2"
  obtain t r where run: "draw_session ?n E s = (t, Inr r)" "st_payments t = st_payments s"
    "\<forall>sid. r = Some sid \<longrightarrow> sid \<noteq> [] \<and> \<not> session_used r s"
    using draw_session_shape [of ?n E s] by blast
  have "r \<noteq> None"
  proof
    assume "r = None"
    let ?draws = "(\<lambda>k. Some (env_uuid E (st_seq s + k))) ` {..<?n}"
    let ?taken = "insert (Some []) (p_activeSessionId ` set (st_payments s))"
    have "?draws \<subseteq> ?taken"
      using draw_session_fails [of ?n E s t] run(1) \<open>r = None\<close> used_sessions by fastforce
    then have "card ?draws \<le> card ?taken" by (intro card_mono) auto
    also have "\<dots> \<le> Suc (length (st_payments s))"
      using card_image_le [of "set (st_payments s)" p_activeSessionId] card_length [of "st_payments s"]
      by (intro card_insert_le_m1) auto
    finally have "card ?draws \<le> Suc (length (st_payments s))" .
    moreover have "inj_on (\<lambda>k. Some (env_uuid E (st_seq s + k))) {..<?n}"
      by (rule inj_onI) (simp add: inj_eq [OF assms])
    then have "card ?draws = ?n" by (simp only: card_image card_lessThan)
    ultimately show False by simp
  qed
  with run show ?thesis unfolding generateActiveSessionId_def by blast
qed

theorem generateActiveSessionId_returns_witness:
  "\<exists>t sid. generateActiveSessionId (sample_env OS_WAITING) sample_created = (t, Inr (Some sid)) \<and>
     sid \<noteq> [] \<and> \<not> session_used (Some sid) sample_created"
  using generateActiveSessionId_returns [OF sample_env_inj, of OS_WAITING sample_created] by blast

section \<open>Billing payments\<close>

text \<open>
  A billing payment is never created. The payment is built without a billing address, and taking
  the snapshot of the address throws, so that no call returns and no payment, order or operation is
  written.
\<close>

lemma createBillingPayment_throws:
  "\<exists>t e. createBillingPayment E params s = (t, Inl e) \<and> st_payments t = st_payments s \<and>
     st_operations t = st_operations s \<and> st_orders t = st_orders s"
proof -
  let ?same = "\<lambda>t. st_payments t = st_payments s \<and> st_operations t = st_operations s \<and> st_orders t = st_orders s"
  have address: "triple ?same (bindS (applyAccountSnapshot E (billing_row E params tax))
      (\<lambda>p. bindS (applyAddressSnapshot E p) f)) (\<lambda>_ _. False) ?same"
    for tax and f :: "payment_row \<Rightarrow> (store, payment_row) act"
    by (rule tripleI)
      (auto simp: res_simps applyAccountSnapshot_def applyAddressSnapshot_def billing_row_def new_payment_def)
  have "triple ?same (createBillingPayment E params) (\<lambda>_ _. False) ?same"
    unfolding createBillingPayment_def
    by (rule triple_bind, rule triple_bind, rule triple_bind_keep, unfold applyItemSellerSnapshots_def
        seller_snapshot_def, intro preserves, simp, simp, rule triple_bind, rule address) auto
  from tripleD [OF this] show ?thesis
    by (cases "createBillingPayment E params s"; cases "snd (createBillingPayment E params s)") fastforce+
qed

section \<open>Refund payments\<close>

text \<open>
  C16: a refund request has one refund payment. When the request's payment exists, creating it again,
  after a crash or for a retry, creates no payment: it returns that payment, or throws.
\<close>

theorem createRefundPayment_once:
  assumes "createRefundPayment E C req s = (t, r)" and "refund_payment_of (rr_id req) s = Some p"
  shows "st_payments t = st_payments s \<and> (\<forall>q. r = Inr q \<longrightarrow> q = p)"
proof -
  let ?V = "st_payments s"
  let ?P = "\<lambda>u. st_payments u = ?V"
  have found: "refund_payment_of (rr_id req) u = Some p" if "?P u" for u
    using that assms(2) by (simp add: refund_payment_of_def)
  have book: "triple ?P (book_refund E req None) (\<lambda>x u. ?P u \<and> fst x = p) ?P"
    unfolding book_refund_def
    by (rule triple_transactionS, intro triple_bind triple_last) (auto dest: found)
  have skip: "triple ?P (if existing = None then m else returnS None) (\<lambda>x u. ?P u \<and> x = None) ?P"
    if "existing = Some p" for existing and m :: "(store, (refund_plan list \<times> draft) option) act"
    using that by (auto intro: triple_last)
  have "triple ?P (createRefundPayment E C req) (\<lambda>q u. ?P u \<and> q = p) ?P"
    unfolding createRefundPayment_def
    by (intro triple_bind triple_prod, rule triple_bindS [OF skip], force dest: found, rule triple_pure,
        simp only:, rule triple_bindS [OF book], rule triple_pure,
        intro triple_prod triple_bind triple_bind_keep [OF same_payments.keep_start_refund] triple_last)
      auto
  from tripleD [OF this _ assms(1)] show ?thesis by (cases r) simp_all
qed

definition sample_request :: refund_request_row where
  "sample_request =
     \<lparr>rr_id = ''q'', rr_idempotencyKey = None, rr_channelRefundPlan = None, rr_paymentId = ''p'',
      rr_status = RR_PENDING, rr_items = [], rr_requestedByAccountId = ''customer'',
      rr_requestedByPaymentAccountId = Some ''customer'', rr_requestedToPaymentAccountId = None,
      rr_currency = Some ''TRY'', rr_reasonKeys = None, rr_requestNote = None,
      rr_resolutionNote = None, rr_resolvedByAccountId = None, rr_createdAt = 0, rr_updatedAt = 0\<rparr>"

definition sample_refunding :: store where
  "sample_refunding = sample_store\<lparr>
     st_payments := [sample_payment ''p'' PURCHASE PS_COMPLETED 100,
       (sample_payment ''r'' REFUND PS_WAITING 0)\<lparr>p_refundRequestId := Some ''q''\<rparr>],
     st_refundRequests := [sample_request]\<rparr>"

lemma sample_refunding_run:
  "isl (snd (createRefundPayment (sample_env OS_COMPLETED) sample_catalog sample_request sample_refunding)) = False"
  by code_simp

theorem createRefundPayment_once_witness:
  "\<exists>t q. createRefundPayment (sample_env OS_COMPLETED) sample_catalog sample_request sample_refunding = (t, Inr q) \<and>
     p_id q = ''r'' \<and> st_payments t = st_payments sample_refunding"
proof -
  obtain t r where run: "createRefundPayment (sample_env OS_COMPLETED) sample_catalog sample_request sample_refunding = (t, r)"
    by (rule prod.exhaust)
  from sample_refunding_run obtain q where q: "r = Inr q" unfolding run by (cases r) auto
  have "refund_payment_of (rr_id sample_request) sample_refunding =
      Some ((sample_payment ''r'' REFUND PS_WAITING 0)\<lparr>p_refundRequestId := Some ''q''\<rparr>)"
    by (simp add: refund_payment_of_def sample_refunding_def sample_request_def sample_payment_def)
  from createRefundPayment_once [OF run this] run q show ?thesis by (auto simp: sample_payment_def)
qed

section \<open>Confirming an open payment\<close>

lemma closed_orders:
  "d \<in> set (st_orders (closeOpenPaymentOrders pid u)) \<Longrightarrow> so_paymentId d = pid \<Longrightarrow> \<not> so_openPayment d"
proof -
  assume d: "d \<in> set (st_orders (closeOpenPaymentOrders pid u))" and pid: "so_paymentId d = pid"
  have orders: "st_orders (closeOpenPaymentOrders pid u) =
      map (\<lambda>r. if so_paymentId r = pid then r\<lparr>so_openPayment := False\<rparr> else r) (st_orders u)"
    by (simp add: closeOpenPaymentOrders_def)
  from d obtain r :: seller_order_row
    where r: "d = (if so_paymentId r = pid then r\<lparr>so_openPayment := False\<rparr> else r)"
    unfolding orders set_map by (rule imageE)
  show "\<not> so_openPayment d"
    using pid unfolding r by (cases "so_paymentId r = pid") simp_all
qed

text \<open>
  C17: an open payment is completed by its customer or by one of its sellers, once. A confirmation
  that returns found the payment open and waiting and the caller entitled; afterwards the payment is
  completed and closed, none of its orders is open, and every further confirmation is refused.
\<close>

theorem confirmOpenPayment_once:
  assumes "confirmOpenPayment E pid seller s = (t, Inr q)"
  shows "\<exists>p. find_payment s pid = Some p \<and> p_openPayment p \<and> p_paymentStatus p = PS_WAITING \<and>
    (p_customerAccountId p = Some seller \<or>
      (\<exists>i \<in> set (items_of s pid). i_sellerAccountId i = Some seller)) \<and>
    find_payment t pid = Some (payment_columns (env_big E)
      (p\<lparr>p_paymentStatus := PS_COMPLETED, p_openPayment := False\<rparr>)) \<and>
    (\<forall>d \<in> set (st_orders t). so_paymentId d = pid \<longrightarrow> \<not> so_openPayment d) \<and>
    (\<forall>E' seller'. confirmOpenPayment E' pid seller' t =
      (t, Inl (BadRequest ''This payment is not an open payment'')))"
proof -
  let ?B = "env_big E"
  let ?closed = "\<lambda>p. p\<lparr>p_paymentStatus := PS_COMPLETED, p_openPayment := False\<rparr>"
  from assms obtain p :: payment_row and u and x :: unit where
    p: "find_payment s pid = Some p" "p_openPayment p" "p_paymentStatus p = PS_WAITING"
      "p_customerAccountId p = Some seller \<or> list_ex (\<lambda>i. i_sellerAccountId i = Some seller) (items_of s pid)"
    and run: "(if p_includeInReportDigestion p
        then bindS (emit (EvDigestionInsert pid)) (\<lambda>_. send_webhooks p (items_of s pid)) else returnS ())
      (save_payment ?B (?closed p) (closeOpenPaymentOrders pid u)) = (t, Inr x)"
    unfolding confirmOpenPayment_def Let_def by (auto simp: res_simps)
  let ?saved = "save_payment ?B (?closed p) (closeOpenPaymentOrders pid u)"
  from run have rows: "st_payments t = st_payments ?saved" "st_orders t = st_orders ?saved"
    by (auto simp: res_simps send_webhooks_log split: if_splits)
  have id: "p_id (?closed p) = pid" using find_payment_in [OF p(1)] by simp
  have found: "find_payment t pid = Some (payment_columns ?B (?closed p))"
    using find_save_payment [of ?B "?closed p" "closeOpenPaymentOrders pid u" pid] id
    by (simp add: find_payment_def rows(1))
  have "\<forall>d \<in> set (st_orders t). so_paymentId d = pid \<longrightarrow> \<not> so_openPayment d"
    unfolding rows(2) save_other_tables by (blast dest: closed_orders)
  moreover have "confirmOpenPayment E' pid seller' t = (t, Inl (BadRequest ''This payment is not an open payment''))"
    for E' seller'
    unfolding confirmOpenPayment_def bindS_def readS_def guardS_def throwS_def liftS_def
    by (simp add: found payment_columns_def)
  ultimately show ?thesis
    using p found unfolding list_ex_iff by (intro exI [of _ p] conjI) auto
qed

definition sample_open :: store where
  "sample_open = sample_store\<lparr>st_payments :=
     [(sample_payment ''p'' PURCHASE PS_WAITING 1)\<lparr>p_openPayment := True\<rparr>]\<rparr>"

lemma sample_open_run: "isl (snd (confirmOpenPayment (sample_env OS_WAITING) ''p'' ''customer'' sample_open)) = False"
  by code_simp

theorem confirmOpenPayment_once_witness:
  "\<exists>t p. confirmOpenPayment (sample_env OS_WAITING) ''p'' ''customer'' sample_open = (t, Inr p) \<and>
     isl (snd (confirmOpenPayment (sample_env OS_WAITING) ''p'' ''customer'' t))"
proof -
  obtain t r where run: "confirmOpenPayment (sample_env OS_WAITING) ''p'' ''customer'' sample_open = (t, r)"
    by (rule prod.exhaust)
  from sample_open_run obtain q where q: "r = Inr q" unfolding run by (cases r) auto
  from confirmOpenPayment_once [OF run [unfolded q]] have
    "\<forall>E' seller'. confirmOpenPayment E' ''p'' seller' t =
       (t, Inl (BadRequest ''This payment is not an open payment''))" by blast
  with run q show ?thesis by simp
qed

end
