(* ===== verification/Payment_Completion.thy ===== *)
theory Payment_Completion
  imports Payment_Lifecycle
begin

text \<open>
  What the completion of a payment does: it fires the authorised operations, books, and notifies;
  and what is left when one of the channels refuses to fire.
\<close>

section \<open>Firing the authorised operations\<close>

definition operation_ids :: "store \<Rightarrow> string list" where
  "operation_ids s = map op_id (st_operations s)"

lemma book_rounding_operations:
  "preserves (\<lambda>s. st_operations s = W) (book_rounding E operation plan pid item difference)"
  unfolding book_rounding_def by (intro preserves) (auto simp: booked_def Let_def)

lemma settle_loop_operations:
  "preserves (\<lambda>s. st_operations s = W) (foldS (settle_line E operation plan pid) settled settlements)"
  unfolding settle_line_def by (intro preserves book_rounding_operations)

text \<open>Recording a channel's answer writes one operation, the one it is about.\<close>

lemma record_written:
  assumes "savePaymentChannelRecord E record result pid s = (t, Inr x)"
  shows "\<exists>r. st_operations t = upsert op_id r (st_operations s) \<and> op_id r = op_id record \<and>
    op_status r = cs_paymentStatus result"
proof (cases "op_operationType record = REFUND \<and> op_refundPlan record \<noteq> None")
  case False
  with assms show ?thesis
    by (auto simp: savePaymentChannelRecord_def res_simps Let_def save_operation_def fee_columns_def
        operation_columns_def)
next
  case True
  with assms have "saveRefundSettlementRecord E record result pid s = (t, Inr x)"
    by (simp add: savePaymentChannelRecord_def)
  then obtain operation :: channel_operation_row and plan settlements settled u settled' where
    operation: "find_operation s (op_id record) = Some operation"
    and loop: "foldS (settle_line E operation plan pid) settled settlements s = (u, Inr settled')"
    and t: "t = save_operation (env_big E) ((fee_columns (st_settings s) result operation)
         \<lparr>op_operationId := cs_paymentChannelOperationId result,
          op_status := cs_paymentStatus result, op_settledRefundItemIds := Some settled'\<rparr>) u"
    unfolding saveRefundSettlementRecord_def Let_def
    by (auto simp: res_simps)
  have "st_operations u = st_operations s"
    using preservesD [OF settle_loop_operations _ loop] by simp
  then show ?thesis
    using find_operation_in [OF operation]
    by (auto simp: t save_operation_def fee_columns_def operation_columns_def)
qed

lemma fire_written:
  assumes "fire_operation E x s = (t, Inr ())"
  shows "\<exists>r. st_operations t = upsert op_id r (st_operations s) \<and> op_id r = op_id x \<and>
    op_status r = OS_COMPLETED"
  using assms record_written
  by (fastforce simp: fire_operation_def res_simps)

lemma fire_loop:
  "forS xs (fire_operation E) s = (t, Inr ()) \<Longrightarrow> distinct (operation_ids s) \<Longrightarrow>
     r \<in> set (st_operations t) \<Longrightarrow> op_status r = OS_READY \<Longrightarrow>
     r \<in> set (st_operations s) \<and> op_id r \<notin> op_id ` set xs"
proof (induction xs arbitrary: s)
  case (Cons x xs)
  then obtain u where u: "fire_operation E x s = (u, Inr ())" "forS xs (fire_operation E) u = (t, Inr ())"
    by (auto simp: res_simps)
  from fire_written [OF u(1)] obtain y :: channel_operation_row where
    y: "st_operations u = upsert op_id y (st_operations s)" "op_id y = op_id x" "op_status y = OS_COMPLETED"
    by blast
  have d: "distinct (map op_id (st_operations s))" using Cons.prems(2) by (simp add: operation_ids_def)
  then have "distinct (operation_ids u)" by (simp add: operation_ids_def y(1) distinct_upsert)
  from Cons.IH [OF u(2) this Cons.prems(3,4)] Cons.prems(4) y show ?case
    by (auto simp: set_upsert_distinct [OF d])
qed (auto simp: returnS_def)

lemma ids_save_operation: "distinct (operation_ids s) \<Longrightarrow> distinct (operation_ids (save_operation B r s))"
  by (simp add: operation_ids_def save_operation_def distinct_upsert)

lemma ids_other:
  "distinct (operation_ids s) \<Longrightarrow> distinct (operation_ids (s\<lparr>st_log := l\<rparr>))"
  "distinct (operation_ids s) \<Longrightarrow> distinct (operation_ids (s\<lparr>st_seq := n\<rparr>))"
  "distinct (operation_ids s) \<Longrightarrow> distinct (operation_ids (booked E operation pid item difference c r k i j s))"
  by (simp_all add: operation_ids_def booked_def Let_def)

lemma check_operations_ids:
  "preserves (\<lambda>s. distinct (operation_ids s)) (checkAndUpdateOperationStatuses E pid)"
  unfolding checkAndUpdateOperationStatuses_def checkAndUpdateOperationStatusesRaw_def check_operation_def
    savePaymentChannelRecord_def saveRefundSettlementRecord_def settle_line_def book_rounding_def
  by (intro preserves ids_save_operation ids_other)

lemma ledger_operations:
  "preserves (\<lambda>s. st_operations s = W) (generateSellerPaymentOrders E payment items)"
  "preserves (\<lambda>s. st_operations s = W) (fromPayment E full rows managed)"
  unfolding generateSellerPaymentOrders_def addSellerPaymentOrders_def addTransaction_def fromPayment_def
    save_dtos_def createNew_def save_dto_def
  by (intro preserves; simp add: deleteOldTransactions_def)+

lemma completed_log:
  assumes "onPaymentCompleted E payment s = (t, Inr x)"
  shows "\<exists>l. st_log t = l @ [EvDigestionInsert (p_id payment), EvPaymentCompleted (p_id payment)] @
      map (\<lambda>a. EvWebhook a (p_id payment)) (webhook_accounts payment (items_of t (p_id payment)))"
    and "st_operations t = st_operations s" "st_payments t = st_payments s"
proof -
  from assms obtain u full where u: "postPaymentOperation E payment s = (u, Inr ())"
      "find_payment u (p_id payment) = Some full"
    and t: "t = u\<lparr>st_log := st_log u @ [EvDigestionInsert (p_id full), EvPaymentCompleted (p_id full)] @
      map (\<lambda>a. EvWebhook a (p_id payment)) (webhook_accounts payment (items_of u (p_id payment)))\<rparr>"
    unfolding onPaymentCompleted_def by (auto simp: res_simps send_webhooks_log)
  have "p_id full = p_id payment" using find_payment_in [OF u(2)] by simp
  then show "\<exists>l. st_log t = l @ [EvDigestionInsert (p_id payment), EvPaymentCompleted (p_id payment)] @
      map (\<lambda>a. EvWebhook a (p_id payment)) (webhook_accounts payment (items_of t (p_id payment)))"
    by (simp add: t items_of_def)
  have "preserves (\<lambda>s. st_operations s = W) (postPaymentOperation E payment)" for W
    unfolding postPaymentOperation_def by (intro preserves ledger_operations)
  from preservesD [OF this _ u(1)] show "st_operations t = st_operations s" by (simp add: t)
  from preservesD [OF same_payments.keep_completion(1) _ u(1)] show "st_payments t = st_payments s"
    by (simp add: t)
qed

text \<open>An update of an unresolved payment, after the channels were asked.\<close>

definition complete_payment :: "env \<Rightarrow> payment_row \<Rightarrow> (store, payment_row) act" where
  "complete_payment E p =
     (let q = p\<lparr>p_paymentStatus := PS_COMPLETED\<rparr> in
      bindS (modifyS (save_payment (env_big E) q)) (\<lambda>_.
      bindS (firePaymentOperationsByPaymentId E (p_id p)) (\<lambda>_.
      bindS (onPaymentCompleted E q) (\<lambda>_. stream E q))))"

lemma update_run:
  assumes "find_payment s pid = Some p" "unresolved p"
    and "if check then checkAndUpdateOperationStatuses E pid s = (u, Inr ()) else u = s"
  shows "updatePaymentByOperationStatuses E pid check s =
    (if \<not> p_openPayment p \<and> p_totalAmount p \<le> totalPaidOrAuthorizedOf E pid u then complete_payment E p u
     else bindS (settle_unpaid E p) (\<lambda>q. bindS (modifyS (save_payment (env_big E) q)) (\<lambda>_. stream E q)) u)"
  using assms find_payment_in [OF assms(1)]
  by (auto simp: updatePaymentByOperationStatuses_def run_simps complete_payment_def Let_def)

lemma update_checked:
  assumes "updatePaymentByOperationStatuses E pid check s = (t, Inr q)"
    and "find_payment s pid = Some p" "unresolved p"
  obtains u where "if check then checkAndUpdateOperationStatuses E pid s = (u, Inr ()) else u = s"
proof (cases check)
  case True
  with assms obtain u x where "checkAndUpdateOperationStatuses E pid s = (u, Inr x)"
    by (auto simp: updatePaymentByOperationStatuses_def res_simps)
  with True that show ?thesis by simp
qed (use that in simp)

lemma settle_unpaid_not_completed:
  "settle_unpaid E p s = (t, Inr q) \<Longrightarrow> unresolved p \<Longrightarrow> p_paymentStatus q \<noteq> PS_COMPLETED"
  by (auto simp: settle_unpaid_def res_simps unresolved_def split: if_splits)

section \<open>What a completed payment has\<close>

text \<open>
  C14: a payment that an update completes was not open and was covered, after the channels had been
  asked, by its authorised and captured amounts. When the update returns, the payment is stored as
  completed, none of its channel operations is left authorised only (all were fired), and the last
  messages sent are the one for the reports, the completion event, one webhook for each account
  concerned, and the state for the payment's stream.
\<close>

theorem completion_fires_and_notifies:
  assumes "updatePaymentByOperationStatuses E pid check s = (t, Inr q)"
    and "find_payment s pid = Some p" and "unresolved p" and "p_paymentStatus q = PS_COMPLETED"
    and "distinct (operation_ids s)"
  shows "\<not> p_openPayment p \<and>
    (\<exists>u. (if check then checkAndUpdateOperationStatuses E pid s = (u, Inr ()) else u = s) \<and>
       p_totalAmount p \<le> totalPaidOrAuthorizedOf E pid u) \<and>
    find_payment t pid = Some (payment_columns (env_big E) q) \<and>
    operations_with t pid {OS_READY} = [] \<and>
    (\<exists>l. st_log t = l @ [EvDigestionInsert pid, EvPaymentCompleted pid] @
       map (\<lambda>a. EvWebhook a pid) (webhook_accounts q (items_of t pid)) @ [EvPaymentStream pid PS_COMPLETED])"
proof -
  let ?B = "env_big E"
  let ?paid = "p\<lparr>p_paymentStatus := PS_COMPLETED\<rparr>"
  have pid: "p_id p = pid" using find_payment_in [OF assms(2)] by simp
  obtain u where u: "if check then checkAndUpdateOperationStatuses E pid s = (u, Inr ()) else u = s"
    by (rule update_checked [OF assms(1-3)])
  note run = update_run [OF assms(2,3) u]
  have paid: "\<not> p_openPayment p \<and> p_totalAmount p \<le> totalPaidOrAuthorizedOf E pid u"
  proof (rule ccontr)
    assume "\<not> ?thesis"
    with run assms(1) have "bindS (settle_unpaid E p) (\<lambda>q. bindS (modifyS (save_payment ?B q)) (\<lambda>_. stream E q)) u = (t, Inr q)"
      by (simp only: if_False)
    then show False using assms(3,4) by (auto simp: res_simps stream_def dest: settle_unpaid_not_completed)
  qed
  with run assms(1) have complete: "complete_payment E p u = (t, Inr q)" by simp
  let ?v = "save_payment ?B ?paid u"
  from complete obtain w w' x where w: "firePaymentOperationsByPaymentId E pid ?v = (w, Inr ())"
    and w': "onPaymentCompleted E ?paid w = (w', Inr x)"
    and t: "t = w'\<lparr>st_log := st_log w' @ [EvPaymentStream pid PS_COMPLETED]\<rparr>" "q = ?paid"
    by (auto simp: complete_payment_def Let_def res_simps stream_def pid)
  note after = completed_log [OF w']
  have fire: "forS (operations_with ?v pid {OS_READY}) (fire_operation E) ?v = (w, Inr ())"
    using w by (auto simp: firePaymentOperationsByPaymentId_def res_simps)
  have "distinct (operation_ids u)"
    using u assms(5) preservesD [OF check_operations_ids] by (cases check) auto
  then have ids: "distinct (operation_ids ?v)" by (simp add: operation_ids_def)
  have "operations_with t pid {OS_READY} = []"
    using fire_loop [OF fire ids] by (fastforce simp: operations_with_def filter_empty_conv t after(2))
  moreover have "find_payment t pid = Some (payment_columns ?B q)"
  proof -
    have "st_payments w = st_payments ?v"
      using preservesD [OF same_payments.keep_fire _ w] by simp
    then have "st_payments t = st_payments ?v" by (simp add: t after(3))
    then have "find_payment t pid = find_payment ?v pid" by (simp add: find_payment_def)
    with pid show ?thesis by (simp add: find_save_payment t)
  qed
  moreover obtain l where "st_log w' = l @ [EvDigestionInsert pid, EvPaymentCompleted pid] @
      map (\<lambda>a. EvWebhook a pid) (webhook_accounts ?paid (items_of w' pid))"
    using after(1) pid by auto
  then have "\<exists>l. st_log t = l @ [EvDigestionInsert pid, EvPaymentCompleted pid] @
      map (\<lambda>a. EvWebhook a pid) (webhook_accounts q (items_of t pid)) @ [EvPaymentStream pid PS_COMPLETED]"
    by (auto simp: t items_of_def)
  ultimately show ?thesis using u paid by blast
qed

definition sample_paying :: store where
  "sample_paying = sample_store\<lparr>st_payments := [sample_payment ''p'' PURCHASE PS_WAITING 1],
     st_operations := [sample_operation ''a'' ''p'' PURCHASE OS_WAITING 1]\<rparr>"

lemma sample_paying_run:
  "case snd (updatePaymentByOperationStatuses (sample_env OS_COMPLETED) ''p'' True sample_paying) of
     Inl e \<Rightarrow> False | Inr q \<Rightarrow> p_paymentStatus q = PS_COMPLETED"
  by code_simp

theorem completion_fires_and_notifies_witness:
  "\<exists>t q l. updatePaymentByOperationStatuses (sample_env OS_COMPLETED) ''p'' True sample_paying = (t, Inr q) \<and>
     operations_with t ''p'' {OS_READY} = [] \<and> st_log t = l @ [EvPaymentStream ''p'' PS_COMPLETED]"
proof -
  let ?E = "sample_env OS_COMPLETED"
  obtain t r where run: "updatePaymentByOperationStatuses ?E ''p'' True sample_paying = (t, r)"
    by (rule prod.exhaust)
  from sample_paying_run obtain q where q: "r = Inr q" "p_paymentStatus q = PS_COMPLETED"
    unfolding run by (cases r) auto
  have p: "find_payment sample_paying ''p'' = Some (sample_payment ''p'' PURCHASE PS_WAITING 1)"
    "unresolved (sample_payment ''p'' PURCHASE PS_WAITING 1)" "distinct (operation_ids sample_paying)"
    by (simp_all add: find_payment_def by_key_def sample_paying_def sample_payment_def unresolved_def
        operation_ids_def)
  from completion_fires_and_notifies [OF run [unfolded q(1)] p(1,2) q(2) p(3)] obtain l where
    "operations_with t ''p'' {OS_READY} = []"
    "st_log t = (l @ [EvDigestionInsert ''p'', EvPaymentCompleted ''p''] @
       map (\<lambda>a. EvWebhook a ''p'') (webhook_accounts q (items_of t ''p''))) @ [EvPaymentStream ''p'' PS_COMPLETED]"
    by auto
  with run q show ?thesis by blast
qed

section \<open>A channel that refuses to fire\<close>

text \<open>
  C36: the completion is not repeated. The payment is stored as completed before its operations are
  fired; when firing then throws, the update throws with the payment completed and without its seller
  orders, and every later update of the payment returns at once, so that the orders, the account
  entries and the notifications of the payment are never made.
\<close>

theorem completion_not_retried:
  assumes "find_payment s pid = Some p" and "unresolved p" and "\<not> p_openPayment p"
    and "p_totalAmount p \<le> totalPaidOrAuthorizedOf E pid s"
    and "firePaymentOperationsByPaymentId E pid
      (save_payment (env_big E) (p\<lparr>p_paymentStatus := PS_COMPLETED\<rparr>) s) = (t, Inl e)"
  shows "updatePaymentByOperationStatuses E pid False s = (t, Inl e) \<and> st_orders t = st_orders s \<and>
    (\<exists>q. find_payment t pid = Some q \<and> p_paymentStatus q = PS_COMPLETED \<and>
       (\<forall>E' check. updatePaymentByOperationStatuses E' pid check t = (t, Inr q)))"
proof -
  let ?B = "env_big E"
  let ?paid = "p\<lparr>p_paymentStatus := PS_COMPLETED\<rparr>"
  have pid: "p_id p = pid" using find_payment_in [OF assms(1)] by simp
  have "updatePaymentByOperationStatuses E pid False s = complete_payment E p s"
    using update_run [OF assms(1,2), of False E s] assms(3,4) by simp
  then have run: "updatePaymentByOperationStatuses E pid False s = (t, Inl e)"
    using assms(5) by (simp add: complete_payment_def Let_def bindS_def modifyS_def pid)
  have "st_payments t = st_payments (save_payment ?B ?paid s)"
    using preservesD [OF same_payments.keep_fire _ assms(5)] by simp
  then have found: "find_payment t pid = Some (payment_columns ?B ?paid)"
    using find_save_payment [of ?B ?paid s pid] pid by (simp add: find_payment_def)
  have "preserves (\<lambda>s. st_orders s = W) (firePaymentOperationsByPaymentId E pid)" for W
    unfolding firePaymentOperationsByPaymentId_def fire_operation_def savePaymentChannelRecord_def
      saveRefundSettlementRecord_def settle_line_def book_rounding_def
    by (intro preserves) (simp_all add: booked_def Let_def)
  from preservesD [OF this _ assms(5)] have orders: "st_orders t = st_orders s" by simp
  have "updatePaymentByOperationStatuses E' pid check t = (t, Inr (payment_columns ?B ?paid))" for E' check
    using found by (simp add: updatePaymentByOperationStatuses_def run_simps unresolved_def payment_columns_def)
  with run orders found show ?thesis
    by (intro conjI exI [of _ "payment_columns ?B ?paid"]) (simp_all add: payment_columns_def)
qed

text \<open>The authorised operation of a payment of 1 cannot be captured: the channel answers \<open>FAILED\<close>.\<close>

definition sample_authorised :: store where
  "sample_authorised = sample_store\<lparr>st_payments := [sample_payment ''p'' PURCHASE PS_WAITING 1],
     st_operations := [sample_operation ''a'' ''p'' PURCHASE OS_READY 1]\<rparr>"

lemma sample_refused_fire:
  "isl (snd (firePaymentOperationsByPaymentId (sample_env OS_FAILED) ''p''
     (save_payment exact_bigjs ((sample_payment ''p'' PURCHASE PS_WAITING 1)\<lparr>p_paymentStatus := PS_COMPLETED\<rparr>)
       sample_authorised)))"
  by code_simp

theorem completion_not_retried_witness:
  "\<exists>t e q. updatePaymentByOperationStatuses (sample_env OS_FAILED) ''p'' False sample_authorised = (t, Inl e) \<and>
     updatePaymentByOperationStatuses (sample_env OS_COMPLETED) ''p'' True t = (t, Inr q) \<and> st_orders t = []"
proof -
  let ?E = "sample_env OS_FAILED"
  let ?p = "sample_payment ''p'' PURCHASE PS_WAITING 1"
  obtain t r where run: "firePaymentOperationsByPaymentId ?E ''p''
      (save_payment (env_big ?E) (?p\<lparr>p_paymentStatus := PS_COMPLETED\<rparr>) sample_authorised) = (t, r)"
    by (rule prod.exhaust)
  from sample_refused_fire run obtain e where e: "r = Inl e" by (cases r) auto
  have p: "find_payment sample_authorised ''p'' = Some ?p" "unresolved ?p" "\<not> p_openPayment ?p"
    by (simp_all add: find_payment_def by_key_def sample_authorised_def sample_payment_def unresolved_def)
  have paid: "p_totalAmount ?p \<le> totalPaidOrAuthorizedOf ?E ''p'' sample_authorised"
    by (simp add: totalPaidOrAuthorizedOf_def operations_with_def sample_authorised_def sample_operation_def
        new_operation_def sample_payment_def)
  have "st_orders sample_authorised = []" by (simp add: sample_authorised_def sample_store_def)
  with completion_not_retried [OF p paid run [unfolded e]] show ?thesis by auto
qed

end
