(* ===== verification/Refunds.thy ===== *)
theory Refunds
  imports Payments
begin

text \<open>
  \<open>refund.service.ts\<close>: refund requests, their reservation of the quantities bought, their approval
  with a lease on the purchase, and their rejection. Each database transaction is a definition of its
  own, since other calls may run between them. A DTO returned repeats the row; the accounts a user
  owns come from the authorisation service and are a parameter.
\<close>

section \<open>Input\<close>

record refund_input =
  fi_paymentItemId :: string
  fi_refundCount :: rat

record create_refund =
  cr_paymentId :: string
  cr_items :: "refund_input list"
  cr_reasonKeys :: "refund_reason_key list"
  cr_requestNote :: "string option"

definition validateRefundReasons :: "refund_reason_key list \<Rightarrow> unit res" where
  "validateRefundReasons keys =
     throwIf (keys = [] \<or> list_ex (\<lambda>k. case k of UNKNOWN_REASON _ \<Rightarrow> True | _ \<Rightarrow> False) keys)
       (BadRequest ''At least one valid refund reason is required'')"

definition validateNote :: "string option \<Rightarrow> unit res" where
  "validateNote note =
     throwIf (case note of None \<Rightarrow> False | Some s \<Rightarrow> length s > 10000)
       (BadRequest ''Refund notes cannot exceed 10000 characters'')"

text \<open>A count has at most four decimals when rounding it to four gives it back.\<close>

definition bad_input :: "bigjs \<Rightarrow> refund_input \<Rightarrow> bool" where
  "bad_input B i \<longleftrightarrow> blank (fi_paymentItemId i) \<or> fi_refundCount i \<le> 0 \<or>
     big_num B (big_round B 4 1 (fi_refundCount i)) \<noteq> fi_refundCount i"

definition validateItemInput :: "bigjs \<Rightarrow> refund_input list \<Rightarrow> unit res" where
  "validateItemInput B items =
     bindE (throwIf (items = []) (BadRequest ''At least one refund item is required'')) (\<lambda>_.
     throwIf (list_ex (bad_input B) items \<or> \<not> distinct (map fi_paymentItemId items))
       (BadRequest ''Refund items must have unique payment item IDs and positive finite quantities''))"

definition inputs_of :: "refund_request_row \<Rightarrow> refund_input list" where
  "inputs_of r = map (\<lambda>i. \<lparr>fi_paymentItemId = ri_paymentItemId i, fi_refundCount = ri_refundCount i\<rparr>) (rr_items r)"

section \<open>Checks against the payment\<close>

definition assertPaymentIsRefundable :: "payment_row \<Rightarrow> unit res" where
  "assertPaymentIsRefundable p =
     bindE (throwIf (truthy (p_externalPlatformId p))
       (BadRequest ''External platform refunds are not supported yet'')) (\<lambda>_.
     bindE (throwIf (p_type p \<noteq> PURCHASE) (BadRequest ''Only PURCHASE payments can be refunded'')) (\<lambda>_.
     throwIf (p_paymentStatus p \<noteq> PS_COMPLETED) (BadRequest ''Can only refund completed payments'')))"

definition assertPendingRefundRequest :: "refund_request_row \<Rightarrow> unit res" where
  "assertPendingRefundRequest r =
     throwIf (rr_status r \<noteq> RR_PENDING) (BadRequest ''Refund request is not in PENDING state'')"

text \<open>\<open>getPaymentItemForRefundRequest\<close> with \<open>getPaymentItemOrThrow\<close>.\<close>

definition getPaymentItem :: "item_row list \<Rightarrow> string \<Rightarrow> item_row res" where
  "getPaymentItem items i =
     of_option (NotFound ''Payment item not found in this payment'') (by_key i_id items i)"

definition check_quantity :: "bigjs \<Rightarrow> item_row list \<Rightarrow> refund_input \<Rightarrow> unit res" where
  "check_quantity B items input =
     bindE (getPaymentItem items (fi_paymentItemId input)) (\<lambda>item.
     throwIf (addN B [i_refundCount item, fi_refundCount input] > i_quantity item)
       (BadRequest ''Cannot refund more than purchased quantity''))"

definition validateRefundItems :: "bigjs \<Rightarrow> item_row list \<Rightarrow> refund_input list \<Rightarrow> unit res" where
  "validateRefundItems B items inputs =
     bindE (validateItemInput B inputs) (\<lambda>_.
     foldE (\<lambda>_ input. check_quantity B items input) () inputs)"

text \<open>A missing seller is \<open>null\<close> when read from the database, which \<open>has(undefined)\<close> does not find.\<close>

definition assertItemsBelongToSingleSeller :: "item_row list \<Rightarrow> refund_input list \<Rightarrow> unit res" where
  "assertItemsBelongToSingleSeller items inputs =
     bindE (mapE (\<lambda>input. bindE (getPaymentItem items (fi_paymentItemId input)) (\<lambda>i.
       Inr (i_sellerAccountId i))) inputs) (\<lambda>sellers.
     throwIf (length (unique sellers) \<noteq> 1 \<or> Some [] \<in> set sellers)
       (BadRequest ''Refund items must belong to the same seller account''))"

definition assertNoApprovalInProgress :: "env \<Rightarrow> payment_row \<Rightarrow> unit res" where
  "assertNoApprovalInProgress E p =
     throwIf (truthy (p_refundApprovalToken p) \<and>
         (case p_refundApprovalExpiresAt p of None \<Rightarrow> False | Some t \<Rightarrow> t > env_now E))
       (Conflict ''Another refund approval is in progress for this payment; retry later'')"

section \<open>Reservations\<close>

definition reservations_of :: "store \<Rightarrow> string \<Rightarrow> refund_request_row list" where
  "reservations_of s pid =
     filter (\<lambda>r. rr_paymentId r = pid \<and> rr_status r \<in> {RR_PENDING, RR_APPROVED}) (st_refundRequests s)"

definition reserved_items :: "refund_request_row list \<Rightarrow> string \<Rightarrow> refund_request_item_row list" where
  "reserved_items reservations i =
     filter (\<lambda>c. ri_paymentItemId c = i) (concat (map rr_items reservations))"

definition check_reservation ::
  "bigjs \<Rightarrow> item_row list \<Rightarrow> refund_request_row list \<Rightarrow> refund_input \<Rightarrow> unit res"
where
  "check_reservation B items pending input =
     bindE (getPaymentItem items (fi_paymentItemId input)) (\<lambda>item.
     let reserved = foldl (\<lambda>acc c. addN B [acc, ri_refundCount c]) 0 (reserved_items pending (i_id item)) in
     throwIf (addN B [i_refundCount item, reserved, fi_refundCount input] > i_quantity item)
       (BadRequest ''Refund quantity is already reserved for item''))"

definition validateNewRefundRequest ::
  "bigjs \<Rightarrow> payment_row \<Rightarrow> item_row list \<Rightarrow> create_refund \<Rightarrow> store \<Rightarrow> refund_request_row list res"
where
  "validateNewRefundRequest B payment items dto s =
     bindE (assertPaymentIsRefundable payment) (\<lambda>_.
     bindE (validateRefundItems B items (cr_items dto)) (\<lambda>_.
     bindE (assertItemsBelongToSingleSeller items (cr_items dto)) (\<lambda>_.
     bindE (validateRefundReasons (cr_reasonKeys dto)) (\<lambda>_.
     bindE (validateNote (cr_requestNote dto)) (\<lambda>_.
     let reservations = reservations_of s (p_id payment);
         pending = filter (\<lambda>r. rr_status r = RR_PENDING) reservations in
     bindE (foldE (\<lambda>_ input. check_reservation B items pending input) () (cr_items dto)) (\<lambda>_.
     Inr reservations))))))"

text \<open>
  The part of an amount that falls to a request: proportional to the count and rounded, or, when the
  request takes what is left of the quantity, the rest of the amount.
\<close>

definition allocateAmount :: "bigjs \<Rightarrow> bool \<Rightarrow> rat \<Rightarrow> rat \<Rightarrow> rat \<Rightarrow> rat list \<Rightarrow> rat" where
  "allocateAmount B isFinalQuantity n quantity amount reservedAmounts =
     (if isFinalQuantity then minusN B amount reservedAmounts
      else big_num B (big_round B 4 1 (big_div B (big_times B amount n) quantity)))"

definition build_item ::
  "bigjs \<Rightarrow> item_row list \<Rightarrow> refund_request_row list \<Rightarrow> refund_input \<Rightarrow> refund_request_item_row res"
where
  "build_item B items reservations input =
     bindE (getPaymentItem items (fi_paymentItemId input)) (\<lambda>original.
     let reserved = reserved_items reservations (i_id original);
         n = fi_refundCount input;
         isFinal = (addN B [addN B (map ri_refundCount reserved), n] = i_quantity original);
         part = allocateAmount B isFinal n (i_quantity original);
         refundAmount = part (i_totalAmount original) (map ri_refundAmount reserved);
         withoutTax = part (i_unTaxAmount original) (map ri_refundAmountWithoutTax reserved) in
     Inr \<lparr>ri_id = [], ri_refundRequestId = [], ri_variation = i_variation original,
          ri_paymentItemId = fi_paymentItemId input, ri_realItemId = i_itemId original,
          ri_refundCount = n, ri_itemName = Some (i_name original),
          ri_unitAmount = Some (i_unitAmount original),
          ri_unitAmountWithoutTax = Some (if i_quantity original > 0
            then js_div B (i_unTaxAmount original) (i_quantity original) else 0),
          ri_refundAmount = refundAmount, ri_refundAmountWithoutTax = withoutTax,
          ri_refundTaxAmount = Some (minusN B refundAmount [withoutTax]),
          ri_itemClass = i_itemClass original,
          ri_appComissionAmount = part (i_appComissionAmount original) (map ri_appComissionAmount reserved),
          ri_appComissionPercent = i_appComissionPercent original\<rparr>)"

definition buildRefundRequestItems ::
  "bigjs \<Rightarrow> item_row list \<Rightarrow> refund_request_row list \<Rightarrow> refund_input list \<Rightarrow>
   refund_request_item_row list res"
where
  "buildRefundRequestItems B items reservations inputs = mapE (build_item B items reservations) inputs"

definition request_row ::
  "env \<Rightarrow> string \<Rightarrow> create_refund \<Rightarrow> payment_row \<Rightarrow> item_row \<Rightarrow> refund_request_item_row list \<Rightarrow>
   refund_request_row"
where
  "request_row E actorId dto payment firstItem rows =
     \<lparr>rr_id = [], rr_idempotencyKey = None, rr_channelRefundPlan = None,
      rr_paymentId = cr_paymentId dto, rr_status = RR_PENDING, rr_items = rows,
      rr_requestedByAccountId = actorId, rr_requestedByPaymentAccountId = p_customerAccountId payment,
      rr_requestedToPaymentAccountId = i_sellerAccountId firstItem,
      rr_currency = Some (p_currency payment), rr_reasonKeys = Some (cr_reasonKeys dto),
      rr_requestNote = cr_requestNote dto, rr_resolutionNote = None, rr_resolvedByAccountId = None,
      rr_createdAt = env_now E, rr_updatedAt = env_now E\<rparr>"

definition buildRefundRequestEntity ::
  "env \<Rightarrow> string \<Rightarrow> create_refund \<Rightarrow> payment_row \<Rightarrow> item_row list \<Rightarrow> refund_request_row list \<Rightarrow>
   refund_request_row res"
where
  "buildRefundRequestEntity E actorId dto payment items reservations =
     bindE (firstE (JsError ''TypeError'') (cr_items dto)) (\<lambda>first.
     bindE (getPaymentItem items (fi_paymentItemId first)) (\<lambda>firstItem.
     bindE (buildRefundRequestItems (env_big E) items reservations (cr_items dto)) (\<lambda>rows.
     Inr (request_row E actorId dto payment firstItem rows))))"

section \<open>Saving\<close>

definition request_item_columns :: "bigjs \<Rightarrow> refund_request_item_row \<Rightarrow> refund_request_item_row" where
  "request_item_columns B i =
     i\<lparr>ri_refundCount := money B (ri_refundCount i),
       ri_unitAmount := map_option (money B) (ri_unitAmount i),
       ri_unitAmountWithoutTax := map_option (money B) (ri_unitAmountWithoutTax i),
       ri_refundAmount := money B (ri_refundAmount i),
       ri_refundAmountWithoutTax := money B (ri_refundAmountWithoutTax i),
       ri_refundTaxAmount := map_option (money B) (ri_refundTaxAmount i),
       ri_appComissionAmount := money B (ri_appComissionAmount i),
       ri_appComissionPercent := money B (ri_appComissionPercent i)\<rparr>"

text \<open>\<open>manager.save\<close> of a new request inserts its items with it.\<close>

definition insert_request_item ::
  "env \<Rightarrow> string \<Rightarrow> refund_request_item_row list \<Rightarrow> refund_request_item_row \<Rightarrow>
   (store, refund_request_item_row list) act"
where
  "insert_request_item E rid acc item =
     bindS (newId E) (\<lambda>i. returnS (acc @ [item\<lparr>ri_id := i, ri_refundRequestId := rid\<rparr>]))"

definition insert_request :: "env \<Rightarrow> refund_request_row \<Rightarrow> (store, refund_request_row) act" where
  "insert_request E r =
     bindS (newId E) (\<lambda>rid.
     bindS (foldS (insert_request_item E rid) [] (rr_items r)) (\<lambda>rows.
     let saved = r\<lparr>rr_id := rid, rr_items := rows\<rparr> in
     bindS (modifyS (save_request
       (saved\<lparr>rr_items := map (request_item_columns (env_big E)) rows\<rparr>))) (\<lambda>_.
     returnS saved)))"

text \<open>\<open>manager.update(Payment, id, {\<dots>})\<close> writes the two columns of the lease.\<close>

definition set_lease :: "string \<Rightarrow> string option \<Rightarrow> nat option \<Rightarrow> store \<Rightarrow> store" where
  "set_lease pid token expires s =
     s\<lparr>st_payments := map (\<lambda>p. if p_id p = pid
         then p\<lparr>p_refundApprovalToken := token, p_refundApprovalExpiresAt := expires\<rparr> else p)
       (st_payments s)\<rparr>"

text \<open>The \<open>finally\<close> clause: the lease is given up if it is still the caller's.\<close>

definition release_lease :: "string \<Rightarrow> string \<Rightarrow> store \<Rightarrow> store" where
  "release_lease pid token s =
     s\<lparr>st_payments := map (\<lambda>p. if p_id p = pid \<and> p_refundApprovalToken p = Some token
         then p\<lparr>p_refundApprovalToken := None, p_refundApprovalExpiresAt := None\<rparr> else p)
       (st_payments s)\<rparr>"

definition withPaymentLock ::
  "string \<Rightarrow> (payment_row \<Rightarrow> item_row list \<Rightarrow> (store, 'a) act) \<Rightarrow> (store, 'a) act"
where
  "withPaymentLock pid action =
     bindS (guardS (blank pid) (BadRequest ''Payment ID is required'')) (\<lambda>_.
     transactionS (
       bindS (readS (\<lambda>s. (find_payment s pid, items_of s pid))) (\<lambda>(found, items).
       bindS (liftS (of_option (NotFound ''Payment not found'') found)) (\<lambda>payment.
       action payment items))))"

section \<open>Creating a request\<close>

definition new_request ::
  "env \<Rightarrow> string \<Rightarrow> string option \<Rightarrow> create_refund \<Rightarrow> payment_row \<Rightarrow> item_row list \<Rightarrow>
   (store, refund_request_row) act"
where
  "new_request E actorId key dto payment items =
     bindS (readS (validateNewRefundRequest (env_big E) payment items dto)) (\<lambda>checked.
     bindS (liftS checked) (\<lambda>reservations.
     bindS (liftS (buildRefundRequestEntity E actorId dto payment items reservations)) (\<lambda>request.
     insert_request E (request\<lparr>rr_idempotencyKey := key\<rparr>))))"

definition createRefundRequest :: "env \<Rightarrow> string \<Rightarrow> create_refund \<Rightarrow> (store, refund_request_row) act" where
  "createRefundRequest E userId dto =
     withPaymentLock (cr_paymentId dto) (new_request E userId None dto)"

section \<open>Approval\<close>

definition resolveRefundRequest ::
  "refund_request_row \<Rightarrow> string \<Rightarrow> refund_status \<Rightarrow> string option \<Rightarrow> (store, refund_request_row) act"
where
  "resolveRefundRequest req actorId status note =
     bindS (liftS (validateNote note)) (\<lambda>_.
     let resolved = req\<lparr>rr_status := status, rr_resolvedByAccountId := Some actorId,
       rr_resolutionNote := note\<rparr> in
     bindS (modifyS (save_request resolved)) (\<lambda>_. returnS resolved))"

definition refunded_item :: "bigjs \<Rightarrow> item_row \<Rightarrow> rat \<Rightarrow> item_row" where
  "refunded_item B item n =
     (let refundCount = addN B [i_refundCount item, n] in
      item\<lparr>i_refundCount := refundCount,
           i_refunded := (if refundCount \<ge> i_quantity item then True else i_refunded item)\<rparr>)"

definition updateOriginalItemsRefundState ::
  "bigjs \<Rightarrow> item_row list \<Rightarrow> refund_request_item_row list \<Rightarrow> (store, unit) act"
where
  "updateOriginalItemsRefundState B items requestItems =
     forS requestItems (\<lambda>c.
       bindS (liftS (getPaymentItem items (ri_paymentItemId c))) (\<lambda>item.
       modifyS (save_item B (refunded_item B item (ri_refundCount c)))))"

definition LEASE_MS :: nat where
  "LEASE_MS = 5 * 60000"

text \<open>The first transaction: the request is checked and the purchase is leased to this approval.\<close>

definition claim_refund ::
  "env \<Rightarrow> refund_request_row \<Rightarrow> (store, refund_request_row \<times> string option) act"
where
  "claim_refund E initial =
     withPaymentLock (rr_paymentId initial) (\<lambda>payment items.
       bindS (readS (\<lambda>s. find_request s (rr_id initial))) (\<lambda>found.
       bindS (liftS (of_option (JsError ''EntityNotFoundError'') found)) (\<lambda>request.
       if rr_status request = RR_APPROVED \<and> truthy (rr_idempotencyKey request)
       then returnS (request, None)
       else
         bindS (liftS (assertPendingRefundRequest request)) (\<lambda>_.
         bindS (liftS (assertNoApprovalInProgress E payment)) (\<lambda>_.
         bindS (liftS (assertPaymentIsRefundable payment)) (\<lambda>_.
         bindS (liftS (validateRefundItems (env_big E) items (inputs_of request))) (\<lambda>_.
         bindS (liftS (assertItemsBelongToSingleSeller items (inputs_of request))) (\<lambda>_.
         bindS (newId E) (\<lambda>token.
         bindS (modifyS (set_lease (p_id payment) (Some token) (Some (env_now E + LEASE_MS)))) (\<lambda>_.
         returnS (request, Some token))))))))))) "

text \<open>The last transaction: the items are marked, the request resolved, and the lease given up.\<close>

definition finish_refund ::
  "env \<Rightarrow> refund_request_row \<Rightarrow> string \<Rightarrow> string \<Rightarrow> string option \<Rightarrow> (store, refund_request_row) act"
where
  "finish_refund E initial token actorId note =
     withPaymentLock (rr_paymentId initial) (\<lambda>payment items.
       bindS (guardS (p_refundApprovalToken payment \<noteq> Some token)
         (Conflict ''Refund approval lease changed; retry the same request'')) (\<lambda>_.
       bindS (readS (\<lambda>s. find_request s (rr_id initial))) (\<lambda>found.
       bindS (liftS (of_option (JsError ''EntityNotFoundError'') found)) (\<lambda>request.
       bindS (liftS (assertPendingRefundRequest request)) (\<lambda>_.
       bindS (liftS (assertPaymentIsRefundable payment)) (\<lambda>_.
       bindS (liftS (validateRefundItems (env_big E) items (inputs_of request))) (\<lambda>_.
       bindS (updateOriginalItemsRefundState (env_big E) items (rr_items request)) (\<lambda>_.
       bindS (resolveRefundRequest request actorId RR_APPROVED note) (\<lambda>result.
       bindS (modifyS (set_lease (p_id payment) None None)) (\<lambda>_.
       returnS result))))))))))"

definition approveRequest ::
  "env \<Rightarrow> catalog \<Rightarrow> refund_request_row \<Rightarrow> string \<Rightarrow> string option \<Rightarrow> (store, refund_request_row) act"
where
  "approveRequest E C initial actorId note =
     bindS (liftS (validateNote note)) (\<lambda>_.
     bindS (claim_refund E initial) (\<lambda>(request, claimed).
     case claimed of
       None \<Rightarrow> returnS request
     | Some token \<Rightarrow>
         finallyS
           (bindS (createRefundPayment E C request) (\<lambda>_.
            finish_refund E initial token actorId note))
           (release_lease (rr_paymentId initial) token)))"

section \<open>The service's operations\<close>

definition findRefundRequestWithItems :: "string \<Rightarrow> store \<Rightarrow> refund_request_row res" where
  "findRefundRequestWithItems rid s = of_option (NotFound ''Refund request not found'') (find_request s rid)"

text \<open>\<open>owned userId\<close> are the accounts the user owns or edits.\<close>

definition authorizeRefundAction :: "(string \<Rightarrow> string list option) \<Rightarrow> string \<Rightarrow> string \<Rightarrow> unit res" where
  "authorizeRefundAction owned userId target =
     (case owned userId of
        None \<Rightarrow> Inl (Forbidden ''User is not authorized to act on this refund'')
      | Some ids \<Rightarrow> throwIf (target \<notin> set ids)
          (Forbidden ''User does not have EDITOR or OWNER rights for the relevant seller accounts''))"

definition no_target :: exn where
  "no_target = BadRequest ''Refund request does not have a target payment account''"

definition approveRefundRequest ::
  "env \<Rightarrow> catalog \<Rightarrow> (string \<Rightarrow> string list option) \<Rightarrow> string \<Rightarrow> string \<Rightarrow> string option \<Rightarrow>
   (store, refund_request_row) act"
where
  "approveRefundRequest E C owned userId requestId note =
     bindS (liftS (validateNote note)) (\<lambda>_.
     bindS (readS (findRefundRequestWithItems requestId)) (\<lambda>found.
     bindS (liftS found) (\<lambda>request.
     bindS (liftS (assertPendingRefundRequest request)) (\<lambda>_.
     bindS (guardS (truthy (rr_idempotencyKey request))
       (Forbidden ''System refund requests must be resolved through the internal refund command'')) (\<lambda>_.
     bindS (guardS (falsy (rr_requestedToPaymentAccountId request)) no_target) (\<lambda>_.
     bindS (liftS (authorizeRefundAction owned userId (nullish (rr_requestedToPaymentAccountId request) []))) (\<lambda>_.
     approveRequest E C request userId note)))))))"

definition reject_locked ::
  "env \<Rightarrow> string \<Rightarrow> string \<Rightarrow> string option \<Rightarrow> payment_row \<Rightarrow> item_row list \<Rightarrow> (store, refund_request_row) act"
where
  "reject_locked E userId requestId note payment items =
     bindS (liftS (assertNoApprovalInProgress E payment)) (\<lambda>_.
     bindS (readS (\<lambda>s. find_request s requestId)) (\<lambda>found.
     bindS (liftS (of_option (JsError ''EntityNotFoundError'') found)) (\<lambda>request.
     bindS (liftS (assertPendingRefundRequest request)) (\<lambda>_.
     bindS (readS (refund_payment_of (rr_id request))) (\<lambda>started.
     bindS (guardS (truthy (rr_idempotencyKey request) \<or> started \<noteq> None)
       (BadRequest ''An initiated refund cannot be rejected; reconcile its payment channel operations first'')) (\<lambda>_.
     bindS (guardS (falsy (rr_requestedToPaymentAccountId request)) no_target) (\<lambda>_.
     resolveRefundRequest request userId RR_REJECTED note)))))))"

definition rejectRefundRequest ::
  "env \<Rightarrow> (string \<Rightarrow> string list option) \<Rightarrow> string \<Rightarrow> string \<Rightarrow> string option \<Rightarrow>
   (store, refund_request_row) act"
where
  "rejectRefundRequest E owned userId requestId note =
     bindS (liftS (validateNote note)) (\<lambda>_.
     bindS (readS (findRefundRequestWithItems requestId)) (\<lambda>found.
     bindS (liftS found) (\<lambda>initial.
     bindS (guardS (falsy (rr_requestedToPaymentAccountId initial)) no_target) (\<lambda>_.
     bindS (liftS (authorizeRefundAction owned userId (nullish (rr_requestedToPaymentAccountId initial) []))) (\<lambda>_.
     withPaymentLock (rr_paymentId initial) (reject_locked E userId requestId note))))))"

definition same_refund :: "create_refund \<Rightarrow> refund_request_row \<Rightarrow> bool" where
  "same_refund dto req \<longleftrightarrow> rr_paymentId req = cr_paymentId dto \<and>
     length (rr_items req) = length (cr_items dto) \<and>
     list_all (\<lambda>i. list_ex (\<lambda>input. fi_paymentItemId input = ri_paymentItemId i \<and>
       fi_refundCount input = ri_refundCount i) (cr_items dto)) (rr_items req)"

definition find_by_key :: "string \<Rightarrow> store \<Rightarrow> refund_request_row option" where
  "find_by_key key s = List.find (\<lambda>r. rr_idempotencyKey r = Some key) (st_refundRequests s)"

definition system_request ::
  "env \<Rightarrow> string \<Rightarrow> create_refund \<Rightarrow> payment_row \<Rightarrow> item_row list \<Rightarrow> (store, refund_request_row) act"
where
  "system_request E key dto payment items =
     bindS (liftS (assertPaymentIsRefundable payment)) (\<lambda>_.
     bindS (readS (find_by_key key)) (\<lambda>found.
     case found of
       Some req \<Rightarrow>
         bindS (guardS (\<not> same_refund dto req)
           (BadRequest ''System refund idempotency key was already used for a different request'')) (\<lambda>_.
         if rr_status req = RR_APPROVED then returnS req
         else bindS (liftS (assertPendingRefundRequest req)) (\<lambda>_. returnS req))
     | None \<Rightarrow> new_request E ''system'' (Some key) dto payment items))"

definition startRefundMicroservice ::
  "env \<Rightarrow> catalog \<Rightarrow> string \<Rightarrow> create_refund \<Rightarrow> (store, refund_request_row) act"
where
  "startRefundMicroservice E C key dto =
     bindS (guardS (blank key \<or> length key > 200)
       (BadRequest ''A system refund idempotency key of at most 200 characters is required'')) (\<lambda>_.
     bindS (liftS (validateRefundReasons (cr_reasonKeys dto))) (\<lambda>_.
     bindS (liftS (validateNote (cr_requestNote dto))) (\<lambda>_.
     bindS (liftS (validateItemInput (env_big E) (cr_items dto))) (\<lambda>_.
     bindS (withPaymentLock (cr_paymentId dto) (system_request E key dto)) (\<lambda>request.
     if rr_status request = RR_APPROVED then returnS request
     else approveRequest E C request ''system''
       (Some ''Automatically approved by the requesting application''))))))"

end
