(* ===== verification/Refund_Invariants.thy ===== *)
theory Refund_Invariants
  imports Refunds Payment_Lifecycle
begin

text \<open>
  The quantities of refunds: what a purchase's items have refunded and reserved never exceeds what
  was bought, in whatever order the transactions of the refund service run between each other.
\<close>

section \<open>What is counted\<close>

definition request_count :: "string \<Rightarrow> refund_request_row \<Rightarrow> rat" where
  "request_count i r = (\<Sum>c\<leftarrow>rr_items r. if ri_paymentItemId c = i then ri_refundCount c else 0)"

text \<open>The counts of an item in the requests of its payment with a status.\<close>

definition counted :: "refund_status \<Rightarrow> store \<Rightarrow> string \<Rightarrow> string \<Rightarrow> rat" where
  "counted st s pid i =
     (\<Sum>r\<leftarrow>st_refundRequests s. if rr_status r = st \<and> rr_paymentId r = pid then request_count i r else 0)"

definition request_ok :: "refund_request_row \<Rightarrow> bool" where
  "request_ok r \<longleftrightarrow> distinct (map ri_paymentItemId (rr_items r)) \<and>
     (\<forall>c \<in> set (rr_items r). 0 < ri_refundCount c \<and> dec4 (ri_refundCount c))"

text \<open>
  The invariant: an item's count of refunds is that of its approved requests, and together with the
  pending ones it stays within the quantity (of an item with a negative quantity nothing is refunded).
\<close>

definition quantities_ok :: "store \<Rightarrow> bool" where
  "quantities_ok s \<longleftrightarrow> distinct (map i_id (st_items s)) \<and> distinct (map rr_id (st_refundRequests s)) \<and>
     (\<forall>r \<in> set (st_refundRequests s). request_ok r \<and>
        (\<forall>c \<in> set (rr_items r). \<exists>i \<in> set (st_items s). i_id i = ri_paymentItemId c)) \<and>
     (\<forall>i \<in> set (st_items s).
        i_refundCount i = counted RR_APPROVED s (i_paymentId i) (i_id i) \<and>
        i_refundCount i + counted RR_PENDING s (i_paymentId i) (i_id i) \<le> max 0 (i_quantity i))"

definition ids_drawn :: "(nat \<Rightarrow> string) \<Rightarrow> store \<Rightarrow> bool" where
  "ids_drawn U s \<longleftrightarrow> i_id ` set (st_items s) \<union> rr_id ` set (st_refundRequests s) \<subseteq> U ` {..<st_seq s}"

lemma quantities_item:
  assumes "quantities_ok s" "i \<in> set (st_items s)"
  shows "i_refundCount i = counted RR_APPROVED s (i_paymentId i) (i_id i)"
    "i_refundCount i + counted RR_PENDING s (i_paymentId i) (i_id i) \<le> max 0 (i_quantity i)"
  using assms unfolding quantities_ok_def by blast+

lemma request_count_ge0: "request_ok r \<Longrightarrow> 0 \<le> request_count i r"
  unfolding request_count_def request_ok_def by (intro sum_list_nonneg) (auto simp: less_imp_le)

lemma counted_ge0:
  "(\<And>r. r \<in> set (st_refundRequests s) \<Longrightarrow> request_ok r) \<Longrightarrow> 0 \<le> counted st s pid i"
  unfolding counted_def by (intro sum_list_nonneg) (auto simp: request_count_ge0)

lemma find_key_absent: "k \<notin> key ` set xs \<Longrightarrow> List.find (\<lambda>x. key x = k) xs = None"
  by (induction xs) auto

lemma sum_list_key_absent: "i \<notin> key ` set xs \<Longrightarrow> (\<Sum>x\<leftarrow>xs. if key x = i then f x else 0) = (0 :: rat)"
  by (induction xs) auto

lemma sum_list_key_single:
  "distinct (map key xs) \<Longrightarrow> x \<in> set xs \<Longrightarrow> (\<Sum>y\<leftarrow>xs. if key y = key x then f y else 0) = (f x :: rat)"
  by (induction xs) (auto simp: sum_list_key_absent image_iff)

lemma request_count_single:
  "distinct (map ri_paymentItemId (rr_items r)) \<Longrightarrow> c \<in> set (rr_items r) \<Longrightarrow>
     request_count (ri_paymentItemId c) r = ri_refundCount c"
  unfolding request_count_def by (rule sum_list_key_single)

lemma request_count_absent: "i \<notin> ri_paymentItemId ` set (rr_items r) \<Longrightarrow> request_count i r = 0"
  unfolding request_count_def by (rule sum_list_key_absent)

section \<open>Reservations are the pending counts\<close>

lemma reserved_sum:
  "(\<Sum>c\<leftarrow>reserved_items rs i. ri_refundCount c) = (\<Sum>r\<leftarrow>rs. request_count i r)"
proof (induction rs)
  case (Cons r rs)
  have "(\<Sum>c\<leftarrow>filter (\<lambda>c. ri_paymentItemId c = i) cs. ri_refundCount c) =
      (\<Sum>c\<leftarrow>cs. if ri_paymentItemId c = i then ri_refundCount c else 0)" for cs
    by (induction cs) auto
  with Cons show ?case by (simp add: reserved_items_def request_count_def)
qed (simp add: reserved_items_def)

lemma sum_list_filter: "(\<Sum>x\<leftarrow>filter P xs. f x) = (\<Sum>x\<leftarrow>xs. if P x then f x else (0 :: rat))"
  by (induction xs) auto

lemma pending_sum:
  "(\<Sum>c\<leftarrow>reserved_items (filter (\<lambda>r. rr_status r = RR_PENDING) (reservations_of s pid)) i. ri_refundCount c) =
     counted RR_PENDING s pid i"
  unfolding reserved_sum reservations_of_def filter_filter sum_list_filter counted_def
  by (intro arg_cong [of _ _ sum_list] map_cong) auto

lemma running_sum:
  assumes "bigjs_ok B" "num_exact B M"
  shows "0 \<le> a \<Longrightarrow> dec4 a \<Longrightarrow> (\<forall>c \<in> set cs. 0 < ri_refundCount c \<and> dec4 (ri_refundCount c)) \<Longrightarrow>
     a + (\<Sum>c\<leftarrow>cs. ri_refundCount c) \<le> M \<Longrightarrow>
     foldl (\<lambda>acc c. addN B [acc, ri_refundCount c]) a cs = a + (\<Sum>c\<leftarrow>cs. ri_refundCount c)"
proof (induction cs arbitrary: a)
  case (Cons c cs)
  have "0 \<le> (\<Sum>c\<leftarrow>cs. ri_refundCount c)" using Cons.prems(3) by (intro sum_list_nonneg) (auto simp: less_imp_le)
  with Cons.prems have "addN B [a, ri_refundCount c] = a + ri_refundCount c"
    by (intro addN2_exact [OF assms]) auto
  moreover have "foldl (\<lambda>acc c. addN B [acc, ri_refundCount c]) (a + ri_refundCount c) cs =
      a + ri_refundCount c + (\<Sum>c\<leftarrow>cs. ri_refundCount c)"
    using Cons.prems by (intro Cons.IH) auto
  ultimately show ?case by simp
qed simp

text \<open>The arithmetic up to a bound \<open>M\<close>, and a purchase whose quantities are well within it.\<close>

definition numbers_ok :: "bigjs \<Rightarrow> rat \<Rightarrow> bool" where
  "numbers_ok B M \<longleftrightarrow> bigjs_ok B \<and> num_exact B M \<and> num_close B (1 / 2) \<and> 1 \<le> M"

definition in_range :: "rat \<Rightarrow> store \<Rightarrow> string \<Rightarrow> bool" where
  "in_range M s pid \<longleftrightarrow> (\<forall>i \<in> set (items_of s pid). dec4 (i_quantity i) \<and> \<bar>i_quantity i\<bar> \<le> M / 4)"

lemma accepted_count:
  assumes B: "numbers_ok B M" and n: "\<not> bad_input B input"
    and r: "dec4 r" "0 \<le> r" and q: "addN B (xs @ [fi_refundCount input]) \<le> q" "q \<le> M / 4" "sum_list xs = r"
  shows "dec4 (fi_refundCount input) \<and> 0 < fi_refundCount input \<and> r + fi_refundCount input \<le> q \<and>
    money B (fi_refundCount input) = fi_refundCount input"
proof -
  let ?n = "fi_refundCount input"
  have ok: "bigjs_ok B" and ex: "num_exact B M" and close: "num_close B (1 / 2)" and M: "1 \<le> M"
    using B by (auto simp: numbers_ok_def)
  have pos: "0 < ?n" and rn: "big_num B (round_dp 4 1 ?n) = ?n"
    using n by (auto simp: bad_input_def big_round_ok [OF ok])
  have "addN B (xs @ [?n]) = big_num B (r + ?n)" using q(3) by (simp add: addN_sum [OF ok])
  moreover have "\<bar>big_num B (r + ?n) - (r + ?n)\<bar> \<le> 1 / 2 * \<bar>r + ?n\<bar>"
    using close by (simp add: num_close_def)
  ultimately have small: "r + ?n \<le> M / 2" using q(1,2) r(2) pos by (auto simp: abs_if split: if_splits)
  have "\<bar>round_dp 4 1 ?n - ?n\<bar> \<le> 1 / (2 * 10 ^ 4)" by (rule round_half_error)
  then have "\<bar>round_dp 4 1 ?n\<bar> \<le> M" using small pos r(2) M by (auto simp: abs_if split: if_splits)
  then have "round_dp 4 1 ?n = ?n" using num_exactD [OF ex dec_round_dp] rn by metis
  then have d: "dec4 ?n" using dec_round_dp [of 4 1 ?n] by metis
  then have "dec4 (r + ?n)" using r(1) by auto
  then have "addN B (xs @ [?n]) = r + ?n"
    using small r(2) pos q(3) num_exactD [OF ex] by (simp add: addN_sum [OF ok])
  moreover have "money B ?n = ?n" using money_exact [OF ok ex d] small r(2) pos by auto
  ultimately show ?thesis using d pos q(1) by auto
qed

section \<open>Inserting a request\<close>

lemma withPaymentLock_cases:
  assumes "withPaymentLock pid action s = (t, r)"
  obtains e where "r = Inl e" "t = s"
  | x payment where "r = Inr x" "find_payment s pid = Some payment"
      "action payment (items_of s pid) s = (t, Inr x)"
proof (cases r)
  case (Inl e)
  with assms have "t = s" by (auto simp: withPaymentLock_def res_simps dest: transactionS_Inl)
  with Inl that(1) show ?thesis by blast
next
  case (Inr x)
  with assms that(2) show ?thesis by (auto simp: withPaymentLock_def res_simps)
qed

definition item_count :: "refund_request_item_row \<Rightarrow> string \<times> rat" where
  "item_count c = (ri_paymentItemId c, ri_refundCount c)"

lemma insert_items_effect:
  "foldS (insert_request_item E rid) acc items s = (t, r) \<Longrightarrow>
     \<exists>n rows. t = s\<lparr>st_seq := st_seq s + n\<rparr> \<and> r = Inr (acc @ rows) \<and> map item_count rows = map item_count items \<and>
       map ri_refundAmount rows = map ri_refundAmount items \<and>
       map ri_refundAmountWithoutTax rows = map ri_refundAmountWithoutTax items"
proof (induction items arbitrary: acc s)
  case Nil
  then show ?case by (intro exI [of _ 0] exI [of _ "[]"]) auto
next
  case (Cons c items)
  let ?u = "s\<lparr>st_seq := Suc (st_seq s)\<rparr>"
  let ?c = "c\<lparr>ri_id := env_uuid E (st_seq s), ri_refundRequestId := rid\<rparr>"
  have "insert_request_item E rid acc c s = (?u, Inr (acc @ [?c]))"
    by (simp add: insert_request_item_def bindS_def newId_def returnS_def)
  with Cons.prems have "foldS (insert_request_item E rid) (acc @ [?c]) items ?u = (t, r)"
    by (simp add: bindS_def)
  from Cons.IH [OF this] obtain n rows where
    "t = ?u\<lparr>st_seq := st_seq ?u + n\<rparr>" "r = Inr ((acc @ [?c]) @ rows)" "map item_count rows = map item_count items"
    "map ri_refundAmount rows = map ri_refundAmount items"
    "map ri_refundAmountWithoutTax rows = map ri_refundAmountWithoutTax items"
    by blast
  moreover have "item_count ?c = item_count c" by (simp add: item_count_def)
  ultimately show ?case by (intro exI [of _ "Suc n"] exI [of _ "?c # rows"]) simp
qed

text \<open>What a stored request keeps of the one that was built.\<close>

definition stored_as :: "bigjs \<Rightarrow> refund_request_row \<Rightarrow> refund_request_row \<Rightarrow> bool" where
  "stored_as B r r' \<longleftrightarrow> rr_status r' = rr_status r \<and> rr_paymentId r' = rr_paymentId r \<and>
     rr_idempotencyKey r' = rr_idempotencyKey r \<and>
     map item_count (rr_items r') = map (\<lambda>c. (ri_paymentItemId c, money B (ri_refundCount c))) (rr_items r) \<and>
     map ri_refundAmount (rr_items r') = map (\<lambda>c. money B (ri_refundAmount c)) (rr_items r) \<and>
     map ri_refundAmountWithoutTax (rr_items r') = map (\<lambda>c. money B (ri_refundAmountWithoutTax c)) (rr_items r)"

lemma stored_columns:
  assumes "map item_count rows = map item_count items" "map ri_refundAmount rows = map ri_refundAmount items"
    "map ri_refundAmountWithoutTax rows = map ri_refundAmountWithoutTax items"
  shows "map item_count (map (request_item_columns B) rows) =
      map (\<lambda>c. (ri_paymentItemId c, money B (ri_refundCount c))) items"
    and "map ri_refundAmount (map (request_item_columns B) rows) = map (\<lambda>c. money B (ri_refundAmount c)) items"
    and "map ri_refundAmountWithoutTax (map (request_item_columns B) rows) =
      map (\<lambda>c. money B (ri_refundAmountWithoutTax c)) items"
proof -
  let ?f = "\<lambda>(i, n). (i, money B n)"
  have "map item_count (map (request_item_columns B) rows) = map ?f (map item_count rows)"
    by (simp add: item_count_def request_item_columns_def)
  then show "map item_count (map (request_item_columns B) rows) =
      map (\<lambda>c. (ri_paymentItemId c, money B (ri_refundCount c))) items"
    unfolding assms(1) by (simp add: item_count_def)
  have "map ri_refundAmount (map (request_item_columns B) rows) = map (money B) (map ri_refundAmount rows)"
    by (simp add: request_item_columns_def)
  then show "map ri_refundAmount (map (request_item_columns B) rows) = map (\<lambda>c. money B (ri_refundAmount c)) items"
    unfolding assms(2) by simp
  have "map ri_refundAmountWithoutTax (map (request_item_columns B) rows) =
      map (money B) (map ri_refundAmountWithoutTax rows)"
    by (simp add: request_item_columns_def)
  then show "map ri_refundAmountWithoutTax (map (request_item_columns B) rows) =
      map (\<lambda>c. money B (ri_refundAmountWithoutTax c)) items"
    unfolding assms(3) by simp
qed

lemma insert_request_effect:
  assumes "insert_request E r s = (t, Inr x)"
  obtains r' n where "stored_as (env_big E) r r'" "rr_id r' = env_uuid E (st_seq s)"
    "t = s\<lparr>st_seq := Suc (st_seq s + n), st_refundRequests := upsert rr_id r' (st_refundRequests s)\<rparr>"
    "rr_id x = rr_id r'" "rr_items r' = map (request_item_columns (env_big E)) (rr_items x)"
proof -
  let ?u = "s\<lparr>st_seq := Suc (st_seq s)\<rparr>"
  let ?id = "env_uuid E (st_seq s)"
  from assms obtain v rows where
    loop: "foldS (insert_request_item E ?id) [] (rr_items r) ?u = (v, Inr rows)"
    and t: "t = save_request (r\<lparr>rr_id := ?id, rr_items := map (request_item_columns (env_big E)) rows\<rparr>) v"
    and x: "x = r\<lparr>rr_id := ?id, rr_items := rows\<rparr>"
    by (auto simp: insert_request_def res_simps Let_def)
  from insert_items_effect [OF loop] obtain n where
    v: "v = ?u\<lparr>st_seq := st_seq ?u + n\<rparr>" "map item_count rows = map item_count (rr_items r)"
    "map ri_refundAmount rows = map ri_refundAmount (rr_items r)"
    "map ri_refundAmountWithoutTax rows = map ri_refundAmountWithoutTax (rr_items r)" by auto
  let ?r = "r\<lparr>rr_id := ?id, rr_items := map (request_item_columns (env_big E)) rows\<rparr>"
  have "stored_as (env_big E) r ?r"
    using stored_columns [OF v(2-4)] by (simp add: stored_as_def)
  then show ?thesis by (rule that) (simp_all add: t v(1) x save_request_def)
qed

section \<open>Creating a request\<close>

lemma foldE_unit_all: "foldE (\<lambda>_ x. f x) () xs = Inr u \<Longrightarrow> x \<in> set xs \<Longrightarrow> f x = Inr ()"
  by (induction xs) (auto simp: res_simps)

lemma mapE_all2: "mapE f xs = Inr ys \<Longrightarrow> list_all2 (\<lambda>x y. f x = Inr y) xs ys"
  by (induction xs arbitrary: ys) (auto simp: res_simps)

lemma getPaymentItem_in:
  "getPaymentItem (items_of s pid) k = Inr i \<Longrightarrow> i \<in> set (st_items s) \<and> i_paymentId i = pid \<and> i_id i = k"
  unfolding getPaymentItem_def by (auto simp: items_of_def dest!: by_key_in)

lemma build_item_count:
  "build_item B items rs input = Inr c \<Longrightarrow>
     ri_paymentItemId c = fi_paymentItemId input \<and> ri_refundCount c = fi_refundCount input"
  by (auto simp: build_item_def res_simps Let_def)

lemma validateItemInput_Inr:
  "validateItemInput B xs = Inr () \<longleftrightarrow>
     xs \<noteq> [] \<and> (\<forall>x \<in> set xs. \<not> bad_input B x) \<and> distinct (map fi_paymentItemId xs)"
  by (auto simp: validateItemInput_def res_simps list_ex_iff split: if_splits)

text \<open>What a request that is accepted was checked for.\<close>

lemma new_request_checked:
  assumes "new_request E a key dto payment items s = (t, Inr x)"
  obtains r where "insert_request E r s = (t, Inr x)" "rr_status r = RR_PENDING"
    "rr_paymentId r = cr_paymentId dto" "rr_idempotencyKey r = key"
    "list_all2 (\<lambda>input c. build_item (env_big E) items (reservations_of s (p_id payment)) input = Inr c)
       (cr_items dto) (rr_items r)"
    "distinct (map fi_paymentItemId (cr_items dto))"
    "\<And>input. input \<in> set (cr_items dto) \<Longrightarrow> \<not> bad_input (env_big E) input \<and>
       check_reservation (env_big E) items (filter (\<lambda>r. rr_status r = RR_PENDING)
         (reservations_of s (p_id payment))) input = Inr ()"
proof -
  let ?B = "env_big E"
  let ?res = "reservations_of s (p_id payment)"
  from assms obtain r where
    checked: "validateNewRefundRequest ?B payment items dto s = Inr ?res" and
    built: "buildRefundRequestEntity E a dto payment items ?res = Inr r" and
    run: "insert_request E (r\<lparr>rr_idempotencyKey := key\<rparr>) s = (t, Inr x)"
    by (auto simp: new_request_def validateNewRefundRequest_def res_simps Let_def)
  from built obtain firstItem rows where
    r: "r = request_row E a dto payment firstItem rows" and
    rows: "buildRefundRequestItems ?B items ?res (cr_items dto) = Inr rows"
    by (auto simp: buildRefundRequestEntity_def res_simps)
  from checked have "validateItemInput ?B (cr_items dto) = Inr ()" and
    fold: "foldE (\<lambda>_ input. check_reservation ?B items (filter (\<lambda>r. rr_status r = RR_PENDING) ?res) input) ()
      (cr_items dto) = Inr ()"
    by (auto simp: validateNewRefundRequest_def validateRefundItems_def res_simps Let_def)
  then have "distinct (map fi_paymentItemId (cr_items dto))"
    "\<And>input. input \<in> set (cr_items dto) \<Longrightarrow> \<not> bad_input ?B input"
    by (auto simp: validateItemInput_Inr)
  with run rows foldE_unit_all [OF fold] that [of "r\<lparr>rr_idempotencyKey := key\<rparr>"] show ?thesis
    by (simp add: r request_row_def buildRefundRequestItems_def mapE_all2)
qed

lemma counted_append:
  "st_refundRequests t = st_refundRequests s @ [r] \<Longrightarrow>
     counted st t pid i = counted st s pid i +
       (if rr_status r = st \<and> rr_paymentId r = pid then request_count i r else 0)"
  by (simp add: counted_def)

lemma quantities_counts:
  assumes "quantities_ok s" "i \<in> set (st_items s)"
  shows "dec4 (i_refundCount i)" "0 \<le> i_refundCount i"
    "0 \<le> counted RR_PENDING s pid k" "dec4 (counted st s pid k)"
proof -
  have req: "request_ok r" if "r \<in> set (st_refundRequests s)" for r
    using assms(1) that by (simp add: quantities_ok_def)
  have d: "dec4 (counted st s pid k)" for st pid k
    unfolding counted_def request_count_def
    using req by (intro dec_sum_list) (auto simp: request_ok_def intro!: dec_sum_list)
  have "0 \<le> counted st s pid k" for st pid k using req by (rule counted_ge0)
  with d assms show "dec4 (i_refundCount i)" "0 \<le> i_refundCount i"
    "0 \<le> counted RR_PENDING s pid k" "dec4 (counted st s pid k)" by (auto simp: quantities_ok_def)
qed

text \<open>One accepted line: its count is free, and is stored as it is.\<close>

lemma reservation_free:
  assumes ok: "quantities_ok s" and B: "numbers_ok B M" and range: "in_range M s pid"
    and check: "check_reservation B (items_of s pid) (filter (\<lambda>r. rr_status r = RR_PENDING)
       (reservations_of s pid)) input = Inr ()" and n: "\<not> bad_input B input"
  obtains i where "i \<in> set (st_items s)" "i_paymentId i = pid" "i_id i = fi_paymentItemId input"
    "dec4 (fi_refundCount input)" "0 < fi_refundCount input" "money B (fi_refundCount input) = fi_refundCount input"
    "i_refundCount i + counted RR_PENDING s pid (i_id i) + fi_refundCount input \<le> i_quantity i"
proof -
  let ?pending = "filter (\<lambda>r. rr_status r = RR_PENDING) (reservations_of s pid)"
  have num: "bigjs_ok B" "num_exact B M" "1 \<le> M" using B by (auto simp: numbers_ok_def)
  from check obtain i where item: "getPaymentItem (items_of s pid) (fi_paymentItemId input) = Inr i"
    and le: "addN B [i_refundCount i, foldl (\<lambda>acc c. addN B [acc, ri_refundCount c]) 0
      (reserved_items ?pending (i_id i)), fi_refundCount input] \<le> i_quantity i"
    by (auto simp: check_reservation_def res_simps Let_def)
  note i = getPaymentItem_in [OF item]
  note counts = quantities_counts [OF ok, of i]
  have q: "i_quantity i \<le> M / 4" "max 0 (i_quantity i) \<le> M / 4"
    using range i num(3) by (auto simp: in_range_def items_of_def abs_if split: if_splits)
  have sum: "i_refundCount i + counted RR_PENDING s pid (i_id i) \<le> max 0 (i_quantity i)"
    using ok i by (auto simp: quantities_ok_def)
  have pos: "\<forall>c \<in> set (reserved_items ?pending (i_id i)). 0 < ri_refundCount c \<and> dec4 (ri_refundCount c)"
    using ok by (auto simp: reserved_items_def reservations_of_def quantities_ok_def request_ok_def)
  have "0 + (\<Sum>c\<leftarrow>reserved_items ?pending (i_id i). ri_refundCount c) \<le> M"
    using sum q num(3) counts(2) i by (simp add: pending_sum)
  from running_sum [OF num(1,2) order_refl dec_0 pos this] have reserved: "foldl (\<lambda>acc c. addN B [acc, ri_refundCount c]) 0 (reserved_items ?pending (i_id i)) =
      counted RR_PENDING s pid (i_id i)" by (simp add: pending_sum)
  have "dec4 (i_refundCount i + counted RR_PENDING s pid (i_id i))"
    "0 \<le> i_refundCount i + counted RR_PENDING s pid (i_id i)"
    using counts i by auto
  from accepted_count [OF B n this, of "[i_refundCount i, counted RR_PENDING s pid (i_id i)]" "i_quantity i"]
    le [unfolded reserved] q(1) show ?thesis
    by (intro that [of i]) (use i in auto)
qed

lemma fresh_request_id:
  "inj U \<Longrightarrow> ids_drawn U s \<Longrightarrow> U (st_seq s) \<notin> rr_id ` set (st_refundRequests s)"
  unfolding ids_drawn_def by (auto dest!: subsetD dest: injD)

lemma counts_of_map:
  assumes "map item_count rows = map (\<lambda>c. (ri_paymentItemId c, f c)) items"
  shows "map ri_paymentItemId rows = map ri_paymentItemId items" "map ri_refundCount rows = map f items"
  using arg_cong [OF assms, of "map fst"] arg_cong [OF assms, of "map snd"]
  by (simp_all add: item_count_def comp_def)

text \<open>The rows of an accepted request: the items and the counts of the input.\<close>

lemma stored_rows:
  assumes "stored_as B r r'" and "list_all2 (\<lambda>input c. build_item B items rs input = Inr c) inputs (rr_items r)"
    and "\<And>input. input \<in> set inputs \<Longrightarrow> money B (fi_refundCount input) = fi_refundCount input"
  shows "map item_count (rr_items r') = map (\<lambda>input. (fi_paymentItemId input, fi_refundCount input)) inputs"
proof -
  have "map (\<lambda>c. (ri_paymentItemId c, money B (ri_refundCount c))) cs =
      map (\<lambda>input. (fi_paymentItemId input, fi_refundCount input)) inputs"
    if "list_all2 (\<lambda>input c. build_item B items rs input = Inr c) inputs cs" for cs
    using that assms(3) by (induction rule: list_all2_induct) (auto dest: build_item_count)
  from this [OF assms(2)] show ?thesis using assms(1) by (simp add: stored_as_def)
qed

lemma new_request_quantities:
  assumes run: "new_request E a key dto payment (items_of s pid) s = (t, Inr x)"
    and pid: "p_id payment = pid" "cr_paymentId dto = pid"
    and ok: "quantities_ok s" "ids_drawn (env_uuid E) s" "inj (env_uuid E)"
    and num: "numbers_ok (env_big E) M" "in_range M s pid"
  shows "quantities_ok t \<and> ids_drawn (env_uuid E) t"
proof -
  let ?B = "env_big E"
  from run obtain r where ins: "insert_request E r s = (t, Inr x)" and r: "rr_status r = RR_PENDING" "rr_paymentId r = pid"
    and rows: "list_all2 (\<lambda>input c. build_item ?B (items_of s pid) (reservations_of s pid) input = Inr c)
       (cr_items dto) (rr_items r)"
    and dist: "distinct (map fi_paymentItemId (cr_items dto))"
    and input: "\<And>input. input \<in> set (cr_items dto) \<Longrightarrow> \<not> bad_input ?B input \<and>
       check_reservation ?B (items_of s pid) (filter (\<lambda>r. rr_status r = RR_PENDING)
         (reservations_of s pid)) input = Inr ()"
    using pid by (elim new_request_checked) auto
  note free = reservation_free [OF ok(1) num]
  from insert_request_effect [OF ins] obtain r' n where
    r': "stored_as ?B r r'" "rr_id r' = env_uuid E (st_seq s)"
    and t: "t = s\<lparr>st_seq := Suc (st_seq s + n), st_refundRequests := upsert rr_id r' (st_refundRequests s)\<rparr>"
    by metis
  have reqs: "st_refundRequests t = st_refundRequests s @ [r']"
    using fresh_request_id [OF ok(3,2)] by (simp add: t upsert_fresh r'(2))
  have items: "st_items t = st_items s" by (simp add: t)
  have cols: "money ?B (fi_refundCount i) = fi_refundCount i" if "i \<in> set (cr_items dto)" for i
    using input [OF that] by (auto elim: free)
  have stored: "map item_count (rr_items r') =
      map (\<lambda>i. (fi_paymentItemId i, fi_refundCount i)) (cr_items dto)"
    by (rule stored_rows [OF r'(1) rows]) (rule cols)
  have ids: "map ri_paymentItemId (rr_items r') = map fi_paymentItemId (cr_items dto)"
    and counts: "map ri_refundCount (rr_items r') = map fi_refundCount (cr_items dto)"
    using arg_cong [OF stored, of "map fst"] arg_cong [OF stored, of "map snd"]
    by (simp_all add: item_count_def comp_def)
  have line: "\<exists>i \<in> set (cr_items dto). ri_paymentItemId c = fi_paymentItemId i \<and> ri_refundCount c = fi_refundCount i"
    if "c \<in> set (rr_items r')" for c
  proof -
    from that have "item_count c \<in> set (map item_count (rr_items r'))" by simp
    then show ?thesis unfolding stored by (auto simp: item_count_def)
  qed
  have good: "0 < ri_refundCount c \<and> dec4 (ri_refundCount c) \<and>
      (\<exists>i \<in> set (st_items s). i_id i = ri_paymentItemId c)" if "c \<in> set (rr_items r')" for c
  proof -
    from line [OF that] obtain f where f: "f \<in> set (cr_items dto)" "ri_paymentItemId c = fi_paymentItemId f"
      "ri_refundCount c = fi_refundCount f" by blast
    from input [OF f(1)] show ?thesis unfolding f(2,3) by (elim conjE free) auto
  qed
  then have r'_ok: "request_ok r'" using dist by (simp add: request_ok_def ids)
  have st: "rr_status r' = RR_PENDING" "rr_paymentId r' = pid" using r'(1) r by (simp_all add: stored_as_def)
  have pending: "i_refundCount i + counted RR_PENDING t (i_paymentId i) (i_id i) \<le> max 0 (i_quantity i)"
    if i: "i \<in> set (st_items s)" for i
  proof (cases "i_paymentId i = pid \<and> i_id i \<in> ri_paymentItemId ` set (rr_items r')")
    case False
    then have "counted RR_PENDING t (i_paymentId i) (i_id i) = counted RR_PENDING s (i_paymentId i) (i_id i)"
      by (auto simp: counted_append [OF reqs] st request_count_absent)
    with quantities_item(2) [OF ok(1) i] show ?thesis by simp
  next
    case True
    then obtain c where c: "c \<in> set (rr_items r')" "i_id i = ri_paymentItemId c" by auto
    from line [OF c(1)] obtain f where f: "f \<in> set (cr_items dto)" "ri_paymentItemId c = fi_paymentItemId f"
      "ri_refundCount c = fi_refundCount f" by auto
    from input [OF f(1)] obtain j where j: "j \<in> set (st_items s)" "i_id j = fi_paymentItemId f"
      "i_refundCount j + counted RR_PENDING s pid (i_id j) + fi_refundCount f \<le> i_quantity j"
      by (auto elim: free)
    have "j = i" using ok(1) i j(1,2) c(2) f(2) by (auto simp: quantities_ok_def distinct_map inj_on_def)
    moreover have "request_count (i_id i) r' = fi_refundCount f"
      using request_count_single [of r' c] r'_ok c f by (simp add: request_ok_def)
    ultimately show ?thesis
      using j(3) True by (auto simp: counted_append [OF reqs] st)
  qed
  have approved: "counted RR_APPROVED t p k = counted RR_APPROVED s p k" for p k
    by (simp add: counted_append [OF reqs] st)
  have "distinct (map rr_id (st_refundRequests t))"
    using ok(1) fresh_request_id [OF ok(3,2)] by (simp add: reqs r'(2) quantities_ok_def)
  then have "quantities_ok t"
    using ok(1) r'_ok good pending unfolding quantities_ok_def items approved by (auto simp: reqs)
  moreover have "ids_drawn (env_uuid E) t"
  proof -
    have seq: "env_uuid E ` {..<st_seq s} \<subseteq> env_uuid E ` {..<st_seq t}"
      "env_uuid E (st_seq s) \<in> env_uuid E ` {..<st_seq t}"
      by (auto simp: t)
    have "rr_id ` set (st_refundRequests t) = insert (env_uuid E (st_seq s)) (rr_id ` set (st_refundRequests s))"
      by (simp add: reqs r'(2))
    moreover from ok(2) have "i_id ` set (st_items s) \<subseteq> env_uuid E ` {..<st_seq t}"
      "rr_id ` set (st_refundRequests s) \<subseteq> env_uuid E ` {..<st_seq t}"
      unfolding ids_drawn_def Un_subset_iff using seq(1) by (meson subset_trans)+
    ultimately show ?thesis using seq(2) by (simp only: ids_drawn_def items Un_subset_iff insert_subset simp_thms)
  qed
  ultimately show ?thesis by blast
qed

section \<open>Resolving a request\<close>

definition part :: "refund_status \<Rightarrow> string \<Rightarrow> string \<Rightarrow> refund_request_row \<Rightarrow> rat" where
  "part st pid i r = (if rr_status r = st \<and> rr_paymentId r = pid then request_count i r else 0)"

lemma counted_parts: "counted st s pid i = (\<Sum>r\<leftarrow>st_refundRequests s. part st pid i r)"
  by (simp add: counted_def part_def)

lemma counted_replaced:
  assumes "st_refundRequests t = upsert rr_id q (st_refundRequests s)"
    and "find_request s (rr_id q) = Some r"
  shows "counted st t pid i = counted st s pid i - part st pid i r + part st pid i q"
  using assms unfolding counted_parts find_request_def by (simp add: sum_list_upsert_old)

lemma find_request_in: "find_request s k = Some r \<Longrightarrow> r \<in> set (st_refundRequests s) \<and> rr_id r = k"
  by (auto simp: find_request_def dest: by_key_in)

text \<open>The requests after one of them was resolved.\<close>

lemma resolved_requests:
  assumes ok: "quantities_ok s" and r: "find_request s (rr_id q) = Some r" and q: "rr_items q = rr_items r"
    and t: "st_refundRequests t = upsert rr_id q (st_refundRequests s)"
    and ids: "i_id ` set (st_items t) = i_id ` set (st_items s)"
  shows "distinct (map rr_id (st_refundRequests t)) \<and> (\<forall>x \<in> set (st_refundRequests t). request_ok x \<and>
    (\<forall>c \<in> set (rr_items x). \<exists>i \<in> set (st_items t). i_id i = ri_paymentItemId c))"
proof -
  have d: "distinct (map rr_id (st_refundRequests s))" using ok by (simp add: quantities_ok_def)
  have old: "request_ok x \<and> (\<forall>c \<in> set (rr_items x). ri_paymentItemId c \<in> i_id ` set (st_items t))"
    if "x \<in> set (st_refundRequests s)" for x
    using ok that unfolding quantities_ok_def ids by (metis image_eqI)
  have "request_ok x \<and> (\<forall>c \<in> set (rr_items x). ri_paymentItemId c \<in> i_id ` set (st_items t))"
    if "x \<in> set (st_refundRequests t)" for x
    using upsert_in [OF that [unfolded t]] old [of x] old [of r] find_request_in [OF r] q
    by (auto simp: request_ok_def)
  moreover have "distinct (map rr_id (st_refundRequests t))" unfolding t using d by (rule distinct_upsert)
  ultimately show ?thesis by (auto simp: image_iff) (metis image_iff)
qed

lemma reject_quantities:
  assumes ok: "quantities_ok s" and r: "find_request s (rr_id q) = Some r" "rr_status r = RR_PENDING"
    and q: "rr_items q = rr_items r" "rr_paymentId q = rr_paymentId r" "rr_status q = RR_REJECTED"
  shows "quantities_ok (save_request q s)"
proof -
  let ?t = "save_request q s"
  have t: "st_refundRequests ?t = upsert rr_id q (st_refundRequests s)" "st_items ?t = st_items s"
    by (simp_all add: save_request_def)
  have "request_ok r" using ok find_request_in [OF r(1)] by (auto simp: quantities_ok_def)
  then have ge: "0 \<le> part st pid i r" for st pid i by (simp add: part_def request_count_ge0)
  have zero: "part RR_APPROVED pid i r = 0" "part RR_APPROVED pid i q = 0" "part RR_PENDING pid i q = 0" for pid i
    using r(2) q(3) by (auto simp: part_def)
  have counts: "counted RR_APPROVED ?t pid i = counted RR_APPROVED s pid i"
    "counted RR_PENDING ?t pid i \<le> counted RR_PENDING s pid i" for pid i
    using ge [of RR_PENDING pid i] by (simp_all add: counted_replaced [OF t(1) r(1)] zero)
  have "i_refundCount i = counted RR_APPROVED ?t (i_paymentId i) (i_id i) \<and>
      i_refundCount i + counted RR_PENDING ?t (i_paymentId i) (i_id i) \<le> max 0 (i_quantity i)"
    if "i \<in> set (st_items s)" for i
    using quantities_item [OF ok that] counts [of "i_paymentId i" "i_id i"] by linarith
  moreover note resolved_requests [OF ok r(1) q(1) t(1)]
  moreover have "distinct (map i_id (st_items s))" using ok by (simp add: quantities_ok_def)
  ultimately show ?thesis unfolding quantities_ok_def t(2) by blast
qed

section \<open>Marking the items\<close>

lemma save_item_items: "st_items (save_item B i s) = upsert i_id (item_columns B i) (st_items s)"
  "st_refundRequests (save_item B i s) = st_refundRequests s"
  by (simp_all add: save_item_def)

definition marked :: "bigjs \<Rightarrow> refund_request_item_row list \<Rightarrow> item_row \<Rightarrow> item_row" where
  "marked B cs i = (case List.find (\<lambda>c. ri_paymentItemId c = i_id i) cs of
     None \<Rightarrow> i | Some c \<Rightarrow> item_columns B (refunded_item B i (ri_refundCount c)))"

lemma refunded_item_id [simp]: "i_id (refunded_item B i n) = i_id i"
  by (simp add: refunded_item_def Let_def)

lemma marked_items:
  assumes "updateOriginalItemsRefundState B items cs s = (t, Inr ())"
    and "distinct (map ri_paymentItemId cs)" "distinct (map i_id (st_items s))"
    and "\<And>c i. c \<in> set cs \<Longrightarrow> getPaymentItem items (ri_paymentItemId c) = Inr i \<Longrightarrow> i \<in> set (st_items s) \<and> i_id i = ri_paymentItemId c"
  shows "st_items t = map (marked B cs) (st_items s) \<and> st_refundRequests t = st_refundRequests s \<and>
    st_payments t = st_payments s \<and> st_seq t = st_seq s"
  using assms
  unfolding updateOriginalItemsRefundState_def
proof (induction cs arbitrary: s)
  case Nil
  then show ?case by (simp add: marked_def)
next
  case (Cons c cs)
  let ?f = "\<lambda>i. item_columns B (refunded_item B i (ri_refundCount c))"
  from Cons.prems(1) obtain i where i: "getPaymentItem items (ri_paymentItemId c) = Inr i"
    and rest: "forS cs (\<lambda>c. bindS (liftS (getPaymentItem items (ri_paymentItemId c)))
        (\<lambda>item. modifyS (save_item B (refunded_item B item (ri_refundCount c)))))
      (save_item B (refunded_item B i (ri_refundCount c)) s) = (t, Inr ())"
    by (auto simp: res_simps)
  let ?u = "save_item B (refunded_item B i (ri_refundCount c)) s"
  have in_s: "i \<in> set (st_items s)" "i_id i = ri_paymentItemId c" using Cons.prems(4) [OF _ i] by auto
  have u: "st_items ?u = map (\<lambda>x. if i_id x = ri_paymentItemId c then ?f i else x) (st_items s)"
    using upsert_map [of i_id "st_items s" "?f i"] Cons.prems(3) in_s imageI [OF in_s(1), of i_id]
    by (simp add: save_item_items)
  have ids: "map i_id (st_items ?u) = map i_id (st_items s)" using in_s(2) by (auto simp: u)
  have "st_items t = map (marked B cs) (st_items ?u) \<and> st_refundRequests t = st_refundRequests ?u \<and>
      st_payments t = st_payments ?u \<and> st_seq t = st_seq ?u"
  proof (rule Cons.IH [OF rest])
    fix d j
    assume d: "d \<in> set cs" "getPaymentItem items (ri_paymentItemId d) = Inr j"
    then have j: "j \<in> set (st_items s)" "i_id j = ri_paymentItemId d" using Cons.prems(4) [of d j] by auto
    moreover have "ri_paymentItemId d \<noteq> ri_paymentItemId c"
      using Cons.prems(2) imageI [OF d(1), of ri_paymentItemId] by auto
    ultimately show "j \<in> set (st_items ?u) \<and> i_id j = ri_paymentItemId d"
      by (auto simp: u image_iff)
  qed (use Cons.prems(2,3) in \<open>simp_all add: ids\<close>)
  moreover have "map (marked B cs) (st_items ?u) = map (marked B (c # cs)) (st_items s)"
  proof -
    have "marked B cs (if i_id x = ri_paymentItemId c then ?f i else x) = marked B (c # cs) x"
      if x: "x \<in> set (st_items s)" for x
    proof (cases "i_id x = ri_paymentItemId c")
      case True
      with x in_s Cons.prems(3) have "x = i" by (auto simp: distinct_map inj_on_def)
      moreover have "List.find (\<lambda>d. ri_paymentItemId d = ri_paymentItemId c) cs = None"
        using Cons.prems(2) by (intro find_key_absent) simp
      ultimately show ?thesis using True by (simp add: marked_def)
    qed (auto simp: marked_def)
    then show ?thesis unfolding u by simp
  qed
  ultimately show ?case by (simp add: save_item_items)
qed

text \<open>The amounts and counts of an item that is in range survive its columns.\<close>

lemma marked_counts:
  assumes num: "numbers_ok B M" and i: "dec4 (i_quantity i)" "\<bar>i_quantity i\<bar> \<le> M / 4"
    and r: "dec4 (i_refundCount i)" "0 \<le> i_refundCount i"
    and cs: "\<And>c. c \<in> set cs \<Longrightarrow> ri_paymentItemId c = i_id i \<Longrightarrow>
      0 < ri_refundCount c \<and> dec4 (ri_refundCount c) \<and> i_refundCount i + ri_refundCount c \<le> M"
    and d: "distinct (map ri_paymentItemId cs)"
  shows "i_id (marked B cs i) = i_id i" "i_paymentId (marked B cs i) = i_paymentId i"
    "i_quantity (marked B cs i) = i_quantity i"
    "i_refundCount (marked B cs i) =
       i_refundCount i + (\<Sum>c\<leftarrow>cs. if ri_paymentItemId c = i_id i then ri_refundCount c else 0)"
proof -
  have B: "bigjs_ok B" "num_exact B M" "1 \<le> M" using num by (auto simp: numbers_ok_def)
  have q: "money B (i_quantity i) = i_quantity i"
    using i B(3) by (intro money_exact [OF B(1,2)]) auto
  show "i_id (marked B cs i) = i_id i" "i_paymentId (marked B cs i) = i_paymentId i"
    "i_quantity (marked B cs i) = i_quantity i"
    using q by (auto simp: marked_def refunded_item_def item_columns_def Let_def split: option.splits)
  show "i_refundCount (marked B cs i) =
      i_refundCount i + (\<Sum>c\<leftarrow>cs. if ri_paymentItemId c = i_id i then ri_refundCount c else 0)"
  proof (cases "List.find (\<lambda>c. ri_paymentItemId c = i_id i) cs")
    case None
    then have "i_id i \<notin> ri_paymentItemId ` set cs" by (auto simp: find_None_iff)
    with None show ?thesis by (simp add: marked_def sum_list_key_absent)
  next
    case (Some c)
    then have c: "c \<in> set cs" "ri_paymentItemId c = i_id i" by (auto dest: find_Some_in)
    note good = cs [OF c]
    have "addN B [i_refundCount i, ri_refundCount c] = i_refundCount i + ri_refundCount c"
      using good r by (intro addN2_exact [OF B(1,2)]) auto
    moreover have "money B (i_refundCount i + ri_refundCount c) = i_refundCount i + ri_refundCount c"
      using good r by (intro money_exact [OF B(1,2)]) auto
    moreover have "(\<Sum>c\<leftarrow>cs. if ri_paymentItemId c = i_id i then ri_refundCount c else 0) = ri_refundCount c"
      using sum_list_key_single [OF d c(1)] c(2) by simp
    ultimately show ?thesis using Some by (simp add: marked_def refunded_item_def item_columns_def Let_def)
  qed
qed

lemma forS_lookup:
  "forS cs (\<lambda>c. bindS (liftS (g c)) (f c)) s = (t, Inr ()) \<Longrightarrow> c \<in> set cs \<Longrightarrow> \<exists>j. g c = Inr j"
  by (induction cs arbitrary: s) (auto simp: res_simps)

text \<open>A completion that returns: the request was pending, its items are marked and it is approved.\<close>

lemma finish_refund_effect:
  assumes run: "finish_refund E initial token a note s = (t, Inr x)" and ok: "quantities_ok s"
  obtains r q where "find_request s (rr_id initial) = Some r" "rr_status r = RR_PENDING"
    "q = r\<lparr>rr_status := RR_APPROVED, rr_resolvedByAccountId := Some a, rr_resolutionNote := note\<rparr>"
    "st_items t = map (marked (env_big E) (rr_items r)) (st_items s)"
    "st_refundRequests t = upsert rr_id q (st_refundRequests s)" "st_seq t = st_seq s"
    "\<And>c. c \<in> set (rr_items r) \<Longrightarrow> \<exists>j. getPaymentItem (items_of s (rr_paymentId initial)) (ri_paymentItemId c) = Inr j"
proof -
  let ?B = "env_big E"
  let ?pid = "rr_paymentId initial"
  from run obtain payment where "(\<lambda>payment items.
       bindS (guardS (p_refundApprovalToken payment \<noteq> Some token)
         (Conflict ''Refund approval lease changed; retry the same request'')) (\<lambda>_.
       bindS (readS (\<lambda>s. find_request s (rr_id initial))) (\<lambda>found.
       bindS (liftS (of_option (JsError ''EntityNotFoundError'') found)) (\<lambda>request.
       bindS (liftS (assertPendingRefundRequest request)) (\<lambda>_.
       bindS (liftS (assertPaymentIsRefundable payment)) (\<lambda>_.
       bindS (liftS (validateRefundItems ?B items (inputs_of request))) (\<lambda>_.
       bindS (updateOriginalItemsRefundState ?B items (rr_items request)) (\<lambda>_.
       bindS (resolveRefundRequest request a RR_APPROVED note) (\<lambda>result.
       bindS (modifyS (set_lease (p_id payment) None None)) (\<lambda>_.
       returnS result)))))))))) payment (items_of s ?pid) s = (t, Inr x)"
    unfolding finish_refund_def by (rule withPaymentLock_cases) auto
  then obtain r u q p where
    r: "find_request s (rr_id initial) = Some r" "rr_status r = RR_PENDING"
    and mark: "updateOriginalItemsRefundState ?B (items_of s ?pid) (rr_items r) s = (u, Inr ())"
    and q: "q = r\<lparr>rr_status := RR_APPROVED, rr_resolvedByAccountId := Some a, rr_resolutionNote := note\<rparr>"
    and t: "t = set_lease p None None (save_request q u)"
    unfolding resolveRefundRequest_def Let_def assertPendingRefundRequest_def by (auto simp: res_simps)
  have "request_ok r" using ok find_request_in [OF r(1)] by (auto simp: quantities_ok_def)
  then have dr: "distinct (map ri_paymentItemId (rr_items r))" by (simp add: request_ok_def)
  have di: "distinct (map i_id (st_items s))" using ok by (simp add: quantities_ok_def)
  have u: "st_items u = map (marked ?B (rr_items r)) (st_items s)" "st_refundRequests u = st_refundRequests s"
    "st_seq u = st_seq s"
    using marked_items [OF mark dr di] getPaymentItem_in by blast+
  have rows: "st_items t = map (marked ?B (rr_items r)) (st_items s)"
    "st_refundRequests t = upsert rr_id q (st_refundRequests s)" "st_seq t = st_seq s"
    by (simp_all add: t set_lease_def save_request_def u)
  have "\<exists>j. getPaymentItem (items_of s ?pid) (ri_paymentItemId c) = Inr j" if "c \<in> set (rr_items r)" for c
    using mark that unfolding updateOriginalItemsRefundState_def by (rule forS_lookup)
  with r q rows show ?thesis by (rule that)
qed

lemma finish_quantities:
  assumes run: "finish_refund E initial token a note s = (t, Inr x)"
    and pid: "\<And>r. find_request s (rr_id initial) = Some r \<Longrightarrow> rr_paymentId r = rr_paymentId initial"
    and ok: "quantities_ok s" "ids_drawn U s"
    and num: "numbers_ok (env_big E) M" "in_range M s (rr_paymentId initial)"
  shows "quantities_ok t \<and> ids_drawn U t"
proof -
  let ?B = "env_big E"
  let ?pid = "rr_paymentId initial"
  from finish_refund_effect [OF run ok(1)] obtain r q where
    r: "find_request s (rr_id initial) = Some r" "rr_status r = RR_PENDING"
    and q: "q = r\<lparr>rr_status := RR_APPROVED, rr_resolvedByAccountId := Some a, rr_resolutionNote := note\<rparr>"
    and rows: "st_items t = map (marked ?B (rr_items r)) (st_items s)"
      "st_refundRequests t = upsert rr_id q (st_refundRequests s)" "st_seq t = st_seq s"
    and lookup: "\<And>c. c \<in> set (rr_items r) \<Longrightarrow> \<exists>j. getPaymentItem (items_of s ?pid) (ri_paymentItemId c) = Inr j"
    by blast
  have r_pid: "rr_paymentId r = ?pid" and r_in: "r \<in> set (st_refundRequests s)" and r_id: "rr_id r = rr_id initial"
    using pid [OF r(1)] find_request_in [OF r(1)] by auto
  then have r_ok: "request_ok r" using ok(1) by (auto simp: quantities_ok_def)
  then have dr: "distinct (map ri_paymentItemId (rr_items r))" by (simp add: request_ok_def)
  have di: "distinct (map i_id (st_items s))" using ok(1) by (simp add: quantities_ok_def)
  have marked_id: "i_id (marked ?B cs i) = i_id i" for cs i
    by (simp add: marked_def split: option.splits)
  have ids: "map i_id (st_items t) = map i_id (st_items s)" by (simp add: rows(1) marked_id)
  then have id_set: "i_id ` set (st_items t) = i_id ` set (st_items s)" by (metis set_map)
  have found: "find_request s (rr_id q) = Some r" by (simp add: q r(1) r_id)
  have requests: "distinct (map rr_id (st_refundRequests t)) \<and> (\<forall>x \<in> set (st_refundRequests t). request_ok x \<and>
      (\<forall>c \<in> set (rr_items x). \<exists>i \<in> set (st_items t). i_id i = ri_paymentItemId c))"
    by (rule resolved_requests [OF ok(1) found _ rows(2) id_set]) (simp add: q)
  have approved: "counted RR_APPROVED t p i = counted RR_APPROVED s p i + (if p = ?pid then request_count i r else 0)" for p i
    using r(2) r_pid by (simp add: counted_replaced [OF rows(2) found] part_def q request_count_def)
  have pending: "counted RR_PENDING t p i = counted RR_PENDING s p i - (if p = ?pid then request_count i r else 0)" for p i
    using r(2) r_pid by (simp add: counted_replaced [OF rows(2) found] part_def q request_count_def)
  have item: "i_refundCount (marked ?B (rr_items r) i) = counted RR_APPROVED t (i_paymentId i) (i_id i) \<and>
      i_refundCount (marked ?B (rr_items r) i) + counted RR_PENDING t (i_paymentId i) (i_id i) \<le> max 0 (i_quantity i) \<and>
      i_paymentId (marked ?B (rr_items r) i) = i_paymentId i \<and> i_quantity (marked ?B (rr_items r) i) = i_quantity i"
    if i: "i \<in> set (st_items s)" for i
  proof (cases "i_id i \<in> ri_paymentItemId ` set (rr_items r)")
    case False
    then have "List.find (\<lambda>c. ri_paymentItemId c = i_id i) (rr_items r) = None" by (rule find_key_absent)
    then have "marked ?B (rr_items r) i = i" by (simp add: marked_def)
    with quantities_item [OF ok(1) i] request_count_absent [OF False] show ?thesis
      by (auto simp: approved pending)
  next
    case True
    then obtain c where c: "c \<in> set (rr_items r)" "ri_paymentItemId c = i_id i" by auto
    from lookup [OF c(1)] obtain j where "j \<in> set (st_items s)" "i_paymentId j = ?pid" "i_id j = i_id i"
      using getPaymentItem_in c(2) by metis
    with i di have i_pid: "i_paymentId i = ?pid" by (auto simp: distinct_map inj_on_def)
    have range: "dec4 (i_quantity i)" "\<bar>i_quantity i\<bar> \<le> M / 4"
      using num(2) i i_pid by (auto simp: in_range_def items_of_def)
    note counts = quantities_counts [OF ok(1) i]
    have "0 \<le> counted RR_PENDING t ?pid (i_id i)" using requests by (intro counted_ge0) blast
    then have room: "i_refundCount i + request_count (i_id i) r \<le> M"
      using quantities_item(2) [OF ok(1) i] range num(1) counts(2)
      by (auto simp: pending i_pid numbers_ok_def abs_if split: if_splits)
    have lines: "0 < ri_refundCount d \<and> dec4 (ri_refundCount d) \<and> i_refundCount i + ri_refundCount d \<le> M"
      if "d \<in> set (rr_items r)" "ri_paymentItemId d = i_id i" for d
      using r_ok that room request_count_single [OF dr that(1)] by (auto simp: request_ok_def)
    note m = marked_counts [OF num(1) range counts(1,2) lines dr]
    have "i_refundCount (marked ?B (rr_items r) i) = i_refundCount i + request_count (i_id i) r"
      using m(4) by (simp add: request_count_def)
    with quantities_item [OF ok(1) i] m(2,3) show ?thesis by (simp add: approved pending i_pid)
  qed
  have "i_refundCount j = counted RR_APPROVED t (i_paymentId j) (i_id j) \<and>
      i_refundCount j + counted RR_PENDING t (i_paymentId j) (i_id j) \<le> max 0 (i_quantity j)"
    if "j \<in> set (st_items t)" for j
  proof -
    from that obtain i where i: "i \<in> set (st_items s)" "j = marked ?B (rr_items r) i" by (auto simp: rows(1))
    show ?thesis using item [OF i(1)] unfolding i(2) marked_id by metis
  qed
  moreover have "distinct (map i_id (st_items t))" unfolding ids by (rule di)
  ultimately have "quantities_ok t"
    unfolding quantities_ok_def using requests by blast
  moreover have "ids_drawn U t"
  proof -
    have "rr_id ` set (st_refundRequests t) \<subseteq> insert (rr_id q) (rr_id ` set (st_refundRequests s))"
      using set_upsert_subset [of rr_id q "st_refundRequests s"] unfolding rows(2) by auto
    also have "\<dots> = rr_id ` set (st_refundRequests s)" using r_in by (auto simp: q)
    finally show ?thesis
      using ok(2) unfolding ids_drawn_def id_set rows(3) Un_subset_iff by (meson subset_trans)
  qed
  ultimately show ?thesis by blast
qed

end
