(* ===== verification/Refund_Quantities.thy ===== *)
theory Refund_Quantities
  imports Refund_Invariants
begin

text \<open>
  Runs of the refund service: its transactions in any order, with anything else between them, and the
  bound on what they refund.
\<close>

section \<open>What the other services do\<close>

definition request_core :: "refund_request_row \<Rightarrow> string \<times> string \<times> refund_status \<times> refund_request_item_row list" where
  "request_core r = (rr_id r, rr_paymentId r, rr_status r, rr_items r)"

text \<open>The requests are the same but for their plans and notes; items were only added, not refunded yet.\<close>

definition leaves_refunds :: "(nat \<Rightarrow> string) \<Rightarrow> store \<Rightarrow> store \<Rightarrow> bool" where
  "leaves_refunds U s t \<longleftrightarrow> st_seq s \<le> st_seq t \<and>
     map request_core (st_refundRequests t) = map request_core (st_refundRequests s) \<and>
     (\<exists>new. st_items t = st_items s @ new \<and> (\<forall>i \<in> set new. i_refundCount i = 0) \<and>
        distinct (map i_id new) \<and> i_id ` set new \<subseteq> U ` {st_seq s..<st_seq t})"

lemma leaves_refl [simp]: "leaves_refunds U s s"
  by (auto simp: leaves_refunds_def)

interpretation leaves: refunds_only "leaves_refunds U s" for U s
proof
  fix t u :: store
  assume t: "leaves_refunds U s t" and u: "st_items u = st_items t"
    "st_refundRequests u = st_refundRequests t" "st_seq t \<le> st_seq u"
  have "U ` {st_seq s..<st_seq t} \<subseteq> U ` {st_seq s..<st_seq u}" using u(3) by (intro image_mono) auto
  with t u show "leaves_refunds U s u" unfolding leaves_refunds_def by (metis order_trans)
qed

lemma request_sums:
  assumes "map request_core rs = map request_core rs'"
  shows "(\<Sum>r\<leftarrow>rs. part st pid i r) = (\<Sum>r\<leftarrow>rs'. part st pid i r)"
proof -
  have "\<exists>f. \<forall>r. part st pid i r = f (request_core r)"
    by (intro exI [of _ "\<lambda>(k, p, q, cs). if q = st \<and> p = pid
        then \<Sum>c\<leftarrow>cs. if ri_paymentItemId c = i then ri_refundCount c else 0 else 0"])
      (simp add: part_def request_count_def request_core_def)
  then obtain f where "part st pid i = f \<circ> request_core" by (auto simp: comp_def)
  then show ?thesis using assms by (metis map_map)
qed

lemma core_rows:
  assumes "map request_core rs = map request_core rs'" "r \<in> set rs"
  obtains r' where "r' \<in> set rs'" "rr_items r' = rr_items r"
proof -
  have "request_core r \<in> request_core ` set rs'"
    using assms(2) arg_cong [OF assms(1), of set] by (metis image_eqI set_map)
  then show ?thesis by (auto simp: request_core_def intro: that)
qed

lemma leaves_quantities:
  assumes ok: "quantities_ok s" "ids_drawn U s" and U: "inj U" and t: "leaves_refunds U s t"
  shows "quantities_ok t \<and> ids_drawn U t"
proof -
  from t obtain new where core: "map request_core (st_refundRequests t) = map request_core (st_refundRequests s)"
    and items: "st_items t = st_items s @ new" and new: "\<forall>i \<in> set new. i_refundCount i = 0" "distinct (map i_id new)"
      "i_id ` set new \<subseteq> U ` {st_seq s..<st_seq t}" and seq: "st_seq s \<le> st_seq t"
    by (auto simp: leaves_refunds_def)
  have counts: "counted st t pid i = counted st s pid i" for st pid i
    unfolding counted_parts by (rule request_sums [OF core])
  have fresh: "i_id ` set (st_items s) \<inter> i_id ` set new = {}"
  proof -
    have "U ` {..<st_seq s} \<inter> U ` {st_seq s..<st_seq t} = {}" using U by (auto dest: injD)
    then show ?thesis using ok(2) new(3) unfolding ids_drawn_def by blast
  qed
  have reqs: "request_ok r \<and> (\<forall>c \<in> set (rr_items r). \<exists>i \<in> set (st_items s). i_id i = ri_paymentItemId c)"
    if "r \<in> set (st_refundRequests t)" for r
  proof -
    from core_rows [OF core that] obtain r' where "r' \<in> set (st_refundRequests s)" "rr_items r' = rr_items r" .
    with ok(1) show ?thesis unfolding quantities_ok_def request_ok_def by metis
  qed
  have none: "counted st s pid (i_id i) = 0" if i: "i \<in> set new" for st pid i
  proof -
    have "request_count (i_id i) r = 0" if "r \<in> set (st_refundRequests s)" for r
    proof (rule request_count_absent)
      show "i_id i \<notin> ri_paymentItemId ` set (rr_items r)"
      proof
        assume "i_id i \<in> ri_paymentItemId ` set (rr_items r)"
        with ok(1) that obtain j where "j \<in> set (st_items s)" "i_id j = i_id i"
          unfolding quantities_ok_def by (metis imageE)
        with i fresh show False by (metis disjoint_iff imageI)
      qed
    qed
    then have "map (part st pid (i_id i)) (st_refundRequests s) = map (\<lambda>_. 0) (st_refundRequests s)"
      by (intro map_cong) (auto simp: part_def)
    then show ?thesis unfolding counted_parts by (simp only: sum_list_0)
  qed
  have item: "i_refundCount i = counted RR_APPROVED t (i_paymentId i) (i_id i) \<and>
      i_refundCount i + counted RR_PENDING t (i_paymentId i) (i_id i) \<le> max 0 (i_quantity i)"
    if "i \<in> set (st_items t)" for i
  proof (cases "i \<in> set (st_items s)")
    case True
    from quantities_item [OF ok(1) True] show ?thesis by (simp add: counts)
  next
    case False
    with that have "i \<in> set new" by (simp add: items)
    with new(1) none show ?thesis by (simp add: counts)
  qed
  have "map rr_id rs = map fst (map request_core rs)" for rs by (simp add: request_core_def)
  then have ids: "map rr_id (st_refundRequests t) = map rr_id (st_refundRequests s)" using core by metis
  have "distinct (map i_id (st_items t))"
    using ok(1) new(2) fresh by (simp add: items quantities_ok_def)
  moreover have "distinct (map rr_id (st_refundRequests t))" using ok(1) by (simp add: ids quantities_ok_def)
  moreover have "\<exists>i \<in> set (st_items t). i_id i = ri_paymentItemId c"
    if "r \<in> set (st_refundRequests t)" "c \<in> set (rr_items r)" for r c
    using reqs [OF that(1)] that(2) by (auto simp: items)
  ultimately have "quantities_ok t" unfolding quantities_ok_def using reqs item by blast
  moreover have "ids_drawn U t"
  proof -
    have "U ` {..<st_seq s} \<subseteq> U ` {..<st_seq t}" "U ` {st_seq s..<st_seq t} \<subseteq> U ` {..<st_seq t}"
      using seq by auto
    moreover have "rr_id ` set (st_refundRequests t) = rr_id ` set (st_refundRequests s)"
      using arg_cong [OF ids, of set] by simp
    ultimately show ?thesis
      using ok(2) new(3) unfolding ids_drawn_def by (simp add: items image_Un) (meson subset_trans)
  qed
  ultimately show ?thesis by blast
qed

section \<open>Creating a refund payment leaves the refunds\<close>

lemma insert_item_leaves:
  assumes U: "inj (env_uuid E)" and B: "bigjs_ok (env_big E)" and s: "ids_drawn (env_uuid E) s"
    and i: "i_refundCount item = 0"
  shows "preserves (leaves_refunds (env_uuid E) s) (insert_item E pid item)"
proof (rule preservesI)
  fix t u r
  assume t: "leaves_refunds (env_uuid E) s t" and run: "insert_item E pid item t = (u, r)"
  let ?U = "env_uuid E"
  let ?i = "item_columns (env_big E) (item\<lparr>i_id := ?U (st_seq t), i_paymentId := pid\<rparr>)"
  from run have u: "u = (t\<lparr>st_seq := Suc (st_seq t)\<rparr>)\<lparr>st_items := upsert i_id ?i (st_items t)\<rparr>"
    by (auto simp: insert_item_def bindS_def newId_def modifyS_def save_item_def)
  from t obtain new where new: "st_items t = st_items s @ new" "\<forall>i \<in> set new. i_refundCount i = 0"
      "distinct (map i_id new)" "i_id ` set new \<subseteq> ?U ` {st_seq s..<st_seq t}" "st_seq s \<le> st_seq t"
    and core: "map request_core (st_refundRequests t) = map request_core (st_refundRequests s)"
    by (auto simp: leaves_refunds_def)
  have "?U (st_seq t) \<notin> ?U ` {..<st_seq s} \<union> ?U ` {st_seq s..<st_seq t}"
    using U new(5) by (auto dest: injD)
  then have fresh: "?U (st_seq t) \<notin> i_id ` set (st_items s)" "?U (st_seq t) \<notin> i_id ` set new"
    using s new(4) unfolding ids_drawn_def by blast+
  have id: "i_id ?i = ?U (st_seq t)" by simp
  have zero: "i_refundCount ?i = 0"
    using i B by (simp add: item_columns_def money_def big_round_ok big_num_0 round_dec_id)
  have "st_items u = st_items s @ (new @ [?i])"
    using fresh by (simp add: u new(1) upsert_fresh id image_Un)
  moreover have "distinct (map i_id (new @ [?i]))" using new(3) fresh(2) by simp
  moreover have "i_id ` set (new @ [?i]) \<subseteq> ?U ` {st_seq s..<st_seq u}"
  proof -
    have "?U ` {st_seq s..<st_seq u} = insert (?U (st_seq t)) (?U ` {st_seq s..<st_seq t})"
      using new(5) by (simp add: u atLeastLessThanSuc)
    with new(4) show ?thesis by auto
  qed
  moreover have "\<forall>i \<in> set (new @ [?i]). i_refundCount i = 0" using new(2) zero by auto
  ultimately show "leaves_refunds ?U s u"
    unfolding leaves_refunds_def using core new(5) by (auto simp: u)
qed

definition unrefunded :: "item_row list \<Rightarrow> bool" where
  "unrefunded items \<longleftrightarrow> (\<forall>i \<in> set items. i_refundCount i = 0)"

lemma unrefunded_simps [simp]:
  "unrefunded []" "unrefunded (xs @ ys) \<longleftrightarrow> unrefunded xs \<and> unrefunded ys"
  "unrefunded (x # xs) \<longleftrightarrow> i_refundCount x = 0 \<and> unrefunded xs"
  by (auto simp: unrefunded_def)

context refunds_only begin

lemma snapshots_unrefunded:
  assumes "unrefunded items"
  shows "triple P (applyItemSellerSnapshots E items) (\<lambda>r s. P s \<and> unrefunded r) P"
proof -
  have "triple P (seller_snapshot E item) (\<lambda>r s. P s \<and> i_refundCount r = 0) P" if "i_refundCount item = 0" for item
    unfolding seller_snapshot_def
    by (intro triple_bind triple_bind_keep [OF keep_newId] triple_last) (use that in simp_all)
  note one = triple_bindS [OF this]
  have "triple (\<lambda>s. P s \<and> unrefunded [])
      (foldS (\<lambda>acc item. bindS (seller_snapshot E item) (\<lambda>item'. returnS (acc @ [item']))) [] items)
      (\<lambda>r s. P s \<and> unrefunded r) P"
    by (rule triple_foldS, rule triple_pure, rule one)
      (use assms in \<open>auto simp: unrefunded_def intro!: triple_last\<close>)
  then show ?thesis by (simp add: applyItemSellerSnapshots_def)
qed

lemma generate_unrefunded:
  "triple P (generateEntityFromInitDto E C pdto rc) (\<lambda>d s. P s \<and> unrefunded (fst (snd d))) P"
proof -
  have start: "unrefunded (map item_toEntity items)" for items
    by (auto simp: unrefunded_def item_toEntity_def new_item_def)
  have session: "preserves P (session_for E pdto)"
    unfolding session_for_def generateActiveSessionId_def
    by (intro keep preservesI [of P "\<lambda>s. draw_session (length (st_payments s) + 2) E s"])
      (rule preservesD [OF keep_draw])
  show ?thesis
    unfolding generateEntityFromInitDto_def
    by (rule triple_bind, rule triple_bind_keep [OF session], (rule triple_bind)+,
        rule triple_bindS [OF snapshots_unrefunded [OF start]], rule triple_pure,
        rule triple_bind_keep [OF keep_snapshots(2)], rule triple_bind_keep [OF keep_snapshots(3)])
      (auto intro!: triple_last)
qed

end

lemma upsert_same_core:
  "by_key rr_id rs (rr_id q) = Some r \<Longrightarrow> request_core q = request_core r \<Longrightarrow>
     map request_core (upsert rr_id q rs) = map request_core rs"
  by (induction rs) (auto simp: by_key_def request_core_def split: if_splits)

lemma insert_payment_leaves:
  assumes "inj (env_uuid E)" "bigjs_ok (env_big E)" "ids_drawn (env_uuid E) s" "unrefunded (fst (snd d))"
  shows "triple (leaves_refunds (env_uuid E) s) (insert_payment E d)
    (\<lambda>_. leaves_refunds (env_uuid E) s) (leaves_refunds (env_uuid E) s)"
proof -
  obtain p items taxes where d: "d = (p, items, taxes)" by (rule prod_cases3)
  have items: "triple (leaves_refunds (env_uuid E) s) (forS items (insert_item E pid))
      (\<lambda>_. leaves_refunds (env_uuid E) s) (leaves_refunds (env_uuid E) s)" for pid
    by (rule triple_forS) (use assms d in \<open>auto simp: triple_preserves unrefunded_def intro: insert_item_leaves\<close>)
  have taxes: "preserves (leaves_refunds (env_uuid E) s) (forS taxes (insert_tax E pid))" for pid
    unfolding insert_tax_def by (intro leaves.keep)
  show ?thesis
    unfolding insert_payment_def d prod.case
    by (rule triple_bind_keep [OF leaves.keep_newId], rule triple_bind_modifyS, erule leaves.row_writes,
        rule triple_bindS [OF items], rule triple_bind_keep [OF taxes]) (auto intro!: triple_last)
qed

lemma book_refund_leaves:
  assumes E: "inj (env_uuid E)" "bigjs_ok (env_big E)" "ids_drawn (env_uuid E) s"
    and x: "\<And>plan d. x = Some (plan, d) \<Longrightarrow> unrefunded (fst (snd d))"
  shows "triple (leaves_refunds (env_uuid E) s) (book_refund E req x)
    (\<lambda>_. leaves_refunds (env_uuid E) s) (leaves_refunds (env_uuid E) s)"
proof -
  let ?P = "leaves_refunds (env_uuid E) s"
  have plan: "?P (save_request (r\<lparr>rr_channelRefundPlan := plan\<rparr>) u)"
    if "?P u" "find_request u k = Some r" for u k r plan
    using that find_request_in [OF that(2)] upsert_same_core [of "st_refundRequests u" "r\<lparr>rr_channelRefundPlan := plan\<rparr>" r]
    by (simp add: leaves_refunds_def save_request_def find_request_def request_core_def)
  have body: "triple (\<lambda>u. u = t)
      (bindS (modifyS (\<lambda>u. case find_request t k of None \<Rightarrow> u | Some r \<Rightarrow> save_request (r\<lparr>rr_channelRefundPlan := Some plan\<rparr>) u)) (\<lambda>_.
       bindS (insert_payment E d) (\<lambda>saved.
       bindS (readS (\<lambda>s. (find_payment s (p_id saved), items_of s (p_id saved)))) (\<lambda>(found, items).
       bindS (liftS (of_option (JsError ''EntityNotFoundError'') found)) (\<lambda>full.
       bindS (generateSellerPaymentOrders E full items) (\<lambda>_.
       bindS (fromPayment E full items True) (\<lambda>_. returnS (saved, plan)))))))) (\<lambda>_. ?P) (\<lambda>_. True)"
    if t: "?P t" and d: "unrefunded (fst (snd d))" for t k plan d
    by (rule triple_bind_modifyS [of _ ?P], use t plan in \<open>auto split: option.splits\<close>,
        rule triple_weaken [of ?P _ "\<lambda>_. ?P" ?P], rule triple_bindS [OF insert_payment_leaves [OF E d]])
      (auto intro!: triple_keep leaves.keep leaves.keep_orders leaves.keep_transactions)
  have x': "unrefunded items" if "x = Some (plan, p, items, taxes)" for plan p items taxes
    using x [OF that] by simp
  show ?thesis
    unfolding book_refund_def
    by (rule triple_transactionS, rule triple_pre)
      (auto intro!: triple_bind triple_last body intro: x')
qed

lemma refund_payment_leaves:
  assumes E: "inj (env_uuid E)" "bigjs_ok (env_big E)" "ids_drawn (env_uuid E) s"
  shows "preserves (leaves_refunds (env_uuid E) s) (createRefundPayment E C req)"
proof -
  let ?P = "leaves_refunds (env_uuid E) s"
  let ?ready = "\<lambda>x u. ?P u \<and> (\<forall>plan d. x = Some (plan, d) \<longrightarrow> unrefunded (fst (snd d)))"
  have prepare: "triple ?P (prepare_refund_payment E C req original originals)
      (\<lambda>x u. ?P u \<and> unrefunded (fst (snd (snd x)))) ?P" for original originals
    unfolding prepare_refund_payment_def
    by (rule triple_bind_keep [OF leaves.keep_prepare], rule triple_bind,
        rule triple_bindS [OF leaves.generate_unrefunded], rule triple_pure)
      (auto intro!: triple_last)
  have prepared: "triple ?P
      (if existing = None then bindS (prepare_refund_payment E C req original originals) (\<lambda>x. returnS (Some x))
       else returnS None) ?ready ?P" for existing :: "payment_row option" and original originals
    by (rule triple_if, rule triple_bindS [OF prepare], rule triple_pure) (auto intro!: triple_last)
  have book: "triple ?P (book_refund E req x) (\<lambda>_. ?P) ?P"
    if "\<forall>plan d. x = Some (plan, d) \<longrightarrow> unrefunded (fst (snd d))" for x
    by (rule book_refund_leaves [OF E]) (use that in blast)
  have "triple ?P (createRefundPayment E C req) (\<lambda>_. ?P) ?P"
    unfolding createRefundPayment_def
    by (intro triple_bind triple_prod;
        (rule triple_bindS [OF prepared], rule triple_pure, rule triple_bindS, erule book)?)
      (auto intro!: triple_keep leaves.keep leaves.keep_start_refund)
  then show ?thesis by (simp add: triple_preserves)
qed

section \<open>Runs of the refund service\<close>

text \<open>
  The transactions of the refund service, which may run in any order and by any number of callers,
  and between them whatever leaves the refunds as they are (the creation of refund payments does, by
  \<open>refund_payment_leaves\<close>). An approval and a rejection carry the request they read first; the
  payment of a request never changes. The quantities of a purchase that is refunded are in range.
\<close>

inductive refund_step :: "env \<Rightarrow> rat \<Rightarrow> store \<Rightarrow> store \<Rightarrow> bool" for E M where
  create: "createRefundRequest E userId dto s = (t, r) \<Longrightarrow> in_range M s (cr_paymentId dto) \<Longrightarrow>
    refund_step E M s t"
| system: "withPaymentLock (cr_paymentId dto) (system_request E key dto) s = (t, r) \<Longrightarrow>
    in_range M s (cr_paymentId dto) \<Longrightarrow> refund_step E M s t"
| claim: "claim_refund E initial s = (t, r) \<Longrightarrow> refund_step E M s t"
| finish: "finish_refund E initial token actorId note s = (t, r) \<Longrightarrow>
    (\<And>x. find_request s (rr_id initial) = Some x \<Longrightarrow> rr_paymentId x = rr_paymentId initial) \<Longrightarrow>
    in_range M s (rr_paymentId initial) \<Longrightarrow> refund_step E M s t"
| release: "refund_step E M s (release_lease pid token s)"
| reject: "withPaymentLock pid (reject_locked E userId requestId note) s = (t, r) \<Longrightarrow> refund_step E M s t"
| payment: "createRefundPayment E C req s = (t, r) \<Longrightarrow> refund_step E M s t"
| elsewhere: "leaves_refunds (env_uuid E) s t \<Longrightarrow> refund_step E M s t"

definition refund_service_step :: "(nat \<Rightarrow> string) \<Rightarrow> rat \<Rightarrow> store \<Rightarrow> store \<Rightarrow> bool" where
  "refund_service_step U M s t \<longleftrightarrow>
     (\<exists>E. env_uuid E = U \<and> numbers_ok (env_big E) M \<and> refund_step E M s t)"

lemma leaves_same:
  "st_items t = st_items s \<Longrightarrow> st_refundRequests t = st_refundRequests s \<Longrightarrow> st_seq s \<le> st_seq t \<Longrightarrow>
     leaves_refunds U s t"
  by (rule leaves.frame [OF leaves_refl])

lemma claim_leaves: "claim_refund E initial s = (t, r) \<Longrightarrow> leaves_refunds U s t"
proof -
  have lease: "leaves_refunds U s (set_lease p a b u)" if "leaves_refunds U s u" for p a b u
    using that by (rule leaves.frame) (simp_all add: set_lease_def)
  have "preserves (leaves_refunds U s) (claim_refund E initial)"
    unfolding claim_refund_def withPaymentLock_def by (intro leaves.keep lease)
  then show "claim_refund E initial s = (t, r) \<Longrightarrow> leaves_refunds U s t"
    by (blast intro: preservesD leaves_refl)
qed

lemma locked_new_request:
  assumes "new_request E a key dto payment (items_of s (cr_paymentId dto)) s = (t, Inr x)"
    and "find_payment s (cr_paymentId dto) = Some payment"
    and "quantities_ok s" "ids_drawn (env_uuid E) s" "inj (env_uuid E)" "numbers_ok (env_big E) M"
    and "in_range M s (cr_paymentId dto)"
  shows "quantities_ok t \<and> ids_drawn (env_uuid E) t"
  using find_payment_in [OF assms(2)] by (intro new_request_quantities [OF assms(1) _ refl assms(3) assms(4) assms(5) assms(6) assms(7)]) simp

lemma reject_locked_quantities:
  assumes "reject_locked E a k note payment items s = (t, Inr x)" "quantities_ok s" "ids_drawn U s"
  shows "quantities_ok t \<and> ids_drawn U t"
proof -
  from assms(1) obtain r where r: "find_request s k = Some r" "rr_status r = RR_PENDING"
    and t: "t = save_request (r\<lparr>rr_status := RR_REJECTED, rr_resolvedByAccountId := Some a, rr_resolutionNote := note\<rparr>) s"
    by (auto simp: reject_locked_def resolveRefundRequest_def assertPendingRefundRequest_def res_simps Let_def)
  let ?q = "r\<lparr>rr_status := RR_REJECTED, rr_resolvedByAccountId := Some a, rr_resolutionNote := note\<rparr>"
  note rin = find_request_in [OF r(1)]
  have "quantities_ok (save_request ?q s)"
    by (rule reject_quantities [OF assms(2) _ r(2)]) (use r rin in auto)
  moreover have "ids_drawn U (save_request ?q s)"
  proof -
    have "rr_id ` set (upsert rr_id ?q (st_refundRequests s)) \<subseteq> rr_id ` set (st_refundRequests s)"
      using set_upsert_subset [of rr_id ?q "st_refundRequests s"] rin by auto
    with assms(3) show ?thesis
      unfolding ids_drawn_def Un_subset_iff by (simp add: save_request_def) (meson subset_trans)
  qed
  ultimately show ?thesis by (simp add: t)
qed

lemma step_quantities:
  assumes "refund_step E M s t" "quantities_ok s" "ids_drawn (env_uuid E) s" "inj (env_uuid E)"
    "numbers_ok (env_big E) M"
  shows "quantities_ok t \<and> ids_drawn (env_uuid E) t"
  using assms
proof (induction rule: refund_step.induct)
  case (create userId dto s t r)
  from create(1) [unfolded createRefundRequest_def] show ?case
    by (rule withPaymentLock_cases) (use create in \<open>auto dest: locked_new_request\<close>)
next
  case (system dto key s t r)
  from system(1) show ?case
  proof (rule withPaymentLock_cases)
    fix x payment
    assume "find_payment s (cr_paymentId dto) = Some payment"
      "system_request E key dto payment (items_of s (cr_paymentId dto)) s = (t, Inr x)"
    then show ?thesis using system
      by (auto simp: system_request_def res_simps split: option.splits if_splits dest: locked_new_request)
  qed (use system in simp)
next
  case (claim initial s t r)
  then show ?case by (intro leaves_quantities claim_leaves)
next
  case (finish initial token actorId n s t r)
  show ?case
  proof (cases r)
    case (Inl e)
    with finish(1) have "t = s" unfolding finish_refund_def by (auto elim: withPaymentLock_cases)
    with finish show ?thesis by simp
  next
    case (Inr x)
    with finish show ?thesis by (intro finish_quantities) auto
  qed
next
  case (release s pid token)
  have "leaves_refunds (env_uuid E) s (release_lease pid token s)"
    by (rule leaves_same) (simp_all add: release_lease_def)
  with release show ?case by (intro leaves_quantities)
next
  case (reject pid userId requestId n s t r)
  from reject(1) show ?case
    by (rule withPaymentLock_cases) (use reject in \<open>auto dest: reject_locked_quantities\<close>)
next
  case (payment C req s t r)
  then have "leaves_refunds (env_uuid E) s t"
    using preservesD [OF refund_payment_leaves _ payment(1)] by (auto simp: numbers_ok_def)
  with payment show ?case by (intro leaves_quantities)
next
  case (elsewhere s t)
  then show ?case by (intro leaves_quantities)
qed

end
