(* ===== verification/Refund_Amounts.thy ===== *)
theory Refund_Amounts
  imports Refund_Quantities
begin

text \<open>
  The amounts of refunds: requests that take an item's whole quantity refund exactly what was paid
  for it, since the last of them gets the rest instead of a rounded share.
\<close>

section \<open>What is taken of an item\<close>

definition taken :: "(refund_request_item_row \<Rightarrow> rat) \<Rightarrow> store \<Rightarrow> string \<Rightarrow> string \<Rightarrow> rat" where
  "taken f s pid i = (\<Sum>c\<leftarrow>reserved_items (reservations_of s pid) i. f c)"

definition amount_in :: "(refund_request_item_row \<Rightarrow> rat) \<Rightarrow> string \<Rightarrow> refund_request_item_row list \<Rightarrow> rat" where
  "amount_in f i cs = (\<Sum>c\<leftarrow>cs. if ri_paymentItemId c = i then f c else 0)"

definition request_share :: "(refund_request_item_row \<Rightarrow> rat) \<Rightarrow> string \<Rightarrow> string \<Rightarrow> refund_request_row \<Rightarrow> rat" where
  "request_share f pid i r =
     (if rr_paymentId r = pid \<and> rr_status r \<in> {RR_PENDING, RR_APPROVED} then amount_in f i (rr_items r) else 0)"

lemma amount_in_append [simp]: "amount_in f i (xs @ ys) = amount_in f i xs + amount_in f i ys"
  by (simp add: amount_in_def)

lemma amount_in_absent: "i \<notin> ri_paymentItemId ` set cs \<Longrightarrow> amount_in f i cs = 0"
  unfolding amount_in_def by (rule sum_list_key_absent)

lemma amount_in_single:
  "distinct (map ri_paymentItemId cs) \<Longrightarrow> c \<in> set cs \<Longrightarrow> amount_in f (ri_paymentItemId c) cs = f c"
  unfolding amount_in_def by (rule sum_list_key_single)

lemma reserved_amounts: "(\<Sum>c\<leftarrow>reserved_items rs i. f c) = (\<Sum>r\<leftarrow>rs. amount_in f i (rr_items r))"
proof (induction rs)
  case (Cons r rs)
  then show ?case by (simp add: reserved_items_def amount_in_def sum_list_filter)
qed (simp add: reserved_items_def)

lemma taken_shares: "taken f s pid i = (\<Sum>r\<leftarrow>st_refundRequests s. request_share f pid i r)"
  unfolding taken_def reserved_amounts reservations_of_def sum_list_filter request_share_def by simp

lemma taken_counts: "taken ri_refundCount s pid i = counted RR_APPROVED s pid i + counted RR_PENDING s pid i"
proof -
  have "request_share ri_refundCount pid i = (\<lambda>r. part RR_APPROVED pid i r + part RR_PENDING pid i r)"
    by (rule ext) (simp add: request_share_def part_def request_count_def amount_in_def)
  then show ?thesis unfolding taken_shares counted_parts by (simp only: sum_list_addf)
qed

lemma taken_append:
  "st_refundRequests t = st_refundRequests s @ [r] \<Longrightarrow> taken f t pid i = taken f s pid i + request_share f pid i r"
  by (simp add: taken_shares)

lemma taken_replaced:
  assumes "st_refundRequests t = upsert rr_id q (st_refundRequests s)"
    and "find_request s (rr_id q) = Some r"
  shows "taken f t pid i = taken f s pid i - request_share f pid i r + request_share f pid i q"
  using assms unfolding taken_shares find_request_def by (simp add: sum_list_upsert_old)

lemma taken_core:
  assumes "map request_core (st_refundRequests t) = map request_core (st_refundRequests s)"
  shows "taken f t pid i = taken f s pid i"
proof -
  have "\<exists>g. \<forall>r. request_share f pid i r = g (request_core r)"
    by (intro exI [of _ "\<lambda>(k, p, q, cs). if p = pid \<and> q \<in> {RR_PENDING, RR_APPROVED} then amount_in f i cs else 0"])
      (simp add: request_share_def request_core_def)
  then obtain g where "request_share f pid i = g \<circ> request_core" by (auto simp: comp_def)
  then show ?thesis using assms unfolding taken_shares by (metis map_map)
qed

lemma taken_bound:
  "quantities_ok s \<Longrightarrow> i \<in> set (st_items s) \<Longrightarrow> taken ri_refundCount s (i_paymentId i) (i_id i) \<le> max 0 (i_quantity i)"
  using quantities_item [of s i] by (simp add: taken_counts)

section \<open>The invariant\<close>

definition exact_item :: "store \<Rightarrow> item_row \<Rightarrow> bool" where
  "exact_item s i \<longleftrightarrow>
     taken ri_refundAmount s (i_paymentId i) (i_id i) = i_totalAmount i \<and>
     taken ri_refundAmountWithoutTax s (i_paymentId i) (i_id i) = i_unTaxAmount i"

definition fully_taken :: "store \<Rightarrow> item_row \<Rightarrow> bool" where
  "fully_taken s i \<longleftrightarrow> 0 < i_quantity i \<and> taken ri_refundCount s (i_paymentId i) (i_id i) = i_quantity i"

definition amounts_ok :: "store \<Rightarrow> bool" where
  "amounts_ok s \<longleftrightarrow> (\<forall>i \<in> set (st_items s). fully_taken s i \<longrightarrow> exact_item s i)"

text \<open>Amounts are stored with four decimals, and what is left of one is within the exact range.\<close>

definition item_range :: "rat \<Rightarrow> store \<Rightarrow> item_row \<Rightarrow> bool" where
  "item_range M s i \<longleftrightarrow>
     dec4 (i_quantity i) \<and> \<bar>i_quantity i\<bar> \<le> M \<and>
     dec4 (i_totalAmount i) \<and> \<bar>i_totalAmount i\<bar> \<le> M \<and> dec4 (i_unTaxAmount i) \<and> \<bar>i_unTaxAmount i\<bar> \<le> M \<and>
     \<bar>i_totalAmount i - taken ri_refundAmount s (i_paymentId i) (i_id i)\<bar> \<le> M \<and>
     \<bar>i_unTaxAmount i - taken ri_refundAmountWithoutTax s (i_paymentId i) (i_id i)\<bar> \<le> M"

definition amounts_range :: "rat \<Rightarrow> store \<Rightarrow> bool" where
  "amounts_range M s \<longleftrightarrow> (\<forall>i \<in> set (st_items s). item_range M s i) \<and>
     (\<forall>r \<in> set (st_refundRequests s). \<forall>c \<in> set (rr_items r).
        dec4 (ri_refundAmount c) \<and> dec4 (ri_refundAmountWithoutTax c))"

lemma amounts_okD: "amounts_ok s \<Longrightarrow> i \<in> set (st_items s) \<Longrightarrow> fully_taken s i \<Longrightarrow> exact_item s i"
  by (simp add: amounts_ok_def)

lemma same_taken:
  "(\<And>f. taken f t (i_paymentId i) (i_id i) = taken f s (i_paymentId i) (i_id i)) \<Longrightarrow>
     fully_taken t i = fully_taken s i \<and> exact_item t i = exact_item s i"
  by (simp add: fully_taken_def exact_item_def)

section \<open>What the transactions keep\<close>

lemma leaves_amounts:
  assumes ok: "quantities_ok t" "quantities_ok s" and am: "amounts_ok s" and t: "leaves_refunds U s t"
  shows "amounts_ok t"
  unfolding amounts_ok_def
proof (intro ballI impI)
  fix i assume i: "i \<in> set (st_items t)" "fully_taken t i"
  from t obtain new where core: "map request_core (st_refundRequests t) = map request_core (st_refundRequests s)"
    and items: "st_items t = st_items s @ new" by (auto simp: leaves_refunds_def)
  have same: "fully_taken t i = fully_taken s i \<and> exact_item t i = exact_item s i"
    and taken: "taken f t p k = taken f s p k" for f p k
    by (intro same_taken taken_core core)+
  show "exact_item t i"
  proof (cases "i \<in> set (st_items s)")
    case True
    with same i am show ?thesis by (auto dest: amounts_okD)
  next
    case False
    with i items ok(1) have fresh: "i_id i \<notin> i_id ` set (st_items s)"
      by (auto simp: quantities_ok_def disjoint_iff image_iff)
    have "request_share ri_refundCount (i_paymentId i) (i_id i) r = 0" if "r \<in> set (st_refundRequests s)" for r
    proof -
      have "i_id i \<notin> ri_paymentItemId ` set (rr_items r)"
      proof
        assume "i_id i \<in> ri_paymentItemId ` set (rr_items r)"
        then obtain c where c: "c \<in> set (rr_items r)" "ri_paymentItemId c = i_id i" by auto
        with ok(2) that have "\<exists>j \<in> set (st_items s). i_id j = ri_paymentItemId c"
          unfolding quantities_ok_def by blast
        with c(2) fresh show False by (metis image_eqI)
      qed
      then show ?thesis by (simp add: request_share_def amount_in_absent)
    qed
    then have "map (request_share ri_refundCount (i_paymentId i) (i_id i)) (st_refundRequests s) =
        map (\<lambda>_. 0) (st_refundRequests s)"
      by (intro map_cong) auto
    then have "taken ri_refundCount s (i_paymentId i) (i_id i) = 0"
      unfolding taken_shares by (simp only: sum_list_0)
    with i(2) have False by (auto simp: fully_taken_def taken)
    then show ?thesis by blast
  qed
qed

lemma reject_amounts:
  assumes ok: "quantities_ok s" and am: "amounts_ok s" and r: "find_request s (rr_id q) = Some r"
    and q: "rr_status q = RR_REJECTED"
    and t: "st_refundRequests t = upsert rr_id q (st_refundRequests s)" "st_items t = st_items s"
  shows "amounts_ok t"
  unfolding amounts_ok_def t(2)
proof (intro ballI impI)
  fix i assume i: "i \<in> set (st_items s)" "fully_taken t i"
  let ?pid = "i_paymentId i" and ?k = "i_id i"
  have r_ok: "request_ok r" using ok find_request_in [OF r] by (auto simp: quantities_ok_def)
  have taken: "taken f t ?pid ?k = taken f s ?pid ?k - request_share f ?pid ?k r" for f
    using taken_replaced [OF t(1) r] q by (simp add: request_share_def)
  have "request_share ri_refundCount ?pid ?k r \<le> 0"
    using taken_bound [OF ok i(1)] i(2) taken [of ri_refundCount] by (simp add: fully_taken_def)
  then have "request_share f ?pid ?k r = 0" for f
  proof (cases "rr_paymentId r = ?pid \<and> rr_status r \<in> {RR_PENDING, RR_APPROVED} \<and>
      ?k \<in> ri_paymentItemId ` set (rr_items r)")
    case True
    then obtain c where c: "c \<in> set (rr_items r)" "?k = ri_paymentItemId c" by auto
    with r_ok True have "request_share ri_refundCount ?pid ?k r = ri_refundCount c"
      by (simp add: request_share_def request_ok_def amount_in_single)
    with c r_ok \<open>request_share ri_refundCount ?pid ?k r \<le> 0\<close> show ?thesis by (auto simp: request_ok_def)
  qed (auto simp: request_share_def amount_in_absent)
  with taken have "taken f t ?pid ?k = taken f s ?pid ?k" for f by simp
  then have "fully_taken t i = fully_taken s i \<and> exact_item t i = exact_item s i" by (rule same_taken)
  with i am show "exact_item t i" by (auto dest: amounts_okD)
qed

lemma marked_amounts:
  assumes num: "numbers_ok B M" and i: "item_range M s i"
  shows "i_id (marked B cs i) = i_id i" "i_paymentId (marked B cs i) = i_paymentId i"
    "i_quantity (marked B cs i) = i_quantity i" "i_totalAmount (marked B cs i) = i_totalAmount i"
    "i_unTaxAmount (marked B cs i) = i_unTaxAmount i"
proof -
  have B: "bigjs_ok B" "num_exact B M" using num by (auto simp: numbers_ok_def)
  note ex = money_exact [OF B]
  have "money B (i_quantity i) = i_quantity i" "money B (i_totalAmount i) = i_totalAmount i"
    "money B (i_unTaxAmount i) = i_unTaxAmount i"
    using i by (auto simp: item_range_def intro: ex)
  then show "i_id (marked B cs i) = i_id i" "i_paymentId (marked B cs i) = i_paymentId i"
    "i_quantity (marked B cs i) = i_quantity i" "i_totalAmount (marked B cs i) = i_totalAmount i"
    "i_unTaxAmount (marked B cs i) = i_unTaxAmount i"
    by (auto simp: marked_def refunded_item_def item_columns_def Let_def split: option.splits)
qed

lemma finish_amounts:
  assumes run: "finish_refund E initial token a note s = (t, Inr x)"
    and ok: "quantities_ok s" and am: "amounts_ok s" "amounts_range M s" and num: "numbers_ok (env_big E) M"
  shows "amounts_ok t"
proof -
  from finish_refund_effect [OF run ok] obtain r q where
    r: "find_request s (rr_id initial) = Some r" "rr_status r = RR_PENDING"
    and q: "q = r\<lparr>rr_status := RR_APPROVED, rr_resolvedByAccountId := Some a, rr_resolutionNote := note\<rparr>"
    and rows: "st_items t = map (marked (env_big E) (rr_items r)) (st_items s)"
      "st_refundRequests t = upsert rr_id q (st_refundRequests s)"
    by metis
  have "find_request s (rr_id q) = Some r" using r(1) find_request_in [OF r(1)] by (simp add: q)
  from taken_replaced [OF rows(2) this] have taken: "taken f t p k = taken f s p k" for f p k
    by (simp add: q request_share_def r(2))
  show ?thesis unfolding amounts_ok_def
  proof (intro ballI impI)
    fix j assume j: "j \<in> set (st_items t)" "fully_taken t j"
    then obtain i where i: "i \<in> set (st_items s)" "j = marked (env_big E) (rr_items r) i" by (auto simp: rows(1))
    note m = marked_amounts [OF num, of s i "rr_items r"]
    have "item_range M s i" using am(2) i(1) by (simp add: amounts_range_def)
    with m j(2) have "fully_taken s i" by (simp add: i(2) fully_taken_def taken)
    with am(1) i(1) have "exact_item s i" by (auto dest: amounts_okD)
    with m \<open>item_range M s i\<close> show "exact_item t j" by (simp add: i(2) exact_item_def taken)
  qed
qed

section \<open>A new request\<close>

text \<open>A line of a stored request and the line it was built from.\<close>

definition stored_line ::
  "bigjs \<Rightarrow> item_row list \<Rightarrow> refund_request_row list \<Rightarrow> refund_input \<Rightarrow> refund_request_item_row \<Rightarrow> bool"
where
  "stored_line B items rs input c \<longleftrightarrow> (\<exists>k. build_item B items rs input = Inr k \<and>
     ri_paymentItemId c = fi_paymentItemId input \<and> ri_refundCount c = money B (fi_refundCount input) \<and>
     ri_refundAmount c = money B (ri_refundAmount k) \<and>
     ri_refundAmountWithoutTax c = money B (ri_refundAmountWithoutTax k))"

lemma stored_lines:
  assumes st: "stored_as B r r'"
    and rows: "list_all2 (\<lambda>input c. build_item B items rs input = Inr c) inputs (rr_items r)"
  shows "list_all2 (stored_line B items rs) inputs (rr_items r')"
proof -
  let ?cs = "rr_items r" and ?ds = "rr_items r'"
  have a: "map ri_refundAmount ?ds = map (\<lambda>c. money B (ri_refundAmount c)) ?cs"
    "map ri_refundAmountWithoutTax ?ds = map (\<lambda>c. money B (ri_refundAmountWithoutTax c)) ?cs"
    using st by (simp_all add: stored_as_def)
  have "map item_count ?ds = map (\<lambda>c. (ri_paymentItemId c, money B (ri_refundCount c))) ?cs"
    using st by (simp add: stored_as_def)
  note b = counts_of_map [OF this]
  have len: "length ?ds = length ?cs" using map_eq_imp_length_eq [OF a(1)] .
  have at: "ri_refundAmount (?ds ! n) = money B (ri_refundAmount (?cs ! n))"
    "ri_refundAmountWithoutTax (?ds ! n) = money B (ri_refundAmountWithoutTax (?cs ! n))"
    "ri_paymentItemId (?ds ! n) = ri_paymentItemId (?cs ! n)"
    "ri_refundCount (?ds ! n) = money B (ri_refundCount (?cs ! n))" if "n < length ?cs" for n
    using arg_cong [OF a(1), of "\<lambda>xs. xs ! n"] arg_cong [OF a(2), of "\<lambda>xs. xs ! n"]
      arg_cong [OF b(1), of "\<lambda>xs. xs ! n"] arg_cong [OF b(2), of "\<lambda>xs. xs ! n"] that len by simp_all
  show ?thesis
    using rows len at unfolding list_all2_conv_all_nth stored_line_def
    by (metis build_item_count)
qed

lemma getPaymentItem_distinct:
  "distinct (map i_id (st_items s)) \<Longrightarrow> i \<in> set (st_items s) \<Longrightarrow>
     getPaymentItem (items_of s pid) (i_id i) = Inr j \<Longrightarrow> j = i"
  by (auto dest!: getPaymentItem_in simp: distinct_map inj_on_def)

text \<open>The line that takes what is left of the quantity takes what is left of the amounts.\<close>

lemma last_line:
  assumes B: "numbers_ok B M" and ok: "quantities_ok s" and range: "amounts_range M s"
    and i: "i \<in> set (st_items s)" "i_paymentId i = pid" "i_id i = fi_paymentItemId input"
    and n: "dec4 (fi_refundCount input)"
    and q: "0 < i_quantity i" "taken ri_refundCount s pid (i_id i) + fi_refundCount input = i_quantity i"
    and line: "stored_line B (items_of s pid) (reservations_of s pid) input c"
  shows "ri_refundAmount c = i_totalAmount i - taken ri_refundAmount s pid (i_id i)"
    "ri_refundAmountWithoutTax c = i_unTaxAmount i - taken ri_refundAmountWithoutTax s pid (i_id i)"
proof -
  let ?res = "reserved_items (reservations_of s pid) (i_id i)"
  have num: "bigjs_ok B" "num_exact B M" "1 \<le> M" using B by (auto simp: numbers_ok_def)
  have reqs: "\<exists>r \<in> set (st_refundRequests s). c \<in> set (rr_items r)" if "c \<in> set ?res" for c
    using that by (auto simp: reserved_items_def reservations_of_def)
  have pos: "0 < ri_refundCount c" "dec4 (ri_refundCount c)" "dec4 (ri_refundAmount c)"
    "dec4 (ri_refundAmountWithoutTax c)" if "c \<in> set ?res" for c
    using reqs [OF that] ok range by (auto simp: quantities_ok_def request_ok_def amounts_range_def)
  have ir: "item_range M s i" using range i(1) by (simp add: amounts_range_def)
  have t0: "0 \<le> taken ri_refundCount s pid (i_id i)"
    unfolding taken_def using pos(1) by (intro sum_list_nonneg) (auto simp: less_imp_le)
  have t1: "taken ri_refundCount s pid (i_id i) \<le> M"
    using taken_bound [OF ok i(1)] q(1) ir by (simp add: i(2) item_range_def)
  have "addN B (map ri_refundCount ?res) = taken ri_refundCount s pid (i_id i)"
    unfolding taken_def
    by (rule addN_exact [OF num(1,2)]) (use pos(2) t0 t1 in \<open>auto simp: taken_def\<close>)
  moreover have "dec4 (taken ri_refundCount s pid (i_id i))"
    unfolding taken_def by (rule dec_sum_list) (rule pos(2))
  then have "addN B [taken ri_refundCount s pid (i_id i), fi_refundCount input] = i_quantity i"
    using n q(2) ir by (subst addN2_exact [OF num(1,2)]) (auto simp: item_range_def)
  ultimately have final: "(addN B [addN B (map ri_refundCount ?res), fi_refundCount input] = i_quantity i) = True"
    by simp
  from line obtain k j where k: "build_item B (items_of s pid) (reservations_of s pid) input = Inr k"
    and c: "ri_refundAmount c = money B (ri_refundAmount k)"
      "ri_refundAmountWithoutTax c = money B (ri_refundAmountWithoutTax k)"
    and j: "getPaymentItem (items_of s pid) (fi_paymentItemId input) = Inr j"
    by (auto simp: stored_line_def build_item_def res_simps Let_def)
  have "j = i" using ok j getPaymentItem_distinct [of s i pid j] by (simp add: i quantities_ok_def)
  with k j final have k: "ri_refundAmount k = minusN B (i_totalAmount i) (map ri_refundAmount ?res)"
    "ri_refundAmountWithoutTax k = minusN B (i_unTaxAmount i) (map ri_refundAmountWithoutTax ?res)"
    by (auto simp: build_item_def res_simps Let_def allocateAmount_def)
  have left: "dec4 (i_totalAmount i - taken ri_refundAmount s pid (i_id i))"
    "dec4 (i_unTaxAmount i - taken ri_refundAmountWithoutTax s pid (i_id i))"
    using ir pos(3,4) unfolding item_range_def taken_def by (auto intro!: dec_diff dec_sum_list)
  have "ri_refundAmount k = i_totalAmount i - taken ri_refundAmount s pid (i_id i)"
    "ri_refundAmountWithoutTax k = i_unTaxAmount i - taken ri_refundAmountWithoutTax s pid (i_id i)"
    unfolding k taken_def using ir pos(3,4) i(2)
    by (auto simp: item_range_def taken_def intro!: minusN_exact [OF num(1,2)])
  with left ir i(2) show "ri_refundAmount c = i_totalAmount i - taken ri_refundAmount s pid (i_id i)"
    "ri_refundAmountWithoutTax c = i_unTaxAmount i - taken ri_refundAmountWithoutTax s pid (i_id i)"
    by (auto simp: c item_range_def intro!: money_exact [OF num(1,2)])
qed

lemma new_request_amounts:
  assumes run: "new_request E a key dto payment (items_of s pid) s = (t, Inr x)"
    and pid: "p_id payment = pid" "cr_paymentId dto = pid"
    and ok: "quantities_ok s" "ids_drawn (env_uuid E) s" "inj (env_uuid E)"
    and num: "numbers_ok (env_big E) M" "in_range M s pid"
    and am: "amounts_ok s" "amounts_range M s"
  shows "amounts_ok t"
proof -
  let ?B = "env_big E"
  from run obtain r where ins: "insert_request E r s = (t, Inr x)" and r: "rr_status r = RR_PENDING" "rr_paymentId r = pid"
    and rows: "list_all2 (\<lambda>input c. build_item ?B (items_of s pid) (reservations_of s pid) input = Inr c)
       (cr_items dto) (rr_items r)"
    and dist: "distinct (map fi_paymentItemId (cr_items dto))"
    and input: "\<And>input. input \<in> set (cr_items dto) \<Longrightarrow> \<not> bad_input ?B input \<and>
       check_reservation ?B (items_of s pid) (filter (\<lambda>r. rr_status r = RR_PENDING)
         (reservations_of s pid)) input = Inr ()"
    using pid by (elim new_request_checked) auto
  from insert_request_effect [OF ins] obtain r' n where
    r': "stored_as ?B r r'" "rr_id r' = env_uuid E (st_seq s)"
    and t: "t = s\<lparr>st_seq := Suc (st_seq s + n), st_refundRequests := upsert rr_id r' (st_refundRequests s)\<rparr>"
    by metis
  have reqs: "st_refundRequests t = st_refundRequests s @ [r']"
    using fresh_request_id [OF ok(3,2)] by (simp add: t upsert_fresh r'(2))
  note lines = stored_lines [OF r'(1) rows]
  have "list_all2 (\<lambda>input c. ri_paymentItemId c = fi_paymentItemId input) (cr_items dto) (rr_items r')"
    using lines by (rule list_all2_mono) (auto simp: stored_line_def)
  then have "map ri_paymentItemId (rr_items r') = map fi_paymentItemId (cr_items dto)"
    by (induction rule: list_all2_induct) auto
  then have dr: "distinct (map ri_paymentItemId (rr_items r'))" using dist by simp
  have st: "rr_status r' = RR_PENDING" "rr_paymentId r' = pid" using r'(1) r by (simp_all add: stored_as_def)
  have "exact_item t i" if i: "i \<in> set (st_items s)" "fully_taken t i" for i
  proof (cases "i_paymentId i = pid \<and> i_id i \<in> ri_paymentItemId ` set (rr_items r')")
    case False
    then have "taken f t (i_paymentId i) (i_id i) = taken f s (i_paymentId i) (i_id i)" for f
      by (auto simp: taken_append [OF reqs] request_share_def st amount_in_absent)
    then have "fully_taken t i = fully_taken s i \<and> exact_item t i = exact_item s i" by (rule same_taken)
    with i am(1) show ?thesis by (auto dest: amounts_okD)
  next
    case True
    then obtain c where c: "c \<in> set (rr_items r')" "i_id i = ri_paymentItemId c" by auto
    have taken: "taken f t pid (i_id i) = taken f s pid (i_id i) + f c" for f
      using amount_in_single [OF dr c(1)] by (simp add: taken_append [OF reqs] request_share_def st c(2))
    from lines c(1) obtain g where g: "g \<in> set (cr_items dto)" and
      line: "stored_line ?B (items_of s pid) (reservations_of s pid) g c"
      by (metis list_all2_conv_all_nth in_set_conv_nth)
    then have id: "i_id i = fi_paymentItemId g" by (auto simp: c(2) stored_line_def)
    from input [OF g] have free: "check_reservation ?B (items_of s pid) (filter (\<lambda>r. rr_status r = RR_PENDING)
         (reservations_of s pid)) g = Inr ()" "\<not> bad_input ?B g" by auto
    from reservation_free [OF ok(1) num free] have n: "dec4 (fi_refundCount g)"
      "money ?B (fi_refundCount g) = fi_refundCount g" by blast+
    then have "ri_refundCount c = fi_refundCount g" using line by (auto simp: stored_line_def)
    with i(2) True taken have "0 < i_quantity i"
      "taken ri_refundCount s pid (i_id i) + fi_refundCount g = i_quantity i" by (auto simp: fully_taken_def)
    note last_line [OF num(1) ok(1) am(2) i(1) _ id n(1) this line]
    with True show ?thesis by (simp add: exact_item_def taken)
  qed
  then show ?thesis by (simp add: amounts_ok_def t)
qed

lemma step_amounts:
  assumes "refund_step E M s t" "quantities_ok s" "ids_drawn (env_uuid E) s" "inj (env_uuid E)"
    "numbers_ok (env_big E) M" "amounts_ok s" "amounts_range M s"
  shows "amounts_ok t"
proof -
  have ok: "quantities_ok t" using step_quantities [OF assms(1-5)] by simp
  have new: "amounts_ok v"
    if "new_request E a key dto payment (items_of s (cr_paymentId dto)) s = (v, Inr x)"
      "find_payment s (cr_paymentId dto) = Some payment" "in_range M s (cr_paymentId dto)"
    for v a key dto payment x
    using find_payment_in [OF that(2)] that(3)
    by (intro new_request_amounts [OF that(1) _ refl assms(2-5) _ assms(6,7)]) auto
  note leaves = leaves_amounts [OF ok assms(2,6)]
  from assms(1) show ?thesis
  proof cases
    case (create userId dto r)
    from create(1) [unfolded createRefundRequest_def] show ?thesis
      by (rule withPaymentLock_cases) (use assms(6) create(2) in \<open>auto dest: new\<close>)
  next
    case (system dto key r)
    from system(1) show ?thesis
    proof (rule withPaymentLock_cases)
      fix x payment
      assume "find_payment s (cr_paymentId dto) = Some payment"
        "system_request E key dto payment (items_of s (cr_paymentId dto)) s = (t, Inr x)"
      then show ?thesis using system(2) assms(6)
        by (auto simp: system_request_def res_simps split: option.splits if_splits dest: new)
    qed (use assms(6) in simp)
  next
    case (claim initial r)
    then show ?thesis by (intro leaves claim_leaves)
  next
    case (finish initial token actorId n r)
    show ?thesis
    proof (cases r)
      case (Inl e)
      with finish(1) have "t = s" unfolding finish_refund_def by (auto elim: withPaymentLock_cases)
      with assms(6) show ?thesis by simp
    next
      case (Inr x)
      with finish(1) finish_amounts [OF _ assms(2,6,7,5)] show ?thesis by blast
    qed
  next
    case (release pid token)
    then show ?thesis by (intro leaves leaves_same) (simp_all add: release_lease_def)
  next
    case (reject pid userId requestId n r)
    from reject show ?thesis
    proof (rule withPaymentLock_cases)
      fix x payment
      assume "reject_locked E userId requestId n payment (items_of s pid) s = (t, Inr x)"
      then obtain r where r: "find_request s requestId = Some r" and
        t: "t = save_request (r\<lparr>rr_status := RR_REJECTED, rr_resolvedByAccountId := Some userId, rr_resolutionNote := n\<rparr>) s"
        by (auto simp: reject_locked_def resolveRefundRequest_def res_simps Let_def)
      show ?thesis
        by (rule reject_amounts [OF assms(2,6), of "r\<lparr>rr_status := RR_REJECTED, rr_resolvedByAccountId := Some userId, rr_resolutionNote := n\<rparr>" r])
          (use r find_request_in [OF r] in \<open>simp_all add: t save_request_def\<close>)
    qed (use assms(6) in simp)
  next
    case (payment C req r)
    then have "leaves_refunds (env_uuid E) s t"
      using preservesD [OF refund_payment_leaves _ payment] assms by (auto simp: numbers_ok_def)
    then show ?thesis by (rule leaves)
  next
    case elsewhere
    then show ?thesis by (rule leaves)
  qed
qed

end
