(* ===== verification/Refund_Lease.thy ===== *)
theory Refund_Lease
  imports Refund_Invariants
begin

text \<open>
  The lease of an approval: from the claim until it expires, no other caller claims, completes or
  rejects a refund of the payment, whatever runs in between.
\<close>

section \<open>A payment under lease\<close>

definition leased :: "(nat \<Rightarrow> string) \<Rightarrow> string \<Rightarrow> string \<Rightarrow> nat \<Rightarrow> store \<Rightarrow> bool" where
  "leased U pid token expires s \<longleftrightarrow> known_ids U s \<and>
     (\<exists>p. find_payment s pid = Some p \<and> p_refundApprovalToken p = Some token \<and>
        p_refundApprovalExpiresAt p = Some expires)"

interpretation leased: payments_only "leased U pid token expires" for U pid token expires
  by unfold_locales (auto simp: leased_def find_payment_def intro: known_ids_mono)

lemma leased_updates:
  assumes "leased U pid token expires s"
  shows "p \<noteq> pid \<Longrightarrow> leased U pid token expires (set_lease p a b s)"
    "token' \<noteq> token \<Longrightarrow> leased U pid token expires (release_lease p token' s)"
proof -
  from assms obtain q where q: "find_payment s pid = Some q" "p_refundApprovalToken q = Some token"
    "p_refundApprovalExpiresAt q = Some expires" and ids: "known_ids U s"
    by (auto simp: leased_def)
  have id: "p_id q = pid" using q(1) by (auto simp: find_payment_def dest: by_key_key)
  have known: "known_ids U t" if "st_seq t = st_seq s" "st_payments t = map f (st_payments s)" "\<And>p. p_id (f p) = p_id p"
    for t :: store and f
    using ids that by (auto simp: known_ids_def image_image)
  show "leased U pid token expires (set_lease p a b s)" if "p \<noteq> pid"
  proof -
    let ?f = "\<lambda>x. if p_id x = p then x\<lparr>p_refundApprovalToken := a, p_refundApprovalExpiresAt := b\<rparr> else x"
    have "known_ids U (set_lease p a b s)" by (rule known [of _ ?f]) (auto simp: set_lease_def)
    moreover have "find_payment (set_lease p a b s) pid = map_option ?f (find_payment s pid)"
      unfolding find_payment_def set_lease_def by (auto intro!: by_key_map)
    ultimately show ?thesis using q id that by (auto simp: leased_def)
  qed
  show "leased U pid token expires (release_lease p token' s)" if "token' \<noteq> token"
  proof -
    let ?f = "\<lambda>x. if p_id x = p \<and> p_refundApprovalToken x = Some token'
      then x\<lparr>p_refundApprovalToken := None, p_refundApprovalExpiresAt := None\<rparr> else x"
    have "known_ids U (release_lease p token' s)" by (rule known [of _ ?f]) (auto simp: release_lease_def)
    moreover have "find_payment (release_lease p token' s) pid = map_option ?f (find_payment s pid)"
      unfolding find_payment_def release_lease_def by (auto intro!: by_key_map)
    ultimately show ?thesis using q that by (auto simp: leased_def)
  qed
qed

section \<open>The transactions on a leased payment\<close>

text \<open>What a claim does when it returns.\<close>

lemma claim_refund_effect:
  assumes "claim_refund E initial s = (t, Inr (req, tok))"
  obtains "tok = None" "t = s"
  | payment where "find_payment s (rr_paymentId initial) = Some payment"
      "assertNoApprovalInProgress E payment = Inr ()" "tok = Some (env_uuid E (st_seq s))"
      "t = set_lease (rr_paymentId initial) tok (Some (env_now E + LEASE_MS)) (s\<lparr>st_seq := Suc (st_seq s)\<rparr>)"
proof -
  from assms show ?thesis
    unfolding claim_refund_def
  proof (rule withPaymentLock_cases)
    fix x payment
    assume x: "Inr (req, tok) = Inr x" and p: "find_payment s (rr_paymentId initial) = Some payment"
      and run: "bindS (readS (\<lambda>s. find_request s (rr_id initial))) (\<lambda>found.
       bindS (liftS (of_option (JsError ''EntityNotFoundError'') found)) (\<lambda>request.
       if rr_status request = RR_APPROVED \<and> truthy (rr_idempotencyKey request)
       then returnS (request, None)
       else
         bindS (liftS (assertPendingRefundRequest request)) (\<lambda>_.
         bindS (liftS (assertNoApprovalInProgress E payment)) (\<lambda>_.
         bindS (liftS (assertPaymentIsRefundable payment)) (\<lambda>_.
         bindS (liftS (validateRefundItems (env_big E) (items_of s (rr_paymentId initial)) (inputs_of request))) (\<lambda>_.
         bindS (liftS (assertItemsBelongToSingleSeller (items_of s (rr_paymentId initial)) (inputs_of request))) (\<lambda>_.
         bindS (newId E) (\<lambda>token.
         bindS (modifyS (set_lease (p_id payment) (Some token) (Some (env_now E + LEASE_MS)))) (\<lambda>_.
         returnS (request, Some token)))))))))) s = (t, Inr x)"
    have "p_id payment = rr_paymentId initial" using p by (auto simp: find_payment_def dest: by_key_key)
    with run x p that show ?thesis
      by (auto simp: res_simps newId_def split: if_splits)
  qed simp
qed

lemma lease_blocks:
  assumes "leased U pid token expires s" and "env_now E < expires" "token \<noteq> []"
    and "find_payment s pid = Some payment"
  shows "assertNoApprovalInProgress E payment =
    Inl (Conflict ''Another refund approval is in progress for this payment; retry later'')"
  using assms by (auto simp: leased_def assertNoApprovalInProgress_def throwIf_def)

lemma no_other_claim:
  assumes lease: "leased U (rr_paymentId initial) token expires s" "env_now E < expires" "token \<noteq> []"
    and run: "claim_refund E initial s = (t, r)"
  shows "t = s" "r \<noteq> Inr (req, Some tok)"
proof -
  have "t = s \<and> r \<noteq> Inr (req, Some tok)"
  proof (cases r)
    case (Inl e)
    with run show ?thesis unfolding claim_refund_def by (auto elim: withPaymentLock_cases)
  next
    case (Inr x)
    obtain q k where x: "x = (q, k)" by (rule prod.exhaust)
    from run [unfolded Inr x] show ?thesis
      by (rule claim_refund_effect) (use lease_blocks [OF lease] Inr x in auto)
  qed
  then show "t = s" "r \<noteq> Inr (req, Some tok)" by auto
qed

lemma no_other_rejection:
  assumes lease: "leased U pid token expires s" "env_now E < expires" "token \<noteq> []" and pid: "\<not> blank pid"
  shows "withPaymentLock pid (reject_locked E a k note) s =
    (s, Inl (Conflict ''Another refund approval is in progress for this payment; retry later''))"
proof -
  from lease(1) obtain p where p: "find_payment s pid = Some p" by (auto simp: leased_def)
  from lease_blocks [OF lease p] show ?thesis
    using pid by (simp add: withPaymentLock_def reject_locked_def transactionS_def bindS_def guardS_def
      returnS_def liftS_def readS_def throwS_def p of_option_def)
qed

lemma no_other_completion:
  assumes lease: "leased U (rr_paymentId initial) token expires s" and tok: "token' \<noteq> token"
    and pid: "\<not> blank (rr_paymentId initial)"
  shows "finish_refund E initial token' a note s =
    (s, Inl (Conflict ''Refund approval lease changed; retry the same request''))"
proof -
  from lease obtain p where p: "find_payment s (rr_paymentId initial) = Some p"
    "p_refundApprovalToken p = Some token" by (auto simp: leased_def)
  then show ?thesis
    using pid tok by (simp add: withPaymentLock_def finish_refund_def transactionS_def bindS_def guardS_def
      returnS_def liftS_def readS_def throwS_def of_option_def)
qed

section \<open>Other callers\<close>

context payments_only begin

lemma keep_insert_request: "preserves P (insert_request E r)"
  unfolding insert_request_def insert_request_item_def
  by (intro keep row_writes)

lemma keep_new_request: "preserves P (withPaymentLock pid (new_request E a key dto))"
  unfolding new_request_def withPaymentLock_def
  by (intro keep keep_insert_request)

lemma keep_system_request: "preserves P (withPaymentLock pid (system_request E key dto))"
  unfolding system_request_def new_request_def withPaymentLock_def
  by (intro keep keep_insert_request)

lemma keep_rejection: "preserves P (withPaymentLock pid (reject_locked E a k note))"
  unfolding reject_locked_def withPaymentLock_def resolveRefundRequest_def
  by (intro keep row_writes)

end

lemma insert_payment_leased:
  assumes "inj (env_uuid E)"
  shows "preserves (leased (env_uuid E) pid token expires) (insert_payment E d)"
proof -
  let ?P = "leased (env_uuid E) pid token expires"
  obtain p items taxes where d: "d = (p, items, taxes)" by (rule prod_cases3)
  let ?fresh = "\<lambda>k s. ?P s \<and> k \<noteq> pid \<and> k \<in> env_uuid E ` {..<st_seq s}"
  have new: "triple ?P (newId E) ?fresh ?P"
  proof (rule tripleI)
    fix s t k
    assume s: "?P s" "newId E s = (t, Inr k)"
    then have "?P t" by (rule preservesD [OF leased.keep_newId])
    moreover have "pid \<in> p_id ` set (st_payments s)" "known_ids (env_uuid E) s"
      using s(1) by (auto simp: leased_def find_payment_def dest!: by_key_in)
    ultimately show "?fresh k t" using s known_ids_fresh [OF assms, of s] by (auto simp: newId_def)
  qed simp
  have save: "?P (save_payment (env_big E) (p\<lparr>p_id := k\<rparr>) s)" if "?fresh k s" for k s
    using that by (auto simp: leased_def known_ids_def find_payment_def save_payment_def by_key_upsert
        payment_columns_def dest!: upsert_in)
  have "triple ?P (insert_payment E d) (\<lambda>_. ?P) ?P"
    unfolding insert_payment_def d prod.case insert_item_def insert_tax_def
    by (rule triple_bindS [OF new], rule triple_bind_modifyS [where P' = ?P], erule save,
        rule triple_keep [where P = ?P]) (auto intro!: leased.keep leased.row_writes)
  then show ?thesis by (simp add: triple_preserves)
qed

lemma refund_payment_leased:
  assumes "inj (env_uuid E)"
  shows "preserves (leased (env_uuid E) pid token expires) (createRefundPayment E C req)"
proof -
  have session: "preserves (leased (env_uuid E) pid token expires) (session_for E pdto)" for pdto
    unfolding session_for_def generateActiveSessionId_def
    by (intro leased.keep preservesI [of _ "\<lambda>s. draw_session (length (st_payments s) + 2) E s"])
      (rule preservesD [OF leased.keep_draw])
  have plan: "leased U pid token expires (case locked of None \<Rightarrow> u | Some r \<Rightarrow> save_request (f r) u)"
    if "leased U pid token expires u" for U locked f u
    using that by (cases locked) (auto intro: leased.row_writes)
  show ?thesis
    unfolding createRefundPayment_def book_refund_def prepare_refund_payment_def generateEntityFromInitDto_def
    by (intro leased.keep leased.keep_start_refund leased.keep_prepare session leased.keep_snapshots
        leased.keep_orders leased.keep_transactions insert_payment_leased assms leased.row_writes plan)
qed

text \<open>
  What runs beside the holder of a lease: every transaction of the refund service and every release,
  but the completion and the release under its own token; and anything that leaves the payments alone.
\<close>

inductive other_caller :: "env \<Rightarrow> string \<Rightarrow> store \<Rightarrow> store \<Rightarrow> bool" for E token where
  create: "createRefundRequest E userId dto s = (t, r) \<Longrightarrow> other_caller E token s t"
| system: "withPaymentLock (cr_paymentId dto) (system_request E key dto) s = (t, r) \<Longrightarrow> other_caller E token s t"
| claim: "claim_refund E initial s = (t, r) \<Longrightarrow> other_caller E token s t"
| finish: "finish_refund E initial token' actorId note s = (t, r) \<Longrightarrow> token' \<noteq> token \<Longrightarrow> other_caller E token s t"
| release: "token' \<noteq> token \<Longrightarrow> other_caller E token s (release_lease p token' s)"
| reject: "withPaymentLock p (reject_locked E userId requestId note) s = (t, r) \<Longrightarrow> other_caller E token s t"
| payment: "createRefundPayment E C req s = (t, r) \<Longrightarrow> other_caller E token s t"
| elsewhere: "st_payments t = st_payments s \<Longrightarrow> st_seq s \<le> st_seq t \<Longrightarrow> other_caller E token s t"

lemma claim_leased:
  assumes lease: "leased U pid token expires s" and now: "env_now E < expires" "token \<noteq> []"
    and run: "claim_refund E initial s = (t, r)"
  shows "leased U pid token expires t"
proof (cases r)
  case (Inl e)
  with run have "t = s" unfolding claim_refund_def by (auto elim: withPaymentLock_cases)
  with lease show ?thesis by simp
next
  case (Inr x)
  obtain q k where x: "x = (q, k)" by (rule prod.exhaust)
  from run [unfolded Inr x] show ?thesis
  proof (rule claim_refund_effect)
    fix payment
    assume p: "find_payment s (rr_paymentId initial) = Some payment" "assertNoApprovalInProgress E payment = Inr ()"
      and t: "t = set_lease (rr_paymentId initial) k (Some (env_now E + LEASE_MS)) (s\<lparr>st_seq := Suc (st_seq s)\<rparr>)"
    then have "rr_paymentId initial \<noteq> pid" using lease_blocks [OF lease now] by auto
    moreover have "leased U pid token expires (s\<lparr>st_seq := Suc (st_seq s)\<rparr>)"
      using lease by (rule leased.writes)
    ultimately show ?thesis unfolding t by (intro leased_updates)
  qed (use lease in simp)
qed

lemma finish_leased:
  assumes lease: "leased U pid token expires s" and run: "finish_refund E initial token' a n s = (t, r)"
    and tok: "token' \<noteq> token"
  shows "leased U pid token expires t"
proof (cases r)
  case (Inl e)
  with run have "t = s" unfolding finish_refund_def by (auto elim: withPaymentLock_cases)
  with lease show ?thesis by simp
next
  case (Inr x)
  let ?B = "env_big E" and ?items = "items_of s (rr_paymentId initial)"
  from run [unfolded Inr finish_refund_def] show ?thesis
  proof (rule withPaymentLock_cases)
    fix y payment
    assume p: "find_payment s (rr_paymentId initial) = Some payment" and
      body: "bindS (guardS (p_refundApprovalToken payment \<noteq> Some token')
         (Conflict ''Refund approval lease changed; retry the same request'')) (\<lambda>_.
       bindS (readS (\<lambda>s. find_request s (rr_id initial))) (\<lambda>found.
       bindS (liftS (of_option (JsError ''EntityNotFoundError'') found)) (\<lambda>request.
       bindS (liftS (assertPendingRefundRequest request)) (\<lambda>_.
       bindS (liftS (assertPaymentIsRefundable payment)) (\<lambda>_.
       bindS (liftS (validateRefundItems ?B ?items (inputs_of request))) (\<lambda>_.
       bindS (updateOriginalItemsRefundState ?B ?items (rr_items request)) (\<lambda>_.
       bindS (resolveRefundRequest request a RR_APPROVED n) (\<lambda>result.
       bindS (modifyS (set_lease (p_id payment) None None)) (\<lambda>_.
       returnS result))))))))) s = (t, Inr y)"
    then obtain q u z where u: "updateOriginalItemsRefundState ?B ?items z s = (u, Inr ())"
      and t: "t = set_lease (p_id payment) None None (save_request q u)"
      and held: "p_refundApprovalToken payment = Some token'"
      unfolding resolveRefundRequest_def Let_def by (auto simp: res_simps)
    have "preserves (leased U pid token expires) (updateOriginalItemsRefundState ?B ?items z)"
      unfolding updateOriginalItemsRefundState_def by (intro leased.keep leased.row_writes)
    with lease u have "leased U pid token expires (save_request q u)"
      by (blast dest: preservesD intro: leased.row_writes)
    moreover have "p_id payment \<noteq> pid"
    proof
      assume "p_id payment = pid"
      moreover have "p_id payment = rr_paymentId initial" using p by (auto simp: find_payment_def dest: by_key_key)
      ultimately have "find_payment s pid = Some payment" using p by simp
      with lease held tok show False by (auto simp: leased_def)
    qed
    ultimately show ?thesis unfolding t by (intro leased_updates)
  qed simp
qed

lemma other_caller_leased:
  assumes "other_caller E token s t" and "leased (env_uuid E) pid token expires s"
    and "inj (env_uuid E)" "env_now E < expires" "token \<noteq> []"
  shows "leased (env_uuid E) pid token expires t"
  using assms(1)
proof cases
  case (create userId dto r)
  with assms(2) show ?thesis
    unfolding createRefundRequest_def by (blast dest: preservesD [OF leased.keep_new_request])
next
  case (claim initial r)
  with assms show ?thesis by (blast intro: claim_leased)
next
  case (finish initial token' actorId n r)
  with assms(2) show ?thesis by (blast intro: finish_leased)
next
  case (payment C req r)
  with assms(2) show ?thesis by (blast dest: preservesD [OF refund_payment_leased [OF assms(3)]])
next
  case elsewhere
  with assms(2) show ?thesis by (rule leased.frame)
qed (use assms(2) in \<open>auto intro: leased_updates dest: preservesD [OF leased.keep_system_request] preservesD [OF leased.keep_rejection]\<close>)

definition lease_step :: "(nat \<Rightarrow> string) \<Rightarrow> nat \<Rightarrow> string \<Rightarrow> store \<Rightarrow> store \<Rightarrow> bool" where
  "lease_step U expires token s t \<longleftrightarrow> (\<exists>E. env_uuid E = U \<and> env_now E < expires \<and> other_caller E token s t)"

lemma lease_run:
  assumes "(lease_step U expires token)\<^sup>*\<^sup>* s t" "leased U pid token expires s" "inj U" "token \<noteq> []"
  shows "leased U pid token expires t"
  using assms
proof (induction rule: rtranclp_induct)
  case (step t u)
  then obtain E where "env_uuid E = U" "env_now E < expires" "other_caller E token t u"
    by (auto simp: lease_step_def)
  with step other_caller_leased [of E token t u pid expires] show ?case by simp
qed simp

lemma claimed_leased:
  assumes "claim_refund E initial s = (t, Inr (req, Some token))" "known_ids (env_uuid E) s"
  shows "leased (env_uuid E) (rr_paymentId initial) token (env_now E + LEASE_MS) t"
  using assms(1)
proof (rule claim_refund_effect)
  fix payment
  assume p: "find_payment s (rr_paymentId initial) = Some payment"
    and t: "t = set_lease (rr_paymentId initial) (Some token) (Some (env_now E + LEASE_MS)) (s\<lparr>st_seq := Suc (st_seq s)\<rparr>)"
  have "p_id payment = rr_paymentId initial" using p by (auto simp: find_payment_def dest: by_key_key)
  moreover have "known_ids (env_uuid E) (s\<lparr>st_seq := Suc (st_seq s)\<rparr>)"
    using assms(2) by (rule known_ids_mono) simp_all
  moreover have "map p_id (st_payments t) = map p_id (st_payments s)" by (simp add: t set_lease_def)
  then have "p_id ` set (st_payments t) = p_id ` set (st_payments s)" by (metis set_map)
  moreover have "st_seq t = Suc (st_seq s)" by (simp add: t set_lease_def)
  moreover have "find_payment t (rr_paymentId initial) = Some (payment\<lparr>p_refundApprovalToken := Some token,
      p_refundApprovalExpiresAt := Some (env_now E + LEASE_MS)\<rparr>)"
    using p \<open>p_id payment = _\<close> by (simp add: t find_payment_def set_lease_def by_key_map [of p_id _ p_id])
  ultimately show ?thesis by (simp add: leased_def known_ids_def)
qed simp

lemma claim_not_blank: "claim_refund E initial s = (t, Inr x) \<Longrightarrow> \<not> blank (rr_paymentId initial)"
  unfolding claim_refund_def withPaymentLock_def by (auto simp: res_simps)

end
