(* ===== verification/Refund_Properties.thy ===== *)
theory Refund_Properties
  imports Refund_Amounts Refund_Lease
begin

text \<open>
  The properties of the refund service: bounded quantities in every run, exact amounts, and the lease
  of an approval.
\<close>

section \<open>Quantities\<close>

lemma run_quantities:
  assumes "(refund_service_step U M)\<^sup>*\<^sup>* s t" "inj U" "quantities_ok s" "ids_drawn U s"
  shows "quantities_ok t \<and> ids_drawn U t"
  using assms
proof (induction rule: rtranclp_induct)
  case (step t u)
  then obtain E where "env_uuid E = U" "numbers_ok (env_big E) M" "refund_step E M t u"
    by (auto simp: refund_service_step_def)
  with step step_quantities [of E M t u] show ?case by simp
qed simp

text \<open>
  C2: no item is refunded more often than it was bought. Start from items of which nothing is refunded
  and no request; let the transactions of the refund service (creation, claim, completion, release,
  rejection) run in any order and number, with anything between them that leaves refunds alone. Then
  at every moment the refund count of an item is the sum of its approved requests, so that no approval
  counts twice, and together with what is reserved by pending requests it is within the quantity.
\<close>

theorem refund_quantities_bounded:
  assumes "(refund_service_step U M)\<^sup>*\<^sup>* s t" and "inj U" and "ids_drawn U s"
    and "st_refundRequests s = []" and "distinct (map i_id (st_items s))"
    and "\<forall>i \<in> set (st_items s). i_refundCount i = 0"
  shows "\<forall>i \<in> set (st_items t).
    i_refundCount i = counted RR_APPROVED t (i_paymentId i) (i_id i) \<and>
    i_refundCount i + counted RR_PENDING t (i_paymentId i) (i_id i) \<le> max 0 (i_quantity i)"
proof -
  have "quantities_ok s" using assms(4-6) by (simp add: quantities_ok_def counted_def)
  from run_quantities [OF assms(1,2) this assms(3)] show ?thesis by (auto intro: quantities_item)
qed

definition sample_bought :: store where
  "sample_bought = sample_store\<lparr>st_payments := [sample_payment ''p'' PURCHASE PS_COMPLETED 10],
     st_items := [sample_item ''u0'' ''p'' ''seller'' 10], st_seq := 1\<rparr>"

definition sample_refund_dto :: "rat \<Rightarrow> create_refund" where
  "sample_refund_dto n = \<lparr>cr_paymentId = ''p'',
     cr_items = [\<lparr>fi_paymentItemId = ''u0'', fi_refundCount = n\<rparr>], cr_reasonKeys = [DAMAGED],
     cr_requestNote = None\<rparr>"

definition sample_requested :: store where
  "sample_requested = fst (createRefundRequest (sample_env OS_WAITING) ''user'' (sample_refund_dto 1) sample_bought)"

lemma sample_requested_count: "counted RR_PENDING sample_requested ''p'' ''u0'' = 1"
  by code_simp

lemma sample_requested_items: "st_items sample_requested = [sample_item ''u0'' ''p'' ''seller'' 10]"
  by code_simp

lemma sample_bought_range: "in_range 8 sample_bought ''p''"
proof -
  have "dec4 2" using dec_of_int [of 4 2] by simp
  then show ?thesis
    by (auto simp: in_range_def items_of_def sample_bought_def sample_item_def new_item_def)
qed

lemma sample_numbers [simp]: "1 \<le> M \<Longrightarrow> numbers_ok exact_bigjs M"
  by (simp add: numbers_ok_def)

lemma sample_bought_drawn: "ids_drawn (env_uuid (sample_env st)) sample_bought"
proof -
  have "env_uuid (sample_env st) 0 = ''u0''" by (simp add: sample_env_def) code_simp
  then show ?thesis
    by (auto simp: ids_drawn_def sample_bought_def sample_item_def new_item_def sample_store_def)
qed

theorem refund_quantities_bounded_witness:
  "counted RR_PENDING sample_requested ''p'' ''u0'' \<le> 2 \<and> counted RR_PENDING sample_requested ''p'' ''u0'' = 1"
proof -
  let ?E = "sample_env OS_WAITING"
  have "refund_step ?E 8 sample_bought sample_requested"
    unfolding sample_requested_def
    by (rule refund_step.create [OF surjective_pairing]) (simp add: sample_bought_range sample_refund_dto_def)
  then have "refund_service_step (env_uuid ?E) 8 sample_bought sample_requested"
    unfolding refund_service_step_def by (intro exI [of _ ?E]) simp
  then have run: "(refund_service_step (env_uuid ?E) 8)\<^sup>*\<^sup>* sample_bought sample_requested" by simp
  have "st_refundRequests sample_bought = []" "distinct (map i_id (st_items sample_bought))"
    "\<forall>i \<in> set (st_items sample_bought). i_refundCount i = 0"
    by (simp_all add: sample_bought_def sample_store_def sample_item_def new_item_def)
  from refund_quantities_bounded [OF run sample_env_inj sample_bought_drawn this]
  have "counted RR_PENDING sample_requested ''p'' ''u0'' \<le> 2"
    by (simp add: sample_requested_items sample_item_def new_item_def)
  then show ?thesis by (simp add: sample_requested_count)
qed

section \<open>Amounts\<close>

definition ranged_step :: "(nat \<Rightarrow> string) \<Rightarrow> rat \<Rightarrow> store \<Rightarrow> store \<Rightarrow> bool" where
  "ranged_step U M s t \<longleftrightarrow> refund_service_step U M s t \<and> amounts_range M s"

lemma run_amounts:
  assumes "(ranged_step U M)\<^sup>*\<^sup>* s t" "inj U" "quantities_ok s" "ids_drawn U s" "amounts_ok s"
  shows "quantities_ok t \<and> ids_drawn U t \<and> amounts_ok t"
  using assms
proof (induction rule: rtranclp_induct)
  case (step t u)
  then obtain E where "env_uuid E = U" "numbers_ok (env_big E) M" "refund_step E M t u" "amounts_range M t"
    by (auto simp: ranged_step_def refund_service_step_def)
  with step step_quantities [of E M t u] step_amounts [of E M t u] show ?case by simp
qed simp

lemma no_requests_amounts: "st_refundRequests s = [] \<Longrightarrow> amounts_ok s"
  by (auto simp: amounts_ok_def fully_taken_def taken_shares)

text \<open>
  C5: refunds are exact. In every run of the refund service from items without refunds, whenever the
  pending and approved requests of an item take its whole quantity, their amounts add up to exactly
  what was paid for it, with and without tax: the rounding of the shares is made up for by the last
  request, also when earlier requests were rejected. The run's amounts stay within the range where a
  double keeps four decimals.
\<close>

theorem refund_amounts_exact:
  assumes "(ranged_step U M)\<^sup>*\<^sup>* s t" and "inj U" and "ids_drawn U s"
    and "st_refundRequests s = []" and "distinct (map i_id (st_items s))"
    and "\<forall>i \<in> set (st_items s). i_refundCount i = 0"
    and "i \<in> set (st_items t)" "0 < i_quantity i"
    and "(\<Sum>c\<leftarrow>reserved_items (reservations_of t (i_paymentId i)) (i_id i). ri_refundCount c) = i_quantity i"
  shows "(\<Sum>c\<leftarrow>reserved_items (reservations_of t (i_paymentId i)) (i_id i). ri_refundAmount c) = i_totalAmount i \<and>
    (\<Sum>c\<leftarrow>reserved_items (reservations_of t (i_paymentId i)) (i_id i). ri_refundAmountWithoutTax c) = i_unTaxAmount i"
proof -
  have "quantities_ok s" using assms(4-6) by (simp add: quantities_ok_def counted_def)
  with assms no_requests_amounts [of s] have "amounts_ok t" using run_amounts by blast
  with assms(7-9) show ?thesis
    by (auto simp: amounts_ok_def fully_taken_def exact_item_def taken_def)
qed

definition sample_thirds :: store where
  "sample_thirds = sample_store\<lparr>st_payments := [sample_payment ''p'' PURCHASE PS_COMPLETED 10],
     st_items := [(sample_item ''u0'' ''p'' ''seller'' 10)\<lparr>i_quantity := 3\<rparr>], st_seq := 1\<rparr>"

definition sample_refund :: "rat \<Rightarrow> store \<Rightarrow> store" where
  "sample_refund n s = fst (createRefundRequest (sample_env OS_WAITING) ''user'' (sample_refund_dto n) s)"

definition sample_third :: store where
  "sample_third = sample_refund 1 sample_thirds"

definition sample_all_thirds :: store where
  "sample_all_thirds = sample_refund 2 sample_third"

lemma sample_thirds_range: "amounts_range 16 sample_thirds" "amounts_range 16 sample_third"
  by code_simp+

lemma sample_thirds_items: "st_items sample_thirds = [(sample_item ''u0'' ''p'' ''seller'' 10)\<lparr>i_quantity := 3\<rparr>]"
  "st_items sample_all_thirds = st_items sample_thirds" "st_items sample_third = st_items sample_thirds"
  by code_simp+

lemma sample_thirds_counts:
  "(\<Sum>c\<leftarrow>reserved_items (reservations_of sample_all_thirds ''p'') ''u0''. ri_refundCount c) = 3"
  "map ri_refundAmount (reserved_items (reservations_of sample_all_thirds ''p'') ''u0'') = [33333 / 10000, 66667 / 10000]"
  by code_simp+

lemma sample_refund_step:
  assumes "in_range M s ''p''" "amounts_range M s" "1 \<le> M"
  shows "ranged_step (env_uuid (sample_env OS_WAITING)) M s (sample_refund n s)"
proof -
  let ?E = "sample_env OS_WAITING"
  have "refund_step ?E M s (sample_refund n s)"
    unfolding sample_refund_def
    by (rule refund_step.create [OF surjective_pairing]) (simp add: assms(1) sample_refund_dto_def)
  then have "refund_service_step (env_uuid ?E) M s (sample_refund n s)"
    unfolding refund_service_step_def by (intro exI [of _ ?E]) (simp add: assms(3))
  with assms(2) show ?thesis by (simp add: ranged_step_def)
qed

theorem refund_amounts_exact_witness:
  "sum_list (map ri_refundAmount (reserved_items (reservations_of sample_all_thirds ''p'') ''u0'')) = 10 \<and>
   map ri_refundAmount (reserved_items (reservations_of sample_all_thirds ''p'') ''u0'') = [33333 / 10000, 66667 / 10000]"
proof -
  let ?U = "env_uuid (sample_env OS_WAITING)"
  let ?i = "(sample_item ''u0'' ''p'' ''seller'' 10)\<lparr>i_quantity := 3\<rparr>"
  have i: "i_id ?i = ''u0''" "i_paymentId ?i = ''p''" "i_quantity ?i = 3" "i_totalAmount ?i = 10" "i_refundCount ?i = 0"
    by (simp_all add: sample_item_def new_item_def)
  have "dec4 3" using dec_of_int [of 4 3] by simp
  then have range: "in_range 16 sample_thirds ''p''" "in_range 16 sample_third ''p''"
    by (simp_all add: in_range_def items_of_def sample_thirds_items i)
  have "ranged_step ?U 16 sample_thirds sample_third" "ranged_step ?U 16 sample_third sample_all_thirds"
    unfolding sample_third_def sample_all_thirds_def [unfolded sample_third_def]
    using sample_refund_step [OF range(1) sample_thirds_range(1)] sample_refund_step [OF range(2) sample_thirds_range(2)]
    by (simp_all add: sample_third_def)
  then have run: "(ranged_step ?U 16)\<^sup>*\<^sup>* sample_thirds sample_all_thirds" by simp
  have "?U 0 = ''u0''" by (simp add: sample_env_def) code_simp
  then have drawn: "ids_drawn ?U sample_thirds"
    by (auto simp: ids_drawn_def sample_thirds_def i sample_store_def)
  have start: "st_refundRequests sample_thirds = []" "distinct (map i_id (st_items sample_thirds))"
    "\<forall>i \<in> set (st_items sample_thirds). i_refundCount i = 0"
    by (simp_all add: sample_thirds_def sample_store_def i)
  have item: "?i \<in> set (st_items sample_all_thirds)" "0 < i_quantity ?i"
    "(\<Sum>c\<leftarrow>reserved_items (reservations_of sample_all_thirds (i_paymentId ?i)) (i_id ?i). ri_refundCount c) = i_quantity ?i"
    by (simp_all add: sample_thirds_items i sample_thirds_counts(1))
  from refund_amounts_exact [OF run sample_env_inj drawn start item] show ?thesis
    unfolding i sample_thirds_counts(2) by simp
qed

section \<open>The lease of an approval\<close>

text \<open>
  C6: approvals exclude each other. After a claim has returned a token, let other callers run any
  transactions of the refund service, any refund payments and anything that leaves the payments alone,
  in any order. Until the lease expires, the payment still carries the token, so the holder can
  complete; no other claim gets a token, no rejection and no completion under another token passes,
  and these attempts leave the store as it is.
\<close>

theorem approval_lease_exclusive:
  assumes "claim_refund E initial s = (t, Inr (req, Some token))"
    and "(lease_step (env_uuid E) (env_now E + LEASE_MS) token)\<^sup>*\<^sup>* t u"
    and "known_ids (env_uuid E) s" "inj (env_uuid E)" "env_uuid E (st_seq s) \<noteq> []"
    and "env_now E' < env_now E + LEASE_MS" "rr_paymentId other = rr_paymentId initial" "token' \<noteq> token"
  shows "fst (claim_refund E' other u) = u \<and> (\<nexists>q k. snd (claim_refund E' other u) = Inr (q, Some k)) \<and>
    withPaymentLock (rr_paymentId initial) (reject_locked E' actor requestId n) u =
      (u, Inl (Conflict ''Another refund approval is in progress for this payment; retry later'')) \<and>
    finish_refund E' other token' actor n u =
      (u, Inl (Conflict ''Refund approval lease changed; retry the same request'')) \<and>
    (\<exists>p. find_payment u (rr_paymentId initial) = Some p \<and> p_refundApprovalToken p = Some token)"
proof -
  let ?pid = "rr_paymentId initial"
  from assms(1) have token: "token \<noteq> []" by (rule claim_refund_effect) (use assms(5) in auto)
  have pid: "\<not> blank ?pid" using assms(1) by (rule claim_not_blank)
  note t = claimed_leased [OF assms(1,3)]
  have u: "leased (env_uuid E) ?pid token (env_now E + LEASE_MS) u"
    using assms(2) t assms(4) token by (rule lease_run)
  obtain v r where run: "claim_refund E' other u = (v, r)" by (rule prod.exhaust)
  have other: "leased (env_uuid E) (rr_paymentId other) token (env_now E + LEASE_MS) u" using u assms(7) by simp
  have "v = u" "\<nexists>q k. r = Inr (q, Some k)"
    using no_other_claim [OF other assms(6) token run] by blast+
  moreover note no_other_rejection [OF u assms(6) token pid, of actor requestId n]
  moreover have "finish_refund E' other token' actor n u =
      (u, Inl (Conflict ''Refund approval lease changed; retry the same request''))"
    by (rule no_other_completion [OF other assms(8)]) (simp add: pid assms(7))
  moreover from u obtain p where "find_payment u ?pid = Some p" "p_refundApprovalToken p = Some token"
    by (auto simp: leased_def)
  ultimately show ?thesis by (simp add: run)
qed

definition sample_pending_store :: store where
  "sample_pending_store =
     fst (createRefundRequest (sample_env OS_WAITING) ''user'' ((sample_refund_dto 1)\<lparr>cr_paymentId := ''u1''\<rparr>)
       (sample_store\<lparr>st_payments := [sample_payment ''u1'' PURCHASE PS_COMPLETED 10],
          st_items := [sample_item ''u0'' ''u1'' ''seller'' 10], st_seq := 2\<rparr>))"

definition sample_pending :: refund_request_row where
  "sample_pending = hd (st_refundRequests sample_pending_store)"

lemma sample_pending_fields: "rr_paymentId sample_pending = ''u1''" "rr_status sample_pending = RR_PENDING"
  "rr_requestedToPaymentAccountId sample_pending = Some ''seller''"
  "st_seq sample_pending_store = 4" "st_payments sample_pending_store = [sample_payment ''u1'' PURCHASE PS_COMPLETED 10]"
  "length (st_refundRequests sample_pending_store) = 1"
  "validateRefundItems exact_bigjs (items_of sample_pending_store ''u1'') (inputs_of sample_pending) = Inr ()"
  "assertItemsBelongToSingleSeller (items_of sample_pending_store ''u1'') (inputs_of sample_pending) = Inr ()"
  "blank ''u1'' = False" "nat_text 1 = ''1''" "nat_text 4 = ''4''"
  by code_simp+

lemma sample_pending_found: "find_request sample_pending_store (rr_id sample_pending) = Some sample_pending"
  using sample_pending_fields(6)
  by (cases "st_refundRequests sample_pending_store") (auto simp: sample_pending_def find_request_def by_key_def)

definition sample_leased :: store where
  "sample_leased = fst (claim_refund (sample_env OS_WAITING) sample_pending sample_pending_store)"

lemma sample_claimed:
  "claim_refund (sample_env OS_WAITING) sample_pending sample_pending_store =
     (sample_leased, Inr (sample_pending, Some (env_uuid (sample_env OS_WAITING) 4)))"
  "find_request sample_leased = find_request sample_pending_store"
proof -
  have p: "find_payment sample_pending_store ''u1'' = Some (sample_payment ''u1'' PURCHASE PS_COMPLETED 10)"
    by (simp add: find_payment_def by_key_def sample_pending_fields sample_payment_def new_payment_def)
  have "assertPaymentIsRefundable (sample_payment ''u1'' PURCHASE PS_COMPLETED 10) = Inr ()"
    "assertNoApprovalInProgress E (sample_payment ''u1'' PURCHASE PS_COMPLETED 10) = Inr ()" for E
    by (simp_all add: assertPaymentIsRefundable_def assertNoApprovalInProgress_def sample_payment_def
        new_payment_def throwIf_def)
  note facts = this p sample_pending_found sample_pending_fields
  show "claim_refund (sample_env OS_WAITING) sample_pending sample_pending_store =
     (sample_leased, Inr (sample_pending, Some (env_uuid (sample_env OS_WAITING) 4)))"
    "find_request sample_leased = find_request sample_pending_store"
    using facts
    by (simp_all add: sample_leased_def claim_refund_def withPaymentLock_def transactionS_def bindS_def guardS_def returnS_def
        liftS_def readS_def of_option_def assertPendingRefundRequest_def throwIf_def newId_def modifyS_def
        set_lease_def find_request_def fun_eq_iff)
qed

theorem approval_lease_exclusive_witness:
  "rejectRefundRequest (sample_env OS_WAITING) (\<lambda>_. Some [''seller'']) ''owner'' (rr_id sample_pending) None sample_leased =
     (sample_leased, Inl (Conflict ''Another refund approval is in progress for this payment; retry later''))"
proof -
  let ?E = "sample_env OS_WAITING"
  have uuid: "env_uuid ?E n = ''u'' @ nat_text n" for n by (simp add: sample_env_def)
  have "env_uuid ?E 1 = ''u1''" by (simp only: uuid sample_pending_fields append.simps)
  then have "''u1'' \<in> env_uuid ?E ` {..<4}" by (metis imageI lessThan_iff one_less_numeral_iff semiring_norm(76))
  then have ids: "known_ids (env_uuid ?E) sample_pending_store"
    by (simp add: known_ids_def sample_pending_fields sample_payment_def new_payment_def)
  have "env_now ?E < env_now ?E + LEASE_MS" by (simp add: LEASE_MS_def)
  note exclusive = approval_lease_exclusive [OF sample_claimed(1) rtranclp.rtrancl_refl ids sample_env_inj _ this refl,
    where token' = "[]" and actor = "''owner''" and requestId = "rr_id sample_pending" and n = None]
  have "withPaymentLock ''u1'' (reject_locked ?E ''owner'' (rr_id sample_pending) None) sample_leased =
      (sample_leased, Inl (Conflict ''Another refund approval is in progress for this payment; retry later''))"
    using exclusive by (simp add: sample_pending_fields uuid)
  then show ?thesis
    by (simp add: rejectRefundRequest_def bindS_def liftS_def validateNote_def throwIf_def readS_def returnS_def
        findRefundRequestWithItems_def sample_claimed(2) sample_pending_found guardS_def sample_pending_fields
        authorizeRefundAction_def of_option_def)
qed

end
