(* ===== verification/Calendar.thy ===== *)
theory Calendar
  imports Decimal_Text
begin

text \<open>
  Calendar days as the platform's \<open>Date\<close> counts them (proleptic Gregorian calendar), and the period
  labels of \<open>report-digestion.service.ts\<close>. A day is a number: 1 is Monday, 1 January of the year 1.
\<close>

section \<open>Days and years\<close>

text \<open>A calendar date in the process's time zone: \<open>getFullYear\<close>, \<open>getMonth\<close> + 1 and \<open>getDate\<close>.\<close>

record local_date =
  ld_year :: nat
  ld_month :: nat
  ld_day :: nat

definition leap :: "int \<Rightarrow> bool" where
  "leap y \<longleftrightarrow> y mod 4 = 0 \<and> (y mod 100 \<noteq> 0 \<or> y mod 400 = 0)"

definition days_before_year :: "int \<Rightarrow> int" where
  "days_before_year y = 365 * (y - 1) + (y - 1) div 4 - (y - 1) div 100 + (y - 1) div 400"

definition days_before_month :: "int \<Rightarrow> nat \<Rightarrow> int" where
  "days_before_month y m =
     [0, 31, 59, 90, 120, 151, 181, 212, 243, 273, 304, 334] ! (m - 1) + (if leap y \<and> m > 2 then 1 else 0)"

text \<open>\<open>Date.UTC(y, m - 1, d)\<close> in days.\<close>

definition utc_day :: "int \<Rightarrow> nat \<Rightarrow> nat \<Rightarrow> int" where
  "utc_day y m d = days_before_year y + days_before_month y m + int d"

definition utc_weekday :: "int \<Rightarrow> int" where
  "utc_weekday n = n mod 7"

text \<open>\<open>getUTCFullYear\<close>: the cycles of 400, 100, 4 years and one year before the day.\<close>

definition utc_year :: "int \<Rightarrow> int" where
  "utc_year n =
     (let q = (n - 1) mod 146097;
          a = min (q div 36524) 3;
          r = q - 36524 * a;
          c = min ((r mod 1461) div 365) 3 in
      400 * ((n - 1) div 146097) + 100 * a + 4 * (r div 1461) + c + 1)"

lemma days_of_cycles:
  fixes e a b c :: int
  assumes "0 \<le> a" "a \<le> 3" "0 \<le> b" "b \<le> 24" "0 \<le> c" "c \<le> 3"
  shows "days_before_year (400 * e + 100 * a + 4 * b + c + 1) = 146097 * e + 36524 * a + 1461 * b + 365 * c"
proof -
  have "(400 * e + 100 * a + 4 * b + c) div 4 = 100 * e + 25 * a + b"
    "(400 * e + 100 * a + 4 * b + c) div 100 = 4 * e + a"
    "(400 * e + 100 * a + 4 * b + c) div 400 = e"
    using assms by linarith+
  then show ?thesis by (simp add: days_before_year_def)
qed

text \<open>A day is one of the 366 days after the days before its year.\<close>

lemma utc_year_bounds: "days_before_year (utc_year n) < n" "n \<le> days_before_year (utc_year n) + 366"
proof -
  define q a r b c where defs: "q = (n - 1) mod 146097" "a = min (q div 36524) 3" "r = q - 36524 * a"
    "b = r div 1461" "c = min ((r mod 1461) div 365) 3"
  have n: "n - 1 = 146097 * ((n - 1) div 146097) + q" by (simp add: defs(1))
  have q: "0 \<le> q" "q < 146097" by (simp_all add: defs(1))
  have a: "0 \<le> a" "a \<le> 3" "0 \<le> r" "r \<le> 36524" using q unfolding defs(2,3) by linarith+
  have b: "0 \<le> b" "b \<le> 24" and m: "r = 1461 * b + r mod 1461" "0 \<le> r mod 1461" "r mod 1461 < 1461"
    using a(3,4) unfolding defs(4) by (linarith | simp)+
  have c: "0 \<le> c" "c \<le> 3" "365 * c \<le> r mod 1461" "r mod 1461 \<le> 365 * c + 365"
    using m(2,3) unfolding defs(5) by linarith+
  have "utc_year n = 400 * ((n - 1) div 146097) + 100 * a + 4 * b + c + 1"
    by (simp add: utc_year_def Let_def defs)
  then have "days_before_year (utc_year n) = 146097 * ((n - 1) div 146097) + 36524 * a + 1461 * b + 365 * c"
    using days_of_cycles [OF a(1,2) b c(1,2)] by simp
  moreover have "n = 146097 * ((n - 1) div 146097) + 36524 * a + 1461 * b + r mod 1461 + 1"
    using n m(1) defs(3) by linarith
  ultimately show "days_before_year (utc_year n) < n" "n \<le> days_before_year (utc_year n) + 366"
    using c(3,4) by linarith+
qed

section \<open>Period labels\<close>

datatype date_grouping = DAILY | WEEKLY | MONTHLY | YEARLY | ALL_TIME

text \<open>
  \<open>isoWeekNumber\<close>: the Thursday of the date's week, and the weeks since the first of January of the
  Thursday's year, rounded up.
\<close>

definition week_thursday :: "int \<Rightarrow> int" where
  "week_thursday n = n + 4 - (if utc_weekday n = 0 then 7 else utc_weekday n)"

definition isoWeekNumber :: "local_date \<Rightarrow> int" where
  "isoWeekNumber d =
     (let tmp = week_thursday (utc_day (int (ld_year d)) (ld_month d) (ld_day d));
          yearStart = utc_day (utc_year tmp) 1 1 in
      \<lceil>of_int (tmp - yearStart + 1) / (7 :: rat)\<rceil>)"

definition buildPeriodLabel :: "date_grouping \<Rightarrow> local_date \<Rightarrow> string" where
  "buildPeriodLabel grouping d =
     (let y = nat_text (ld_year d);
          m = padStart0 2 (nat_text (ld_month d));
          day = padStart0 2 (nat_text (ld_day d)) in
      case grouping of
        DAILY \<Rightarrow> y @ ''-'' @ m @ ''-'' @ day
      | WEEKLY \<Rightarrow> y @ ''-W'' @ padStart0 2 (nat_text (nat (isoWeekNumber d)))
      | MONTHLY \<Rightarrow> y @ ''-'' @ m
      | YEARLY \<Rightarrow> y
      | ALL_TIME \<Rightarrow> ''ALL'')"

section \<open>ISO 8601 weeks\<close>

text \<open>The reference: weeks start on Mondays, and week 1 of a year is the one with its 4 January.\<close>

definition week_monday :: "int \<Rightarrow> int" where
  "week_monday n = n - (n - 1) mod 7"

definition iso_week_start :: "int \<Rightarrow> int \<Rightarrow> int" where
  "iso_week_start y w = week_monday (utc_day y 1 4) + 7 * (w - 1)"

lemma thursday_of_monday: "week_thursday n = week_monday n + 3"
proof -
  have "(n - 1) mod 7 = (if n mod 7 = 0 then 6 else n mod 7 - 1)"
  proof (cases "n mod 7 = 0")
    case True
    then have "n - 1 = 7 * (n div 7 - 1) + 6" using mult_div_mod_eq [of 7 n] by simp
    then have "(n - 1) mod 7 = (7 * (n div 7 - 1) + 6) mod 7" by (rule arg_cong)
    also have "\<dots> = 6" by (simp only: mod_mult_self4 mod_pos_pos_trivial)
    finally show ?thesis using True by simp
  next
    case False
    then have "0 \<le> n mod 7 - 1" "n mod 7 - 1 < 7" using pos_mod_bound [of 7 n] pos_mod_sign [of 7 n] by linarith+
    moreover have "n - 1 = 7 * (n div 7) + (n mod 7 - 1)" using mult_div_mod_eq [of 7 n] by linarith
    then have "(n - 1) mod 7 = (7 * (n div 7) + (n mod 7 - 1)) mod 7" by (rule arg_cong)
    ultimately show ?thesis using False by simp
  qed
  then show ?thesis by (simp add: week_thursday_def utc_weekday_def week_monday_def)
qed

lemma week_monday_day: "week_monday n \<le> n" "n < week_monday n + 7" "week_monday n mod 7 = 1"
proof -
  show "week_monday n \<le> n" "n < week_monday n + 7" by (simp_all add: week_monday_def)
  have "week_monday n = 1 + 7 * ((n - 1) div 7)"
    using mult_div_mod_eq [of 7 "n - 1"] unfolding week_monday_def by linarith
  then show "week_monday n mod 7 = 1" by simp
qed

lemma isoWeekNumber_div:
  "isoWeekNumber d = (let th = week_thursday (utc_day (int (ld_year d)) (ld_month d) (ld_day d)) in
     (th - days_before_year (utc_year th) + 6) div 7)"
proof -
  have ceil: "\<lceil>of_int k / (7 :: rat)\<rceil> = (k + 6) div 7" for k :: int
  proof (rule ceiling_unique)
    have "7 * ((k + 6) div 7) - 6 \<le> k" "k \<le> 7 * ((k + 6) div 7)" by linarith+
    then have "of_int (7 * ((k + 6) div 7) - 6) \<le> (of_int k :: rat)" "of_int k \<le> (of_int (7 * ((k + 6) div 7)) :: rat)"
      by (simp_all only: of_int_le_iff)
    then show "of_int ((k + 6) div 7) - 1 < of_int k / (7 :: rat)" "of_int k / (7 :: rat) \<le> of_int ((k + 6) div 7)"
      by simp_all
  qed
  have "utc_day y 1 1 = days_before_year y + 1" for y by (simp add: utc_day_def days_before_month_def)
  then show ?thesis unfolding isoWeekNumber_def Let_def ceil by (simp add: algebra_simps)
qed

text \<open>
  C39: the week number is that of ISO 8601: the date lies in the week it names of the year its Thursday
  falls in, and the number is between 1 and 53.
\<close>

theorem iso_week_correct:
  "let n = utc_day (int (ld_year d)) (ld_month d) (ld_day d);
       start = iso_week_start (utc_year (week_thursday n)) (isoWeekNumber d) in
   start \<le> n \<and> n < start + 7 \<and> 1 \<le> isoWeekNumber d \<and> isoWeekNumber d \<le> 53"
proof -
  define n where "n = utc_day (int (ld_year d)) (ld_month d) (ld_day d)"
  define th where "th = week_thursday n"
  define D where "D = days_before_year (utc_year th)"
  define w where "w = (th - D + 6) div 7"
  have w: "isoWeekNumber d = w" by (simp add: isoWeekNumber_div w_def D_def th_def n_def Let_def)
  have th: "D < th" "th \<le> D + 366" using utc_year_bounds [of th] by (simp_all add: D_def)
  have jan4: "utc_day (utc_year th) 1 4 = D + 4" by (simp add: utc_day_def days_before_month_def D_def)
  have mon: "week_monday n = th - 3" using thursday_of_monday [of n] by (simp add: th_def)
  define p where "p = th div 7"
  have th7: "th = 7 * p + 4"
  proof -
    have "th mod 7 = 4" using week_monday_day(3) [of n] mon mod_add_left_eq [of "th - 3" 7 3] by simp
    then show ?thesis using mult_div_mod_eq [of 7 th] by (simp add: p_def)
  qed
  have "week_monday (D + 4) + 7 * (w - 1) = th - 3"
  proof -
    have "7 * ((D + 3) div 7) + (D + 3) mod 7 = D + 3" by (rule mult_div_mod_eq)
    moreover have "w = p - (D + 3) div 7 + 1" unfolding w_def th7 by linarith
    moreover have "D + 4 - 1 = D + 3" by simp
    ultimately show ?thesis unfolding week_monday_def th7 by (simp only:) (simp add: algebra_simps)
  qed
  then have "iso_week_start (utc_year th) w = week_monday n" by (simp only: iso_week_start_def jan4 mon(1))
  moreover have "1 \<le> w" "w \<le> 53" unfolding w_def using th by linarith+
  ultimately show ?thesis
    using week_monday_day(1,2) [of n] by (simp add: w Let_def flip: n_def th_def)
qed

text \<open>The label names the calendar year, not the year of the week: 30 December 2024 is filed under January.\<close>

lemma weekly_labels_collide:
  "buildPeriodLabel WEEKLY \<lparr>ld_year = 2024, ld_month = 12, ld_day = 30\<rparr> = ''2024-W01'' \<and>
   buildPeriodLabel WEEKLY \<lparr>ld_year = 2024, ld_month = 1, ld_day = 2\<rparr> = ''2024-W01'' \<and>
   buildPeriodLabel WEEKLY \<lparr>ld_year = 2025, ld_month = 1, ld_day = 1\<rparr> = ''2025-W01''"
  by code_simp

end
