(* ===== verification/Report_Entities.thy ===== *)
theory Report_Entities
  imports Entities Calendar
begin

text \<open>
  The tables of the reports (\<open>report*.entity.ts\<close>) and the database they make up beside the core's.
  The surrogate keys of expenses, tax groups, items and platforms are used nowhere, and their rows are
  found by the columns of their unique constraint.
\<close>

section \<open>Rows\<close>

datatype report_type = REPORT_SELLER | REPORT_PLATFORM | REPORT_PLATFORM_SELLER | REPORT_PLATFORM_FLOW

datatype digestion_status = DS_WAITING | DS_DIGESTING | DS_COMPLETED | DS_FAILED

record report_query =
  q_id :: string
  q_name :: string
  q_description :: string
  q_ownerAccountId :: "string option"
  q_currency :: "string option"
  q_dateGrouping :: date_grouping
  q_reportType :: report_type

text \<open>\<open>BaseReport\<close>, which \<open>Report\<close> and \<open>ReportTaxGroup\<close> implement.\<close>

record base_report =
  br_paymentCount :: rat
  br_totalSaleAmount :: rat
  br_totalExpenseAmount :: rat
  br_totalSaleAmountWithoutExpense :: rat
  br_totalRefundAmount :: rat
  br_totalSaleTaxAmount :: rat
  br_totalRefundTaxAmount :: rat
  br_netTaxAmount :: rat
  br_netSaleAmount :: rat
  br_netRevenue :: rat

record report_row = base_report +
  rep_id :: string
  rep_reportType :: report_type
  rep_queryId :: string
  rep_periodLabel :: string
  rep_currency :: string
  rep_lastDigestedAt :: "nat option"
  rep_lastDigestedPaymentId :: "string option"
  rep_archived :: bool
  rep_billedAt :: "nat option"
  rep_totalExpense :: rat
  rep_netRevenueWithoutExpense :: rat
  rep_netRevenueWithoutExpenseTaxed :: rat

record tax_group_row = base_report +
  tg_reportId :: string
  tg_taxGroupName :: string
  tg_taxPercent :: string
  tg_currency :: string

record expense_row =
  ex_reportId :: string
  ex_accountId :: string
  ex_expenseKey :: string
  ex_expenseAmount :: rat
  ex_itemClass :: "string option"
  ex_totalExpense :: bool
  ex_displayWeight :: nat

record report_item_row =
  it_reportId :: string
  it_accountId :: string
  it_reportItemKey :: string
  it_itemId :: string
  it_identifiedByName :: bool
  it_itemName :: string
  it_itemVariation :: string
  it_itemQuantity :: rat
  it_itemTotalAmount :: rat
  it_itemTaxAmount :: rat
  it_itemDiscountAmount :: rat
  it_itemComissionAmount :: rat
  it_purchasedQuantity :: rat
  it_purchasedTotalAmount :: rat
  it_purchasedTaxAmount :: rat
  it_purchasedDiscountAmount :: rat
  it_purchasedComissionAmount :: rat
  it_refundedQuantity :: rat
  it_refundedTotalAmount :: rat
  it_refundedTaxAmount :: rat
  it_refundedDiscountAmount :: rat
  it_refundedComissionAmount :: rat

record report_platform_row =
  pl_reportId :: string
  pl_accountId :: string
  pl_platformKey :: string
  pl_externalPlatformId :: "string option"
  pl_platformName :: string
  pl_purchaseCount :: rat
  pl_refundCount :: rat
  pl_soldQuantity :: rat
  pl_refundedQuantity :: rat
  pl_totalSaleAmount :: rat
  pl_totalRefundAmount :: rat
  pl_totalSaleTaxAmount :: rat
  pl_totalRefundTaxAmount :: rat
  pl_netSaleAmount :: rat
  pl_netRevenue :: rat

record relation_row =
  rel_id :: string
  rel_paymentId :: string
  rel_reportId :: string
  rel_accountId :: string
  rel_digestionId :: "string option"
  rel_digestionStatus :: digestion_status
  rel_digestionStartedAt :: "nat option"
  rel_digestionCompletedAt :: "nat option"

record external_platform =
  xp_id :: string
  xp_code :: string
  xp_name :: string

text \<open>The initialisers of the classes.\<close>

definition new_totals :: base_report where
  "new_totals =
     \<lparr>br_paymentCount = 0, br_totalSaleAmount = 0, br_totalExpenseAmount = 0,
      br_totalSaleAmountWithoutExpense = 0, br_totalRefundAmount = 0, br_totalSaleTaxAmount = 0,
      br_totalRefundTaxAmount = 0, br_netTaxAmount = 0, br_netSaleAmount = 0, br_netRevenue = 0\<rparr>"

definition new_report :: report_row where
  "new_report = base_report.extend new_totals
     (report_row.fields [] REPORT_SELLER [] [] ''TRY'' None None False None 0 0 0)"

definition new_tax_group :: tax_group_row where
  "new_tax_group = base_report.extend new_totals (tax_group_row.fields [] [] [] ''TRY'')"

definition create_expense ::
  "string \<Rightarrow> string \<Rightarrow> string \<Rightarrow> rat \<Rightarrow> string option \<Rightarrow> bool \<Rightarrow> nat \<Rightarrow> expense_row"
where
  "create_expense rid accountId key amount itemClass whole weight =
     \<lparr>ex_reportId = rid, ex_accountId = accountId, ex_expenseKey = key, ex_expenseAmount = amount,
      ex_itemClass = itemClass, ex_totalExpense = whole, ex_displayWeight = weight\<rparr>"

definition new_report_item :: report_item_row where
  "new_report_item =
     \<lparr>it_reportId = [], it_accountId = [], it_reportItemKey = [], it_itemId = [],
      it_identifiedByName = False, it_itemName = [], it_itemVariation = [], it_itemQuantity = 0,
      it_itemTotalAmount = 0, it_itemTaxAmount = 0, it_itemDiscountAmount = 0,
      it_itemComissionAmount = 0, it_purchasedQuantity = 0, it_purchasedTotalAmount = 0,
      it_purchasedTaxAmount = 0, it_purchasedDiscountAmount = 0, it_purchasedComissionAmount = 0,
      it_refundedQuantity = 0, it_refundedTotalAmount = 0, it_refundedTaxAmount = 0,
      it_refundedDiscountAmount = 0, it_refundedComissionAmount = 0\<rparr>"

definition new_report_platform :: report_platform_row where
  "new_report_platform =
     \<lparr>pl_reportId = [], pl_accountId = [], pl_platformKey = [], pl_externalPlatformId = None,
      pl_platformName = [], pl_purchaseCount = 0, pl_refundCount = 0, pl_soldQuantity = 0,
      pl_refundedQuantity = 0, pl_totalSaleAmount = 0, pl_totalRefundAmount = 0,
      pl_totalSaleTaxAmount = 0, pl_totalRefundTaxAmount = 0, pl_netSaleAmount = 0, pl_netRevenue = 0\<rparr>"

section \<open>The database\<close>

text \<open>
  The core's tables, which the reports only read, the reports' own, and the flag of the running
  instance that keeps its own cron job from starting twice.
\<close>

record report_db =
  db_core :: store
  db_queries :: "report_query list"
  db_reports :: "report_row list"
  db_relations :: "relation_row list"
  db_expenses :: "expense_row list"
  db_taxGroups :: "tax_group_row list"
  db_items :: "report_item_row list"
  db_platforms :: "report_platform_row list"
  db_externals :: "external_platform list"
  db_seq :: nat
  db_checking :: bool

text \<open>
  What the reports are given beside the core's environment: \<open>toLowerCase\<close>, the hash of the text of a
  name and a variation, the calendar date of a time in the process's time zone, and what the database
  keeps of a number in a \<open>bigint\<close> column.
\<close>

record report_env =
  re_env :: env
  re_lower :: "string \<Rightarrow> string"
  re_identity :: "string \<Rightarrow> string \<Rightarrow> string"
  re_local :: "nat \<Rightarrow> local_date"
  re_bigint :: "rat \<Rightarrow> rat"

abbreviation re_big :: "report_env \<Rightarrow> bigjs" where
  "re_big R \<equiv> env_big (re_env R)"

definition drawId :: "report_env \<Rightarrow> (report_db, string) act" where
  "drawId R s = (s\<lparr>db_seq := Suc (db_seq s)\<rparr>, Inr (env_uuid (re_env R) (db_seq s)))"

section \<open>Columns\<close>

definition totals_columns :: "bigjs \<Rightarrow> 'a base_report_scheme \<Rightarrow> 'a base_report_scheme" where
  "totals_columns B r =
     r\<lparr>br_totalSaleAmount := money B (br_totalSaleAmount r),
       br_totalExpenseAmount := money B (br_totalExpenseAmount r),
       br_totalSaleAmountWithoutExpense := money B (br_totalSaleAmountWithoutExpense r),
       br_totalRefundAmount := money B (br_totalRefundAmount r),
       br_totalSaleTaxAmount := money B (br_totalSaleTaxAmount r),
       br_totalRefundTaxAmount := money B (br_totalRefundTaxAmount r),
       br_netTaxAmount := money B (br_netTaxAmount r), br_netSaleAmount := money B (br_netSaleAmount r),
       br_netRevenue := money B (br_netRevenue r)\<rparr>"

definition report_columns :: "bigjs \<Rightarrow> report_row \<Rightarrow> report_row" where
  "report_columns B r =
     (totals_columns B r)\<lparr>rep_totalExpense := money B (rep_totalExpense r),
       rep_netRevenueWithoutExpense := money B (rep_netRevenueWithoutExpense r),
       rep_netRevenueWithoutExpenseTaxed := money B (rep_netRevenueWithoutExpenseTaxed r)\<rparr>"

text \<open>\<open>BigintDbField.from\<close>: reading a number beyond the safe integers throws.\<close>

definition bigint_from :: "rat \<Rightarrow> unit res" where
  "bigint_from v =
     throwIf (of_int \<lfloor>v\<rfloor> \<noteq> v \<or> \<bar>v\<bar> > 9007199254740991)
       (JsError ''ReportTaxGroup.paymentCount exceeds Number.MAX_SAFE_INTEGER'')"

definition tax_group_columns :: "report_env \<Rightarrow> tax_group_row \<Rightarrow> tax_group_row" where
  "tax_group_columns R r =
     (totals_columns (re_big R) r)\<lparr>br_paymentCount := re_bigint R (br_paymentCount r)\<rparr>"

definition expense_columns :: "bigjs \<Rightarrow> expense_row \<Rightarrow> expense_row" where
  "expense_columns B e = e\<lparr>ex_expenseAmount := money B (ex_expenseAmount e)\<rparr>"

definition report_item_columns :: "report_env \<Rightarrow> report_item_row \<Rightarrow> report_item_row" where
  "report_item_columns R i =
     (let m = money (re_big R); n = re_bigint R in
      i\<lparr>it_itemQuantity := n (it_itemQuantity i), it_itemTotalAmount := m (it_itemTotalAmount i),
        it_itemTaxAmount := m (it_itemTaxAmount i), it_itemDiscountAmount := m (it_itemDiscountAmount i),
        it_itemComissionAmount := m (it_itemComissionAmount i),
        it_purchasedQuantity := n (it_purchasedQuantity i),
        it_purchasedTotalAmount := m (it_purchasedTotalAmount i),
        it_purchasedTaxAmount := m (it_purchasedTaxAmount i),
        it_purchasedDiscountAmount := m (it_purchasedDiscountAmount i),
        it_purchasedComissionAmount := m (it_purchasedComissionAmount i),
        it_refundedQuantity := n (it_refundedQuantity i),
        it_refundedTotalAmount := m (it_refundedTotalAmount i),
        it_refundedTaxAmount := m (it_refundedTaxAmount i),
        it_refundedDiscountAmount := m (it_refundedDiscountAmount i),
        it_refundedComissionAmount := m (it_refundedComissionAmount i)\<rparr>)"

definition report_platform_columns :: "report_env \<Rightarrow> report_platform_row \<Rightarrow> report_platform_row" where
  "report_platform_columns R p =
     (let m = money (re_big R); n = re_bigint R in
      p\<lparr>pl_purchaseCount := n (pl_purchaseCount p), pl_refundCount := n (pl_refundCount p),
        pl_soldQuantity := m (pl_soldQuantity p), pl_refundedQuantity := m (pl_refundedQuantity p),
        pl_totalSaleAmount := m (pl_totalSaleAmount p), pl_totalRefundAmount := m (pl_totalRefundAmount p),
        pl_totalSaleTaxAmount := m (pl_totalSaleTaxAmount p),
        pl_totalRefundTaxAmount := m (pl_totalRefundTaxAmount p),
        pl_netSaleAmount := m (pl_netSaleAmount p), pl_netRevenue := m (pl_netRevenue p)\<rparr>)"

section \<open>Saving and finding\<close>

text \<open>The columns of the unique constraints.\<close>

definition expense_key :: "expense_row \<Rightarrow> string \<times> string \<times> string" where
  "expense_key e = (ex_reportId e, ex_accountId e, ex_expenseKey e)"

definition tax_group_key :: "tax_group_row \<Rightarrow> string \<times> string \<times> string" where
  "tax_group_key r = (tg_reportId r, tg_taxPercent r, tg_currency r)"

definition report_item_key :: "report_item_row \<Rightarrow> string \<times> string \<times> string" where
  "report_item_key i = (it_reportId i, it_accountId i, it_reportItemKey i)"

definition report_platform_key :: "report_platform_row \<Rightarrow> string \<times> string \<times> string" where
  "report_platform_key p = (pl_reportId p, pl_accountId p, pl_platformKey p)"

definition save_report :: "report_env \<Rightarrow> report_row \<Rightarrow> report_db \<Rightarrow> report_db" where
  "save_report R r s = s\<lparr>db_reports := upsert rep_id (report_columns (re_big R) r) (db_reports s)\<rparr>"

definition save_relation :: "relation_row \<Rightarrow> report_db \<Rightarrow> report_db" where
  "save_relation r s = s\<lparr>db_relations := upsert rel_id r (db_relations s)\<rparr>"

definition save_expense :: "report_env \<Rightarrow> expense_row \<Rightarrow> report_db \<Rightarrow> report_db" where
  "save_expense R e s = s\<lparr>db_expenses := upsert expense_key (expense_columns (re_big R) e) (db_expenses s)\<rparr>"

definition save_tax_group :: "report_env \<Rightarrow> tax_group_row \<Rightarrow> report_db \<Rightarrow> report_db" where
  "save_tax_group R r s = s\<lparr>db_taxGroups := upsert tax_group_key (tax_group_columns R r) (db_taxGroups s)\<rparr>"

definition save_report_item :: "report_env \<Rightarrow> report_item_row \<Rightarrow> report_db \<Rightarrow> report_db" where
  "save_report_item R i s = s\<lparr>db_items := upsert report_item_key (report_item_columns R i) (db_items s)\<rparr>"

definition save_report_platform :: "report_env \<Rightarrow> report_platform_row \<Rightarrow> report_db \<Rightarrow> report_db" where
  "save_report_platform R p s =
     s\<lparr>db_platforms := upsert report_platform_key (report_platform_columns R p) (db_platforms s)\<rparr>"

text \<open>The rows read have passed \<open>BigintDbField.from\<close>.\<close>

definition find_tax_group :: "string \<Rightarrow> string \<Rightarrow> string \<Rightarrow> (report_db, tax_group_row option) act" where
  "find_tax_group rid percent currency =
     bindS (readS (\<lambda>s. by_key tax_group_key (db_taxGroups s) (rid, percent, currency))) (\<lambda>found.
     bindS (liftS (foldE (\<lambda>_. bigint_from) () (case found of None \<Rightarrow> [] | Some r \<Rightarrow> [br_paymentCount r]))) (\<lambda>_.
     returnS found))"

definition find_report_item :: "string \<Rightarrow> string \<Rightarrow> string \<Rightarrow> (report_db, report_item_row option) act" where
  "find_report_item rid accountId key =
     bindS (readS (\<lambda>s. by_key report_item_key (db_items s) (rid, accountId, key))) (\<lambda>found.
     bindS (liftS (foldE (\<lambda>_. bigint_from) () (case found of None \<Rightarrow> []
       | Some i \<Rightarrow> [it_itemQuantity i, it_purchasedQuantity i, it_refundedQuantity i]))) (\<lambda>_.
     returnS found))"

definition find_report_platform :: "string \<Rightarrow> string \<Rightarrow> string \<Rightarrow> (report_db, report_platform_row option) act" where
  "find_report_platform rid accountId key =
     bindS (readS (\<lambda>s. by_key report_platform_key (db_platforms s) (rid, accountId, key))) (\<lambda>found.
     bindS (liftS (foldE (\<lambda>_. bigint_from) () (case found of None \<Rightarrow> []
       | Some p \<Rightarrow> [pl_purchaseCount p, pl_refundCount p]))) (\<lambda>_.
     returnS found))"

end
