(* ===== verification/Report_Setup.thy ===== *)
theory Report_Setup
  imports Report_Entities
begin

text \<open>
  \<open>seller-report-setup.service.ts\<close>: the queries a seller's reports are made for, created once per
  period by the explicit setup and by the digestion of payments. The accounts a user owns come from
  the authorisation service and are a parameter; a DTO returned repeats the rows.
\<close>

definition SELLER_REPORT_SETUP_CURRENCIES :: "string list" where
  "SELLER_REPORT_SETUP_CURRENCIES = [''TRY'', ''USD'', ''EUR'', ''GBP'']"

definition SELLER_REPORT_SETUP_GROUPINGS :: "date_grouping list" where
  "SELLER_REPORT_SETUP_GROUPINGS = [DAILY, MONTHLY, YEARLY]"

definition validateCurrency :: "string \<Rightarrow> unit res" where
  "validateCurrency currency =
     throwIf (currency \<notin> set SELLER_REPORT_SETUP_CURRENCIES) (BadRequest ''Unsupported report currency'')"

text \<open>\<open>owned\<close> are the user's accounts with the capabilities asked for.\<close>

definition authorize_setup :: "string list \<Rightarrow> string \<Rightarrow> unit res" where
  "authorize_setup owned accountId =
     bindE (throwIf (blank accountId) (BadRequest ''Account ID is required'')) (\<lambda>_.
     throwIf (accountId \<notin> set owned) (Forbidden ''You cannot configure reports for this account''))"

definition findAccount :: "string \<Rightarrow> bool \<Rightarrow> report_db \<Rightarrow> account_row res" where
  "findAccount i eligible s =
     bindE (of_option (NotFound ''Account not found'') (by_key a_id (st_accounts (db_core s)) i)) (\<lambda>account.
     bindE (throwIf (eligible \<and> (a_type account \<noteq> COMMERCIAL \<or> a_isExternal account \<or> a_deactivated account))
       (BadRequest ''Report setup requires an active, non-external commercial account'')) (\<lambda>_.
     Inr account))"

text \<open>The order of the rows read (by name and id) is of no consequence here.\<close>

definition findSellerQueries :: "string \<Rightarrow> string \<Rightarrow> report_db \<Rightarrow> report_query list" where
  "findSellerQueries accountId currency s =
     filter (\<lambda>q. q_ownerAccountId q = Some accountId \<and> q_currency q = Some currency \<and>
       q_reportType q = REPORT_SELLER) (db_queries s)"

definition grouping_text :: "date_grouping \<Rightarrow> string" where
  "grouping_text g = (case g of DAILY \<Rightarrow> ''DAILY'' | WEEKLY \<Rightarrow> ''WEEKLY'' | MONTHLY \<Rightarrow> ''MONTHLY''
     | YEARLY \<Rightarrow> ''YEARLY'' | ALL_TIME \<Rightarrow> ''ALL'')"

definition createQuery ::
  "report_env \<Rightarrow> account_row \<Rightarrow> string \<Rightarrow> date_grouping \<Rightarrow> report_type \<Rightarrow> (report_db, report_query) act"
where
  "createQuery R account currency grouping ty =
     bindS (drawId R) (\<lambda>i.
     let q = \<lparr>q_id = i,
           q_name = (if ty = REPORT_SELLER then ''Seller'' else ''Platform Seller'') @ '' Report / '' @
             take 100 (a_name account) @ '' / '' @ currency @ '' / '' @ grouping_text grouping,
           q_description = (if ty = REPORT_SELLER
             then ''Sales performance for this seller, grouped by the selected calendar period.''
             else ''Daily platform commission and payment service fees for this seller.''),
           q_ownerAccountId = Some (a_id account), q_currency = Some currency,
           q_dateGrouping = grouping, q_reportType = ty\<rparr> in
     bindS (modifyS (\<lambda>s. s\<lparr>db_queries := db_queries s @ [q]\<rparr>)) (\<lambda>_.
     returnS q))"

definition ensureSellerQueries ::
  "report_env \<Rightarrow> string \<Rightarrow> string \<Rightarrow> date_grouping list \<Rightarrow>
   (report_db, report_query list \<times> report_query list) act"
where
  "ensureSellerQueries R accountId currency groupings =
     bindS (readS (findAccount accountId True)) (\<lambda>found.
     bindS (liftS found) (\<lambda>account.
     bindS (readS (findSellerQueries accountId currency)) (\<lambda>existing.
     bindS (foldS (\<lambda>created grouping.
         if list_ex (\<lambda>q. q_dateGrouping q = grouping) existing then returnS created
         else bindS (createQuery R account currency grouping REPORT_SELLER) (\<lambda>q. returnS (created @ [q])))
       [] (unique groupings)) (\<lambda>created.
     returnS (existing, created)))))"

definition setup_groupings :: "date_grouping list \<Rightarrow> unit res" where
  "setup_groupings groupings =
     throwIf (groupings = [] \<or> list_ex (\<lambda>g. g \<notin> set SELLER_REPORT_SETUP_GROUPINGS) groupings \<or>
         DAILY \<notin> set groupings)
       (BadRequest ''Choose valid report groupings including DAILY'')"

definition setup_reports ::
  "report_env \<Rightarrow> string list \<Rightarrow> string \<Rightarrow> string \<Rightarrow> date_grouping list \<Rightarrow>
   (report_db, report_query list \<times> report_query list) act"
where
  "setup_reports R owned accountId currency groupings =
     bindS (liftS (validateCurrency currency)) (\<lambda>_.
     bindS (liftS (setup_groupings groupings)) (\<lambda>_.
     bindS (liftS (authorize_setup owned accountId)) (\<lambda>_.
     transactionS (ensureSellerQueries R accountId currency groupings))))"

definition preview_setup ::
  "string list \<Rightarrow> string \<Rightarrow> string \<Rightarrow> report_db \<Rightarrow> report_query list res"
where
  "preview_setup owned accountId currency s =
     bindE (validateCurrency currency) (\<lambda>_.
     bindE (authorize_setup owned accountId) (\<lambda>_.
     bindE (findAccount accountId True s) (\<lambda>_.
     Inr (findSellerQueries accountId currency s))))"

text \<open>\<open>missing\<close> of the result.\<close>

definition missing_groupings :: "report_query list \<Rightarrow> date_grouping list" where
  "missing_groupings queries =
     filter (\<lambda>g. \<not> list_ex (\<lambda>q. q_dateGrouping q = g) queries) SELLER_REPORT_SETUP_GROUPINGS"

definition daily_query :: "report_type \<Rightarrow> report_query \<Rightarrow> bool" where
  "daily_query ty q \<longleftrightarrow> q_dateGrouping q = DAILY \<and> q_reportType q = ty"

definition ensureDailyQueries :: "report_env \<Rightarrow> string \<Rightarrow> string \<Rightarrow> (report_db, report_query list) act" where
  "ensureDailyQueries R accountId currency =
     transactionS (
       bindS (readS (findAccount accountId False)) (\<lambda>found.
       bindS (liftS found) (\<lambda>account.
       bindS (readS (\<lambda>s. filter (\<lambda>q. q_ownerAccountId q = Some accountId \<and> q_currency q = Some currency \<and>
         q_reportType q \<in> {REPORT_SELLER, REPORT_PLATFORM_SELLER}) (db_queries s))) (\<lambda>queries.
       foldS (\<lambda>qs ty.
           if list_ex (daily_query ty) qs then returnS qs
           else bindS (createQuery R account currency DAILY ty) (\<lambda>q. returnS (qs @ [q])))
         queries [REPORT_SELLER, REPORT_PLATFORM_SELLER]))))"

end
