(* ===== verification/Reports.thy ===== *)
theory Reports
  imports Report_Setup Return_Url Grouping "HOL-Library.List_Lexorder" "HOL-Library.Char_ord"
begin

text \<open>
  \<open>report-digestion.service.ts\<close>: which reports a payment goes to, the queue of its digestions, and the
  digestion itself. The cache of platforms and of reports being created spares queries of rows that do
  not change meanwhile and is left out; the payment's DTO repeats its row. Several instances may run,
  so that the statements of the queue's claim are definitions of their own.
\<close>

section \<open>Reports of a query\<close>

text \<open>The unique constraint of \<open>Report\<close>, archived reports included.\<close>

definition report_unique :: "report_row \<Rightarrow> string \<times> report_type \<times> string \<times> string" where
  "report_unique r = (rep_queryId r, rep_reportType r, rep_periodLabel r, rep_currency r)"

definition find_current_report :: "string \<Rightarrow> string \<Rightarrow> string \<Rightarrow> report_db \<Rightarrow> report_row option" where
  "find_current_report qid label currency s =
     List.find (\<lambda>r. rep_queryId r = qid \<and> rep_periodLabel r = label \<and> rep_currency r = currency \<and>
       \<not> rep_archived r) (db_reports s)"

definition insert_report :: "report_env \<Rightarrow> report_row \<Rightarrow> (report_db, report_row) act" where
  "insert_report R r =
     bindS (readS (\<lambda>s. list_ex (\<lambda>x. report_unique x = report_unique r) (db_reports s))) (\<lambda>taken.
     bindS (guardS taken (JsError ''QueryFailedError'')) (\<lambda>_.
     bindS (drawId R) (\<lambda>i.
     bindS (modifyS (save_report R (r\<lparr>rep_id := i\<rparr>))) (\<lambda>_.
     returnS (r\<lparr>rep_id := i\<rparr>)))))"

definition findOrCreateByQuery ::
  "report_env \<Rightarrow> report_query \<Rightarrow> string \<Rightarrow> string \<Rightarrow> (report_db, report_row) act"
where
  "findOrCreateByQuery R query label currency =
     bindS (readS (find_current_report (q_id query) label currency)) (\<lambda>existing.
     case existing of
       Some r \<Rightarrow> returnS r
     | None \<Rightarrow>
         bindS (guardS (q_ownerAccountId query = None)
           (JsError ''Query has no ownerAccountId, cannot create report'')) (\<lambda>_.
         catchS (insert_report R (new_report\<lparr>rep_queryId := q_id query, rep_periodLabel := label,
             rep_currency := currency, rep_reportType := q_reportType query\<rparr>)) (\<lambda>err.
           bindS (readS (find_current_report (q_id query) label currency)) (\<lambda>reFetched.
           case reFetched of Some r \<Rightarrow> returnS r | None \<Rightarrow> throwS err))))"

section \<open>Totals\<close>

definition count_item ::
  "bigjs \<Rightarrow> payment_type \<Rightarrow> 'a base_report_scheme \<Rightarrow> item_row \<Rightarrow> 'a base_report_scheme"
where
  "count_item B ty report item =
     (if ty = PURCHASE
      then report\<lparr>br_totalSaleAmount := addN B [i_totalAmount item, br_totalSaleAmount report],
             br_totalSaleTaxAmount := addN B [i_taxAmount item, br_totalSaleTaxAmount report]\<rparr>
      else report\<lparr>br_totalRefundAmount := addN B [i_totalAmount item, br_totalRefundAmount report],
             br_totalRefundTaxAmount := addN B [i_taxAmount item, br_totalRefundTaxAmount report]\<rparr>)"

definition net_totals :: "bigjs \<Rightarrow> 'a base_report_scheme \<Rightarrow> 'a base_report_scheme" where
  "net_totals B report =
     (let netTax = minusN B (br_totalSaleTaxAmount report) [br_totalRefundTaxAmount report];
          netSale = minusN B (br_totalSaleAmount report) [br_totalRefundAmount report] in
      report\<lparr>br_netTaxAmount := netTax, br_netSaleAmount := netSale,
        br_netRevenue := minusN B netSale [netTax]\<rparr>)"

definition count_payment :: "bigjs \<Rightarrow> 'a base_report_scheme \<Rightarrow> 'a base_report_scheme" where
  "count_payment B report = report\<lparr>br_paymentCount := addN B [br_paymentCount report, 1]\<rparr>"

definition of_account :: "string option \<Rightarrow> item_row \<Rightarrow> bool" where
  "of_account accountId item \<longleftrightarrow> (case accountId of None \<Rightarrow> True | Some a \<Rightarrow> i_sellerAccountId item = Some a)"

definition reportCalculationByPaymentItems ::
  "bigjs \<Rightarrow> payment_type \<Rightarrow> item_row list \<Rightarrow> string option \<Rightarrow> 'a base_report_scheme \<Rightarrow> 'a base_report_scheme"
where
  "reportCalculationByPaymentItems B ty items accountId report =
     net_totals B (count_payment B (foldl (count_item B ty) report (filter (of_account accountId) items)))"

definition reportCalculation ::
  "bigjs \<Rightarrow> payment_row \<Rightarrow> item_row list \<Rightarrow> string \<Rightarrow> report_row \<Rightarrow> report_row"
where
  "reportCalculation B payment items accountId report =
     reportCalculationByPaymentItems B (p_type payment) (filter (of_account (Some accountId)) items)
       (Some accountId) report"

definition stampTimeAndSaveReport :: "report_env \<Rightarrow> report_row \<Rightarrow> payment_row \<Rightarrow> (report_db, report_row) act" where
  "stampTimeAndSaveReport R report payment =
     (let stamped = report\<lparr>rep_lastDigestedAt := Some (env_now (re_env R)),
        rep_lastDigestedPaymentId := Some (p_id payment)\<rparr> in
      bindS (modifyS (save_report R stamped)) (\<lambda>_. returnS stamped))"

section \<open>Expenses\<close>

definition REPORT_TOTAL :: string where "REPORT_TOTAL = ''REPORT_TOTAL''"
definition PLATFORM_COMISSION_TOTAL :: string where "PLATFORM_COMISSION_TOTAL = ''PLATFORM_COMISSION_TOTAL''"
definition PAYMENT_SERVICE_FEE :: string where "PAYMENT_SERVICE_FEE = ''PAYMENT_SERVICE_FEE''"
definition REFUND_ROUNDING_ADJUSTMENT :: string where
  "REFUND_ROUNDING_ADJUSTMENT = ''REFUND_ROUNDING_ADJUSTMENT''"
definition ITEM_CLASS_COMISSION_PREFIX :: string where "ITEM_CLASS_COMISSION_PREFIX = ''ITEM_CLASS_COMISSION:''"
definition EXTERNAL_PLATFORM_COMISSION_PREFIX :: string where
  "EXTERNAL_PLATFORM_COMISSION_PREFIX = ''EXTERNAL_PLATFORM_COMISSION:''"
definition EXTERNAL_ITEM_CLASS_COMISSION_PREFIX :: string where
  "EXTERNAL_ITEM_CLASS_COMISSION_PREFIX = ''EXTERNAL_ITEM_CLASS_COMISSION:''"
definition PAYMENT_CHANNEL_FEE_PREFIX :: string where "PAYMENT_CHANNEL_FEE_PREFIX = ''PAYMENT_CHANNEL_FEE:''"
definition POSTRAL_INSTANCE :: string where "POSTRAL_INSTANCE = ''POSTRAL_INSTANCE''"
definition WHOLE_PLATFORM :: string where "WHOLE_PLATFORM = ''PLATFORM''"

definition expenseDisplayWeight :: "string \<Rightarrow> nat" where
  "expenseDisplayWeight key =
     (if key = REPORT_TOTAL then 1
      else if key = PLATFORM_COMISSION_TOTAL \<or> key = PAYMENT_SERVICE_FEE \<or>
        take (length EXTERNAL_PLATFORM_COMISSION_PREFIX) key = EXTERNAL_PLATFORM_COMISSION_PREFIX then 2
      else 3)"

definition expenses_of :: "string \<Rightarrow> string \<Rightarrow> report_db \<Rightarrow> expense_row list" where
  "expenses_of rid accountId s =
     filter (\<lambda>e. ex_reportId e = rid \<and> ex_accountId e = accountId) (db_expenses s)"

text \<open>The entry of a map of expenses by key: created with the amount 0, and changed.\<close>

definition change_expense ::
  "(rat \<Rightarrow> rat) \<Rightarrow> expense_row \<Rightarrow> expense_row list \<Rightarrow> expense_row list"
where
  "change_expense f fresh rows =
     (let e = nullish (by_key ex_expenseKey rows (ex_expenseKey fresh)) fresh in
      upsert ex_expenseKey (e\<lparr>ex_expenseAmount := f (ex_expenseAmount e)\<rparr>) rows)"

definition save_expenses :: "report_env \<Rightarrow> expense_row list \<Rightarrow> (report_db, unit) act" where
  "save_expenses R rows = forS rows (\<lambda>e. modifyS (save_expense R e))"

section \<open>Platforms\<close>

record platform_ref =
  pr_platformKey :: string
  pr_platformName :: string
  pr_externalPlatformId :: "string option"

definition resolveReportPlatform :: "payment_row \<Rightarrow> report_db \<Rightarrow> platform_ref res" where
  "resolveReportPlatform payment s =
     (case p_externalPlatformId payment of
        Some (c # cs) \<Rightarrow>
          bindE (of_option (JsError ''Payment has a missing or invalid external platform'')
            (by_key xp_id (db_externals s) (c # cs))) (\<lambda>platform.
          bindE (throwIf (blank (xp_code platform) \<or> xp_code platform = POSTRAL_INSTANCE)
            (JsError ''Payment has a missing or invalid external platform'')) (\<lambda>_.
          Inr \<lparr>pr_platformKey = xp_code platform, pr_platformName = xp_name platform,
               pr_externalPlatformId = Some (xp_id platform)\<rparr>))
      | _ \<Rightarrow> Inr \<lparr>pr_platformKey = POSTRAL_INSTANCE, pr_platformName = ''Postral'', pr_externalPlatformId = None\<rparr>)"

definition platform_item ::
  "bigjs \<Rightarrow> payment_type \<Rightarrow> report_platform_row \<Rightarrow> item_row \<Rightarrow> report_platform_row"
where
  "platform_item B ty row item =
     (if ty = PURCHASE
      then row\<lparr>pl_soldQuantity := addN B [pl_soldQuantity row, i_quantity item],
             pl_totalSaleAmount := addN B [pl_totalSaleAmount row, i_totalAmount item],
             pl_totalSaleTaxAmount := addN B [pl_totalSaleTaxAmount row, i_taxAmount item]\<rparr>
      else row\<lparr>pl_refundedQuantity := addN B [pl_refundedQuantity row, i_quantity item],
             pl_totalRefundAmount := addN B [pl_totalRefundAmount row, i_totalAmount item],
             pl_totalRefundTaxAmount := addN B [pl_totalRefundTaxAmount row, i_taxAmount item]\<rparr>)"

definition platform_nets :: "bigjs \<Rightarrow> report_platform_row \<Rightarrow> report_platform_row" where
  "platform_nets B row =
     (let netSale = minusN B (pl_totalSaleAmount row) [pl_totalRefundAmount row];
          netTax = minusN B (pl_totalSaleTaxAmount row) [pl_totalRefundTaxAmount row] in
      row\<lparr>pl_netSaleAmount := netSale, pl_netRevenue := minusN B netSale [netTax]\<rparr>)"

definition updatePlatformReport ::
  "report_env \<Rightarrow> string \<Rightarrow> payment_row \<Rightarrow> item_row list \<Rightarrow> platform_ref \<Rightarrow> string option \<Rightarrow> (report_db, unit) act"
where
  "updatePlatformReport R rid payment paymentItems platform accountId =
     (let B = re_big R; items = filter (of_account accountId) paymentItems in
      if items = [] then returnS ()
      else
        bindS (find_report_platform rid (nullish accountId WHOLE_PLATFORM) (pr_platformKey platform)) (\<lambda>found.
        let row = (case found of Some p \<Rightarrow> p | None \<Rightarrow>
              new_report_platform\<lparr>pl_reportId := rid, pl_accountId := nullish accountId WHOLE_PLATFORM,
                pl_platformKey := pr_platformKey platform, pl_platformName := pr_platformName platform,
                pl_externalPlatformId := pr_externalPlatformId platform\<rparr>) in
        bindS (guardS (pl_externalPlatformId row \<noteq> pr_externalPlatformId platform)
          (JsError ''Platform key conflicts with an existing source in report'')) (\<lambda>_.
        let counted = (if p_type payment = PURCHASE
              then row\<lparr>pl_purchaseCount := addN B [pl_purchaseCount row, 1]\<rparr>
              else row\<lparr>pl_refundCount := addN B [pl_refundCount row, 1]\<rparr>) in
        modifyS (save_report_platform R (platform_nets B (foldl (platform_item B (p_type payment)) counted items))))))"

section \<open>Commissions\<close>

definition class_key :: "string option \<Rightarrow> item_row \<Rightarrow> string" where
  "class_key platformCode item =
     (case platformCode of
        None \<Rightarrow> ITEM_CLASS_COMISSION_PREFIX @ i_itemClass item
      | Some code \<Rightarrow> EXTERNAL_ITEM_CLASS_COMISSION_PREFIX @ code @ '':'' @ encodeURIComponent (i_itemClass item))"

definition comission_key :: "string option \<Rightarrow> string" where
  "comission_key platformCode =
     (case platformCode of None \<Rightarrow> PLATFORM_COMISSION_TOTAL
      | Some code \<Rightarrow> EXTERNAL_PLATFORM_COMISSION_PREFIX @ code)"

definition fresh_expense :: "string \<Rightarrow> string \<Rightarrow> string \<Rightarrow> string option \<Rightarrow> expense_row" where
  "fresh_expense rid accountId key itemClass =
     create_expense rid accountId key 0 itemClass True (expenseDisplayWeight key)"

definition comission_action :: "bigjs \<Rightarrow> payment_type \<Rightarrow> item_row \<Rightarrow> rat \<Rightarrow> rat" where
  "comission_action B ty item amount =
     (if ty = PURCHASE then addN B [amount, i_appComissionAmount item]
      else minusN B amount [i_appComissionAmount item])"

definition item_expenses ::
  "bigjs \<Rightarrow> string \<Rightarrow> string \<Rightarrow> payment_type \<Rightarrow> string option \<Rightarrow> expense_row list \<Rightarrow> item_row \<Rightarrow> expense_row list"
where
  "item_expenses B rid accountId ty platformCode rows item =
     (let change = (\<lambda>key itemClass. change_expense (comission_action B ty item)
            (fresh_expense rid accountId key itemClass));
          classed = (if i_itemClass item = [] then rows
            else change (class_key platformCode item) (Some (i_itemClass item)) rows) in
      change REPORT_TOTAL None (change (comission_key platformCode) None classed))"

definition updateExpensesForReport ::
  "report_env \<Rightarrow> string \<Rightarrow> payment_row \<Rightarrow> item_row list \<Rightarrow> string \<Rightarrow> string option \<Rightarrow> (report_db, unit) act"
where
  "updateExpensesForReport R rid payment items expenseAccountId itemFilter =
     bindS (if falsy (p_externalPlatformId payment) then returnS None
       else bindS (readS (resolveReportPlatform payment)) (\<lambda>resolved.
            bindS (liftS resolved) (\<lambda>platform. returnS (Some (encodeURIComponent (pr_platformKey platform)))))) (\<lambda>platformCode.
     bindS (readS (expenses_of rid expenseAccountId)) (\<lambda>allExpenses.
     save_expenses R (foldl (item_expenses (re_big R) rid expenseAccountId (p_type payment) platformCode)
       allExpenses (filter (of_account itemFilter) items))))"

section \<open>Provider fees and rounding\<close>

definition fee_keys :: "string \<Rightarrow> string list" where
  "fee_keys channel =
     [PAYMENT_SERVICE_FEE, PAYMENT_CHANNEL_FEE_PREFIX @ encodeURIComponent channel, REPORT_TOTAL]"

definition add_fee :: "bigjs \<Rightarrow> string \<Rightarrow> string \<Rightarrow> expense_row list \<Rightarrow> string \<times> rat \<Rightarrow> expense_row list" where
  "add_fee B rid accountId rows fee =
     foldl (\<lambda>es key. change_expense (\<lambda>x. addN B [x, snd fee]) (fresh_expense rid accountId key None) es)
       rows (fee_keys (fst fee))"

definition addProviderFeeExpenses ::
  "report_env \<Rightarrow> string \<Rightarrow> string \<Rightarrow> (string \<times> rat) list \<Rightarrow> (report_db, unit) act"
where
  "addProviderFeeExpenses R rid accountId fees =
     (let positiveFees = filter (\<lambda>fee. snd fee > 0) fees;
          changed = concat (map (fee_keys \<circ> fst) positiveFees) in
      if positiveFees = [] then returnS ()
      else
        bindS (readS (expenses_of rid accountId)) (\<lambda>existing.
        save_expenses R (filter (\<lambda>e. ex_expenseKey e \<in> set changed)
          (foldl (add_fee (re_big R) rid accountId) existing positiveFees))))"

text \<open>\<open>findByPaymentIdAndAccountId\<close> of the order search.\<close>

definition find_seller_order :: "string \<Rightarrow> string \<Rightarrow> report_db \<Rightarrow> seller_order_row res" where
  "find_seller_order pid accountId s =
     of_option (JsError ''Transaction not found'')
       (List.find (\<lambda>d. so_paymentId d = pid \<and> so_targetAccountId d = accountId) (st_orders (db_core s)))"

definition updateProviderFeeExpenseForReportAccountId ::
  "report_env \<Rightarrow> string \<Rightarrow> payment_row \<Rightarrow> string \<Rightarrow> (report_db, unit) act"
where
  "updateProviderFeeExpenseForReportAccountId R rid payment accountId =
     bindS (readS (\<lambda>s. filter (\<lambda>x. op_paymentId x = p_id payment \<and> op_providerFeeDebitFrom x \<noteq> PLATFORM \<and>
       op_providerFee x \<noteq> 0) (st_operations (db_core s)))) (\<lambda>operations.
     bindS (readS (find_seller_order (p_id payment) accountId)) (\<lambda>order.
     bindS (liftS order) (\<lambda>paymentSellerOrder.
     if so_amount paymentSellerOrder \<le> 0 \<or> p_totalAmount payment \<le> 0 then returnS ()
     else
       bindS (liftS (divN (re_big R) (so_amount paymentSellerOrder) [p_totalAmount payment])) (\<lambda>ratio.
       addProviderFeeExpenses R rid accountId
         (map (\<lambda>x. (op_paymentChannelId x, mulN (re_big R) [op_providerFee x, ratio])) operations)))))"

definition updateProviderFeeExpenseForPlatformReport ::
  "report_env \<Rightarrow> string \<Rightarrow> payment_row \<Rightarrow> (report_db, unit) act"
where
  "updateProviderFeeExpenseForPlatformReport R rid payment =
     bindS (readS (\<lambda>s. filter (\<lambda>x. op_paymentId x = p_id payment \<and> op_providerFee x \<noteq> 0)
       (st_operations (db_core s)))) (\<lambda>operations.
     addProviderFeeExpenses R rid WHOLE_PLATFORM
       (map (\<lambda>x. (op_paymentChannelId x, op_providerFee x)) operations))"

text \<open>What the settled lines of a refund paid back more or less than the ledger says.\<close>

definition line_adjustment :: "bigjs \<Rightarrow> rat \<Rightarrow> refund_line \<Rightarrow> rat res" where
  "line_adjustment B t line =
     bindE (bigOf B (rl_providerAmount line)) (\<lambda>provider.
     bindE (bigOf B (rl_nominalAmount line)) (\<lambda>nominal.
     Inr (big_plus B t (big_minus B provider nominal))))"

definition operation_adjustment :: "bigjs \<Rightarrow> channel_operation_row \<Rightarrow> rat res" where
  "operation_adjustment B operation =
     foldE (line_adjustment B) 0
       (filter (\<lambda>l. rl_originalPaymentItemId l \<in> set (nullish (op_settledRefundItemIds operation) []))
         (case op_refundPlan operation of None \<Rightarrow> [] | Some plan \<Rightarrow> rp_lines plan))"

definition refund_adjustment :: "bigjs \<Rightarrow> channel_operation_row list \<Rightarrow> rat res" where
  "refund_adjustment B refunds =
     foldE (\<lambda>t operation. bindE (operation_adjustment B operation) (\<lambda>x. Inr (big_plus B t x))) 0 refunds"

definition rounding_expense :: "bigjs \<Rightarrow> string \<Rightarrow> string \<Rightarrow> rat \<Rightarrow> expense_row list \<Rightarrow> string \<Rightarrow> expense_row" where
  "rounding_expense B rid accountId adjustment expenses key =
     (let e = nullish (by_key ex_expenseKey expenses key)
            (create_expense rid accountId key 0 None True (if key = REPORT_TOTAL then 1 else 2)) in
      e\<lparr>ex_expenseAmount := big_num B (big_plus B (ex_expenseAmount e) adjustment)\<rparr>)"

text \<open>The report as it is in memory is returned: its total is that of the changed expense.\<close>

definition updateRefundRoundingExpense ::
  "report_env \<Rightarrow> report_row \<Rightarrow> payment_row \<Rightarrow> string \<Rightarrow> (report_db, report_row) act"
where
  "updateRefundRoundingExpense R report payment accountId =
     (if p_type payment \<noteq> REFUND then returnS report
      else
        bindS (readS (\<lambda>s. refund_adjustment (re_big R) (filter (\<lambda>x. op_paymentId x = p_id payment \<and>
          op_operationType x = REFUND) (st_operations (db_core s))))) (\<lambda>found.
        bindS (liftS found) (\<lambda>adjustment.
        if adjustment = 0 then returnS report
        else
          bindS (readS (expenses_of (rep_id report) accountId)) (\<lambda>expenses.
          let changed = rounding_expense (re_big R) (rep_id report) accountId adjustment expenses in
          bindS (save_expenses R [changed REFUND_ROUNDING_ADJUSTMENT, changed REPORT_TOTAL]) (\<lambda>_.
          returnS (report\<lparr>rep_totalExpense := ex_expenseAmount (changed REPORT_TOTAL)\<rparr>))))))"

section \<open>The digestion of a payment\<close>

definition with_expenses :: "bigjs \<Rightarrow> report_row \<Rightarrow> report_row" where
  "with_expenses B report =
     report\<lparr>rep_netRevenueWithoutExpense := minusN B (br_netRevenue report) [rep_totalExpense report],
       rep_netRevenueWithoutExpenseTaxed := minusN B (br_netSaleAmount report) [rep_totalExpense report]\<rparr>"

definition total_expense :: "string \<Rightarrow> string \<Rightarrow> report_db \<Rightarrow> rat" where
  "total_expense rid accountId s =
     (case by_key expense_key (db_expenses s) (rid, accountId, REPORT_TOTAL) of
        None \<Rightarrow> 0 | Some e \<Rightarrow> ex_expenseAmount e)"

definition digestPayment ::
  "report_env \<Rightarrow> report_row \<Rightarrow> payment_row \<Rightarrow> item_row list \<Rightarrow> string \<Rightarrow> (report_db, report_row) act"
where
  "digestPayment R report payment items accountId =
     (let counted = reportCalculation (re_big R) payment items accountId report in
      bindS (readS (total_expense (rep_id report) accountId)) (\<lambda>expense.
      stampTimeAndSaveReport R (with_expenses (re_big R) (counted\<lparr>rep_totalExpense := expense\<rparr>)) payment))"

definition digestPlatformFlowReport ::
  "report_env \<Rightarrow> report_row \<Rightarrow> payment_row \<Rightarrow> item_row list \<Rightarrow> string \<Rightarrow> (report_db, report_row) act"
where
  "digestPlatformFlowReport R report payment items accountId =
     (let B = re_big R;
          counted = net_totals B (count_payment B (foldl (count_item B (p_type payment)) report items)) in
      bindS (readS (total_expense (rep_id report) accountId)) (\<lambda>expense.
      stampTimeAndSaveReport R (with_expenses B (counted\<lparr>rep_totalExpense := expense\<rparr>)) payment))"

section \<open>Tax groups\<close>

text \<open>\<open>String(x)\<close> of a number with four decimals at most, as the amounts and rates are.\<close>

definition number_text :: "rat \<Rightarrow> string" where
  "number_text x =
     (let k = \<lfloor>\<bar>x\<bar> * 10000\<rfloor>;
          frac = rev (dropWhile (\<lambda>c. c = CHR ''0'') (rev (padStart0 4 (nat_text (nat (k mod 10000)))))) in
      (if x < 0 then ''-'' else []) @ nat_text (nat (k div 10000)) @ (if frac = [] then [] else CHR ''.'' # frac))"

definition update_tax_group ::
  "report_env \<Rightarrow> string \<Rightarrow> payment_row \<Rightarrow> string option \<Rightarrow> rat \<times> item_row list \<Rightarrow> (report_db, unit) act"
where
  "update_tax_group R rid payment accountId entry =
     (let percentGroup = number_text (fst entry) in
      bindS (find_tax_group rid percentGroup (p_currency payment)) (\<lambda>found.
      let group = (case found of Some g \<Rightarrow> g | None \<Rightarrow>
            new_tax_group\<lparr>tg_taxPercent := percentGroup, tg_reportId := rid,
              tg_taxGroupName := ''Tax '' @ percentGroup @ ''%'', tg_currency := p_currency payment\<rparr>) in
      modifyS (save_tax_group R
        (reportCalculationByPaymentItems (re_big R) (p_type payment) (snd entry) accountId group))))"

definition updateTaxGroupReportByPaymentAndAccountId ::
  "report_env \<Rightarrow> string \<Rightarrow> payment_row \<Rightarrow> item_row list \<Rightarrow> string option \<Rightarrow> (report_db, unit) act"
where
  "updateTaxGroupReportByPaymentAndAccountId R rid payment items accountId =
     forS (number_keys_order (groupBySpecialCondition (filter (of_account accountId) items) i_taxPercent))
       (update_tax_group R rid payment accountId)"

section \<open>Items\<close>

text \<open>\<open>replace(/\s+/g, " ")\<close>: a run of blanks becomes one; \<open>True\<close> says the last character was blank.\<close>

primrec squeeze :: "bool \<Rightarrow> string \<Rightarrow> string" where
  "squeeze b [] = []"
| "squeeze b (c # cs) =
     (if is_space c then (if b then squeeze True cs else CHR '' '' # squeeze True cs)
      else c # squeeze False cs)"

definition generateKey :: "report_env \<Rightarrow> string \<Rightarrow> string \<Rightarrow> string \<Rightarrow> string \<Rightarrow> string res" where
  "generateKey R rid itemId itemVariation itemName =
     (if \<not> blank itemId then Inr (rid @ ''_'' @ itemId @ ''_'' @ itemVariation)
      else let name = re_lower R (squeeze False (trim itemName)) in
        bindE (throwIf (name = []) (JsError ''Report contains an item without an ID or name'')) (\<lambda>_.
        Inr (rid @ '':no-id:'' @ re_identity R name itemVariation)))"

definition count_report_item ::
  "bigjs \<Rightarrow> payment_type \<Rightarrow> item_row \<Rightarrow> report_item_row \<Rightarrow> report_item_row"
where
  "count_report_item B ty item row =
     (let discount = minusN B (i_totalAmount item) [mulN B [i_originalUnitAmount item, i_quantity item]];
          counted = (if ty = PURCHASE
            then row\<lparr>it_purchasedQuantity := addN B [it_purchasedQuantity row, i_quantity item],
                   it_purchasedTotalAmount := addN B [it_purchasedTotalAmount row, i_totalAmount item],
                   it_purchasedComissionAmount := addN B [it_purchasedComissionAmount row, i_appComissionAmount item],
                   it_purchasedTaxAmount := addN B [it_purchasedTaxAmount row, i_taxAmount item],
                   it_purchasedDiscountAmount := addN B [it_purchasedDiscountAmount row, discount]\<rparr>
            else row\<lparr>it_refundedQuantity := addN B [it_refundedQuantity row, i_quantity item],
                   it_refundedTotalAmount := addN B [it_refundedTotalAmount row, i_totalAmount item],
                   it_refundedComissionAmount := addN B [it_refundedComissionAmount row, i_appComissionAmount item],
                   it_refundedTaxAmount := addN B [it_refundedTaxAmount row, i_taxAmount item],
                   it_refundedDiscountAmount := addN B [it_refundedDiscountAmount row, discount]\<rparr>) in
      counted\<lparr>it_itemComissionAmount := minusN B (it_purchasedComissionAmount counted) [it_refundedComissionAmount counted],
        it_itemTaxAmount := minusN B (it_purchasedTaxAmount counted) [it_refundedTaxAmount counted],
        it_itemDiscountAmount := minusN B (it_purchasedDiscountAmount counted) [it_refundedDiscountAmount counted],
        it_itemTotalAmount := minusN B (it_purchasedTotalAmount counted) [it_refundedTotalAmount counted],
        it_itemQuantity := minusN B (it_purchasedQuantity counted) [it_refundedQuantity counted]\<rparr>)"

text \<open>The row of an item: from the rows of this payment, from the database, or a new one, saved at once.\<close>

definition report_item_for ::
  "report_env \<Rightarrow> string \<Rightarrow> string \<Rightarrow> report_item_row list \<Rightarrow> string \<Rightarrow> item_row \<Rightarrow> (report_db, report_item_row) act"
where
  "report_item_for R rid accountId cache key item =
     (case by_key it_reportItemKey cache key of
        Some row \<Rightarrow> returnS row
      | None \<Rightarrow>
          bindS (find_report_item rid accountId key) (\<lambda>found.
          case found of
            Some row \<Rightarrow> returnS row
          | None \<Rightarrow>
              let row = new_report_item\<lparr>it_reportItemKey := key, it_reportId := rid,
                    it_itemId := i_itemId item, it_identifiedByName := blank (i_itemId item),
                    it_itemName := i_name item, it_itemVariation := i_variation item,
                    it_accountId := accountId\<rparr> in
              bindS (modifyS (save_report_item R row)) (\<lambda>_. returnS row)))"

definition update_report_item ::
  "report_env \<Rightarrow> string \<Rightarrow> payment_row \<Rightarrow> string \<Rightarrow> report_item_row list \<Rightarrow> item_row \<Rightarrow>
   (report_db, report_item_row list) act"
where
  "update_report_item R rid payment accountId cache item =
     bindS (liftS (generateKey R rid (i_itemId item) (i_variation item) (i_name item))) (\<lambda>key.
     bindS (report_item_for R rid accountId cache key item) (\<lambda>row.
     let row' = count_report_item (re_big R) (p_type payment) item row in
     bindS (modifyS (save_report_item R row')) (\<lambda>_.
     returnS (upsert it_reportItemKey row' cache))))"

definition updatePaymentItemReport ::
  "report_env \<Rightarrow> string \<Rightarrow> payment_row \<Rightarrow> item_row list \<Rightarrow> string option \<Rightarrow> (report_db, unit) act"
where
  "updatePaymentItemReport R rid payment items accountId =
     bindS (foldS (update_report_item R rid payment (nullish accountId WHOLE_PLATFORM)) []
       (filter (of_account accountId) items)) (\<lambda>_. returnS ())"

section \<open>The platform's income from commissions\<close>

record comission_sums =
  cm_sale :: rat
  cm_saleTax :: rat
  cm_refund :: rat
  cm_refundTax :: rat
  cm_count :: nat
  cm_report :: report_row

definition comission_item ::
  "bigjs \<Rightarrow> payment_type \<Rightarrow> rat \<Rightarrow> comission_sums \<Rightarrow> item_row \<Rightarrow> comission_sums"
where
  "comission_item B ty taxMax c item =
     (let amount = i_appComissionAmount item; taxAmount = mulN B [amount, taxMax]; r = cm_report c in
      if ty = PURCHASE
      then c\<lparr>cm_count := Suc (cm_count c), cm_sale := addN B [amount, cm_sale c],
             cm_saleTax := addN B [taxAmount, cm_saleTax c],
             cm_report := r\<lparr>br_totalSaleAmount := addN B [amount, br_totalSaleAmount r],
               br_totalSaleTaxAmount := addN B [taxAmount, br_totalSaleTaxAmount r]\<rparr>\<rparr>
      else c\<lparr>cm_count := Suc (cm_count c), cm_refund := addN B [amount, cm_refund c],
             cm_refundTax := addN B [taxAmount, cm_refundTax c],
             cm_report := r\<lparr>br_totalRefundAmount := addN B [amount, br_totalRefundAmount r],
               br_totalRefundTaxAmount := addN B [taxAmount, br_totalRefundTaxAmount r]\<rparr>\<rparr>)"

definition comission_tax_percent :: "admin_settings \<Rightarrow> rat" where
  "comission_tax_percent a =
     (case as_comissionItemTax a of Some (rate # _) \<Rightarrow> rate | _ \<Rightarrow> 0)"

definition comission_tax_group ::
  "bigjs \<Rightarrow> string \<Rightarrow> string \<Rightarrow> string \<Rightarrow> comission_sums \<Rightarrow> tax_group_row option \<Rightarrow> tax_group_row"
where
  "comission_tax_group B rid percent currency c found =
     (let g = (case found of Some x \<Rightarrow> x | None \<Rightarrow>
            new_tax_group\<lparr>tg_taxGroupName := ''%'' @ percent @ '' (Commission Tax)'', tg_taxPercent := percent,
              tg_reportId := rid, tg_currency := currency\<rparr>) in
      net_totals B (count_payment B
        (g\<lparr>br_totalSaleAmount := addN B [br_totalSaleAmount g, cm_sale c],
           br_totalRefundAmount := addN B [br_totalRefundAmount g, cm_refund c],
           br_totalSaleTaxAmount := addN B [br_totalSaleTaxAmount g, cm_saleTax c],
           br_totalRefundTaxAmount := addN B [br_totalRefundTaxAmount g, cm_refundTax c]\<rparr>)))"

definition digestComissionIncomeForReport ::
  "report_env \<Rightarrow> report_row \<Rightarrow> payment_row \<Rightarrow> item_row list \<Rightarrow> string option \<Rightarrow> (report_db, unit) act"
where
  "digestComissionIncomeForReport R report payment items accountId =
     (if \<not> falsy (p_externalPlatformId payment) then returnS ()
      else
        bindS (readS (\<lambda>s. comission_tax_percent (st_settings (db_core s)))) (\<lambda>percent.
        bindS (liftS (divN (re_big R) percent [addN (re_big R) [percent, 100]])) (\<lambda>taxMax.
        let B = re_big R;
            c = foldl (comission_item B (p_type payment) taxMax)
              \<lparr>cm_sale = 0, cm_saleTax = 0, cm_refund = 0, cm_refundTax = 0, cm_count = 0, cm_report = report\<rparr>
              (filter (of_account accountId) items);
            counted = (if cm_count c > 0 then count_payment B (cm_report c) else cm_report c) in
        bindS (stampTimeAndSaveReport R (with_expenses B (net_totals B counted)) payment) (\<lambda>_.
        bindS (find_tax_group (rep_id report) (number_text percent) (p_currency payment)) (\<lambda>found.
        modifyS (save_tax_group R
          (comission_tax_group B (rep_id report) (number_text percent) (p_currency payment) c found)))))))"

section \<open>The queue\<close>

definition insertPaymentToReportDigestionSingle ::
  "report_env \<Rightarrow> string \<Rightarrow> string \<Rightarrow> string \<Rightarrow> (report_db, unit) act"
where
  "insertPaymentToReportDigestionSingle R rid pid accountId =
     bindS (readS (\<lambda>s. list_ex (\<lambda>r. rel_reportId r = rid \<and> rel_paymentId r = pid) (db_relations s))) (\<lambda>taken.
     bindS (guardS taken (JsError ''QueryFailedError'')) (\<lambda>_.
     bindS (drawId R) (\<lambda>i.
     modifyS (save_relation \<lparr>rel_id = i, rel_paymentId = pid, rel_reportId = rid, rel_accountId = accountId,
       rel_digestionId = None, rel_digestionStatus = DS_WAITING, rel_digestionStartedAt = None,
       rel_digestionCompletedAt = None\<rparr>))))"

text \<open>A missing seller sorts last among the accounts.\<close>

definition seller_accounts :: "item_row list \<Rightarrow> string option list" where
  "seller_accounts items =
     (let sellers = unique (map i_sellerAccountId items) in
      map Some (sort (map the (filter (\<lambda>a. a \<noteq> None) sellers))) @ filter (\<lambda>a. a = None) sellers)"

definition findMatchingQueries ::
  "report_env \<Rightarrow> payment_row \<Rightarrow> item_row list \<Rightarrow> (report_db, report_query list) act"
where
  "findMatchingQueries R payment items =
     bindS (readS (\<lambda>s. filter (\<lambda>q. q_currency q = Some (p_currency payment) \<and>
       q_reportType q \<in> {REPORT_PLATFORM, REPORT_PLATFORM_FLOW}) (db_queries s))) (\<lambda>existing.
     foldS (\<lambda>queries accountId.
         bindS (guardS (falsy accountId) (JsError ''Payment contains an item without a seller account'')) (\<lambda>_.
         bindS (ensureDailyQueries R (nullish accountId []) (p_currency payment)) (\<lambda>daily.
         returnS (queries @ daily))))
       existing (seller_accounts items))"

text \<open>The account column of a relation cannot be null.\<close>

definition enqueue_payment :: "report_env \<Rightarrow> payment_row \<Rightarrow> report_query \<Rightarrow> (report_db, unit) act" where
  "enqueue_payment R payment query =
     bindS (findOrCreateByQuery R query
       (buildPeriodLabel (q_dateGrouping query) (re_local R (p_createdAt payment))) (p_currency payment)) (\<lambda>report.
     bindS (liftS (of_option (JsError ''QueryFailedError'') (q_ownerAccountId query))) (\<lambda>accountId.
     insertPaymentToReportDigestionSingle R (rep_id report) (p_id payment) accountId))"

section \<open>Digesting the queue\<close>

text \<open>
  The claim of an instance is two statements: it reads the reports being digested, and marks all
  waiting relations of other reports with its digestion id.
\<close>

definition working_reports :: "report_db \<Rightarrow> string list" where
  "working_reports s =
     map rel_reportId (filter (\<lambda>r. rel_digestionStatus r = DS_DIGESTING) (db_relations s))"

definition claim_relations :: "nat \<Rightarrow> string \<Rightarrow> string list \<Rightarrow> report_db \<Rightarrow> report_db" where
  "claim_relations now digestionId working s =
     s\<lparr>db_relations := map (\<lambda>r. if rel_digestionStatus r = DS_WAITING \<and> rel_reportId r \<notin> set working
         then r\<lparr>rel_digestionStatus := DS_DIGESTING, rel_digestionId := Some digestionId,
                rel_digestionStartedAt := Some now\<rparr> else r)
       (db_relations s)\<rparr>"

definition claimed_relations :: "string \<Rightarrow> report_db \<Rightarrow> relation_row list" where
  "claimed_relations digestionId s =
     filter (\<lambda>r. rel_digestionId r = Some digestionId \<and> rel_digestionStatus r = DS_DIGESTING) (db_relations s)"

definition digest_seller ::
  "report_env \<Rightarrow> report_row \<Rightarrow> payment_row \<Rightarrow> item_row list \<Rightarrow> string \<Rightarrow> (report_db, unit) act"
where
  "digest_seller R report payment items accountId =
     bindS (readS (resolveReportPlatform payment)) (\<lambda>resolved.
     bindS (liftS resolved) (\<lambda>platform.
     bindS (updateExpensesForReport R (rep_id report) payment items accountId (Some accountId)) (\<lambda>_.
     bindS (updateProviderFeeExpenseForReportAccountId R (rep_id report) payment accountId) (\<lambda>_.
     bindS (digestPayment R report payment items accountId) (\<lambda>_.
     bindS (updateTaxGroupReportByPaymentAndAccountId R (rep_id report) payment items (Some accountId)) (\<lambda>_.
     bindS (updatePaymentItemReport R (rep_id report) payment items (Some accountId)) (\<lambda>_.
     updatePlatformReport R (rep_id report) payment items platform (Some accountId))))))))"

definition digest_platform :: "report_env \<Rightarrow> report_row \<Rightarrow> payment_row \<Rightarrow> string \<Rightarrow> (report_db, report_row) act" where
  "digest_platform R report payment accountId =
     bindS (updateProviderFeeExpenseForPlatformReport R (rep_id report) payment) (\<lambda>_.
     updateRefundRoundingExpense R report payment accountId)"

definition digest_flow ::
  "report_env \<Rightarrow> report_row \<Rightarrow> payment_row \<Rightarrow> item_row list \<Rightarrow> string \<Rightarrow> (report_db, unit) act"
where
  "digest_flow R report payment items accountId =
     bindS (readS (resolveReportPlatform payment)) (\<lambda>resolved.
     bindS (liftS resolved) (\<lambda>platform.
     bindS (updateExpensesForReport R (rep_id report) payment items accountId None) (\<lambda>_.
     bindS (updateProviderFeeExpenseForPlatformReport R (rep_id report) payment) (\<lambda>_.
     bindS (updateRefundRoundingExpense R report payment accountId) (\<lambda>report'.
     bindS (digestPlatformFlowReport R report' payment items accountId) (\<lambda>_.
     bindS (updateTaxGroupReportByPaymentAndAccountId R (rep_id report) payment items None) (\<lambda>_.
     bindS (updatePaymentItemReport R (rep_id report) payment items None) (\<lambda>_.
     updatePlatformReport R (rep_id report) payment items platform None))))))))"

text \<open>The digestion of a payment into a report, by the type of the report.\<close>

definition digest_report ::
  "report_env \<Rightarrow> report_row \<Rightarrow> payment_row \<Rightarrow> item_row list \<Rightarrow> string \<Rightarrow> (report_db, unit) act"
where
  "digest_report R report payment items accountId =
     (if \<not> p_includeInReportDigestion payment then returnS ()
      else case rep_reportType report of
        REPORT_SELLER \<Rightarrow> digest_seller R report payment items accountId
      | REPORT_PLATFORM \<Rightarrow>
          bindS (if falsy (p_externalPlatformId payment) then digest_platform R report payment accountId
                 else returnS report) (\<lambda>report'.
          digestComissionIncomeForReport R report' payment items None)
      | REPORT_PLATFORM_SELLER \<Rightarrow> digestComissionIncomeForReport R report payment items (Some accountId)
      | REPORT_PLATFORM_FLOW \<Rightarrow> digest_flow R report payment items accountId)"

definition complete_relation :: "report_env \<Rightarrow> relation_row \<Rightarrow> relation_row" where
  "complete_relation R relation =
     relation\<lparr>rel_digestionStatus := DS_COMPLETED, rel_digestionId := Some [],
       rel_digestionCompletedAt := Some (env_now (re_env R))\<rparr>"

definition digest_relation :: "report_env \<Rightarrow> relation_row \<Rightarrow> (report_db, unit) act" where
  "digest_relation R relation =
     bindS (readS (\<lambda>s. (find_payment (db_core s) (rel_paymentId relation),
       items_of (db_core s) (rel_paymentId relation)))) (\<lambda>(found, items).
     bindS (liftS (of_option (NotFound ''Payment not found'') found)) (\<lambda>payment.
     bindS (readS (\<lambda>s. by_key rep_id (db_reports s) (rel_reportId relation))) (\<lambda>freshReport.
     case freshReport of
       None \<Rightarrow> returnS ()
     | Some report \<Rightarrow>
         bindS (readS (\<lambda>s. by_key q_id (db_queries s) (rep_queryId report))) (\<lambda>query.
         case (case query of None \<Rightarrow> None | Some q \<Rightarrow> q_ownerAccountId q) of
           Some (c # cs) \<Rightarrow>
             bindS (digest_report R report payment items (c # cs)) (\<lambda>_.
             modifyS (save_relation (complete_relation R relation)))
         | _ \<Rightarrow> returnS ()))))"

definition digest_waiting :: "report_env \<Rightarrow> (report_db, unit) act" where
  "digest_waiting R =
     bindS (drawId R) (\<lambda>uuid.
     let digestionId = nat_text (env_now (re_env R)) @ ''_'' @ uuid in
     bindS (readS working_reports) (\<lambda>working.
     bindS (modifyS (claim_relations (env_now (re_env R)) digestionId working)) (\<lambda>_.
     bindS (readS (claimed_relations digestionId)) (\<lambda>relationsWaiting.
     forS relationsWaiting (digest_relation R)))))"

definition checkRelations :: "report_env \<Rightarrow> (report_db, unit) act" where
  "checkRelations R =
     bindS (readS db_checking) (\<lambda>checking.
     if checking then returnS ()
     else
       bindS (modifyS (\<lambda>s. s\<lparr>db_checking := True\<rparr>)) (\<lambda>_.
       finallyS (catchS (digest_waiting R) (\<lambda>_. returnS ())) (\<lambda>s. s\<lparr>db_checking := False\<rparr>)))"

text \<open>The handler of the event: the payment is enqueued, and the queue is digested in the background.\<close>

definition insertPaymentToReportDigestionQueueCameFromEvent ::
  "report_env \<Rightarrow> payment_row \<Rightarrow> item_row list \<Rightarrow> (report_db, unit) act"
where
  "insertPaymentToReportDigestionQueueCameFromEvent R payment items =
     bindS (findMatchingQueries R payment items) (\<lambda>queries.
     if queries = [] then returnS ()
     else bindS (forS queries (enqueue_payment R payment)) (\<lambda>_. checkRelations R))"

definition isBusy :: "report_db \<Rightarrow> bool" where
  "isBusy s \<longleftrightarrow> list_ex (\<lambda>r. rel_digestionStatus r \<noteq> DS_COMPLETED) (db_relations s)"

section \<open>Reconstruction (\<open>report.service.ts\<close>)\<close>

text \<open>
  The payments of the account, as a seller or the customer, that the old report does not know. The
  relations inserted carry no account, which their column does not allow: the insertion fails, and
  the failure is logged.
\<close>

definition findPaymentDoesntHaveReportRelation :: "string \<Rightarrow> string \<Rightarrow> report_db \<Rightarrow> payment_row list" where
  "findPaymentDoesntHaveReportRelation accountId rid s =
     filter (\<lambda>p. (p_customerAccountId p = Some accountId \<or>
         list_ex (\<lambda>i. i_sellerAccountId i = Some accountId) (items_of (db_core s) (p_id p))) \<and>
       \<not> list_ex (\<lambda>r. rel_paymentId r = p_id p \<and> rel_reportId r = rid) (db_relations s))
       (st_payments (db_core s))"

definition includeOlderNotIncludedPayments ::
  "report_env \<Rightarrow> string \<Rightarrow> string \<Rightarrow> string \<Rightarrow> (report_db, unit) act"
where
  "includeOlderNotIncludedPayments R accountId newPeriodLabel oldReportId =
     bindS (readS (\<lambda>s. by_key rep_id (db_reports s) oldReportId)) (\<lambda>found.
     bindS (liftS (of_option (JsError ''Report not found'') found)) (\<lambda>oldReport.
     bindS (readS (\<lambda>s. by_key q_id (db_queries s) (rep_queryId oldReport))) (\<lambda>foundQuery.
     bindS (liftS (of_option (JsError ''Report has no query loaded'') foundQuery)) (\<lambda>query.
     bindS (readS (findPaymentDoesntHaveReportRelation accountId oldReportId)) (\<lambda>payments.
     let batchInsert = filter (\<lambda>p. buildPeriodLabel (q_dateGrouping query) (re_local R (p_createdAt p)) = newPeriodLabel)
       payments in
     if batchInsert = [] then returnS ()
     else catchS (throwS (JsError ''QueryFailedError'')) (\<lambda>_. returnS ()))))))"

definition reportReconstruct :: "report_env \<Rightarrow> string \<Rightarrow> bool \<Rightarrow> (report_db, unit) act" where
  "reportReconstruct R reportId findNotExisting =
     bindS (readS (\<lambda>s. by_key rep_id (db_reports s) reportId)) (\<lambda>found.
     bindS (liftS (of_option (JsError ''Report not found'') found)) (\<lambda>oldReport.
     bindS (readS (\<lambda>s. by_key q_id (db_queries s) (rep_queryId oldReport))) (\<lambda>foundQuery.
     bindS (liftS (of_option (JsError ''Report has no query loaded.'') foundQuery)) (\<lambda>query.
     bindS (liftS (of_option (JsError ''Report has no query ownerAccountId.'') (q_ownerAccountId query))) (\<lambda>owner.
     bindS (guardS (rep_archived oldReport) (JsError ''Report is already archived.'')) (\<lambda>_.
     let archived = oldReport\<lparr>rep_periodLabel := rep_periodLabel oldReport @ ''_OLD_'' @ nat_text (env_now (re_env R)),
           rep_archived := True\<rparr> in
     bindS (modifyS (save_report R archived)) (\<lambda>_.
     bindS (findOrCreateByQuery R query (rep_periodLabel oldReport) (rep_currency oldReport)) (\<lambda>brandNew.
     bindS (if findNotExisting
       then includeOlderNotIncludedPayments R owner (rep_periodLabel oldReport) (rep_id archived)
       else returnS ()) (\<lambda>_.
     bindS (readS (\<lambda>s. filter (\<lambda>r. rel_reportId r = rep_id archived) (db_relations s))) (\<lambda>relations.
     forS relations (\<lambda>r.
       insertPaymentToReportDigestionSingle R (rep_id brandNew) (rel_paymentId r) (rel_accountId r))))))))))))"

end
