(* ===== verification/Report_Frames.thy ===== *)
theory Report_Frames
  imports Reports
begin

text \<open>
  What the digestion of a payment into a report leaves alone: the other reports, the core, the queries
  and the relations. The interfaces are two locales over a predicate on the database.
\<close>

section \<open>The tables the digestion leaves alone\<close>

text \<open>
  A predicate that looks at the core, the queries, the reports, the relations and the ids drawn only is
  kept by what writes expenses, tax groups, items and platforms.
\<close>

locale report_frame =
  fixes P :: "report_db \<Rightarrow> bool"
  assumes report_frame: "P s \<Longrightarrow> db_core t = db_core s \<Longrightarrow> db_queries t = db_queries s \<Longrightarrow>
    db_reports t = db_reports s \<Longrightarrow> db_relations t = db_relations s \<Longrightarrow> db_seq t = db_seq s \<Longrightarrow> P t"
begin

lemma writes:
  "P s \<Longrightarrow> P (save_expense R e s)" "P s \<Longrightarrow> P (save_tax_group R g s)"
  "P s \<Longrightarrow> P (save_report_item R i s)" "P s \<Longrightarrow> P (save_report_platform R p s)"
  by (erule report_frame; simp add: save_expense_def save_tax_group_def save_report_item_def
      save_report_platform_def)+

lemmas keep = preserves writes

lemma keep_expenses:
  "preserves P (save_expenses R rows)" "preserves P (updateExpensesForReport R rid payment items a f)"
  "preserves P (addProviderFeeExpenses R rid a fees)"
  "preserves P (updateProviderFeeExpenseForReportAccountId R rid payment a)"
  "preserves P (updateProviderFeeExpenseForPlatformReport R rid payment)"
  unfolding save_expenses_def updateExpensesForReport_def addProviderFeeExpenses_def Let_def
    updateProviderFeeExpenseForReportAccountId_def updateProviderFeeExpenseForPlatformReport_def
  by (intro keep; assumption)+

lemma keep_rounding: "preserves P (updateRefundRoundingExpense R report payment a)"
  unfolding updateRefundRoundingExpense_def Let_def by (intro keep keep_expenses)

lemma keep_tax_groups:
  "preserves P (updateTaxGroupReportByPaymentAndAccountId R rid payment items a)"
  "preserves P (find_tax_group rid percent currency)"
  unfolding updateTaxGroupReportByPaymentAndAccountId_def update_tax_group_def find_tax_group_def Let_def
  by (intro keep; assumption)+

lemma keep_items: "preserves P (updatePaymentItemReport R rid payment items a)"
  unfolding updatePaymentItemReport_def update_report_item_def report_item_for_def find_report_item_def Let_def
  by (intro keep)

lemma keep_platforms: "preserves P (updatePlatformReport R rid payment items platform a)"
  unfolding updatePlatformReport_def find_report_platform_def Let_def by (intro keep)

lemmas keep_parts = keep_expenses keep_rounding keep_tax_groups keep_items keep_platforms

end

text \<open>
  A predicate that the writing of some reports keeps as well, among them the one digested into, is
  kept by the whole digestion of a payment.
\<close>

definition rep_head :: "report_row \<Rightarrow> string \<times> string \<times> report_type" where
  "rep_head r = (rep_id r, rep_queryId r, rep_reportType r)"

lemma rep_head_stamp [simp]:
  "rep_head (r\<lparr>rep_lastDigestedAt := n, rep_lastDigestedPaymentId := l\<rparr>) = rep_head r"
  "rep_head (r\<lparr>rep_totalExpense := e\<rparr>) = rep_head r"
  by (simp_all add: rep_head_def)

lemma fst_rep_head [simp]: "fst (rep_head r) = rep_id r"
  by (simp add: rep_head_def)

lemma totals_head [simp]:
  "rep_head (net_totals B r) = rep_head r" "rep_head (count_payment B r') = rep_head r'"
  "rep_head (count_item B ty r'' item) = rep_head r''" "rep_head (with_expenses B x) = rep_head x"
  "rep_head (report_columns B x') = rep_head x'"
  by (simp_all add: rep_head_def net_totals_def count_payment_def count_item_def with_expenses_def Let_def
      report_columns_def totals_columns_def)

lemma count_items_head [simp]: "rep_head (foldl (count_item B ty) r items) = rep_head r"
  by (induction items arbitrary: r) simp_all

lemma reportCalculation_head [simp]: "rep_head (reportCalculation B payment items a r) = rep_head r"
  by (simp add: reportCalculation_def reportCalculationByPaymentItems_def)

lemma comission_items_head [simp]:
  "rep_head (cm_report (foldl (comission_item B ty m) c items)) = rep_head (cm_report c)"
proof (induction items arbitrary: c)
  case (Cons i items)
  show ?case by (simp add: Cons.IH) (simp add: comission_item_def rep_head_def Let_def)
qed simp

lemma stored_id [simp]:
  "rep_id (report_columns B r) = rep_id r" "rep_id (with_expenses B r) = rep_id r"
  "rep_id (reportCalculation B payment items a r) = rep_id r"
  unfolding fst_rep_head [symmetric] by simp_all

lemma bindS_assoc: "bindS (bindS m f) g = bindS m (\<lambda>x. bindS (f x) g)"
  by (rule ext) (simp add: bindS_def split: prod.splits sum.splits)

lemma returnS_bind [simp]: "bindS (returnS x) f = f x"
  by (rule ext) (simp add: bindS_def returnS_def)

lemma rounding_head:
  "updateRefundRoundingExpense R report payment a s = (t, Inr x) \<Longrightarrow> rep_head x = rep_head report"
  by (auto simp: updateRefundRoundingExpense_def res_simps Let_def split: if_splits)

locale report_writes = report_frame +
  fixes ok :: "string \<times> string \<times> report_type \<Rightarrow> bool"
  assumes save_other: "P s \<Longrightarrow> ok (rep_head x) \<Longrightarrow> P (save_report R x s)"
begin

lemma stamp: "ok (rep_head x) \<Longrightarrow> preserves P (stampTimeAndSaveReport R x payment)"
  unfolding stampTimeAndSaveReport_def Let_def by (intro keep save_other) simp_all

lemma keep_sums:
  "ok (rep_head x) \<Longrightarrow> preserves P (digestPayment R x payment items a)"
  "ok (rep_head x) \<Longrightarrow> preserves P (digestPlatformFlowReport R x payment items a)"
  unfolding digestPayment_def digestPlatformFlowReport_def Let_def
  by (intro keep stamp; simp)+

lemma keep_comission:
  "ok (rep_head x) \<Longrightarrow> preserves P (digestComissionIncomeForReport R x payment items account)"
  unfolding digestComissionIncomeForReport_def Let_def
  by (intro keep stamp keep_tax_groups) simp_all

lemma keep_after_rounding:
  assumes "ok (rep_head x)" "\<And>y. ok (rep_head y) \<Longrightarrow> preserves P (f y)"
  shows "preserves P (bindS (updateRefundRoundingExpense R x payment a) f)"
proof (rule preservesI)
  fix s t r assume s: "P s" "bindS (updateRefundRoundingExpense R x payment a) f s = (t, r)"
  obtain u q where u: "updateRefundRoundingExpense R x payment a s = (u, q)" by fastforce
  have P: "P u" by (rule preservesD [OF keep_rounding s(1) u])
  show "P t"
  proof (cases q)
    case (Inr y)
    with u assms(1) have "ok (rep_head y)" by (simp add: rounding_head)
    from preservesD [OF assms(2) [OF this] P] show ?thesis using s(2) u Inr by (auto simp: bindS_def)
  qed (use s(2) u P in \<open>simp add: bindS_def\<close>)
qed

lemma keep_digest:
  assumes "ok (rep_head report)"
  shows "preserves P (digest_report R report payment items a)"
proof -
  have "preserves P (digest_seller R report payment items a)"
    unfolding digest_seller_def by (intro keep keep_parts keep_sums assms)
  moreover have "preserves P (digest_flow R report payment items a)"
    unfolding digest_flow_def
    by (intro keep keep_parts keep_after_rounding) (auto intro: keep_sums assms)
  moreover have "preserves P (bindS (if e then digest_platform R report payment a else returnS report)
      (\<lambda>x. digestComissionIncomeForReport R x payment items None))" for e
  proof (cases e)
    case True
    have "preserves P (bindS (updateProviderFeeExpenseForPlatformReport R (rep_id report) payment) (\<lambda>_.
        bindS (updateRefundRoundingExpense R report payment a) (\<lambda>x.
        digestComissionIncomeForReport R x payment items None)))"
      by (intro preserves_bindS keep_parts keep_after_rounding assms keep_comission)
    with True show ?thesis by (simp add: digest_platform_def bindS_assoc)
  next
    case False
    then show ?thesis by (simp add: keep_comission assms)
  qed
  ultimately show ?thesis
    unfolding digest_report_def using keep_comission [OF assms]
    by (cases "rep_reportType report") (simp_all add: preserves_basic)
qed

end

text \<open>The digestion into another report keeps a report; every digestion keeps the other tables.\<close>

definition report_is :: "string \<Rightarrow> report_row option \<Rightarrow> report_db \<Rightarrow> bool" where
  "report_is rid r s \<longleftrightarrow> by_key rep_id (db_reports s) rid = r"

definition tables_are :: "store \<Rightarrow> report_query list \<Rightarrow> relation_row list \<Rightarrow> report_db \<Rightarrow> bool" where
  "tables_are C Q L s \<longleftrightarrow> db_core s = C \<and> db_queries s = Q \<and> db_relations s = L"

definition report_head :: "string \<Rightarrow> (string \<times> string \<times> report_type) option \<Rightarrow> report_db \<Rightarrow> bool" where
  "report_head rid h s \<longleftrightarrow> map_option rep_head (by_key rep_id (db_reports s) rid) = h"

interpretation report_is: report_writes "report_is rid r" "\<lambda>h. fst h \<noteq> rid" for rid r
  by unfold_locales (simp_all add: report_is_def save_report_def by_key_upsert)

interpretation report_head: report_writes "report_head rid h" "\<lambda>x. fst x = rid \<longrightarrow> Some x = h" for rid h
  by unfold_locales (auto simp: report_head_def save_report_def by_key_upsert)

interpretation tables_are: report_writes "tables_are C Q L" "\<lambda>_. True" for C Q L
  by unfold_locales (simp_all add: tables_are_def save_report_def)

lemma digest_report_tables:
  assumes "digest_report R report payment items a s = (t, x)"
  shows "db_core t = db_core s" "db_queries t = db_queries s" "db_relations t = db_relations s"
    "rid \<noteq> rep_id report \<Longrightarrow> by_key rep_id (db_reports t) rid = by_key rep_id (db_reports s) rid"
    "by_key rep_id (db_reports s) (rep_id report) = Some report \<Longrightarrow>
       map_option rep_head (by_key rep_id (db_reports t) rid) = map_option rep_head (by_key rep_id (db_reports s) rid)"
  using preservesD [OF tables_are.keep_digest _ assms, of "db_core s" "db_queries s" "db_relations s"]
    preservesD [OF report_is.keep_digest _ assms, of rid "by_key rep_id (db_reports s) rid"]
    preservesD [OF report_head.keep_digest _ assms, of rid "map_option rep_head (by_key rep_id (db_reports s) rid)"]
  by (cases "rep_id report = rid"; auto simp: tables_are_def report_is_def report_head_def)+

end
