(* ===== verification/Report_Totals.thy ===== *)
theory Report_Totals
  imports Report_Frames
begin

text \<open>
  The totals of a seller's report against a reference: the sums over the payments digested into it.
\<close>

section \<open>The reference\<close>

definition account_items :: "store \<Rightarrow> string \<Rightarrow> string \<Rightarrow> item_row list" where
  "account_items C a pid = filter (of_account (Some a)) (items_of C pid)"

text \<open>What the payments of a type add up to for the account, in the order they were digested.\<close>

definition payment_total ::
  "store \<Rightarrow> string \<Rightarrow> payment_type \<Rightarrow> (item_row \<Rightarrow> rat) \<Rightarrow> string \<Rightarrow> rat"
where
  "payment_total C a ty f pid =
     (case find_payment C pid of
        None \<Rightarrow> 0
      | Some p \<Rightarrow> if p_type p = ty then sum_list (map f (account_items C a pid)) else 0)"

definition account_total ::
  "store \<Rightarrow> string \<Rightarrow> payment_type \<Rightarrow> (item_row \<Rightarrow> rat) \<Rightarrow> string list \<Rightarrow> rat"
where
  "account_total C a ty f pids = sum_list (map (payment_total C a ty f) pids)"

text \<open>The totals and nets of a report, after the payments \<open>pids\<close>.\<close>

definition report_sums :: "store \<Rightarrow> string \<Rightarrow> string list \<Rightarrow> report_row \<Rightarrow> bool" where
  "report_sums C a pids r \<longleftrightarrow>
     br_paymentCount r = of_nat (length pids) \<and>
     br_totalSaleAmount r = account_total C a PURCHASE i_totalAmount pids \<and>
     br_totalSaleTaxAmount r = account_total C a PURCHASE i_taxAmount pids \<and>
     br_totalRefundAmount r = account_total C a REFUND i_totalAmount pids \<and>
     br_totalRefundTaxAmount r = account_total C a REFUND i_taxAmount pids \<and>
     br_netSaleAmount r = br_totalSaleAmount r - br_totalRefundAmount r \<and>
     br_netTaxAmount r = br_totalSaleTaxAmount r - br_totalRefundTaxAmount r \<and>
     br_netRevenue r = br_netSaleAmount r - br_netTaxAmount r"

text \<open>
  The amounts of the account's items are decimals of four places and not negative, and twice their
  sums stays in the range where doubles keep such decimals apart.
\<close>

definition sums_bounded :: "store \<Rightarrow> string \<Rightarrow> rat \<Rightarrow> string list \<Rightarrow> bool" where
  "sums_bounded C a M pids \<longleftrightarrow>
     of_nat (length pids) \<le> M \<and>
     (\<forall>pid \<in> set pids. \<forall>i \<in> set (account_items C a pid).
        dec4 (i_totalAmount i) \<and> dec4 (i_taxAmount i) \<and> 0 \<le> i_totalAmount i \<and> 0 \<le> i_taxAmount i) \<and>
     (\<forall>ty. account_total C a ty i_totalAmount pids \<le> M / 2 \<and> account_total C a ty i_taxAmount pids \<le> M / 2)"

lemma report_sums_new: "report_sums C a [] new_report"
  by (simp add: report_sums_def new_report_def new_totals_def account_total_def base_report.defs)

lemma report_sums_mset:
  assumes "mset pids = mset qids"
  shows "report_sums C a pids r \<longleftrightarrow> report_sums C a qids r"
proof -
  have "account_total C a ty f pids = account_total C a ty f qids" for ty f
    unfolding account_total_def using assms by (metis mset_map sum_mset_sum_list)
  moreover have "length pids = length qids" using assms by (metis size_mset)
  ultimately show ?thesis by (simp add: report_sums_def)
qed

section \<open>Counting a payment's items\<close>

lemma count_items_sum:
  assumes B: "bigjs_ok B" "num_exact B M"
    and items: "\<forall>i \<in> set items. dec4 (i_totalAmount i) \<and> dec4 (i_taxAmount i) \<and> 0 \<le> i_totalAmount i \<and> 0 \<le> i_taxAmount i"
    and start: "dec4 (br_totalSaleAmount r)" "dec4 (br_totalSaleTaxAmount r)"
      "dec4 (br_totalRefundAmount r)" "dec4 (br_totalRefundTaxAmount r)"
      "0 \<le> br_totalSaleAmount r" "0 \<le> br_totalSaleTaxAmount r" "0 \<le> br_totalRefundAmount r" "0 \<le> br_totalRefundTaxAmount r"
    and bound: "ty = PURCHASE \<Longrightarrow> br_totalSaleAmount r + sum_list (map i_totalAmount items) \<le> M"
      "ty = PURCHASE \<Longrightarrow> br_totalSaleTaxAmount r + sum_list (map i_taxAmount items) \<le> M"
      "ty \<noteq> PURCHASE \<Longrightarrow> br_totalRefundAmount r + sum_list (map i_totalAmount items) \<le> M"
      "ty \<noteq> PURCHASE \<Longrightarrow> br_totalRefundTaxAmount r + sum_list (map i_taxAmount items) \<le> M"
  shows "foldl (count_item B ty) r items =
    (if ty = PURCHASE
     then r\<lparr>br_totalSaleAmount := br_totalSaleAmount r + sum_list (map i_totalAmount items),
            br_totalSaleTaxAmount := br_totalSaleTaxAmount r + sum_list (map i_taxAmount items)\<rparr>
     else r\<lparr>br_totalRefundAmount := br_totalRefundAmount r + sum_list (map i_totalAmount items),
            br_totalRefundTaxAmount := br_totalRefundTaxAmount r + sum_list (map i_taxAmount items)\<rparr>)"
  using items start bound
proof (induction items arbitrary: r)
  case (Cons i items)
  have nonneg: "0 \<le> sum_list (map i_totalAmount items)" "0 \<le> sum_list (map i_taxAmount items)"
    using Cons.prems(1) by (auto intro!: sum_list_nonneg)
  show ?case
  proof (cases "ty = PURCHASE")
    case True
    have "addN B [i_totalAmount i, br_totalSaleAmount r] = i_totalAmount i + br_totalSaleAmount r"
      "addN B [i_taxAmount i, br_totalSaleTaxAmount r] = i_taxAmount i + br_totalSaleTaxAmount r"
      using Cons.prems nonneg True by (intro addN2_exact [OF B]; simp)+
    then have "count_item B ty r i = r\<lparr>br_totalSaleAmount := i_totalAmount i + br_totalSaleAmount r,
        br_totalSaleTaxAmount := i_taxAmount i + br_totalSaleTaxAmount r\<rparr>" (is "_ = ?r'")
      using True by (simp add: count_item_def)
    moreover note Cons.IH [of ?r']
    ultimately show ?thesis using Cons.prems True by (simp add: dec_add add_ac)
  next
    case False
    have "addN B [i_totalAmount i, br_totalRefundAmount r] = i_totalAmount i + br_totalRefundAmount r"
      "addN B [i_taxAmount i, br_totalRefundTaxAmount r] = i_taxAmount i + br_totalRefundTaxAmount r"
      using Cons.prems nonneg False by (intro addN2_exact [OF B]; simp)+
    then have "count_item B ty r i = r\<lparr>br_totalRefundAmount := i_totalAmount i + br_totalRefundAmount r,
        br_totalRefundTaxAmount := i_taxAmount i + br_totalRefundTaxAmount r\<rparr>" (is "_ = ?r'")
      using False by (simp add: count_item_def)
    moreover note Cons.IH [of ?r']
    ultimately show ?thesis using Cons.prems False by (simp add: dec_add add_ac)
  qed
qed simp

section \<open>The sums of payments\<close>

lemma account_total_snoc:
  "account_total C a ty f (pids @ [pid]) = account_total C a ty f pids + payment_total C a ty f pid"
  by (simp add: account_total_def)

lemma payment_total_ok:
  "\<forall>i \<in> set (account_items C a pid). dec4 (f i) \<and> 0 \<le> f i \<Longrightarrow>
   dec4 (payment_total C a ty f pid) \<and> 0 \<le> payment_total C a ty f pid"
  by (auto simp: payment_total_def intro!: dec_sum_list sum_list_nonneg split: option.splits)

lemma account_total_ok:
  "\<forall>pid \<in> set pids. \<forall>i \<in> set (account_items C a pid). dec4 (f i) \<and> 0 \<le> f i \<Longrightarrow>
   dec4 (account_total C a ty f pids) \<and> 0 \<le> account_total C a ty f pids"
  unfolding account_total_def
  by (intro conjI dec_sum_list sum_list_nonneg) (auto dest: payment_total_ok)

lemma sums_boundedD:
  assumes "sums_bounded C a M pids"
  shows "dec4 (account_total C a ty i_totalAmount pids)" "dec4 (account_total C a ty i_taxAmount pids)"
    "0 \<le> account_total C a ty i_totalAmount pids" "0 \<le> account_total C a ty i_taxAmount pids"
    "account_total C a ty i_totalAmount pids \<le> M / 2" "account_total C a ty i_taxAmount pids \<le> M / 2"
    "of_nat (length pids) \<le> M"
  using assms account_total_ok [of pids C a i_totalAmount] account_total_ok [of pids C a i_taxAmount]
  by (auto simp: sums_bounded_def)

lemma sums_bounded_prefix:
  assumes "sums_bounded C a M (pids @ qids)"
  shows "sums_bounded C a M pids"
proof -
  have q: "0 \<le> account_total C a ty f qids"
    if "f = i_totalAmount \<or> f = i_taxAmount" for ty f
    using assms account_total_ok [of qids C a f] that by (auto simp: sums_bounded_def)
  have split: "account_total C a ty f (pids @ qids) = account_total C a ty f pids + account_total C a ty f qids"
    for ty f by (simp add: account_total_def)
  show ?thesis
    unfolding sums_bounded_def
  proof (intro conjI allI)
    show "of_nat (length pids) \<le> M" using sums_boundedD(7) [OF assms] by simp
    fix ty
    show "account_total C a ty i_totalAmount pids \<le> M / 2" "account_total C a ty i_taxAmount pids \<le> M / 2"
      using sums_boundedD(5,6) [OF assms, of ty] q [of i_totalAmount ty] q [of i_taxAmount ty]
      unfolding split by simp_all
  qed (use assms in \<open>auto simp: sums_bounded_def\<close>)
qed

text \<open>What the digestion of one more payment stores.\<close>

lemma report_sums_step:
  assumes B: "bigjs_ok B" "num_exact B M" and r: "report_sums C a pids r"
    and bounded: "sums_bounded C a M (pids @ [pid])" and p: "find_payment C pid = Some p"
  shows "report_sums C a (pids @ [pid]) (report_columns B
    ((with_expenses B ((reportCalculation B p (items_of C pid) a r)\<lparr>rep_totalExpense := e\<rparr>))
      \<lparr>rep_lastDigestedAt := n, rep_lastDigestedPaymentId := l\<rparr>))"
proof -
  let ?P = "pids @ [pid]" and ?items = "account_items C a pid"
  note all = sums_boundedD [OF bounded]
  note before = sums_boundedD [OF sums_bounded_prefix [OF bounded]]
  have items: "\<forall>i \<in> set ?items. dec4 (i_totalAmount i) \<and> dec4 (i_taxAmount i) \<and> 0 \<le> i_totalAmount i \<and> 0 \<le> i_taxAmount i"
    using bounded by (simp add: sums_bounded_def)
  have half: "x \<le> M" if "x \<le> M / 2" for x :: rat
    using that all(3,5) [of PURCHASE] by linarith
  define c where "c = foldl (count_item B (p_type p)) r ?items"
  have c: "c = r\<lparr>br_totalSaleAmount := account_total C a PURCHASE i_totalAmount ?P,
      br_totalSaleTaxAmount := account_total C a PURCHASE i_taxAmount ?P,
      br_totalRefundAmount := account_total C a REFUND i_totalAmount ?P,
      br_totalRefundTaxAmount := account_total C a REFUND i_taxAmount ?P\<rparr>"
  proof -
    have t: "payment_total C a ty f pid = (if p_type p = ty then sum_list (map f ?items) else 0)" for ty f
      by (simp add: payment_total_def p)
    have le: "account_total C a ty i_totalAmount pids + payment_total C a ty i_totalAmount pid \<le> M"
      "account_total C a ty i_taxAmount pids + payment_total C a ty i_taxAmount pid \<le> M" for ty
      using half [OF all(5) [of ty]] half [OF all(6) [of ty]] by (simp_all add: account_total_snoc)
    have fields: "br_totalSaleAmount r = account_total C a PURCHASE i_totalAmount pids"
      "br_totalSaleTaxAmount r = account_total C a PURCHASE i_taxAmount pids"
      "br_totalRefundAmount r = account_total C a REFUND i_totalAmount pids"
      "br_totalRefundTaxAmount r = account_total C a REFUND i_taxAmount pids"
      using r by (simp_all add: report_sums_def)
    note sum = count_items_sum [OF B items, of r "p_type p"]
    show ?thesis
      unfolding c_def account_total_snoc t fields [symmetric]
      by (subst sum)
        (use le [of PURCHASE] le [of REFUND] before(1-4) [of PURCHASE] before(1-4) [of REFUND] in
          \<open>cases "p_type p"; simp add: fields t\<close>)+
  qed
  let ?S = "account_total C a PURCHASE i_totalAmount ?P" and ?T = "account_total C a PURCHASE i_taxAmount ?P"
  let ?S' = "account_total C a REFUND i_totalAmount ?P" and ?T' = "account_total C a REFUND i_taxAmount ?P"
  have count: "addN B [br_paymentCount r, 1] = of_nat (length ?P)"
    using all(7) r dec_of_int [of 4 "int (length pids)"] dec_of_int [of 4 1]
    by (subst addN2_exact [OF B]) (simp_all add: report_sums_def)
  have sub: "minusN B x [y] = x - y \<and> dec4 (x - y) \<and> \<bar>x - y\<bar> \<le> M / 2"
    if "dec4 x" "dec4 y" "0 \<le> x" "0 \<le> y" "x \<le> M / 2" "y \<le> M / 2" for x y
  proof -
    have "\<bar>x - y\<bar> \<le> M / 2" using that by linarith
    then show ?thesis using that minusN1_exact [OF B that(1,2)] half [of "\<bar>x - y\<bar>"] by auto
  qed
  note sale = sub [OF all(1,1,3,3,5,5), of PURCHASE REFUND]
    and tax = sub [OF all(2,2,4,4,6,6), of PURCHASE REFUND]
  have sub': "minusN B x [y] = x - y \<and> dec4 (x - y) \<and> \<bar>x - y\<bar> \<le> M"
    if "dec4 x" "dec4 y" "\<bar>x\<bar> \<le> M / 2" "\<bar>y\<bar> \<le> M / 2" for x y
  proof -
    have "\<bar>x - y\<bar> \<le> M" using that by linarith
    then show ?thesis using that minusN1_exact [OF B that(1,2)] by auto
  qed
  have revenue: "minusN B (?S - ?S') [?T - ?T'] = ?S - ?S' - (?T - ?T') \<and> dec4 (?S - ?S' - (?T - ?T'))
      \<and> \<bar>?S - ?S' - (?T - ?T')\<bar> \<le> M"
    by (rule sub') (use sale tax in simp_all)
  define x where "x = reportCalculation B p (items_of C pid) a r"
  have x: "x = c\<lparr>br_paymentCount := of_nat (length ?P), br_netTaxAmount := ?T - ?T',
      br_netSaleAmount := ?S - ?S', br_netRevenue := ?S - ?S' - (?T - ?T')\<rparr>"
  proof -
    have "filter (of_account (Some a)) (items_of C pid) = ?items" "filter (of_account (Some a)) ?items = ?items"
      by (simp_all add: account_items_def)
    then have "x = net_totals B (count_payment B c)"
      by (simp add: x_def reportCalculation_def reportCalculationByPaymentItems_def c_def)
    then show ?thesis
      using sale tax revenue count by (simp add: c net_totals_def count_payment_def Let_def)
  qed
  have M: "money B x = x" if "dec4 x" "\<bar>x\<bar> \<le> M" for x
    using money_exact [OF B that] .
  have stored: "money B ?S = ?S" "money B ?T = ?T" "money B ?S' = ?S'" "money B ?T' = ?T'"
    using all(1-6) half by (simp_all add: M)
  have nets: "money B (?S - ?S') = ?S - ?S'" "money B (?T - ?T') = ?T - ?T'"
    "money B (?S - ?S' - (?T - ?T')) = ?S - ?S' - (?T - ?T')"
    using sale tax revenue half by (simp_all add: M)
  show ?thesis
    unfolding x_def [symmetric] x c
    by (simp add: report_sums_def report_columns_def totals_columns_def with_expenses_def stored nets)
qed

section \<open>The digestion of a payment into a seller's report\<close>

lemma digestPayment_stores:
  assumes "digestPayment R r p items a s = (t, Inr x)"
  obtains e where "by_key rep_id (db_reports t) (rep_id r) = Some (report_columns (re_big R)
    ((with_expenses (re_big R) ((reportCalculation (re_big R) p items a r)\<lparr>rep_totalExpense := e\<rparr>))
      \<lparr>rep_lastDigestedAt := Some (env_now (re_env R)), rep_lastDigestedPaymentId := Some (p_id p)\<rparr>))"
  using assms
  by (auto simp: digestPayment_def stampTimeAndSaveReport_def save_report_def by_key_upsert res_simps Let_def)

lemma digest_seller_stores:
  assumes "digest_seller R r p items a s = (t, Inr ())"
  obtains e where "by_key rep_id (db_reports t) (rep_id r) = Some (report_columns (re_big R)
    ((with_expenses (re_big R) ((reportCalculation (re_big R) p items a r)\<lparr>rep_totalExpense := e\<rparr>))
      \<lparr>rep_lastDigestedAt := Some (env_now (re_env R)), rep_lastDigestedPaymentId := Some (p_id p)\<rparr>))"
proof -
  from assms obtain u v w x y platform where u: "digestPayment R r p items a u = (v, Inr x)"
    and w: "updateTaxGroupReportByPaymentAndAccountId R (rep_id r) p items (Some a) v = (w, Inr ())"
    and y: "updatePaymentItemReport R (rep_id r) p items (Some a) w = (y, Inr ())"
    and t: "updatePlatformReport R (rep_id r) p items platform (Some a) y = (t, Inr ())"
    by (auto simp: digest_seller_def res_simps)
  obtain e where "report_is (rep_id r) (Some (report_columns (re_big R)
    ((with_expenses (re_big R) ((reportCalculation (re_big R) p items a r)\<lparr>rep_totalExpense := e\<rparr>))
      \<lparr>rep_lastDigestedAt := Some (env_now (re_env R)), rep_lastDigestedPaymentId := Some (p_id p)\<rparr>))) v"
    using digestPayment_stores [OF u] by (auto simp: report_is_def)
  from preservesD [OF report_is.keep_tax_groups(1) this w] have "report_is (rep_id r) (Some (report_columns (re_big R)
    ((with_expenses (re_big R) ((reportCalculation (re_big R) p items a r)\<lparr>rep_totalExpense := e\<rparr>))
      \<lparr>rep_lastDigestedAt := Some (env_now (re_env R)), rep_lastDigestedPaymentId := Some (p_id p)\<rparr>))) w" .
  from preservesD [OF report_is.keep_platforms preservesD [OF report_is.keep_items this y] t]
  show thesis by (auto simp: report_is_def intro: that)
qed

lemma digest_report_sums:
  assumes B: "bigjs_ok (re_big R)" "num_exact (re_big R) M" and r: "report_sums C a pids r"
    and p: "find_payment C pid = Some p" and ty: "rep_reportType r = REPORT_SELLER"
    and digest: "digest_report R r p (items_of C pid) a s = (t, Inr ())"
    and stored: "by_key rep_id (db_reports s) (rep_id r) = Some r"
    and bounded: "p_includeInReportDigestion p \<Longrightarrow> sums_bounded C a M (pids @ [pid])"
  shows "\<exists>r'. by_key rep_id (db_reports t) (rep_id r) = Some r' \<and>
    report_sums C a (if p_includeInReportDigestion p then pids @ [pid] else pids) r'"
proof (cases "p_includeInReportDigestion p")
  case True
  with digest ty have "digest_seller R r p (items_of C pid) a s = (t, Inr ())"
    by (simp add: digest_report_def)
  then show ?thesis
    using report_sums_step [OF B r bounded p] True by (auto elim!: digest_seller_stores)
next
  case False
  with digest have "t = s" by (simp add: digest_report_def)
  with False stored r show ?thesis by auto
qed

end
