(* ===== verification/Report_Queue.thy ===== *)
theory Report_Queue
  imports Report_Totals
begin

text \<open>
  A pass over the relations an instance has claimed: what one relation changes, what the pass keeps,
  and what the totals of a seller's report have to do with the relations completed.
\<close>

section \<open>The payments of a report\<close>

definition included :: "store \<Rightarrow> relation_row \<Rightarrow> bool" where
  "included C l \<longleftrightarrow>
     (case find_payment C (rel_paymentId l) of None \<Rightarrow> False | Some p \<Rightarrow> p_includeInReportDigestion p)"

definition report_payments :: "string \<Rightarrow> report_db \<Rightarrow> string list" where
  "report_payments rid s =
     map rel_paymentId (filter (\<lambda>l. rel_reportId l = rid \<and> included (db_core s) l) (db_relations s))"

definition settled_payments :: "string \<Rightarrow> report_db \<Rightarrow> string list" where
  "settled_payments rid s =
     map rel_paymentId (filter (\<lambda>l. rel_reportId l = rid \<and> included (db_core s) l \<and>
       rel_digestionStatus l = DS_COMPLETED) (db_relations s))"

text \<open>The account a report is made for, when the pass finds one.\<close>

definition report_owner :: "string \<Rightarrow> report_db \<Rightarrow> string option" where
  "report_owner rid s =
     (case by_key rep_id (db_reports s) rid of
        None \<Rightarrow> None
      | Some r \<Rightarrow> (case by_key q_id (db_queries s) (rep_queryId r) of
          None \<Rightarrow> None
        | Some q \<Rightarrow> if falsy (q_ownerAccountId q) then None else q_ownerAccountId q))"

lemma report_owner_head:
  "map_option rep_head (by_key rep_id (db_reports t) rid) = map_option rep_head (by_key rep_id (db_reports s) rid) \<Longrightarrow>
   db_queries t = db_queries s \<Longrightarrow> report_owner rid t = report_owner rid s"
  by (auto simp: report_owner_def rep_head_def split: option.splits)

lemma report_owner_cong:
  "db_reports t = db_reports s \<Longrightarrow> db_queries t = db_queries s \<Longrightarrow> report_owner rid t = report_owner rid s"
  by (simp only: report_owner_def)

section \<open>Rows replaced in a table\<close>

lemma upsert_keeps: "x \<in> set t \<Longrightarrow> key x \<noteq> key r \<Longrightarrow> x \<in> set (upsert key r t)"
  by (induction t) auto

lemma distinct_key_ne: "distinct (map f (x # xs)) \<Longrightarrow> y \<in> set xs \<Longrightarrow> f y \<noteq> f x"
  by simp (metis imageI)

lemma upsert_row: "r \<in> set (upsert key r t)"
  by (induction t) auto

lemma mset_filter_upsert:
  "x \<in> set t \<Longrightarrow> distinct (map key t) \<Longrightarrow> key r = key x \<Longrightarrow>
   mset (map f (filter P (upsert key r t))) + (if P x then {# f x #} else {#}) =
   mset (map f (filter P t)) + (if P r then {# f r #} else {#})"
proof (induction t)
  case (Cons y t)
  then show ?case
  proof (cases "key y = key r")
    case True
    with Cons.prems have "y = x" by force
    then show ?thesis using Cons.prems by simp
  next
    case False
    then have "x \<in> set t" using Cons.prems by auto
    from Cons.IH [OF this] Cons.prems False show ?thesis by auto
  qed
qed simp

section \<open>One relation\<close>

lemma report_owner_Some:
  "report_owner rid s = Some a \<longleftrightarrow>
     a \<noteq> [] \<and> (\<exists>r q. by_key rep_id (db_reports s) rid = Some r \<and>
       by_key q_id (db_queries s) (rep_queryId r) = Some q \<and> q_ownerAccountId q = Some a)"
proof -
  have "(if falsy x then None else x) = Some a \<longleftrightarrow> a \<noteq> [] \<and> x = Some a" for x
    by (cases x) auto
  then show ?thesis by (auto simp: report_owner_def split: option.split)
qed

lemma digest_relation_unfold:
  "digest_relation R l s =
     (case find_payment (db_core s) (rel_paymentId l) of
        None \<Rightarrow> (s, Inl (NotFound ''Payment not found''))
      | Some p \<Rightarrow> (case report_owner (rel_reportId l) s of
          None \<Rightarrow> (s, Inr ())
        | Some a \<Rightarrow> bindS (digest_report R (the (by_key rep_id (db_reports s) (rel_reportId l))) p
              (items_of (db_core s) (rel_paymentId l)) a)
            (\<lambda>_. modifyS (save_relation (complete_relation R l))) s))"
  unfolding digest_relation_def
  by (cases "find_payment (db_core s) (rel_paymentId l)"; cases "by_key rep_id (db_reports s) (rel_reportId l)")
    (auto simp: report_owner_def run_simps of_option_def split: option.splits list.splits)

lemma digest_relation_Inr:
  assumes "digest_relation R l s = (t, Inr ())"
  obtains (skipped) "report_owner (rel_reportId l) s = None" "t = s"
  | (digested) p r a u where "find_payment (db_core s) (rel_paymentId l) = Some p"
      "by_key rep_id (db_reports s) (rel_reportId l) = Some r" "report_owner (rel_reportId l) s = Some a"
      "digest_report R r p (items_of (db_core s) (rel_paymentId l)) a s = (u, Inr ())"
      "t = save_relation (complete_relation R l) u"
proof (cases "find_payment (db_core s) (rel_paymentId l)")
  case None
  with assms show thesis by (simp add: digest_relation_unfold)
next
  case p: (Some p)
  show thesis
  proof (cases "report_owner (rel_reportId l) s")
    case None
    with p assms show thesis by (intro skipped) (simp_all add: digest_relation_unfold)
  next
    case a: (Some a)
    then obtain r where r: "by_key rep_id (db_reports s) (rel_reportId l) = Some r"
      by (auto simp: report_owner_Some)
    with p a assms obtain u where "digest_report R r p (items_of (db_core s) (rel_paymentId l)) a s = (u, Inr ())"
      "t = save_relation (complete_relation R l) u"
      by (auto simp: digest_relation_unfold res_simps)
    with p a r show thesis by (intro digested)
  qed
qed

text \<open>What a relation changes and leaves alone.\<close>

lemma save_relation_simps [simp]:
  "db_core (save_relation x s) = db_core s" "db_queries (save_relation x s) = db_queries s"
  "db_reports (save_relation x s) = db_reports s"
  "db_relations (save_relation x s) = upsert rel_id x (db_relations s)"
  by (simp_all add: save_relation_def)

lemma report_owner_save_relation [simp]: "report_owner rid (save_relation x s) = report_owner rid s"
  by (rule report_owner_cong) simp_all

lemma complete_relation_simps [simp]:
  "rel_id (complete_relation R l) = rel_id l" "rel_reportId (complete_relation R l) = rel_reportId l"
  "rel_paymentId (complete_relation R l) = rel_paymentId l"
  "rel_digestionStatus (complete_relation R l) = DS_COMPLETED"
  "included C (complete_relation R l) = included C l"
  by (simp_all add: complete_relation_def included_def)

lemma digest_relation_keeps:
  assumes "digest_relation R l s = (t, Inr ())"
  shows "db_core t = db_core s" "db_queries t = db_queries s" "report_owner rid t = report_owner rid s"
    "db_relations t = (if report_owner (rel_reportId l) s = None then db_relations s
      else upsert rel_id (complete_relation R l) (db_relations s))"
    "rid \<noteq> rel_reportId l \<Longrightarrow> by_key rep_id (db_reports t) rid = by_key rep_id (db_reports s) rid"
proof -
  have "db_core t = db_core s \<and> db_queries t = db_queries s \<and> report_owner rid t = report_owner rid s \<and>
    db_relations t = (if report_owner (rel_reportId l) s = None then db_relations s
      else upsert rel_id (complete_relation R l) (db_relations s)) \<and>
    (rid \<noteq> rel_reportId l \<longrightarrow> by_key rep_id (db_reports t) rid = by_key rep_id (db_reports s) rid)"
    using assms
  proof (cases rule: digest_relation_Inr)
    case (digested p r a u)
    have r: "rep_id r = rel_reportId l" "by_key rep_id (db_reports s) (rep_id r) = Some r"
      using digested(2) by_key_in [OF digested(2)] by simp_all
    note tables = digest_report_tables [OF digested(4)]
    have "report_owner rid u = report_owner rid s"
      by (rule report_owner_head [OF tables(5) [OF r(2)] tables(2)])
    then have "report_owner rid t = report_owner rid s" using digested(5) by simp
    then show ?thesis using digested tables(1-4) r by simp
  qed simp
  then show "db_core t = db_core s" "db_queries t = db_queries s" "report_owner rid t = report_owner rid s"
    "db_relations t = (if report_owner (rel_reportId l) s = None then db_relations s
      else upsert rel_id (complete_relation R l) (db_relations s))"
    "rid \<noteq> rel_reportId l \<Longrightarrow> by_key rep_id (db_reports t) rid = by_key rep_id (db_reports s) rid"
    by simp_all
qed

section \<open>A pass\<close>

text \<open>The relations of the pass are rows of the table, still being digested when their turn comes.\<close>

definition pending_rows :: "relation_row list \<Rightarrow> report_db \<Rightarrow> bool" where
  "pending_rows rels s \<longleftrightarrow> distinct (map rel_id rels) \<and>
     (\<forall>l \<in> set rels. l \<in> set (db_relations s) \<and> rel_digestionStatus l = DS_DIGESTING)"

lemma pending_rows_step:
  assumes "pending_rows (l # rels) s" "digest_relation R l s = (t, Inr ())"
  shows "pending_rows rels t"
  using assms(1) distinct_key_ne [of rel_id l rels]
  by (auto simp: pending_rows_def digest_relation_keeps(4) [OF assms(2)] intro!: upsert_keeps)

lemma pass_invariant:
  assumes "forS rels (digest_relation R) s = (t, Inr ())" "pending_rows rels s" "I s"
    and "\<And>l s t. I s \<Longrightarrow> l \<in> set (db_relations s) \<Longrightarrow> rel_digestionStatus l = DS_DIGESTING \<Longrightarrow>
      digest_relation R l s = (t, Inr ()) \<Longrightarrow> I t"
  shows "I t"
  using assms(1,2,3)
proof (induction rels arbitrary: s)
  case (Cons l rels)
  from Cons.prems(1) obtain u where u: "digest_relation R l s = (u, Inr ())"
    "forS rels (digest_relation R) u = (t, Inr ())"
    by (auto simp: res_simps)
  moreover have "I u"
    using assms(4) [OF Cons.prems(3) _ _ u(1)] Cons.prems(2) by (simp add: pending_rows_def)
  ultimately show ?case using Cons.IH pending_rows_step [OF Cons.prems(2)] by blast
qed simp

lemma pass_keeps_row:
  assumes "forS ys (digest_relation R) u = (t, Inr ())" "x \<in> set (db_relations u)"
    and "\<And>y. y \<in> set ys \<Longrightarrow> rel_id y \<noteq> rel_id x"
  shows "x \<in> set (db_relations t)"
  using assms
proof (induction ys arbitrary: u)
  case (Cons y ys)
  from Cons.prems(1) obtain v where v: "digest_relation R y u = (v, Inr ())"
    and rest: "forS ys (digest_relation R) v = (t, Inr ())" by (auto simp: res_simps)
  have "rel_id x \<noteq> rel_id y" using Cons.prems(3) [of y] by simp
  then have "x \<in> set (db_relations v)"
    using Cons.prems(2) by (simp add: digest_relation_keeps(4) [OF v] upsert_keeps)
  then show ?case by (rule Cons.IH [OF rest]) (use Cons.prems(3) in simp)
qed simp

lemma pass_completes:
  assumes "forS rels (digest_relation R) s = (t, Inr ())" "pending_rows rels s" "l \<in> set rels"
    "report_owner (rel_reportId l) s \<noteq> None"
  shows "complete_relation R l \<in> set (db_relations t)"
  using assms
proof (induction rels arbitrary: s)
  case (Cons x rels)
  from Cons.prems(1) obtain u where u: "digest_relation R x s = (u, Inr ())"
    and rest: "forS rels (digest_relation R) u = (t, Inr ())"
    by (auto simp: res_simps)
  note keeps = digest_relation_keeps [OF u] and pending = pending_rows_step [OF Cons.prems(2) u]
  show ?case
  proof (cases "l \<in> set rels")
    case True
    with Cons.IH [OF rest pending] keeps(3) Cons.prems(4) show ?thesis by simp
  next
    case False
    with Cons.prems keeps(4) have "complete_relation R l \<in> set (db_relations u)"
      by (auto intro: upsert_row)
    moreover have "rel_id y \<noteq> rel_id l" if "y \<in> set rels" for y
      using that Cons.prems(2,3) False distinct_key_ne [of rel_id x rels] by (simp add: pending_rows_def)
    ultimately show ?thesis by (intro pass_keeps_row [OF rest]) simp_all
  qed
qed simp

section \<open>The claim\<close>

lemma claim_relations_simps [simp]:
  "db_core (claim_relations n d w s) = db_core s" "db_queries (claim_relations n d w s) = db_queries s"
  "db_reports (claim_relations n d w s) = db_reports s"
  by (simp_all add: claim_relations_def)

lemma claim_relations_rows:
  "map rel_id (db_relations (claim_relations n d w s)) = map rel_id (db_relations s)"
  "report_payments rid (claim_relations n d w s) = report_payments rid s"
  "settled_payments rid (claim_relations n d w s) = settled_payments rid s"
proof -
  have "map rel_paymentId (filter (\<lambda>l. rel_reportId l = rid \<and> included C l \<and> Q (rel_digestionStatus l))
      (map (\<lambda>r. if rel_digestionStatus r = DS_WAITING \<and> rel_reportId r \<notin> set w
         then r\<lparr>rel_digestionStatus := DS_DIGESTING, rel_digestionId := Some d, rel_digestionStartedAt := Some n\<rparr>
         else r) L)) =
    map rel_paymentId (filter (\<lambda>l. rel_reportId l = rid \<and> included C l \<and> Q (rel_digestionStatus l)) L)"
    if "Q DS_WAITING = Q DS_DIGESTING" for C Q L
    using that by (induction L) (auto simp: included_def)
  from this [of "\<lambda>_. True"] this [of "\<lambda>x. x = DS_COMPLETED"]
  show "report_payments rid (claim_relations n d w s) = report_payments rid s"
    "settled_payments rid (claim_relations n d w s) = settled_payments rid s"
    by (simp_all add: claim_relations_def report_payments_def settled_payments_def)
  show "map rel_id (db_relations (claim_relations n d w s)) = map rel_id (db_relations s)"
    by (simp add: claim_relations_def comp_def cong: map_cong)
qed

lemma claimed_pending:
  "distinct (map rel_id (db_relations s)) \<Longrightarrow> pending_rows (claimed_relations d s) s"
  by (simp add: pending_rows_def claimed_relations_def distinct_map_filter)

definition digestion_id :: "report_env \<Rightarrow> nat \<Rightarrow> string" where
  "digestion_id R n = nat_text (env_now (re_env R)) @ ''_'' @ env_uuid (re_env R) n"

text \<open>The database when an instance has claimed its relations.\<close>

definition claimed :: "report_env \<Rightarrow> report_db \<Rightarrow> report_db" where
  "claimed R s = claim_relations (env_now (re_env R)) (digestion_id R (db_seq s)) (working_reports s)
     (s\<lparr>db_seq := Suc (db_seq s)\<rparr>)"

lemma digest_waiting_unfold:
  "digest_waiting R s =
     forS (claimed_relations (digestion_id R (db_seq s)) (claimed R s)) (digest_relation R) (claimed R s)"
  by (simp add: digest_waiting_def run_simps drawId_def Let_def claimed_def digestion_id_def working_reports_def)

lemma claimed_simps [simp]:
  "db_core (claimed R s) = db_core s" "db_queries (claimed R s) = db_queries s"
  "db_reports (claimed R s) = db_reports s" "report_payments rid (claimed R s) = report_payments rid s"
  "settled_payments rid (claimed R s) = settled_payments rid s"
  "map rel_id (db_relations (claimed R s)) = map rel_id (db_relations s)"
  by (simp_all add: claimed_def claim_relations_rows)
    (simp_all add: report_payments_def settled_payments_def)

lemma report_owner_claimed [simp]: "report_owner rid (claimed R s) = report_owner rid s"
  by (rule report_owner_cong) simp_all

section \<open>The totals of a seller's report\<close>

definition seller_report :: "string \<Rightarrow> store \<Rightarrow> string \<Rightarrow> rat \<Rightarrow> report_db \<Rightarrow> bool" where
  "seller_report rid C a M s \<longleftrightarrow>
     db_core s = C \<and> distinct (map rel_id (db_relations s)) \<and> report_owner rid s = Some a \<and>
     sums_bounded C a M (report_payments rid s) \<and>
     (\<exists>r. by_key rep_id (db_reports s) rid = Some r \<and> rep_reportType r = REPORT_SELLER \<and>
       report_sums C a (settled_payments rid s) r)"

lemma sums_bounded_mset:
  assumes "mset pids \<subseteq># mset qids" "sums_bounded C a M qids"
  shows "sums_bounded C a M pids"
proof -
  obtain rest where rest: "mset (pids @ rest) = mset qids"
    using assms(1) by (metis ex_mset mset_append subset_mset.add_diff_inverse)
  have "account_total C a ty f (pids @ rest) = account_total C a ty f qids" for ty f
    unfolding account_total_def using rest by (metis mset_map sum_mset_sum_list)
  moreover have "length (pids @ rest) = length qids" "set (pids @ rest) = set qids"
    using rest by (metis size_mset, metis set_mset_mset)
  ultimately have "sums_bounded C a M (pids @ rest)" using assms(2) unfolding sums_bounded_def by simp
  then show ?thesis by (rule sums_bounded_prefix)
qed

lemma settled_subset: "mset (settled_payments rid s) \<subseteq># mset (report_payments rid s)"
proof -
  have "mset (map f (filter (\<lambda>x. P x \<and> Q x) L)) \<subseteq># mset (map f (filter P L))"
    for f :: "relation_row \<Rightarrow> string" and P Q L
    by (induction L) (auto simp: subset_mset.le_iff_add)
  from this [of rel_paymentId "\<lambda>l. rel_reportId l = rid \<and> included (db_core s) l"]
  show ?thesis by (simp add: settled_payments_def report_payments_def conj_assoc)
qed

text \<open>A completed relation adds its payment to those settled, when the payment is included.\<close>

lemma settled_complete:
  assumes "l \<in> set (db_relations s)" "distinct (map rel_id (db_relations s))" "rel_digestionStatus l = DS_DIGESTING"
    and t: "db_core t = db_core s" "db_relations t = upsert rel_id (complete_relation R l) (db_relations s)"
  shows "mset (settled_payments rid t) = mset (settled_payments rid s) +
      (if rel_reportId l = rid \<and> included (db_core s) l then {# rel_paymentId l #} else {#})"
    "mset (report_payments rid t) = mset (report_payments rid s)"
proof -
  note row = mset_filter_upsert [OF assms(1,2), of "complete_relation R l" rel_paymentId]
  show "mset (settled_payments rid t) = mset (settled_payments rid s) +
      (if rel_reportId l = rid \<and> included (db_core s) l then {# rel_paymentId l #} else {#})"
    using row [of "\<lambda>x. rel_reportId x = rid \<and> included (db_core s) x \<and> rel_digestionStatus x = DS_COMPLETED"]
      assms(3) by (simp add: settled_payments_def t)
  show "mset (report_payments rid t) = mset (report_payments rid s)"
    using row [of "\<lambda>x. rel_reportId x = rid \<and> included (db_core s) x"]
    by (simp add: report_payments_def t split: if_splits)
qed

lemma seller_report_step:
  assumes B: "bigjs_ok (re_big R)" "num_exact (re_big R) M" and inv: "seller_report rid C a M s"
    and l: "l \<in> set (db_relations s)" "rel_digestionStatus l = DS_DIGESTING"
    and step: "digest_relation R l s = (t, Inr ())"
  shows "seller_report rid C a M t"
proof (cases "report_owner (rel_reportId l) s = None")
  case True
  with step have "t = s" by (cases rule: digest_relation_Inr) simp_all
  with inv show ?thesis by simp
next
  case False
  note keeps = digest_relation_keeps [OF step]
  have C: "db_core s = C" and ids: "distinct (map rel_id (db_relations s))"
    and owner: "report_owner rid s = Some a" and bounded: "sums_bounded C a M (report_payments rid s)"
    using inv by (simp_all add: seller_report_def)
  from inv obtain r where r: "by_key rep_id (db_reports s) rid = Some r" "rep_reportType r = REPORT_SELLER"
    "report_sums C a (settled_payments rid s) r"
    by (auto simp: seller_report_def)
  have rows: "db_relations t = upsert rel_id (complete_relation R l) (db_relations s)"
    by (rule trans [OF keeps(4) if_not_P [OF False]])
  note settled = settled_complete [OF l(1) ids l(2) keeps(1) rows, of rid]
  have t: "db_core t = C" "distinct (map rel_id (db_relations t))" "report_owner rid t = Some a"
    "sums_bounded C a M (report_payments rid t)"
    using C ids owner keeps(1,3) rows sums_bounded_mset [OF _ bounded] settled(2)
    by (simp_all add: distinct_upsert)
  have "\<exists>r'. by_key rep_id (db_reports t) rid = Some r' \<and> rep_reportType r' = REPORT_SELLER \<and>
      report_sums C a (settled_payments rid t) r'"
  proof (cases "rel_reportId l = rid")
    case other: False
    then have "report_sums C a (settled_payments rid t) r"
      using r(3) report_sums_mset [of "settled_payments rid t" "settled_payments rid s"] settled(1) by simp
    then show ?thesis using r keeps(5) other by auto
  next
    case True
    with step False owner C r(1) obtain p u where p: "find_payment C (rel_paymentId l) = Some p"
      and u: "digest_report R r p (items_of C (rel_paymentId l)) a s = (u, Inr ())"
      and tu: "t = save_relation (complete_relation R l) u"
      by (cases rule: digest_relation_Inr) auto
    let ?new = "settled_payments rid s @ [rel_paymentId l]"
    have inc: "included C l = p_includeInReportDigestion p" by (simp add: included_def p)
    have now: "mset (settled_payments rid t) =
        mset (if p_includeInReportDigestion p then ?new else settled_payments rid s)"
      using settled(1) True C inc by simp
    have "sums_bounded C a M ?new" if "p_includeInReportDigestion p"
      by (rule sums_bounded_mset [OF _ t(4)]) (use settled_subset [of rid t] now that in simp)
    moreover have key: "rep_id r = rid" using by_key_in [OF r(1)] by simp
    ultimately obtain r' where r': "by_key rep_id (db_reports u) rid = Some r'"
      "report_sums C a (if p_includeInReportDigestion p then ?new else settled_payments rid s) r'"
      using digest_report_sums [OF B r(3) p r(2) u] r(1) by auto
    have "map_option rep_head (by_key rep_id (db_reports u) rid) = map_option rep_head (Some r)"
      using digest_report_tables(5) [OF u, of rid] r(1) key by simp
    then have "rep_reportType r' = REPORT_SELLER" using r'(1) r(2) by (simp add: rep_head_def)
    then show ?thesis using r' tu report_sums_mset [OF now] by auto
  qed
  with t show ?thesis by (simp add: seller_report_def)
qed

lemma seller_report_waiting:
  assumes "bigjs_ok (re_big R)" "num_exact (re_big R) M" "seller_report rid C a M s"
    and "digest_waiting R s = (t, Inr ())"
  shows "seller_report rid C a M t"
proof (rule pass_invariant [where I = "seller_report rid C a M"])
  show "forS (claimed_relations (digestion_id R (db_seq s)) (claimed R s)) (digest_relation R) (claimed R s) = (t, Inr ())"
    using assms(4) by (simp add: digest_waiting_unfold)
  show "pending_rows (claimed_relations (digestion_id R (db_seq s)) (claimed R s)) (claimed R s)"
    using assms(3) by (intro claimed_pending) (simp add: seller_report_def)
  show "seller_report rid C a M (claimed R s)" using assms(3) by (simp add: seller_report_def)
qed (rule seller_report_step [OF assms(1,2)])

end
