(* ===== verification/Report_Blocking.thy ===== *)
theory Report_Blocking
  imports Report_Queue
begin

text \<open>
  What a failed digestion leaves behind: a relation that is being digested for good, and a report no
  later pass touches, whatever payments arrive.
\<close>

section \<open>The events of the service\<close>

text \<open>The cron job, and the message that a payment has been completed.\<close>

datatype report_event = Cron report_env | Arrival report_env payment_row "item_row list"

primrec event_env :: "report_event \<Rightarrow> report_env" where
  "event_env (Cron R) = R"
| "event_env (Arrival R payment items) = R"

primrec handle_event :: "report_event \<Rightarrow> (report_db, unit) act" where
  "handle_event (Cron R) = checkRelations R"
| "handle_event (Arrival R payment items) = insertPaymentToReportDigestionQueueCameFromEvent R payment items"

text \<open>A handler that throws does not keep the next event from being handled.\<close>

definition run_events :: "report_event list \<Rightarrow> report_db \<Rightarrow> report_db" where
  "run_events es s = foldl (\<lambda>s e. fst (handle_event e s)) s es"

section \<open>Blocked reports\<close>

text \<open>
  \<open>G\<close> are the ids drawn from now on (and of rows that are about to be completed), \<open>F\<close> the digestion
  ids, \<open>n\<close> the ids drawn so far.
\<close>

definition blocked ::
  "nat \<Rightarrow> string set \<Rightarrow> string set \<Rightarrow> string \<Rightarrow> report_row option \<Rightarrow> report_db \<Rightarrow> bool"
where
  "blocked n G F rid r s \<longleftrightarrow>
     n \<le> db_seq s \<and> distinct (map rel_id (db_relations s)) \<and> by_key rep_id (db_reports s) rid = r \<and>
     rid \<in> set (working_reports s) \<and>
     (\<forall>l \<in> set (db_relations s). rel_reportId l = rid \<and> rel_digestionStatus l = DS_DIGESTING \<longrightarrow>
        rel_id l \<notin> G \<and> rel_digestionId l \<notin> Some ` F)"

lemma working_iff:
  "rid \<in> set (working_reports s) \<longleftrightarrow>
     (\<exists>l \<in> set (db_relations s). rel_reportId l = rid \<and> rel_digestionStatus l = DS_DIGESTING)"
  by (auto simp: working_reports_def)

lemma blocked_inj: "blocked n G F rid r s \<Longrightarrow> inj_on rel_id (set (db_relations s))"
  by (simp add: blocked_def distinct_map)

lemma blocked_frame:
  "blocked n G F rid r s \<Longrightarrow> db_seq s \<le> db_seq t \<Longrightarrow> db_relations t = db_relations s \<Longrightarrow>
   by_key rep_id (db_reports t) rid = by_key rep_id (db_reports s) rid \<Longrightarrow> blocked n G F rid r t"
  by (simp add: blocked_def working_reports_def)

lemma blocked_relation:
  assumes s: "blocked n G F rid r s" and y: "rel_id y \<in> G" "rel_reportId y = rid \<Longrightarrow> rel_digestionStatus y \<noteq> DS_DIGESTING"
  shows "blocked n G F rid r (save_relation y s)"
proof -
  from s obtain l where l: "l \<in> set (db_relations s)" "rel_reportId l = rid" "rel_digestionStatus l = DS_DIGESTING"
    by (auto simp: blocked_def working_iff)
  with s y(1) have "rel_id l \<noteq> rel_id y" by (auto simp: blocked_def)
  with l have "l \<in> set (upsert rel_id y (db_relations s))" by (intro upsert_keeps)
  then have "rid \<in> set (working_reports (save_relation y s))" using l by (auto simp: working_iff)
  then show ?thesis
    using s y by (auto simp: blocked_def distinct_upsert save_relation_def dest!: upsert_in)
qed

lemma blocked_claim:
  assumes "blocked n G F rid r s" "rid \<in> set w"
  shows "blocked n G F rid r (claim_relations m d w s)"
proof -
  have rows: "{l \<in> set (db_relations (claim_relations m d w s)). rel_reportId l = rid} =
      {l \<in> set (db_relations s). rel_reportId l = rid}"
    using assms(2) by (auto simp: claim_relations_def split: if_splits)
  have "distinct (map rel_id (db_relations (claim_relations m d w s)))"
    using assms(1) by (simp add: blocked_def claim_relations_rows)
  moreover have "db_seq (claim_relations m d w s) = db_seq s" by (simp add: claim_relations_def)
  moreover have "rid \<in> set (working_reports (claim_relations m d w s))"
    using assms(1) rows unfolding blocked_def working_iff by blast
  moreover have "rel_id l \<notin> G \<and> rel_digestionId l \<notin> Some ` F"
    if "l \<in> set (db_relations (claim_relations m d w s))" "rel_reportId l = rid" "rel_digestionStatus l = DS_DIGESTING" for l
    using that rows assms(1) unfolding blocked_def by blast
  ultimately show ?thesis using assms(1) by (simp add: blocked_def)
qed

interpretation blocked: report_writes "blocked n G F rid r" "\<lambda>h. fst h \<noteq> rid" for n G F rid r
proof
  show "blocked n G F rid r t" if "blocked n G F rid r s" "db_core t = db_core s" "db_queries t = db_queries s"
    "db_reports t = db_reports s" "db_relations t = db_relations s" "db_seq t = db_seq s" for s t
    using that by (intro blocked_frame [OF that(1)]) simp_all
  show "blocked n G F rid r (save_report R x s)" if "blocked n G F rid r s" "fst (rep_head x) \<noteq> rid" for s R x
    by (rule blocked_frame [OF that(1)]) (use that in \<open>simp_all add: save_report_def by_key_upsert\<close>)
qed

section \<open>Events keep a report blocked\<close>

text \<open>The ids an environment draws from \<open>n\<close> on are in \<open>G\<close>, its digestion ids in \<open>F\<close>.\<close>

definition draws :: "report_env \<Rightarrow> nat \<Rightarrow> string set \<Rightarrow> string set \<Rightarrow> bool" where
  "draws R n G F \<longleftrightarrow> (\<forall>m \<ge> n. env_uuid (re_env R) m \<in> G \<and> digestion_id R m \<in> F)"

lemma blocked_draw:
  assumes "draws R n G F" "\<And>i. i \<in> G \<Longrightarrow> preserves (blocked n G F rid r) (f i)"
  shows "preserves (blocked n G F rid r) (bindS (drawId R) f)"
proof (rule preservesI)
  fix s t x assume s: "blocked n G F rid r s" "bindS (drawId R) f s = (t, x)"
  then have "env_uuid (re_env R) (db_seq s) \<in> G" using assms(1) by (simp add: blocked_def draws_def)
  from assms(2) [OF this] show "blocked n G F rid r t"
    by (rule preservesD [where s = "s\<lparr>db_seq := Suc (db_seq s)\<rparr>"])
      (use s in \<open>auto simp: bindS_def drawId_def intro: blocked_frame [OF s(1)]\<close>)
qed

lemma blocked_insert_report:
  "draws R n G F \<Longrightarrow> rid \<notin> G \<Longrightarrow> preserves (blocked n G F rid r) (insert_report R x)"
  unfolding insert_report_def
  by (intro preserves blocked_draw blocked.save_other) (auto simp: rep_head_def)

lemma blocked_findOrCreate:
  "draws R n G F \<Longrightarrow> rid \<notin> G \<Longrightarrow> preserves (blocked n G F rid r) (findOrCreateByQuery R q label c)"
  unfolding findOrCreateByQuery_def by (intro preserves blocked_insert_report)

lemma blocked_enqueue:
  "draws R n G F \<Longrightarrow> rid \<notin> G \<Longrightarrow> preserves (blocked n G F rid r) (enqueue_payment R payment q)"
  unfolding enqueue_payment_def insertPaymentToReportDigestionSingle_def
  by (intro preserves blocked_findOrCreate blocked_draw blocked_relation) simp_all

lemma blocked_queries:
  assumes "draws R n G F"
  shows "preserves (blocked n G F rid r) (findMatchingQueries R payment items)"
  unfolding findMatchingQueries_def ensureDailyQueries_def createQuery_def Let_def
  by (intro preserves blocked_draw assms, erule blocked_frame) simp_all

lemma blocked_digest_relation:
  assumes "blocked n G F rid r s" "rel_reportId l \<noteq> rid" "rel_id l \<in> G" "digest_relation R l s = (t, x)"
  shows "blocked n G F rid r t"
proof (cases "find_payment (db_core s) (rel_paymentId l)")
  case None
  with assms show ?thesis by (simp add: digest_relation_unfold)
next
  case p: (Some p)
  show ?thesis
  proof (cases "report_owner (rel_reportId l) s")
    case None
    with p assms show ?thesis by (simp add: digest_relation_unfold)
  next
    case a: (Some a)
    then obtain y where y: "by_key rep_id (db_reports s) (rel_reportId l) = Some y"
      by (auto simp: report_owner_Some)
    then have "rep_id y \<noteq> rid" using assms(2) by_key_in [OF y] by simp
    then have keep: "preserves (blocked n G F rid r) (digest_report R y p (items_of (db_core s) (rel_paymentId l)) a)"
      by (intro blocked.keep_digest) simp
    have "preserves (blocked n G F rid r) (modifyS (save_relation (complete_relation R l)))"
      using assms(3) by (intro preserves blocked_relation) simp_all
    with keep have "preserves (blocked n G F rid r)
        (bindS (digest_report R y p (items_of (db_core s) (rel_paymentId l)) a)
          (\<lambda>_. modifyS (save_relation (complete_relation R l))))"
      by (intro preserves_bindS)
    from preservesD [OF this assms(1)] show ?thesis using assms(4) p a y by (simp add: digest_relation_unfold)
  qed
qed

lemma blocked_waiting:
  assumes draws: "draws R n G F"
  shows "preserves (blocked n G F rid r) (digest_waiting R)"
proof (rule preservesI)
  fix s t x assume s: "blocked n G F rid r s" "digest_waiting R s = (t, x)"
  let ?d = "digestion_id R (db_seq s)" and ?c = "claimed R s"
  let ?rels = "claimed_relations ?d ?c"
  have d: "?d \<in> F" using draws s(1) by (simp add: blocked_def draws_def)
  have "blocked n G F rid r (s\<lparr>db_seq := Suc (db_seq s)\<rparr>)" by (rule blocked_frame [OF s(1)]) simp_all
  then have c: "blocked n G F rid r ?c"
    using s(1) unfolding claimed_def by (intro blocked_claim) (simp_all add: blocked_def)
  have rels: "x \<in> set (db_relations ?c) \<and> rel_reportId x \<noteq> rid" if "x \<in> set ?rels" for x
    using that c d by (auto simp: claimed_relations_def blocked_def)
  have other: "rel_id l \<notin> rel_id ` set ?rels" if "l \<in> set (db_relations ?c)" "rel_reportId l = rid" for l
  proof
    assume "rel_id l \<in> rel_id ` set ?rels"
    then obtain x where "x \<in> set ?rels" "rel_id x = rel_id l" by auto
    moreover from this(1) rels have "x \<in> set (db_relations ?c)" "rel_reportId x \<noteq> rid" by auto
    moreover have "inj_on rel_id (set (db_relations ?c))" by (rule blocked_inj [OF c])
    ultimately show False using that by (auto dest: inj_onD)
  qed
  let ?G = "G \<union> rel_id ` set ?rels"
  have "blocked n ?G F rid r ?c" using c other by (auto simp: blocked_def)
  then have "blocked n ?G F rid r t"
    by (rule forS_invariant [rotated]) (use s(2) rels in \<open>auto simp: digest_waiting_unfold intro: blocked_digest_relation\<close>)
  then show "blocked n G F rid r t" by (auto simp: blocked_def)
qed

lemma blocked_check: "draws R n G F \<Longrightarrow> preserves (blocked n G F rid r) (checkRelations R)"
  unfolding checkRelations_def
  by (intro preserves blocked_waiting; (erule blocked_frame)?) simp_all

lemma blocked_event:
  "draws (event_env e) n G F \<Longrightarrow> rid \<notin> G \<Longrightarrow> preserves (blocked n G F rid r) (handle_event e)"
  by (cases e) (auto simp: insertPaymentToReportDigestionQueueCameFromEvent_def
      intro!: preserves blocked_check blocked_queries blocked_enqueue)

lemma blocked_run:
  "blocked n G F rid r s \<Longrightarrow> rid \<notin> G \<Longrightarrow> \<forall>e \<in> set es. draws (event_env e) n G F \<Longrightarrow>
   blocked n G F rid r (run_events es s)"
proof (induction es arbitrary: s)
  case (Cons e es)
  have "blocked n G F rid r (fst (handle_event e s))"
    using preservesD [OF blocked_event [of e n G F rid r] Cons.prems(1) surjective_pairing] Cons.prems by simp
  from Cons.IH [OF this] Cons.prems show ?case by (simp add: run_events_def)
qed (simp add: run_events_def)

section \<open>A failed digestion\<close>

text \<open>The relation that failed is still a row being digested, with the digestion id of its pass.\<close>

lemma digest_relation_Inl:
  assumes "digest_relation R l s = (t, Inl e)"
  shows "db_relations t = db_relations s"
proof (cases "find_payment (db_core s) (rel_paymentId l)")
  case None
  with assms show ?thesis by (simp add: digest_relation_unfold)
next
  case p: (Some p)
  with assms obtain a where a: "report_owner (rel_reportId l) s = Some a"
    by (auto simp: digest_relation_unfold split: option.splits)
  with p assms obtain u where
    "digest_report R (the (by_key rep_id (db_reports s) (rel_reportId l))) p
       (items_of (db_core s) (rel_paymentId l)) a s = (t, Inl e)"
    by (auto simp: digest_relation_unfold res_simps)
  from digest_report_tables(3) [OF this] show ?thesis .
qed

lemma pass_fails:
  assumes "forS rels (digest_relation R) s = (t, Inl e)" "pending_rows rels s"
  shows "\<exists>l \<in> set rels. l \<in> set (db_relations t) \<and> rel_digestionStatus l = DS_DIGESTING"
  using assms
proof (induction rels arbitrary: s)
  case (Cons l rels)
  show ?case
  proof (cases "digest_relation R l s")
    case (Pair u q)
    show ?thesis
    proof (cases q)
      case (Inl e')
      with Pair Cons.prems(1) have "digest_relation R l s = (t, Inl e)" by (simp add: bindS_def)
      from digest_relation_Inl [OF this] Cons.prems(2) show ?thesis by (auto simp: pending_rows_def)
    next
      case (Inr y)
      with Pair have u: "digest_relation R l s = (u, Inr ())" by simp
      with Cons.prems(1) have "forS rels (digest_relation R) u = (t, Inl e)" by (simp add: bindS_def)
      from Cons.IH [OF this pending_rows_step [OF Cons.prems(2) u]] show ?thesis by auto
    qed
  qed
qed simp

lemma distinct_relations_digest:
  "preserves (\<lambda>s. distinct (map rel_id (db_relations s))) (digest_relation R l)"
proof (rule preservesI)
  fix s t x assume s: "distinct (map rel_id (db_relations s))" "digest_relation R l s = (t, x)"
  show "distinct (map rel_id (db_relations t))"
  proof (cases x)
    case (Inl e)
    with s digest_relation_Inl [of R l s t e] show ?thesis by simp
  next
    case (Inr y)
    with s digest_relation_keeps(4) [of R l s t] show ?thesis by (simp add: distinct_upsert)
  qed
qed

text \<open>The ids drawn by later events are of no row yet.\<close>

definition fresh_events :: "report_event list \<Rightarrow> report_db \<Rightarrow> bool" where
  "fresh_events es s \<longleftrightarrow> (\<forall>e \<in> set es. \<forall>n \<ge> db_seq s. \<forall>l \<in> set (db_relations s).
     env_uuid (re_env (event_env e)) n \<noteq> rel_id l \<and> env_uuid (re_env (event_env e)) n \<noteq> rel_reportId l \<and>
     rel_digestionId l \<noteq> Some (digestion_id (event_env e) n))"

lemma fresh_eventsD:
  "fresh_events es s \<Longrightarrow> e \<in> set es \<Longrightarrow> db_seq s \<le> n \<Longrightarrow> l \<in> set (db_relations s) \<Longrightarrow>
   rel_id l \<noteq> env_uuid (re_env (event_env e)) n \<and> rel_reportId l \<noteq> env_uuid (re_env (event_env e)) n \<and>
   rel_digestionId l \<noteq> Some (digestion_id (event_env e) n)"
  unfolding fresh_events_def by metis

lemma failed_pass_blocks:
  assumes fail: "digest_waiting R s = (t, Inl e)" and ids: "distinct (map rel_id (db_relations s))"
  obtains l where "l \<in> set (db_relations t)" "rel_digestionStatus l = DS_DIGESTING"
    "\<And>es. fresh_events es t \<Longrightarrow> rel_reportId l \<in> set (working_reports (run_events es t)) \<and>
       by_key rep_id (db_reports (run_events es t)) (rel_reportId l) = by_key rep_id (db_reports t) (rel_reportId l)"
proof -
  let ?rels = "claimed_relations (digestion_id R (db_seq s)) (claimed R s)"
  have pass: "forS ?rels (digest_relation R) (claimed R s) = (t, Inl e)"
    using fail by (simp add: digest_waiting_unfold)
  have c: "distinct (map rel_id (db_relations (claimed R s)))" using ids by simp
  from pass_fails [OF pass claimed_pending [OF c]]
  obtain l where l: "l \<in> set (db_relations t)" "rel_digestionStatus l = DS_DIGESTING" by blast
  have t: "distinct (map rel_id (db_relations t))"
    by (rule preservesD [OF preserves_forS [OF distinct_relations_digest] c pass])
  have "rel_reportId l \<in> set (working_reports (run_events es t)) \<and>
      by_key rep_id (db_reports (run_events es t)) (rel_reportId l) = by_key rep_id (db_reports t) (rel_reportId l)"
    if fresh: "fresh_events es t" for es
  proof -
    let ?N = "{(x, n). x \<in> set es \<and> db_seq t \<le> n}"
    let ?G = "(\<lambda>(x, n). env_uuid (re_env (event_env x)) n) ` ?N"
    let ?F = "(\<lambda>(x, n). digestion_id (event_env x) n) ` ?N"
    have "blocked (db_seq t) ?G ?F (rel_reportId l) (by_key rep_id (db_reports t) (rel_reportId l)) t"
      unfolding blocked_def working_iff using t l fresh_eventsD [OF fresh] by auto
    moreover have "rel_reportId l \<notin> ?G" using fresh_eventsD [OF fresh _ _ l(1)] by auto
    moreover have "\<forall>x \<in> set es. draws (event_env x) (db_seq t) ?G ?F" by (auto simp: draws_def)
    ultimately have "blocked (db_seq t) ?G ?F (rel_reportId l)
        (by_key rep_id (db_reports t) (rel_reportId l)) (run_events es t)"
      by (rule blocked_run)
    then show ?thesis by (simp add: blocked_def)
  qed
  with l show thesis by (rule that)
qed

section \<open>Claims of several instances\<close>

text \<open>
  The relations of a report that are being digested are one instance's: it holds when the two
  statements of a claim run with nothing in between.
\<close>

definition claims_exclusive :: "report_db \<Rightarrow> bool" where
  "claims_exclusive s \<longleftrightarrow>
     (\<forall>x \<in> set (db_relations s). \<forall>y \<in> set (db_relations s).
        rel_digestionStatus x = DS_DIGESTING \<longrightarrow> rel_digestionStatus y = DS_DIGESTING \<longrightarrow>
        rel_reportId x = rel_reportId y \<longrightarrow> rel_digestionId x = rel_digestionId y)"

text \<open>
  The steps of the instances: a claim, the digestion of a relation by the instance that has claimed it,
  and the arrival of a payment.
\<close>

inductive queue_step :: "report_db \<Rightarrow> report_db \<Rightarrow> bool" where
  claim: "queue_step s (claimed R s)"
| digest: "l \<in> set (claimed_relations d s) \<Longrightarrow> digest_relation R l s = (t, x) \<Longrightarrow> queue_step s t"
| arrive: "insertPaymentToReportDigestionSingle R rid pid account s = (t, x) \<Longrightarrow> queue_step s t"
| other: "db_relations t = db_relations s \<Longrightarrow> queue_step s t"

lemma claims_exclusive_cong:
  "db_relations t = db_relations s \<Longrightarrow> claims_exclusive s \<Longrightarrow> claims_exclusive t"
  by (simp only: claims_exclusive_def)

lemma claims_exclusive_upsert:
  "claims_exclusive s \<Longrightarrow> rel_digestionStatus y \<noteq> DS_DIGESTING \<Longrightarrow>
   db_relations t = upsert rel_id y (db_relations s) \<Longrightarrow> claims_exclusive t"
  unfolding claims_exclusive_def by (metis upsert_in)

lemma claimed_row:
  "x \<in> set (db_relations (claimed R s)) \<Longrightarrow> rel_digestionStatus x = DS_DIGESTING \<Longrightarrow>
   x \<in> set (db_relations s) \<or>
   rel_reportId x \<notin> set (working_reports s) \<and> rel_digestionId x = Some (digestion_id R (db_seq s))"
  by (auto simp: claimed_def claim_relations_def split: if_splits)

lemma inserted_relation:
  assumes "insertPaymentToReportDigestionSingle R rid pid account s = (t, x)"
  obtains "db_relations t = db_relations s"
  | y where "rel_digestionStatus y = DS_WAITING" "db_relations t = upsert rel_id y (db_relations s)"
proof (cases "list_ex (\<lambda>r. rel_reportId r = rid \<and> rel_paymentId r = pid) (db_relations s)")
  case True
  with assms show thesis
    by (intro that(1)) (simp add: insertPaymentToReportDigestionSingle_def run_simps)
next
  case False
  let ?y = "\<lparr>rel_id = env_uuid (re_env R) (db_seq s), rel_paymentId = pid, rel_reportId = rid,
    rel_accountId = account, rel_digestionId = None, rel_digestionStatus = DS_WAITING,
    rel_digestionStartedAt = None, rel_digestionCompletedAt = None\<rparr>"
  from False assms show thesis
    by (intro that(2) [of ?y])
      (auto simp: insertPaymentToReportDigestionSingle_def run_simps drawId_def)
qed

lemma claims_exclusive_step: "queue_step s t \<Longrightarrow> claims_exclusive s \<Longrightarrow> claims_exclusive t"
proof (induction rule: queue_step.induct)
  case (claim s R)
  then show ?case
    unfolding claims_exclusive_def
  proof (intro ballI impI)
    fix x y assume x: "x \<in> set (db_relations (claimed R s))" "rel_digestionStatus x = DS_DIGESTING"
      and y: "y \<in> set (db_relations (claimed R s))" "rel_digestionStatus y = DS_DIGESTING"
      and same: "rel_reportId x = rel_reportId y"
    have old: "rel_reportId z \<in> set (working_reports s)"
      if "z \<in> set (db_relations s)" "rel_digestionStatus z = DS_DIGESTING" for z
      using that unfolding working_iff by blast
    show "rel_digestionId x = rel_digestionId y"
    proof (cases "x \<in> set (db_relations s)")
      case True
      with claimed_row [OF y] old x(2) same have "y \<in> set (db_relations s)" by metis
      with True claim x(2) y(2) same show ?thesis unfolding claims_exclusive_def by blast
    next
      case False
      with claimed_row [OF x] claimed_row [OF y] old y(2) same show ?thesis by metis
    qed
  qed
next
  case (digest l d s R t x)
  have "db_relations t = db_relations s \<or> db_relations t = upsert rel_id (complete_relation R l) (db_relations s)"
  proof (cases x)
    case (Inl e)
    with digest(2) digest_relation_Inl show ?thesis by blast
  next
    case (Inr y)
    with digest(2) have "digest_relation R l s = (t, Inr ())" by simp
    from digest_relation_keeps(4) [OF this] show ?thesis by (rule ssubst) simp
  qed
  then show ?case
    using claims_exclusive_cong digest(3) claims_exclusive_upsert [OF digest(3), of "complete_relation R l" t]
    by auto
next
  case (arrive R rid pid account s t x)
  show ?case
  proof (cases rule: inserted_relation [OF arrive(1)])
    case 1
    then show ?thesis by (rule claims_exclusive_cong [OF _ arrive(2)])
  next
    case (2 y)
    then show ?thesis by (intro claims_exclusive_upsert [OF arrive(2)]) simp_all
  qed
qed (use claims_exclusive_cong in blast)

end
