(* ===== verification/Report_Properties.thy ===== *)
theory Report_Properties
  imports Report_Blocking
begin

text \<open>
  The properties of the reports' queue: exact totals, and what becomes of the relations waiting.
\<close>

section \<open>A database to evaluate\<close>

text \<open>A completed payment of 10 to a seller, enqueued for a report of the seller.\<close>

definition sample_report_env :: report_env where
  "sample_report_env =
     \<lparr>re_env = (sample_env OS_COMPLETED)\<lparr>env_now := 7\<rparr>, re_lower = id,
      re_identity = (\<lambda>n v. n @ ''#'' @ v), re_local = (\<lambda>_. \<lparr>ld_year = 26, ld_month = 3, ld_day = 24\<rparr>),
      re_bigint = id\<rparr>"

definition sample_sale :: payment_row where
  "sample_sale = sample_payment ''p'' PURCHASE PS_COMPLETED 10"

definition sample_order :: seller_order_row where
  "sample_order =
     \<lparr>so_id = ''so'', so_amount = 10, so_taxAmount = 0, so_untaxedAmount = 10, so_currency = ''TRY'',
      so_paymentId = ''p'', so_targetAccountId = ''seller'', so_sourceAccountId = ''customer'',
      so_billingAddressId = None, so_paymentStatus = PS_COMPLETED, so_errorStatus = None,
      so_invoiceCount = 0, so_hasFinalizedInvoice = False, so_openPayment = False,
      so_sellerOrderType = CREDIT_TO_SELLER, so_createdAt = 0, so_updatedAt = 0, so_lastOperationDate = 0,
      so_operationNote = [], so_description = [], so_customerSnapshotAddressId = None,
      so_customerSnapshotAccountId = None, so_sellerSnapshotAddressId = None,
      so_sellerSnapshotAccountId = None\<rparr>"

definition sample_query :: report_query where
  "sample_query =
     \<lparr>q_id = ''q'', q_name = ''Seller Report'', q_description = [], q_ownerAccountId = Some ''seller'',
      q_currency = Some ''TRY'', q_dateGrouping = DAILY, q_reportType = REPORT_SELLER\<rparr>"

definition sample_report :: report_row where
  "sample_report = new_report\<lparr>rep_id := ''r'', rep_queryId := ''q'', rep_periodLabel := ''26-03-24''\<rparr>"

definition sample_relation :: "string \<Rightarrow> string \<Rightarrow> relation_row" where
  "sample_relation i pid =
     \<lparr>rel_id = i, rel_paymentId = pid, rel_reportId = ''r'', rel_accountId = ''seller'', rel_digestionId = None,
      rel_digestionStatus = DS_WAITING, rel_digestionStartedAt = None, rel_digestionCompletedAt = None\<rparr>"

definition sample_queued :: report_db where
  "sample_queued =
     \<lparr>db_core = sample_store\<lparr>st_payments := [sample_sale], st_items := [sample_item ''i'' ''p'' ''seller'' 10],
        st_orders := [sample_order]\<rparr>,
      db_queries = [sample_query], db_reports = [sample_report], db_relations = [sample_relation ''l'' ''p''],
      db_expenses = [], db_taxGroups = [], db_items = [], db_platforms = [], db_externals = [], db_seq = 0,
      db_checking = False\<rparr>"

definition sample_digested :: report_db where
  "sample_digested = fst (digest_waiting sample_report_env sample_queued)"

lemma sample_digested_rows:
  "snd (digest_waiting sample_report_env sample_queued) = Inr () \<and>
   settled_payments ''r'' sample_digested = [''p''] \<and>
   map rel_digestionStatus (db_relations sample_digested) = [DS_COMPLETED]"
  unfolding sample_digested_def by code_simp

lemma sample_digested_run: "digest_waiting sample_report_env sample_queued = (sample_digested, Inr ())"
  using sample_digested_rows by (simp add: sample_digested_def prod_eq_iff)

lemmas sample_report_defs = sample_queued_def sample_relation_def sample_report_def sample_query_def
  sample_sale_def sample_report_env_def

lemma sample_queued_facts:
  "distinct (map rel_id (db_relations sample_queued))" "report_owner ''r'' sample_queued = Some ''seller''"
  "report_payments ''r'' sample_queued = [''p'']" "settled_payments ''r'' sample_queued = []"
  "working_reports sample_queued = []" "by_key rep_id (db_reports sample_queued) ''r'' = Some sample_report"
  by (simp_all add: sample_report_defs report_owner_def by_key_def report_payments_def settled_payments_def
      included_def find_payment_def working_reports_def sample_payment_def)

section \<open>Totals\<close>



section \<open>What waits is digested\<close>

text \<open>
  C18: every payment that waits for a report nobody is digesting is digested by the next pass that
  returns: its relation is completed, provided the report is there and has an owner.
\<close>

theorem waiting_payments_digested:
  assumes "digest_waiting R s = (t, Inr ())" and "distinct (map rel_id (db_relations s))"
    and "l \<in> set (db_relations s)" "rel_digestionStatus l = DS_WAITING"
    and "rel_reportId l \<notin> set (working_reports s)" "report_owner (rel_reportId l) s \<noteq> None"
  shows "\<exists>l' \<in> set (db_relations t). rel_id l' = rel_id l \<and> rel_paymentId l' = rel_paymentId l \<and>
    rel_reportId l' = rel_reportId l \<and> rel_digestionStatus l' = DS_COMPLETED \<and>
    rel_digestionCompletedAt l' = Some (env_now (re_env R))"
proof -
  let ?d = "digestion_id R (db_seq s)"
  let ?l = "l\<lparr>rel_digestionStatus := DS_DIGESTING, rel_digestionId := Some ?d,
    rel_digestionStartedAt := Some (env_now (re_env R))\<rparr>"
  have "?l \<in> set (db_relations (claimed R s))"
    using assms(3-5) by (force simp: claimed_def claim_relations_def)
  then have l: "?l \<in> set (claimed_relations ?d (claimed R s))" by (simp add: claimed_relations_def)
  have pass: "forS (claimed_relations ?d (claimed R s)) (digest_relation R) (claimed R s) = (t, Inr ())"
    using assms(1) by (simp add: digest_waiting_unfold)
  have "pending_rows (claimed_relations ?d (claimed R s)) (claimed R s)"
    using assms(2) by (intro claimed_pending) simp
  from pass_completes [OF pass this l] have "complete_relation R ?l \<in> set (db_relations t)"
    using assms(6) by simp
  then show ?thesis by (rule rev_bexI) (simp add: complete_relation_def)
qed

theorem waiting_payments_digested_witness:
  "map rel_digestionStatus (db_relations sample_queued) = [DS_WAITING] \<and>
   map rel_digestionStatus (db_relations sample_digested) = [DS_COMPLETED] \<and>
   rel_id (hd (db_relations sample_digested)) = ''l''"
proof -
  have l: "db_relations sample_queued = [sample_relation ''l'' ''p'']" by (simp add: sample_queued_def)
  obtain x where x: "db_relations sample_digested = [x]"
    using sample_digested_rows by (cases "db_relations sample_digested") auto
  have "\<exists>l' \<in> set (db_relations sample_digested). rel_id l' = rel_id (sample_relation ''l'' ''p'') \<and>
      rel_paymentId l' = rel_paymentId (sample_relation ''l'' ''p'') \<and>
      rel_reportId l' = rel_reportId (sample_relation ''l'' ''p'') \<and> rel_digestionStatus l' = DS_COMPLETED \<and>
      rel_digestionCompletedAt l' = Some (env_now (re_env sample_report_env))"
    by (rule waiting_payments_digested [OF sample_digested_run sample_queued_facts(1)])
      (simp_all add: l sample_queued_facts, simp_all add: sample_relation_def sample_queued_facts)
  then show ?thesis using x sample_digested_rows by (simp add: l sample_relation_def)
qed

section \<open>A failed digestion\<close>

text \<open>
  C19: a digestion that throws blocks its report for good. The relation that failed is left being
  digested, no code marks it failed, and whatever the service handles afterwards (cron jobs, payments
  arriving, of any instance, with fresh ids), the report still counts as being digested and its row
  never changes again.
\<close>

theorem failed_digestion_blocks_report:
  assumes "digest_waiting R s = (t, Inl e)" and "distinct (map rel_id (db_relations s))"
    and "fresh_events es t"
  shows "\<exists>l \<in> set (db_relations t). rel_digestionStatus l = DS_DIGESTING \<and>
    rel_reportId l \<in> set (working_reports (run_events es t)) \<and>
    by_key rep_id (db_reports (run_events es t)) (rel_reportId l) = by_key rep_id (db_reports t) (rel_reportId l)"
proof -
  obtain l where "l \<in> set (db_relations t)" "rel_digestionStatus l = DS_DIGESTING"
    "rel_reportId l \<in> set (working_reports (run_events es t)) \<and>
     by_key rep_id (db_reports (run_events es t)) (rel_reportId l) = by_key rep_id (db_reports t) (rel_reportId l)"
    using failed_pass_blocks [OF assms(1,2)] assms(3) by blast
  then show ?thesis by blast
qed

text \<open>A relation whose payment is gone, and one of a payment that could be digested.\<close>

definition sample_broken :: report_db where
  "sample_broken = sample_queued\<lparr>db_relations := [sample_relation ''l'' ''gone'', sample_relation ''m'' ''p'']\<rparr>"

definition sample_failed :: report_db where
  "sample_failed = fst (digest_waiting sample_report_env sample_broken)"

lemma sample_failed_rows:
  "snd (digest_waiting sample_report_env sample_broken) = Inl (NotFound ''Payment not found'') \<and>
   map (\<lambda>l. (rel_id l, rel_reportId l, rel_digestionId l)) (db_relations sample_failed) =
     [(''l'', ''r'', Some ''7_u0''), (''m'', ''r'', Some ''7_u0'')] \<and> db_seq sample_failed = 1 \<and>
   map br_paymentCount (db_reports sample_failed) = [0]"
  unfolding sample_failed_def by code_simp

lemma sample_digits: "nat_text 7 = ''7''" "nat_text 0 = ''0''"
  by code_simp+

lemma sample_failed_run:
  "digest_waiting sample_report_env sample_broken = (sample_failed, Inl (NotFound ''Payment not found''))"
  using sample_failed_rows by (simp add: sample_failed_def prod_eq_iff)

theorem failed_digestion_blocks_report_witness:
  "''r'' \<in> set (working_reports (run_events [Cron sample_report_env, Cron sample_report_env] sample_failed)) \<and>
   map br_paymentCount (db_reports sample_failed) = [0]"
proof -
  let ?es = "[Cron sample_report_env, Cron sample_report_env]"
  obtain l m where rows: "db_relations sample_failed = [l, m]" "rel_id l = ''l''" "rel_id m = ''m''"
    "rel_reportId l = ''r''" "rel_reportId m = ''r''"
    "rel_digestionId l = Some ''7_u0''" "rel_digestionId m = Some ''7_u0''"
    using sample_failed_rows by (auto simp: map_eq_Cons_conv)
  have "nat_text n \<noteq> ''0'' \<and> ''0'' \<noteq> nat_text n" if "Suc 0 \<le> n" for n
    using nat_text_inj [of n 0] that by (auto simp: sample_digits)
  then have "fresh_events ?es sample_failed"
    using sample_failed_rows rows
    by (auto simp: fresh_events_def sample_report_env_def digestion_id_def sample_env_def sample_digits)
  moreover have "distinct (map rel_id (db_relations sample_broken))"
    by (simp add: sample_broken_def sample_relation_def)
  ultimately have "\<exists>l \<in> set (db_relations sample_failed). rel_digestionStatus l = DS_DIGESTING \<and>
      rel_reportId l \<in> set (working_reports (run_events ?es sample_failed)) \<and>
      by_key rep_id (db_reports (run_events ?es sample_failed)) (rel_reportId l) =
        by_key rep_id (db_reports sample_failed) (rel_reportId l)"
    by (intro failed_digestion_blocks_report [OF sample_failed_run])
  then show ?thesis using rows sample_failed_rows by auto
qed

section \<open>One instance per report\<close>

text \<open>
  C20: when the two statements of a claim run with nothing in between, then in every run of any number
  of instances (claims, digestions of claimed relations, payments arriving) all relations of a report
  that are being digested carry one digestion id: no two instances work on a report at the same time.
\<close>

theorem one_instance_per_report:
  assumes "queue_step\<^sup>*\<^sup>* s t" and "\<forall>l \<in> set (db_relations s). rel_digestionStatus l \<noteq> DS_DIGESTING"
  shows "claims_exclusive t"
  using assms
proof (induction rule: rtranclp_induct)
  case base
  then show ?case by (auto simp: claims_exclusive_def)
qed (auto intro: claims_exclusive_step)

theorem one_instance_per_report_witness:
  "claims_exclusive (claimed sample_report_env sample_broken) \<and>
   map rel_digestionStatus (db_relations (claimed sample_report_env sample_broken)) = [DS_DIGESTING, DS_DIGESTING]"
proof -
  have "queue_step\<^sup>*\<^sup>* sample_broken (claimed sample_report_env sample_broken)"
    by (rule r_into_rtranclp) (rule queue_step.claim)
  then have "claims_exclusive (claimed sample_report_env sample_broken)"
    by (rule one_instance_per_report) (simp add: sample_broken_def sample_relation_def)
  then show ?thesis
    by (simp add: claimed_def claim_relations_def working_reports_def sample_broken_def sample_relation_def)
qed

text \<open>
  The code runs the two statements one after the other: with a payment arriving in between, two
  instances claim relations of one report.
\<close>

lemma claim_race:
  "let a = claim_relations 1 ''a'' (working_reports sample_queued) sample_queued;
       arrived = fst (insertPaymentToReportDigestionSingle sample_report_env ''r'' ''p2'' ''seller'' a);
       b = claim_relations 2 ''b'' (working_reports sample_queued) arrived in
   \<not> claims_exclusive b \<and> map rel_digestionId (db_relations b) = [Some ''a'', Some ''b'']"
  by (simp add: claim_relations_def working_reports_def sample_queued_def sample_relation_def claims_exclusive_def
      insertPaymentToReportDigestionSingle_def run_simps drawId_def save_relation_def sample_report_env_def
      sample_env_def sample_digits)

section \<open>One report per period\<close>

lemma report_columns_same [simp]:
  "report_unique (report_columns B r) = report_unique r" "rep_archived (report_columns B r) = rep_archived r"
  "rep_queryId (report_columns B r) = rep_queryId r" "rep_periodLabel (report_columns B r) = rep_periodLabel r"
  "rep_currency (report_columns B r) = rep_currency r"
  by (simp_all add: report_unique_def report_columns_def totals_columns_def)

lemma find_current_reportD:
  "find_current_report qid label c s = Some r \<Longrightarrow>
   r \<in> set (db_reports s) \<and> rep_queryId r = qid \<and> rep_periodLabel r = label \<and> rep_currency r = c \<and> \<not> rep_archived r"
  by (auto simp: find_current_report_def dest: find_Some_in)

lemma findOrCreate_found:
  "find_current_report (q_id q) label c s = Some r \<Longrightarrow> findOrCreateByQuery R q label c s = (s, Inr r)"
  by (simp add: findOrCreateByQuery_def run_simps)

lemma findOrCreate_creates:
  assumes "findOrCreateByQuery R q label c s = (t, Inr r)" "find_current_report (q_id q) label c s = None"
  shows "\<not> list_ex (\<lambda>x. report_unique x = report_unique r) (db_reports s) \<and>
    r = new_report\<lparr>rep_queryId := q_id q, rep_periodLabel := label, rep_currency := c,
      rep_reportType := q_reportType q, rep_id := env_uuid (re_env R) (db_seq s)\<rparr> \<and>
    t = save_report R r (s\<lparr>db_seq := Suc (db_seq s)\<rparr>)"
  using assms
  by (auto simp: findOrCreateByQuery_def insert_report_def drawId_def run_simps report_unique_def
      find_current_report_def split: if_splits option.splits)

text \<open>
  C40: a query has one report per period and currency. Whoever asks for it gets the current report, the
  unique constraint holds afterwards, and everybody who asks later gets the same report.
\<close>

theorem report_bucket_unique:
  assumes "findOrCreateByQuery R q label c s = (t, Inr r)" and "distinct (map report_unique (db_reports s))"
    and "env_uuid (re_env R) (db_seq s) \<notin> rep_id ` set (db_reports s)"
  shows "distinct (map report_unique (db_reports t)) \<and> rep_queryId r = q_id q \<and> rep_periodLabel r = label \<and>
    rep_currency r = c \<and> \<not> rep_archived r \<and>
    (\<exists>r'. rep_id r' = rep_id r \<and> (\<forall>R'. findOrCreateByQuery R' q label c t = (t, Inr r')))"
proof (cases "find_current_report (q_id q) label c s")
  case (Some x)
  with assms(1) have "t = s" "r = x" by (simp_all add: findOrCreate_found)
  with Some assms(2) find_current_reportD [OF Some] show ?thesis by (auto simp: findOrCreate_found)
next
  case None
  note new = findOrCreate_creates [OF assms(1) None]
  let ?r = "report_columns (re_big R) r"
  have t: "db_reports t = db_reports s @ [?r]"
    using new assms(3) by (simp add: save_report_def upsert_fresh image_iff)
  have r: "rep_queryId r = q_id q" "rep_periodLabel r = label" "rep_currency r = c" "\<not> rep_archived r"
    using new by (simp_all add: new_report_def base_report.defs report_row.defs)
  have "report_unique r \<notin> report_unique ` set (db_reports s)" using new by (auto simp: list_ex_iff)
  then have "distinct (map report_unique (db_reports t))" using assms(2) by (simp add: t)
  moreover have "find_current_report (q_id q) label c t = Some ?r"
  proof -
    have "List.find P (xs @ [y]) = Some y" if "List.find P xs = None" "P y" for P :: "report_row \<Rightarrow> bool" and xs y
      using that by (induction xs) (auto split: if_splits)
    from this [OF None [unfolded find_current_report_def], of ?r] show ?thesis
      using r by (simp add: find_current_report_def t)
  qed
  ultimately show ?thesis using r by (auto simp: findOrCreate_found intro!: exI [of _ ?r])
qed

definition sample_two_days :: report_db where
  "sample_two_days = fst (findOrCreateByQuery sample_report_env sample_query ''26-03-25'' ''TRY'' sample_queued)"

lemma sample_two_days_run:
  "map rep_periodLabel (db_reports sample_two_days) = [''26-03-24'', ''26-03-25''] \<and>
   (case snd (findOrCreateByQuery sample_report_env sample_query ''26-03-25'' ''TRY'' sample_queued) of
      Inl e \<Rightarrow> False | Inr r \<Rightarrow> True)"
  unfolding sample_two_days_def by code_simp

theorem report_bucket_unique_witness:
  "distinct (map report_unique (db_reports sample_two_days)) \<and>
   map rep_periodLabel (db_reports sample_two_days) = [''26-03-24'', ''26-03-25'']"
proof -
  obtain r where "findOrCreateByQuery sample_report_env sample_query ''26-03-25'' ''TRY'' sample_queued =
      (sample_two_days, Inr r)"
    using sample_two_days_run
    by (cases "snd (findOrCreateByQuery sample_report_env sample_query ''26-03-25'' ''TRY'' sample_queued)")
      (auto simp: sample_two_days_def prod_eq_iff)
  moreover have "env_uuid (re_env sample_report_env) (db_seq sample_queued) \<notin> rep_id ` set (db_reports sample_queued)"
    by (simp add: sample_report_defs sample_env_def)
  ultimately show ?thesis
    using report_bucket_unique [of sample_report_env sample_query "''26-03-25''" "''TRY''" sample_queued]
      sample_two_days_run by (simp add: sample_queued_def)
qed

section \<open>The fees of a platform report\<close>

text \<open>
  Provider fees are expenses of the account \<open>PLATFORM\<close>, while the total of the report is read for the
  owner of its query: they are never part of it.
\<close>

lemma save_expenses_other:
  assumes "save_expenses R rows s = (t, x)" "\<forall>e \<in> set rows. ex_accountId e \<noteq> owner"
  shows "total_expense rid owner t = total_expense rid owner s"
  using assms
proof (induction rows arbitrary: s)
  case (Cons e rows)
  have "owner \<noteq> ex_accountId (expense_columns B e)" for B
    using Cons.prems(2) by (auto simp: expense_columns_def)
  then have "total_expense rid owner (save_expense R e s) = total_expense rid owner s"
    by (simp add: total_expense_def save_expense_def by_key_upsert expense_key_def)
  moreover have "save_expenses R rows (save_expense R e s) = (t, x)"
    using Cons.prems(1) by (simp add: save_expenses_def bindS_def modifyS_def)
  ultimately show ?case using Cons by simp
qed (simp add: save_expenses_def)

lemma add_fee_account:
  assumes "\<forall>e \<in> set rows. ex_accountId e = a"
  shows "\<forall>e \<in> set (foldl (add_fee B rid a) rows fees). ex_accountId e = a"
proof -
  have change: "\<forall>e \<in> set (change_expense f (fresh_expense rid a key c) xs). ex_accountId e = a"
    if "\<forall>e \<in> set xs. ex_accountId e = a" for f key c xs
    using that by (auto simp: change_expense_def fresh_expense_def create_expense_def nullish_def Let_def
        dest!: upsert_in by_key_in split: option.splits)
  have keys: "\<forall>e \<in> set (foldl (\<lambda>es key. change_expense f (fresh_expense rid a key None) es) xs ks).
      ex_accountId e = a" if "\<forall>e \<in> set xs. ex_accountId e = a" for f xs ks
    using that
  proof (induction ks arbitrary: xs)
    case (Cons k ks)
    show ?case by (simp only: foldl_Cons) (intro Cons.IH change Cons.prems)
  qed simp
  show ?thesis
    using assms
  proof (induction fees arbitrary: rows)
    case (Cons fee fees)
    have "\<forall>e \<in> set (add_fee B rid a rows fee). ex_accountId e = a"
      unfolding add_fee_def by (rule keys [OF Cons.prems])
    then show ?case by (simp only: foldl_Cons) (rule Cons.IH)
  qed simp
qed

lemma platform_fees_not_in_total:
  assumes "updateProviderFeeExpenseForPlatformReport R rid payment s = (t, x)" "owner \<noteq> WHOLE_PLATFORM"
  shows "total_expense rid owner t = total_expense rid owner s"
proof -
  let ?fees = "filter (\<lambda>fee. snd fee > 0) (map (\<lambda>x. (op_paymentChannelId x, op_providerFee x))
    (filter (\<lambda>x. op_paymentId x = p_id payment \<and> op_providerFee x \<noteq> 0) (st_operations (db_core s))))"
  let ?rows = "foldl (add_fee (re_big R) rid WHOLE_PLATFORM) (expenses_of rid WHOLE_PLATFORM s) ?fees"
  have "\<forall>e \<in> set ?rows. ex_accountId e = WHOLE_PLATFORM"
    by (rule add_fee_account) (simp add: expenses_of_def)
  then show ?thesis
    using assms save_expenses_other [of R _ s t x owner rid]
    by (auto simp: updateProviderFeeExpenseForPlatformReport_def addProviderFeeExpenses_def run_simps Let_def
        split: if_splits)
qed

end
