(* ===== verification/Iyzico_Entities.thy ===== *)
theory Iyzico_Entities
  imports Entities "HOL-Library.List_Lexorder" "HOL-Library.Char_ord"
begin

text \<open>
  The iyzico adapter (\<open>apps/integration-iyzico\<close>): its tables, what it is given, and its client of the
  provider (\<open>iyzico-client.service.ts\<close>). The \<open>iyzipay\<close> SDK and the HMAC are parameters; the provider
  may answer anything.
\<close>

section \<open>What the provider sends and is sent\<close>

datatype json =
    JNull | JBool bool | JString string | JNumber rat | JArray "json list" | JObject "(string \<times> json) list"

record checkout_address =
  ca_contactName :: string
  ca_city :: string
  ca_country :: string
  ca_address :: string
  ca_zipCode :: "string option"

record checkout_item =
  ct_id :: string
  ct_name :: string
  ct_physical :: bool
  ct_price :: string
  ct_subMerchantKey :: "string option"

record checkout_buyer =
  cb_id :: string
  cb_name :: string
  cb_surname :: string
  cb_email :: string
  cb_gsmNumber :: "string option"
  cb_identityNumber :: string
  cb_registrationAddress :: string
  cb_ip :: string

record checkout_request =
  cq_conversationId :: string
  cq_basketId :: string
  cq_price :: string
  cq_paidPrice :: string
  cq_currency :: string
  cq_callbackUrl :: string
  cq_buyer :: checkout_buyer
  cq_billingAddress :: checkout_address
  cq_shippingAddress :: "checkout_address option"
  cq_basketItems :: "checkout_item list"

record refund_call =
  rq_conversationId :: string
  rq_paymentTransactionId :: string
  rq_price :: string
  rq_currency :: string

datatype iyzico_call =
    CallInitialize checkout_request
  | CallRetrieve string string
  | CallRefund refund_call

text \<open>A timeout, a transport error and an exception of the SDK all reject.\<close>

datatype sdk_reply = SdkBody json | SdkFailed

section \<open>Tables\<close>

datatype rounding_mode = ROUND | FLOOR | USE_FIRST_TWO | THROW

datatype initialization_state = INITIALIZING | INITIALIZED | INIT_RECONCILIATION_REQUIRED

datatype cancellation_state = CS_CANCELLED | CS_PAID_AFTER_CANCEL

record basket_line =
  bl_paymentItemId :: string
  bl_price :: string

record item_transaction =
  tx_paymentItemId :: string
  tx_paymentTransactionId :: string
  tx_price :: string
  tx_paidPrice :: string

record iyzico_operation =
  iy_id :: string
  iy_paymentId :: string
  iy_currency :: string
  iy_amount :: string
  iy_status :: operation_status
  iy_initializationState :: initialization_state
  iy_token :: "string option"
  iy_paymentPageUrl :: "string option"
  iy_providerPaymentId :: "string option"
  iy_providerFee :: "string option"
  iy_basketLines :: "basket_line list"
  iy_itemTransactions :: "item_transaction list option"
  iy_returnUrl :: "string option"
  iy_callbackReceived :: bool
  iy_cancellationState :: "cancellation_state option"

datatype refund_line_state = L_RESERVED | L_SUBMITTING | L_SUCCEEDED | L_REJECTED | L_RECONCILIATION_REQUIRED

datatype iyzico_refund_state = RS_RESERVED | RS_SUBMITTING | RS_FINISHED | RS_RECONCILIATION_REQUIRED

record iyzico_refund_line = refund_line +
  il_paymentTransactionId :: string
  il_conversationId :: string
  il_state :: refund_line_state
  il_refundHostReference :: "string option"
  il_errorCode :: "string option"

record iyzico_refund =
  ir_id :: string
  ir_paymentId :: string
  ir_originalOperationId :: string
  ir_currency :: string
  ir_roundingMode :: rounding_mode
  ir_state :: iyzico_refund_state
  ir_lines :: "iyzico_refund_line list"

text \<open>The adapter's database, with the calls made to the provider.\<close>

record iyzico_db =
  iz_operations :: "iyzico_operation list"
  iz_refunds :: "iyzico_refund list"
  iz_calls :: "iyzico_call list"
  iz_seq :: nat

section \<open>What the adapter is given\<close>

text \<open>A page's URL with the parts the client looks at.\<close>

record page_url = url +
  pg_hostname :: string
  pg_port :: string

text \<open>
  \<open>toFixed(2)\<close> and \<open>toString\<close> of \<open>big.js\<close>, \<open>String\<close> of a number, \<open>randomUUID\<close>, the platform's URL class,
  \<open>isIP\<close>, the Turkish case mappings, the HMAC with the client's secret as hexadecimal digits, the
  configuration (the base URL, the rounding mode read from the environment at start-up, and whether
  sub-merchants are enabled), the sub-merchant service, and the SDK, whose reply may depend on every
  call made before.
\<close>

record iyzico_env =
  ie_big :: bigjs
  ie_toFixed2 :: "rat \<Rightarrow> string"
  ie_toString :: "rat \<Rightarrow> string"
  ie_number_text :: "rat \<Rightarrow> string"
  ie_uuid :: "nat \<Rightarrow> string"
  ie_urls :: url_api
  ie_page :: "string \<Rightarrow> page_url option"
  ie_isIP :: "string \<Rightarrow> bool"
  ie_upper_tr :: "string \<Rightarrow> string"
  ie_lower_tr :: "string \<Rightarrow> string"
  ie_hmac :: "string \<Rightarrow> string"
  ie_publicBaseUrl :: url
  ie_roundingMode :: rounding_mode
  ie_subMerchants :: bool
  ie_subMerchantKey :: "string \<Rightarrow> string res"
  ie_sdk :: "iyzico_call list \<Rightarrow> iyzico_call \<Rightarrow> sdk_reply"

definition drawIyzicoId :: "iyzico_env \<Rightarrow> (iyzico_db, string) act" where
  "drawIyzicoId Z s = (s\<lparr>iz_seq := Suc (iz_seq s)\<rparr>, Inr (ie_uuid Z (iz_seq s)))"

section \<open>Reading a response\<close>

type_synonym json_object = "(string \<times> json) list"

definition responseObject :: "json \<Rightarrow> json_object res" where
  "responseObject j = (case j of JObject members \<Rightarrow> Inr members
     | _ \<Rightarrow> Inl (BadGateway ''Invalid iyzico response''))"

definition field :: "json_object \<Rightarrow> string \<Rightarrow> json option" where
  "field = map_of"

definition responseString :: "json option \<Rightarrow> string res" where
  "responseString v = (case v of Some (JString (c # cs)) \<Rightarrow> Inr (c # cs)
     | _ \<Rightarrow> Inl (BadGateway ''Missing string in iyzico response''))"

text \<open>The pattern \<open>^\d+(\.\d+)?$\<close>.\<close>

definition decimal_text :: "string \<Rightarrow> bool" where
  "decimal_text s \<longleftrightarrow> plain_decimal (length s) s"

definition responseDecimal :: "iyzico_env \<Rightarrow> json option \<Rightarrow> string res" where
  "responseDecimal Z v =
     (let read = (\<lambda>text. if decimal_text text
            then bindE (bigOf (ie_big Z) text) (\<lambda>x. Inr (ie_toString Z x))
            else Inl (BadGateway ''Invalid decimal in iyzico response'')) in
      case v of Some (JString text) \<Rightarrow> read text | Some (JNumber x) \<Rightarrow> read (ie_number_text Z x)
      | _ \<Rightarrow> Inl (BadGateway ''Invalid decimal in iyzico response''))"

definition is_hex :: "char \<Rightarrow> bool" where
  "is_hex c \<longleftrightarrow> is_digit c \<or> c \<in> set ''abcdefABCDEF''"

definition hex_lower :: "char \<Rightarrow> char" where
  "hex_lower c = (case map_of (zip ''ABCDEF'' ''abcdef'') c of None \<Rightarrow> c | Some d \<Rightarrow> d)"

text \<open>\<open>params.join(":")\<close>.\<close>

fun join_strings :: "string \<Rightarrow> string list \<Rightarrow> string" where
  "join_strings sep [] = []"
| "join_strings sep [x] = x"
| "join_strings sep (x # y # ys) = x @ sep @ join_strings sep (y # ys)"

definition verifyResponseSignature :: "iyzico_env \<Rightarrow> string list \<Rightarrow> json option \<Rightarrow> unit res" where
  "verifyResponseSignature Z params signature =
     (case signature of
        Some (JString sig) \<Rightarrow>
          bindE (throwIf (length sig \<noteq> 64 \<or> \<not> list_all is_hex sig)
            (BadGateway ''Missing or invalid iyzico signature'')) (\<lambda>_.
          throwIf (map hex_lower sig \<noteq> ie_hmac Z (join_strings '':'' params))
            (BadGateway ''iyzico signature verification failed''))
      | _ \<Rightarrow> Inl (BadGateway ''Missing or invalid iyzico signature''))"

section \<open>The client\<close>

definition sdk_call :: "iyzico_env \<Rightarrow> iyzico_call \<Rightarrow> (iyzico_db, sdk_reply) act" where
  "sdk_call Z c s = (s\<lparr>iz_calls := iz_calls s @ [c]\<rparr>, Inr (ie_sdk Z (iz_calls s) c))"

text \<open>\<open>call\<close>: a refund the provider rejects with a code of its own is told apart.\<close>

definition read_reply :: "string option \<Rightarrow> sdk_reply \<Rightarrow> json_object res" where
  "read_reply refundConversationId reply =
     (case reply of
        SdkFailed \<Rightarrow> Inl (BadGateway ''iyzico request failed; reconciliation may be required'')
      | SdkBody j \<Rightarrow>
          bindE (responseObject j) (\<lambda>body.
          if field body ''status'' = Some (JString ''success'') then Inr body
          else
            let code = (case field body ''errorCode'' of Some (JString c) \<Rightarrow> c | _ \<Rightarrow> ''UNKNOWN'') in
            if truthy refundConversationId \<and>
               field body ''conversationId'' = map_option JString refundConversationId \<and> code \<noteq> ''UNKNOWN''
            then Inl (IyzicoRefundRejected code)
            else Inl (BadGateway ''iyzico rejected the request; reconciliation may be required'')))"

definition client_call ::
  "iyzico_env \<Rightarrow> iyzico_call \<Rightarrow> string option \<Rightarrow> (iyzico_db, json_object) act"
where
  "client_call Z c refundConversationId =
     bindS (sdk_call Z c) (\<lambda>reply. liftS (read_reply refundConversationId reply))"

definition iyzico_page :: "page_url \<Rightarrow> bool" where
  "iyzico_page page \<longleftrightarrow>
     u_protocol page = ''https:'' \<and> u_username page = [] \<and> u_password page = [] \<and> pg_port page = [] \<and>
     (pg_hostname page = ''iyzipay.com'' \<or>
      drop (length (pg_hostname page) - 12) (pg_hostname page) = ''.iyzipay.com'')"

definition client_initialize ::
  "iyzico_env \<Rightarrow> checkout_request \<Rightarrow> (iyzico_db, string \<times> string) act"
where
  "client_initialize Z req =
     bindS (client_call Z (CallInitialize req) None) (\<lambda>result.
     liftS (
       bindE (responseString (field result ''conversationId'')) (\<lambda>conversationId.
       bindE (responseString (field result ''token'')) (\<lambda>token.
       bindE (verifyResponseSignature Z [conversationId, token] (field result ''signature'')) (\<lambda>_.
       bindE (throwIf (conversationId \<noteq> cq_conversationId req)
         (BadGateway ''iyzico initialization correlation mismatch'')) (\<lambda>_.
       bindE (responseString (field result ''paymentPageUrl'')) (\<lambda>text.
       bindE (of_option (JsError ''Invalid URL'') (ie_page Z text)) (\<lambda>page.
       bindE (throwIf (\<not> iyzico_page page) (BadGateway ''Unexpected iyzico payment page URL'')) (\<lambda>_.
       Inr (token, u_href page))))))))))"

text \<open>The signed fields of a result, in the order they are signed.\<close>

definition retrieve_params :: "iyzico_env \<Rightarrow> json_object \<Rightarrow> string list res" where
  "retrieve_params Z result =
     mapE (\<lambda>(name, decimal). (if decimal then responseDecimal Z else responseString) (field result name))
       [(''paymentStatus'', False), (''paymentId'', False), (''currency'', False), (''basketId'', False),
        (''conversationId'', False), (''paidPrice'', True), (''price'', True), (''token'', False)]"

definition client_retrieve :: "iyzico_env \<Rightarrow> string \<Rightarrow> string \<Rightarrow> (iyzico_db, json_object) act" where
  "client_retrieve Z token operationId =
     bindS (client_call Z (CallRetrieve token operationId) None) (\<lambda>result.
     bindS (liftS (retrieve_params Z result)) (\<lambda>params.
     bindS (liftS (verifyResponseSignature Z params (field result ''signature''))) (\<lambda>_.
     bindS (guardS (field result ''conversationId'' \<noteq> Some (JString operationId) \<or>
         field result ''token'' \<noteq> Some (JString token))
       (BadGateway ''iyzico payment correlation mismatch'')) (\<lambda>_.
     returnS result))))"

definition refund_matches :: "iyzico_env \<Rightarrow> refund_call \<Rightarrow> string \<Rightarrow> json_object \<Rightarrow> unit res" where
  "refund_matches Z req providerPaymentId result =
     bindE (throwIf (field result ''paymentId'' \<noteq> Some (JString providerPaymentId) \<or>
         field result ''paymentTransactionId'' \<noteq> Some (JString (rq_paymentTransactionId req)) \<or>
         field result ''conversationId'' \<noteq> Some (JString (rq_conversationId req)) \<or>
         field result ''currency'' \<noteq> Some (JString (rq_currency req)))
       (BadGateway ''iyzico refund correlation or amount mismatch'')) (\<lambda>_.
     bindE (responseDecimal Z (field result ''price'')) (\<lambda>text.
     bindE (bigOf (ie_big Z) text) (\<lambda>price.
     bindE (bigOf (ie_big Z) (rq_price req)) (\<lambda>asked.
     throwIf (price \<noteq> asked) (BadGateway ''iyzico refund correlation or amount mismatch'')))))"

definition client_refund ::
  "iyzico_env \<Rightarrow> refund_call \<Rightarrow> string \<Rightarrow> (iyzico_db, string option) act"
where
  "client_refund Z req providerPaymentId =
     bindS (client_call Z (CallRefund req) (Some (rq_conversationId req))) (\<lambda>result.
     liftS (
       bindE (mapE (\<lambda>(name, decimal). (if decimal then responseDecimal Z else responseString) (field result name))
         [(''paymentId'', False), (''price'', True), (''currency'', False), (''conversationId'', False)]) (\<lambda>params.
       bindE (verifyResponseSignature Z params (field result ''signature'')) (\<lambda>_.
       bindE (refund_matches Z req providerPaymentId result) (\<lambda>_.
       Inr (case field result ''refundHostReference'' of Some (JString r) \<Rightarrow> Some r | _ \<Rightarrow> None))))))"

section \<open>Rows\<close>

definition find_iyzico_operation :: "string \<Rightarrow> iyzico_db \<Rightarrow> iyzico_operation option" where
  "find_iyzico_operation i s = by_key iy_id (iz_operations s) i"

definition find_iyzico_refund :: "string \<Rightarrow> iyzico_db \<Rightarrow> iyzico_refund option" where
  "find_iyzico_refund i s = by_key ir_id (iz_refunds s) i"

text \<open>\<open>update(where, columns)\<close>: the rows that match are changed; \<open>affected\<close> tells whether any did.\<close>

definition update_operations ::
  "(iyzico_operation \<Rightarrow> bool) \<Rightarrow> (iyzico_operation \<Rightarrow> iyzico_operation) \<Rightarrow> iyzico_db \<Rightarrow> iyzico_db"
where
  "update_operations P f s =
     s\<lparr>iz_operations := map (\<lambda>x. if P x then f x else x) (iz_operations s)\<rparr>"

definition update_refunds ::
  "(iyzico_refund \<Rightarrow> bool) \<Rightarrow> (iyzico_refund \<Rightarrow> iyzico_refund) \<Rightarrow> iyzico_db \<Rightarrow> iyzico_db"
where
  "update_refunds P f s = s\<lparr>iz_refunds := map (\<lambda>x. if P x then f x else x) (iz_refunds s)\<rparr>"

end
