(* ===== verification/Iyzico_Refunds.thy ===== *)
theory Iyzico_Refunds
  imports Iyzico_Entities Channel_Operations
begin

text \<open>
  \<open>refund-rounding.util.ts\<close> and \<open>iyzico-refund.service.ts\<close>: a refund is planned against a completed
  capture, reserved in the adapter's table, and submitted to the provider line by line, by the one
  caller that claims it.
\<close>

section \<open>Rounding\<close>

definition refundRoundingMode :: "string option \<Rightarrow> rounding_mode res" where
  "refundRoundingMode v =
     (case v of
        None \<Rightarrow> Inr THROW
      | Some t \<Rightarrow> of_option (JsError ''Invalid IYZICO_REFUND_ROUNDING_MODE'')
          (map_of [(''ROUND'', ROUND), (''FLOOR'', FLOOR), (''USE_FIRST_TWO'', USE_FIRST_TWO), (''THROW'', THROW)] t))"

definition rounding_mode_text :: "rounding_mode \<Rightarrow> string" where
  "rounding_mode_text m =
     (case m of ROUND \<Rightarrow> ''ROUND'' | FLOOR \<Rightarrow> ''FLOOR'' | USE_FIRST_TWO \<Rightarrow> ''USE_FIRST_TWO'' | THROW \<Rightarrow> ''THROW'')"

definition refundProviderAmount :: "iyzico_env \<Rightarrow> string \<Rightarrow> rounding_mode \<Rightarrow> string res" where
  "refundProviderAmount Z amount mode =
     (let B = ie_big Z in
      bindE (throwIf (\<not> decimal_text amount) (BadRequest ''Refund amount must be positive and finite'')) (\<lambda>_.
      bindE (bigOf B amount) (\<lambda>nominal.
      bindE (throwIf (nominal \<le> 0) (BadRequest ''Refund amount must be positive and finite'')) (\<lambda>_.
      bindE (throwIf (nominal \<noteq> big_round B 4 1 nominal)
        (BadRequest ''Refund amount exceeds four-decimal precision'')) (\<lambda>_.
      bindE (throwIf (mode = THROW \<and> nominal \<noteq> big_round B 2 1 nominal)
        (BadRequest ''iyzico refund requires two-decimal amounts under THROW'')) (\<lambda>_.
      let rounded = big_round B 2 (if mode = ROUND then 1 else if mode = FLOOR then 3 else 0) nominal in
      bindE (throwIf (rounded \<le> 0)
        (BadRequest ''iyzico refund becomes zero under the configured rounding policy'')) (\<lambda>_.
      Inr (ie_toFixed2 Z rounded))))))))"

section \<open>Preparation\<close>

text \<open>The pattern \<open>^\d+\.\d{n}$\<close>.\<close>

definition fixed_decimal :: "nat \<Rightarrow> string \<Rightarrow> bool" where
  "fixed_decimal n s \<longleftrightarrow> plain_decimal n s \<and> length (tl (after_int s)) = n"

text \<open>\<open>some\<close> with a test that may throw.\<close>

fun someE :: "('a \<Rightarrow> bool res) \<Rightarrow> 'a list \<Rightarrow> bool res" where
  "someE f [] = Inr False"
| "someE f (x # xs) = bindE (f x) (\<lambda>b. if b then Inr True else someE f xs)"

definition covers_line :: "iyzico_env \<Rightarrow> string \<Rightarrow> string \<Rightarrow> item_transaction \<Rightarrow> bool res" where
  "covers_line Z i nominal tx =
     (if tx_paymentItemId tx \<noteq> i then Inr False
      else bindE (bigOf (ie_big Z) nominal) (\<lambda>x. bindE (bigOf (ie_big Z) (tx_price tx)) (\<lambda>y. Inr (x \<le> y))))"

definition prepare_iyzico_line ::
  "iyzico_env \<Rightarrow> item_transaction list \<Rightarrow> string \<times> string \<Rightarrow> refund_line res"
where
  "prepare_iyzico_line Z txs item =
     (let bad = BadRequest ''Refund original line or historical amount is invalid'' in
      bindE (throwIf (\<not> fixed_decimal 4 (snd item)) bad) (\<lambda>_.
      bindE (someE (covers_line Z (fst item) (snd item)) txs) (\<lambda>covered.
      bindE (throwIf (\<not> covered) bad) (\<lambda>_.
      bindE (refundProviderAmount Z (snd item) (ie_roundingMode Z)) (\<lambda>providerAmount.
      Inr \<lparr>rl_originalPaymentItemId = fst item, rl_nominalAmount = snd item,
           rl_providerAmount = providerAmount\<rparr>)))))"

definition matching_capture ::
  "iyzico_env \<Rightarrow> prepare_refund \<Rightarrow> iyzico_operation option \<Rightarrow> item_transaction list res"
where
  "matching_capture Z req found =
     (let bad = BadRequest ''A matching completed iyzico capture is required'' in
      bindE (of_option bad found) (\<lambda>operation.
      bindE (throwIf (iy_paymentId operation \<noteq> pr_purchasePaymentId req \<or>
        iy_currency operation \<noteq> pr_currency req \<or> iy_status operation \<noteq> OS_COMPLETED) bad) (\<lambda>_.
      bindE (bigOf (ie_big Z) (iy_amount operation)) (\<lambda>amount.
      bindE (throwIf (amount \<noteq> pr_purchaseAmount req \<or> nullish (iy_itemTransactions operation) [] = []) bad) (\<lambda>_.
      Inr (nullish (iy_itemTransactions operation) []))))))"

definition prepare_iyzico :: "iyzico_env \<Rightarrow> prepare_refund \<Rightarrow> iyzico_db \<Rightarrow> refund_plan list res" where
  "prepare_iyzico Z req s =
     (case pr_captures req of
        [source] \<Rightarrow>
          bindE (throwIf (rc_paymentChannelId source \<noteq> ''iyzico'' \<or> rc_amount source \<noteq> pr_purchaseAmount req \<or>
            pr_items req = []) (BadRequest ''iyzico refunds require one full-amount completed capture'')) (\<lambda>_.
          let original = nullish (rc_originalChannelOperationId source) [] in
          bindE (matching_capture Z req (find_iyzico_operation original s)) (\<lambda>txs.
          bindE (mapE (prepare_iyzico_line Z txs) (pr_items req)) (\<lambda>unsorted.
          let lines = sort_key rl_originalPaymentItemId unsorted in
          bindE (throwIf (\<not> distinct (map rl_originalPaymentItemId lines))
            (BadRequest ''Refund original line IDs must be unique'')) (\<lambda>_.
          Inr [\<lparr>rp_originalOperationId = rc_originalOperationId source,
                rp_originalChannelOperationId = original,
                rp_channelData = Some [(''roundingMode'', rounding_mode_text (ie_roundingMode Z))],
                rp_roundingAccountId = None, rp_lines = lines\<rparr>]))))
      | _ \<Rightarrow> Inl (BadRequest ''iyzico refunds require one full-amount completed capture''))"

section \<open>Validation of a refund payment\<close>

definition planRoundingMode :: "refund_plan \<Rightarrow> rounding_mode res" where
  "planRoundingMode plan =
     bindE (of_option (BadRequest ''iyzico refund rounding policy is missing'')
       (map_of (nullish (rp_channelData plan) []) ''roundingMode'')) (\<lambda>v. refundRoundingMode (Some v))"

definition bad_refund_line :: "bigjs \<Rightarrow> refund_line \<Rightarrow> bool" where
  "bad_refund_line B line \<longleftrightarrow>
     rl_originalPaymentItemId line = [] \<or> \<not> fixed_decimal 4 (rl_nominalAmount line) \<or>
     \<not> fixed_decimal 2 (rl_providerAmount line) \<or> big_or_zero B (rl_nominalAmount line) \<le> 0 \<or>
     big_or_zero B (rl_providerAmount line) \<le> 0"

definition line_of_item :: "bigjs \<Rightarrow> refund_line list \<Rightarrow> item_row \<Rightarrow> refund_line res" where
  "line_of_item B lines item =
     (let bad = BadRequest ''Refund payment item origins or amounts do not match the saved plan'' in
      case i_originalPaymentItemId item of
        Some (c # cs) \<Rightarrow>
          bindE (of_option bad (by_key rl_originalPaymentItemId lines (c # cs))) (\<lambda>line.
          bindE (throwIf (big_or_zero B (rl_nominalAmount line) \<noteq> i_totalAmount item) bad) (\<lambda>_. Inr line))
      | _ \<Rightarrow> Inl bad)"

text \<open>The saved lines in the order of the payment's items, when these know their origins.\<close>

definition ordered_lines :: "bigjs \<Rightarrow> refund_line list \<Rightarrow> item_row list \<Rightarrow> refund_line list res" where
  "ordered_lines B lines items =
     (if list_ex (\<lambda>item. i_originalPaymentItemId item \<noteq> None) items
      then
        bindE (throwIf (length items \<noteq> length lines \<or> \<not> distinct (map i_originalPaymentItemId items))
          (BadRequest ''Refund payment item origins or amounts do not match the saved plan'')) (\<lambda>_.
        mapE (line_of_item B lines) items)
      else Inr lines)"

definition validate_refund :: "iyzico_env \<Rightarrow> channel_init \<Rightarrow> (refund_plan \<times> refund_line list) res" where
  "validate_refund Z msg =
     (let B = ie_big Z; payment = ci_payment msg in
      bindE (of_option (BadRequest ''Invalid iyzico refund plan or capture'') (ci_refundPlan msg)) (\<lambda>plan.
      bindE (throwIf (p_type payment \<noteq> REFUND \<or> p_openPayment payment \<or> falsy (ci_refundOperationId msg) \<or>
          falsy (ci_originalChannelOperationId msg) \<or> p_id payment = [] \<or>
          Some (rp_originalChannelOperationId plan) \<noteq> ci_originalChannelOperationId msg \<or>
          ci_channelId msg \<noteq> ''iyzico'' \<or> ci_currency msg \<noteq> p_currency payment \<or>
          ci_paidAmount msg \<noteq> p_totalAmount payment \<or> rp_lines plan = [])
        (BadRequest ''Invalid iyzico refund plan or capture'')) (\<lambda>_.
      bindE (planRoundingMode plan) (\<lambda>_.
      bindE (throwIf (list_ex (bad_refund_line B) (rp_lines plan))
        (BadRequest ''Invalid iyzico refund line amounts or identities'')) (\<lambda>_.
      bindE (ordered_lines B (rp_lines plan) (ci_items msg)) (\<lambda>unsorted.
      let lines = sort_key rl_originalPaymentItemId unsorted in
      bindE (throwIf (\<not> distinct (map rl_originalPaymentItemId lines) \<or>
          foldl (\<lambda>t l. big_plus B t (big_or_zero B (rl_nominalAmount l))) 0 lines \<noteq> ci_paidAmount msg)
        (BadRequest ''Invalid iyzico refund line amounts or identities'')) (\<lambda>_.
      Inr (plan, lines))))))))"

section \<open>Reservation\<close>

definition capture_for :: "channel_init \<Rightarrow> iyzico_db \<Rightarrow> iyzico_operation res" where
  "capture_for msg s =
     (let bad = BadRequest ''A completed iyzico capture with verified transactions is required'' in
      bindE (of_option bad (find_iyzico_operation (nullish (ci_originalChannelOperationId msg) []) s)) (\<lambda>source.
      bindE (throwIf (iy_status source \<noteq> OS_COMPLETED \<or> falsy (iy_providerPaymentId source) \<or>
        nullish (iy_itemTransactions source) [] = [] \<or> iy_currency source \<noteq> p_currency (ci_payment msg)) bad) (\<lambda>_.
      Inr source)))"

definition same_reservation ::
  "channel_init \<Rightarrow> iyzico_operation \<Rightarrow> rounding_mode \<Rightarrow> refund_line list \<Rightarrow> iyzico_refund \<Rightarrow> bool"
where
  "same_reservation msg source mode lines existing \<longleftrightarrow>
     ir_paymentId existing = p_id (ci_payment msg) \<and> ir_originalOperationId existing = iy_id source \<and>
     ir_currency existing = p_currency (ci_payment msg) \<and> ir_roundingMode existing = mode \<and>
     map refund_line.truncate (ir_lines existing) = lines"

text \<open>What earlier refunds of the capture reserved_total for the item, submitted or not.\<close>

definition prior_lines :: "iyzico_refund list \<Rightarrow> string \<Rightarrow> iyzico_refund_line list" where
  "prior_lines previous i =
     filter (\<lambda>l. rl_originalPaymentItemId l = i) (concat (map ir_lines previous))"

definition reserve_line ::
  "iyzico_env \<Rightarrow> string \<Rightarrow> item_transaction list \<Rightarrow> iyzico_refund list \<Rightarrow> nat \<times> refund_line \<Rightarrow>
   iyzico_refund_line res"
where
  "reserve_line Z refundId txs previous = (\<lambda>(index, line).
     (let B = ie_big Z; prior = prior_lines previous (rl_originalPaymentItemId line) in
      bindE (of_option (BadRequest ''Original payment item is missing from iyzico capture'')
        (by_key tx_paymentItemId txs (rl_originalPaymentItemId line))) (\<lambda>tx.
      bindE (foldE (\<lambda>t l. bindE (bigOf B (rl_providerAmount l)) (\<lambda>x. Inr (big_plus B t x))) 0 prior) (\<lambda>reservedProvider.
      bindE (foldE (\<lambda>t l. bindE (bigOf B (rl_nominalAmount l)) (\<lambda>x. Inr (big_plus B t x))) 0 prior) (\<lambda>reservedNominal.
      bindE (bigOf B (rl_providerAmount line)) (\<lambda>provider.
      bindE (bigOf B (tx_paidPrice tx)) (\<lambda>paidPrice.
      bindE (bigOf B (rl_nominalAmount line)) (\<lambda>nominal.
      bindE (bigOf B (tx_price tx)) (\<lambda>price.
      bindE (throwIf (big_plus B reservedProvider provider > paidPrice \<or>
          big_plus B reservedNominal nominal > price)
        (BadRequest ''iyzico refund exceeds remaining original transaction balance'')) (\<lambda>_.
      Inr (refund_line.extend line
        (iyzico_refund_line.fields (tx_paymentTransactionId tx) (refundId @ '':'' @ nat_text index)
          L_RESERVED None None))))))))))))"

definition insert_refund :: "iyzico_refund \<Rightarrow> (iyzico_db, unit) act" where
  "insert_refund refund =
     bindS (readS (\<lambda>s. list_ex (\<lambda>r. ir_id r = ir_id refund \<or> ir_paymentId r = ir_paymentId refund)
       (iz_refunds s))) (\<lambda>taken.
     bindS (guardS taken (JsError ''QueryFailedError'')) (\<lambda>_.
     modifyS (\<lambda>s. s\<lparr>iz_refunds := iz_refunds s @ [refund]\<rparr>)))"

definition reserve_iyzico_refund ::
  "iyzico_env \<Rightarrow> channel_init \<Rightarrow> refund_plan \<Rightarrow> refund_line list \<Rightarrow> (iyzico_db, iyzico_refund \<times> string) act"
where
  "reserve_iyzico_refund Z msg plan lines =
     bindS (readS (capture_for msg)) (\<lambda>found.
     bindS (liftS found) (\<lambda>source.
     bindS (liftS (planRoundingMode plan)) (\<lambda>mode.
     let refundId = nullish (ci_refundOperationId msg) [];
         providerPaymentId = nullish (iy_providerPaymentId source) [] in
     bindS (readS (find_iyzico_refund refundId)) (\<lambda>existing.
     case existing of
       Some refund \<Rightarrow>
         bindS (guardS (\<not> same_reservation msg source mode lines refund)
           (Conflict ''iyzico refund ID was reserved with different details'')) (\<lambda>_.
         returnS (refund, providerPaymentId))
     | None \<Rightarrow>
         bindS (readS (\<lambda>s. filter (\<lambda>r. ir_originalOperationId r = iy_id source) (iz_refunds s))) (\<lambda>previous.
         bindS (liftS (mapE (reserve_line Z refundId (nullish (iy_itemTransactions source) []) previous)
           (enumerate 0 lines))) (\<lambda>reservedLines.
         let refund = \<lparr>ir_id = refundId, ir_paymentId = p_id (ci_payment msg), ir_originalOperationId = iy_id source,
               ir_currency = iy_currency source, ir_roundingMode = mode, ir_state = RS_RESERVED,
               ir_lines = reservedLines\<rparr> in
         bindS (insert_refund refund) (\<lambda>_.
         returnS (refund, providerPaymentId))))))))"

section \<open>Submission\<close>

text \<open>The statement that claims a reservation; the value says whether a row was affected.\<close>

definition claim_submission :: "string \<Rightarrow> (iyzico_db, bool) act" where
  "claim_submission i =
     bindS (readS (\<lambda>s. list_ex (\<lambda>r. ir_id r = i \<and> ir_state r = RS_RESERVED) (iz_refunds s))) (\<lambda>affected.
     bindS (modifyS (update_refunds (\<lambda>r. ir_id r = i \<and> ir_state r = RS_RESERVED)
       (\<lambda>r. r\<lparr>ir_state := RS_SUBMITTING\<rparr>))) (\<lambda>_.
     returnS affected))"

definition set_line ::
  "nat \<Rightarrow> (iyzico_refund_line \<Rightarrow> iyzico_refund_line) \<Rightarrow> iyzico_refund \<Rightarrow> iyzico_refund"
where
  "set_line i f refund = refund\<lparr>ir_lines := (ir_lines refund)[i := f (ir_lines refund ! i)]\<rparr>"

definition save_lines :: "iyzico_refund \<Rightarrow> iyzico_db \<Rightarrow> iyzico_db" where
  "save_lines refund =
     update_refunds (\<lambda>r. ir_id r = ir_id refund) (\<lambda>r. r\<lparr>ir_lines := ir_lines refund\<rparr>)"

definition refund_call_of :: "iyzico_refund \<Rightarrow> iyzico_refund_line \<Rightarrow> refund_call" where
  "refund_call_of refund line =
     \<lparr>rq_conversationId = il_conversationId line, rq_paymentTransactionId = il_paymentTransactionId line,
      rq_price = rl_providerAmount line, rq_currency = ir_currency refund\<rparr>"

definition failed_line :: "exn \<Rightarrow> iyzico_refund_line \<Rightarrow> iyzico_refund_line" where
  "failed_line err line =
     (case err of
        IyzicoRefundRejected code \<Rightarrow> line\<lparr>il_state := L_REJECTED, il_errorCode := Some code\<rparr>
      | _ \<Rightarrow> line\<lparr>il_state := L_RECONCILIATION_REQUIRED\<rparr>)"

definition mark_sending :: "nat \<Rightarrow> iyzico_refund \<Rightarrow> iyzico_refund" where
  "mark_sending i = set_line i (\<lambda>l. l\<lparr>il_state := L_SUBMITTING\<rparr>)"

definition mark_sent :: "nat \<Rightarrow> string option \<Rightarrow> iyzico_refund \<Rightarrow> iyzico_refund" where
  "mark_sent i reference = set_line i (\<lambda>l. l\<lparr>il_state := L_SUCCEEDED,
     il_refundHostReference := (case reference of None \<Rightarrow> il_refundHostReference l | Some x \<Rightarrow> Some x)\<rparr>)"

definition mark_failed :: "nat \<Rightarrow> exn \<Rightarrow> iyzico_refund \<Rightarrow> iyzico_refund" where
  "mark_failed i err = set_line i (failed_line err)"

definition stop_submission :: "iyzico_refund \<Rightarrow> iyzico_db \<Rightarrow> iyzico_db" where
  "stop_submission refund = update_refunds (\<lambda>r. ir_id r = ir_id refund)
     (\<lambda>r. r\<lparr>ir_state := RS_RECONCILIATION_REQUIRED, ir_lines := ir_lines refund\<rparr>)"

text \<open>One round of the loop over the refund in memory; \<open>False\<close> says the submission has stopped.\<close>

definition submit_line ::
  "iyzico_env \<Rightarrow> string \<Rightarrow> iyzico_refund \<Rightarrow> nat \<Rightarrow> (iyzico_db, iyzico_refund \<times> bool) act"
where
  "submit_line Z providerPaymentId refund i =
     (let sending = mark_sending i refund in
      bindS (modifyS (save_lines sending)) (\<lambda>_.
      catchS
        (bindS (client_refund Z (refund_call_of sending (ir_lines sending ! i)) providerPaymentId) (\<lambda>reference.
         let sent = mark_sent i reference sending in
         bindS (modifyS (save_lines sent)) (\<lambda>_. returnS (sent, True))))
        (\<lambda>err.
         let stopped = mark_failed i err sending in
         bindS (modifyS (stop_submission stopped)) (\<lambda>_. returnS (stopped, False)))))"

primrec submit_lines ::
  "iyzico_env \<Rightarrow> string \<Rightarrow> iyzico_refund \<Rightarrow> nat list \<Rightarrow> (iyzico_db, bool) act"
where
  "submit_lines Z providerPaymentId refund [] = returnS True"
| "submit_lines Z providerPaymentId refund (i # is) =
     bindS (submit_line Z providerPaymentId refund i) (\<lambda>(refund', continue).
     if continue then submit_lines Z providerPaymentId refund' is else returnS False)"

definition finish_submission :: "string \<Rightarrow> iyzico_db \<Rightarrow> iyzico_db" where
  "finish_submission i = update_refunds (\<lambda>r. ir_id r = i) (\<lambda>r. r\<lparr>ir_state := RS_FINISHED\<rparr>)"

section \<open>Status\<close>

definition succeeded_lines :: "iyzico_refund \<Rightarrow> iyzico_refund_line list" where
  "succeeded_lines refund = filter (\<lambda>l. il_state l = L_SUCCEEDED) (ir_lines refund)"

definition iyzico_refund_status :: "iyzico_refund \<Rightarrow> operation_status" where
  "iyzico_refund_status refund =
     (if length (succeeded_lines refund) = length (ir_lines refund) then OS_COMPLETED
      else if succeeded_lines refund = [] \<and> list_ex (\<lambda>l. il_state l = L_REJECTED) (ir_lines refund) then OS_FAILED
      else OS_WAITING)"

definition check_refund :: "string \<Rightarrow> iyzico_db \<Rightarrow> channel_status res" where
  "check_refund i s =
     bindE (of_option (NotFound ''iyzico refund not found'') (find_iyzico_refund i s)) (\<lambda>refund.
     Inr \<lparr>cs_paymentChannelId = Some ''iyzico'', cs_paymentChannelOperationId = Some (ir_id refund),
          cs_paymentStatus = iyzico_refund_status refund, cs_redirectUrl = Some [], cs_providerFee = None,
          cs_feeCutInstantly = None,
          cs_refundSettlements = Some (map (\<lambda>l.
            \<lparr>rs_originalPaymentItemId = rl_originalPaymentItemId l, rs_providerAmount = rl_providerAmount l\<rparr>)
            (succeeded_lines refund))\<rparr>)"

definition initialize_refund :: "iyzico_env \<Rightarrow> channel_init \<Rightarrow> (iyzico_db, channel_status) act" where
  "initialize_refund Z msg =
     bindS (liftS (validate_refund Z msg)) (\<lambda>(plan, lines).
     bindS (transactionS (reserve_iyzico_refund Z msg plan lines)) (\<lambda>(refund, providerPaymentId).
     bindS (claim_submission (ir_id refund)) (\<lambda>claimed.
     bindS (if \<not> claimed then returnS ()
       else bindS (submit_lines Z providerPaymentId refund [0..<length (ir_lines refund)]) (\<lambda>all_sent.
         if all_sent then modifyS (finish_submission (ir_id refund)) else returnS ())) (\<lambda>_.
     bindS (readS (check_refund (ir_id refund))) (\<lambda>status. liftS status)))))"

end
