(* ===== verification/Iyzico_Checkout.thy ===== *)
theory Iyzico_Checkout
  imports Iyzico_Refunds
begin

text \<open>
  \<open>iyzico-checkout.mapper.ts\<close> with \<open>person-name.ts\<close>: what is sent to the provider when a checkout is
  opened; and \<open>integration-iyzico.service.ts\<close>: the life of an operation from its initialisation through
  the browser's callback to its capture or cancellation. A service's method that makes several
  statements is one action here; \<open>Iyzico_Operations\<close> cuts them into steps that interleave.
\<close>

section \<open>Names of persons\<close>

fun words_from :: "string \<Rightarrow> string \<Rightarrow> string list" where
  "words_from w [] = (if w = [] then [] else [w])"
| "words_from w (c # s) =
     (if is_space c then (if w = [] then words_from [] s else w # words_from [] s)
      else words_from (w @ [c]) s)"

text \<open>\<open>s.trim().split(/\s+/).filter(Boolean)\<close>.\<close>

definition words :: "string \<Rightarrow> string list" where
  "words s = words_from [] s"

definition isUppercaseWord :: "iyzico_env \<Rightarrow> string \<Rightarrow> bool" where
  "isUppercaseWord Z w \<longleftrightarrow> w = ie_upper_tr Z w \<and> w \<noteq> ie_lower_tr Z w"

definition splitPersonName :: "iyzico_env \<Rightarrow> string \<Rightarrow> (string \<times> string) option" where
  "splitPersonName Z fullName =
     (let ws = words fullName; n = length ws in
      if n < 2 then None
      else let k = (if n \<ge> 3 \<and> list_all (isUppercaseWord Z) (drop (n - 2) ws) then 2 else 1) in
        Some (join_strings '' '' (take (n - k) ws), join_strings '' '' (drop (n - k) ws)))"

section \<open>The checkout request\<close>

record snapshot_buyer =
  sb_type :: account_type
  sb_name :: string
  sb_legalIdentity :: "string option"
  sb_emailAddress :: "string option"
  sb_phone :: "string option"

record snapshot_street =
  ss_streetName :: "string option"
  ss_buildingNumber :: "string option"
  ss_room :: "string option"
  ss_district :: "string option"
  ss_citySubdivisionName :: "string option"
  ss_cityName :: "string option"
  ss_countryReadName :: "string option"
  ss_postalZone :: "string option"

text \<open>The message of a purchase also carries the buyer's snapshots and address.\<close>

record checkout_message = channel_init +
  cm_account :: "snapshot_buyer option"
  cm_address :: "snapshot_street option"
  cm_buyerIp :: "string option"

definition required :: "string option \<Rightarrow> string res" where
  "required v =
     (if trim (nullish v []) = [] then Inl (BadRequest ''iyzico requires a field'')
      else Inr (trim (nullish v [])))"

definition checkoutMoney :: "iyzico_env \<Rightarrow> rat \<Rightarrow> string res" where
  "checkoutMoney Z x =
     (let B = ie_big Z in
      bindE (throwIf (\<not> decimal_text (ie_number_text Z x)) (BadRequest ''Invalid iyzico amount'')) (\<lambda>_.
      bindE (bigOf B (ie_number_text Z x)) (\<lambda>amount.
      bindE (throwIf (amount \<le> 0 \<or> amount \<noteq> big_round B 2 1 amount)
        (BadRequest ''iyzico amount must be positive with at most two decimal places'')) (\<lambda>_.
      Inr (ie_toFixed2 Z amount)))))"

definition checkout_item_of ::
  "iyzico_env \<Rightarrow> (string \<Rightarrow> string option) option \<Rightarrow> item_row \<Rightarrow> checkout_item res"
where
  "checkout_item_of Z keys item =
     bindE (checkoutMoney Z (i_totalAmount item)) (\<lambda>price.
     let routed = (keys \<noteq> None \<and> truthy (i_sellerAccountId item));
         key = (if routed then nullish keys Map.empty (nullish (i_sellerAccountId item) []) else None) in
     bindE (throwIf (routed \<and> falsy key)
       (BadRequest ''iyzico requires a sub-merchant key for every seller item'')) (\<lambda>_.
     bindE (required (Some (i_id item))) (\<lambda>i.
     bindE (required (Some (i_name item))) (\<lambda>name.
     Inr \<lparr>ct_id = i, ct_name = name, ct_physical = i_isPhysical item, ct_price = price,
          ct_subMerchantKey = (if falsy key then None else key)\<rparr>))))"

definition iyzico_currencies :: "string list" where
  "iyzico_currencies = [''TRY'', ''EUR'', ''USD'', ''GBP'', ''NOK'', ''CHF'']"

definition checkout_amount :: "iyzico_env \<Rightarrow> checkout_message \<Rightarrow> string res" where
  "checkout_amount Z msg =
     (let payment = ci_payment msg in
      bindE (throwIf (p_type payment \<noteq> PURCHASE) (BadRequest ''iyzico refunds are not implemented yet'')) (\<lambda>_.
      bindE (throwIf (p_openPayment payment \<or> ci_channelId msg \<noteq> ''iyzico'')
        (BadRequest ''Expected a closed-payment iyzico purchase'')) (\<lambda>_.
      bindE (checkoutMoney Z (p_totalAmount payment)) (\<lambda>amount.
      bindE (checkoutMoney Z (ci_paidAmount msg)) (\<lambda>paid.
      bindE (throwIf (paid \<noteq> amount \<or> ci_currency msg \<noteq> p_currency payment)
        (BadRequest ''full-amount capture in the payment currency required'')) (\<lambda>_.
      bindE (throwIf (p_currency payment \<notin> set iyzico_currencies)
        (BadRequest ''Unsupported iyzico currency'')) (\<lambda>_.
      Inr amount)))))))"

text \<open>The address lines, joined without the missing ones, and the billing address.\<close>

definition billing_address :: "string \<Rightarrow> snapshot_street option \<Rightarrow> checkout_address res" where
  "billing_address name address =
     (let get = (\<lambda>f. Option.bind address f) in
      bindE (required (get ss_streetName)) (\<lambda>street.
      bindE (required (get ss_cityName)) (\<lambda>city.
      bindE (required (get ss_countryReadName)) (\<lambda>country.
      Inr \<lparr>ca_contactName = name, ca_city = city, ca_country = country,
           ca_address = join_strings '' '' (map the (filter truthy
             [Some street, get ss_buildingNumber, get ss_room, get ss_district, get ss_citySubdivisionName])),
           ca_zipCode = get ss_postalZone\<rparr>))))"

definition checkout_basket ::
  "iyzico_env \<Rightarrow> (string \<Rightarrow> string option) option \<Rightarrow> string \<Rightarrow> item_row list \<Rightarrow> checkout_item list res"
where
  "checkout_basket Z keys amount items =
     (let B = ie_big Z; bad = BadRequest ''basket IDs must be unique and totals must equal the capture amount'' in
      bindE (throwIf (items = []) (BadRequest ''iyzico requires at least one payment item'')) (\<lambda>_.
      bindE (mapE (checkout_item_of Z keys) items) (\<lambda>basket.
      bindE (throwIf (\<not> distinct (map ct_id basket)) bad) (\<lambda>_.
      bindE (foldE (\<lambda>t b. bindE (bigOf B (ct_price b)) (\<lambda>x. Inr (big_plus B t x))) 0 basket) (\<lambda>sum.
      bindE (bigOf B amount) (\<lambda>whole.
      bindE (throwIf (sum \<noteq> whole) bad) (\<lambda>_.
      Inr basket)))))))"

definition mapCheckout ::
  "iyzico_env \<Rightarrow> checkout_message \<Rightarrow> string \<Rightarrow> string \<Rightarrow> (string \<Rightarrow> string option) option \<Rightarrow>
   checkout_request res"
where
  "mapCheckout Z msg operationId callbackUrl keys =
     bindE (checkout_amount Z msg) (\<lambda>amount.
     bindE (of_option (BadRequest ''iyzico sandbox requires an INDIVIDUAL customer snapshot'') (cm_account msg)) (\<lambda>account.
     bindE (throwIf (sb_type account \<noteq> INDIVIDUAL)
       (BadRequest ''iyzico sandbox requires an INDIVIDUAL customer snapshot'')) (\<lambda>_.
     bindE (required (Some (sb_name account))) (\<lambda>fullName.
     bindE (of_option (BadRequest ''iyzico requires a customer name and surname'') (splitPersonName Z fullName)) (\<lambda>(given, family).
     bindE (throwIf (\<not> ie_isIP Z (nullish (cm_buyerIp msg) [])) (BadRequest ''iyzico requires captureInfo.buyerIp'')) (\<lambda>_.
     bindE (billing_address (sb_name account) (cm_address msg)) (\<lambda>billing.
     bindE (checkout_basket Z keys amount (ci_items msg)) (\<lambda>basket.
     bindE (required (Some (p_id (ci_payment msg)))) (\<lambda>basketId.
     bindE (required (p_customerAccountId (ci_payment msg))) (\<lambda>buyerId.
     bindE (required (sb_emailAddress account)) (\<lambda>email.
     bindE (required (sb_legalIdentity account)) (\<lambda>identity.
     Inr \<lparr>cq_conversationId = operationId, cq_basketId = basketId, cq_price = amount, cq_paidPrice = amount,
          cq_currency = p_currency (ci_payment msg), cq_callbackUrl = callbackUrl,
          cq_buyer = \<lparr>cb_id = buyerId, cb_name = given, cb_surname = family, cb_email = email,
            cb_gsmNumber = sb_phone account, cb_identityNumber = identity,
            cb_registrationAddress = ca_address billing, cb_ip = nullish (cm_buyerIp msg) []\<rparr>,
          cq_billingAddress = billing,
          cq_shippingAddress = (if list_ex i_isPhysical (ci_items msg) then Some billing else None),
          cq_basketItems = basket\<rparr>))))))))))))"

end
