(* ===== verification/Iyzico_Operations.thy ===== *)
theory Iyzico_Operations
  imports Iyzico_Checkout
begin

text \<open>
  \<open>integration-iyzico.service.ts\<close>: the life of an operation from its initialisation through the
  browser's callback to its capture or cancellation. The handlers are composed of the statements
  between which other callers may run; the step relation of \<open>Iyzico_Machine\<close> interleaves these.
\<close>

section \<open>Initialisation\<close>

definition operation_exn :: exn where
  "operation_exn = JsError ''Invalid URL''"

definition callback_url :: "iyzico_env \<Rightarrow> string \<Rightarrow> string res" where
  "callback_url Z i =
     bindE (of_option operation_exn
       (url_parse_base (ie_urls Z) (''callback/'' @ i) (u_href (ie_publicBaseUrl Z)))) (\<lambda>u. Inr (u_href u))"

definition ensureSubMerchants :: "iyzico_env \<Rightarrow> item_row list \<Rightarrow> (string \<Rightarrow> string option) option res" where
  "ensureSubMerchants Z items =
     (if \<not> ie_subMerchants Z then Inr None
      else bindE (mapE (\<lambda>a. bindE (ie_subMerchantKey Z a) (\<lambda>k. Inr (a, k)))
          (unique (map (\<lambda>i. nullish (i_sellerAccountId i) [])
            (filter (\<lambda>i. truthy (i_sellerAccountId i)) items)))) (\<lambda>keys.
        Inr (Some (map_of keys))))"

definition reservation_of :: "checkout_request \<Rightarrow> string \<Rightarrow> string \<Rightarrow> iyzico_operation" where
  "reservation_of req i paymentId =
     \<lparr>iy_id = i, iy_paymentId = paymentId, iy_currency = cq_currency req, iy_amount = cq_paidPrice req,
      iy_status = OS_WAITING, iy_initializationState = INITIALIZING, iy_token = None, iy_paymentPageUrl = None,
      iy_providerPaymentId = None, iy_providerFee = None,
      iy_basketLines = map (\<lambda>b. \<lparr>bl_paymentItemId = ct_id b, bl_price = ct_price b\<rparr>) (cq_basketItems req),
      iy_itemTransactions = None, iy_returnUrl = None, iy_callbackReceived = False,
      iy_cancellationState = None\<rparr>"

text \<open>The insertion: the value says whether the row was inserted, or another had its keys.\<close>

definition insert_operation :: "iyzico_operation \<Rightarrow> (iyzico_db, bool) act" where
  "insert_operation row s =
     (if list_ex (\<lambda>x. iy_id x = iy_id row \<or> iy_paymentId x = iy_paymentId row) (iz_operations s)
      then (s, Inr False) else (s\<lparr>iz_operations := iz_operations s @ [row]\<rparr>, Inr True))"

definition prepare_operation ::
  "iyzico_env \<Rightarrow> checkout_message \<Rightarrow> (iyzico_db, checkout_request \<times> iyzico_operation) act"
where
  "prepare_operation Z msg =
     bindS (drawIyzicoId Z) (\<lambda>i.
     liftS (
       bindE (ensureSubMerchants Z (ci_items msg)) (\<lambda>keys.
       bindE (callback_url Z i) (\<lambda>callbackUrl.
       bindE (mapCheckout Z msg i callbackUrl keys) (\<lambda>req.
       Inr (req, reservation_of req i (p_id (ci_payment msg))))))))"

definition toStatus :: "iyzico_env \<Rightarrow> iyzico_operation \<Rightarrow> channel_status res" where
  "toStatus Z operation =
     bindE (of_option operation_exn
       (url_parse_base (ie_urls Z) (''operation/'' @ iy_id operation) (u_href (ie_publicBaseUrl Z)))) (\<lambda>u.
     Inr \<lparr>cs_paymentChannelId = Some ''iyzico'', cs_paymentChannelOperationId = Some (iy_id operation),
          cs_paymentStatus = iy_status operation, cs_redirectUrl = Some (u_pathname u),
          cs_providerFee = map_option (\<lambda>fee. big_num (ie_big Z) (big_or_zero (ie_big Z) fee)) (iy_providerFee operation),
          cs_feeCutInstantly = Some True, cs_refundSettlements = None\<rparr>)"

definition find_operation_or_throw :: "string \<Rightarrow> (iyzico_db, iyzico_operation) act" where
  "find_operation_or_throw i =
     bindS (readS (find_iyzico_operation i)) (\<lambda>found.
     liftS (of_option (NotFound ''iyzico operation not found'') found))"

definition existing_operation :: "iyzico_env \<Rightarrow> iyzico_operation \<Rightarrow> (iyzico_db, channel_status) act" where
  "existing_operation Z reservation =
     bindS (readS (\<lambda>s. by_key iy_paymentId (iz_operations s) (iy_paymentId reservation))) (\<lambda>found.
     bindS (liftS (of_option (JsError ''EntityNotFoundError'') found)) (\<lambda>existing.
     bindS (guardS (iy_amount existing \<noteq> iy_amount reservation \<or> iy_currency existing \<noteq> iy_currency reservation \<or>
         iy_basketLines existing \<noteq> iy_basketLines reservation)
       (Conflict ''iyzico payment was already reserved with different capture details'')) (\<lambda>_.
     bindS (guardS (iy_initializationState existing \<noteq> INITIALIZED)
       (Conflict ''iyzico initialization needs reconciliation; it will not be sent twice'')) (\<lambda>_.
     liftS (toStatus Z existing)))))"

definition set_initialized :: "string \<Rightarrow> string \<times> string \<Rightarrow> iyzico_db \<Rightarrow> iyzico_db" where
  "set_initialized i = (\<lambda>(token, page). update_operations (\<lambda>x. iy_id x = i)
     (\<lambda>x. x\<lparr>iy_token := Some token, iy_paymentPageUrl := Some page, iy_initializationState := INITIALIZED\<rparr>))"

definition set_reconciliation :: "string \<Rightarrow> iyzico_db \<Rightarrow> iyzico_db" where
  "set_reconciliation i = update_operations (\<lambda>x. iy_id x = i)
     (\<lambda>x. x\<lparr>iy_initializationState := INIT_RECONCILIATION_REQUIRED\<rparr>)"

definition initialize_checkout :: "iyzico_env \<Rightarrow> checkout_message \<Rightarrow> (iyzico_db, channel_status) act" where
  "initialize_checkout Z msg =
     bindS (prepare_operation Z msg) (\<lambda>(req, reservation).
     bindS (insert_operation reservation) (\<lambda>inserted.
     if \<not> inserted then existing_operation Z reservation
     else
       catchS
         (bindS (client_initialize Z req) (\<lambda>reply.
          bindS (modifyS (set_initialized (iy_id reservation) reply)) (\<lambda>_.
          bindS (find_operation_or_throw (iy_id reservation)) (\<lambda>operation.
          liftS (toStatus Z operation)))))
         (\<lambda>err. bindS (modifyS (set_reconciliation (iy_id reservation))) (\<lambda>_. throwS err))))"

definition iyzico_initialize :: "iyzico_env \<Rightarrow> checkout_message \<Rightarrow> (iyzico_db, channel_status) act" where
  "iyzico_initialize Z msg =
     (if p_type (ci_payment msg) = REFUND then initialize_refund Z (channel_init.truncate msg)
      else initialize_checkout Z msg)"

section \<open>The browser\<close>

fun operation_status_text :: "operation_status \<Rightarrow> string" where
  "operation_status_text OS_WAITING = ''WAITING''"
| "operation_status_text OS_READY = ''READY''"
| "operation_status_text OS_COMPLETED = ''COMPLETED''"
| "operation_status_text OS_FAILED = ''FAILED''"
| "operation_status_text (OS_OTHER s) = s"

definition returnUrl :: "iyzico_env \<Rightarrow> iyzico_operation \<Rightarrow> string option res" where
  "returnUrl Z operation =
     (if falsy (iy_returnUrl operation) then Inr None
      else bindE (of_option operation_exn (url_parse (ie_urls Z) (nullish (iy_returnUrl operation) []))) (\<lambda>target.
        let set_param = url_set_param (ie_urls Z) in
        Inr (Some (u_href (set_param (set_param target ''operationId'' (iy_id operation))
          ''status'' (operation_status_text (iy_status operation)))))))"

definition launch_target :: "iyzico_env \<Rightarrow> string option \<Rightarrow> string res" where
  "launch_target Z redirectUrl =
     bindE (throwIf (falsy redirectUrl) (BadRequest ''A same-origin redirectUrl is required'')) (\<lambda>_.
     bindE (of_option (BadRequest ''Invalid redirectUrl'')
       (url_parse_base (ie_urls Z) (nullish redirectUrl []) (u_origin (ie_publicBaseUrl Z)))) (\<lambda>target.
     bindE (throwIf (u_origin target \<noteq> u_origin (ie_publicBaseUrl Z) \<or> u_username target \<noteq> [] \<or>
         u_password target \<noteq> [])
       (BadRequest ''redirectUrl must use the configured application origin'')) (\<lambda>_.
     Inr (u_href target))))"

definition bind_return_url :: "string \<Rightarrow> string \<Rightarrow> iyzico_db \<Rightarrow> iyzico_db" where
  "bind_return_url i normalized =
     update_operations (\<lambda>x. iy_id x = i \<and> iy_returnUrl x = None) (\<lambda>x. x\<lparr>iy_returnUrl := Some normalized\<rparr>)"

definition launch :: "iyzico_env \<Rightarrow> string \<Rightarrow> string option \<Rightarrow> (iyzico_db, string) act" where
  "launch Z i redirectUrl =
     bindS (find_operation_or_throw i) (\<lambda>operation.
     bindS (liftS (launch_target Z redirectUrl)) (\<lambda>normalized.
     bindS (guardS (iy_initializationState operation \<noteq> INITIALIZED \<or> falsy (iy_paymentPageUrl operation))
       (Conflict ''iyzico checkout is not initialized; reconciliation is required'')) (\<lambda>_.
     bindS (modifyS (bind_return_url i normalized)) (\<lambda>_.
     bindS (find_operation_or_throw i) (\<lambda>saved.
     bindS (guardS (iy_returnUrl saved \<noteq> Some normalized)
       (Conflict ''iyzico operation is already bound to another return URL'')) (\<lambda>_.
     if iy_status saved \<noteq> OS_WAITING
     then bindS (liftS (returnUrl Z saved)) (\<lambda>u. returnS (nullish u []))
     else returnS (nullish (iy_paymentPageUrl operation) [])))))))"

section \<open>Reading a payment's result\<close>

text \<open>The amounts, the currency and the basket of a result are those of the operation.\<close>

definition decimal_is :: "iyzico_env \<Rightarrow> json option \<Rightarrow> string \<Rightarrow> bool res" where
  "decimal_is Z v text =
     bindE (responseDecimal Z v) (\<lambda>t. bindE (bigOf (ie_big Z) t) (\<lambda>x.
     bindE (bigOf (ie_big Z) text) (\<lambda>y. Inr (x = y))))"

definition details_match :: "iyzico_env \<Rightarrow> iyzico_operation \<Rightarrow> json_object \<Rightarrow> unit res" where
  "details_match Z operation result =
     (let bad = BadGateway ''iyzico payment amount, currency or basket mismatch'' in
      bindE (throwIf (field result ''basketId'' \<noteq> Some (JString (iy_paymentId operation)) \<or>
         field result ''currency'' \<noteq> Some (JString (iy_currency operation))) bad) (\<lambda>_.
      bindE (decimal_is Z (field result ''price'') (iy_amount operation)) (\<lambda>price.
      bindE (throwIf (\<not> price) bad) (\<lambda>_.
      bindE (decimal_is Z (field result ''paidPrice'') (iy_amount operation)) (\<lambda>paid.
      throwIf (\<not> paid) bad)))))"

definition capture_status :: "json_object \<Rightarrow> operation_status res" where
  "capture_status result =
     (let bad = BadGateway ''Unexpected iyzico payment or fraud status'' in
      bindE (responseString (field result ''paymentStatus'')) (\<lambda>paymentStatus.
      bindE (throwIf (paymentStatus \<notin> set [''SUCCESS'', ''FAILURE'']) bad) (\<lambda>_.
      case field result ''fraudStatus'' of
        Some (JNumber f) \<Rightarrow>
          bindE (throwIf (f \<notin> set [- 1, 0, 1]) bad) (\<lambda>_.
          Inr (if paymentStatus = ''FAILURE'' \<or> f = - 1 then OS_FAILED
               else if f = 1 then OS_COMPLETED else OS_WAITING))
      | _ \<Rightarrow> Inl bad)))"

definition transaction_of :: "iyzico_env \<Rightarrow> json \<Rightarrow> item_transaction res" where
  "transaction_of Z v =
     bindE (responseObject v) (\<lambda>item.
     bindE (throwIf (field item ''transactionStatus'' \<notin> set [Some (JNumber 1), Some (JNumber 2)])
       (BadGateway ''iyzico item transaction is not approved'')) (\<lambda>_.
     bindE (responseString (field item ''itemId'')) (\<lambda>i.
     bindE (responseString (field item ''paymentTransactionId'')) (\<lambda>t.
     bindE (responseDecimal Z (field item ''price'')) (\<lambda>price.
     bindE (responseDecimal Z (field item ''paidPrice'')) (\<lambda>paid.
     Inr \<lparr>tx_paymentItemId = i, tx_paymentTransactionId = t, tx_price = price, tx_paidPrice = paid\<rparr>))))))"

text \<open>The line of the basket is not among the transactions.\<close>

definition line_uncovered :: "iyzico_env \<Rightarrow> item_transaction list \<Rightarrow> basket_line \<Rightarrow> bool res" where
  "line_uncovered Z txs line =
     bindE (someE (\<lambda>tx. if tx_paymentItemId tx \<noteq> bl_paymentItemId line then Inr False
         else bindE (bigOf (ie_big Z) (tx_price tx)) (\<lambda>x. bindE (bigOf (ie_big Z) (bl_price line)) (\<lambda>y. Inr (x = y)))) txs)
       (\<lambda>covered. Inr (\<not> covered))"

definition basket_transactions :: "iyzico_env \<Rightarrow> iyzico_operation \<Rightarrow> json_object \<Rightarrow> item_transaction list res" where
  "basket_transactions Z operation result =
     (let B = ie_big Z; bad = BadGateway ''iyzico basket transaction mapping mismatch'' in
      bindE (throwIf (field result ''installment'' \<noteq> Some (JNumber 1))
        (BadGateway ''Unexpected iyzico installment count'')) (\<lambda>_.
      case field result ''itemTransactions'' of
        Some (JArray values) \<Rightarrow>
          bindE (mapE (transaction_of Z) values) (\<lambda>txs.
          bindE (throwIf (length txs \<noteq> length (iy_basketLines operation) \<or>
             \<not> distinct (map tx_paymentItemId txs) \<or> \<not> distinct (map tx_paymentTransactionId txs)) bad) (\<lambda>_.
          bindE (someE (line_uncovered Z txs) (iy_basketLines operation)) (\<lambda>uncovered.
          bindE (throwIf uncovered bad) (\<lambda>_.
          bindE (foldE (\<lambda>t tx. bindE (bigOf B (tx_paidPrice tx)) (\<lambda>x. Inr (big_plus B t x))) 0 txs) (\<lambda>sum.
          bindE (bigOf B (iy_amount operation)) (\<lambda>amount.
          bindE (throwIf (sum \<noteq> amount) bad) (\<lambda>_.
          Inr txs)))))))
      | _ \<Rightarrow> Inl (BadGateway ''Missing iyzico item transactions'')))"

definition provider_fee :: "iyzico_env \<Rightarrow> json_object \<Rightarrow> string res" where
  "provider_fee Z result =
     (let B = ie_big Z in
      bindE (responseDecimal Z (field result ''iyziCommissionRateAmount'')) (\<lambda>rate.
      bindE (bigOf B rate) (\<lambda>x.
      bindE (responseDecimal Z (field result ''iyziCommissionFee'')) (\<lambda>fee.
      bindE (bigOf B fee) (\<lambda>y.
      Inr (big_toFixed4 B (big_round B 4 1 (big_plus B x y))))))))"

record capture_columns =
  cc_status :: operation_status
  cc_providerPaymentId :: string
  cc_providerFee :: "string option"
  cc_itemTransactions :: "item_transaction list option"

definition read_capture :: "iyzico_env \<Rightarrow> iyzico_operation \<Rightarrow> json_object \<Rightarrow> capture_columns res" where
  "read_capture Z operation result =
     bindE (details_match Z operation result) (\<lambda>_.
     bindE (capture_status result) (\<lambda>status.
     bindE (if status = OS_COMPLETED
            then bindE (basket_transactions Z operation result) (\<lambda>txs.
                 bindE (provider_fee Z result) (\<lambda>fee. Inr (Some txs, Some fee)))
            else Inr (iy_itemTransactions operation, iy_providerFee operation)) (\<lambda>(txs, fee).
     bindE (responseString (field result ''paymentId'')) (\<lambda>providerPaymentId.
     Inr \<lparr>cc_status = status, cc_providerPaymentId = providerPaymentId, cc_providerFee = fee,
          cc_itemTransactions = txs\<rparr>))))"

definition record_capture :: "string \<Rightarrow> capture_columns \<Rightarrow> iyzico_db \<Rightarrow> iyzico_db" where
  "record_capture i c =
     update_operations (\<lambda>x. iy_id x = i \<and> iy_status x = OS_WAITING)
       (\<lambda>x. x\<lparr>iy_status := cc_status c, iy_providerPaymentId := Some (cc_providerPaymentId c),
          iy_providerFee := cc_providerFee c, iy_itemTransactions := cc_itemTransactions c\<rparr>)"

section \<open>Checking, the callback and cancellation\<close>

definition must_retrieve :: "iyzico_operation \<Rightarrow> bool" where
  "must_retrieve operation \<longleftrightarrow>
     iy_status operation = OS_WAITING \<and> iy_callbackReceived operation \<and> truthy (iy_token operation)"

definition retrieve_payment :: "iyzico_env \<Rightarrow> iyzico_operation \<Rightarrow> (iyzico_db, json_object) act" where
  "retrieve_payment Z operation = client_retrieve Z (nullish (iy_token operation) []) (iy_id operation)"

definition iyzico_check :: "iyzico_env \<Rightarrow> string \<Rightarrow> (iyzico_db, channel_status) act" where
  "iyzico_check Z i =
     bindS (readS (find_iyzico_operation i)) (\<lambda>found.
     case found of
       None \<Rightarrow> bindS (readS (check_refund i)) liftS
     | Some operation \<Rightarrow>
         if must_retrieve operation
         then
           bindS (retrieve_payment Z operation) (\<lambda>result.
           bindS (liftS (read_capture Z operation result)) (\<lambda>columns.
           bindS (modifyS (record_capture i columns)) (\<lambda>_.
           bindS (find_operation_or_throw i) (\<lambda>current.
           liftS (toStatus Z current)))))
         else liftS (toStatus Z operation))"

definition iyzico_fire :: "iyzico_env \<Rightarrow> string \<Rightarrow> (iyzico_db, channel_status) act" where
  "iyzico_fire Z i =
     bindS (iyzico_check Z i) (\<lambda>status.
     bindS (guardS (cs_paymentStatus status \<noteq> OS_COMPLETED)
       (Conflict ''iyzico checkout is not captured; preauthorization is not supported'')) (\<lambda>_.
     returnS status))"

definition reported_paid :: "json_object \<Rightarrow> bool" where
  "reported_paid result \<longleftrightarrow> field result ''paymentStatus'' = Some (JString ''SUCCESS'')"

definition flag_paid :: "string \<Rightarrow> iyzico_db \<Rightarrow> iyzico_db" where
  "flag_paid i = update_operations (\<lambda>x. iy_id x = i \<and> iy_cancellationState x = Some CS_CANCELLED)
     (\<lambda>x. x\<lparr>iy_cancellationState := Some CS_PAID_AFTER_CANCEL\<rparr>)"

definition flagPaymentAfterCancellation :: "iyzico_env \<Rightarrow> iyzico_operation \<Rightarrow> (iyzico_db, unit) act" where
  "flagPaymentAfterCancellation Z operation =
     bindS (retrieve_payment Z operation) (\<lambda>result.
     if reported_paid result then modifyS (flag_paid (iy_id operation)) else returnS ())"

definition set_callback :: "string \<Rightarrow> iyzico_db \<Rightarrow> iyzico_db" where
  "set_callback i = update_operations (\<lambda>x. iy_id x = i) (\<lambda>x. x\<lparr>iy_callbackReceived := True\<rparr>)"

definition iyzico_callback :: "iyzico_env \<Rightarrow> string \<Rightarrow> string option \<Rightarrow> (iyzico_db, iyzico_operation) act" where
  "iyzico_callback Z i token =
     bindS (find_operation_or_throw i) (\<lambda>operation.
     bindS (guardS (token = None \<or> falsy (iy_token operation) \<or> token \<noteq> iy_token operation)
       (BadRequest ''Invalid iyzico callback token'')) (\<lambda>_.
     bindS (modifyS (set_callback i)) (\<lambda>_.
     bindS (if iy_cancellationState operation = Some CS_CANCELLED
            then flagPaymentAfterCancellation Z operation
            else bindS (iyzico_check Z i) (\<lambda>_. returnS ())) (\<lambda>_.
     find_operation_or_throw i))))"

definition providerReportsPaid :: "iyzico_env \<Rightarrow> iyzico_operation \<Rightarrow> (iyzico_db, bool) act" where
  "providerReportsPaid Z operation =
     catchS (bindS (retrieve_payment Z operation) (\<lambda>result. returnS (reported_paid result)))
       (\<lambda>_. returnS False)"

definition set_cancelled :: "string \<Rightarrow> iyzico_db \<Rightarrow> iyzico_db" where
  "set_cancelled i = update_operations (\<lambda>x. iy_id x = i \<and> iy_status x = OS_WAITING)
     (\<lambda>x. x\<lparr>iy_status := OS_FAILED, iy_cancellationState := Some CS_CANCELLED\<rparr>)"

definition iyzico_cancel :: "iyzico_env \<Rightarrow> string \<Rightarrow> (iyzico_db, channel_status) act" where
  "iyzico_cancel Z i =
     bindS (find_operation_or_throw i) (\<lambda>operation.
     if iy_status operation = OS_FAILED then liftS (toStatus Z operation)
     else
       bindS (guardS (iy_status operation \<noteq> OS_WAITING)
         (Conflict ''iyzico payment is already captured; use a refund instead of cancellation'')) (\<lambda>_.
       bindS (if truthy (iy_token operation) then providerReportsPaid Z operation else returnS False) (\<lambda>paid.
       bindS (guardS paid (Conflict ''iyzico reports this checkout as paid; it cannot be cancelled'')) (\<lambda>_.
       bindS (modifyS (set_cancelled i)) (\<lambda>_.
       bindS (find_operation_or_throw i) (\<lambda>cancelled.
       bindS (guardS (iy_cancellationState cancelled \<noteq> Some CS_CANCELLED)
         (Conflict ''iyzico operation changed during cancellation; check its status'')) (\<lambda>_.
       liftS (toStatus Z cancelled))))))))"

end
