(* ===== verification/Iyzico_Machine.thy ===== *)
theory Iyzico_Machine
  imports Iyzico_Operations
begin

text \<open>
  The adapter with any number of requests under way: each request in progress is a task, cut where the
  code awaits a statement or the provider, tasks run in any order, and a process may die between any
  two of its statements.
\<close>

section \<open>Requests and tasks\<close>

datatype iyzico_request =
    RequestInitialize checkout_message
  | RequestCheck string
  | RequestCallback string "string option"
  | RequestCancel string
  | RequestLaunch string "string option"

datatype iyzico_task =
    Opening checkout_request string
  | Opened string "string \<times> string"
  | OpenFailed string
  | Reading string
  | Checking iyzico_operation
  | Recording iyzico_operation capture_columns
  | CallingBack iyzico_operation
  | Flagging iyzico_operation
  | Flagged string
  | ReadingToCancel string
  | AskingPaid iyzico_operation
  | Cancelling string
  | Binding string string
  | Claiming iyzico_refund string
  | Sending iyzico_refund string "nat list"
  | Asking iyzico_refund string nat "nat list"
  | Sent iyzico_refund string "nat list"
  | Stopping iyzico_refund

text \<open>A request up to its first write or its first question to the provider.\<close>

definition begin_refund :: "iyzico_env \<Rightarrow> channel_init \<Rightarrow> (iyzico_db, iyzico_refund \<times> string) act" where
  "begin_refund Z msg =
     bindS (liftS (validate_refund Z msg)) (\<lambda>(plan, lines).
     transactionS (reserve_iyzico_refund Z msg plan lines))"

definition begin_checkout :: "iyzico_env \<Rightarrow> checkout_message \<Rightarrow> (iyzico_db, iyzico_task list) act" where
  "begin_checkout Z msg =
     bindS (prepare_operation Z msg) (\<lambda>(req, reservation).
     bindS (insert_operation reservation) (\<lambda>inserted.
     returnS (if inserted then [Opening req (iy_id reservation)] else [])))"

definition begin_callback :: "string \<Rightarrow> string option \<Rightarrow> (iyzico_db, iyzico_task list) act" where
  "begin_callback i token =
     bindS (find_operation_or_throw i) (\<lambda>operation.
     bindS (guardS (token = None \<or> falsy (iy_token operation) \<or> token \<noteq> iy_token operation)
       (BadRequest ''Invalid iyzico callback token'')) (\<lambda>_.
     returnS [CallingBack operation]))"

definition begin_launch :: "iyzico_env \<Rightarrow> string \<Rightarrow> string option \<Rightarrow> (iyzico_db, iyzico_task list) act" where
  "begin_launch Z i redirectUrl =
     bindS (find_operation_or_throw i) (\<lambda>operation.
     bindS (liftS (launch_target Z redirectUrl)) (\<lambda>normalized.
     bindS (guardS (iy_initializationState operation \<noteq> INITIALIZED \<or> falsy (iy_paymentPageUrl operation))
       (Conflict ''iyzico checkout is not initialized; reconciliation is required'')) (\<lambda>_.
     returnS [Binding i normalized])))"

definition iyzico_begin :: "iyzico_env \<Rightarrow> iyzico_request \<Rightarrow> (iyzico_db, iyzico_task list) act" where
  "iyzico_begin Z req =
     (case req of
        RequestInitialize msg \<Rightarrow>
          if p_type (ci_payment msg) = REFUND
          then bindS (begin_refund Z (channel_init.truncate msg)) (\<lambda>(refund, p). returnS [Claiming refund p])
          else begin_checkout Z msg
      | RequestCheck i \<Rightarrow> returnS [Reading i]
      | RequestCallback i token \<Rightarrow> begin_callback i token
      | RequestCancel i \<Rightarrow> returnS [ReadingToCancel i]
      | RequestLaunch i u \<Rightarrow> begin_launch Z i u)"

section \<open>The next statement of a task\<close>

definition on_result :: "('s \<times> 'a res) \<Rightarrow> (exn \<Rightarrow> 'b) \<Rightarrow> ('a \<Rightarrow> 'b) \<Rightarrow> 's \<times> 'b" where
  "on_result run failed ok = (case run of (s, Inl e) \<Rightarrow> (s, failed e) | (s, Inr x) \<Rightarrow> (s, ok x))"

fun task_step :: "iyzico_env \<Rightarrow> iyzico_task \<Rightarrow> iyzico_db \<Rightarrow> iyzico_db \<times> iyzico_task list" where
  "task_step Z (Opening req i) s =
     on_result (client_initialize Z req s) (\<lambda>_. [OpenFailed i]) (\<lambda>reply. [Opened i reply])"
| "task_step Z (Opened i reply) s =
     (let s' = set_initialized i reply s in
      (s', case find_iyzico_operation i s' of None \<Rightarrow> [OpenFailed i]
         | Some operation \<Rightarrow> (case toStatus Z operation of Inl _ \<Rightarrow> [OpenFailed i] | Inr _ \<Rightarrow> [])))"
| "task_step Z (OpenFailed i) s = (set_reconciliation i s, [])"
| "task_step Z (Reading i) s =
     (s, case find_iyzico_operation i s of None \<Rightarrow> []
         | Some operation \<Rightarrow> if must_retrieve operation then [Checking operation] else [])"
| "task_step Z (Checking operation) s =
     on_result (bindS (retrieve_payment Z operation) (\<lambda>result. liftS (read_capture Z operation result)) s)
       (\<lambda>_. []) (\<lambda>columns. [Recording operation columns])"
| "task_step Z (Recording operation columns) s = (record_capture (iy_id operation) columns s, [])"
| "task_step Z (CallingBack operation) s =
     (set_callback (iy_id operation) s,
      [if iy_cancellationState operation = Some CS_CANCELLED then Flagging operation
       else Reading (iy_id operation)])"
| "task_step Z (Flagging operation) s =
     on_result (retrieve_payment Z operation s) (\<lambda>_. [])
       (\<lambda>result. if reported_paid result then [Flagged (iy_id operation)] else [])"
| "task_step Z (Flagged i) s = (flag_paid i s, [])"
| "task_step Z (ReadingToCancel i) s =
     (s, case find_iyzico_operation i s of None \<Rightarrow> []
         | Some operation \<Rightarrow>
             if iy_status operation \<noteq> OS_WAITING then []
             else if truthy (iy_token operation) then [AskingPaid operation] else [Cancelling i])"
| "task_step Z (AskingPaid operation) s =
     on_result (providerReportsPaid Z operation s) (\<lambda>_. [])
       (\<lambda>paid. if paid then [] else [Cancelling (iy_id operation)])"
| "task_step Z (Cancelling i) s = (set_cancelled i s, [])"
| "task_step Z (Binding i u) s = (bind_return_url i u s, [])"
| "task_step Z (Claiming refund p) s =
     on_result (claim_submission (ir_id refund) s) (\<lambda>_. [])
       (\<lambda>claimed. if claimed then [Sending refund p [0..<length (ir_lines refund)]] else [])"
| "task_step Z (Sending refund p []) s = (finish_submission (ir_id refund) s, [])"
| "task_step Z (Sending refund p (i # is)) s =
     (let sending = mark_sending i refund in (save_lines sending s, [Asking sending p i is]))"
| "task_step Z (Asking refund p i is) s =
     on_result (client_refund Z (refund_call_of refund (ir_lines refund ! i)) p s)
       (\<lambda>err. [Stopping (mark_failed i err refund)])
       (\<lambda>reference. [Sent (mark_sent i reference refund) p is])"
| "task_step Z (Sent refund p is) s = (save_lines refund s, [Sending refund p is])"
| "task_step Z (Stopping refund) s = (stop_submission refund s, [])"

section \<open>Worlds\<close>

record iyzico_world =
  iw_db :: iyzico_db
  iw_tasks :: "iyzico_task list"

definition iyzico_start :: iyzico_world where
  "iyzico_start =
     \<lparr>iw_db = \<lparr>iz_operations = [], iz_refunds = [], iz_calls = [], iz_seq = 0\<rparr>, iw_tasks = []\<rparr>"

inductive iyzico_step :: "iyzico_env \<Rightarrow> iyzico_world \<Rightarrow> iyzico_world \<Rightarrow> bool" for Z where
  begins: "iyzico_begin Z req (iw_db w) = (s, Inr ts) \<Longrightarrow>
     iyzico_step Z w \<lparr>iw_db = s, iw_tasks = iw_tasks w @ ts\<rparr>"
| refuses: "iyzico_begin Z req (iw_db w) = (s, Inl e) \<Longrightarrow> iyzico_step Z w (w\<lparr>iw_db := s\<rparr>)"
| runs: "iw_tasks w = xs @ t # ys \<Longrightarrow> task_step Z t (iw_db w) = (s, ts) \<Longrightarrow>
     iyzico_step Z w \<lparr>iw_db = s, iw_tasks = xs @ ts @ ys\<rparr>"
| dies: "iw_tasks w = xs @ t # ys \<Longrightarrow> iyzico_step Z w (w\<lparr>iw_tasks := xs @ ys\<rparr>)"

abbreviation iyzico_steps :: "iyzico_env \<Rightarrow> iyzico_world \<Rightarrow> iyzico_world \<Rightarrow> bool" where
  "iyzico_steps Z \<equiv> (iyzico_step Z)\<^sup>*\<^sup>*"

section \<open>Invariants\<close>

text \<open>What holds in the empty world and is kept by every step holds in every world that is reached.\<close>

locale iyzico_invariant =
  fixes Z :: iyzico_env and I :: "iyzico_world \<Rightarrow> bool"
  assumes start: "I iyzico_start"
    and step: "iyzico_step Z w v \<Longrightarrow> I w \<Longrightarrow> I v"
begin

lemma kept: "iyzico_steps Z w v \<Longrightarrow> I w \<Longrightarrow> I v"
  by (induction rule: rtranclp_induct) (auto intro: step)

lemma reached: "iyzico_steps Z iyzico_start w \<Longrightarrow> I w"
  by (rule kept [OF _ start])

end

end
