(* ===== verification/Iyzico_Evidence.thy ===== *)
theory Iyzico_Evidence
  imports Iyzico_Machine "HOL-Library.Multiset"
begin

text \<open>
  What the adapter may conclude from a reply: the replies it accepts are authentic answers to its own
  questions, and a payment it records as completed is a capture of the whole basket.
\<close>

section \<open>Asking the provider\<close>

definition asked :: "iyzico_call \<Rightarrow> iyzico_db \<Rightarrow> iyzico_db" where
  "asked c s = s\<lparr>iz_calls := iz_calls s @ [c]\<rparr>"

lemma asked_sel [simp]:
  "iz_operations (asked c s) = iz_operations s" "iz_refunds (asked c s) = iz_refunds s"
  "iz_calls (asked c s) = iz_calls s @ [c]" "iz_seq (asked c s) = iz_seq s"
  by (simp_all add: asked_def)

text \<open>A client operation asks once, and its value is a function of the reply's body.\<close>

lemma client_call_run:
  "bindS (client_call Z c k) (\<lambda>body. liftS (f body)) s =
     (asked c s, bindE (read_reply k (ie_sdk Z (iz_calls s) c)) f)"
  by (cases "read_reply k (ie_sdk Z (iz_calls s) c)")
    (simp_all add: client_call_def sdk_call_def bindS_def liftS_def asked_def)

lemma client_initialize_run:
  "client_initialize Z req s = (t, r) \<Longrightarrow> t = asked (CallInitialize req) s"
  by (simp add: client_initialize_def client_call_run)

lemma client_refund_run:
  "client_refund Z q p s = (t, r) \<Longrightarrow> t = asked (CallRefund q) s"
  by (simp add: client_refund_def client_call_run)

definition accept_payment :: "iyzico_env \<Rightarrow> string \<Rightarrow> string \<Rightarrow> json_object \<Rightarrow> json_object res" where
  "accept_payment Z token i result =
     bindE (retrieve_params Z result) (\<lambda>params.
     bindE (verifyResponseSignature Z params (field result ''signature'')) (\<lambda>_.
     bindE (throwIf (field result ''conversationId'' \<noteq> Some (JString i) \<or>
         field result ''token'' \<noteq> Some (JString token))
       (BadGateway ''iyzico payment correlation mismatch'')) (\<lambda>_. Inr result)))"

lemma client_retrieve_run:
  "client_retrieve Z token i s =
     (asked (CallRetrieve token i) s,
      bindE (read_reply None (ie_sdk Z (iz_calls s) (CallRetrieve token i))) (accept_payment Z token i))"
proof -
  have "bindS (liftS (retrieve_params Z result)) (\<lambda>params.
      bindS (liftS (verifyResponseSignature Z params (field result ''signature''))) (\<lambda>_.
      bindS (guardS (field result ''conversationId'' \<noteq> Some (JString i) \<or>
          field result ''token'' \<noteq> Some (JString token))
        (BadGateway ''iyzico payment correlation mismatch'')) (\<lambda>_. returnS result))) =
      (liftS (accept_payment Z token i result) :: (iyzico_db, json_object) act)" for result
  proof (cases "retrieve_params Z result")
    case (Inr params)
    then show ?thesis
      by (cases "verifyResponseSignature Z params (field result ''signature'')")
        (simp_all add: accept_payment_def run_simps fun_eq_iff)
  qed (simp add: accept_payment_def run_simps fun_eq_iff)
  then show ?thesis unfolding client_retrieve_def by (simp only: client_call_run)
qed

section \<open>Authentic replies\<close>

text \<open>
  The provider's reply to a question of the log for the payment of the operation: it is signed with the
  client's secret over the fields the adapter goes by, and it is about the operation that was asked for.
\<close>

definition authentic :: "iyzico_env \<Rightarrow> string \<Rightarrow> string \<Rightarrow> json_object \<Rightarrow> bool" where
  "authentic Z token i result \<longleftrightarrow>
     field result ''status'' = Some (JString ''success'') \<and>
     (\<exists>params sig. retrieve_params Z result = Inr params \<and> field result ''signature'' = Some (JString sig) \<and>
        map hex_lower sig = ie_hmac Z (join_strings '':'' params)) \<and>
     field result ''conversationId'' = Some (JString i) \<and> field result ''token'' = Some (JString token)"

definition retrieved :: "iyzico_env \<Rightarrow> iyzico_call list \<Rightarrow> string \<Rightarrow> json_object \<Rightarrow> bool" where
  "retrieved Z calls i result \<longleftrightarrow>
     (\<exists>n token. n < length calls \<and> calls ! n = CallRetrieve token i \<and>
        ie_sdk Z (take n calls) (CallRetrieve token i) = SdkBody (JObject result) \<and>
        authentic Z token i result)"

lemma retrieved_append: "retrieved Z calls i result \<Longrightarrow> retrieved Z (calls @ later) i result"
  unfolding retrieved_def by (metis length_append nth_append take_append trans_less_add1
      append.right_neutral diff_is_0_eq' less_imp_le take_eq_Nil)

lemma read_reply_body:
  assumes "read_reply None reply = Inr body"
  shows "reply = SdkBody (JObject body)" "field body ''status'' = Some (JString ''success'')"
  using assms
  by (auto simp: read_reply_def responseObject_def res_simps Let_def split: sdk_reply.splits json.splits if_splits)

lemma verified_signature:
  assumes "verifyResponseSignature Z params signature = Inr u"
  obtains sig where "signature = Some (JString sig)" "map hex_lower sig = ie_hmac Z (join_strings '':'' params)"
  using assms by (auto simp: verifyResponseSignature_def split: option.splits json.splits if_splits)

lemma retrieve_authentic:
  assumes "client_retrieve Z token i s = (t, Inr result)"
  shows "t = asked (CallRetrieve token i) s" "retrieved Z (iz_calls t) i result"
proof -
  from assms obtain body where body: "read_reply None (ie_sdk Z (iz_calls s) (CallRetrieve token i)) = Inr body"
    and accept: "accept_payment Z token i body = Inr result" and t: "t = asked (CallRetrieve token i) s"
    unfolding client_retrieve_run by (auto simp: res_simps)
  show "t = asked (CallRetrieve token i) s" by (rule t)
  from accept obtain params u where params: "retrieve_params Z body = Inr params"
    and sig: "verifyResponseSignature Z params (field body ''signature'') = Inr u"
    and ids: "field body ''conversationId'' = Some (JString i)" "field body ''token'' = Some (JString token)"
    and eq: "body = result"
    unfolding accept_payment_def by (auto simp: res_simps split: if_splits)
  from sig obtain sg where "field body ''signature'' = Some (JString sg)"
    "map hex_lower sg = ie_hmac Z (join_strings '':'' params)" by (rule verified_signature)
  with params ids read_reply_body(2) [OF body] have "authentic Z token i result"
    unfolding authentic_def eq by blast
  moreover have "ie_sdk Z (iz_calls s) (CallRetrieve token i) = SdkBody (JObject result)"
    using read_reply_body(1) [OF body] eq by simp
  ultimately show "retrieved Z (iz_calls t) i result"
    unfolding retrieved_def t by (intro exI [of _ "length (iz_calls s)"] exI [of _ token]) simp
qed

section \<open>A capture of the whole basket\<close>

abbreviation big_value :: "iyzico_env \<Rightarrow> string \<Rightarrow> rat" where
  "big_value Z \<equiv> big_or_zero (ie_big Z)"

text \<open>
  The specification: the provider reports the payment of this basket as successful and cleared of fraud,
  for the operation's amount and currency; every line of the basket has one transaction and there are no
  others, and what was paid in them is the amount.
\<close>

definition amount_is :: "iyzico_env \<Rightarrow> json option \<Rightarrow> string \<Rightarrow> bool" where
  "amount_is Z v text \<longleftrightarrow> (\<exists>t. responseDecimal Z v = Inr t \<and> big_value Z t = big_value Z text)"

definition genuine_capture ::
  "iyzico_env \<Rightarrow> iyzico_operation \<Rightarrow> json_object \<Rightarrow> item_transaction list \<Rightarrow> bool"
where
  "genuine_capture Z operation result txs \<longleftrightarrow>
     field result ''basketId'' = Some (JString (iy_paymentId operation)) \<and>
     field result ''currency'' = Some (JString (iy_currency operation)) \<and>
     field result ''paymentStatus'' = Some (JString ''SUCCESS'') \<and>
     field result ''fraudStatus'' = Some (JNumber 1) \<and>
     amount_is Z (field result ''price'') (iy_amount operation) \<and>
     amount_is Z (field result ''paidPrice'') (iy_amount operation) \<and>
     mset (map tx_paymentItemId txs) = mset (map bl_paymentItemId (iy_basketLines operation)) \<and>
     distinct (map tx_paymentTransactionId txs) \<and>
     (\<Sum>tx\<leftarrow>txs. big_value Z (tx_paidPrice tx)) = big_value Z (iy_amount operation)"

lemma bigOf_value: "bigOf B s = Inr x \<Longrightarrow> big_or_zero B s = x"
  by (auto simp: bigOf_def big_or_zero_def)

lemma foldE_values:
  assumes "bigjs_ok B"
    and "foldE (\<lambda>t l. bindE (bigOf B (f l)) (\<lambda>x. Inr (big_plus B t x))) start xs = Inr whole"
  shows "whole = start + (\<Sum>l\<leftarrow>xs. big_or_zero B (f l))"
proof -
  have plus: "big_plus B x y = x + y" for x y using assms(1) by (simp add: bigjs_ok_def)
  show ?thesis using assms(2)
proof (induction xs arbitrary: start)
  case (Cons l xs)
  from Cons.prems obtain x where "bigOf B (f l) = Inr x"
    "foldE (\<lambda>t l. bindE (bigOf B (f l)) (\<lambda>x. Inr (big_plus B t x))) (big_plus B start x) xs = Inr whole"
    by (auto simp: res_simps)
  with Cons.IH [of "start + x"] show ?case by (simp add: bigOf_value plus)
qed simp
qed

lemma someE_Inr:
  "someE f xs = Inr b \<Longrightarrow> b \<longleftrightarrow> (\<exists>x \<in> set xs. f x = Inr True)"
  by (induction xs) (auto simp: res_simps split: if_splits)

lemma someE_False: "someE f xs = Inr False \<Longrightarrow> x \<in> set xs \<Longrightarrow> f x = Inr False"
  by (induction xs) (auto simp: res_simps split: if_splits)

lemma decimal_is_amount: "decimal_is Z v text = Inr True \<Longrightarrow> amount_is Z v text"
  unfolding decimal_is_def amount_is_def by (auto simp: res_simps dest!: bigOf_value)

lemma details_match_amounts:
  assumes "details_match Z operation result = Inr u"
  shows "field result ''basketId'' = Some (JString (iy_paymentId operation))"
    "field result ''currency'' = Some (JString (iy_currency operation))"
    "amount_is Z (field result ''price'') (iy_amount operation)"
    "amount_is Z (field result ''paidPrice'') (iy_amount operation)"
  using assms unfolding details_match_def Let_def bindE_throwIf
  by (auto simp: bindE_Inr_iff intro: decimal_is_amount split: if_splits)

lemma capture_status_cases:
  assumes "capture_status result = Inr st"
  obtains paymentStatus f where "responseString (field result ''paymentStatus'') = Inr paymentStatus"
    "paymentStatus = ''SUCCESS'' \<or> paymentStatus = ''FAILURE''" "field result ''fraudStatus'' = Some (JNumber f)"
    "st = (if paymentStatus = ''FAILURE'' \<or> f = - 1 then OS_FAILED else if f = 1 then OS_COMPLETED else OS_WAITING)"
proof -
  let ?number = "\<lambda>ps. case field result ''fraudStatus'' of
      Some (JNumber f) \<Rightarrow>
        bindE (throwIf (f \<notin> set [- 1, 0, 1]) (BadGateway ''Unexpected iyzico payment or fraud status'')) (\<lambda>_.
        Inr (if ps = ''FAILURE'' \<or> f = - 1 then OS_FAILED else if f = 1 then OS_COMPLETED else OS_WAITING))
    | _ \<Rightarrow> Inl (BadGateway ''Unexpected iyzico payment or fraud status'')"
  from assms obtain ps where ps: "responseString (field result ''paymentStatus'') = Inr ps"
    and rest: "bindE (throwIf (ps \<notin> set [''SUCCESS'', ''FAILURE''])
      (BadGateway ''Unexpected iyzico payment or fraud status'')) (\<lambda>_. ?number ps) = Inr st"
    unfolding capture_status_def Let_def by (rule bindE_InrE)
  have mem: "ps \<in> set [''SUCCESS'', ''FAILURE'']" and num: "?number ps = Inr st"
    using rest unfolding bindE_throwIf by (auto split: if_splits simp del: list.set)
  from num obtain f where f: "field result ''fraudStatus'' = Some (JNumber f)"
    by (cases "field result ''fraudStatus''"; cases "the (field result ''fraudStatus'')") simp_all
  show thesis
  proof (rule that [OF ps _ f])
    show "ps = ''SUCCESS'' \<or> ps = ''FAILURE''" using mem by simp
    show "st = (if ps = ''FAILURE'' \<or> f = - 1 then OS_FAILED else if f = 1 then OS_COMPLETED else OS_WAITING)"
      using num unfolding f by (auto split: if_splits)
  qed
qed

lemma responseString_Inr: "responseString v = Inr text \<Longrightarrow> v = Some (JString text)"
  by (auto simp: responseString_def split: option.splits json.splits list.splits)

lemma capture_status_completed:
  assumes "capture_status result = Inr OS_COMPLETED"
  shows "field result ''paymentStatus'' = Some (JString ''SUCCESS'')"
    "field result ''fraudStatus'' = Some (JNumber 1)"
proof -
  from assms obtain ps f where ps: "responseString (field result ''paymentStatus'') = Inr ps"
      "ps = ''SUCCESS'' \<or> ps = ''FAILURE''" and f: "field result ''fraudStatus'' = Some (JNumber f)"
      "OS_COMPLETED = (if ps = ''FAILURE'' \<or> f = - 1 then OS_FAILED else if f = 1 then OS_COMPLETED else OS_WAITING)"
    by (rule capture_status_cases)
  show "field result ''paymentStatus'' = Some (JString ''SUCCESS'')"
    using responseString_Inr [OF ps(1)] ps(2) f(2) by (auto split: if_splits)
  show "field result ''fraudStatus'' = Some (JNumber 1)"
    using f by (simp split: if_splits)
qed

lemma capture_status_range:
  assumes "capture_status result = Inr st"
  shows "st = OS_WAITING \<or> st = OS_COMPLETED \<or> st = OS_FAILED"
  using assms by (rule capture_status_cases) simp

lemma uncovered_lines:
  assumes "someE (line_uncovered Z txs) lines = Inr False"
  shows "bl_paymentItemId ` set lines \<subseteq> tx_paymentItemId ` set txs"
proof
  fix i assume "i \<in> bl_paymentItemId ` set lines"
  then obtain line where line: "line \<in> set lines" "i = bl_paymentItemId line" by blast
  from someE_False [OF assms line(1)] obtain tx where "tx \<in> set txs" "tx_paymentItemId tx = i"
    unfolding line_uncovered_def
    by (auto simp: res_simps line(2) dest!: someE_Inr split: if_splits)
  then show "i \<in> tx_paymentItemId ` set txs" by blast
qed

lemma basket_transactions_sound:
  assumes "bigjs_ok (ie_big Z)" and "distinct (map bl_paymentItemId (iy_basketLines operation))"
    and "basket_transactions Z operation result = Inr txs"
  shows "mset (map tx_paymentItemId txs) = mset (map bl_paymentItemId (iy_basketLines operation))"
    "distinct (map tx_paymentTransactionId txs)"
    "(\<Sum>tx\<leftarrow>txs. big_value Z (tx_paidPrice tx)) = big_value Z (iy_amount operation)"
proof -
  let ?lines = "iy_basketLines operation"
  from assms(3) obtain whole amount where len: "length txs = length ?lines"
    and ids: "distinct (map tx_paymentItemId txs)" and tids: "distinct (map tx_paymentTransactionId txs)"
    and cov: "someE (line_uncovered Z txs) ?lines = Inr False"
    and whole: "foldE (\<lambda>t tx. bindE (bigOf (ie_big Z) (tx_paidPrice tx)) (\<lambda>x. Inr (big_plus (ie_big Z) t x))) 0 txs = Inr whole"
    and amount: "bigOf (ie_big Z) (iy_amount operation) = Inr amount" "whole = amount"
    unfolding basket_transactions_def by (auto simp: res_simps Let_def split: option.splits json.splits if_splits)
  show "distinct (map tx_paymentTransactionId txs)" by (rule tids)
  show "(\<Sum>tx\<leftarrow>txs. big_value Z (tx_paidPrice tx)) = big_value Z (iy_amount operation)"
    using foldE_values [OF assms(1) whole] bigOf_value [OF amount(1)] amount(2) by simp
  have "set (map bl_paymentItemId ?lines) = set (map tx_paymentItemId txs)"
    using uncovered_lines [OF cov] len distinct_card [OF ids] distinct_card [OF assms(2)]
    by (intro card_subset_eq) auto
  with ids assms(2) show "mset (map tx_paymentItemId txs) = mset (map bl_paymentItemId ?lines)"
    by (simp only: set_eq_iff_mset_eq_distinct)
qed

theorem read_capture_genuine:
  assumes "bigjs_ok (ie_big Z)" and "distinct (map bl_paymentItemId (iy_basketLines operation))"
    and "read_capture Z operation result = Inr c" and "cc_status c = OS_COMPLETED"
  shows "\<exists>txs. cc_itemTransactions c = Some txs \<and> genuine_capture Z operation result txs"
proof -
  from assms(3,4) obtain u txs where d: "details_match Z operation result = Inr u"
    and st: "capture_status result = Inr OS_COMPLETED"
    and txs: "basket_transactions Z operation result = Inr txs" "cc_itemTransactions c = Some txs"
    unfolding read_capture_def by (auto simp: res_simps split: if_splits)
  from details_match_amounts [OF d] capture_status_completed [OF st]
    basket_transactions_sound [OF assms(1,2) txs(1)] txs(2)
  show ?thesis by (simp add: genuine_capture_def)
qed

end
