(* ===== verification/Iyzico_Captures.thy ===== *)
theory Iyzico_Captures
  imports Iyzico_Evidence
begin

text \<open>
  The operations of the adapter under interleaving: which rows are reached, and that each statement of
  a task keeps them in order whatever the other tasks do between its statements.
\<close>

section \<open>Rows of operations\<close>

definition same_terms :: "iyzico_operation \<Rightarrow> iyzico_operation \<Rightarrow> bool" where
  "same_terms a b \<longleftrightarrow> iy_id a = iy_id b \<and> iy_paymentId a = iy_paymentId b \<and> iy_currency a = iy_currency b \<and>
     iy_amount a = iy_amount b \<and> iy_basketLines a = iy_basketLines b"

text \<open>A completed row has its evidence in the log; a cancelled row is not completed.\<close>

definition evidenced ::
  "iyzico_env \<Rightarrow> iyzico_call list \<Rightarrow> iyzico_operation \<Rightarrow> item_transaction list option \<Rightarrow> bool"
where
  "evidenced Z calls operation recorded \<longleftrightarrow>
     (\<exists>result txs. recorded = Some txs \<and> retrieved Z calls (iy_id operation) result \<and>
        genuine_capture Z operation result txs)"

definition row_ok :: "iyzico_env \<Rightarrow> iyzico_call list \<Rightarrow> iyzico_operation \<Rightarrow> bool" where
  "row_ok Z calls row \<longleftrightarrow>
     (iy_status row = OS_WAITING \<or> iy_status row = OS_COMPLETED \<or> iy_status row = OS_FAILED) \<and>
     (iy_cancellationState row \<noteq> None \<longrightarrow> iy_status row = OS_FAILED) \<and>
     distinct (map bl_paymentItemId (iy_basketLines row)) \<and>
     (iy_status row = OS_COMPLETED \<longrightarrow> evidenced Z calls row (iy_itemTransactions row))"

definition ops_ok :: "iyzico_env \<Rightarrow> iyzico_db \<Rightarrow> bool" where
  "ops_ok Z s \<longleftrightarrow> distinct (map iy_id (iz_operations s)) \<and>
     (\<forall>row \<in> set (iz_operations s). row_ok Z (iz_calls s) row)"

text \<open>What every statement leaves to the others: orders stay, a capture stays, the log only grows.\<close>

definition row_later :: "iyzico_operation \<Rightarrow> iyzico_operation \<Rightarrow> bool" where
  "row_later x y \<longleftrightarrow> same_terms x y \<and>
     (iy_status x = OS_COMPLETED \<longrightarrow> iy_status y = OS_COMPLETED \<and> iy_itemTransactions y = iy_itemTransactions x)"

definition later :: "iyzico_db \<Rightarrow> iyzico_db \<Rightarrow> bool" where
  "later s t \<longleftrightarrow> (\<forall>x \<in> set (iz_operations s). \<exists>y \<in> set (iz_operations t). row_later x y) \<and>
     (\<exists>calls. iz_calls t = iz_calls s @ calls)"

lemma same_terms_refl [simp]: "same_terms x x"
  by (simp add: same_terms_def)

lemma same_terms_trans: "same_terms x y \<Longrightarrow> same_terms y z \<Longrightarrow> same_terms x z"
  by (simp add: same_terms_def)

lemma row_later_refl [simp]: "row_later x x"
  by (simp add: row_later_def)

lemma row_later_trans: "row_later x y \<Longrightarrow> row_later y z \<Longrightarrow> row_later x z"
  by (auto simp: row_later_def same_terms_def)

lemma later_rows: "later s t \<Longrightarrow> x \<in> set (iz_operations s) \<Longrightarrow> \<exists>y \<in> set (iz_operations t). row_later x y"
  by (simp add: later_def)

lemma later_same: "iz_operations t = iz_operations s \<Longrightarrow> iz_calls t = iz_calls s @ calls \<Longrightarrow> later s t"
  unfolding later_def by (metis row_later_refl)

definition stays :: "iyzico_env \<Rightarrow> iyzico_db \<Rightarrow> iyzico_db \<Rightarrow> bool" where
  "stays Z s t \<longleftrightarrow> ops_ok Z t \<and> later s t"

lemma genuine_capture_cong:
  "same_terms x y \<Longrightarrow> genuine_capture Z x result txs = genuine_capture Z y result txs"
  by (simp add: genuine_capture_def same_terms_def)

lemma evidenced_cong: "same_terms x y \<Longrightarrow> evidenced Z calls x r = evidenced Z calls y r"
  using genuine_capture_cong [of x y] by (simp add: evidenced_def same_terms_def)

lemma evidenced_append: "evidenced Z calls x r \<Longrightarrow> evidenced Z (calls @ cs) x r"
  unfolding evidenced_def using retrieved_append by blast

lemma row_ok_append: "row_ok Z calls row \<Longrightarrow> row_ok Z (calls @ cs) row"
  unfolding row_ok_def using evidenced_append by blast

lemma ops_ok_same:
  assumes "ops_ok Z s" and "iz_operations t = iz_operations s" "iz_calls t = iz_calls s @ calls"
  shows "stays Z s t"
  using assms row_ok_append later_same [OF assms(2,3)] by (simp add: stays_def ops_ok_def)

section \<open>Updates of rows\<close>

lemma update_ops_sel [simp]:
  "iz_operations (update_operations P f s) = map (\<lambda>x. if P x then f x else x) (iz_operations s)"
  "iz_calls (update_operations P f s) = iz_calls s" "iz_refunds (update_operations P f s) = iz_refunds s"
  by (simp_all add: update_operations_def)

lemma update_ops:
  assumes ok: "ops_ok Z s"
    and f: "\<And>x. row_ok Z (iz_calls s) x \<Longrightarrow> P x \<Longrightarrow> x \<in> set (iz_operations s) \<Longrightarrow> row_later x (f x) \<and> row_ok Z (iz_calls s) (f x)"
  shows "stays Z s (update_operations P f s)"
  unfolding stays_def
proof
  let ?g = "\<lambda>x. if P x then f x else x"
  have g: "row_later x (?g x)" "row_ok Z (iz_calls s) (?g x)" if "x \<in> set (iz_operations s)" for x
    using f [of x] that ok by (auto simp: ops_ok_def)
  have "map iy_id (map ?g (iz_operations s)) = map iy_id (iz_operations s)"
    unfolding list.map_comp using g(1) by (intro map_cong) (auto simp: row_later_def same_terms_def)
  moreover have "\<forall>y \<in> set (map ?g (iz_operations s)). row_ok Z (iz_calls s) y"
    unfolding list.set_map ball_simps by (blast intro: g(2))
  ultimately show "ops_ok Z (update_operations P f s)"
    using ok unfolding ops_ok_def update_ops_sel by (simp only:)
  show "later s (update_operations P f s)"
    unfolding later_def update_ops_sel list.set_map bex_simps by (intro conjI ballI exI [of _ "[]"])
      (blast intro: g(1), simp)
qed

text \<open>A row whose order and capture columns are left alone.\<close>

lemma row_touch:
  assumes "row_ok Z calls x" and "same_terms x y" "iy_status y = iy_status x"
    "iy_itemTransactions y = iy_itemTransactions x" "iy_cancellationState y = iy_cancellationState x"
  shows "row_later x y \<and> row_ok Z calls y"
  using assms evidenced_cong [OF assms(2)] by (auto simp: row_later_def row_ok_def same_terms_def)

lemma touches:
  assumes "ops_ok Z s"
  shows "stays Z s (set_initialized i reply s)" "stays Z s (set_reconciliation i s)"
    "stays Z s (set_callback i s)" "stays Z s (bind_return_url i u s)"
proof -
  show "stays Z s (set_initialized i reply s)"
    unfolding set_initialized_def
    by (cases reply, simp, rule update_ops [OF assms], rule row_touch) (auto simp: same_terms_def)
  show "stays Z s (set_reconciliation i s)"
    unfolding set_reconciliation_def
    by (rule update_ops [OF assms], rule row_touch) (auto simp: same_terms_def)
  show "stays Z s (set_callback i s)"
    unfolding set_callback_def
    by (rule update_ops [OF assms], rule row_touch) (auto simp: same_terms_def)
  show "stays Z s (bind_return_url i u s)"
    unfolding bind_return_url_def
    by (rule update_ops [OF assms], rule row_touch) (auto simp: same_terms_def)
qed

lemma cancellation_updates:
  assumes "ops_ok Z s"
  shows "stays Z s (set_cancelled i s)" "stays Z s (flag_paid i s)"
proof -
  show "stays Z s (set_cancelled i s)"
    unfolding set_cancelled_def
    by (rule update_ops [OF assms]) (auto simp: row_later_def row_ok_def same_terms_def)
  show "stays Z s (flag_paid i s)"
    unfolding flag_paid_def
    by (rule update_ops [OF assms]) (auto simp: row_later_def row_ok_def same_terms_def)
qed

definition columns_ok :: "iyzico_env \<Rightarrow> iyzico_call list \<Rightarrow> iyzico_operation \<Rightarrow> capture_columns \<Rightarrow> bool" where
  "columns_ok Z calls operation c \<longleftrightarrow>
     (cc_status c = OS_WAITING \<or> cc_status c = OS_COMPLETED \<or> cc_status c = OS_FAILED) \<and>
     (cc_status c = OS_COMPLETED \<longrightarrow> evidenced Z calls operation (cc_itemTransactions c))"

definition ordered :: "iyzico_db \<Rightarrow> iyzico_operation \<Rightarrow> bool" where
  "ordered s operation \<longleftrightarrow> (\<exists>row \<in> set (iz_operations s). same_terms operation row)"

lemma ordered_later: "ordered s operation \<Longrightarrow> later s t \<Longrightarrow> ordered t operation"
  unfolding ordered_def using later_rows same_terms_trans row_later_def by meson

lemma columns_later: "columns_ok Z (iz_calls s) operation c \<Longrightarrow> later s t \<Longrightarrow> columns_ok Z (iz_calls t) operation c"
  unfolding columns_ok_def later_def using evidenced_append by auto

lemma same_id_same_order:
  assumes "ops_ok Z s" and "ordered s operation" and "x \<in> set (iz_operations s)" "iy_id x = iy_id operation"
  shows "same_terms operation x"
proof -
  from assms(2) obtain row where row: "row \<in> set (iz_operations s)" "same_terms operation row"
    by (auto simp: ordered_def)
  have "row = x"
    by (rule inj_onD [of iy_id "set (iz_operations s)"])
      (use assms row in \<open>auto simp: ops_ok_def distinct_map same_terms_def\<close>)
  with row(2) show ?thesis by simp
qed

lemma record_capture_ok:
  assumes ok: "ops_ok Z s" and op: "ordered s operation" and c: "columns_ok Z (iz_calls s) operation c"
  shows "stays Z s (record_capture (iy_id operation) c s)"
  unfolding record_capture_def
proof (rule update_ops [OF ok])
  fix x assume x: "row_ok Z (iz_calls s) x" "iy_id x = iy_id operation \<and> iy_status x = OS_WAITING"
    "x \<in> set (iz_operations s)"
  let ?y = "x\<lparr>iy_status := cc_status c, iy_providerPaymentId := Some (cc_providerPaymentId c),
      iy_providerFee := cc_providerFee c, iy_itemTransactions := cc_itemTransactions c\<rparr>"
  have same: "same_terms operation ?y"
    using same_id_same_order [OF ok op x(3)] x(2) by (simp add: same_terms_def)
  have "row_later x ?y" using x(2) by (simp add: row_later_def same_terms_def)
  moreover have "iy_cancellationState x = None" using x(1,2) by (auto simp: row_ok_def)
  then have "row_ok Z (iz_calls s) ?y"
    using x(1) c evidenced_cong [OF same] by (auto simp: row_ok_def columns_ok_def)
  ultimately show "row_later x ?y \<and> row_ok Z (iz_calls s) ?y" by blast
qed

section \<open>Statements that leave the operations alone\<close>

lemma update_refunds_sel [simp]:
  "iz_operations (update_refunds P f s) = iz_operations s" "iz_calls (update_refunds P f s) = iz_calls s"
  "iz_refunds (update_refunds P f s) = map (\<lambda>r. if P r then f r else r) (iz_refunds s)"
  "iz_seq (update_refunds P f s) = iz_seq s"
  by (simp_all add: update_refunds_def)

lemma refund_writes [simp]:
  "iz_operations (save_lines r s) = iz_operations s" "iz_calls (save_lines r s) = iz_calls s"
  "iz_operations (stop_submission r s) = iz_operations s" "iz_calls (stop_submission r s) = iz_calls s"
  "iz_operations (finish_submission i s) = iz_operations s" "iz_calls (finish_submission i s) = iz_calls s"
  by (simp_all add: save_lines_def stop_submission_def finish_submission_def)

lemma claim_run:
  "claim_submission i s =
     (update_refunds (\<lambda>r. ir_id r = i \<and> ir_state r = RS_RESERVED) (\<lambda>r. r\<lparr>ir_state := RS_SUBMITTING\<rparr>) s,
      Inr (list_ex (\<lambda>r. ir_id r = i \<and> ir_state r = RS_RESERVED) (iz_refunds s)))"
  by (simp add: claim_submission_def run_simps)

lemma on_result_run:
  assumes "on_result run failed ok = (t, ts)"
  obtains r where "run = (t, r)" "ts = (case r of Inl e \<Rightarrow> failed e | Inr x \<Rightarrow> ok x)"
  using assms by (cases run) (auto simp: on_result_def split: sum.splits)

lemma retrieve_payment_run:
  "retrieve_payment Z operation s = (t, r) \<Longrightarrow> t = asked (CallRetrieve (nullish (iy_token operation) []) (iy_id operation)) s"
  by (simp add: retrieve_payment_def client_retrieve_run)

lemma providerReportsPaid_run:
  "providerReportsPaid Z operation s = (t, r) \<Longrightarrow>
     t = asked (CallRetrieve (nullish (iy_token operation) []) (iy_id operation)) s"
  by (cases "retrieve_payment Z operation s"; cases "snd (retrieve_payment Z operation s)")
    (auto simp: providerReportsPaid_def catchS_def bindS_def returnS_def dest: retrieve_payment_run)

lemma asked_stays: "ops_ok Z s \<Longrightarrow> stays Z s (asked c s)"
  by (rule ops_ok_same) simp_all

section \<open>The statements of the tasks\<close>

definition task_ok :: "iyzico_env \<Rightarrow> iyzico_db \<Rightarrow> iyzico_task \<Rightarrow> bool" where
  "task_ok Z s t = (case t of
       Checking operation \<Rightarrow> ordered s operation
     | Recording operation c \<Rightarrow> ordered s operation \<and> columns_ok Z (iz_calls s) operation c
     | _ \<Rightarrow> True)"

lemma task_ok_later: "task_ok Z s t \<Longrightarrow> later s s' \<Longrightarrow> task_ok Z s' t"
  by (auto simp: task_ok_def split: iyzico_task.splits intro: ordered_later columns_later)

lemma find_ordered: "find_iyzico_operation i s = Some operation \<Longrightarrow> ordered s operation"
  unfolding ordered_def find_iyzico_operation_def
  by (rule bexI [of _ operation]) (simp_all add: by_key_in [THEN conjunct1])

lemma read_capture_status: "read_capture Z operation result = Inr c \<Longrightarrow>
    cc_status c = OS_WAITING \<or> cc_status c = OS_COMPLETED \<or> cc_status c = OS_FAILED"
  unfolding read_capture_def by (auto simp: bindE_Inr_iff split: prod.splits dest: capture_status_range)

lemma checking_step:
  assumes B: "bigjs_ok (ie_big Z)" and ok: "ops_ok Z s" and op: "ordered s operation"
    and run: "retrieve_payment Z operation s = (t, Inr result)" and c: "read_capture Z operation result = Inr c"
  shows "columns_ok Z (iz_calls t) operation c"
proof -
  from op ok have basket: "distinct (map bl_paymentItemId (iy_basketLines operation))"
    by (auto simp: ordered_def ops_ok_def row_ok_def same_terms_def)
  from run have "retrieved Z (iz_calls t) (iy_id operation) result"
    unfolding retrieve_payment_def by (rule retrieve_authentic)
  with read_capture_genuine [OF B basket c] read_capture_status [OF c] show ?thesis
    by (auto simp: columns_ok_def evidenced_def)
qed

lemma task_step_stays:
  assumes "ops_ok Z s" and "task_ok Z s t" and "task_step Z t s = (s', ts)"
  shows "stays Z s s'"
proof (cases t)
  case (Recording operation c)
  with assms show ?thesis by (auto simp: task_ok_def intro: record_capture_ok)
next
  case (Checking operation)
  with assms obtain r where "bindS (retrieve_payment Z operation) (\<lambda>result. liftS (read_capture Z operation result)) s = (s', r)"
    by (auto elim: on_result_run)
  then have "s' = asked (CallRetrieve (nullish (iy_token operation) []) (iy_id operation)) s"
    by (cases r) (auto simp: res_simps dest: retrieve_payment_run)
  with assms(1) show ?thesis by (simp add: asked_stays)
next
  case (Sending refund p todo)
  with assms show ?thesis by (cases todo) (auto simp: Let_def intro: ops_ok_same [of _ _ _ "[]"])
qed (use assms in \<open>auto simp: Let_def claim_run asked_stays touches cancellation_updates
    elim!: on_result_run dest!: client_initialize_run retrieve_payment_run providerReportsPaid_run client_refund_run
    intro: ops_ok_same [of _ _ _ "[]"]\<close>)

lemma task_step_tasks:
  assumes "bigjs_ok (ie_big Z)" and "ops_ok Z s" and "task_ok Z s t" and "task_step Z t s = (s', ts)"
    and "later s s'" and "u \<in> set ts"
  shows "task_ok Z s' u"
proof (cases t)
  case (Checking operation)
  with assms(4) obtain r where run: "bindS (retrieve_payment Z operation) (\<lambda>result. liftS (read_capture Z operation result)) s = (s', r)"
    and ts: "ts = (case r of Inl e \<Rightarrow> [] | Inr c \<Rightarrow> [Recording operation c])"
    by (auto elim: on_result_run)
  from ts assms(6) obtain c where u: "u = Recording operation c" and r: "r = Inr c"
    by (auto split: sum.splits)
  from run [unfolded r] obtain result where "retrieve_payment Z operation s = (s', Inr result)"
    "read_capture Z operation result = Inr c" by (auto simp: res_simps)
  moreover have op: "ordered s operation" using assms(3) Checking by (simp add: task_ok_def)
  ultimately have "columns_ok Z (iz_calls s') operation c"
    using checking_step [OF assms(1,2)] by blast
  with ordered_later [OF op assms(5)] u show ?thesis by (simp add: task_ok_def)
next
  case (Reading i)
  with assms(4,6) show ?thesis
    by (auto simp: task_ok_def find_ordered split: option.splits if_splits)
next
  case (Sending refund p todo)
  with assms(4,6) show ?thesis by (cases todo) (auto simp: Let_def task_ok_def)
qed (use assms(4,6) in \<open>auto simp: Let_def task_ok_def elim!: on_result_run
    split: option.splits if_splits sum.splits\<close>)

section \<open>New requests\<close>

lemma mapCheckout_basket:
  assumes "mapCheckout Z msg i callback keys = Inr req"
  shows "distinct (map ct_id (cq_basketItems req))"
proof -
  from assms obtain amount basket where "checkout_basket Z keys amount (ci_items msg) = Inr basket"
    "cq_basketItems req = basket"
    unfolding mapCheckout_def by (auto simp: res_simps simp del: bindE_throwIf split: prod.splits)
  then show ?thesis unfolding checkout_basket_def by (auto simp: res_simps Let_def split: if_splits)
qed

lemma prepare_operation_run:
  assumes "prepare_operation Z msg s = (t, r)"
  shows "t = s\<lparr>iz_seq := Suc (iz_seq s)\<rparr>"
    "r = Inr (req, row) \<Longrightarrow> row_ok Z calls row \<and> iy_status row = OS_WAITING"
proof -
  from assms show "t = s\<lparr>iz_seq := Suc (iz_seq s)\<rparr>"
    by (simp add: prepare_operation_def bindS_def drawIyzicoId_def liftS_def)
  assume "r = Inr (req, row)"
  with assms obtain i callback keys where "mapCheckout Z msg i callback keys = Inr req"
    and row: "row = reservation_of req i (p_id (ci_payment msg))"
    unfolding prepare_operation_def by (auto simp: res_simps)
  from mapCheckout_basket [OF this(1)] show "row_ok Z calls row \<and> iy_status row = OS_WAITING"
    by (simp add: row row_ok_def reservation_of_def comp_def)
qed

lemma insert_operation_stays:
  assumes ok: "ops_ok Z s" and row: "row_ok Z (iz_calls s) row" and run: "insert_operation row s = (t, r)"
  shows "stays Z s t"
proof (cases "list_ex (\<lambda>x. iy_id x = iy_id row \<or> iy_paymentId x = iy_paymentId row) (iz_operations s)")
  case True
  with run ok show ?thesis by (auto simp: insert_operation_def intro: ops_ok_same [of _ _ _ "[]"])
next
  case False
  with run have t: "t = s\<lparr>iz_operations := iz_operations s @ [row]\<rparr>" by (simp add: insert_operation_def)
  have "iy_id row \<notin> iy_id ` set (iz_operations s)" using False by (auto simp: list_ex_iff)
  with ok row have "ops_ok Z t" by (auto simp: t ops_ok_def)
  moreover have "later s t" unfolding later_def t by (auto intro: bexI [rotated])
  ultimately show ?thesis by (simp add: stays_def)
qed

definition same_orders :: "iyzico_db \<Rightarrow> iyzico_db \<Rightarrow> bool" where
  "same_orders s t \<longleftrightarrow> iz_operations t = iz_operations s \<and> iz_calls t = iz_calls s"

lemma reserve_same_orders: "preserves (same_orders s) (reserve_iyzico_refund Z msg plan lines)"
  unfolding reserve_iyzico_refund_def insert_refund_def Let_def
  by (intro preserves) (simp add: same_orders_def)

lemma begin_refund_same: "begin_refund Z msg s = (t, r) \<Longrightarrow> same_orders s t"
proof -
  have "preserves (same_orders s) (begin_refund Z msg)"
    unfolding begin_refund_def by (intro preserves reserve_same_orders)
  then show "begin_refund Z msg s = (t, r) \<Longrightarrow> same_orders s t"
    by (rule preservesD) (simp_all add: same_orders_def)
qed

lemma stays_same: "ops_ok Z s \<Longrightarrow> same_orders s t \<Longrightarrow> stays Z s t"
  by (rule ops_ok_same [of _ _ _ "[]"]) (simp_all add: same_orders_def)

lemma stays_trans:
  assumes "stays Z s t" and "stays Z t u" shows "stays Z s u"
  using assms row_later_trans unfolding stays_def later_def by (metis append.assoc)

lemma begin_checkout_stays:
  assumes ok: "ops_ok Z s" and run: "begin_checkout Z msg s = (t, r)"
  shows "stays Z s t"
proof -
  obtain u q where u: "prepare_operation Z msg s = (u, q)" by (rule prod.exhaust)
  note us = prepare_operation_run [OF u]
  have su: "stays Z s u" by (rule stays_same [OF ok]) (simp add: us(1) same_orders_def)
  show ?thesis
  proof (cases q)
    case (Inl e)
    with run u su show ?thesis by (simp add: begin_checkout_def bindS_def)
  next
    case (Inr x)
    obtain req row where x: "x = (req, row)" by (rule prod.exhaust)
    obtain v b where v: "insert_operation row u = (v, b)" by (rule prod.exhaust)
    from su have "ops_ok Z u" by (simp add: stays_def)
    moreover have "row_ok Z (iz_calls u) row" using us(2) Inr x by blast
    ultimately have "stays Z u v" using v by (rule insert_operation_stays)
    moreover have "t = v" using run u Inr x v
      by (auto simp: begin_checkout_def bindS_def returnS_def insert_operation_def split: if_splits)
    ultimately show ?thesis using stays_trans [OF su] by blast
  qed
qed

lemma iyzico_begin_stays:
  assumes "ops_ok Z s" and "iyzico_begin Z req s = (t, r)"
  shows "stays Z s t"
proof (cases req)
  case (RequestInitialize msg)
  show ?thesis
  proof (cases "p_type (ci_payment msg) = REFUND")
    case True
    obtain u q where u: "begin_refund Z (channel_init.truncate msg) s = (u, q)" by (rule prod.exhaust)
    with assms RequestInitialize True have "t = u"
      by (cases q) (auto simp: iyzico_begin_def bindS_def returnS_def split: prod.splits)
    with stays_same [OF assms(1) begin_refund_same [OF u]] show ?thesis by simp
  next
    case False
    with assms RequestInitialize show ?thesis by (simp add: iyzico_begin_def begin_checkout_stays)
  qed
next
  case (RequestCallback i token)
  with assms have "t = s"
    by (cases r) (auto simp: iyzico_begin_def begin_callback_def find_operation_or_throw_def res_simps)
  with assms(1) show ?thesis by (simp add: stays_same same_orders_def)
next
  case (RequestLaunch i u)
  with assms have "t = s"
    by (cases r) (auto simp: iyzico_begin_def begin_launch_def find_operation_or_throw_def res_simps)
  with assms(1) show ?thesis by (simp add: stays_same same_orders_def)
qed (use assms in \<open>auto simp: iyzico_begin_def intro: stays_same simp: same_orders_def\<close>)

lemma iyzico_begin_tasks:
  assumes "iyzico_begin Z req s = (t, Inr ts)" and "u \<in> set ts"
  shows "task_ok Z t u"
  using assms by (auto simp: iyzico_begin_def begin_callback_def begin_launch_def begin_checkout_def res_simps
    task_ok_def split: iyzico_request.splits if_splits prod.splits)

section \<open>Reachable worlds\<close>

definition captures_ok :: "iyzico_env \<Rightarrow> iyzico_world \<Rightarrow> bool" where
  "captures_ok Z w \<longleftrightarrow> ops_ok Z (iw_db w) \<and> (\<forall>t \<in> set (iw_tasks w). task_ok Z (iw_db w) t)"

lemma captures_start: "captures_ok Z iyzico_start"
  by (simp add: captures_ok_def iyzico_start_def ops_ok_def)

lemma captures_step:
  assumes "bigjs_ok (ie_big Z)" and "iyzico_step Z w v" and "captures_ok Z w"
  shows "captures_ok Z v \<and> later (iw_db w) (iw_db v)"
  using assms(2)
proof cases
  case (begins req s ts)
  from iyzico_begin_stays [OF _ begins(2)] iyzico_begin_tasks [OF begins(2)] assms(3) begins(1)
  show ?thesis by (auto simp: captures_ok_def stays_def intro: task_ok_later)
next
  case (refuses req s e)
  from iyzico_begin_stays [OF _ refuses(2)] assms(3) refuses(1)
  show ?thesis by (auto simp: captures_ok_def stays_def intro: task_ok_later)
next
  case (runs xs t ys s ts)
  have ok: "ops_ok Z (iw_db w)" "task_ok Z (iw_db w) t" "\<forall>u \<in> set (xs @ ys). task_ok Z (iw_db w) u"
    using assms(3) runs(2) by (auto simp: captures_ok_def)
  from task_step_stays [OF ok(1,2) runs(3)] have s: "ops_ok Z s" "later (iw_db w) s" by (simp_all add: stays_def)
  have "\<forall>u \<in> set ts. task_ok Z s u" using task_step_tasks [OF assms(1) ok(1,2) runs(3) s(2)] by blast
  with s ok(3) show ?thesis unfolding runs(1) by (auto simp: captures_ok_def intro: task_ok_later)
next
  case (dies xs t ys)
  with assms(3) show ?thesis by (auto simp: captures_ok_def intro: later_same [of _ _ "[]"])
qed

interpretation captures: iyzico_invariant Z "\<lambda>w. bigjs_ok (ie_big Z) \<longrightarrow> captures_ok Z w" for Z
  by unfold_locales (auto simp: captures_start dest: captures_step)

end
