(* ===== verification/Iyzico_Reservations.thy ===== *)
theory Iyzico_Reservations
  imports Iyzico_Captures
begin

text \<open>
  What the refunds of the adapter have reserved of the captures, apart from how far each has been
  submitted: a reservation never exceeds what was paid in its transaction.
\<close>

section \<open>Conversation identifiers\<close>

lemma colon_split:
  assumes "a @ '':'' @ nat_text m = b @ '':'' @ nat_text n"
  shows "a = b \<and> m = n"
proof -
  have colon: "c \<noteq> CHR '':''" if "c \<in> set (rev (nat_text k))" for c k
    using nat_text_digits [of c k] that by (auto simp: is_digit_def)
  have tail: "takeWhile (\<lambda>c. c \<noteq> CHR '':'') (rev (x @ '':'' @ nat_text k)) = rev (nat_text k)" for x k
    unfolding rev_append by (subst append_assoc, subst takeWhile_append2, erule colon) simp
  have "rev (nat_text m) = rev (nat_text n)" by (metis tail assms)
  then have "m = n" by (simp add: nat_text_inj)
  with assms show ?thesis by simp
qed

section \<open>Reservations without their progress\<close>

definition blank_line :: "iyzico_refund_line \<Rightarrow> iyzico_refund_line" where
  "blank_line l = l\<lparr>il_state := L_RESERVED, il_refundHostReference := None, il_errorCode := None\<rparr>"

definition plan_of :: "iyzico_refund \<Rightarrow> iyzico_refund" where
  "plan_of r = r\<lparr>ir_state := RS_RESERVED, ir_lines := map blank_line (ir_lines r)\<rparr>"

definition plans :: "iyzico_db \<Rightarrow> iyzico_refund list" where
  "plans s = map plan_of (iz_refunds s)"

lemma blank_line_sel [simp]:
  "rl_originalPaymentItemId (blank_line l) = rl_originalPaymentItemId l"
  "rl_nominalAmount (blank_line l) = rl_nominalAmount l" "rl_providerAmount (blank_line l) = rl_providerAmount l"
  "il_paymentTransactionId (blank_line l) = il_paymentTransactionId l"
  "il_conversationId (blank_line l) = il_conversationId l" "blank_line (blank_line l) = blank_line l"
  by (simp_all add: blank_line_def)

lemma plan_of_sel [simp]:
  "ir_id (plan_of r) = ir_id r" "ir_paymentId (plan_of r) = ir_paymentId r"
  "ir_originalOperationId (plan_of r) = ir_originalOperationId r" "ir_currency (plan_of r) = ir_currency r"
  "ir_lines (plan_of r) = map blank_line (ir_lines r)"
  by (simp_all add: plan_of_def)

lemma ids_plans: "map ir_id (plans s) = map ir_id (iz_refunds s)"
  by (simp add: plans_def comp_def)

section \<open>Reserved amounts\<close>

definition reserved_total :: "(iyzico_refund_line \<Rightarrow> rat) \<Rightarrow> iyzico_refund list \<Rightarrow> string \<Rightarrow> string \<Rightarrow> rat" where
  "reserved_total f ps i item = (\<Sum>l\<leftarrow>prior_lines (filter (\<lambda>r. ir_originalOperationId r = i) ps) item. f l)"

lemma reserved_snoc:
  "reserved_total f (ps @ [r]) i item = reserved_total f ps i item +
     (if ir_originalOperationId r = i
      then \<Sum>l\<leftarrow>filter (\<lambda>l. rl_originalPaymentItemId l = item) (ir_lines r). f l else 0)"
  by (simp add: reserved_total_def prior_lines_def)

lemma distinct_filter_key:
  assumes "distinct (map key xs)" and "x \<in> set xs"
  shows "filter (\<lambda>y. key y = key x) xs = [x]"
  using assms by (induction xs) (auto simp: filter_empty_conv image_iff)

text \<open>Nothing but the amounts matters, so the table may be read with or without its progress.\<close>

lemma prior_lines_plans:
  "map blank_line (prior_lines rs item) = prior_lines (map plan_of rs) item"
  by (induction rs) (simp_all add: prior_lines_def filter_map comp_def)

lemma reserved_plans:
  assumes "\<And>l. f (blank_line l) = f l"
  shows "reserved_total f (map plan_of rs) i item = reserved_total f rs i item"
proof -
  have "filter (\<lambda>r. ir_originalOperationId r = i) (map plan_of rs) =
      map plan_of (filter (\<lambda>r. ir_originalOperationId r = i) rs)" by (simp add: filter_map comp_def)
  then show ?thesis
    unfolding reserved_total_def by (simp add: prior_lines_plans [symmetric] comp_def assms)
qed

abbreviation provider :: "iyzico_env \<Rightarrow> iyzico_refund_line \<Rightarrow> rat" where
  "provider Z l \<equiv> big_value Z (rl_providerAmount l)"

abbreviation nominal :: "iyzico_env \<Rightarrow> iyzico_refund_line \<Rightarrow> rat" where
  "nominal Z l \<equiv> big_value Z (rl_nominalAmount l)"

text \<open>The transaction a line is refunded from, and the limits it sets.\<close>

definition covers ::
  "iyzico_env \<Rightarrow> iyzico_refund list \<Rightarrow> string \<Rightarrow> item_transaction \<Rightarrow> bool"
where
  "covers Z ps i tx \<longleftrightarrow>
     reserved_total (provider Z) ps i (tx_paymentItemId tx) \<le> big_value Z (tx_paidPrice tx) \<and>
     reserved_total (nominal Z) ps i (tx_paymentItemId tx) \<le> big_value Z (tx_price tx)"

definition line_ok ::
  "iyzico_env \<Rightarrow> iyzico_operation list \<Rightarrow> iyzico_refund list \<Rightarrow> iyzico_refund \<Rightarrow> iyzico_refund_line \<Rightarrow> bool"
where
  "line_ok Z ops ps r l \<longleftrightarrow> 0 \<le> provider Z l \<and>
     (\<exists>operation \<in> set ops. iy_id operation = ir_originalOperationId r \<and> iy_status operation = OS_COMPLETED \<and>
        (\<exists>tx \<in> set (nullish (iy_itemTransactions operation) []).
           tx_paymentItemId tx = rl_originalPaymentItemId l \<and>
           tx_paymentTransactionId tx = il_paymentTransactionId l \<and>
           covers Z ps (iy_id operation) tx))"

definition plan_ok :: "iyzico_env \<Rightarrow> iyzico_operation list \<Rightarrow> iyzico_refund list \<Rightarrow> iyzico_refund \<Rightarrow> bool" where
  "plan_ok Z ops ps r \<longleftrightarrow>
     (\<forall>k < length (ir_lines r). il_conversationId (ir_lines r ! k) = ir_id r @ '':'' @ nat_text k) \<and>
     (\<forall>l \<in> set (ir_lines r). line_ok Z ops ps r l)"

definition refunds_ok :: "iyzico_env \<Rightarrow> iyzico_db \<Rightarrow> bool" where
  "refunds_ok Z s \<longleftrightarrow> distinct (map ir_id (plans s)) \<and>
     (\<forall>r \<in> set (plans s). plan_ok Z (iz_operations s) (plans s) r)"

lemma line_ok_later:
  assumes "line_ok Z (iz_operations s) ps r l" and "later s t"
  shows "line_ok Z (iz_operations t) ps r l"
proof -
  from assms(1) obtain operation tx where op: "operation \<in> set (iz_operations s)"
      "iy_id operation = ir_originalOperationId r" "iy_status operation = OS_COMPLETED"
    and tx: "tx \<in> set (nullish (iy_itemTransactions operation) [])"
      "tx_paymentItemId tx = rl_originalPaymentItemId l" "tx_paymentTransactionId tx = il_paymentTransactionId l"
      "covers Z ps (iy_id operation) tx" and l: "0 \<le> provider Z l"
    by (auto simp: line_ok_def)
  from later_rows [OF assms(2) op(1)] obtain y where y: "y \<in> set (iz_operations t)" "row_later operation y" by blast
  then have "iy_id y = iy_id operation" "iy_status y = OS_COMPLETED" "iy_itemTransactions y = iy_itemTransactions operation"
    using op(3) by (auto simp: row_later_def same_terms_def)
  with y(1) op tx l show ?thesis
    unfolding line_ok_def by (intro conjI bexI [of _ y] bexI [of _ tx]) simp_all
qed

lemma refunds_ok_later:
  "refunds_ok Z s \<Longrightarrow> plans t = plans s \<Longrightarrow> later s t \<Longrightarrow> refunds_ok Z t"
  unfolding refunds_ok_def plan_ok_def by (auto intro: line_ok_later)

section \<open>Making a reservation\<close>

lemma reserve_line_run:
  assumes B: "bigjs_ok (ie_big Z)"
    and run: "reserve_line Z refundId txs previous (index, line) = Inr l"
  obtains tx where "by_key tx_paymentItemId txs (rl_originalPaymentItemId line) = Some tx"
    "rl_originalPaymentItemId l = rl_originalPaymentItemId line" "rl_providerAmount l = rl_providerAmount line"
    "rl_nominalAmount l = rl_nominalAmount line"
    "il_paymentTransactionId l = tx_paymentTransactionId tx"
    "il_conversationId l = refundId @ '':'' @ nat_text index" "blank_line l = l"
    "(\<Sum>x\<leftarrow>prior_lines previous (rl_originalPaymentItemId line). provider Z x) + provider Z l \<le> big_value Z (tx_paidPrice tx)"
    "(\<Sum>x\<leftarrow>prior_lines previous (rl_originalPaymentItemId line). nominal Z x) + nominal Z l \<le> big_value Z (tx_price tx)"
proof -
  let ?B = "ie_big Z" and ?item = "rl_originalPaymentItemId line"
  let ?total = "\<lambda>f. foldE (\<lambda>t l. bindE (bigOf ?B (f l)) (\<lambda>x. Inr (big_plus ?B t x))) 0 (prior_lines previous ?item)"
  from run obtain tx p n a b c d where tx: "by_key tx_paymentItemId txs ?item = Some tx"
    and p: "?total rl_providerAmount = Inr p" and n: "?total rl_nominalAmount = Inr n"
    and a: "bigOf ?B (rl_providerAmount line) = Inr a" and b: "bigOf ?B (tx_paidPrice tx) = Inr b"
    and c: "bigOf ?B (rl_nominalAmount line) = Inr c" and d: "bigOf ?B (tx_price tx) = Inr d"
    and le: "\<not> (big_plus ?B p a > b \<or> big_plus ?B n c > d)"
    and l: "l = refund_line.extend line (iyzico_refund_line.fields (tx_paymentTransactionId tx)
        (refundId @ '':'' @ nat_text index) L_RESERVED None None)"
    unfolding reserve_line_def by (auto simp: res_simps Let_def simp del: bindE_throwIf)
  have plus: "big_plus ?B x y = x + y" for x y using B by (simp add: bigjs_ok_def)
  have sel: "rl_originalPaymentItemId l = ?item" "rl_providerAmount l = rl_providerAmount line"
    "rl_nominalAmount l = rl_nominalAmount line" "il_paymentTransactionId l = tx_paymentTransactionId tx"
    "il_conversationId l = refundId @ '':'' @ nat_text index" "blank_line l = l"
    by (simp_all add: l refund_line.defs iyzico_refund_line.defs blank_line_def)
  have "p + a \<le> b" "n + c \<le> d" using le by (simp_all add: plus)
  with foldE_values [OF B p] foldE_values [OF B n] bigOf_value [OF a] bigOf_value [OF b]
    bigOf_value [OF c] bigOf_value [OF d] sel
  show thesis by (intro that [OF tx]) simp_all
qed

lemma mapE_enumerate_nth:
  assumes "mapE f (enumerate 0 xs) = Inr ys" and "k < length xs"
  shows "f (k, xs ! k) = Inr (ys ! k)"
  using mapE_nth [OF assms(1), of k] assms(2) by (simp add: nth_enumerate_eq)

lemma ordered_lines_subset:
  assumes "ordered_lines B lines items = Inr ls"
  shows "set ls \<subseteq> set lines"
proof (cases "list_ex (\<lambda>item. i_originalPaymentItemId item \<noteq> None) items")
  case True
  with assms have m: "mapE (line_of_item B lines) items = Inr ls"
    by (auto simp: ordered_lines_def split: if_splits)
  show ?thesis
  proof
    fix l assume "l \<in> set ls"
    with mapE_set [OF m] obtain item where "line_of_item B lines item = Inr l" by blast
    then show "l \<in> set lines"
      unfolding line_of_item_def
      by (auto simp: res_simps Let_def dest: by_key_in split: option.splits list.splits if_splits)
  qed
next
  case False
  with assms show ?thesis by (simp add: ordered_lines_def)
qed

lemma validated_lines:
  assumes "validate_refund Z msg = Inr (plan, lines)"
  shows "distinct (map rl_originalPaymentItemId lines)"
    "l \<in> set lines \<Longrightarrow> 0 \<le> big_value Z (rl_providerAmount l)"
proof -
  from assms obtain ls where bad: "\<not> list_ex (bad_refund_line (ie_big Z)) (rp_lines plan)"
    and ls: "ordered_lines (ie_big Z) (rp_lines plan) (ci_items msg) = Inr ls"
    and lines: "lines = sort_key rl_originalPaymentItemId ls" "distinct (map rl_originalPaymentItemId lines)"
    unfolding validate_refund_def by (auto simp: res_simps Let_def simp del: bindE_throwIf)
  show "distinct (map rl_originalPaymentItemId lines)" by (rule lines(2))
  assume "l \<in> set lines"
  then have "l \<in> set (rp_lines plan)" using ordered_lines_subset [OF ls] by (auto simp: lines(1))
  with bad have "\<not> bad_refund_line (ie_big Z) l" by (auto simp: list_ex_iff)
  then show "0 \<le> big_value Z (rl_providerAmount l)" by (auto simp: bad_refund_line_def)
qed

lemma completed_transactions:
  assumes "ops_ok Z s" and "operation \<in> set (iz_operations s)" and "iy_status operation = OS_COMPLETED"
  shows "distinct (map tx_paymentItemId (nullish (iy_itemTransactions operation) []))"
    "distinct (map tx_paymentTransactionId (nullish (iy_itemTransactions operation) []))"
proof -
  from assms obtain result txs where txs: "iy_itemTransactions operation = Some txs"
    and g: "genuine_capture Z operation result txs" and basket: "distinct (map bl_paymentItemId (iy_basketLines operation))"
    by (auto simp: ops_ok_def row_ok_def evidenced_def)
  from g have m: "mset (map tx_paymentItemId txs) = mset (map bl_paymentItemId (iy_basketLines operation))"
    and d: "distinct (map tx_paymentTransactionId txs)" by (simp_all add: genuine_capture_def)
  show "distinct (map tx_paymentItemId (nullish (iy_itemTransactions operation) []))"
    using mset_eq_imp_distinct_iff [OF m] basket by (simp add: txs)
  show "distinct (map tx_paymentTransactionId (nullish (iy_itemTransactions operation) []))"
    using d by (simp add: txs)
qed

lemma same_operation:
  "ops_ok Z s \<Longrightarrow> x \<in> set (iz_operations s) \<Longrightarrow> y \<in> set (iz_operations s) \<Longrightarrow> iy_id x = iy_id y \<Longrightarrow> x = y"
  by (auto simp: ops_ok_def distinct_map dest: inj_onD)

text \<open>
  A new plan against a capture: each of its lines passed the check of the reservation, against the plans
  there were.
\<close>

definition fits :: "iyzico_env \<Rightarrow> iyzico_operation \<Rightarrow> iyzico_refund list \<Rightarrow> iyzico_refund_line \<Rightarrow> bool" where
  "fits Z source ps l \<longleftrightarrow> 0 \<le> provider Z l \<and>
     (\<exists>tx \<in> set (nullish (iy_itemTransactions source) []).
        tx_paymentItemId tx = rl_originalPaymentItemId l \<and> tx_paymentTransactionId tx = il_paymentTransactionId l \<and>
        reserved_total (provider Z) ps (iy_id source) (rl_originalPaymentItemId l) + provider Z l \<le> big_value Z (tx_paidPrice tx) \<and>
        reserved_total (nominal Z) ps (iy_id source) (rl_originalPaymentItemId l) + nominal Z l \<le> big_value Z (tx_price tx))"

text \<open>The limits of a transaction under a new plan.\<close>

lemma covers_new:
  assumes ok: "ops_ok Z s" and src: "source \<in> set (iz_operations s)" "iy_status source = OS_COMPLETED"
    and r: "ir_originalOperationId r = iy_id source" "distinct (map rl_originalPaymentItemId (ir_lines r))"
    and fits: "\<And>l. l \<in> set (ir_lines r) \<Longrightarrow> fits Z source ps l"
    and tx: "tx \<in> set (nullish (iy_itemTransactions source) [])"
    and l: "l \<in> set (ir_lines r)" "rl_originalPaymentItemId l = tx_paymentItemId tx"
  shows "covers Z (ps @ [r]) (iy_id source) tx"
proof -
  from fits [OF l(1)] obtain ty where ty: "ty \<in> set (nullish (iy_itemTransactions source) [])"
    "tx_paymentItemId ty = rl_originalPaymentItemId l"
    "reserved_total (provider Z) ps (iy_id source) (rl_originalPaymentItemId l) + provider Z l \<le> big_value Z (tx_paidPrice ty)"
    "reserved_total (nominal Z) ps (iy_id source) (rl_originalPaymentItemId l) + nominal Z l \<le> big_value Z (tx_price ty)"
    by (auto simp: fits_def)
  have "ty = tx"
    using completed_transactions(1) [OF ok src] ty(1,2) tx l(2) by (auto simp: distinct_map dest: inj_onD)
  moreover have "filter (\<lambda>x. rl_originalPaymentItemId x = tx_paymentItemId tx) (ir_lines r) = [l]"
    using distinct_filter_key [OF r(2) l(1)] l(2) by simp
  ultimately show ?thesis
    using ty(3,4) l(2) by (simp add: covers_def reserved_snoc r(1))
qed

lemma plan_ok_new:
  assumes ok: "ops_ok Z s" "refunds_ok Z s" and src: "source \<in> set (iz_operations s)" "iy_status source = OS_COMPLETED"
    and r: "ir_originalOperationId r = iy_id source" "distinct (map rl_originalPaymentItemId (ir_lines r))"
    and fits: "\<And>l. l \<in> set (ir_lines r) \<Longrightarrow> fits Z source (plans s) l"
    and conv: "\<And>k. k < length (ir_lines r) \<Longrightarrow> il_conversationId (ir_lines r ! k) = ir_id r @ '':'' @ nat_text k"
    and x: "x \<in> set (plans s @ [r])"
  shows "plan_ok Z (iz_operations s) (plans s @ [r]) x"
proof (cases "x \<in> set (plans s)")
  case True
  with ok(2) have old: "plan_ok Z (iz_operations s) (plans s) x" by (simp add: refunds_ok_def)
  have "line_ok Z (iz_operations s) (plans s @ [r]) x l" if l: "l \<in> set (ir_lines x)" for l
  proof -
    from old l have "line_ok Z (iz_operations s) (plans s) x l" by (simp add: plan_ok_def)
    then obtain operation tx where op: "operation \<in> set (iz_operations s)"
        "iy_id operation = ir_originalOperationId x" "iy_status operation = OS_COMPLETED"
      and tx: "tx \<in> set (nullish (iy_itemTransactions operation) [])"
        "tx_paymentItemId tx = rl_originalPaymentItemId l" "tx_paymentTransactionId tx = il_paymentTransactionId l"
        "covers Z (plans s) (iy_id operation) tx" and pos: "0 \<le> provider Z l"
      by (auto simp: line_ok_def)
    have "covers Z (plans s @ [r]) (iy_id operation) tx"
    proof (cases "iy_id operation = iy_id source \<and> (\<exists>n \<in> set (ir_lines r). rl_originalPaymentItemId n = tx_paymentItemId tx)")
      case True
      then obtain n where n: "n \<in> set (ir_lines r)" "rl_originalPaymentItemId n = tx_paymentItemId tx" by blast
      have "operation = source" using same_operation [OF ok(1) op(1) src(1)] True by blast
      with covers_new [OF ok(1) src r fits _ n] tx(1) show ?thesis by simp
    next
      case False
      then have "ir_originalOperationId r = iy_id operation \<Longrightarrow>
          filter (\<lambda>l. rl_originalPaymentItemId l = tx_paymentItemId tx) (ir_lines r) = []"
        by (auto simp: r(1) filter_empty_conv)
      with tx(4) show ?thesis by (auto simp: covers_def reserved_snoc)
    qed
    with op tx pos show ?thesis
      unfolding line_ok_def by (intro conjI bexI [of _ operation] bexI [of _ tx]) simp_all
  qed
  with old show ?thesis by (simp add: plan_ok_def)
next
  case False
  with x have xr: "x = r" by simp
  have "line_ok Z (iz_operations s) (plans s @ [r]) r l" if l: "l \<in> set (ir_lines r)" for l
  proof -
    from fits [OF l] obtain tx where tx: "tx \<in> set (nullish (iy_itemTransactions source) [])"
      "tx_paymentItemId tx = rl_originalPaymentItemId l" "tx_paymentTransactionId tx = il_paymentTransactionId l"
      "0 \<le> provider Z l" by (auto simp: fits_def)
    have "covers Z (plans s @ [r]) (iy_id source) tx"
      by (rule covers_new [OF ok(1) src r fits tx(1) l]) (simp_all add: tx(2))
    with src tx r(1) show ?thesis
      unfolding line_ok_def by (intro conjI bexI [of _ source] bexI [of _ tx]) simp_all
  qed
  with conv show ?thesis by (simp add: xr plan_ok_def)
qed

lemma reserved_lines_fit:
  assumes B: "bigjs_ok (ie_big Z)"
    and m: "mapE (reserve_line Z refundId (nullish (iy_itemTransactions source) [])
        (filter (\<lambda>r. ir_originalOperationId r = iy_id source) (iz_refunds s))) (enumerate 0 lines) = Inr ls"
    and lines: "distinct (map rl_originalPaymentItemId lines)" "\<And>l. l \<in> set lines \<Longrightarrow> 0 \<le> big_value Z (rl_providerAmount l)"
  shows "distinct (map rl_originalPaymentItemId ls)" "map blank_line ls = ls"
    "l \<in> set ls \<Longrightarrow> fits Z source (plans s) l"
    "k < length ls \<Longrightarrow> il_conversationId (ls ! k) = refundId @ '':'' @ nat_text k"
proof -
  let ?txs = "nullish (iy_itemTransactions source) []"
  let ?prior = "filter (\<lambda>r. ir_originalOperationId r = iy_id source) (iz_refunds s)"
  have len: "length ls = length lines" using mapE_length [OF m] by simp
  have at: "reserve_line Z refundId ?txs ?prior (k, lines ! k) = Inr (ls ! k)" if "k < length ls" for k
    using mapE_enumerate_nth [OF m] that len by simp
  have item: "rl_originalPaymentItemId (ls ! k) = rl_originalPaymentItemId (lines ! k)" if "k < length ls" for k
    by (rule reserve_line_run [OF B at [OF that]]) simp
  have "map rl_originalPaymentItemId ls = map rl_originalPaymentItemId lines"
    by (rule nth_equalityI) (simp_all add: len item)
  then show "distinct (map rl_originalPaymentItemId ls)" using lines(1) by simp
  have blank: "blank_line (ls ! k) = ls ! k" if "k < length ls" for k
    by (rule reserve_line_run [OF B at [OF that]]) simp
  then show "map blank_line ls = ls" by (intro nth_equalityI) simp_all
  show "il_conversationId (ls ! k) = refundId @ '':'' @ nat_text k" if "k < length ls" for k
    by (rule reserve_line_run [OF B at [OF that]]) simp
  assume "l \<in> set ls"
  then obtain k where k: "k < length ls" "l = ls ! k" by (auto simp: in_set_conv_nth)
  have same: "reserved_total f (plans s) (iy_id source) i = (\<Sum>x\<leftarrow>prior_lines ?prior i. f x)"
    if "\<And>l. f (blank_line l) = f l" for f i
    unfolding plans_def reserved_plans [of f, OF that] by (simp add: reserved_total_def)
  have "lines ! k \<in> set lines" using k(1) len by simp
  then have pos: "0 \<le> big_value Z (rl_providerAmount (lines ! k))" by (rule lines(2))
  from at [OF k(1)] show "fits Z source (plans s) l"
  proof (rule reserve_line_run [OF B])
    fix tx assume "by_key tx_paymentItemId ?txs (rl_originalPaymentItemId (lines ! k)) = Some tx"
    from by_key_in [OF this] have "tx \<in> set ?txs" "tx_paymentItemId tx = rl_originalPaymentItemId (lines ! k)" by auto
    moreover assume "rl_originalPaymentItemId (ls ! k) = rl_originalPaymentItemId (lines ! k)"
      "rl_providerAmount (ls ! k) = rl_providerAmount (lines ! k)"
      "il_paymentTransactionId (ls ! k) = tx_paymentTransactionId tx"
      "(\<Sum>x\<leftarrow>prior_lines ?prior (rl_originalPaymentItemId (lines ! k)). provider Z x) + provider Z (ls ! k) \<le> big_value Z (tx_paidPrice tx)"
      "(\<Sum>x\<leftarrow>prior_lines ?prior (rl_originalPaymentItemId (lines ! k)). nominal Z x) + nominal Z (ls ! k) \<le> big_value Z (tx_price tx)"
    ultimately show ?thesis
      using pos unfolding fits_def k(2) by (intro conjI bexI [of _ tx]) (simp_all add: same)
  qed
qed

text \<open>What a reservation that returns has done: nothing, for a retry, or appended its plan.\<close>

definition appended :: "iyzico_refund \<Rightarrow> iyzico_db \<Rightarrow> iyzico_db" where
  "appended refund s = s\<lparr>iz_refunds := iz_refunds s @ [refund]\<rparr>"

lemma insert_refund_run:
  "insert_refund refund s = (t, Inr u) \<Longrightarrow> t = appended refund s \<and> ir_id refund \<notin> ir_id ` set (iz_refunds s)"
  by (auto simp: insert_refund_def res_simps appended_def list_ex_iff)

lemma capture_for_run:
  "capture_for msg s = Inr source \<Longrightarrow> source \<in> set (iz_operations s) \<and> iy_status source = OS_COMPLETED"
  unfolding capture_for_def
  by (auto simp: res_simps Let_def find_iyzico_operation_def dest!: by_key_in split: if_splits)

lemma reserve_run:
  assumes "reserve_iyzico_refund Z msg plan lines s = (t, Inr (refund, p))"
  obtains "t = s" "refund \<in> set (iz_refunds s)"
  | source ls where "source \<in> set (iz_operations s)" "iy_status source = OS_COMPLETED"
      "t = appended refund s" "ir_id refund \<notin> ir_id ` set (iz_refunds s)" "ir_originalOperationId refund = iy_id source"
      "ir_state refund = RS_RESERVED" "ir_lines refund = ls"
      "mapE (reserve_line Z (ir_id refund) (nullish (iy_itemTransactions source) [])
        (filter (\<lambda>r. ir_originalOperationId r = iy_id source) (iz_refunds s))) (enumerate 0 lines) = Inr ls"
proof -
  let ?id = "nullish (ci_refundOperationId msg) []"
  from assms obtain source where src: "capture_for msg s = Inr source"
    unfolding reserve_iyzico_refund_def by (auto simp: res_simps)
  show thesis
  proof (cases "find_iyzico_refund ?id s")
    case (Some r)
    with assms have "t = s \<and> refund = r"
      unfolding reserve_iyzico_refund_def by (auto simp: res_simps Let_def)
    with Some that(1) show thesis by (auto simp: find_iyzico_refund_def dest: by_key_in)
  next
    case None
    from assms [unfolded reserve_iyzico_refund_def] src None obtain mode ls where
      m: "mapE (reserve_line Z ?id (nullish (iy_itemTransactions source) [])
        (filter (\<lambda>r. ir_originalOperationId r = iy_id source) (iz_refunds s))) (enumerate 0 lines) = Inr ls"
      and ref: "refund = \<lparr>ir_id = ?id, ir_paymentId = p_id (ci_payment msg), ir_originalOperationId = iy_id source,
        ir_currency = iy_currency source, ir_roundingMode = mode, ir_state = RS_RESERVED, ir_lines = ls\<rparr>"
      and ins: "insert_refund refund s = (t, Inr ())"
      by (auto simp: res_simps Let_def)
    from capture_for_run [OF src] insert_refund_run [OF ins] m show thesis
      by (intro that(2) [of source ls]) (simp_all add: ref)
  qed
qed

lemma reservation_ok:
  assumes B: "bigjs_ok (ie_big Z)" and ok: "ops_ok Z s" "refunds_ok Z s"
    and v: "validate_refund Z msg = Inr (plan, lines)"
    and run: "reserve_iyzico_refund Z msg plan lines s = (t, Inr (refund, p))"
  shows "refunds_ok Z t \<and> plan_of refund \<in> set (plans t) \<and>
    (t = s \<or> t = appended refund s \<and> ir_state refund = RS_RESERVED)"
  using run
proof (cases rule: reserve_run)
  case 1
  with ok(2) show ?thesis by (simp add: plans_def)
next
  case (2 source ls)
  note fit = reserved_lines_fit [OF B 2(8) validated_lines [OF v]]
  have plan: "plan_of refund = refund" using fit(2) 2(6,7) by (cases refund) (simp add: plan_of_def)
  have pl: "plans t = plans s @ [refund]" using plan by (simp add: 2(3) plans_def appended_def)
  have "distinct (map ir_id (plans t))"
    using 2(4) ok(2) ids_plans [of s] unfolding refunds_ok_def pl by simp
  moreover have "plan_ok Z (iz_operations s) (plans s @ [refund]) x" if "x \<in> set (plans s @ [refund])" for x
    by (rule plan_ok_new [OF ok 2(1,2,5) _ _ _ that]) (use fit 2(7) in auto)
  ultimately have "refunds_ok Z t" unfolding refunds_ok_def pl by (simp add: 2(3) appended_def)
  with pl plan 2(3,6) show ?thesis by simp
qed

end
