(* ===== verification/Iyzico_Submissions.thy ===== *)
theory Iyzico_Submissions
  imports Iyzico_Reservations
begin

text \<open>
  The submission of a reservation under interleaving: one task at most submits a refund, it holds the
  lines it has still to send, and no line that was sent is sent again.
\<close>

section \<open>Who submits what\<close>

definition refund_calls :: "iyzico_db \<Rightarrow> refund_call list" where
  "refund_calls s = List.map_filter (\<lambda>c. case c of CallRefund q \<Rightarrow> Some q | _ \<Rightarrow> None) (iz_calls s)"

definition is_claimed :: "iyzico_db \<Rightarrow> string \<Rightarrow> bool" where
  "is_claimed s i \<longleftrightarrow> (\<exists>r \<in> set (iz_refunds s). ir_id r = i \<and> ir_state r \<noteq> RS_RESERVED)"

text \<open>The refund a task submits, with the lines it has not sent yet.\<close>

definition holds :: "iyzico_task \<Rightarrow> (iyzico_refund \<times> nat list) option" where
  "holds t = (case t of
       Sending r p todo \<Rightarrow> Some (r, todo) | Asking r p i todo \<Rightarrow> Some (r, i # todo)
     | Sent r p todo \<Rightarrow> Some (r, todo) | Stopping r \<Rightarrow> Some (r, []) | _ \<Rightarrow> None)"

definition held :: "iyzico_task list \<Rightarrow> (iyzico_refund \<times> nat list) list" where
  "held ts = List.map_filter holds ts"

definition claims :: "iyzico_task list \<Rightarrow> iyzico_refund set" where
  "claims ts = {r. \<exists>p. Claiming r p \<in> set ts}"

lemma held_simps [simp]: "held [] = []" "held (xs @ ys) = held xs @ held ys"
  "held (t # ts) = (case holds t of None \<Rightarrow> held ts | Some h \<Rightarrow> h # held ts)"
  by (simp_all add: held_def List.map_filter_def split: option.splits)

lemma claims_simps [simp]: "claims [] = {}" "claims (xs @ ys) = claims xs \<union> claims ys"
  "claims (t # ts) = (case t of Claiming r p \<Rightarrow> {r} | _ \<Rightarrow> {}) \<union> claims ts"
  by (auto simp: claims_def split: iyzico_task.splits)

lemma refund_calls_snoc: "iz_calls t = iz_calls s @ [c] \<Longrightarrow>
    refund_calls t = refund_calls s @ (case c of CallRefund q \<Rightarrow> [q] | _ \<Rightarrow> [])"
  by (simp add: refund_calls_def List.map_filter_def split: iyzico_call.splits)

lemma refund_calls_same: "iz_calls t = iz_calls s \<Longrightarrow> refund_calls t = refund_calls s"
  by (simp add: refund_calls_def)

section \<open>The invariant\<close>

text \<open>A call is the submission of a line of a claimed refund, and nobody is about to send it again.\<close>

definition explained :: "iyzico_db \<Rightarrow> (iyzico_refund \<times> nat list) list \<Rightarrow> refund_call \<Rightarrow> bool" where
  "explained s H q \<longleftrightarrow> (\<exists>r \<in> set (plans s). \<exists>k < length (ir_lines r).
     q = refund_call_of r (ir_lines r ! k) \<and> is_claimed s (ir_id r) \<and>
     (\<forall>h \<in> set H. ir_id (fst h) = ir_id r \<longrightarrow> k \<notin> set (snd h)))"

definition holder_ok :: "iyzico_db \<Rightarrow> iyzico_refund \<times> nat list \<Rightarrow> bool" where
  "holder_ok s h \<longleftrightarrow> plan_of (fst h) \<in> set (plans s) \<and> is_claimed s (ir_id (fst h)) \<and>
     distinct (snd h) \<and> set (snd h) \<subseteq> {..<length (ir_lines (fst h))}"

definition sub_ok :: "iyzico_db \<Rightarrow> (iyzico_refund \<times> nat list) list \<Rightarrow> iyzico_refund set \<Rightarrow> bool" where
  "sub_ok s H K \<longleftrightarrow>
     (\<forall>h \<in> set H. holder_ok s h) \<and> distinct (map (\<lambda>h. ir_id (fst h)) H) \<and>
     (\<forall>r \<in> K. plan_of r \<in> set (plans s)) \<and>
     distinct (map rq_conversationId (refund_calls s)) \<and> (\<forall>q \<in> set (refund_calls s). explained s H q)"

text \<open>What a step of some task leaves of the table: more plans, more claims, no call but its own.\<close>

definition sub_later :: "iyzico_db \<Rightarrow> iyzico_db \<Rightarrow> bool" where
  "sub_later s t \<longleftrightarrow> set (plans s) \<subseteq> set (plans t) \<and> (\<forall>i. is_claimed s i \<longrightarrow> is_claimed t i)"

lemma holder_later: "holder_ok s h \<Longrightarrow> sub_later s t \<Longrightarrow> holder_ok t h"
  by (auto simp: holder_ok_def sub_later_def)

lemma holders_later:
  assumes "sub_ok s H K" and "sub_later s t"
  shows "\<forall>h \<in> set H. holder_ok t h"
  using assms(1) holder_later [OF _ assms(2)] unfolding sub_ok_def by blast

text \<open>The holders may drop out or drop lines.\<close>

definition fewer :: "(iyzico_refund \<times> nat list) list \<Rightarrow> (iyzico_refund \<times> nat list) list \<Rightarrow> bool" where
  "fewer H' H \<longleftrightarrow> (\<forall>h' \<in> set H'. \<exists>h \<in> set H. ir_id (fst h') = ir_id (fst h) \<and> set (snd h') \<subseteq> set (snd h))"

lemma explained_later:
  assumes "explained s H q" and "sub_later s t" and "fewer H' H"
  shows "explained t H' q"
proof -
  from assms(1) obtain r k where r: "r \<in> set (plans s)" "k < length (ir_lines r)"
      "q = refund_call_of r (ir_lines r ! k)" "is_claimed s (ir_id r)"
    and k: "\<forall>h \<in> set H. ir_id (fst h) = ir_id r \<longrightarrow> k \<notin> set (snd h)" by (auto simp: explained_def)
  have "k \<notin> set (snd h')" if "h' \<in> set H'" "ir_id (fst h') = ir_id r" for h'
    using assms(3) k that unfolding fewer_def by fastforce
  with r assms(2) show ?thesis unfolding explained_def sub_later_def by blast
qed

lemma sub_ok_later:
  assumes "sub_ok s H K" and "sub_later s t" and "refund_calls t = refund_calls s"
    and "fewer H' H" "distinct (map (\<lambda>h. ir_id (fst h)) H')" "\<forall>h \<in> set H'. holder_ok t h"
    and "\<forall>r \<in> K'. plan_of r \<in> set (plans t)"
  shows "sub_ok t H' K'"
  using assms explained_later [OF _ assms(2,4)] unfolding sub_ok_def by simp

lemma fewer_mid: "fewer (A @ C) (A @ B @ C)"
  "ir_id (fst h') = ir_id (fst h) \<Longrightarrow> set (snd h') \<subseteq> set (snd h) \<Longrightarrow> fewer (A @ h' # C) (A @ h # C)"
  by (auto simp: fewer_def)

text \<open>A holder goes on, with the same plan and no more lines.\<close>

lemma sub_ok_holder:
  assumes ok: "sub_ok s (A @ h # C) K" and later: "sub_later s t" and calls: "refund_calls t = refund_calls s"
    and h: "plan_of (fst h') = plan_of (fst h)" "set (snd h') \<subseteq> set (snd h)" "distinct (snd h')"
  shows "sub_ok t (A @ h' # C) K"
proof -
  have id: "ir_id (fst h') = ir_id (fst h)" and len: "length (ir_lines (fst h')) = length (ir_lines (fst h))"
    using h(1) by (metis plan_of_sel(1), metis plan_of_sel(5) length_map)
  have old: "\<forall>x \<in> set (A @ h # C). holder_ok t x" by (rule holders_later [OF ok later])
  then have "holder_ok t h'" using h id len by (auto simp: holder_ok_def)
  with old have new: "\<forall>x \<in> set (A @ h' # C). holder_ok t x" by auto
  have d: "distinct (map (\<lambda>h. ir_id (fst h)) (A @ h' # C))" using ok id by (simp add: sub_ok_def)
  have K: "\<forall>r \<in> K. plan_of r \<in> set (plans t)" using ok later by (auto simp: sub_ok_def sub_later_def)
  from sub_ok_later [OF ok later calls fewer_mid(2) [OF id h(2)] d new K] show ?thesis .
qed

lemma sub_ok_drop:
  assumes ok: "sub_ok s (A @ B @ C) K" and later: "sub_later s t" and calls: "refund_calls t = refund_calls s"
    and K: "K' \<subseteq> K"
  shows "sub_ok t (A @ C) K'"
proof (rule sub_ok_later [OF ok later calls fewer_mid(1)])
  show "distinct (map (\<lambda>h. ir_id (fst h)) (A @ C))" using ok by (auto simp: sub_ok_def)
  show "\<forall>h \<in> set (A @ C). holder_ok t h" using holders_later [OF ok later] by auto
  show "\<forall>r \<in> K'. plan_of r \<in> set (plans t)" using ok later K by (auto simp: sub_ok_def sub_later_def)
qed

section \<open>Claiming a reservation\<close>

lemma same_refund_row:
  "refunds_ok Z s \<Longrightarrow> x \<in> set (iz_refunds s) \<Longrightarrow> y \<in> set (iz_refunds s) \<Longrightarrow> ir_id x = ir_id y \<Longrightarrow> x = y"
  unfolding refunds_ok_def ids_plans by (auto simp: distinct_map dest: inj_onD)

lemma sub_ok_claim:
  assumes ok: "sub_ok s (A @ C) K" and R: "refunds_ok Z s" and r: "r \<in> K"
    and row: "x \<in> set (iz_refunds s)" "ir_id x = ir_id r" "ir_state x = RS_RESERVED"
    and later: "sub_later s t" "is_claimed t (ir_id r)" and calls: "refund_calls t = refund_calls s" and K: "K' \<subseteq> K"
  shows "sub_ok t (A @ (r, [0..<length (ir_lines r)]) # C) K'"
proof -
  let ?new = "(r, [0..<length (ir_lines r)])"
  have free: "\<not> is_claimed s (ir_id r)"
    using same_refund_row [OF R row(1)] row(2,3) by (auto simp: is_claimed_def)
  have "plan_of r \<in> set (plans s)" using ok r by (simp add: sub_ok_def)
  then have "holder_ok t ?new" using later by (auto simp: holder_ok_def sub_later_def)
  then have holders: "\<forall>h \<in> set (A @ ?new # C). holder_ok t h"
    using holders_later [OF ok later(1)] by simp
  have "ir_id r \<noteq> ir_id (fst h)" if "h \<in> set (A @ C)" for h
    using ok that free by (auto simp: sub_ok_def holder_ok_def)
  then have d: "distinct (map (\<lambda>h. ir_id (fst h)) (A @ ?new # C))"
    using ok by (fastforce simp: sub_ok_def)
  have "explained t (A @ ?new # C) q" if "q \<in> set (refund_calls t)" for q
  proof -
    from ok that calls have "explained s (A @ C) q" by (simp add: sub_ok_def)
    then obtain y k where y: "y \<in> set (plans s)" "k < length (ir_lines y)" "q = refund_call_of y (ir_lines y ! k)"
        "is_claimed s (ir_id y)" "\<forall>h \<in> set (A @ C). ir_id (fst h) = ir_id y \<longrightarrow> k \<notin> set (snd h)"
      by (auto simp: explained_def)
    moreover have "ir_id y \<noteq> ir_id r" using y(4) free by auto
    ultimately show ?thesis using later(1) unfolding explained_def sub_later_def
      by (intro bexI [of _ y] exI [of _ k]) auto
  qed
  moreover have "\<forall>r \<in> K'. plan_of r \<in> set (plans t)" using ok later(1) K by (auto simp: sub_ok_def sub_later_def)
  ultimately show ?thesis using ok holders d calls by (simp add: sub_ok_def)
qed

section \<open>Sending a line\<close>

lemma refund_call_of_plan:
  "i < length (ir_lines r) \<Longrightarrow> refund_call_of (plan_of r) (ir_lines (plan_of r) ! i) = refund_call_of r (ir_lines r ! i)"
  by (simp add: refund_call_of_def)

lemma call_conversation:
  assumes "refunds_ok Z s" and "r \<in> set (plans s)" "k < length (ir_lines r)"
  shows "rq_conversationId (refund_call_of r (ir_lines r ! k)) = ir_id r @ '':'' @ nat_text k"
  using assms by (auto simp: refunds_ok_def plan_ok_def refund_call_of_def)

lemma sub_ok_ask:
  assumes ok: "sub_ok s (A @ (r, i # todo) # C) K" and R: "refunds_ok Z s" and later: "sub_later s t"
    and calls: "refund_calls t = refund_calls s @ [refund_call_of r (ir_lines r ! i)]"
    and r': "plan_of r' = plan_of r" "set todo' \<subseteq> set todo" "distinct todo'"
  shows "sub_ok t (A @ (r', todo') # C) K"
proof -
  let ?q = "refund_call_of r (ir_lines r ! i)" and ?H = "A @ (r, i # todo) # C"
  have h: "holder_ok s (r, i # todo)" using ok by (simp add: sub_ok_def)
  then have i: "i < length (ir_lines r)" "i \<notin> set todo" and plan: "plan_of r \<in> set (plans s)"
    and cl: "is_claimed s (ir_id r)" by (auto simp: holder_ok_def)
  have q: "rq_conversationId ?q = ir_id r @ '':'' @ nat_text i"
    using call_conversation [OF R plan] i(1) refund_call_of_plan [OF i(1)] by fastforce
  have fresh: "rq_conversationId q \<noteq> rq_conversationId ?q" if "q \<in> set (refund_calls s)" for q
  proof
    assume eq: "rq_conversationId q = rq_conversationId ?q"
    from ok that have "explained s ?H q" by (simp add: sub_ok_def)
    then obtain y k where y: "y \<in> set (plans s)" "k < length (ir_lines y)" "q = refund_call_of y (ir_lines y ! k)"
        "\<forall>h \<in> set ?H. ir_id (fst h) = ir_id y \<longrightarrow> k \<notin> set (snd h)" by (auto simp: explained_def)
    from call_conversation [OF R y(1,2)] y(3) eq q colon_split have "ir_id y = ir_id r \<and> k = i" by metis
    with y(4) show False by simp
  qed
  define u where "u = t\<lparr>iz_calls := iz_calls s\<rparr>"
  have u: "iz_refunds u = iz_refunds t" "iz_calls u = iz_calls s" by (simp_all add: u_def)
  have su: "sub_later s u" using later u(1) by (simp add: sub_later_def plans_def is_claimed_def)
  have ut: "sub_ok u (A @ (r', todo') # C) K"
    by (rule sub_ok_holder [OF ok su refund_calls_same [OF u(2)]]) (use r' in auto)
  have exp: "explained t H q = explained u H q" for H q
    by (simp add: explained_def plans_def is_claimed_def u(1))
  have hold: "holder_ok t h = holder_ok u h" for h by (simp add: holder_ok_def plans_def is_claimed_def u(1))
  have ids: "ir_id r' = ir_id r" using r'(1) by (metis plan_of_sel(1))
  have d: "distinct (map (\<lambda>h. ir_id (fst h)) ?H)" using ok by (simp add: sub_ok_def)
  have "explained t (A @ (r', todo') # C) ?q"
  proof -
    have "i \<notin> set (snd h)" if "h \<in> set (A @ (r', todo') # C)" "ir_id (fst h) = ir_id (plan_of r)" for h
      using that d ids i(2) r'(2) by (auto simp: image_iff)
    moreover have "plan_of r \<in> set (plans t)" "is_claimed t (ir_id (plan_of r))"
      using plan cl later by (auto simp: sub_later_def)
    ultimately show ?thesis unfolding explained_def
      using i(1) refund_call_of_plan [OF i(1)] by (intro bexI [of _ "plan_of r"] exI [of _ i]) simp_all
  qed
  moreover have "rq_conversationId ?q \<notin> rq_conversationId ` set (refund_calls s)" using fresh by force
  ultimately show ?thesis
    using ut refund_calls_same [OF u(2)] unfolding sub_ok_def calls exp hold by (simp add: plans_def u(1))
qed

section \<open>Progress leaves the plans alone\<close>

lemma plan_of_set_line:
  assumes "blank_line (f (ir_lines r ! i)) = blank_line (ir_lines r ! i)"
  shows "plan_of (set_line i f r) = plan_of r"
proof -
  have "map blank_line ((ir_lines r)[i := f (ir_lines r ! i)]) = map blank_line (ir_lines r)"
    using list_update_id [of "map blank_line (ir_lines r)" i]
    by (cases "i < length (ir_lines r)") (simp_all add: map_update assms list_update_beyond)
  then show ?thesis by (simp add: plan_of_def set_line_def)
qed

lemma plan_of_marks [simp]:
  "plan_of (mark_sending i r) = plan_of r" "plan_of (mark_sent i reference r) = plan_of r"
  "plan_of (mark_failed i err r) = plan_of r"
  unfolding mark_sending_def mark_sent_def mark_failed_def
  by (rule plan_of_set_line; simp add: blank_line_def failed_line_def split: exn.splits)+

lemma refund_writes_refunds:
  "iz_refunds (save_lines r s) = map (\<lambda>x. if ir_id x = ir_id r then x\<lparr>ir_lines := ir_lines r\<rparr> else x) (iz_refunds s)"
  "iz_refunds (stop_submission r s) = map (\<lambda>x. if ir_id x = ir_id r
     then x\<lparr>ir_state := RS_RECONCILIATION_REQUIRED, ir_lines := ir_lines r\<rparr> else x) (iz_refunds s)"
  "iz_refunds (finish_submission i s) = map (\<lambda>x. if ir_id x = i then x\<lparr>ir_state := RS_FINISHED\<rparr> else x) (iz_refunds s)"
  by (simp_all add: save_lines_def stop_submission_def finish_submission_def)

text \<open>An update of rows that keeps their plans, and their claims.\<close>

lemma plans_update:
  assumes rows: "iz_refunds t = map g (iz_refunds s)"
    and g: "\<And>x. x \<in> set (iz_refunds s) \<Longrightarrow> plan_of (g x) = plan_of x \<and> (ir_state x \<noteq> RS_RESERVED \<longrightarrow> ir_state (g x) \<noteq> RS_RESERVED)"
  shows "plans t = plans s" "sub_later s t"
proof -
  show pl: "plans t = plans s" unfolding plans_def rows using g by simp
  have "ir_id (g x) = ir_id x" if "x \<in> set (iz_refunds s)" for x using g [OF that] by (metis plan_of_sel(1))
  then have "is_claimed s i \<Longrightarrow> is_claimed t i" for i
    unfolding is_claimed_def rows using g by auto
  with pl show "sub_later s t" by (simp add: sub_later_def)
qed

lemma same_plan:
  assumes R: "refunds_ok Z s" and r: "plan_of r \<in> set (plans s)" and x: "x \<in> set (iz_refunds s)" "ir_id x = ir_id r"
  shows "map blank_line (ir_lines r) = map blank_line (ir_lines x)"
proof -
  from r obtain y where y: "y \<in> set (iz_refunds s)" "plan_of y = plan_of r" by (auto simp: plans_def)
  have "y = x" using same_refund_row [OF R y(1) x(1)] y(2) x(2) by (metis plan_of_sel(1))
  with y(2) show ?thesis by (metis plan_of_sel(5))
qed

lemma plan_of_lines: "map blank_line ls = map blank_line (ir_lines x) \<Longrightarrow> plan_of (x\<lparr>ir_lines := ls\<rparr>) = plan_of x"
  by (simp add: plan_of_def)

lemma plan_of_state [simp]: "plan_of (x\<lparr>ir_state := st\<rparr>) = plan_of x"
  by (simp add: plan_of_def)

lemma progress_plans:
  assumes R: "refunds_ok Z s" and r: "plan_of r \<in> set (plans s)"
  shows "plans (save_lines r s) = plans s" "sub_later s (save_lines r s)"
    "plans (stop_submission r s) = plans s" "sub_later s (stop_submission r s)"
    "plans (finish_submission i s) = plans s" "sub_later s (finish_submission i s)"
proof -
  note p = plan_of_lines [OF same_plan [OF R r]]
  have stop: "plan_of (x\<lparr>ir_state := st, ir_lines := ir_lines r\<rparr>) = plan_of x"
    if "x \<in> set (iz_refunds s)" "ir_id x = ir_id r" for x st
    using plan_of_lines [of "ir_lines r" "x\<lparr>ir_state := st\<rparr>"] same_plan [OF R r that] by simp
  show "plans (save_lines r s) = plans s" "sub_later s (save_lines r s)"
    using plans_update [OF refund_writes_refunds(1)] p by auto
  show "plans (stop_submission r s) = plans s" "sub_later s (stop_submission r s)"
    using plans_update [OF refund_writes_refunds(2)] stop by auto
  show "plans (finish_submission i s) = plans s" "sub_later s (finish_submission i s)"
    using plans_update [OF refund_writes_refunds(3)] by auto
qed

section \<open>The statements of the tasks\<close>

definition submits :: "iyzico_task \<Rightarrow> bool" where
  "submits t \<longleftrightarrow> holds t \<noteq> None \<or> (\<exists>r p. t = Claiming r p)"

text \<open>Tasks that have nothing to do with refunds.\<close>

lemma update_ops_refunds [simp]:
  "iz_refunds (set_initialized i reply s) = iz_refunds s" "iz_refunds (set_reconciliation i s) = iz_refunds s"
  "iz_refunds (set_callback i s) = iz_refunds s" "iz_refunds (bind_return_url i u s) = iz_refunds s"
  "iz_refunds (set_cancelled i s) = iz_refunds s" "iz_refunds (flag_paid i s) = iz_refunds s"
  "iz_refunds (record_capture i c s) = iz_refunds s"
  "iz_calls (set_initialized i reply s) = iz_calls s" "iz_calls (set_reconciliation i s) = iz_calls s"
  "iz_calls (set_callback i s) = iz_calls s" "iz_calls (bind_return_url i u s) = iz_calls s"
  "iz_calls (set_cancelled i s) = iz_calls s" "iz_calls (flag_paid i s) = iz_calls s"
  "iz_calls (record_capture i c s) = iz_calls s"
  by (simp_all add: set_initialized_def set_reconciliation_def set_callback_def bind_return_url_def
    set_cancelled_def flag_paid_def record_capture_def split: prod.splits)

lemma refund_calls_updates [simp]:
  "refund_calls (set_initialized i reply s) = refund_calls s" "refund_calls (set_reconciliation i s) = refund_calls s"
  "refund_calls (set_callback i s) = refund_calls s" "refund_calls (bind_return_url i u s) = refund_calls s"
  "refund_calls (set_cancelled i s) = refund_calls s" "refund_calls (flag_paid i s) = refund_calls s"
  "refund_calls (record_capture i c s) = refund_calls s" "refund_calls (save_lines r s) = refund_calls s"
  "refund_calls (stop_submission r s) = refund_calls s" "refund_calls (finish_submission i s) = refund_calls s"
  "refund_calls (asked question s) = refund_calls s @ (case question of CallRefund q \<Rightarrow> [q] | _ \<Rightarrow> [])"
  by (rule refund_calls_same, simp)+ (rule refund_calls_snoc, simp)

lemma checking_run:
  "bindS (retrieve_payment Z operation) (\<lambda>result. liftS (read_capture Z operation result)) s = (t, r) \<Longrightarrow>
     t = asked (CallRetrieve (nullish (iy_token operation) []) (iy_id operation)) s"
  by (cases r) (auto simp: res_simps dest: retrieve_payment_run)

lemma ordinary_step:
  assumes "\<not> submits t" and "task_step Z t s = (s', ts)"
  shows "iz_refunds s' = iz_refunds s" "refund_calls s' = refund_calls s" "held ts = []" "claims ts = {}"
proof -
  have "iz_refunds s' = iz_refunds s \<and> refund_calls s' = refund_calls s \<and> held ts = [] \<and> claims ts = {}"
  proof (cases t)
    case (Sending r p todo)
    with assms(1) show ?thesis by (simp add: submits_def holds_def)
  qed (use assms in \<open>auto simp: submits_def holds_def Let_def
      elim!: on_result_run split: option.splits if_splits sum.splits
      dest!: client_initialize_run retrieve_payment_run providerReportsPaid_run checking_run\<close>)
  then show "iz_refunds s' = iz_refunds s" "refund_calls s' = refund_calls s" "held ts = []" "claims ts = {}" by auto
qed

lemma sub_later_same: "iz_refunds t = iz_refunds s \<Longrightarrow> plans t = plans s \<and> sub_later s t"
  by (simp add: sub_later_def plans_def is_claimed_def)

definition task_refund_ok :: "iyzico_db \<Rightarrow> iyzico_task list \<Rightarrow> bool" where
  "task_refund_ok s ts \<longleftrightarrow> sub_ok s (held ts) (claims ts)"

lemma holder_step:
  assumes ok: "task_refund_ok s (xs @ t # ys)" and R: "refunds_ok Z s" and h: "holds t = Some h"
    and step: "task_step Z t s = (s', ts)"
  shows "task_refund_ok s' (xs @ ts @ ys) \<and> plans s' = plans s"
proof -
  let ?K = "claims xs \<union> claims ys"
  have K: "claims (xs @ t # ys) = ?K" using h by (auto simp: holds_def split: iyzico_task.splits)
  have sub: "sub_ok s (held xs @ h # held ys) ?K" using ok h K unfolding task_refund_ok_def by simp
  then have plan: "plan_of (fst h) \<in> set (plans s)" by (simp add: sub_ok_def holder_ok_def)
  note progress = progress_plans [OF R]
  have d: "distinct (snd h)" using sub by (simp add: sub_ok_def holder_ok_def)
  from h consider (finish) r p where "t = Sending r p []" "h = (r, [])"
    | (mark) r p i todo where "t = Sending r p (i # todo)" "h = (r, i # todo)"
    | (ask) r p i todo where "t = Asking r p i todo" "h = (r, i # todo)"
    | (sent) r p todo where "t = Sent r p todo" "h = (r, todo)"
    | (stop) r where "t = Stopping r" "h = (r, [])"
    unfolding holds_def by (cases t) (auto simp: neq_Nil_conv split: iyzico_task.splits, metis list.exhaust)
  then show ?thesis
  proof cases
    case finish
    with step have s': "s' = finish_submission (ir_id r) s" and ts: "ts = []" by auto
    have "sub_ok s' (held xs @ held ys) ?K"
      by (rule sub_ok_drop [of s _ "[h]"]) (use sub progress [OF plan] in \<open>auto simp: s'\<close>)
    with progress(5) [OF plan] show ?thesis by (simp add: task_refund_ok_def s' ts)
  next
    case mark
    with step have s': "s' = save_lines (mark_sending i r) s" and ts: "ts = [Asking (mark_sending i r) p i todo]"
      by (auto simp: Let_def)
    have m: "plan_of (mark_sending i r) \<in> set (plans s)" using plan mark(2) by simp
    have "sub_ok s' (held xs @ (mark_sending i r, i # todo) # held ys) ?K"
      by (rule sub_ok_holder [OF sub]) (use progress [OF m] mark(2) d in \<open>auto simp: s'\<close>)
    with progress(1) [OF m] show ?thesis by (simp add: task_refund_ok_def s' ts holds_def)
  next
    case ask
    with step obtain q where q: "client_refund Z (refund_call_of r (ir_lines r ! i)) p s = (s', q)"
      and ts: "ts = (case q of Inl e \<Rightarrow> [Stopping (mark_failed i e r)] | Inr x \<Rightarrow> [Sent (mark_sent i x r) p todo])"
      by (auto elim: on_result_run)
    from client_refund_run [OF q] have s': "s' = asked (CallRefund (refund_call_of r (ir_lines r ! i))) s" .
    have same: "plans s' = plans s \<and> sub_later s s'" by (rule sub_later_same) (simp add: s')
    have go: "sub_ok s' (held xs @ (r', todo') # held ys) ?K"
      if "plan_of r' = plan_of r" "set todo' \<subseteq> set todo" "distinct todo'" for r' todo'
      by (rule sub_ok_ask [OF sub [unfolded ask(2)] R _ _ that]) (use same in \<open>simp_all add: s'\<close>)
    have "distinct todo" using d ask(2) by simp
    with go [of _ "[]"] go [of _ todo] same ts show ?thesis
      by (cases q) (simp_all add: task_refund_ok_def holds_def)
  next
    case sent
    with step have s': "s' = save_lines r s" and ts: "ts = [Sending r p todo]" by auto
    have m: "plan_of r \<in> set (plans s)" using plan sent(2) by simp
    have "sub_ok s' (held xs @ (r, todo) # held ys) ?K"
      by (rule sub_ok_holder [OF sub]) (use progress [OF m] sent(2) d in \<open>auto simp: s'\<close>)
    with progress(1) [OF m] show ?thesis by (simp add: task_refund_ok_def s' ts holds_def)
  next
    case stop
    with step have s': "s' = stop_submission r s" and ts: "ts = []" by auto
    have m: "plan_of r \<in> set (plans s)" using plan stop(2) by simp
    have "sub_ok s' (held xs @ held ys) ?K"
      by (rule sub_ok_drop [of s _ "[h]"]) (use sub progress [OF m] in \<open>auto simp: s'\<close>)
    with progress(3) [OF m] show ?thesis by (simp add: task_refund_ok_def s' ts)
  qed
qed

lemma claim_later:
  assumes "list_ex (\<lambda>r. ir_id r = i \<and> ir_state r = RS_RESERVED) (iz_refunds s)"
    and "t = fst (claim_submission i s)"
  shows "is_claimed t i"
proof -
  from assms(1) obtain r where r: "r \<in> set (iz_refunds s)" "ir_id r = i" "ir_state r = RS_RESERVED"
    by (auto simp: list_ex_iff)
  then have "r\<lparr>ir_state := RS_SUBMITTING\<rparr> \<in> set (iz_refunds t)"
    by (auto simp: assms(2) claim_run intro!: image_eqI [of _ _ r])
  with r(2) show ?thesis unfolding is_claimed_def by (intro bexI) simp_all
qed

lemma claiming_step:
  assumes ok: "task_refund_ok s (xs @ Claiming r p # ys)" and R: "refunds_ok Z s"
    and step: "task_step Z (Claiming r p) s = (s', ts)"
  shows "task_refund_ok s' (xs @ ts @ ys) \<and> plans s' = plans s"
proof -
  let ?P = "\<lambda>x. ir_id x = ir_id r \<and> ir_state x = RS_RESERVED"
  have s': "s' = update_refunds ?P (\<lambda>r. r\<lparr>ir_state := RS_SUBMITTING\<rparr>) s"
    and ts: "ts = (if list_ex ?P (iz_refunds s) then [Sending r p [0..<length (ir_lines r)]] else [])"
    using step by (simp_all add: claim_run on_result_def split: if_splits)
  have rows: "iz_refunds s' = map (\<lambda>x. if ?P x then x\<lparr>ir_state := RS_SUBMITTING\<rparr> else x) (iz_refunds s)"
    by (simp add: s')
  have later: "plans s' = plans s" "sub_later s s'" by (rule plans_update [OF rows], simp)+
  have calls: "refund_calls s' = refund_calls s" by (rule refund_calls_same) (simp add: s')
  have sub: "sub_ok s (held xs @ held ys) (insert r (claims xs \<union> claims ys))"
    using ok by (simp add: task_refund_ok_def holds_def Un_insert_right Un_commute)
  show ?thesis
  proof (cases "list_ex ?P (iz_refunds s)")
    case True
    then obtain x where x: "x \<in> set (iz_refunds s)" "ir_id x = ir_id r" "ir_state x = RS_RESERVED"
      by (auto simp: list_ex_iff)
    have cl: "is_claimed s' (ir_id r)" by (rule claim_later [OF True]) (simp add: s' claim_run)
    have "sub_ok s' (held xs @ (r, [0..<length (ir_lines r)]) # held ys) (claims xs \<union> claims ys)"
      by (rule sub_ok_claim [OF sub R _ x later(2) cl calls]) auto
    with later(1) show ?thesis by (simp add: ts True task_refund_ok_def holds_def)
  next
    case False
    have "sub_ok s' (held xs @ held ys) (claims xs \<union> claims ys)"
      by (rule sub_ok_drop [of s _ "[]", OF _ later(2) calls]) (use sub in auto)
    with later(1) show ?thesis by (simp add: ts False task_refund_ok_def)
  qed
qed

lemma ordinary_task_step:
  assumes ok: "task_refund_ok s (xs @ t # ys)" and t: "\<not> submits t" and step: "task_step Z t s = (s', ts)"
  shows "task_refund_ok s' (xs @ ts @ ys) \<and> plans s' = plans s"
proof -
  note o = ordinary_step [OF t step]
  have "plans s' = plans s \<and> sub_later s s'" by (rule sub_later_same [OF o(1)])
  moreover have "held (t # ys) = held ys" "claims (t # ys) = claims ys"
    using t by (auto simp: submits_def split: iyzico_task.splits option.splits)
  ultimately show ?thesis
    using ok sub_ok_drop [of s "held xs" "[]" "held ys" "claims xs \<union> claims ys" s' "claims xs \<union> claims ys"] o
    unfolding task_refund_ok_def by simp
qed

lemma task_step_refunds:
  assumes "task_refund_ok s (xs @ t # ys)" and "refunds_ok Z s" and "task_step Z t s = (s', ts)"
  shows "task_refund_ok s' (xs @ ts @ ys) \<and> plans s' = plans s"
proof (cases "submits t")
  case False
  from ordinary_task_step [OF assms(1) False assms(3)] show ?thesis .
next
  case True
  then consider h where "holds t = Some h" | r p where "t = Claiming r p" by (auto simp: submits_def)
  then show ?thesis
  proof cases
    case (1 h)
    from holder_step [OF assms(1,2) 1 assms(3)] show ?thesis .
  next
    case (2 r p)
    from claiming_step [OF assms(1) [unfolded 2] assms(2) assms(3) [unfolded 2]] show ?thesis .
  qed
qed

end
