(* ===== verification/Iyzico_Sample.thy ===== *)
theory Iyzico_Sample
  imports Iyzico_Machine
begin

text \<open>
  Runs of the adapter that can be computed: a schedule picks the task whose next statement runs, and a
  sample of a shop and a provider to run it on.
\<close>

section \<open>Schedules\<close>

datatype iyzico_move = Begin iyzico_request | Run nat

fun perform :: "iyzico_env \<Rightarrow> iyzico_move \<Rightarrow> iyzico_world \<Rightarrow> iyzico_world" where
  "perform Z (Begin req) w =
     (case iyzico_begin Z req (iw_db w) of
        (s, Inr ts) \<Rightarrow> \<lparr>iw_db = s, iw_tasks = iw_tasks w @ ts\<rparr>
      | (s, Inl e) \<Rightarrow> w\<lparr>iw_db := s\<rparr>)"
| "perform Z (Run n) w =
     (if n < length (iw_tasks w)
      then case task_step Z (iw_tasks w ! n) (iw_db w) of
        (s, ts) \<Rightarrow> \<lparr>iw_db = s, iw_tasks = take n (iw_tasks w) @ ts @ drop (Suc n) (iw_tasks w)\<rparr>
      else w)"

lemma perform_steps: "iyzico_steps Z w (perform Z m w)"
proof (cases m)
  case (Begin req)
  obtain s r where "iyzico_begin Z req (iw_db w) = (s, r)" by fastforce
  with Begin show ?thesis
    by (cases r) (auto intro!: r_into_rtranclp iyzico_step.begins iyzico_step.refuses)
next
  case (Run n)
  show ?thesis
  proof (cases "n < length (iw_tasks w)")
    case True
    obtain s ts where s: "task_step Z (iw_tasks w ! n) (iw_db w) = (s, ts)" by fastforce
    have "iyzico_step Z w \<lparr>iw_db = s, iw_tasks = take n (iw_tasks w) @ ts @ drop (Suc n) (iw_tasks w)\<rparr>"
      by (rule iyzico_step.runs [OF id_take_nth_drop [OF True] s])
    with Run True s show ?thesis by auto
  qed (simp add: Run)
qed

definition run_moves :: "iyzico_env \<Rightarrow> iyzico_move list \<Rightarrow> iyzico_world" where
  "run_moves Z ms = foldl (\<lambda>w m. perform Z m w) iyzico_start ms"

lemma run_moves_steps: "iyzico_steps Z iyzico_start (run_moves Z ms)"
proof -
  have "iyzico_steps Z w (foldl (\<lambda>w m. perform Z m w) w ms)" for w
    by (induction ms arbitrary: w) (auto intro: rtranclp_trans perform_steps)
  then show ?thesis by (simp add: run_moves_def)
qed

section \<open>A shop and a provider\<close>

definition sample_zeros :: string where
  "sample_zeros = replicate 64 (CHR ''0'')"

definition sample_text :: "rat \<Rightarrow> string" where
  "sample_text x = nat_text (nat \<lfloor>x\<rfloor>) @ ''.00''"

definition sample_body :: "(string \<times> string) list \<Rightarrow> (string \<times> json) list \<Rightarrow> sdk_reply" where
  "sample_body texts others =
     SdkBody (JObject ((''status'', JString ''success'') # (''signature'', JString sample_zeros) #
       map (\<lambda>(k, v). (k, JString v)) texts @ others))"

fun sample_sdk :: "string \<Rightarrow> iyzico_call list \<Rightarrow> iyzico_call \<Rightarrow> sdk_reply" where
  "sample_sdk paid asks (CallInitialize q) =
     sample_body [(''conversationId'', cq_conversationId q), (''token'', ''tok''), (''paymentPageUrl'', ''page'')] []"
| "sample_sdk paid asks (CallRetrieve token i) =
     sample_body [(''conversationId'', i), (''token'', token), (''paymentStatus'', paid), (''paymentId'', ''pay''),
         (''currency'', ''TRY''), (''basketId'', ''p1''), (''paidPrice'', ''12.00''), (''price'', ''12.00''),
         (''iyziCommissionRateAmount'', ''0''), (''iyziCommissionFee'', ''0'')]
       [(''fraudStatus'', JNumber 1), (''installment'', JNumber 1),
        (''itemTransactions'', JArray [JObject [(''transactionStatus'', JNumber 2), (''itemId'', JString ''i1''),
          (''paymentTransactionId'', JString ''t1''), (''price'', JString ''12.00''), (''paidPrice'', JString ''12.00'')]])]"
| "sample_sdk paid asks (CallRefund q) =
     sample_body [(''conversationId'', rq_conversationId q), (''paymentId'', ''pay''), (''price'', rq_price q),
       (''currency'', rq_currency q), (''paymentTransactionId'', rq_paymentTransactionId q)] []"

definition sample_iyzico :: "string \<Rightarrow> iyzico_env" where
  "sample_iyzico paid =
     \<lparr>ie_big = exact_bigjs, ie_toFixed2 = sample_text, ie_toString = sample_text, ie_number_text = sample_text,
      ie_uuid = (\<lambda>n. ''u'' @ nat_text n),
      ie_urls = sample_urls\<lparr>url_parse_base := (\<lambda>s b. Some sample_url)\<rparr>,
      ie_page = (\<lambda>s. Some (url.extend sample_url (page_url.fields ''iyzipay.com'' []))),
      ie_isIP = (\<lambda>s. s \<noteq> []), ie_upper_tr = (\<lambda>s. s), ie_lower_tr = (\<lambda>s. s), ie_hmac = (\<lambda>s. sample_zeros),
      ie_publicBaseUrl = sample_url, ie_roundingMode = ROUND, ie_subMerchants = False,
      ie_subMerchantKey = (\<lambda>a. Inr a), ie_sdk = sample_sdk paid\<rparr>"

definition sample_message :: "payment_type \<Rightarrow> string \<Rightarrow> rat \<Rightarrow> item_row list \<Rightarrow> channel_init" where
  "sample_message ty i amount items =
     \<lparr>ci_channelId = ''iyzico'', ci_payment = sample_payment i ty PS_WAITING amount, ci_items = items,
      ci_paidAmount = amount, ci_currency = ''TRY'', ci_originalChannelOperationId = None,
      ci_refundOperationId = None, ci_refundPlan = None\<rparr>"

definition sample_purchase :: iyzico_request where
  "sample_purchase = RequestInitialize (channel_init.extend
     (sample_message PURCHASE ''p1'' 12 [sample_item ''i1'' ''p1'' ''seller'' 12])
     (checkout_message.fields
        (Some \<lparr>sb_type = INDIVIDUAL, sb_name = ''Ada B'', sb_legalIdentity = Some ''1'', sb_emailAddress = Some ''e'', sb_phone = None\<rparr>)
        (Some \<lparr>ss_streetName = Some ''s'', ss_buildingNumber = None, ss_room = None, ss_district = None,
           ss_citySubdivisionName = None, ss_cityName = Some ''c'', ss_countryReadName = Some ''t'', ss_postalZone = None\<rparr>)
        (Some ''ip'')))"

definition sample_iyzico_refund :: iyzico_request where
  "sample_iyzico_refund = RequestInitialize (channel_init.extend
     ((sample_message REFUND ''p2'' 5 [])
        \<lparr>ci_originalChannelOperationId := Some ''u0'', ci_refundOperationId := Some ''r1'',
         ci_refundPlan := Some \<lparr>rp_originalOperationId = ''o'', rp_originalChannelOperationId = ''u0'',
           rp_channelData = Some [(''roundingMode'', ''ROUND'')], rp_roundingAccountId = None,
           rp_lines = [\<lparr>rl_originalPaymentItemId = ''i1'', rl_nominalAmount = ''5.0000'', rl_providerAmount = ''5.00''\<rparr>]\<rparr>\<rparr>)
     (checkout_message.fields None None None))"

text \<open>The purchase is opened, paid and captured; then refunded twice at once, the second request a retry.\<close>

definition sample_capturing :: "iyzico_move list" where
  "sample_capturing = Begin sample_purchase # replicate 2 (Run 0) @
     Begin (RequestCallback ''u0'' (Some ''tok'')) # replicate 4 (Run 0)"

definition sample_refunding_twice :: "iyzico_move list" where
  "sample_refunding_twice = sample_capturing @ [Begin sample_iyzico_refund, Begin sample_iyzico_refund] @ replicate 6 (Run 0)"

end
