(* ===== verification/Iyzico_Properties.thy ===== *)
theory Iyzico_Properties
  imports Iyzico_Submissions Iyzico_Sample
begin

text \<open>
  The worlds of the adapter that are reached, whatever the interleaving, the replies of the provider and
  the processes that die; and the properties of captures and refunds they have.
\<close>

section \<open>The invariant of the refunds\<close>

definition submissions_ok :: "iyzico_env \<Rightarrow> iyzico_world \<Rightarrow> bool" where
  "submissions_ok Z w \<longleftrightarrow> captures_ok Z w \<and> refunds_ok Z (iw_db w) \<and> task_refund_ok (iw_db w) (iw_tasks w)"

lemma begin_refund_run:
  assumes "begin_refund Z msg s = (t, Inr (refund, p))"
  obtains plan lines where "validate_refund Z msg = Inr (plan, lines)"
    "reserve_iyzico_refund Z msg plan lines s = (t, Inr (refund, p))"
  using assms unfolding begin_refund_def by (auto simp: res_simps split: prod.splits)

lemma begin_refund_Inl: "begin_refund Z msg s = (t, Inl e) \<Longrightarrow> t = s"
  unfolding begin_refund_def by (auto simp: res_simps split: prod.splits dest: transactionS_Inl)

lemma begin_checkout_refunds:
  assumes "begin_checkout Z msg s = (t, r)"
  shows "iz_refunds t = iz_refunds s \<and> iz_calls t = iz_calls s" "r = Inr ts \<Longrightarrow> held ts = [] \<and> claims ts = {}"
proof -
  have "preserves (\<lambda>u. iz_refunds u = iz_refunds s \<and> iz_calls u = iz_calls s) (begin_checkout Z msg)"
    unfolding begin_checkout_def prepare_operation_def
    by (intro preserves preservesI) (auto simp: drawIyzicoId_def insert_operation_def split: if_splits)
  from preservesD [OF this _ assms] show "iz_refunds t = iz_refunds s \<and> iz_calls t = iz_calls s" by simp
  assume "r = Inr ts"
  with assms show "held ts = [] \<and> claims ts = {}"
    by (auto simp: begin_checkout_def res_simps holds_def split: prod.splits if_splits)
qed

lemma begin_callback_run:
  assumes "begin_callback i token s = (t, r)"
  shows "t = s" "r = Inr ts \<Longrightarrow> held ts = [] \<and> claims ts = {}"
proof -
  show "t = s"
    using assms by (cases r) (auto simp: begin_callback_def find_operation_or_throw_def res_simps)
  show "r = Inr ts \<Longrightarrow> held ts = [] \<and> claims ts = {}"
    using assms by (auto simp: begin_callback_def find_operation_or_throw_def res_simps holds_def)
qed

lemma begin_launch_run:
  assumes "begin_launch Z i u s = (t, r)"
  shows "t = s" "r = Inr ts \<Longrightarrow> held ts = [] \<and> claims ts = {}"
proof -
  show "t = s"
    using assms by (cases r) (auto simp: begin_launch_def find_operation_or_throw_def res_simps)
  show "r = Inr ts \<Longrightarrow> held ts = [] \<and> claims ts = {}"
    using assms by (auto simp: begin_launch_def find_operation_or_throw_def res_simps holds_def)
qed

lemma fewer_refl: "fewer H H"
  by (auto simp: fewer_def)

lemma sub_ok_grow:
  assumes "sub_ok s H K" and "sub_later s t" and "refund_calls t = refund_calls s"
    and "\<forall>r \<in> K' - K. plan_of r \<in> set (plans t)"
  shows "sub_ok t H K'"
proof (rule sub_ok_later [OF assms(1-3) fewer_refl])
  show "distinct (map (\<lambda>h. ir_id (fst h)) H)" using assms(1) by (simp add: sub_ok_def)
  show "\<forall>h \<in> set H. holder_ok t h" by (rule holders_later [OF assms(1,2)])
  show "\<forall>r \<in> K'. plan_of r \<in> set (plans t)"
    using assms(1,2,4) by (auto simp: sub_ok_def sub_later_def)
qed

lemma appended_later: "sub_later s (appended refund s)"
  by (auto simp: sub_later_def plans_def is_claimed_def appended_def)

text \<open>What a new request does to the refunds.\<close>

lemma begin_refunds_ok:
  assumes B: "bigjs_ok (ie_big Z)" and ok: "ops_ok Z s" "refunds_ok Z s" "task_refund_ok s tasks"
    and run: "iyzico_begin Z req s = (t, r)" and later: "later s t"
  shows "refunds_ok Z t \<and> task_refund_ok t (tasks @ (case r of Inl e \<Rightarrow> [] | Inr ts \<Rightarrow> ts))"
proof -
  have same: ?thesis if "iz_refunds t = iz_refunds s" "iz_calls t = iz_calls s"
    "\<And>ts. r = Inr ts \<Longrightarrow> held ts = [] \<and> claims ts = {}"
  proof -
    have "plans t = plans s \<and> sub_later s t" by (rule sub_later_same [OF that(1)])
    with ok(3) refund_calls_same [OF that(2)] have "sub_ok t (held tasks) (claims tasks)"
      unfolding task_refund_ok_def by (blast intro: sub_ok_grow)
    moreover have "refunds_ok Z t" using refunds_ok_later [OF ok(2) _ later] sub_later_same [OF that(1)] by blast
    ultimately show ?thesis using that(3) by (cases r) (simp_all add: task_refund_ok_def)
  qed
  have reads: ?thesis if "t = s" "\<And>ts. r = Inr ts \<Longrightarrow> held ts = [] \<and> claims ts = {}"
    by (rule same) (use that in auto)
  show ?thesis
  proof (cases req)
    case (RequestInitialize msg)
    show ?thesis
    proof (cases "p_type (ci_payment msg) = REFUND")
      case False
      with run RequestInitialize have "begin_checkout Z msg s = (t, r)" by (simp add: iyzico_begin_def)
      from begin_checkout_refunds [OF this] show ?thesis by (intro same) blast+
    next
      case True
      obtain u q where q: "begin_refund Z (channel_init.truncate msg) s = (u, q)" by (rule prod.exhaust)
      show ?thesis
      proof (cases q)
        case (Inl e)
        with q have "u = s" using begin_refund_Inl by blast
        with run RequestInitialize True q Inl show ?thesis
          by (intro reads) (auto simp: iyzico_begin_def bindS_def)
      next
        case (Inr x)
        obtain refund p where x: "x = (refund, p)" by (rule prod.exhaust)
        from q [unfolded Inr x] obtain plan lines where
          v: "validate_refund Z (channel_init.truncate msg) = Inr (plan, lines)"
          and res: "reserve_iyzico_refund Z (channel_init.truncate msg) plan lines s = (u, Inr (refund, p))"
          by (rule begin_refund_run)
        from run RequestInitialize True q Inr x have t: "t = u" "r = Inr [Claiming refund p]"
          by (auto simp: iyzico_begin_def bindS_def returnS_def)
        from reservation_ok [OF B ok(1,2) v res] have R: "refunds_ok Z t" "plan_of refund \<in> set (plans t)"
          and tr: "t = s \<or> t = appended refund s" unfolding t(1) by auto
        have sl: "sub_later s t" using tr appended_later [of s refund] by (auto simp: sub_later_def)
        have rc: "refund_calls t = refund_calls s" using tr by (auto simp: refund_calls_def appended_def)
        have "sub_ok t (held tasks) (insert refund (claims tasks))"
          by (rule sub_ok_grow [OF ok(3) [unfolded task_refund_ok_def] sl rc]) (use R(2) in auto)
        with R(1) show ?thesis by (simp add: t(2) task_refund_ok_def holds_def)
      qed
    qed
  next
    case (RequestCallback i token)
    with run have "begin_callback i token s = (t, r)" by (simp add: iyzico_begin_def)
    from begin_callback_run [OF this] show ?thesis by (rule reads)
  next
    case (RequestLaunch i u)
    with run have "begin_launch Z i u s = (t, r)" by (simp add: iyzico_begin_def)
    from begin_launch_run [OF this] show ?thesis by (rule reads)
  next
    case (RequestCheck i)
    with run have "t = s" "r = Inr [Reading i]" by (simp_all add: iyzico_begin_def)
    then show ?thesis by (intro reads) (simp_all add: holds_def)
  next
    case (RequestCancel i)
    with run have "t = s" "r = Inr [ReadingToCancel i]" by (simp_all add: iyzico_begin_def)
    then show ?thesis by (intro reads) (simp_all add: holds_def)
  qed
qed

lemma task_refund_ok_drop: "task_refund_ok s (xs @ t # ys) \<Longrightarrow> task_refund_ok s (xs @ ys)"
proof -
  assume "task_refund_ok s (xs @ t # ys)"
  then have "sub_ok s (held xs @ held [t] @ held ys) (claims (xs @ t # ys))"
    unfolding task_refund_ok_def by (cases "holds t") simp_all
  then have "sub_ok s (held xs @ held ys) (claims xs \<union> claims ys)"
    by (rule sub_ok_drop) (auto simp: sub_later_def)
  then show "task_refund_ok s (xs @ ys)" by (simp add: task_refund_ok_def)
qed

lemma submissions_step:
  assumes B: "bigjs_ok (ie_big Z)" and step: "iyzico_step Z w v" and ok: "submissions_ok Z w"
  shows "submissions_ok Z v"
proof -
  have C: "captures_ok Z v" "later (iw_db w) (iw_db v)"
    using captures_step [OF B step] ok by (auto simp: submissions_ok_def)
  have w: "ops_ok Z (iw_db w)" "refunds_ok Z (iw_db w)" "task_refund_ok (iw_db w) (iw_tasks w)"
    using ok by (auto simp: submissions_ok_def captures_ok_def)
  from step show ?thesis
  proof cases
    case (begins req s ts)
    with C begin_refunds_ok [OF B w begins(2)] show ?thesis by (simp add: submissions_ok_def)
  next
    case (refuses req s e)
    with C begin_refunds_ok [OF B w refuses(2)] show ?thesis by (simp add: submissions_ok_def)
  next
    case (runs xs t ys s ts)
    from task_step_refunds [OF w(3) [unfolded runs(2)] w(2) runs(3)]
    have "task_refund_ok s (xs @ ts @ ys)" "plans s = plans (iw_db w)" by auto
    with C refunds_ok_later [OF w(2)] show ?thesis unfolding submissions_ok_def runs(1) by simp
  next
    case (dies xs t ys)
    with C w task_refund_ok_drop show ?thesis by (auto simp: submissions_ok_def)
  qed
qed

lemma submissions_start: "submissions_ok Z iyzico_start"
  by (simp add: submissions_ok_def captures_start)
    (simp add: iyzico_start_def refunds_ok_def plans_def task_refund_ok_def sub_ok_def claims_def refund_calls_def
      List.map_filter_def)

interpretation submissions: iyzico_invariant Z "\<lambda>w. bigjs_ok (ie_big Z) \<longrightarrow> submissions_ok Z w" for Z
  by unfold_locales (auto simp: submissions_start dest: submissions_step)

section \<open>Captures\<close>

abbreviation sampled :: iyzico_world where
  "sampled \<equiv> run_moves (sample_iyzico ''SUCCESS'') sample_refunding_twice"

text \<open>In the sample's run the purchase is captured and, although two requests race, refunded once.\<close>

lemma sample_result:
  "(map iy_status (iz_operations (iw_db sampled)), map rq_price (refund_calls (iw_db sampled)), iw_tasks sampled)
     = ([OS_COMPLETED], [''5.00''], [])"
  by code_simp

lemma sample_bigjs: "bigjs_ok (ie_big (sample_iyzico paid))"
  by (simp add: sample_iyzico_def)

text \<open>
  C4: in every world the adapter reaches, an operation recorded as completed has a reply of the provider
  in the log for this very operation, signed with the client's secret, that reports a successful payment,
  cleared of fraud, of the operation's basket, amount and currency; its saved transactions are one for
  each line of the basket and sum up to the amount. It was not cancelled, and it stays completed with the
  same transactions whatever runs afterwards.
\<close>

theorem iyzico_capture_verified:
  assumes "bigjs_ok (ie_big Z)" and "iyzico_steps Z iyzico_start w"
    and "row \<in> set (iz_operations (iw_db w))" and "iy_status row = OS_COMPLETED"
  shows "iy_cancellationState row = None \<and>
    (\<exists>result txs. iy_itemTransactions row = Some txs \<and>
       retrieved Z (iz_calls (iw_db w)) (iy_id row) result \<and> genuine_capture Z row result txs) \<and>
    (\<forall>v. iyzico_steps Z w v \<longrightarrow> (\<exists>row' \<in> set (iz_operations (iw_db v)). row_later row row'))"
proof -
  have ok: "captures_ok Z w" using captures.reached [OF assms(2)] assms(1) by blast
  with assms(3) have row: "row_ok Z (iz_calls (iw_db w)) row" by (simp add: captures_ok_def ops_ok_def)
  have "\<exists>row' \<in> set (iz_operations (iw_db v)). row_later row row'" if "iyzico_steps Z w v" for v
  proof -
    from that ok have "captures_ok Z v \<and> (\<exists>row' \<in> set (iz_operations (iw_db v)). row_later row row')"
    proof (induction rule: rtranclp_induct)
      case base
      with assms(3) row_later_refl show ?case by blast
    next
      case (step u v)
      then obtain row' where r: "row' \<in> set (iz_operations (iw_db u))" "row_later row row'" by blast
      from captures_step [OF assms(1) step(2)] step have "captures_ok Z v" "later (iw_db u) (iw_db v)" by auto
      with later_rows [OF _ r(1)] r(2) show ?case by (meson row_later_trans)
    qed
    then show ?thesis by blast
  qed
  with row assms(4) show ?thesis by (auto simp: row_ok_def evidenced_def)
qed

theorem iyzico_capture_verified_witness:
  "\<exists>row result txs. row \<in> set (iz_operations (iw_db sampled)) \<and> iy_status row = OS_COMPLETED \<and>
     iy_cancellationState row = None \<and> retrieved (sample_iyzico ''SUCCESS'') (iz_calls (iw_db sampled)) (iy_id row) result \<and>
     genuine_capture (sample_iyzico ''SUCCESS'') row result txs"
proof -
  from sample_result have "OS_COMPLETED \<in> set (map iy_status (iz_operations (iw_db sampled)))" by simp
  then obtain row where row: "row \<in> set (iz_operations (iw_db sampled))" "iy_status row = OS_COMPLETED" by auto
  from iyzico_capture_verified [OF sample_bigjs run_moves_steps row] row show ?thesis by blast
qed

section \<open>Refunds\<close>

text \<open>The calls that refund a transaction of a capture.\<close>

definition refund_calls_for :: "iyzico_db \<Rightarrow> string \<Rightarrow> string \<Rightarrow> refund_call list" where
  "refund_calls_for s i t =
     filter (\<lambda>q. rq_paymentTransactionId q = t \<and>
       rq_conversationId q \<in> set (map il_conversationId
         (concat (map ir_lines (filter (\<lambda>r. ir_originalOperationId r = i) (iz_refunds s)))))) (refund_calls s)"

lemma sum_list_choice_le:
  fixes g :: "'a \<Rightarrow> rat"
  assumes "distinct (map c C)" and "\<And>q. q \<in> set C \<Longrightarrow> \<exists>l \<in> set L. d l = c q \<and> f l = g q"
    and "\<And>l. l \<in> set L \<Longrightarrow> 0 \<le> f l"
  shows "(\<Sum>q\<leftarrow>C. g q) \<le> (\<Sum>l\<leftarrow>L. f l)"
  using assms
proof (induction C arbitrary: L)
  case Nil
  have "0 \<le> (\<Sum>l\<leftarrow>L. f l)" by (rule sum_list_nonneg) (use Nil.prems(3) in auto)
  then show ?case by simp
next
  case (Cons q C)
  then obtain l where l: "l \<in> set L" "d l = c q" "f l = g q" by (metis list.set_intros(1))
  have "(\<Sum>x\<leftarrow>C. g x) \<le> (\<Sum>x\<leftarrow>remove1 l L. f x)"
  proof (rule Cons.IH)
    show "distinct (map c C)" using Cons.prems(1) by simp
    show "0 \<le> f x" if "x \<in> set (remove1 l L)" for x using Cons.prems(3) that notin_set_remove1 by fastforce
    show "\<exists>x \<in> set (remove1 l L). d x = c p \<and> f x = g p" if p: "p \<in> set C" for p
    proof -
      from Cons.prems(2) [of p] p obtain x where x: "x \<in> set L" "d x = c p" "f x = g p" by auto
      have "c p \<noteq> c q" using Cons.prems(1) p by (auto simp: image_iff)
      then have "x \<noteq> l" using x l by auto
      with x show ?thesis by (metis in_set_remove1)
    qed
  qed
  then show ?case using sum_list_map_remove1 [OF l(1), of f] l(3) by simp
qed

lemma conversations_plans:
  "set (map il_conversationId (concat (map ir_lines (filter (\<lambda>r. ir_originalOperationId r = i) (iz_refunds s))))) =
   set (map il_conversationId (concat (map ir_lines (filter (\<lambda>r. ir_originalOperationId r = i) (plans s)))))"
  by (simp add: plans_def filter_map comp_def image_UN image_image)

text \<open>A call for a transaction of a capture is a line reserved_total for its item.\<close>

lemma call_line:
  assumes ok: "ops_ok Z s" "refunds_ok Z s" and op: "operation \<in> set (iz_operations s)" "iy_status operation = OS_COMPLETED"
    and tx: "tx \<in> set (nullish (iy_itemTransactions operation) [])"
    and q: "explained s H q" "q \<in> set (refund_calls_for s (iy_id operation) (tx_paymentTransactionId tx))"
  shows "\<exists>l \<in> set (prior_lines (filter (\<lambda>r. ir_originalOperationId r = iy_id operation) (plans s)) (tx_paymentItemId tx)).
    il_conversationId l = rq_conversationId q \<and> provider Z l = big_value Z (rq_price q)"
proof -
  from q(1) obtain r k where r: "r \<in> set (plans s)" "k < length (ir_lines r)" "q = refund_call_of r (ir_lines r ! k)"
    by (auto simp: explained_def)
  let ?l = "ir_lines r ! k"
  have l: "?l \<in> set (ir_lines r)" using r(2) by simp
  from q(2) obtain y m where y: "y \<in> set (plans s)" "ir_originalOperationId y = iy_id operation"
      "m \<in> set (ir_lines y)" "il_conversationId m = rq_conversationId q"
    unfolding refund_calls_for_def conversations_plans by auto
  then obtain j where j: "j < length (ir_lines y)" "m = ir_lines y ! j" by (auto simp: in_set_conv_nth)
  have conv: "x \<in> set (plans s) \<Longrightarrow> n < length (ir_lines x) \<Longrightarrow>
      il_conversationId (ir_lines x ! n) = ir_id x @ '':'' @ nat_text n" for x n
    using ok(2) by (simp add: refunds_ok_def plan_ok_def)
  have "ir_id y = ir_id r"
    using conv [OF y(1) j(1)] conv [OF r(1,2)] y(4) r(3) j(2) colon_split by (metis refund_call.select_convs(1) refund_call_of_def)
  then have "y = r" using ok(2) y(1) r(1) by (auto simp: refunds_ok_def distinct_map dest: inj_onD)
  then have orig: "ir_originalOperationId r = iy_id operation" using y(2) by simp
  from ok(2) r(1) l have "line_ok Z (iz_operations s) (plans s) r ?l" by (simp add: refunds_ok_def plan_ok_def)
  then obtain x ty where x: "x \<in> set (iz_operations s)" "iy_id x = ir_originalOperationId r"
      "ty \<in> set (nullish (iy_itemTransactions x) [])" "tx_paymentItemId ty = rl_originalPaymentItemId ?l"
      "tx_paymentTransactionId ty = il_paymentTransactionId ?l" by (auto simp: line_ok_def)
  have "x = operation" using same_operation [OF ok(1) x(1) op(1)] x(2) orig by simp
  moreover have "il_paymentTransactionId ?l = tx_paymentTransactionId tx"
    using q(2) r(3) by (simp add: refund_calls_for_def refund_call_of_def)
  ultimately have "ty = tx"
    using completed_transactions(2) [OF ok(1) op] x(3,5) tx by (auto simp: distinct_map dest: inj_onD)
  then have "?l \<in> set (prior_lines (filter (\<lambda>r. ir_originalOperationId r = iy_id operation) (plans s)) (tx_paymentItemId tx))"
    using r(1) orig l x(4) by (auto simp: prior_lines_def)
  moreover have "il_conversationId ?l = rq_conversationId q" "provider Z ?l = big_value Z (rq_price q)"
    by (simp_all add: r(3) refund_call_of_def)
  ultimately show ?thesis by blast
qed

text \<open>
  C3: whatever requests arrive and interleave, retries, crashes and lost replies included, every call that
  refunds is for a transaction of a completed capture, no line of a refund is submitted twice, and the
  calls for one transaction together ask the provider for no more than was paid in it.
\<close>

theorem iyzico_refunds_safe:
  assumes "bigjs_ok (ie_big Z)" and "iyzico_steps Z iyzico_start w"
  shows "distinct (map rq_conversationId (refund_calls (iw_db w))) \<and>
    (\<forall>q \<in> set (refund_calls (iw_db w)). \<exists>row \<in> set (iz_operations (iw_db w)).
       iy_status row = OS_COMPLETED \<and>
       (\<exists>tx \<in> set (nullish (iy_itemTransactions row) []).
          q \<in> set (refund_calls_for (iw_db w) (iy_id row) (tx_paymentTransactionId tx)) \<and>
          (\<Sum>c\<leftarrow>refund_calls_for (iw_db w) (iy_id row) (tx_paymentTransactionId tx). big_value Z (rq_price c))
            \<le> big_value Z (tx_paidPrice tx)))"
proof -
  let ?s = "iw_db w"
  have inv: "submissions_ok Z w" using submissions.reached [OF assms(2)] assms(1) by blast
  then have ok: "ops_ok Z ?s" "refunds_ok Z ?s" and sub: "sub_ok ?s (held (iw_tasks w)) (claims (iw_tasks w))"
    by (auto simp: submissions_ok_def captures_ok_def task_refund_ok_def)
  from sub have d: "distinct (map rq_conversationId (refund_calls ?s))"
    and ex: "\<And>q. q \<in> set (refund_calls ?s) \<Longrightarrow> explained ?s (held (iw_tasks w)) q" by (auto simp: sub_ok_def)
  have "\<exists>row \<in> set (iz_operations ?s). iy_status row = OS_COMPLETED \<and>
       (\<exists>tx \<in> set (nullish (iy_itemTransactions row) []).
          q \<in> set (refund_calls_for ?s (iy_id row) (tx_paymentTransactionId tx)) \<and>
          (\<Sum>c\<leftarrow>refund_calls_for ?s (iy_id row) (tx_paymentTransactionId tx). big_value Z (rq_price c))
            \<le> big_value Z (tx_paidPrice tx))" if q: "q \<in> set (refund_calls ?s)" for q
  proof -
    from ex [OF q] obtain r k where r: "r \<in> set (plans ?s)" "k < length (ir_lines r)"
      "q = refund_call_of r (ir_lines r ! k)" by (auto simp: explained_def)
    let ?l = "ir_lines r ! k"
    from r(1,2) ok(2) have "line_ok Z (iz_operations ?s) (plans ?s) r ?l" by (simp add: refunds_ok_def plan_ok_def)
    then obtain row tx where row: "row \<in> set (iz_operations ?s)" "iy_id row = ir_originalOperationId r"
        "iy_status row = OS_COMPLETED"
      and tx: "tx \<in> set (nullish (iy_itemTransactions row) [])" "tx_paymentTransactionId tx = il_paymentTransactionId ?l"
        "covers Z (plans ?s) (iy_id row) tx" by (auto simp: line_ok_def)
    let ?C = "refund_calls_for ?s (iy_id row) (tx_paymentTransactionId tx)"
    let ?L = "prior_lines (filter (\<lambda>r. ir_originalOperationId r = iy_id row) (plans ?s)) (tx_paymentItemId tx)"
    have "q \<in> set ?C"
      using q r row(2) tx(2) unfolding refund_calls_for_def conversations_plans by (force simp: refund_call_of_def)
    moreover have "(\<Sum>c\<leftarrow>?C. big_value Z (rq_price c)) \<le> (\<Sum>l\<leftarrow>?L. provider Z l)"
    proof (rule sum_list_choice_le)
      show "distinct (map rq_conversationId ?C)" unfolding refund_calls_for_def by (rule distinct_map_filter [OF d])
      show "\<exists>l \<in> set ?L. il_conversationId l = rq_conversationId c \<and> provider Z l = big_value Z (rq_price c)"
        if "c \<in> set ?C" for c
        using call_line [OF ok row(1,3) tx(1) ex that] that by (simp add: refund_calls_for_def)
      show "0 \<le> provider Z l" if "l \<in> set ?L" for l
        using that ok(2) by (auto simp: prior_lines_def refunds_ok_def plan_ok_def line_ok_def)
    qed
    moreover have "(\<Sum>l\<leftarrow>?L. provider Z l) \<le> big_value Z (tx_paidPrice tx)"
      using tx(3) by (simp add: covers_def reserved_total_def)
    ultimately show ?thesis
      using row tx by (intro bexI [of _ row] conjI bexI [of _ tx]) (auto elim: order_trans)
  qed
  with d show ?thesis by blast
qed

theorem iyzico_refunds_safe_witness:
  "\<exists>q. refund_calls (iw_db sampled) = [q] \<and> big_value (sample_iyzico ''SUCCESS'') (rq_price q) = 5 \<and>
     (\<exists>row \<in> set (iz_operations (iw_db sampled)). \<exists>tx \<in> set (nullish (iy_itemTransactions row) []).
        (\<Sum>c\<leftarrow>refund_calls_for (iw_db sampled) (iy_id row) (tx_paymentTransactionId tx).
           big_value (sample_iyzico ''SUCCESS'') (rq_price c)) \<le> big_value (sample_iyzico ''SUCCESS'') (tx_paidPrice tx))"
proof -
  from sample_result obtain q where q: "refund_calls (iw_db sampled) = [q]" "rq_price q = ''5.00''" by auto
  have "big_or_zero exact_bigjs ''5.00'' = 5" by code_simp
  then have "big_value (sample_iyzico ''SUCCESS'') (rq_price q) = 5" by (simp add: q(2) sample_iyzico_def)
  with q(1) iyzico_refunds_safe [OF sample_bigjs run_moves_steps, of "''SUCCESS''" sample_refunding_twice]
  show ?thesis by auto
qed

end
