(* ===== verification/Iyzico_Cancellation.thy ===== *)
theory Iyzico_Cancellation
  imports Iyzico_Sample
begin

text \<open>
  A run that the comment of \<open>cancel\<close> does not foresee: the buyer pays between the question of \<open>cancel\<close>
  to the provider and its update, and the browser's callback has read the operation before that update.
  The callback is answered, the operation stays cancelled, and nobody notices the payment.
\<close>

section \<open>The race\<close>

text \<open>A provider whose first answer is of a failed attempt, and every later one of a payment.\<close>

definition late_payment :: iyzico_env where
  "late_payment = (sample_iyzico ''SUCCESS'')\<lparr>ie_sdk := (\<lambda>asks c.
     if list_ex (\<lambda>a. case a of CallRetrieve token i \<Rightarrow> True | _ \<Rightarrow> False) asks
     then sample_sdk ''SUCCESS'' asks c else sample_sdk ''FAILURE'' asks c)\<rparr>"

text \<open>The tasks after the fourth move are the cancellation, and the callback behind it.\<close>

definition racing :: "iyzico_move list" where
  "racing = [Begin sample_purchase, Run 0, Run 0, Begin (RequestCancel ''u0''), Run 0, Run 0,
     Begin (RequestCallback ''u0'' (Some ''tok'')), Run 0, Run 0, Run 0]"

lemma late_payment_unnoticed:
  "map (\<lambda>r. (iy_status r, iy_cancellationState r, iy_callbackReceived r))
     (iz_operations (iw_db (run_moves late_payment racing))) = [(OS_FAILED, Some CS_CANCELLED, True)] \<and>
   iw_tasks (run_moves late_payment racing) = []"
  by code_simp

end
