(* ===== verification/Encryption.thy ===== *)
theory Encryption
  imports Prelude
begin

text \<open>
  \<open>cryption-util.ts\<close>: the encryption of single fields, which can be switched off or to reading only, and
  what two configurations must have in common for a field to be read back.
\<close>

section \<open>CryptionUtil\<close>

text \<open>
  \<open>CryptionUtil\<close>: the cipher of the configured algorithm, key and vector is Node's (\<open>None\<close>: it throws);
  \<open>ce_mode\<close> is \<open>POSTRAL_SENSITIVE_DATA_ENCRYPTION_ENABLED\<close>.
\<close>

record crypt_env =
  ce_mode :: "string option"
  ce_encrypt :: "string \<Rightarrow> string option"
  ce_decrypt :: "string \<Rightarrow> string option"

datatype on_error = THROW | USE_DEFAULT

definition encryptWithConfig :: "crypt_env \<Rightarrow> string option \<Rightarrow> on_error \<Rightarrow> string option res" where
  "encryptWithConfig K text onError =
     (if ce_mode K \<noteq> Some ''true'' then Inr text
      else case text of
        None \<Rightarrow> Inr None
      | Some x \<Rightarrow> (case ce_encrypt K x of
          Some c \<Rightarrow> Inr (Some c)
        | None \<Rightarrow> if onError = THROW then Inl (JsError ''Error encrypting data'') else Inr (Some x)))"

definition decryptWithConfig :: "crypt_env \<Rightarrow> string option \<Rightarrow> on_error \<Rightarrow> string option res" where
  "decryptWithConfig K text onError =
     (if ce_mode K \<noteq> Some ''true'' \<and> ce_mode K \<noteq> Some ''false-decrypt'' then Inr text
      else case text of
        None \<Rightarrow> Inr None
      | Some c \<Rightarrow> (case ce_decrypt K c of
          Some x \<Rightarrow> Inr (Some x)
        | None \<Rightarrow> if onError = THROW then Inl (JsError ''Error decrypting data'') else Inr (Some c)))"

text \<open>What the code asks of a cipher, and two configurations that agree on what is stored.\<close>

definition cipher_ok :: "crypt_env \<Rightarrow> bool" where
  "cipher_ok K \<longleftrightarrow> (\<forall>x c. ce_encrypt K x = Some c \<longrightarrow> ce_decrypt K c = Some x)"

definition same_keys :: "crypt_env \<Rightarrow> crypt_env \<Rightarrow> bool" where
  "same_keys K K' \<longleftrightarrow> ce_decrypt K' = ce_decrypt K \<and>
     (if ce_mode K = Some ''true'' then ce_mode K' \<in> {Some ''true'', Some ''false-decrypt''}
      else ce_mode K' \<notin> {Some ''true'', Some ''false-decrypt''})"

lemma encrypted_text_read:
  assumes "cipher_ok K" and "same_keys K K'" and "encryptWithConfig K (Some x) THROW = Inr y"
  shows "decryptWithConfig K' y USE_DEFAULT = Inr (Some x)"
  using assms by (auto simp: cipher_ok_def same_keys_def encryptWithConfig_def decryptWithConfig_def
      split: if_splits option.splits)

end
