(* ===== verification/Webhooks.thy ===== *)
theory Webhooks
  imports Encryption
begin

text \<open>
  \<open>webhook-config.service.ts\<close> and \<open>webhook-dispatch.service.ts\<close> with their entities: the subscriptions of accounts, the events sent to
  them, and the repetition of deliveries that failed. Every handler is one step; what happens when two
  passes over the pending events overlap is shown at the end.
\<close>

section \<open>Tables\<close>

datatype webhook_method = METHOD_POST | METHOD_PUT

record webhook_config =
  wc_id :: string
  wc_accountId :: string
  wc_url :: string
  wc_method :: webhook_method
  wc_eventKey :: string
  wc_isEnabled :: bool
  wc_createdAt :: nat
  wc_updatedAt :: nat

record webhook_log =
  wl_id :: string
  wl_webhookConfigId :: string
  wl_eventType :: string
  wl_payload :: string
  wl_statusCode :: "int option"
  wl_responseBody :: "string option"
  wl_retryCount :: nat
  wl_retryAfter :: "nat option"
  wl_occurredAt :: nat
  wl_deliveredAt :: "nat option"

text \<open>
  A request as \<open>axios\<close> sends it, and its outcome: the status and the JSON text of the data, or the status of
  an error's response, the JSON text of its data when that is truthy, and the error's message.
\<close>

record http_call =
  hc_method :: webhook_method
  hc_url :: string
  hc_eventKey :: string
  hc_body :: string

datatype http_reply =
    HttpOk int "string option"
  | HttpError "int option" "string option" "string option"

text \<open>The database, and the requests sent so far, each with the log entry it was sent for.\<close>

record delivery =
  dl_logId :: string
  dl_call :: http_call
  dl_reply :: http_reply

record webhook_db =
  wh_configs :: "webhook_config list"
  wh_logs :: "webhook_log list"
  wh_sent :: "delivery list"
  wh_seq :: nat

record webhook_env =
  wx_uuid :: "nat \<Rightarrow> string"
  wx_random :: "nat \<Rightarrow> string"
  wx_crypt :: crypt_env
  wx_now :: "delivery list \<Rightarrow> nat"
  wx_iso :: "nat \<Rightarrow> string"
  wx_http :: "delivery list \<Rightarrow> http_call \<Rightarrow> http_reply"

definition webhook_draw :: "(nat \<Rightarrow> string) \<Rightarrow> (webhook_db, string) act" where
  "webhook_draw U s = (s\<lparr>wh_seq := Suc (wh_seq s)\<rparr>, Inr (U (wh_seq s)))"

definition webhook_clock :: "webhook_env \<Rightarrow> (webhook_db, nat) act" where
  "webhook_clock X = readS (\<lambda>s. wx_now X (wh_sent s))"

definition save_config :: "webhook_config \<Rightarrow> webhook_db \<Rightarrow> webhook_db" where
  "save_config c s = s\<lparr>wh_configs := upsert wc_id c (wh_configs s)\<rparr>"

definition save_event_log :: "webhook_log \<Rightarrow> webhook_db \<Rightarrow> webhook_db" where
  "save_event_log l s = s\<lparr>wh_logs := upsert wl_id l (wh_logs s)\<rparr>"

definition find_config :: "string \<Rightarrow> webhook_db \<Rightarrow> webhook_config option" where
  "find_config i s = by_key wc_id (wh_configs s) i"

definition findRawByAccountId :: "string \<Rightarrow> webhook_db \<Rightarrow> webhook_config option" where
  "findRawByAccountId account s = List.find (\<lambda>c. wc_accountId c = account) (wh_configs s)"

section \<open>WebhookConfigService\<close>

record webhook_dto =
  wd_id :: string
  wd_accountId :: string
  wd_url :: string
  wd_method :: webhook_method
  wd_eventKey :: string
  wd_isEnabled :: bool
  wd_createdAt :: nat
  wd_updatedAt :: nat

record webhook_create =
  wcr_accountId :: string
  wcr_url :: string
  wcr_method :: "webhook_method option"
  wcr_eventKey :: "string option"

record webhook_update =
  wup_url :: "string option"
  wup_method :: "webhook_method option"
  wup_eventKey :: "string option"
  wup_isEnabled :: "bool option"

definition webhook_toDto :: "webhook_config \<Rightarrow> string option \<Rightarrow> webhook_dto" where
  "webhook_toDto c plainKey =
     \<lparr>wd_id = wc_id c, wd_accountId = wc_accountId c, wd_url = wc_url c, wd_method = wc_method c,
      wd_eventKey = nullish plainKey ''***'', wd_isEnabled = wc_isEnabled c,
      wd_createdAt = wc_createdAt c, wd_updatedAt = wc_updatedAt c\<rparr>"

definition encrypted_key :: "webhook_env \<Rightarrow> string \<Rightarrow> (webhook_db, string) act" where
  "encrypted_key X rawKey =
     bindS (liftS (encryptWithConfig (wx_crypt X) (Some rawKey) THROW)) (\<lambda>k. returnS (nullish k []))"

definition create_webhook :: "webhook_env \<Rightarrow> webhook_create \<Rightarrow> (webhook_db, webhook_dto) act" where
  "create_webhook X dto =
     bindS (if truthy (wcr_eventKey dto) then returnS (nullish (wcr_eventKey dto) [])
            else webhook_draw (wx_random X)) (\<lambda>rawKey.
     bindS (encrypted_key X rawKey) (\<lambda>encryptedKey.
     bindS (webhook_draw (wx_uuid X)) (\<lambda>i.
     bindS (webhook_clock X) (\<lambda>now.
     let saved =
       \<lparr>wc_id = i, wc_accountId = wcr_accountId dto, wc_url = wcr_url dto,
        wc_method = nullish (wcr_method dto) METHOD_POST, wc_eventKey = encryptedKey,
        wc_isEnabled = True, wc_createdAt = now, wc_updatedAt = now\<rparr> in
     bindS (modifyS (save_config saved)) (\<lambda>_.
     returnS (webhook_toDto saved (Some rawKey)))))))"

definition find_config_or_throw :: "string \<Rightarrow> (webhook_db, webhook_config) act" where
  "find_config_or_throw i =
     bindS (readS (find_config i)) (\<lambda>found.
     liftS (of_option (NotFound ''WebhookConfig not found'') found))"

definition update_webhook :: "webhook_env \<Rightarrow> string \<Rightarrow> webhook_update \<Rightarrow> (webhook_db, webhook_dto) act" where
  "update_webhook X i dto =
     bindS (find_config_or_throw i) (\<lambda>found.
     let changed = found\<lparr>wc_url := nullish (wup_url dto) (wc_url found),
       wc_method := nullish (wup_method dto) (wc_method found),
       wc_isEnabled := nullish (wup_isEnabled dto) (wc_isEnabled found)\<rparr> in
     bindS (case wup_eventKey dto of
         None \<Rightarrow> returnS (wc_eventKey changed)
       | Some k \<Rightarrow> encrypted_key X k) (\<lambda>key.
     bindS (webhook_clock X) (\<lambda>now.
     let saved = changed\<lparr>wc_eventKey := key, wc_updatedAt := now\<rparr> in
     bindS (modifyS (save_config saved)) (\<lambda>_.
     returnS (webhook_toDto saved None)))))"

text \<open>Removing a configuration removes its log entries (\<open>onDelete: 'CASCADE'\<close>).\<close>

definition remove_config :: "string \<Rightarrow> webhook_db \<Rightarrow> webhook_db" where
  "remove_config i s =
     s\<lparr>wh_configs := filter (\<lambda>c. wc_id c \<noteq> i) (wh_configs s),
       wh_logs := filter (\<lambda>l. wl_webhookConfigId l \<noteq> i) (wh_logs s)\<rparr>"

definition delete_webhook :: "string \<Rightarrow> (webhook_db, unit) act" where
  "delete_webhook i = bindS (find_config_or_throw i) (\<lambda>found. modifyS (remove_config (wc_id found)))"

definition regenerateEventKey :: "webhook_env \<Rightarrow> string \<Rightarrow> (webhook_db, webhook_dto) act" where
  "regenerateEventKey X i =
     bindS (find_config_or_throw i) (\<lambda>found.
     bindS (webhook_draw (wx_random X)) (\<lambda>rawKey.
     bindS (encrypted_key X rawKey) (\<lambda>key.
     bindS (webhook_clock X) (\<lambda>now.
     let saved = found\<lparr>wc_eventKey := key, wc_updatedAt := now\<rparr> in
     bindS (modifyS (save_config saved)) (\<lambda>_.
     returnS (webhook_toDto saved (Some rawKey)))))))"

definition findByAccountId :: "string \<Rightarrow> webhook_db \<Rightarrow> webhook_dto option" where
  "findByAccountId account s =
     map_option (\<lambda>c. webhook_toDto c None) (findRawByAccountId account s)"

section \<open>The text of an event\<close>

datatype webhook_event_type = PAYMENT_COMPLETED | INVOICE_UPLOADED | INVOICE_FINALIZED

fun event_type_text :: "webhook_event_type \<Rightarrow> string" where
  "event_type_text PAYMENT_COMPLETED = ''PAYMENT_COMPLETED''"
| "event_type_text INVOICE_UPLOADED = ''INVOICE_UPLOADED''"
| "event_type_text INVOICE_FINALIZED = ''INVOICE_FINALIZED''"

text \<open>
  \<open>JSON.stringify\<close> of an object whose fields are strings; a field that is \<open>undefined\<close> is left out by the
  caller's list. Spreading an object keeps the place of a field that is given again.
\<close>

definition json_hex :: "nat \<Rightarrow> char" where
  "json_hex n = (''0123456789abcdef'' ! n)"

definition json_char :: "char \<Rightarrow> string" where
  "json_char c =
     (if c = CHR 0x22 then [CHR 0x5C, CHR 0x22]
      else if c = CHR 0x5C then [CHR 0x5C, CHR 0x5C]
      else if c = CHR 0x08 then [CHR 0x5C, CHR ''b'']
      else if c = CHR 0x0C then [CHR 0x5C, CHR ''f'']
      else if c = CHR 0x0A then [CHR 0x5C, CHR ''n'']
      else if c = CHR 0x0D then [CHR 0x5C, CHR ''r'']
      else if c = CHR 0x09 then [CHR 0x5C, CHR ''t'']
      else if of_char c < (32 :: nat)
        then [CHR 0x5C, CHR ''u'', CHR ''0'', CHR ''0'', json_hex (of_char c div 16), json_hex (of_char c mod 16)]
      else [c])"

definition json_quote :: "string \<Rightarrow> string" where
  "json_quote x = [CHR 0x22] @ concat (map json_char x) @ [CHR 0x22]"

fun json_fields :: "(string \<times> string) list \<Rightarrow> string" where
  "json_fields [] = []"
| "json_fields [(k, v)] = json_quote k @ '':'' @ json_quote v"
| "json_fields ((k, v) # f # fs) = json_quote k @ '':'' @ json_quote v @ '','' @ json_fields (f # fs)"

definition json_object_text :: "(string \<times> string) list \<Rightarrow> string" where
  "json_object_text fs = ''{'' @ json_fields fs @ ''}''"

definition full_payload :: "webhook_event_type \<Rightarrow> string \<Rightarrow> (string \<times> string) list \<Rightarrow> (string \<times> string) list" where
  "full_payload eventType occurredAt payload =
     upsert fst (''occurredAt'', occurredAt)
       (upsert fst (''eventType'', event_type_text eventType) payload)"

section \<open>WebhookDispatchService\<close>

definition MAX_RETRY_COUNT :: nat where "MAX_RETRY_COUNT = 3"

definition RETRY_DELAY_SECONDS :: nat where "RETRY_DELAY_SECONDS = 60"

text \<open>\<open>save\<close> does not write a property that is \<open>undefined\<close>: the column keeps what it has.\<close>

definition written :: "'a option \<Rightarrow> 'a option \<Rightarrow> 'a option" where
  "written new old = (case new of None \<Rightarrow> old | Some v \<Rightarrow> Some v)"

fun after_attempt :: "http_reply \<Rightarrow> nat \<Rightarrow> webhook_log \<Rightarrow> webhook_log" where
  "after_attempt (HttpOk status data) now l =
     l\<lparr>wl_statusCode := Some status,
       wl_responseBody := written (map_option (take 2000) data) (wl_responseBody l),
       wl_deliveredAt := Some now\<rparr>"
| "after_attempt (HttpError status data message) now l =
     (let n = Suc (wl_retryCount l) in
      l\<lparr>wl_statusCode := written status (wl_statusCode l),
        wl_responseBody := written (case data of Some d \<Rightarrow> Some (take 2000 d) | None \<Rightarrow> message) (wl_responseBody l),
        wl_retryCount := n,
        wl_retryAfter := (if n < MAX_RETRY_COUNT then Some (now + RETRY_DELAY_SECONDS * 1000)
          else wl_retryAfter l)\<rparr>)"

definition http_send :: "webhook_env \<Rightarrow> string \<Rightarrow> http_call \<Rightarrow> (webhook_db, http_reply) act" where
  "http_send X i call s =
     (let reply = wx_http X (wh_sent s) call in
      (s\<lparr>wh_sent := wh_sent s @ [\<lparr>dl_logId = i, dl_call = call, dl_reply = reply\<rparr>]\<rparr>, Inr reply))"

definition attemptDelivery ::
  "webhook_env \<Rightarrow> webhook_log \<Rightarrow> string \<Rightarrow> webhook_method \<Rightarrow> string \<Rightarrow> string \<Rightarrow> (webhook_db, unit) act"
where
  "attemptDelivery X l url meth encryptedEventKey payloadStr =
     bindS (liftS (decryptWithConfig (wx_crypt X) (Some encryptedEventKey) USE_DEFAULT)) (\<lambda>eventKey.
     bindS (http_send X (wl_id l)
       \<lparr>hc_method = meth, hc_url = url, hc_eventKey = nullish eventKey [], hc_body = payloadStr\<rparr>) (\<lambda>reply.
     bindS (webhook_clock X) (\<lambda>now.
     modifyS (save_event_log (after_attempt reply now l)))))"

definition send_event ::
  "webhook_env \<Rightarrow> string \<Rightarrow> webhook_event_type \<Rightarrow> (string \<times> string) list \<Rightarrow> (webhook_db, unit) act"
where
  "send_event X accountId eventType payload =
     bindS (readS (findRawByAccountId accountId)) (\<lambda>found.
     case found of
       None \<Rightarrow> returnS ()
     | Some config \<Rightarrow>
         if \<not> wc_isEnabled config then returnS ()
         else
           bindS (webhook_clock X) (\<lambda>now.
           let payloadStr = json_object_text (full_payload eventType (wx_iso X now) payload) in
           bindS (webhook_draw (wx_uuid X)) (\<lambda>i.
           let l = \<lparr>wl_id = i, wl_webhookConfigId = wc_id config, wl_eventType = event_type_text eventType,
             wl_payload = payloadStr, wl_statusCode = None, wl_responseBody = None, wl_retryCount = 0,
             wl_retryAfter = None, wl_occurredAt = now, wl_deliveredAt = None\<rparr> in
           bindS (modifyS (save_event_log l)) (\<lambda>_.
           attemptDelivery X l (wc_url config) (wc_method config) (wc_eventKey config) payloadStr))))"

definition retry_pending :: "nat \<Rightarrow> webhook_log \<Rightarrow> bool" where
  "retry_pending now l \<longleftrightarrow> wl_deliveredAt l = None \<and> wl_retryCount l < MAX_RETRY_COUNT \<and>
     (case wl_retryAfter l of None \<Rightarrow> True | Some at \<Rightarrow> at \<le> now)"

definition pending_logs :: "nat \<Rightarrow> webhook_db \<Rightarrow> (webhook_log \<times> webhook_config) list" where
  "pending_logs now s =
     List.map_filter (\<lambda>l. map_option (Pair l) (find_config (wl_webhookConfigId l) s))
       (filter (retry_pending now) (wh_logs s))"

definition retry_log :: "webhook_env \<Rightarrow> webhook_log \<times> webhook_config \<Rightarrow> (webhook_db, unit) act" where
  "retry_log X lc =
     (case lc of (l, config) \<Rightarrow>
        if \<not> wc_isEnabled config then returnS ()
        else attemptDelivery X l (wc_url config) (wc_method config) (wc_eventKey config) (wl_payload l))"

definition retryPending :: "webhook_env \<Rightarrow> (webhook_db, unit) act" where
  "retryPending X =
     bindS (webhook_clock X) (\<lambda>now.
     bindS (readS (pending_logs now)) (\<lambda>logs.
     forS logs (retry_log X)))"

end
