(* ===== verification/Webhook_Properties.thy ===== *)
theory Webhook_Properties
  imports Webhooks
begin

text \<open>
  What a subscriber may rely on: how often an event is sent, with which key, and when no more. The
  invariant relates each log entry to the requests sent for it.
\<close>

section \<open>The requests of an event\<close>

definition attempts :: "string \<Rightarrow> delivery list \<Rightarrow> delivery list" where
  "attempts i ds = filter (\<lambda>d. dl_logId d = i) ds"

fun refused :: "http_reply \<Rightarrow> bool" where
  "refused (HttpOk status data) = False"
| "refused (HttpError status data message) = True"

abbreviation missed :: "delivery \<Rightarrow> bool" where
  "missed d \<equiv> refused (dl_reply d)"

text \<open>An entry says of its requests what there is to say: how many failed, and whether the last was accepted.\<close>

definition log_matches :: "webhook_log \<Rightarrow> delivery list \<Rightarrow> bool" where
  "log_matches l ds \<longleftrightarrow> length ds \<le> MAX_RETRY_COUNT \<and> (\<forall>d \<in> set ds. hc_body (dl_call d) = wl_payload l) \<and>
     (\<forall>d \<in> set (butlast ds). missed d) \<and> wl_retryCount l = length (filter missed ds) \<and>
     (wl_deliveredAt l = None \<longleftrightarrow> (\<forall>d \<in> set ds. missed d))"

definition webhooks_ok :: "(nat \<Rightarrow> string) \<Rightarrow> webhook_db \<Rightarrow> bool" where
  "webhooks_ok U s \<longleftrightarrow> distinct (map wl_id (wh_logs s)) \<and>
     wl_id ` set (wh_logs s) \<subseteq> U ` {..< wh_seq s} \<and> dl_logId ` set (wh_sent s) \<subseteq> U ` {..< wh_seq s} \<and>
     (\<forall>i. length (attempts i (wh_sent s)) \<le> MAX_RETRY_COUNT \<and> (\<forall>d \<in> set (butlast (attempts i (wh_sent s))). missed d)) \<and>
     (\<forall>l \<in> set (wh_logs s). log_matches l (attempts (wl_id l) (wh_sent s)))"

lemma attempts_snoc [simp]:
  "attempts i (ds @ [d]) = (if dl_logId d = i then attempts i ds @ [d] else attempts i ds)"
  by (simp add: attempts_def)

lemma webhooks_okD:
  assumes "webhooks_ok U s"
  shows "distinct (map wl_id (wh_logs s))" "wl_id ` set (wh_logs s) \<subseteq> U ` {..< wh_seq s}"
    "dl_logId ` set (wh_sent s) \<subseteq> U ` {..< wh_seq s}" "length (attempts i (wh_sent s)) \<le> MAX_RETRY_COUNT"
    "d \<in> set (butlast (attempts i (wh_sent s))) \<Longrightarrow> missed d"
    "l \<in> set (wh_logs s) \<Longrightarrow> log_matches l (attempts (wl_id l) (wh_sent s))"
  using assms unfolding webhooks_ok_def by auto

lemma after_attempt_same [simp]:
  "wl_id (after_attempt r now l) = wl_id l" "wl_payload (after_attempt r now l) = wl_payload l"
  by (cases r; simp add: Let_def)+

lemma matches_after_attempt:
  assumes "log_matches l ds" and "wl_deliveredAt l = None" and "wl_retryCount l < MAX_RETRY_COUNT"
    and "hc_body (dl_call d) = wl_payload l"
  shows "log_matches (after_attempt (dl_reply d) now l) (ds @ [d])"
proof -
  have missed: "\<forall>d \<in> set ds. missed d" and n: "wl_retryCount l = length ds"
    using assms(1,2) by (auto simp: log_matches_def)
  then show ?thesis using assms by (cases "dl_reply d") (auto simp: log_matches_def Let_def)
qed

lemma fresh_unsent:
  assumes "webhooks_ok U s" and "inj U"
  shows "attempts (U (wh_seq s)) (wh_sent s) = []" "U (wh_seq s) \<notin> wl_id ` set (wh_logs s)"
proof -
  have "U (wh_seq s) \<notin> U ` {..< wh_seq s}" using assms(2) by (auto dest: injD)
  with webhooks_okD(2,3) [OF assms(1)]
  have "U (wh_seq s) \<notin> wl_id ` set (wh_logs s)" "U (wh_seq s) \<notin> dl_logId ` set (wh_sent s)" by blast+
  then show "attempts (U (wh_seq s)) (wh_sent s) = []" "U (wh_seq s) \<notin> wl_id ` set (wh_logs s)"
    by (auto simp: attempts_def filter_empty_conv image_iff)
qed

section \<open>One attempt\<close>

text \<open>An attempt sends one request, whatever its outcome, and records the outcome.\<close>

definition attempted :: "webhook_db \<Rightarrow> webhook_log \<Rightarrow> delivery \<Rightarrow> nat \<Rightarrow> webhook_db" where
  "attempted s l d now = save_event_log (after_attempt (dl_reply d) now l) (s\<lparr>wh_sent := wh_sent s @ [d]\<rparr>)"

lemma attempted_tables [simp]:
  "wh_sent (attempted s l d now) = wh_sent s @ [d]" "wh_seq (attempted s l d now) = wh_seq s"
  "wh_configs (attempted s l d now) = wh_configs s"
  "wh_logs (attempted s l d now) = upsert wl_id (after_attempt (dl_reply d) now l) (wh_logs s)"
  by (simp_all add: attempted_def save_event_log_def)

lemma decrypt_returns: "\<exists>k. decryptWithConfig K (Some c) USE_DEFAULT = Inr (Some k)"
  by (auto simp: decryptWithConfig_def split: option.splits)

lemma attemptDelivery_result:
  "attemptDelivery X l url meth c payload s = (t, r) \<Longrightarrow>
   \<exists>k d now. decryptWithConfig (wx_crypt X) (Some c) USE_DEFAULT = Inr (Some k) \<and>
     r = Inr () \<and> t = attempted s l d now \<and> dl_logId d = wl_id l \<and>
     dl_call d = \<lparr>hc_method = meth, hc_url = url, hc_eventKey = k, hc_body = payload\<rparr>"
proof -
  assume run: "attemptDelivery X l url meth c payload s = (t, r)"
  from decrypt_returns [of "wx_crypt X" c] obtain k
    where k: "decryptWithConfig (wx_crypt X) (Some c) USE_DEFAULT = Inr (Some k)" by blast
  let ?call = "\<lparr>hc_method = meth, hc_url = url, hc_eventKey = k, hc_body = payload\<rparr>"
  let ?d = "\<lparr>dl_logId = wl_id l, dl_call = ?call, dl_reply = wx_http X (wh_sent s) ?call\<rparr>"
  have "r = Inr () \<and> t = attempted s l ?d (wx_now X (wh_sent s @ [?d]))"
    using run k by (simp add: attemptDelivery_def http_send_def webhook_clock_def Let_def attempted_def run_simps)
  moreover have "dl_logId ?d = wl_id l" "dl_call ?d = ?call" by simp_all
  ultimately show ?thesis using k by blast
qed

lemma attempted_ok:
  assumes ok: "webhooks_ok U s" and l: "l \<in> set (wh_logs s)" "wl_deliveredAt l = None" "wl_retryCount l < MAX_RETRY_COUNT"
    and d: "dl_logId d = wl_id l" "hc_body (dl_call d) = wl_payload l"
  shows "webhooks_ok U (attempted s l d now)"
proof -
  have match: "log_matches (after_attempt (dl_reply d) now l) (attempts (wl_id l) (wh_sent s) @ [d])"
    using webhooks_okD(6) [OF ok l(1)] l(2,3) d(2) by (rule matches_after_attempt)
  have rows: "set (wh_logs (attempted s l d now)) =
      insert (after_attempt (dl_reply d) now l) {x \<in> set (wh_logs s). wl_id x \<noteq> wl_id l}"
    using set_upsert_distinct [OF webhooks_okD(1) [OF ok]] by simp
  show ?thesis
    unfolding webhooks_ok_def
  proof (intro conjI allI ballI)
    show "distinct (map wl_id (wh_logs (attempted s l d now)))"
      using distinct_upsert [OF webhooks_okD(1) [OF ok]] by simp
    show "wl_id ` set (wh_logs (attempted s l d now)) \<subseteq> U ` {..< wh_seq (attempted s l d now)}"
      "dl_logId ` set (wh_sent (attempted s l d now)) \<subseteq> U ` {..< wh_seq (attempted s l d now)}"
      using webhooks_okD(2,3) [OF ok] l(1) d(1) by (auto simp: rows simp del: attempted_tables(4))
    fix i
    show "length (attempts i (wh_sent (attempted s l d now))) \<le> MAX_RETRY_COUNT"
      using match d(1) webhooks_okD(4) [OF ok, of i] by (auto simp: log_matches_def)
    fix e assume "e \<in> set (butlast (attempts i (wh_sent (attempted s l d now))))"
    then show "missed e" using match d(1) webhooks_okD(5) [OF ok, of e i] by (auto simp: log_matches_def split: if_splits)
  next
    fix x assume "x \<in> set (wh_logs (attempted s l d now))"
    then consider "x = after_attempt (dl_reply d) now l" | "x \<in> set (wh_logs s)" "wl_id x \<noteq> wl_id l"
      using rows by auto
    then show "log_matches x (attempts (wl_id x) (wh_sent (attempted s l d now)))"
      by cases (use match d(1) webhooks_okD(6) [OF ok] in auto)
  qed
qed

section \<open>The handlers\<close>

text \<open>The entry \<open>send\<close> makes for an event.\<close>

definition event_entry ::
  "webhook_env \<Rightarrow> webhook_config \<Rightarrow> webhook_event_type \<Rightarrow> (string \<times> string) list \<Rightarrow> webhook_db \<Rightarrow> webhook_log"
where
  "event_entry X c ty payload s =
     \<lparr>wl_id = wx_uuid X (wh_seq s), wl_webhookConfigId = wc_id c, wl_eventType = event_type_text ty,
      wl_payload = json_object_text (full_payload ty (wx_iso X (wx_now X (wh_sent s))) payload),
      wl_statusCode = None, wl_responseBody = None, wl_retryCount = 0, wl_retryAfter = None,
      wl_occurredAt = wx_now X (wh_sent s), wl_deliveredAt = None\<rparr>"

lemma event_entry_sel [simp]:
  "wl_id (event_entry X c ty payload s) = wx_uuid X (wh_seq s)"
  "wl_retryCount (event_entry X c ty payload s) = 0" "wl_deliveredAt (event_entry X c ty payload s) = None"
  by (simp_all add: event_entry_def)

lemma send_event_attempt:
  assumes "findRawByAccountId account s = Some c" and "wc_isEnabled c"
  shows "send_event X account ty payload s =
    attemptDelivery X (event_entry X c ty payload s) (wc_url c) (wc_method c) (wc_eventKey c)
      (wl_payload (event_entry X c ty payload s))
      (save_event_log (event_entry X c ty payload s) (s\<lparr>wh_seq := Suc (wh_seq s)\<rparr>))"
  using assms
  by (simp add: send_event_def webhook_clock_def webhook_draw_def Let_def run_simps event_entry_def)

lemma send_event_ok:
  assumes inj: "inj (wx_uuid X)"
  shows "preserves (webhooks_ok (wx_uuid X)) (send_event X account ty payload)"
proof (rule preservesI)
  fix s t r
  let ?U = "wx_uuid X"
  assume ok: "webhooks_ok ?U s" and run: "send_event X account ty payload s = (t, r)"
  show "webhooks_ok ?U t"
  proof (cases "\<exists>c. findRawByAccountId account s = Some c \<and> wc_isEnabled c")
    case False
    with run ok show ?thesis by (auto simp: send_event_def run_simps split: option.splits)
  next
    case True
    then obtain c where c: "findRawByAccountId account s = Some c" "wc_isEnabled c" by blast
    let ?l = "event_entry X c ty payload s"
    let ?s = "save_event_log ?l (s\<lparr>wh_seq := Suc (wh_seq s)\<rparr>)"
    from run obtain d now where t: "t = attempted ?s ?l d now" "dl_logId d = wl_id ?l" "hc_body (dl_call d) = wl_payload ?l"
      unfolding send_event_attempt [OF c] using attemptDelivery_result by fastforce
    note fresh = fresh_unsent [OF ok inj]
    have logs: "wh_logs ?s = wh_logs s @ [?l]"
      using fresh(2) by (simp add: save_event_log_def upsert_fresh)
    have sent: "wh_sent ?s = wh_sent s" "wh_seq ?s = Suc (wh_seq s)" by (simp_all add: save_event_log_def)
    have "webhooks_ok ?U ?s"
      unfolding webhooks_ok_def logs sent
      using webhooks_okD(1-5) [OF ok] webhooks_okD(6) [OF ok] fresh
      by (auto simp: log_matches_def lessThan_Suc)
    then show ?thesis unfolding t(1) by (rule attempted_ok) (use t logs in \<open>auto simp: MAX_RETRY_COUNT_def\<close>)
  qed
qed

lemma retry_loop_ok:
  assumes "webhooks_ok U s" and "forS logs (retry_log X) s = (t, r)" and "distinct (map (wl_id \<circ> fst) logs)"
    and "\<And>l c. (l, c) \<in> set logs \<Longrightarrow>
      l \<in> set (wh_logs s) \<and> wl_deliveredAt l = None \<and> wl_retryCount l < MAX_RETRY_COUNT"
  shows "webhooks_ok U t"
  using assms
proof (induction logs arbitrary: s)
  case (Cons lc logs)
  obtain l c where lc: "lc = (l, c)" by (cases lc)
  obtain u q where u: "retry_log X lc s = (u, q)" by fastforce
  show ?case
  proof (cases "wc_isEnabled c")
    case False
    with u lc have "u = s" "q = Inr ()" by (auto simp: retry_log_def)
    with u Cons.prems(2) have "forS logs (retry_log X) s = (t, r)" by (simp add: bindS_def)
    with Cons.prems(1) show ?thesis by (rule Cons.IH) (use Cons.prems(3,4) in auto)
  next
    case True
    with u lc obtain d now where d: "q = Inr ()" "u = attempted s l d now" "dl_logId d = wl_id l"
        "hc_body (dl_call d) = wl_payload l"
      using attemptDelivery_result by (fastforce simp: retry_log_def)
    have l: "l \<in> set (wh_logs s)" "wl_deliveredAt l = None" "wl_retryCount l < MAX_RETRY_COUNT"
      using Cons.prems(4) lc by auto
    have ok: "webhooks_ok U u"
      unfolding d(2) by (rule attempted_ok [OF Cons.prems(1) l d(3,4)])
    from u d(1) Cons.prems(2) have "forS logs (retry_log X) u = (t, r)" by (simp add: bindS_def)
    with ok show ?thesis
    proof (rule Cons.IH)
      show "distinct (map (wl_id \<circ> fst) logs)" using Cons.prems(3) by (simp add: o_def)
      fix l' c' assume l': "(l', c') \<in> set logs"
      with Cons.prems(3) lc have "wl_id l' \<noteq> wl_id l" by force
      moreover have "l' \<in> set (wh_logs s) \<and> wl_deliveredAt l' = None \<and> wl_retryCount l' < MAX_RETRY_COUNT"
        using Cons.prems(4) l' by auto
      ultimately show "l' \<in> set (wh_logs u) \<and> wl_deliveredAt l' = None \<and> wl_retryCount l' < MAX_RETRY_COUNT"
        using set_upsert_distinct [OF webhooks_okD(1) [OF Cons.prems(1)]] d(2) by simp
    qed
  qed
qed auto

lemma distinct_map_chosen:
  "distinct (map f xs) \<Longrightarrow> (\<And>x y. g x = Some y \<Longrightarrow> h y = f x) \<Longrightarrow> distinct (map h (List.map_filter g xs))"
proof (induction xs)
  case (Cons x xs)
  have "h ` set (List.map_filter g xs) \<subseteq> f ` set xs"
    using Cons.prems(2) by (force simp: map_filter_def)
  with Cons show ?case by (auto simp: map_filter_simps split: option.splits)
qed (simp add: map_filter_simps)

lemma retryPending_ok: "preserves (webhooks_ok U) (retryPending X)"
proof (rule preservesI)
  fix s t r
  assume ok: "webhooks_ok U s" and run: "retryPending X s = (t, r)"
  let ?logs = "pending_logs (wx_now X (wh_sent s)) s"
  have "forS ?logs (retry_log X) s = (t, r)" using run by (simp add: retryPending_def webhook_clock_def run_simps)
  with ok show "webhooks_ok U t"
  proof (rule retry_loop_ok)
    show "distinct (map (wl_id \<circ> fst) ?logs)"
      unfolding pending_logs_def
      by (rule distinct_map_chosen [of wl_id]) (auto intro: distinct_map_filter webhooks_okD(1) [OF ok])
    show "l \<in> set (wh_logs s) \<and> wl_deliveredAt l = None \<and> wl_retryCount l < MAX_RETRY_COUNT"
      if "(l, c) \<in> set ?logs" for l c
      using that by (auto simp: pending_logs_def map_filter_def retry_pending_def)
  qed
qed

text \<open>The operations on configurations touch entries only by removing them.\<close>

lemma webhooks_ok_frame:
  assumes ok: "webhooks_ok U s"
    and t: "wh_sent t = wh_sent s" "wh_seq s \<le> wh_seq t" "wh_logs t = filter P (wh_logs s)"
  shows "webhooks_ok U t"
proof -
  have drawn: "U ` {..< wh_seq s} \<subseteq> U ` {..< wh_seq t}" using t(2) by auto
  have "wl_id ` set (wh_logs s) \<subseteq> U ` {..< wh_seq t}" "dl_logId ` set (wh_sent s) \<subseteq> U ` {..< wh_seq t}"
    using webhooks_okD(2,3) [OF ok] drawn by (blast intro: order_trans)+
  then show ?thesis
    unfolding webhooks_ok_def t(1,3)
    using webhooks_okD(1,4-6) [OF ok] by (auto intro: distinct_map_filter)
qed

lemma webhooks_ok_configs:
  "webhooks_ok U s \<Longrightarrow> webhooks_ok U (save_config c s)"
  "webhooks_ok U s \<Longrightarrow> webhooks_ok U (remove_config i s)"
  "webhooks_ok U s \<Longrightarrow> webhooks_ok U (s\<lparr>wh_seq := Suc (wh_seq s)\<rparr>)"
  subgoal by (erule webhooks_ok_frame [where P = "\<lambda>_. True"]) (simp_all add: save_config_def)
  subgoal by (erule webhooks_ok_frame) (simp_all add: remove_config_def)
  subgoal by (erule webhooks_ok_frame [where P = "\<lambda>_. True"]) simp_all
  done

lemma webhook_draw_ok [preserves]: "preserves (webhooks_ok U) (webhook_draw V)"
  by (auto simp: preserves_def webhook_draw_def intro: webhooks_ok_configs)

lemma configuration_ok:
  "preserves (webhooks_ok U) (create_webhook X dto)" "preserves (webhooks_ok U) (update_webhook X i up)"
  "preserves (webhooks_ok U) (delete_webhook i)" "preserves (webhooks_ok U) (regenerateEventKey X i)"
  unfolding create_webhook_def update_webhook_def delete_webhook_def regenerateEventKey_def
    encrypted_key_def find_config_or_throw_def webhook_clock_def
  by (intro preserves webhooks_ok_configs; assumption)+

section \<open>Runs\<close>

text \<open>
  Any sequence of the operations, one after the other, each with its own clock, cipher and outcomes of
  requests, and each ending as it may.
\<close>

inductive webhook_step :: "webhook_env \<Rightarrow> webhook_db \<Rightarrow> webhook_db \<Rightarrow> bool" for X where
  send_step: "webhook_step X s (fst (send_event X account ty payload s))"
| retry_step: "webhook_step X s (fst (retryPending X s))"
| create_step: "webhook_step X s (fst (create_webhook X dto s))"
| update_step: "webhook_step X s (fst (update_webhook X i up s))"
| delete_step: "webhook_step X s (fst (delete_webhook i s))"
| regenerate_step: "webhook_step X s (fst (regenerateEventKey X i s))"

definition webhook_move :: "(nat \<Rightarrow> string) \<Rightarrow> webhook_db \<Rightarrow> webhook_db \<Rightarrow> bool" where
  "webhook_move U s t \<longleftrightarrow> (\<exists>X. wx_uuid X = U \<and> webhook_step X s t)"

lemma preserves_fst: "preserves P m \<Longrightarrow> P s \<Longrightarrow> P (fst (m s))"
  by (cases "m s") (auto dest: preservesD)

lemma webhook_move_ok:
  assumes "webhook_move U s t" and "inj U" and "webhooks_ok U s"
  shows "webhooks_ok U t"
proof -
  obtain X where X: "wx_uuid X = U" "webhook_step X s t" using assms(1) by (auto simp: webhook_move_def)
  from X(2) show ?thesis
    using assms(2,3) unfolding X(1) [symmetric]
    by cases (auto intro: preserves_fst send_event_ok retryPending_ok configuration_ok)
qed

lemma webhook_run_ok:
  "(webhook_move U)\<^sup>*\<^sup>* s t \<Longrightarrow> inj U \<Longrightarrow> webhooks_ok U s \<Longrightarrow> webhooks_ok U t"
  by (induction rule: rtranclp_induct) (auto intro: webhook_move_ok)

text \<open>
  C22: an event is sent at most three times, and never again after the subscriber has accepted it. Its entry
  counts the failed attempts, is marked as delivered exactly when an attempt was accepted, and every attempt
  carries the payload of the entry.
\<close>

theorem webhook_attempts_bounded:
  assumes "(webhook_move U)\<^sup>*\<^sup>* s t" and "inj U" and "wh_logs s = []" and "wh_sent s = []"
  shows "length (attempts i (wh_sent t)) \<le> MAX_RETRY_COUNT \<and>
    (\<forall>d \<in> set (butlast (attempts i (wh_sent t))). missed d) \<and>
    (\<forall>l \<in> set (wh_logs t). wl_id l = i \<longrightarrow>
       wl_retryCount l = length (filter missed (attempts i (wh_sent t))) \<and>
       (wl_deliveredAt l \<noteq> None \<longleftrightarrow> (\<exists>d \<in> set (attempts i (wh_sent t)). \<not> missed d)) \<and>
       (\<forall>d \<in> set (attempts i (wh_sent t)). hc_body (dl_call d) = wl_payload l))"
proof -
  have "webhooks_ok U s" using assms(3,4) by (simp add: webhooks_ok_def attempts_def)
  with assms(1,2) have ok: "webhooks_ok U t" by (rule webhook_run_ok)
  show ?thesis
    using webhooks_okD(4) [OF ok] webhooks_okD(5) [OF ok, of _ i] webhooks_okD(6) [OF ok]
    by (auto simp: log_matches_def)
qed

section \<open>A subscriber that fails once\<close>

definition sample_crypt :: "string \<Rightarrow> crypt_env" where
  "sample_crypt mode = \<lparr>ce_mode = Some mode, ce_encrypt = (\<lambda>x. Some (rev x)), ce_decrypt = (\<lambda>x. Some (rev x))\<rparr>"

definition sample_webhook_env :: "nat \<Rightarrow> http_reply \<Rightarrow> webhook_env" where
  "sample_webhook_env now reply =
     \<lparr>wx_uuid = (\<lambda>n. replicate n CHR ''i''), wx_random = (\<lambda>n. replicate n CHR ''k''),
      wx_crypt = sample_crypt ''true'', wx_now = (\<lambda>_. now), wx_iso = (\<lambda>_. ''2026''),
      wx_http = (\<lambda>_ _. reply)\<rparr>"

definition empty_webhooks :: webhook_db where
  "empty_webhooks = \<lparr>wh_configs = [], wh_logs = [], wh_sent = [], wh_seq = 0\<rparr>"

definition sample_subscription :: webhook_create where
  "sample_subscription =
     \<lparr>wcr_accountId = ''a'', wcr_url = ''u'', wcr_method = None, wcr_eventKey = Some ''key''\<rparr>"

definition sample_undelivered :: webhook_db where
  "sample_undelivered =
     (let X = sample_webhook_env 1000 (HttpError (Some 500) None (Some ''failed'')) in
      fst (send_event X ''a'' PAYMENT_COMPLETED [(''paymentId'', ''p'')]
        (fst (create_webhook X sample_subscription empty_webhooks))))"

text \<open>The payload stays as it is written, so that the runs are computed around it.\<close>

lemmas webhook_sample_defs = sample_webhook_env_def sample_subscription_def empty_webhooks_def sample_crypt_def
  webhook_draw_def webhook_clock_def encrypted_key_def encryptWithConfig_def decryptWithConfig_def run_simps
  webhook_toDto_def save_config_def save_event_log_def create_webhook_def findRawByAccountId_def

lemma sample_failed_eq:
  "sample_undelivered =
     \<lparr>wh_configs = [\<lparr>wc_id = [], wc_accountId = ''a'', wc_url = ''u'', wc_method = METHOD_POST,
        wc_eventKey = ''yek'', wc_isEnabled = True, wc_createdAt = 1000, wc_updatedAt = 1000\<rparr>],
      wh_logs = [\<lparr>wl_id = ''i'', wl_webhookConfigId = [], wl_eventType = ''PAYMENT_COMPLETED'',
        wl_payload = json_object_text (full_payload PAYMENT_COMPLETED ''2026'' [(''paymentId'', ''p'')]),
        wl_statusCode = Some 500, wl_responseBody = Some ''failed'', wl_retryCount = 1,
        wl_retryAfter = Some 61000, wl_occurredAt = 1000, wl_deliveredAt = None\<rparr>],
      wh_sent = [\<lparr>dl_logId = ''i'', dl_call = \<lparr>hc_method = METHOD_POST, hc_url = ''u'', hc_eventKey = ''key'',
          hc_body = json_object_text (full_payload PAYMENT_COMPLETED ''2026'' [(''paymentId'', ''p'')])\<rparr>,
        dl_reply = HttpError (Some 500) None (Some ''failed'')\<rparr>],
      wh_seq = 2\<rparr>"
  by (simp add: sample_undelivered_def webhook_sample_defs send_event_def attemptDelivery_def http_send_def Let_def
      written_def MAX_RETRY_COUNT_def RETRY_DELAY_SECONDS_def)

lemmas sample_retry_defs = sample_failed_eq retryPending_def pending_logs_def retry_log_def
  attemptDelivery_def http_send_def retry_pending_def map_filter_def find_config_def by_key_def attempts_def
  written_def Let_def MAX_RETRY_COUNT_def

definition sample_retried :: webhook_db where
  "sample_retried = fst (retryPending (sample_webhook_env 61000 (HttpOk 200 (Some ''{}''))) sample_undelivered)"

lemma sample_retried_run: "(webhook_move (wx_uuid (sample_webhook_env 0 (HttpOk 200 None))))\<^sup>*\<^sup>* empty_webhooks sample_retried"
proof -
  let ?U = "wx_uuid (sample_webhook_env 0 (HttpOk 200 None))"
  let ?X = "sample_webhook_env 1000 (HttpError (Some 500) None (Some ''failed''))"
  have U: "wx_uuid (sample_webhook_env n r) = ?U" for n r by (simp add: sample_webhook_env_def)
  have "webhook_move ?U empty_webhooks (fst (create_webhook ?X sample_subscription empty_webhooks))"
    "webhook_move ?U (fst (create_webhook ?X sample_subscription empty_webhooks)) sample_undelivered"
    "webhook_move ?U sample_undelivered sample_retried"
    unfolding webhook_move_def sample_undelivered_def sample_retried_def Let_def
    using U by (blast intro: webhook_step.intros)+
  then show ?thesis by (meson rtranclp.rtrancl_refl rtranclp.rtrancl_into_rtrancl)
qed

theorem webhook_attempts_bounded_witness:
  "length (attempts ''i'' (wh_sent sample_retried)) = 2 \<and> length (attempts ''i'' (wh_sent sample_retried)) \<le> MAX_RETRY_COUNT \<and>
   map wl_retryCount (wh_logs sample_retried) = [1] \<and> map wl_deliveredAt (wh_logs sample_retried) = [Some 61000]"
proof -
  have "inj (wx_uuid (sample_webhook_env 0 (HttpOk 200 None)))"
    by (auto simp: sample_webhook_env_def intro!: injI dest: arg_cong [where f = length])
  from webhook_attempts_bounded [OF sample_retried_run this, of "''i''"]
  have "length (attempts ''i'' (wh_sent sample_retried)) \<le> MAX_RETRY_COUNT" by (simp add: empty_webhooks_def)
  moreover have "length (attempts ''i'' (wh_sent sample_retried)) = 2 \<and>
      map wl_retryCount (wh_logs sample_retried) = [1] \<and> map wl_deliveredAt (wh_logs sample_retried) = [Some 61000]"
    by (simp add: sample_retried_def sample_retry_defs webhook_sample_defs)
  ultimately show ?thesis by simp
qed

text \<open>
  Nothing reserves an entry for the pass that has read it: two passes of which the second reads before the
  first has written (or a pass while \<open>send\<close> waits for its first attempt) both send the event, and the
  subscriber accepts it twice.
\<close>

lemma overlapping_passes_send_twice:
  "let X = sample_webhook_env 61000 (HttpOk 200 None);
       logs = pending_logs 61000 sample_undelivered;
       s = fst (forS logs (retry_log X) (fst (forS logs (retry_log X) sample_undelivered)))
   in length (filter (\<lambda>d. \<not> missed d) (attempts ''i'' (wh_sent s))) = 2"
  by (simp add: sample_retry_defs webhook_sample_defs)

section \<open>Keys\<close>

lemma key_shown_once:
  assumes "create_webhook X dto s = (t, Inr d) \<or> regenerateEventKey X i s = (t, Inr d)"
  shows "\<exists>saved rawKey. d = webhook_toDto saved (Some rawKey) \<and> wh_configs t = upsert wc_id saved (wh_configs s) \<and>
    encryptWithConfig (wx_crypt X) (Some rawKey) THROW = Inr (Some (wc_eventKey saved))"
proof -
  have key: "encryptWithConfig K (Some x) THROW = Inr y \<Longrightarrow> \<exists>k. y = Some k" for K x y
    by (cases y) (auto simp: encryptWithConfig_def split: if_splits option.splits)
  from assms show ?thesis
    by (auto simp: create_webhook_def regenerateEventKey_def find_config_or_throw_def encrypted_key_def
        webhook_draw_def webhook_clock_def res_simps Let_def save_config_def split: if_splits)
      (frule key, clarsimp, intro exI conjI, rule refl, rule refl, simp)+
qed



end
