(* ===== verification/Billing.thy ===== *)
theory Billing
  imports Report_Entities Payment_Properties
begin

text \<open>
  \<open>billing.service.ts\<close>: on billing days the commissions of a seller's finished days are billed to the seller,
  and the seller's earnings to the platform, each report once. The service calls \<open>createBillingPayment\<close> of the
  payment service; it is an argument of the definitions, so that what billing does with a service that works
  can be told from what it does with the one there is.
\<close>

section \<open>Reports due\<close>

text \<open>An operation of the core as one of the database of reports.\<close>

definition core_act :: "(store, 'a) act \<Rightarrow> (report_db, 'a) act" where
  "core_act m s = (case m (db_core s) of (c, r) \<Rightarrow> (s\<lparr>db_core := c\<rparr>, r))"

definition todayPeriodLabel :: "report_env \<Rightarrow> string" where
  "todayPeriodLabel R = buildPeriodLabel DAILY (re_local R (env_now (re_env R)))"

text \<open>The conditions the two queries share: reports of finished days that are not billed.\<close>

definition report_due :: "report_env \<Rightarrow> string \<Rightarrow> report_type list \<Rightarrow> report_db \<Rightarrow> report_row \<Rightarrow> bool" where
  "report_due R owner types s r \<longleftrightarrow>
     (case by_key q_id (db_queries s) (rep_queryId r) of
        None \<Rightarrow> False
      | Some q \<Rightarrow> q_ownerAccountId q = Some owner \<and> q_dateGrouping q = DAILY \<and> q_reportType q \<in> set types) \<and>
     rep_billedAt r = None \<and> \<not> rep_archived r \<and> br_paymentCount r > 0 \<and> rep_periodLabel r < todayPeriodLabel R"

definition findUnbilledReports ::
  "report_env \<Rightarrow> report_type \<Rightarrow> string \<Rightarrow> string \<Rightarrow> report_db \<Rightarrow> report_row list"
where
  "findUnbilledReports R ty owner currency s =
     filter (\<lambda>r. report_due R owner [ty] s r \<and> rep_currency r = currency) (db_reports s)"

definition getDistinctUnbilledCurrencies :: "report_env \<Rightarrow> string \<Rightarrow> report_db \<Rightarrow> string list" where
  "getDistinctUnbilledCurrencies R owner s =
     unique (map rep_currency
       (filter (report_due R owner [REPORT_SELLER, REPORT_PLATFORM_SELLER] s) (db_reports s)))"

definition markReportsAsBilled :: "nat \<Rightarrow> report_row list \<Rightarrow> report_db \<Rightarrow> report_db" where
  "markReportsAsBilled now reports s =
     s\<lparr>db_reports := map (\<lambda>r. if rep_id r \<in> set (map rep_id reports) then r\<lparr>rep_billedAt := Some now\<rparr> else r)
       (db_reports s)\<rparr>"

definition buildPeriodDesc :: "report_row list \<Rightarrow> string" where
  "buildPeriodDesc reports =
     (case sort (map rep_periodLabel reports) of
        [] \<Rightarrow> []
      | [l] \<Rightarrow> l
      | l # ls \<Rightarrow> l @ '' - '' @ last ls)"

definition billing_sum :: "bigjs \<Rightarrow> (report_row \<Rightarrow> rat) \<Rightarrow> report_row list \<Rightarrow> rat" where
  "billing_sum B f reports = foldl (\<lambda>acc r. addN B [acc, f r]) 0 reports"

section \<open>The bills\<close>

type_synonym billing_service = "billing_params \<Rightarrow> (report_db, payment_row) act"

definition commission_bill ::
  "report_env \<Rightarrow> admin_settings \<Rightarrow> string \<Rightarrow> string \<Rightarrow> string \<Rightarrow> report_row list \<Rightarrow> billing_params"
where
  "commission_bill R settings billingAccount seller currency reports =
     \<lparr>bp_customerAccountId = seller, bp_sellerAccountId = billingAccount,
      bp_totalAmount = billing_sum (re_big R) br_netSaleAmount reports, bp_currency = currency,
      bp_itemId = ''BILLING_COMMISSION'',
      bp_itemName = ''Komisyon Faturas'' @ [CHR 0xC4, CHR 0xB1] @ '': '' @ buildPeriodDesc reports,
      bp_taxRate = (case as_comissionItemTax settings of Some (rate # _) \<Rightarrow> rate | _ \<Rightarrow> 0)\<rparr>"

definition earnings_bill ::
  "report_env \<Rightarrow> string \<Rightarrow> string \<Rightarrow> string \<Rightarrow> report_row list \<Rightarrow> billing_params"
where
  "earnings_bill R billingAccount seller currency reports =
     \<lparr>bp_customerAccountId = billingAccount, bp_sellerAccountId = seller,
      bp_totalAmount = billing_sum (re_big R) rep_netRevenueWithoutExpenseTaxed reports, bp_currency = currency,
      bp_itemId = ''BILLING_EARNINGS'',
      bp_itemName = ''Hakedi'' @ [CHR 0xC5, CHR 0x9F] @ '': '' @ buildPeriodDesc reports, bp_taxRate = 0\<rparr>"

text \<open>What both do with the reports found: nothing without reports or with a total that is not positive.\<close>

definition bill_reports ::
  "report_env \<Rightarrow> billing_service \<Rightarrow> report_row list \<Rightarrow> billing_params \<Rightarrow> (report_db, unit) act"
where
  "bill_reports R cb reports params =
     (if reports = [] then returnS ()
      else if bp_totalAmount params \<le> 0 then returnS ()
      else bindS (cb params) (\<lambda>_. modifyS (markReportsAsBilled (env_now (re_env R)) reports)))"

definition createCommissionBillingForSeller ::
  "report_env \<Rightarrow> billing_service \<Rightarrow> admin_settings \<Rightarrow> string \<Rightarrow> string \<Rightarrow> string \<Rightarrow> (report_db, unit) act"
where
  "createCommissionBillingForSeller R cb settings billingAccount seller currency =
     bindS (readS (findUnbilledReports R REPORT_PLATFORM_SELLER seller currency)) (\<lambda>reports.
     bill_reports R cb reports (commission_bill R settings billingAccount seller currency reports))"

definition createEarningsBillingForSeller ::
  "report_env \<Rightarrow> billing_service \<Rightarrow> string \<Rightarrow> string \<Rightarrow> string \<Rightarrow> (report_db, unit) act"
where
  "createEarningsBillingForSeller R cb billingAccount seller currency =
     bindS (readS (findUnbilledReports R REPORT_SELLER seller currency)) (\<lambda>reports.
     bill_reports R cb reports (earnings_bill R billingAccount seller currency reports))"

definition billing_sellers :: "report_db \<Rightarrow> string list" where
  "billing_sellers s =
     unique (List.map_filter q_ownerAccountId
       (filter (\<lambda>q. q_dateGrouping q = DAILY \<and> q_reportType q \<in> {REPORT_SELLER, REPORT_PLATFORM_SELLER})
         (db_queries s)))"

definition bill_seller ::
  "report_env \<Rightarrow> billing_service \<Rightarrow> admin_settings \<Rightarrow> string \<Rightarrow> string \<Rightarrow> (report_db, unit) act"
where
  "bill_seller R cb settings billingAccount seller =
     (if seller = billingAccount then returnS ()
      else
        bindS (readS (getDistinctUnbilledCurrencies R seller)) (\<lambda>currencies.
        forS currencies (\<lambda>currency.
          bindS (createCommissionBillingForSeller R cb settings billingAccount seller currency) (\<lambda>_.
          createEarningsBillingForSeller R cb billingAccount seller currency))))"

definition runBilling ::
  "report_env \<Rightarrow> billing_service \<Rightarrow> admin_settings option \<Rightarrow> bool \<Rightarrow> (report_db, unit) act"
where
  "runBilling R cb settings throwOnMissingConfig =
     bindS (readS (\<lambda>s. nullish settings (st_settings (db_core s)))) (\<lambda>resolved.
     if falsy (as_billingAccountId resolved) then
       guardS throwOnMissingConfig (JsError ''runBilling: billingAccountId is not configured. Cannot proceed.'')
     else
       bindS (readS billing_sellers) (\<lambda>sellers.
       forS sellers (bill_seller R cb resolved (nullish (as_billingAccountId resolved) []))))"

definition dailyBillingCheck :: "report_env \<Rightarrow> billing_service \<Rightarrow> (report_db, unit) act" where
  "dailyBillingCheck R cb =
     bindS (readS (\<lambda>s. st_settings (db_core s))) (\<lambda>settings.
     if nullish (as_billingDays settings) [] = [] \<or> falsy (as_billingAccountId settings) then returnS ()
     else if ld_day (re_local R (env_now (re_env R))) \<notin> set (nullish (as_billingDays settings) []) then returnS ()
     else runBilling R cb (Some settings) False)"

section \<open>What is billed\<close>

text \<open>
  A bill is made of the reports of one seller, one kind and one currency that were due when the run began,
  and has the sum of their column as its amount.
\<close>

definition bill_of ::
  "report_env \<Rightarrow> admin_settings \<Rightarrow> string \<Rightarrow> report_db \<Rightarrow> billing_params \<Rightarrow> report_row list \<Rightarrow> bool"
where
  "bill_of R settings billingAccount s params reports \<longleftrightarrow> reports \<noteq> [] \<and> set reports \<subseteq> set (db_reports s) \<and>
     distinct (map rep_id reports) \<and> 0 < bp_totalAmount params \<and>
     (\<exists>seller currency ty. seller \<noteq> billingAccount \<and>
        (\<forall>r \<in> set reports. report_due R seller [ty] s r \<and> rep_currency r = currency) \<and>
        (ty = REPORT_PLATFORM_SELLER \<and> params = commission_bill R settings billingAccount seller currency reports \<or>
         ty = REPORT_SELLER \<and> params = earnings_bill R billingAccount seller currency reports))"

definition marked_reports :: "nat \<Rightarrow> string set \<Rightarrow> report_row list \<Rightarrow> report_row list" where
  "marked_reports now ids rows = map (\<lambda>r. if rep_id r \<in> ids then r\<lparr>rep_billedAt := Some now\<rparr> else r) rows"

definition billed_as ::
  "report_env \<Rightarrow> admin_settings \<Rightarrow> string \<Rightarrow> (store \<Rightarrow> billing_params list) \<Rightarrow> report_db \<Rightarrow> report_db \<Rightarrow>
   (billing_params \<times> report_row list) list \<Rightarrow> bool"
where
  "billed_as R settings billingAccount charges s t bills \<longleftrightarrow>
     charges (db_core t) = charges (db_core s) @ map fst bills \<and> db_queries t = db_queries s \<and>
     (\<forall>(params, reports) \<in> set bills. bill_of R settings billingAccount s params reports) \<and>
     distinct (concat (map (map rep_id \<circ> snd) bills)) \<and>
     db_reports t = marked_reports (env_now (re_env R)) (set (concat (map (map rep_id \<circ> snd) bills))) (db_reports s)"

text \<open>A service that makes payments and leaves the reports alone; \<open>charges\<close> lists what it has been asked for.\<close>

definition charging :: "billing_service \<Rightarrow> (store \<Rightarrow> billing_params list) \<Rightarrow> bool" where
  "charging cb charges \<longleftrightarrow> (\<forall>params u v r. cb params u = (v, r) \<longrightarrow>
     db_reports v = db_reports u \<and> db_queries v = db_queries u \<and>
     charges (db_core v) = charges (db_core u) @ (case r of Inl _ \<Rightarrow> [] | Inr _ \<Rightarrow> [params]))"

lemma marked_twice: "marked_reports now A (marked_reports now B rows) = marked_reports now (A \<union> B) rows"
  by (auto simp: marked_reports_def)

lemma report_due_cong: "db_queries t = db_queries s \<Longrightarrow> report_due R seller types t = report_due R seller types s"
  by (simp add: report_due_def fun_eq_iff)

lemma due_unmarked:
  "r \<in> set (marked_reports now A rows) \<Longrightarrow> report_due R seller types s r \<Longrightarrow> r \<in> set rows \<and> rep_id r \<notin> A"
  by (auto simp: marked_reports_def report_due_def split: if_splits)

lemma bill_reports_kept:
  assumes ch: "charging cb charges" and ids: "distinct (map rep_id (db_reports s))"
    and bills: "billed_as R settings billingAccount charges s u bills" and seller: "seller \<noteq> billingAccount"
    and params: "ty = REPORT_PLATFORM_SELLER \<and> params = commission_bill R settings billingAccount seller currency (findUnbilledReports R ty seller currency u) \<or>
         ty = REPORT_SELLER \<and> params = earnings_bill R billingAccount seller currency (findUnbilledReports R ty seller currency u)"
    and run: "bill_reports R cb (findUnbilledReports R ty seller currency u) params u = (v, r)"
  shows "\<exists>bills. billed_as R settings billingAccount charges s v bills"
proof -
  let ?reports = "findUnbilledReports R ty seller currency u"
  let ?ids = "set (concat (map (map rep_id \<circ> snd) bills))"
  have u: "db_queries u = db_queries s" "db_reports u = marked_reports (env_now (re_env R)) ?ids (db_reports s)"
    "charges (db_core u) = charges (db_core s) @ map fst bills"
    using bills by (simp_all add: billed_as_def)
  show ?thesis
  proof (cases "?reports = [] \<or> bp_totalAmount params \<le> 0")
    case True
    then have "v = u" using run by (auto simp: bill_reports_def split: if_splits)
    then show ?thesis using bills by blast
  next
    case False
    obtain w q where w: "cb params u = (w, q)" by fastforce
    then have w': "db_reports w = db_reports u" "db_queries w = db_queries u"
        "charges (db_core w) = charges (db_core u) @ (case q of Inl _ \<Rightarrow> [] | Inr _ \<Rightarrow> [params])"
      using ch by (auto simp: charging_def)
    show ?thesis
    proof (cases q)
      case (Inl e)
      then have "v = w" using run False w by (auto simp: bill_reports_def bindS_def)
      then have "billed_as R settings billingAccount charges s v bills"
        using bills w' Inl u by (simp add: billed_as_def)
      then show ?thesis ..
    next
      case (Inr p)
      have v: "v = markReportsAsBilled (env_now (re_env R)) ?reports w"
        using run False w Inr by (auto simp: bill_reports_def bindS_def)
      have due: "r \<in> set (db_reports s) \<and> rep_id r \<notin> ?ids \<and> report_due R seller [ty] s r \<and> rep_currency r = currency"
        if "r \<in> set ?reports" for r
        using that due_unmarked [of r "env_now (re_env R)" ?ids "db_reports s" R seller "[ty]" s]
        by (auto simp: findUnbilledReports_def u report_due_cong [OF u(1)])
      have same: "map rep_id (db_reports u) = map rep_id (db_reports s)" by (simp add: u marked_reports_def o_def if_distrib cong: if_cong)
      have distinct: "distinct (map rep_id ?reports)"
        unfolding findUnbilledReports_def by (rule distinct_map_filter) (simp add: same ids)
      have "\<forall>r \<in> set ?reports. report_due R seller [ty] s r \<and> rep_currency r = currency" using due by blast
      then have "\<exists>seller currency ty. seller \<noteq> billingAccount \<and>
          (\<forall>r \<in> set ?reports. report_due R seller [ty] s r \<and> rep_currency r = currency) \<and>
          (ty = REPORT_PLATFORM_SELLER \<and> params = commission_bill R settings billingAccount seller currency ?reports \<or>
           ty = REPORT_SELLER \<and> params = earnings_bill R billingAccount seller currency ?reports)"
        using seller params by blast
      then have bill: "bill_of R settings billingAccount s params ?reports"
        unfolding bill_of_def using due distinct False by auto
      have "billed_as R settings billingAccount charges s v (bills @ [(params, ?reports)])"
        unfolding billed_as_def
      proof (intro conjI)
        show "charges (db_core v) = charges (db_core s) @ map fst (bills @ [(params, ?reports)])"
          using w'(3) Inr u(3) by (simp add: v markReportsAsBilled_def)
        show "db_queries v = db_queries s" using w'(2) u(1) by (simp add: v markReportsAsBilled_def)
        show "\<forall>(params, reports) \<in> set (bills @ [(params, ?reports)]). bill_of R settings billingAccount s params reports"
          using bills bill by (auto simp: billed_as_def)
        show "distinct (concat (map (map rep_id \<circ> snd) (bills @ [(params, ?reports)])))"
          using bills distinct due by (fastforce simp: billed_as_def)
        have "db_reports v = marked_reports (env_now (re_env R)) (set (map rep_id ?reports)) (db_reports u)"
          by (simp add: v w' markReportsAsBilled_def marked_reports_def)
        then show "db_reports v = marked_reports (env_now (re_env R))
            (set (concat (map (map rep_id \<circ> snd) (bills @ [(params, ?reports)])))) (db_reports s)"
          by (simp add: u(2) marked_twice Un_commute)
      qed
      then show ?thesis ..
    qed
  qed
qed

lemma preserves_billing:
  fixes R cb settings billingAccount charges s
  defines "P \<equiv> \<lambda>u. \<exists>bills. billed_as R settings billingAccount charges s u bills"
  assumes ch: "charging cb charges" and ids: "distinct (map rep_id (db_reports s))"
  shows "preserves P (bill_seller R cb settings billingAccount seller)"
proof -
  have "preserves P (createCommissionBillingForSeller R cb settings billingAccount seller currency)"
    if "seller \<noteq> billingAccount" for currency
    unfolding createCommissionBillingForSeller_def P_def
    by (rule preservesI) (auto simp: bindS_def readS_def intro: bill_reports_kept [OF ch ids _ that])
  moreover have "preserves P (createEarningsBillingForSeller R cb billingAccount seller currency)"
    if "seller \<noteq> billingAccount" for currency
    unfolding createEarningsBillingForSeller_def P_def
    by (rule preservesI) (auto simp: bindS_def readS_def intro: bill_reports_kept [OF ch ids _ that])
  ultimately show ?thesis unfolding bill_seller_def by (intro preserves)
qed

section \<open>What is left\<close>

text \<open>The sum of a group of due reports; no group is left with a positive one.\<close>

type_synonym billing_group = "report_type \<times> string \<times> string"

definition billing_column :: "report_type \<Rightarrow> report_row \<Rightarrow> rat" where
  "billing_column ty = (if ty = REPORT_PLATFORM_SELLER then br_netSaleAmount else rep_netRevenueWithoutExpenseTaxed)"

definition unbilled_total :: "report_env \<Rightarrow> billing_group \<Rightarrow> report_db \<Rightarrow> rat" where
  "unbilled_total R g s =
     (case g of (ty, seller, currency) \<Rightarrow>
        billing_sum (re_big R) (billing_column ty) (findUnbilledReports R ty seller currency s))"

definition groups_settled :: "report_env \<Rightarrow> billing_group set \<Rightarrow> report_db \<Rightarrow> bool" where
  "groups_settled R G s \<longleftrightarrow> distinct (map rep_id (db_reports s)) \<and> (\<forall>g \<in> G. unbilled_total R g s \<le> 0)"

lemma findUnbilledReports_cong:
  "db_reports t = db_reports s \<Longrightarrow> db_queries t = db_queries s \<Longrightarrow>
   findUnbilledReports R ty seller currency t = findUnbilledReports R ty seller currency s"
  by (simp add: findUnbilledReports_def report_due_def)

lemma groups_settled_cong:
  "db_reports t = db_reports s \<Longrightarrow> db_queries t = db_queries s \<Longrightarrow> groups_settled R G t = groups_settled R G s"
  by (simp add: groups_settled_def unbilled_total_def findUnbilledReports_cong [of t s] split: prod.splits)

lemma found_same_group:
  "r \<in> set (findUnbilledReports R ty seller currency s) \<Longrightarrow> r \<in> set (findUnbilledReports R ty' seller' currency' s) \<Longrightarrow>
   ty' = ty \<and> seller' = seller \<and> currency' = currency"
  by (auto simp: findUnbilledReports_def report_due_def split: option.splits)

lemma filter_map_marked:
  assumes "\<And>r. r \<in> set rows \<Longrightarrow> h r \<longleftrightarrow> r \<in> A" and "\<And>r. \<not> P (m r)"
  shows "filter P (map (\<lambda>r. if h r then m r else r) rows) = filter (\<lambda>r. P r \<and> r \<notin> A) rows"
  using assms by (induction rows) auto

lemma found_after_mark:
  fixes R ty seller currency s
  defines "found \<equiv> findUnbilledReports R ty seller currency s"
  assumes ids: "distinct (map rep_id (db_reports s))"
  shows "findUnbilledReports R ty' seller' currency' (markReportsAsBilled now found s) =
    (if (ty', seller', currency') = (ty, seller, currency) then [] else findUnbilledReports R ty' seller' currency' s)"
proof -
  let ?P = "\<lambda>r. report_due R seller' [ty'] s r \<and> rep_currency r = currency'"
  let ?mark = "\<lambda>r. if rep_id r \<in> set (map rep_id found) then r\<lparr>rep_billedAt := Some now\<rparr> else r"
  have hit: "rep_id r \<in> set (map rep_id found) \<longleftrightarrow> r \<in> set found" if "r \<in> set (db_reports s)" for r
    using that ids by (auto simp: found_def findUnbilledReports_def distinct_map dest: inj_onD)
  have "filter ?P (map ?mark (db_reports s)) = filter (\<lambda>r. ?P r \<and> r \<notin> set found) (db_reports s)"
    by (rule filter_map_marked) (rule hit, simp_all add: report_due_def)
  moreover have "filter (\<lambda>r. ?P r \<and> r \<notin> set found) (db_reports s) =
      (if (ty', seller', currency') = (ty, seller, currency) then [] else filter ?P (db_reports s))"
  proof (cases "(ty', seller', currency') = (ty, seller, currency)")
    case True
    then show ?thesis by (auto simp: filter_empty_conv found_def findUnbilledReports_def)
  next
    case False
    have "?P r \<Longrightarrow> r \<in> set (db_reports s) \<Longrightarrow> r \<notin> set found" for r
      using found_same_group [of r R ty seller currency s ty' seller' currency'] False
      by (auto simp: found_def findUnbilledReports_def)
    then show ?thesis using False by (auto intro!: filter_cong)
  qed
  moreover have q: "report_due R seller' [ty'] (markReportsAsBilled now found s) = report_due R seller' [ty'] s"
    by (rule report_due_cong) (simp add: markReportsAsBilled_def)
  moreover have "findUnbilledReports R ty' seller' currency' (markReportsAsBilled now found s) =
      filter ?P (map ?mark (db_reports s))"
    unfolding findUnbilledReports_def q by (simp only: markReportsAsBilled_def) simp
  ultimately show ?thesis by (simp only: findUnbilledReports_def [of R ty' seller' currency' s])
qed

lemma running_sum_Nil [simp]: "billing_sum B f [] = 0"
  by (simp add: billing_sum_def)

lemma settled_after_mark:
  assumes "groups_settled R G s"
  shows "groups_settled R (insert (ty, seller, currency) G)
    (markReportsAsBilled now (findUnbilledReports R ty seller currency s) s)"
proof -
  have "map rep_id (db_reports (markReportsAsBilled now rs s)) = map rep_id (db_reports s)" for rs
    by (simp add: markReportsAsBilled_def o_def if_distrib cong: if_cong)
  then show ?thesis
    using assms by (auto simp: groups_settled_def unbilled_total_def found_after_mark)
qed

lemma bill_reports_settles:
  assumes ch: "charging cb charges" and amount: "bp_totalAmount params = unbilled_total R (ty, seller, currency) s"
  shows "triple (\<lambda>u. u = s \<and> groups_settled R G u) (bill_reports R cb (findUnbilledReports R ty seller currency s) params)
    (\<lambda>_. groups_settled R (insert (ty, seller, currency) G)) (\<lambda>_. True)"
proof (rule tripleI)
  fix u t x
  let ?found = "findUnbilledReports R ty seller currency s"
  assume u: "u = s \<and> groups_settled R G u" and run: "bill_reports R cb ?found params u = (t, Inr x)"
  show "groups_settled R (insert (ty, seller, currency) G) t"
  proof (cases "?found = [] \<or> bp_totalAmount params \<le> 0")
    case True
    then have "unbilled_total R (ty, seller, currency) s \<le> 0" using amount by (auto simp: unbilled_total_def)
    moreover have "t = s" using True run u by (auto simp: bill_reports_def split: if_splits)
    ultimately show ?thesis using u by (auto simp: groups_settled_def)
  next
    case False
    then obtain w p where w: "cb params s = (w, Inr p)" "t = markReportsAsBilled (env_now (re_env R)) ?found w"
      using run u by (auto simp: bill_reports_def res_simps)
    then have same: "db_reports w = db_reports s" "db_queries w = db_queries s" using ch by (auto simp: charging_def)
    then have "groups_settled R G w" using u groups_settled_cong [OF same, of R G] by auto
    from settled_after_mark [OF this, of ty seller currency] show ?thesis
      unfolding w(2) findUnbilledReports_cong [OF same] .
  qed
qed simp

lemma create_settles:
  assumes "charging cb charges"
  shows "triple (groups_settled R G) (createCommissionBillingForSeller R cb settings acct seller currency)
      (\<lambda>_. groups_settled R (insert (REPORT_PLATFORM_SELLER, seller, currency) G)) (\<lambda>_. True)"
    and "triple (groups_settled R G) (createEarningsBillingForSeller R cb acct seller currency)
      (\<lambda>_. groups_settled R (insert (REPORT_SELLER, seller, currency) G)) (\<lambda>_. True)"
proof -
  have bind: "triple (\<lambda>u. u = s) (bindS (readS (findUnbilledReports R ty seller currency)) f) Q (\<lambda>_. True)"
    if "triple (\<lambda>u. u = s \<and> groups_settled R G u) (f (findUnbilledReports R ty seller currency s)) Q (\<lambda>_. True)"
      "groups_settled R G s"
    for s ty f and Q :: "unit \<Rightarrow> report_db \<Rightarrow> bool"
    using that by (auto simp: triple_def bindS_def readS_def)
  show "triple (groups_settled R G) (createCommissionBillingForSeller R cb settings acct seller currency)
      (\<lambda>_. groups_settled R (insert (REPORT_PLATFORM_SELLER, seller, currency) G)) (\<lambda>_. True)"
    unfolding createCommissionBillingForSeller_def
    by (rule triple_pre, rule bind, rule bill_reports_settles [OF assms])
      (simp_all add: commission_bill_def unbilled_total_def billing_column_def)
  show "triple (groups_settled R G) (createEarningsBillingForSeller R cb acct seller currency)
      (\<lambda>_. groups_settled R (insert (REPORT_SELLER, seller, currency) G)) (\<lambda>_. True)"
    unfolding createEarningsBillingForSeller_def
    by (rule triple_pre, rule bind, rule bill_reports_settles [OF assms])
      (simp_all add: earnings_bill_def unbilled_total_def billing_column_def)
qed

lemma triple_forS_collect:
  "(\<And>x G. triple (P G) (f x) (\<lambda>_. P (G \<union> g x)) X) \<Longrightarrow>
   triple (P G) (forS xs f) (\<lambda>_. P (G \<union> (\<Union>x \<in> set xs. g x))) X"
proof (induction xs arbitrary: G)
  case (Cons x xs)
  have "triple (P (G \<union> g x)) (forS xs f) (\<lambda>_. P (G \<union> g x \<union> (\<Union>x \<in> set xs. g x))) X"
    by (rule Cons.IH) (rule Cons.prems)
  then show ?case using Cons.prems [of G x] by (simp add: triple_bindS Un_assoc)
qed (simp add: triple_returnS)

definition seller_groups :: "string \<Rightarrow> billing_group set" where
  "seller_groups seller = {g. fst g \<in> {REPORT_SELLER, REPORT_PLATFORM_SELLER} \<and> fst (snd g) = seller}"

lemma settled_elsewhere:
  assumes "groups_settled R G s" and "g \<in> seller_groups seller"
    and "snd (snd g) \<notin> set (getDistinctUnbilledCurrencies R seller s)"
  shows "unbilled_total R g s \<le> 0"
proof -
  obtain ty currency where g: "g = (ty, seller, currency)" "ty \<in> {REPORT_SELLER, REPORT_PLATFORM_SELLER}"
    using assms(2) by (cases g) (auto simp: seller_groups_def)
  have "report_due R seller [ty] s r \<Longrightarrow> report_due R seller [REPORT_SELLER, REPORT_PLATFORM_SELLER] s r" for r
    using g(2) by (auto simp: report_due_def split: option.splits)
  with assms(3) have "findUnbilledReports R ty seller currency s = []"
    by (auto simp: findUnbilledReports_def getDistinctUnbilledCurrencies_def filter_empty_conv g(1))
  then show ?thesis by (simp add: unbilled_total_def g(1))
qed

lemma bill_seller_settles:
  assumes ch: "charging cb charges" and seller: "seller \<noteq> acct"
  shows "triple (groups_settled R G) (bill_seller R cb settings acct seller)
    (\<lambda>_. groups_settled R (G \<union> seller_groups seller)) (\<lambda>_. True)"
proof (rule triple_pre)
  fix s assume s: "groups_settled R G s"
  let ?cs = "getDistinctUnbilledCurrencies R seller s"
  let ?step = "\<lambda>currency. bindS (createCommissionBillingForSeller R cb settings acct seller currency) (\<lambda>_.
    createEarningsBillingForSeller R cb acct seller currency)"
  let ?now = "\<lambda>currency. {(REPORT_PLATFORM_SELLER, seller, currency), (REPORT_SELLER, seller, currency)}"
  let ?rest = "{g \<in> seller_groups seller. snd (snd g) \<notin> set ?cs}"
  have step: "triple (groups_settled R G) (?step currency) (\<lambda>_. groups_settled R (G \<union> ?now currency)) (\<lambda>_. True)" for currency G
  proof -
    have "triple (groups_settled R G) (?step currency) (\<lambda>_. groups_settled R
        (insert (REPORT_SELLER, seller, currency) (insert (REPORT_PLATFORM_SELLER, seller, currency) G))) (\<lambda>_. True)"
      by (rule triple_bindS [OF create_settles(1) [OF ch]]) (rule create_settles(2) [OF ch])
    then show ?thesis by (simp add: insert_commute)
  qed
  have "triple (groups_settled R (G \<union> ?rest)) (forS ?cs ?step)
      (\<lambda>_. groups_settled R (G \<union> ?rest \<union> (\<Union>c \<in> set ?cs. ?now c))) (\<lambda>_. True)"
    by (rule triple_forS_collect) (rule step)
  moreover have "groups_settled R (G \<union> ?rest) s"
    using s settled_elsewhere [OF s] by (auto simp: groups_settled_def)
  moreover have "seller_groups seller \<subseteq> ?rest \<union> (\<Union>c \<in> set ?cs. ?now c)"
    by (auto simp: seller_groups_def)
  ultimately have "triple (\<lambda>u. u = s) (forS ?cs ?step) (\<lambda>_. groups_settled R (G \<union> seller_groups seller)) (\<lambda>_. True)"
    by (elim triple_weaken) (auto simp: groups_settled_def subset_iff)
  then show "triple (\<lambda>u. u = s) (bill_seller R cb settings acct seller)
      (\<lambda>_. groups_settled R (G \<union> seller_groups seller)) (\<lambda>_. True)"
    unfolding bill_seller_def using seller by (auto simp: triple_def bindS_def readS_def)
qed

lemma unlisted_seller_settled:
  assumes "g \<in> seller_groups seller" and "seller \<notin> set (billing_sellers s)"
  shows "unbilled_total R g s \<le> 0"
proof -
  obtain ty currency where g: "g = (ty, seller, currency)" "ty \<in> {REPORT_SELLER, REPORT_PLATFORM_SELLER}"
    using assms(1) by (cases g) (auto simp: seller_groups_def)
  have "\<not> report_due R seller [ty] s r" for r
  proof
    assume "report_due R seller [ty] s r"
    then obtain q where "by_key q_id (db_queries s) (rep_queryId r) = Some q" "q_ownerAccountId q = Some seller"
        "q_dateGrouping q = DAILY" "q_reportType q = ty"
      by (auto simp: report_due_def split: option.splits)
    moreover from this(1) have "q \<in> set (db_queries s)" by (auto dest: by_key_in)
    ultimately have "seller \<in> set (billing_sellers s)"
      using g(2) by (force simp: billing_sellers_def map_filter_def)
    with assms(2) show False ..
  qed
  then show ?thesis by (simp add: unbilled_total_def g(1) findUnbilledReports_def)
qed

lemma runBilling_settles:
  assumes run: "runBilling R cb settings throwing s = (t, Inr x)" and ch: "charging cb charges"
    and ids: "distinct (map rep_id (db_reports s))"
    and acct: "truthy (as_billingAccountId (nullish settings (st_settings (db_core s))))"
    and g: "fst g \<in> {REPORT_SELLER, REPORT_PLATFORM_SELLER}"
      "Some (fst (snd g)) \<noteq> as_billingAccountId (nullish settings (st_settings (db_core s)))"
  shows "unbilled_total R g t \<le> 0"
proof -
  let ?settings = "nullish settings (st_settings (db_core s))"
  let ?acct = "nullish (as_billingAccountId ?settings) []"
  let ?done = "\<lambda>seller. if seller = ?acct then {} else seller_groups seller"
  let ?rest = "{g. fst (snd g) \<notin> set (billing_sellers s) \<and> fst g \<in> {REPORT_SELLER, REPORT_PLATFORM_SELLER}}"
  have step: "triple (groups_settled R G) (bill_seller R cb ?settings ?acct seller)
      (\<lambda>_. groups_settled R (G \<union> ?done seller)) (\<lambda>_. True)" for G seller
  proof (cases "seller = ?acct")
    case True
    then show ?thesis by (simp add: bill_seller_def triple_returnS)
  next
    case False
    then show ?thesis using bill_seller_settles [OF ch False, of R G ?settings] by simp
  qed
  have "triple (groups_settled R ?rest) (forS (billing_sellers s) (bill_seller R cb ?settings ?acct))
      (\<lambda>_. groups_settled R (?rest \<union> (\<Union>seller \<in> set (billing_sellers s). ?done seller))) (\<lambda>_. True)"
    by (rule triple_forS_collect) (rule step)
  moreover have "groups_settled R ?rest s"
    using ids unlisted_seller_settled [of _ _ s R] by (auto simp: groups_settled_def seller_groups_def)
  moreover have "forS (billing_sellers s) (bill_seller R cb ?settings ?acct) s = (t, Inr x)"
    using run acct by (simp add: runBilling_def run_simps)
  ultimately have "groups_settled R (?rest \<union> (\<Union>seller \<in> set (billing_sellers s). ?done seller)) t"
    by (rule triple_Inr)
  moreover have "fst (snd g) \<noteq> ?acct" using g(2) acct by (cases "as_billingAccountId ?settings") auto
  ultimately show ?thesis using g(1) unfolding groups_settled_def
    by (cases "fst (snd g) \<in> set (billing_sellers s)") (auto simp: seller_groups_def)
qed

section \<open>Billing runs\<close>

lemma runBilling_bills:
  assumes "runBilling R cb settings throwing s = (t, r)" and "charging cb charges"
    and "distinct (map rep_id (db_reports s))"
  shows "\<exists>bills. billed_as R (nullish settings (st_settings (db_core s)))
    (nullish (as_billingAccountId (nullish settings (st_settings (db_core s)))) []) charges s t bills"
proof -
  let ?settings = "nullish settings (st_settings (db_core s))"
  let ?account = "nullish (as_billingAccountId ?settings) []"
  let ?P = "\<lambda>u. \<exists>bills. billed_as R ?settings ?account charges s u bills"
  have start: "?P s" by (auto simp: billed_as_def marked_reports_def intro!: exI [of _ "[]"])
  show ?thesis
  proof (cases "falsy (as_billingAccountId ?settings)")
    case True
    with assms(1) start show ?thesis by (auto simp: runBilling_def run_simps split: if_splits)
  next
    case False
    then have "forS (billing_sellers s) (bill_seller R cb ?settings ?account) s = (t, r)"
      using assms(1) by (simp add: runBilling_def run_simps)
    moreover have "preserves ?P (forS (billing_sellers s) (bill_seller R cb ?settings ?account))"
      by (intro preserves_forS preserves_billing assms(2,3))
    ultimately show ?thesis using start by (auto dest: preservesD)
  qed
qed


definition sample_billing_env :: report_env where
  "sample_billing_env =
     \<lparr>re_env = sample_env OS_COMPLETED, re_lower = id, re_identity = (@),
      re_local = (\<lambda>_. \<lparr>ld_year = 2026, ld_month = 3, ld_day = 25\<rparr>), re_bigint = id\<rparr>"

definition sample_daily :: report_row where
  "sample_daily =
     new_report\<lparr>rep_id := ''r'', rep_queryId := ''q'', rep_periodLabel := ''2026-03-24'', br_paymentCount := 2,
       rep_netRevenueWithoutExpenseTaxed := 8\<rparr>"

definition sample_billing :: report_db where
  "sample_billing =
     \<lparr>db_core = sample_store,
      db_queries = [\<lparr>q_id = ''q'', q_name = [], q_description = [], q_ownerAccountId = Some ''seller'',
        q_currency = None, q_dateGrouping = DAILY, q_reportType = REPORT_SELLER\<rparr>],
      db_reports = [sample_daily], db_relations = [], db_expenses = [], db_taxGroups = [], db_items = [],
      db_platforms = [], db_externals = [], db_seq = 0, db_checking = False\<rparr>"

definition sample_bill :: billing_params where
  "sample_bill = earnings_bill sample_billing_env ''platform'' ''seller'' ''TRY'' [sample_daily]"

text \<open>A service that accepts the one bill there is to make.\<close>

definition sample_charge :: billing_service where
  "sample_charge params u =
     (if params = sample_bill \<and> st_payments (db_core u) = []
      then (u\<lparr>db_core := (db_core u)\<lparr>st_payments := [new_payment 0]\<rparr>\<rparr>, Inr (new_payment 0))
      else (u, Inl (JsError ''declined'')))"

definition sample_charges :: "store \<Rightarrow> billing_params list" where
  "sample_charges c = take (length (st_payments c)) [sample_bill]"

lemma sample_charging: "charging sample_charge sample_charges"
  by (auto simp: charging_def sample_charge_def sample_charges_def split: if_splits)

lemma sample_today: "todayPeriodLabel sample_billing_env = ''2026-03-25''"
  by (simp add: todayPeriodLabel_def sample_billing_env_def buildPeriodLabel_def Let_def padStart0_def digit_def nat_text.simps char_of_def bit_0)

lemma sample_daily_sel:
  "rep_id sample_daily = ''r''" "rep_queryId sample_daily = ''q''" "rep_periodLabel sample_daily = ''2026-03-24''"
  "rep_billedAt sample_daily = None" "\<not> rep_archived sample_daily" "br_paymentCount sample_daily = 2"
  "rep_netRevenueWithoutExpenseTaxed sample_daily = 8" "rep_currency sample_daily = ''TRY''"
  by (simp_all add: sample_daily_def new_report_def new_totals_def base_report.defs report_row.defs)

lemma sample_due: "report_due sample_billing_env owner types sample_billing sample_daily \<longleftrightarrow>
    owner = ''seller'' \<and> REPORT_SELLER \<in> set types"
  by (auto simp: report_due_def sample_billing_def by_key_def sample_daily_sel sample_today less_char_def)

lemma sample_found: "findUnbilledReports sample_billing_env ty owner currency sample_billing =
    (if (ty, owner, currency) = (REPORT_SELLER, ''seller'', ''TRY'') then [sample_daily] else [])"
proof -
  have "db_reports sample_billing = [sample_daily]" by (simp add: sample_billing_def)
  then show ?thesis by (auto simp: findUnbilledReports_def sample_due sample_daily_sel)
qed

lemma sample_currencies: "getDistinctUnbilledCurrencies sample_billing_env owner sample_billing =
    (if owner = ''seller'' then [''TRY''] else [])"
proof -
  have "db_reports sample_billing = [sample_daily]" by (simp add: sample_billing_def)
  then show ?thesis by (auto simp: getDistinctUnbilledCurrencies_def sample_due sample_daily_sel)
qed

lemma sample_total: "unbilled_total sample_billing_env (REPORT_SELLER, ''seller'', ''TRY'') sample_billing = 8"
  by (simp add: unbilled_total_def sample_found billing_sum_def billing_column_def sample_daily_sel)
   (simp add: sample_billing_env_def)

lemma sample_bill_total: "bp_totalAmount sample_bill = 8"
  by (simp add: sample_bill_def earnings_bill_def billing_sum_def sample_daily_sel) (simp add: sample_billing_env_def)

definition sample_billed :: report_db where
  "sample_billed = markReportsAsBilled 1000 [sample_daily]
     (sample_billing\<lparr>db_core := (db_core sample_billing)\<lparr>st_payments := [new_payment 0]\<rparr>\<rparr>)"

lemma sample_billing_run:
  "runBilling sample_billing_env sample_charge (Some sample_settings) False sample_billing = (sample_billed, Inr ())"
proof -
  have "billing_sellers sample_billing = [''seller'']"
    by (simp add: billing_sellers_def sample_billing_def map_filter_def)
  moreover have "st_payments (db_core sample_billing) = []" by (simp add: sample_billing_def sample_store_def)
  moreover have "env_now (re_env sample_billing_env) = 1000" by (simp add: sample_billing_env_def sample_env_def)
  ultimately show ?thesis
    by (simp add: runBilling_def run_simps sample_settings_def bill_seller_def sample_currencies
        createCommissionBillingForSeller_def createEarningsBillingForSeller_def sample_found bill_reports_def
        sample_bill_def [symmetric] sample_bill_total sample_charge_def sample_billed_def)
qed

section \<open>Billing with the payment service there is\<close>

definition payment_billing :: "env \<Rightarrow> billing_service" where
  "payment_billing E params = core_act (createBillingPayment E params)"

lemma payment_billing_throws:
  "\<exists>e t. payment_billing E params s = (t, Inl e) \<and> db_reports t = db_reports s \<and> db_queries t = db_queries s \<and>
     st_payments (db_core t) = st_payments (db_core s)"
  using createBillingPayment_throws [of E params "db_core s"]
  by (auto simp: payment_billing_def core_act_def)

lemma payment_billing_charging: "charging (payment_billing E) (\<lambda>_. [])"
  unfolding charging_def
proof (intro allI impI)
  fix params u v r assume run: "payment_billing E params u = (v, r)"
  obtain e t where "payment_billing E params u = (t, Inl e)" "db_reports t = db_reports u" "db_queries t = db_queries u"
    using payment_billing_throws [of E params u] by blast
  with run show "db_reports v = db_reports u \<and> db_queries v = db_queries u \<and>
      [] = [] @ (case r of Inl _ \<Rightarrow> [] | Inr _ \<Rightarrow> [params])" by auto
qed

lemma bill_seller_no_payment:
  "preserves (\<lambda>u. st_payments (db_core u) = P) (bill_seller R (payment_billing E) settings acct seller)"
proof -
  have "preserves (\<lambda>u. st_payments (db_core u) = P) (payment_billing E params)" for params
  proof (rule preservesI)
    fix s t r assume "st_payments (db_core s) = P" "payment_billing E params s = (t, r)"
    with payment_billing_throws [of E params s] show "st_payments (db_core t) = P" by auto
  qed
  then show ?thesis
    unfolding bill_seller_def createCommissionBillingForSeller_def createEarningsBillingForSeller_def bill_reports_def
    by (intro preserves) (simp_all add: markReportsAsBilled_def)
qed

text \<open>
  C26: as the payment service is, billing does nothing: no run, of the cron job or of an administrator, makes a
  payment or marks a report, and as soon as some seller has something to be billed the run ends with an
  exception.
\<close>

theorem runBilling_bills_nothing:
  assumes "runBilling R (payment_billing (re_env R)) settings throwing s = (t, r)"
    and "distinct (map rep_id (db_reports s))"
    and "as_billingAccountId (nullish settings (st_settings (db_core s))) = Some account" and "account \<noteq> []"
  shows "db_reports t = db_reports s \<and> st_payments (db_core t) = st_payments (db_core s) \<and>
    ((\<exists>ty \<in> {REPORT_SELLER, REPORT_PLATFORM_SELLER}. \<exists>seller currency. seller \<noteq> account \<and>
        0 < unbilled_total R (ty, seller, currency) s) \<longrightarrow> (\<exists>e. r = Inl e))"
proof -
  let ?settings = "nullish settings (st_settings (db_core s))"
  let ?acct = "nullish (as_billingAccountId ?settings) []"
  obtain bills where "billed_as R ?settings ?acct (\<lambda>_. []) s t bills"
    using runBilling_bills [OF assms(1) payment_billing_charging assms(2)] by blast
  then have same: "db_reports t = db_reports s" "db_queries t = db_queries s"
    by (auto simp: billed_as_def marked_reports_def)
  have "forS (billing_sellers s) (bill_seller R (payment_billing (re_env R)) ?settings ?acct) s = (t, r)"
    using assms(1,3,4) by (simp add: runBilling_def run_simps)
  moreover have "preserves (\<lambda>u. st_payments (db_core u) = st_payments (db_core s))
      (forS (billing_sellers s) (bill_seller R (payment_billing (re_env R)) ?settings ?acct))"
    by (intro preserves_forS bill_seller_no_payment)
  ultimately have payments: "st_payments (db_core t) = st_payments (db_core s)" by (auto dest: preservesD)
  have "\<exists>e. r = Inl e"
    if "ty \<in> {REPORT_SELLER, REPORT_PLATFORM_SELLER}" "seller \<noteq> account" "0 < unbilled_total R (ty, seller, currency) s"
    for ty seller currency
  proof (cases r)
    case (Inr x)
    have "unbilled_total R (ty, seller, currency) t \<le> 0"
      using runBilling_settles [OF assms(1) [unfolded Inr] payment_billing_charging assms(2)] that(1,2) assms(3,4) by auto
    moreover have "unbilled_total R (ty, seller, currency) t = unbilled_total R (ty, seller, currency) s"
      by (simp add: unbilled_total_def findUnbilledReports_cong [OF same])
    ultimately show ?thesis using that(3) by simp
  qed blast
  then show ?thesis using same payments by blast
qed

theorem runBilling_bills_nothing_witness:
  "\<exists>e. snd (runBilling sample_billing_env (payment_billing (re_env sample_billing_env)) (Some sample_settings) False sample_billing) = Inl e"
proof (cases "runBilling sample_billing_env (payment_billing (re_env sample_billing_env)) (Some sample_settings) False sample_billing")
  case (Pair t r)
  have due: "0 < unbilled_total sample_billing_env (REPORT_SELLER, ''seller'', ''TRY'') sample_billing"
    using sample_total by simp
  have ids: "distinct (map rep_id (db_reports sample_billing))" by (simp add: sample_billing_def)
  have account: "as_billingAccountId (nullish (Some sample_settings) (st_settings (db_core sample_billing))) = Some ''platform''"
    by (simp add: sample_settings_def)
  have "\<exists>ty \<in> {REPORT_SELLER, REPORT_PLATFORM_SELLER}. \<exists>seller currency. seller \<noteq> ''platform'' \<and>
      0 < unbilled_total sample_billing_env (ty, seller, currency) sample_billing"
    using due by (intro bexI [of _ REPORT_SELLER] exI [of _ "''seller''"] exI [of _ "''TRY''"]) simp_all
  then have "\<exists>e. r = Inl e" using runBilling_bills_nothing [OF Pair ids account] by simp
  then show ?thesis by (simp add: Pair)
qed

end
