(* ===== verification/Payment_Cleanup.thy ===== *)
theory Payment_Cleanup
  imports Report_Entities "HOL-Library.List_Lexorder" "HOL-Library.Char_ord"
begin

text \<open>
  \<open>payment-cleanup.service.ts\<close>: the administrator's archive of the database and the deletion of payments with
  everything that refers to them. The dump is written by \<open>mysqldump\<close>, its checksum is SHA-256 and \<open>before\<close> is
  read by \<open>Date\<close>: parameters. Rows a foreign key with \<open>ON DELETE CASCADE\<close> deletes are deleted with their parent,
  and a foreign key without it refuses the deletion.
\<close>

section \<open>State\<close>

text \<open>Of the invoices and events, which no other part of the model reads, the columns the clean-up uses.\<close>

record invoice_row =
  inv_id :: string
  inv_paymentId :: "string option"
  inv_sellerPaymentOrderId :: "string option"

record payment_event_row =
  ev_id :: string
  ev_aggregateId :: string
  ev_occurredAt :: nat

record archive_manifest =
  am_id :: string
  am_dumpPath :: string
  am_checksum :: string
  am_createdAt :: string
  am_before :: "string option"
  am_paymentCount :: nat

text \<open>
  The archive directory: manifests by file name without its extension (\<open>None\<close>: text that is not a manifest),
  and the dumps by path.
\<close>

record cleanup_db =
  cl_db :: report_db
  cl_invoices :: "invoice_row list"
  cl_events :: "payment_event_row list"
  cl_manifests :: "(string \<times> archive_manifest option) list"
  cl_dumps :: "(string \<times> string) list"
  cl_seq :: nat

record cleanup_env =
  cx_enabled :: "string option"
  cx_directory :: string
  cx_uuid :: "nat \<Rightarrow> string"
  cx_nowIso :: string
  cx_date :: "string \<Rightarrow> nat option"
  cx_sha256 :: "string \<Rightarrow> string"
  cx_mysqldump :: "cleanup_db \<Rightarrow> string res"

abbreviation cl_core :: "cleanup_db \<Rightarrow> store" where
  "cl_core s \<equiv> db_core (cl_db s)"

record cleanup_preview =
  pv_before :: "string option"
  pv_paymentIds :: "string list"
  pv_preservedReportQueryCount :: nat
  pv_affectedReportIds :: "string list"
  pv_counts :: "(string \<times> nat) list"
  pv_warnings :: "string list"

record archive_summary =
  sum_id :: string
  sum_checksum :: string
  sum_createdAt :: string
  sum_before :: "string option"
  sum_paymentCount :: nat

record cleanup_request =
  cr_archiveId :: string
  cr_confirmation :: string
  cr_before :: "string option"

section \<open>Queries\<close>

definition isEnabled :: "cleanup_env \<Rightarrow> bool" where
  "isEnabled X \<longleftrightarrow> cx_enabled X = Some ''true''"

definition assertEnabled :: "cleanup_env \<Rightarrow> unit res" where
  "assertEnabled X =
     throwIf (\<not> isEnabled X) (BadRequest ''Payment archive and cleanup operations are disabled.'')"

definition parseBefore :: "cleanup_env \<Rightarrow> string \<Rightarrow> nat res" where
  "parseBefore X before = of_option (BadRequest ''before must be a valid ISO date.'') (cx_date X before)"

definition findPaymentIds :: "cleanup_env \<Rightarrow> string option \<Rightarrow> cleanup_db \<Rightarrow> string list res" where
  "findPaymentIds X before s =
     (if falsy before then Inr (map p_id (st_payments (cl_core s)))
      else bindE (parseBefore X (nullish before [])) (\<lambda>date.
        Inr (map p_id (filter (\<lambda>p. p_createdAt p < date) (st_payments (cl_core s))))))"

definition rows_of :: "('r \<Rightarrow> string) \<Rightarrow> string list \<Rightarrow> 'r list \<Rightarrow> nat" where
  "rows_of key ids t = length (filter (\<lambda>r. key r \<in> set ids) t)"

definition countRefundItems :: "string list \<Rightarrow> cleanup_db \<Rightarrow> nat" where
  "countRefundItems ids s =
     (\<Sum>r\<leftarrow>filter (\<lambda>r. rr_paymentId r \<in> set ids) (st_refundRequests (cl_core s)). length (rr_items r))"

definition countPaymentEvents :: "cleanup_env \<Rightarrow> string list \<Rightarrow> string option \<Rightarrow> cleanup_db \<Rightarrow> nat res" where
  "countPaymentEvents X ids before s =
     (if ids = [] then Inr 0
      else
        let found = filter (\<lambda>e. ev_aggregateId e \<in> set ids) (cl_events s) in
        if falsy before then Inr (length found)
        else bindE (parseBefore X (nullish before [])) (\<lambda>date.
          Inr (length (filter (\<lambda>e. ev_occurredAt e < date) found))))"

definition findAffectedReportIds :: "string list \<Rightarrow> cleanup_db \<Rightarrow> string list" where
  "findAffectedReportIds ids s =
     unique (map rel_reportId (filter (\<lambda>r. rel_paymentId r \<in> set ids) (db_relations (cl_db s))))"

text \<open>\<open>preview\<close>: every count looks up the payments found, or the reports their relations name.\<close>

definition preview :: "cleanup_env \<Rightarrow> string option \<Rightarrow> cleanup_db \<Rightarrow> cleanup_preview res" where
  "preview X before s =
     bindE (assertEnabled X) (\<lambda>_.
     bindE (findPaymentIds X before s) (\<lambda>ids.
     bindE (countPaymentEvents X ids before s) (\<lambda>events.
     let C = cl_core s; reports = findAffectedReportIds ids s in
     Inr \<lparr>pv_before = (if falsy before then None else before), pv_paymentIds = ids,
       pv_preservedReportQueryCount = length (db_queries (cl_db s)), pv_affectedReportIds = reports,
       pv_counts =
         [(''payment'', length ids),
          (''postral_payment_item'', rows_of i_paymentId ids (st_items C)),
          (''postral_payment_tax'', rows_of pt_paymentId ids (st_taxes C)),
          (''seller_payment_order'', rows_of so_paymentId ids (st_orders C)),
          (''invoice'', rows_of (\<lambda>i. nullish (inv_paymentId i) []) ids
             (filter (\<lambda>i. inv_paymentId i \<noteq> None) (cl_invoices s))),
          (''refund_request'', rows_of rr_paymentId ids (st_refundRequests C)),
          (''refund_request_item'', countRefundItems ids s),
          (''account_payment_transaction'', rows_of tr_paymentId ids (st_transactions C)),
          (''payment_channel_operation'', rows_of op_paymentId ids (st_operations C)),
          (''postral_payment_event'', events),
          (''report_payment_relation'', rows_of rel_paymentId ids (db_relations (cl_db s))),
          (''report'', length reports),
          (''report_tax_group'', rows_of tg_reportId reports (db_taxGroups (cl_db s))),
          (''report_expense'', rows_of ex_reportId reports (db_expenses (cl_db s)))],
       pv_warnings =
         [''postral.admin.warning.report-queries-preserved'', ''postral.admin.warning.reports-may-be-empty'',
          ''postral.admin.warning.live-accounts-preserved'', ''postral.admin.warning.preview-only'']\<rparr>)))"

section \<open>Archives\<close>

definition dump_path :: "cleanup_env \<Rightarrow> string \<Rightarrow> string" where
  "dump_path X i = cx_directory X @ ''/'' @ i @ ''.sql''"

definition createArchive :: "cleanup_env \<Rightarrow> string option \<Rightarrow> (cleanup_db, archive_manifest) act" where
  "createArchive X before =
     bindS (readS (preview X before)) (\<lambda>result.
     bindS (liftS result) (\<lambda>pv.
     bindS (readS (\<lambda>s. cx_uuid X (cl_seq s))) (\<lambda>i.
     bindS (modifyS (\<lambda>s. s\<lparr>cl_seq := Suc (cl_seq s)\<rparr>)) (\<lambda>_.
     bindS (readS (cx_mysqldump X)) (\<lambda>dumped.
     bindS (liftS dumped) (\<lambda>content.
     bindS (modifyS (\<lambda>s. s\<lparr>cl_dumps := upsert fst (dump_path X i, content) (cl_dumps s)\<rparr>)) (\<lambda>_.
     let manifest =
       \<lparr>am_id = i, am_dumpPath = dump_path X i, am_checksum = cx_sha256 X content,
        am_createdAt = cx_nowIso X, am_before = (if falsy before then None else before),
        am_paymentCount = length (pv_paymentIds pv)\<rparr> in
     bindS (modifyS (\<lambda>s. s\<lparr>cl_manifests := upsert fst (i, Some manifest) (cl_manifests s)\<rparr>)) (\<lambda>_.
     returnS manifest))))))))"

definition is_archive_id :: "string \<Rightarrow> bool" where
  "is_archive_id i \<longleftrightarrow> length i = 36 \<and> list_all (\<lambda>c. c \<in> set ''0123456789abcdefABCDEF-'') i"

definition readManifest :: "string \<Rightarrow> cleanup_db \<Rightarrow> archive_manifest res" where
  "readManifest i s =
     bindE (throwIf (\<not> is_archive_id i) (BadRequest ''Invalid payment archive ID.'')) (\<lambda>_.
     of_option (NotFound ''Payment archive manifest not found.'')
       (case by_key fst (cl_manifests s) i of None \<Rightarrow> None | Some (_, m) \<Rightarrow> m))"

definition assertArchiveIntact :: "cleanup_env \<Rightarrow> archive_manifest \<Rightarrow> cleanup_db \<Rightarrow> unit res" where
  "assertArchiveIntact X m s =
     bindE (of_option (BadRequest ''Payment archive dump is missing.'')
       (map_option snd (by_key fst (cl_dumps s) (am_dumpPath m)))) (\<lambda>content.
     throwIf (cx_sha256 X content \<noteq> am_checksum m)
       (BadRequest ''Payment archive checksum does not match its manifest.''))"

text \<open>The stream of an intact archive's dump.\<close>

definition getArchiveStream :: "cleanup_env \<Rightarrow> string \<Rightarrow> cleanup_db \<Rightarrow> (string option \<times> string) res" where
  "getArchiveStream X i s =
     bindE (readManifest i s) (\<lambda>m.
     bindE (assertArchiveIntact X m s) (\<lambda>_.
     Inr (map_option snd (by_key fst (cl_dumps s) (am_dumpPath m)), am_id m @ ''.sql'')))"

definition summary_of :: "archive_manifest \<Rightarrow> archive_summary" where
  "summary_of m =
     \<lparr>sum_id = am_id m, sum_checksum = am_checksum m, sum_createdAt = am_createdAt m,
      sum_before = (if falsy (am_before m) then None else am_before m), sum_paymentCount = am_paymentCount m\<rparr>"

text \<open>The manifests that can be read and whose dump is intact, the newest first.\<close>

definition listArchives :: "cleanup_env \<Rightarrow> cleanup_db \<Rightarrow> archive_summary list res" where
  "listArchives X s =
     bindE (assertEnabled X) (\<lambda>_.
     Inr (rev (sort_key sum_createdAt (rev (map summary_of
       (filter (\<lambda>m. assertArchiveIntact X m s = Inr ()) (List.map_filter snd (cl_manifests s))))))))"

section \<open>Deletions\<close>

definition in_core :: "(store \<Rightarrow> store) \<Rightarrow> cleanup_db \<Rightarrow> cleanup_db" where
  "in_core f s = s\<lparr>cl_db := (cl_db s)\<lparr>db_core := f (cl_core s)\<rparr>\<rparr>"

definition in_reports :: "(report_db \<Rightarrow> report_db) \<Rightarrow> cleanup_db \<Rightarrow> cleanup_db" where
  "in_reports f s = s\<lparr>cl_db := f (cl_db s)\<rparr>"

abbreviation without :: "('r \<Rightarrow> string) \<Rightarrow> string list \<Rightarrow> 'r list \<Rightarrow> 'r list" where
  "without key ids \<equiv> filter (\<lambda>r. key r \<notin> set ids)"

text \<open>The statements of the transaction on the reports, in their order; the last one cascades to relations.\<close>

definition delete_reports :: "string list \<Rightarrow> (cleanup_db, unit) act" where
  "delete_reports ids =
     (if ids = [] then returnS ()
      else
        bindS (modifyS (in_reports (\<lambda>d. d\<lparr>db_taxGroups := without tg_reportId ids (db_taxGroups d)\<rparr>))) (\<lambda>_.
        bindS (modifyS (in_reports (\<lambda>d. d\<lparr>db_expenses := without ex_reportId ids (db_expenses d)\<rparr>))) (\<lambda>_.
        bindS (modifyS (in_reports (\<lambda>d. d\<lparr>db_relations := without rel_reportId ids (db_relations d)\<rparr>))) (\<lambda>_.
        modifyS (in_reports (\<lambda>d. d\<lparr>db_reports := without rep_id ids (db_reports d),
          db_relations := without rel_reportId ids (db_relations d)\<rparr>))))))"

text \<open>Deleting orders fails while an invoice refers to one of them.\<close>

definition delete_orders :: "string list \<Rightarrow> (cleanup_db, unit) act" where
  "delete_orders ids =
     bindS (readS (\<lambda>s. map so_id (filter (\<lambda>d. so_paymentId d \<in> set ids) (st_orders (cl_core s))))) (\<lambda>orders.
     bindS (readS (\<lambda>s. list_ex (\<lambda>i. inv_sellerPaymentOrderId i \<in> Some ` set orders) (cl_invoices s))) (\<lambda>used.
     bindS (guardS used (JsError ''QueryFailedError'')) (\<lambda>_.
     modifyS (in_core (\<lambda>c. c\<lparr>st_orders := without so_paymentId ids (st_orders c)\<rparr>)))))"

text \<open>Deleting payments fails while an invoice refers to one, and cascades to items, taxes and relations.\<close>

definition delete_payment_rows :: "string list \<Rightarrow> (cleanup_db, unit) act" where
  "delete_payment_rows ids =
     bindS (readS (\<lambda>s. list_ex (\<lambda>i. inv_paymentId i \<in> Some ` set ids) (cl_invoices s))) (\<lambda>used.
     bindS (guardS used (JsError ''QueryFailedError'')) (\<lambda>_.
     bindS (modifyS (in_core (\<lambda>c. c\<lparr>st_payments := without p_id ids (st_payments c),
       st_items := filter (\<lambda>i. i_paymentId i \<notin> set ids \<and> i_refundPaymentId i \<notin> Some ` set ids) (st_items c),
       st_taxes := without pt_paymentId ids (st_taxes c)\<rparr>))) (\<lambda>_.
     modifyS (in_reports (\<lambda>d. d\<lparr>db_relations := without rel_paymentId ids (db_relations d)\<rparr>)))))"

definition delete_payments :: "string list \<Rightarrow> (cleanup_db, unit) act" where
  "delete_payments ids =
     (if ids = [] then returnS ()
      else
        bindS (readS (\<lambda>s. map rr_id (filter (\<lambda>r. rr_paymentId r \<in> set ids) (st_refundRequests (cl_core s))))) (\<lambda>requests.
        bindS (modifyS (in_core (\<lambda>c. c\<lparr>st_refundRequests :=
          map (\<lambda>r. if rr_id r \<in> set requests then r\<lparr>rr_items := []\<rparr> else r) (st_refundRequests c)\<rparr>))) (\<lambda>_.
        bindS (modifyS (in_core (\<lambda>c. c\<lparr>st_refundRequests := without rr_paymentId ids (st_refundRequests c)\<rparr>))) (\<lambda>_.
        bindS (modifyS (in_core (\<lambda>c. c\<lparr>st_transactions := without tr_paymentId ids (st_transactions c)\<rparr>))) (\<lambda>_.
        bindS (modifyS (in_core (\<lambda>c. c\<lparr>st_operations := without op_paymentId ids (st_operations c)\<rparr>))) (\<lambda>_.
        bindS (modifyS (\<lambda>s. s\<lparr>cl_events := without ev_aggregateId ids (cl_events s)\<rparr>)) (\<lambda>_.
        bindS (modifyS (\<lambda>s. s\<lparr>cl_invoices := filter (\<lambda>i. inv_paymentId i \<notin> Some ` set ids) (cl_invoices s)\<rparr>)) (\<lambda>_.
        bindS (delete_orders ids) (\<lambda>_.
        bindS (modifyS (in_core (\<lambda>c. c\<lparr>st_items := without i_paymentId ids (st_items c)\<rparr>))) (\<lambda>_.
        bindS (modifyS (in_core (\<lambda>c. c\<lparr>st_taxes := without pt_paymentId ids (st_taxes c)\<rparr>))) (\<lambda>_.
        delete_payment_rows ids)))))))))))"

definition cleanup :: "cleanup_env \<Rightarrow> cleanup_request \<Rightarrow> (cleanup_db, cleanup_preview) act" where
  "cleanup X req =
     bindS (liftS (assertEnabled X)) (\<lambda>_.
     bindS (guardS (cr_confirmation req \<noteq> ''DELETE_PAYMENT_DATA'')
       (BadRequest ''Type DELETE_PAYMENT_DATA to confirm payment cleanup.'')) (\<lambda>_.
     bindS (readS (readManifest (cr_archiveId req))) (\<lambda>found.
     bindS (liftS found) (\<lambda>manifest.
     bindS (readS (assertArchiveIntact X manifest)) (\<lambda>intact.
     bindS (liftS intact) (\<lambda>_.
     bindS (readS (preview X (case cr_before req of None \<Rightarrow> am_before manifest | Some b \<Rightarrow> Some b))) (\<lambda>result.
     bindS (liftS result) (\<lambda>pv.
     bindS (guardS (length (pv_paymentIds pv) \<noteq> am_paymentCount manifest)
       (BadRequest ''The archive manifest does not match the current cleanup scope.'')) (\<lambda>_.
     bindS (transactionS
       (bindS (delete_reports (pv_affectedReportIds pv)) (\<lambda>_. delete_payments (pv_paymentIds pv)))) (\<lambda>_.
     returnS pv))))))))))"

section \<open>What is deleted\<close>

text \<open>The database without given payments and reports, and without every row that belongs to them.\<close>

definition purged :: "string list \<Rightarrow> string list \<Rightarrow> cleanup_db \<Rightarrow> cleanup_db" where
  "purged ids reports s =
     (let C = cl_core s; D = cl_db s in
      s\<lparr>cl_db := D\<lparr>
          db_core := C\<lparr>st_payments := without p_id ids (st_payments C),
            st_items := filter (\<lambda>i. i_paymentId i \<notin> set ids \<and> i_refundPaymentId i \<notin> Some ` set ids) (st_items C),
            st_taxes := without pt_paymentId ids (st_taxes C), st_orders := without so_paymentId ids (st_orders C),
            st_transactions := without tr_paymentId ids (st_transactions C),
            st_operations := without op_paymentId ids (st_operations C),
            st_refundRequests := without rr_paymentId ids (st_refundRequests C)\<rparr>,
          db_reports := without rep_id reports (db_reports D),
          db_relations := filter (\<lambda>r. rel_reportId r \<notin> set reports \<and> rel_paymentId r \<notin> set ids) (db_relations D),
          db_taxGroups := without tg_reportId reports (db_taxGroups D),
          db_expenses := without ex_reportId reports (db_expenses D)\<rparr>,
        cl_invoices := filter (\<lambda>i. inv_paymentId i \<notin> Some ` set ids) (cl_invoices s),
        cl_events := without ev_aggregateId ids (cl_events s)\<rparr>)"

definition orders_free :: "string list \<Rightarrow> cleanup_db \<Rightarrow> bool" where
  "orders_free ids s \<longleftrightarrow>
     (\<forall>i \<in> set (cl_invoices s). inv_paymentId i \<notin> Some ` set ids \<longrightarrow>
       (\<forall>d \<in> set (st_orders (cl_core s)). so_paymentId d \<in> set ids \<longrightarrow> inv_sellerPaymentOrderId i \<noteq> Some (so_id d)))"

lemma delete_reports_result:
  "delete_reports reports s = (in_reports (\<lambda>D. D\<lparr>db_reports := without rep_id reports (db_reports D),
     db_relations := without rel_reportId reports (db_relations D),
     db_taxGroups := without tg_reportId reports (db_taxGroups D),
     db_expenses := without ex_reportId reports (db_expenses D)\<rparr>) s, Inr ())"
  by (auto simp: delete_reports_def in_reports_def run_simps)

lemma without_map:
  assumes "\<And>r. key (f r) = key r" and "\<And>r. r \<in> set rows \<Longrightarrow> key r \<notin> set ids \<Longrightarrow> f r = r"
  shows "without key ids (map f rows) = without key ids rows"
  using assms by (induction rows) auto

lemma requests_emptied:
  fixes ids rows
  defines "gone \<equiv> rr_id ` {r \<in> set rows. rr_paymentId r \<in> set ids}"
  assumes "distinct (map rr_id rows)"
  shows "without rr_paymentId ids (map (\<lambda>r. if rr_id r \<in> gone then r\<lparr>rr_items := []\<rparr> else r) rows) =
    without rr_paymentId ids rows"
proof (rule without_map)
  fix r assume "r \<in> set rows" "rr_paymentId r \<notin> set ids"
  then show "(if rr_id r \<in> gone then r\<lparr>rr_items := []\<rparr> else r) = r"
    using assms(2) by (auto simp: gone_def distinct_map dest: inj_onD)
qed simp

lemma delete_orders_result:
  "delete_orders ids s =
     (if \<exists>i \<in> set (cl_invoices s). \<exists>d \<in> set (st_orders (cl_core s)).
         so_paymentId d \<in> set ids \<and> inv_sellerPaymentOrderId i = Some (so_id d)
      then (s, Inl (JsError ''QueryFailedError''))
      else (in_core (\<lambda>c. c\<lparr>st_orders := without so_paymentId ids (st_orders c)\<rparr>) s, Inr ()))"
  by (auto simp: delete_orders_def run_simps list_ex_iff image_iff)

lemma delete_payments_result:
  assumes "distinct (map rr_id (st_refundRequests (cl_core s)))" and "ids \<noteq> []"
  shows "orders_free ids s \<Longrightarrow> delete_payments ids s = (purged ids [] s, Inr ())"
    and "\<not> orders_free ids s \<Longrightarrow> \<exists>t e. delete_payments ids s = (t, Inl e)"
  using assms(2) requests_emptied [OF assms(1), of ids]
  by (auto simp: delete_payments_def delete_orders_result delete_payment_rows_def run_simps list_ex_iff
      in_core_def in_reports_def purged_def Let_def orders_free_def conj_commute)

lemma purged_reports:
  "in_reports (\<lambda>D. D\<lparr>db_reports := without rep_id reports (db_reports D),
     db_relations := without rel_reportId reports (db_relations D),
     db_taxGroups := without tg_reportId reports (db_taxGroups D),
     db_expenses := without ex_reportId reports (db_expenses D)\<rparr>) s = purged [] reports s"
  by (simp add: in_reports_def purged_def Let_def)

lemma purged_both: "purged ids [] (purged [] reports s) = purged ids reports s"
  by (simp add: purged_def Let_def conj_commute)

lemma purged_none: "purged [] [] s = s"
  by (simp add: purged_def Let_def)


text \<open>An invoice that names an order is one for the order's payment.\<close>

definition invoices_consistent :: "cleanup_db \<Rightarrow> bool" where
  "invoices_consistent s \<longleftrightarrow> (\<forall>i \<in> set (cl_invoices s). \<forall>d \<in> set (st_orders (cl_core s)).
     inv_sellerPaymentOrderId i = Some (so_id d) \<longrightarrow> inv_paymentId i = Some (so_paymentId d))"

lemma consistent_orders_free: "invoices_consistent s \<Longrightarrow> orders_free ids s"
  by (auto simp: invoices_consistent_def orders_free_def)

lemma orders_free_purged: "orders_free ids (purged [] reports s) = orders_free ids s"
  by (simp add: orders_free_def purged_def Let_def)

lemma preview_same_db:
  assumes "cl_db t = cl_db s" and "cl_invoices t = cl_invoices s" and "cl_events t = cl_events s"
  shows "preview X before t = preview X before s"
proof -
  have "findPaymentIds X before t = findPaymentIds X before s"
    by (simp only: findPaymentIds_def assms)
  moreover have "countPaymentEvents X ids before t = countPaymentEvents X ids before s"
    "countRefundItems ids t = countRefundItems ids s" "findAffectedReportIds ids t = findAffectedReportIds ids s" for ids
    by (simp_all only: countPaymentEvents_def countRefundItems_def findAffectedReportIds_def assms)
  ultimately show ?thesis by (simp only: preview_def assms)
qed

lemma preview_falsy: "preview X (if falsy before then None else before) s = preview X before s"
  by (simp add: preview_def findPaymentIds_def countPaymentEvents_def)

lemma preview_scope:
  assumes "preview X before s = Inr pv" and "distinct (map p_id (st_payments (cl_core s)))"
  shows "length (without p_id (pv_paymentIds pv) (st_payments (cl_core s))) + length (pv_paymentIds pv) =
    length (st_payments (cl_core s))"
proof -
  have split: "length (without p_id (map p_id (filter P ps)) ps) + length (filter P ps) = length ps"
    if "distinct (map p_id ps)" for P ps
  proof -
    have "p_id p \<notin> set (map p_id (filter P ps)) \<longleftrightarrow> \<not> P p" if "p \<in> set ps" for p
      using that \<open>distinct (map p_id ps)\<close> by (auto simp: distinct_map dest: inj_onD)
    then have "without p_id (map p_id (filter P ps)) ps = filter (\<lambda>p. \<not> P p) ps" by (intro filter_cong) auto
    then show ?thesis using sum_length_filter_compl [of P ps] by simp
  qed
  have "\<exists>P. pv_paymentIds pv = map p_id (filter P (st_payments (cl_core s)))"
    using assms(1) by (auto simp: preview_def findPaymentIds_def res_simps Let_def split: if_splits
        intro: exI [of _ "\<lambda>_. True"])
  with split [OF assms(2)] show ?thesis by auto
qed

lemma cleanup_succeeds:
  assumes enabled: "isEnabled X" and confirmed: "cr_confirmation req = ''DELETE_PAYMENT_DATA''" "cr_before req = None"
    and archive: "readManifest (cr_archiveId req) s = Inr m" "assertArchiveIntact X m s = Inr ()"
    and pv: "preview X (am_before m) s = Inr pv" "length (pv_paymentIds pv) = am_paymentCount m"
    and keys: "distinct (map rr_id (st_refundRequests (cl_core s)))" and invoices: "invoices_consistent s"
  shows "cleanup X req s = (purged (pv_paymentIds pv) (pv_affectedReportIds pv) s, Inr pv)"
proof -
  let ?ids = "pv_paymentIds pv" and ?reports = "pv_affectedReportIds pv"
  have free: "orders_free ?ids (purged [] ?reports s)"
    unfolding orders_free_purged using invoices by (rule consistent_orders_free)
  have "distinct (map rr_id (st_refundRequests (cl_core (purged [] ?reports s))))"
    using keys by (simp add: purged_def Let_def)
  then have "delete_payments ?ids (purged [] ?reports s) = (purged ?ids ?reports s, Inr ())"
    using delete_payments_result(1) [OF _ _ free] by (cases "?ids = []") (simp_all add: purged_both delete_payments_def)
  then have "bindS (delete_reports ?reports) (\<lambda>_. delete_payments ?ids) s = (purged ?ids ?reports s, Inr ())"
    by (simp only: bindS_def delete_reports_result purged_reports prod.case sum.case)
  then show ?thesis
    by (simp add: cleanup_def assertEnabled_def throwIf_def enabled confirmed archive pv res_simps)
qed


section \<open>One payment, archived and deleted\<close>

definition sample_cleanup_env :: cleanup_env where
  "sample_cleanup_env =
     \<lparr>cx_enabled = Some ''true'', cx_directory = ''/d'', cx_uuid = (\<lambda>_. replicate 36 CHR ''a''), cx_nowIso = ''now'',
      cx_date = (\<lambda>_. Some 0), cx_sha256 = (\<lambda>x. x), cx_mysqldump = (\<lambda>_. Inr ''dump'')\<rparr>"

definition sample_relation_row :: relation_row where
  "sample_relation_row =
     \<lparr>rel_id = ''l'', rel_paymentId = ''p'', rel_reportId = ''r'', rel_accountId = ''seller'', rel_digestionId = None,
      rel_digestionStatus = DS_COMPLETED, rel_digestionStartedAt = None, rel_digestionCompletedAt = None\<rparr>"

definition sample_cleanup :: cleanup_db where
  "sample_cleanup =
     \<lparr>cl_db =
        \<lparr>db_core = sample_store\<lparr>st_payments := [sample_payment ''p'' PURCHASE PS_COMPLETED 10],
           st_items := [sample_item ''i'' ''p'' ''seller'' 10]\<rparr>,
         db_queries = [], db_reports = [new_report\<lparr>rep_id := ''r''\<rparr>], db_relations = [sample_relation_row],
         db_expenses = [], db_taxGroups = [new_tax_group\<lparr>tg_reportId := ''r''\<rparr>],
         db_items = [new_report_item\<lparr>it_reportId := ''r''\<rparr>], db_platforms = [], db_externals = [], db_seq = 0,
         db_checking = False\<rparr>,
      cl_invoices = [], cl_events = [], cl_manifests = [], cl_dumps = [], cl_seq = 0\<rparr>"

definition sample_manifest :: archive_manifest where
  "sample_manifest =
     \<lparr>am_id = replicate 36 CHR ''a'', am_dumpPath = ''/d/'' @ replicate 36 CHR ''a'' @ ''.sql'', am_checksum = ''dump'',
      am_createdAt = ''now'', am_before = None, am_paymentCount = 1\<rparr>"

definition sample_archived :: cleanup_db where
  "sample_archived = sample_cleanup
     \<lparr>cl_manifests := [(am_id sample_manifest, Some sample_manifest)],
      cl_dumps := [(am_dumpPath sample_manifest, ''dump'')], cl_seq := 1\<rparr>"

definition sample_cleanup_request :: cleanup_request where
  "sample_cleanup_request =
     \<lparr>cr_archiveId = am_id sample_manifest, cr_confirmation = ''DELETE_PAYMENT_DATA'', cr_before = None\<rparr>"

lemma sample_preview:
  "\<exists>pv. preview sample_cleanup_env None sample_cleanup = Inr pv \<and> pv_paymentIds pv = [''p''] \<and>
     pv_affectedReportIds pv = [''r'']"
  by (simp add: preview_def assertEnabled_def isEnabled_def sample_cleanup_env_def findPaymentIds_def
      countPaymentEvents_def Let_def findAffectedReportIds_def sample_cleanup_def sample_payment_def
      sample_relation_row_def)

lemma sample_archive_made:
  "createArchive sample_cleanup_env None sample_cleanup = (sample_archived, Inr sample_manifest)"
proof -
  obtain pv where "preview sample_cleanup_env None sample_cleanup = Inr pv" "pv_paymentIds pv = [''p'']"
    using sample_preview by blast
  then show ?thesis
    by (simp add: createArchive_def run_simps sample_archived_def sample_manifest_def Let_def dump_path_def)
      (simp add: sample_cleanup_env_def sample_cleanup_def)
qed

lemma sample_archive_id: "is_archive_id (am_id sample_manifest)"
  by (simp add: is_archive_id_def sample_manifest_def list_all_length)

lemma sample_cleanup_keys:
  "distinct (map rr_id (st_refundRequests (cl_core sample_cleanup)))"
  "distinct (map p_id (st_payments (cl_core sample_cleanup)))" "invoices_consistent sample_cleanup"
  by (simp_all add: sample_cleanup_def sample_store_def invoices_consistent_def)



end
