(* ===== verification/External_Payments.thy ===== *)
theory External_Payments
  imports Payments Encryption
begin

text \<open>
  \<open>external-platform-payment.service.ts\<close>: a sale on another platform, which has collected the money, is
  recorded as a completed payment. With it the resolution of customers and addresses
  (\<open>account.service.ts\<close>, \<open>address.service.ts\<close> and the mappers that encrypt their fields).
\<close>

section \<open>Tables and inputs\<close>

text \<open>
  An address: its name and its other columns by name (\<open>address_columns\<close>). The core's store knows addresses by
  their ids.
\<close>

record address_row =
  ar_id :: string
  ar_name :: string
  ar_columns :: "(string \<times> string) list"
  ar_externalPlatformId :: "string option"
  ar_externalPlatformAddressId :: "string option"

definition address_columns :: "string list" where
  "address_columns =
     [''streetName'', ''buildingNumber'', ''cityName'', ''postalZone'', ''countrySubentity'', ''additionalStreetName'',
      ''district'', ''country'', ''countryReadName'', ''citySubdivisionName'', ''floor'', ''room'', ''postbox'', ''region'',
      ''blockName'', ''buildingName'', ''timezone'', ''plotIdentification'', ''markCare'', ''markAttention'', ''inhaleName'',
      ''addressFormatCode'', ''addressTypeCode'', ''cityCode'', ''countrySubentityCode'', ''department'']"

record address_dto =
  da_id :: "string option"
  da_entityOwnershipGroupId :: "string option"
  da_name :: "string option"
  da_columns :: "(string \<times> string) list"
  da_externalPlatformId :: "string option"
  da_externalPlatformAddressId :: "string option"

record account_dto =
  dc_id :: "string option"
  dc_name :: "string option"
  dc_phone :: "string option"
  dc_contactName :: "string option"
  dc_website :: "string option"
  dc_emailAddress :: "string option"
  dc_legalIdentity :: "string option"
  dc_type :: "account_type option"
  dc_isExternal :: "bool option"
  dc_defaultAddressId :: "string option"
  dc_ownerUserId :: "string option"
  dc_entityOwnershipGroupId :: "string option"
  dc_deactivated :: bool
  dc_taxOffice :: "string option"
  dc_bankName :: "string option"
  dc_bankIban :: "string option"
  dc_bankBic :: "string option"
  dc_bankSwift :: "string option"
  dc_hasBankAccounts :: bool
  dc_externalPlatformId :: "string option"
  dc_externalPlatformAccountId :: "string option"

record external_item =
  xi_itemId :: "string option"
  xi_name :: "string option"
  xi_quantity :: jsnum
  xi_unitAmount :: jsnum
  xi_taxRate :: jsnum
  xi_sellerAccountId :: "string option"
  xi_itemClass :: "string option"
  xi_variation :: "string option"
  xi_unit :: "string option"

record external_dto =
  xo_externalPlatformId :: "string option"
  xo_externalPlatformOrderId :: "string option"
  xo_currency :: "string option"
  xo_customerAccount :: "account_dto option"
  xo_billingAddress :: "address_dto option"
  xo_items :: "external_item list"

record sale_platform =
  sp_id :: string
  sp_name :: string
  sp_code :: string
  sp_active :: bool

record external_db =
  xd_core :: store
  xd_addresses :: "address_row list"
  xd_platforms :: "sale_platform list"

record external_env =
  xe_env :: env
  xe_crypt :: crypt_env
  xe_catalog :: catalog
  xe_mayEdit :: "string \<Rightarrow> string \<Rightarrow> bool"
  xe_numberText :: "rat \<Rightarrow> string"

record auth_user =
  au_id :: "string option"
  au_roles :: "string list"

abbreviation xe_big :: "external_env \<Rightarrow> bigjs" where
  "xe_big X \<equiv> env_big (xe_env X)"

text \<open>An operation of the core.\<close>

definition xcore :: "(store, 'a) act \<Rightarrow> (external_db, 'a) act" where
  "xcore m d = (case m (xd_core d) of (c, r) \<Rightarrow> (d\<lparr>xd_core := c\<rparr>, r))"

section \<open>Validation\<close>

definition requiredText :: "string option \<Rightarrow> string \<Rightarrow> unit res" where
  "requiredText v field =
     throwIf (case v of None \<Rightarrow> True | Some x \<Rightarrow> blank x \<or> length x > 255)
       (BadRequest (field @ '' is required and must not exceed 255 characters''))"

definition is_currency :: "string \<Rightarrow> bool" where
  "is_currency c \<longleftrightarrow> length c = 3 \<and> list_all (\<lambda>x. x \<in> set ''ABCDEFGHIJKLMNOPQRSTUVWXYZ'') c"

fun num_value :: "jsnum \<Rightarrow> rat" where
  "num_value (Fin x) = x"
| "num_value _ = 0"

definition is_finite :: "jsnum \<Rightarrow> bool" where
  "is_finite n \<longleftrightarrow> (case n of Fin _ \<Rightarrow> True | _ \<Rightarrow> False)"

definition da_column :: "address_dto \<Rightarrow> string \<Rightarrow> string option" where
  "da_column a k = map_of (da_columns a) k"

text \<open>The identifiers and owners an input must not have, of the customer and of the address alike.\<close>

definition owned_input :: "string option \<Rightarrow> string option \<Rightarrow> string option \<Rightarrow> string option \<Rightarrow> bool" where
  "owned_input i grp platform expected \<longleftrightarrow>
     truthy i \<or> truthy grp \<or> truthy platform \<and> platform \<noteq> expected"

definition managed_customer :: "account_dto \<Rightarrow> bool" where
  "managed_customer c \<longleftrightarrow> truthy (dc_ownerUserId c) \<or> truthy (dc_defaultAddressId c) \<or> dc_hasBankAccounts c \<or>
     truthy (dc_bankIban c) \<or> truthy (dc_bankName c) \<or> truthy (dc_bankBic c) \<or> truthy (dc_bankSwift c) \<or>
     dc_deactivated c \<or> dc_isExternal c = Some False"

definition validate_item :: "external_item \<Rightarrow> unit res" where
  "validate_item i =
     bindE (requiredText (xi_name i) ''items.name'') (\<lambda>_.
     bindE (requiredText (xi_sellerAccountId i) ''items.sellerAccountId'') (\<lambda>_.
     throwIf (\<not> is_finite (xi_quantity i) \<or> num_value (xi_quantity i) \<le> 0 \<or>
         \<not> is_finite (xi_unitAmount i) \<or> num_value (xi_unitAmount i) \<le> 0 \<or>
         \<not> is_finite (xi_taxRate i) \<or> num_value (xi_taxRate i) < 0 \<or> num_value (xi_taxRate i) > 100)
       (BadRequest ''Items require positive quantity and price, and a tax rate between 0 and 100'')))"

definition validateInput :: "external_dto \<Rightarrow> unit res" where
  "validateInput dto =
     bindE (throwIf (xo_items dto = [])
       (BadRequest ''External platform payment must contain at least one item'')) (\<lambda>_.
     bindE (requiredText (xo_externalPlatformId dto) ''externalPlatformId'') (\<lambda>_.
     bindE (requiredText (xo_externalPlatformOrderId dto) ''externalPlatformOrderId'') (\<lambda>_.
     bindE (throwIf (\<not> is_currency (nullish (xo_currency dto) []))
       (BadRequest ''currency must be a three-letter uppercase code'')) (\<lambda>_.
     bindE (of_option (BadRequest ''Customer and billing address are required'') (xo_customerAccount dto)) (\<lambda>c.
     bindE (of_option (BadRequest ''Customer and billing address are required'') (xo_billingAddress dto)) (\<lambda>a.
     bindE (throwIf
         (owned_input (dc_id c) (dc_entityOwnershipGroupId c) (dc_externalPlatformId c) (xo_externalPlatformId dto) \<or>
          owned_input (da_id a) (da_entityOwnershipGroupId a) (da_externalPlatformId a) (xo_externalPlatformId dto))
       (BadRequest ''Existing IDs and ownership fields are not allowed in external customer inputs'')) (\<lambda>_.
     bindE (throwIf (managed_customer c)
       (BadRequest ''External customer account management fields are not allowed'')) (\<lambda>_.
     bindE (requiredText (dc_name c) ''customerAccount.name'') (\<lambda>_.
     bindE (requiredText (dc_legalIdentity c) ''customerAccount.legalIdentity'') (\<lambda>_.
     bindE (throwIf (dc_type c = None) (BadRequest ''Invalid customer account type'')) (\<lambda>_.
     bindE (requiredText (da_name a) ''billingAddress.name'') (\<lambda>_.
     bindE (foldE (\<lambda>_ field. requiredText (da_column a field) (''billingAddress.'' @ field)) ()
       [''streetName'', ''cityName'', ''citySubdivisionName'', ''postalZone'', ''country'']) (\<lambda>_.
     foldE (\<lambda>_. validate_item) () (xo_items dto))))))))))))))"

section \<open>Customers and addresses\<close>

text \<open>\<open>encryptWithConfig(x, 'USE_DEFAULT') || ''\<close>.\<close>

definition enc :: "crypt_env \<Rightarrow> string option \<Rightarrow> string" where
  "enc K x = (case encryptWithConfig K x USE_DEFAULT of Inr (Some c) \<Rightarrow> c | _ \<Rightarrow> [])"

definition account_entity :: "external_env \<Rightarrow> account_dto \<Rightarrow> account_row" where
  "account_entity X d =
     (let K = xe_crypt X; now = env_now (xe_env X) in
      \<lparr>a_id = [], a_name = nullish (dc_name d) [], a_phone = Some (enc K (dc_phone d)), a_website = dc_website d,
       a_contactName = Some (enc K (if dc_type d = Some INDIVIDUAL then dc_name d else dc_contactName d)),
       a_legalIdentity = enc K (dc_legalIdentity d), a_type = nullish (dc_type d) INDIVIDUAL,
       a_isExternal = nullish (dc_isExternal d) False, a_defaultAddressId = dc_defaultAddressId d,
       a_deactivated = False, a_bankName = dc_bankName d, a_bankIban = Some (enc K (dc_bankIban d)),
       a_bankBic = Some (enc K (dc_bankBic d)), a_bankSwift = Some (enc K (dc_bankSwift d)),
       a_taxOffice = Some (enc K (dc_taxOffice d)), a_emailAddress = Some (enc K (dc_emailAddress d)),
       a_createdAt = now, a_updatedAt = now, a_externalPlatformId = dc_externalPlatformId d,
       a_externalPlatformAccountId = dc_externalPlatformAccountId d\<rparr>)"

definition findByExternalPlatformAccount :: "string \<Rightarrow> string option \<Rightarrow> store \<Rightarrow> account_row option" where
  "findByExternalPlatformAccount platform i s =
     (if platform = [] \<or> falsy i then None
      else List.find (\<lambda>a. a_externalPlatformId a = Some platform \<and> a_externalPlatformAccountId a = i) (st_accounts s))"

definition findByIdentityMatch :: "external_env \<Rightarrow> account_dto \<Rightarrow> store \<Rightarrow> account_row option" where
  "findByIdentityMatch X d s =
     (let probe = account_entity X d in
      List.find (\<lambda>a. a_name a = a_name probe \<and> a_type a = a_type probe \<and> \<not> a_deactivated a \<and> a_isExternal a \<and>
          (truthy (dc_legalIdentity d) \<longrightarrow> a_legalIdentity a = a_legalIdentity probe) \<and>
          (truthy (dc_phone d) \<longrightarrow> a_phone a = a_phone probe)) (st_accounts s))"

definition save_account :: "account_row \<Rightarrow> store \<Rightarrow> store" where
  "save_account a s = s\<lparr>st_accounts := upsert a_id a (st_accounts s)\<rparr>"

definition resolve_customer :: "external_env \<Rightarrow> account_dto \<Rightarrow> string \<Rightarrow> (store, account_row) act" where
  "resolve_customer X d platform =
     bindS (readS (findByExternalPlatformAccount platform (dc_externalPlatformAccountId d))) (\<lambda>byExternal.
     case byExternal of
       Some a \<Rightarrow>
         bindS (guardS (\<not> a_isExternal a \<or> a_deactivated a)
           (BadRequest ''External customer must be an active external account'')) (\<lambda>_. returnS a)
     | None \<Rightarrow>
         bindS (readS (findByIdentityMatch X d)) (\<lambda>byIdentity.
         case byIdentity of
           Some a \<Rightarrow> returnS a
         | None \<Rightarrow>
             bindS (newId (xe_env X)) (\<lambda>i.
             let a = (account_entity X (d\<lparr>dc_externalPlatformId := Some platform, dc_isExternal := Some True\<rparr>))\<lparr>a_id := i\<rparr> in
             bindS (modifyS (save_account a)) (\<lambda>_. returnS a))))"

definition address_entity :: "external_env \<Rightarrow> address_dto \<Rightarrow> address_row" where
  "address_entity X d =
     \<lparr>ar_id = [], ar_name = nullish (da_name d) [],
      ar_columns = map (\<lambda>k. (k, enc (xe_crypt X) (da_column d k))) address_columns,
      ar_externalPlatformId = da_externalPlatformId d,
      ar_externalPlatformAddressId = da_externalPlatformAddressId d\<rparr>"

definition findByExternalPlatformAddress :: "string \<Rightarrow> string option \<Rightarrow> external_db \<Rightarrow> address_row option" where
  "findByExternalPlatformAddress platform i d =
     (if platform = [] \<or> falsy i then None
      else List.find (\<lambda>a. ar_externalPlatformId a = Some platform \<and> ar_externalPlatformAddressId a = i) (xd_addresses d))"

text \<open>All columns must agree, not only city, district and street.\<close>

definition findByFieldMatch :: "external_env \<Rightarrow> address_dto \<Rightarrow> string \<Rightarrow> external_db \<Rightarrow> address_row option" where
  "findByFieldMatch X a platform d =
     (let probe = address_entity X a in
      List.find (\<lambda>r. ar_name r = ar_name probe \<and> ar_columns r = ar_columns probe \<and>
        ar_externalPlatformId r = Some platform) (xd_addresses d))"

definition save_address :: "address_row \<Rightarrow> external_db \<Rightarrow> external_db" where
  "save_address a d =
     d\<lparr>xd_addresses := xd_addresses d @ [a],
       xd_core := (xd_core d)\<lparr>st_addresses := st_addresses (xd_core d) @ [ar_id a]\<rparr>\<rparr>"

definition resolve_address :: "external_env \<Rightarrow> address_dto \<Rightarrow> string \<Rightarrow> (external_db, address_row) act" where
  "resolve_address X a platform =
     bindS (readS (findByExternalPlatformAddress platform (da_externalPlatformAddressId a))) (\<lambda>byExternal.
     case byExternal of
       Some r \<Rightarrow> returnS r
     | None \<Rightarrow>
         bindS (readS (findByFieldMatch X a platform)) (\<lambda>byField.
         case byField of
           Some r \<Rightarrow> returnS r
         | None \<Rightarrow>
             bindS (xcore (newId (xe_env X))) (\<lambda>i.
             let r = (address_entity X (a\<lparr>da_externalPlatformId := Some platform\<rparr>))\<lparr>ar_id := i\<rparr> in
             bindS (modifyS (save_address r)) (\<lambda>_. returnS r))))"

definition updateDefaultAddress :: "string \<Rightarrow> string \<Rightarrow> store \<Rightarrow> store" where
  "updateDefaultAddress accountId addressId s =
     s\<lparr>st_accounts := map (\<lambda>a. if a_id a = accountId then a\<lparr>a_defaultAddressId := Some addressId\<rparr> else a) (st_accounts s)\<rparr>"

section \<open>The payment\<close>

text \<open>The body of the loop for one item, with its tax.\<close>

definition external_line ::
  "external_env \<Rightarrow> store \<Rightarrow> sale_platform \<Rightarrow> external_item \<Rightarrow> (item_row \<times> tax) res"
where
  "external_line X s platform i =
     (let B = xe_big X; unit = num_value (xi_unitAmount i); rate = num_value (xi_taxRate i);
          itemClass = nullish (xi_itemClass i) [];
          percent = fetchOneForCalculation (xe_catalog X) (nullish (xi_sellerAccountId i) []) itemClass (Some (sp_id platform));
          amount = mulN B [unit, num_value (xi_quantity i)] in
      bindE (generateTaxDto B (sp_name platform @ '' - '' @ xe_numberText X rate) amount (Some rate) None) (\<lambda>tax.
      bindE (commissionN B (if as_comissionsCalculatedFromNet (st_settings s) then tx_untax tax else amount) percent) (\<lambda>commission.
      Inr (new_item\<lparr>i_itemId := nullish (xi_itemId i) [], i_name := nullish (xi_name i) [],
        i_quantity := num_value (xi_quantity i), i_unitAmount := unit, i_originalUnitAmount := unit,
        i_totalAmount := amount, i_taxPercent := rate, i_taxAmount := tx_amount tax, i_unTaxAmount := tx_untax tax,
        i_sellerAccountId := xi_sellerAccountId i, i_variation := nullish (xi_variation i) [],
        i_itemClass := itemClass, i_entityGroup := Some [], i_entityName := Some [], i_entityId := Some [],
        i_unit := (if falsy (xi_unit i) then ''ITEM'' else nullish (xi_unit i) []),
        i_appComissionPercent := percent, i_appComissionAmount := commission\<rparr>, tax))))"

definition external_step ::
  "external_env \<Rightarrow> store \<Rightarrow> sale_platform \<Rightarrow> calculation \<Rightarrow> external_item \<Rightarrow> calculation res"
where
  "external_step X s platform acc i =
     bindE (external_line X s platform i) (\<lambda>(item, tax).
     Inr \<lparr>ca_items = ca_items acc @ [item],
          ca_totalAmount = addN (xe_big X) [ca_totalAmount acc, i_totalAmount item],
          ca_totalTaxAmount = addN (xe_big X) [ca_totalTaxAmount acc, i_taxAmount item],
          ca_taxes = ca_taxes acc @ [tax]\<rparr>)"

definition external_calculation ::
  "external_env \<Rightarrow> sale_platform \<Rightarrow> external_item list \<Rightarrow> store \<Rightarrow> calculation res"
where
  "external_calculation X platform items s =
     foldE (external_step X s platform)
       \<lparr>ca_items = [], ca_totalAmount = 0, ca_totalTaxAmount = 0, ca_taxes = []\<rparr> items"

definition external_row ::
  "external_env \<Rightarrow> external_dto \<Rightarrow> calculation \<Rightarrow> account_row \<Rightarrow> address_row \<Rightarrow> payment_row"
where
  "external_row X dto calc customer address =
     (new_payment (env_now (xe_env X)))
       \<lparr>p_type := PURCHASE, p_currency := nullish (xo_currency dto) [], p_totalAmount := ca_totalAmount calc,
        p_taxAmount := ca_totalTaxAmount calc, p_customerAccountId := Some (a_id customer),
        p_billingAddressId := Some (ar_id address), p_externalPlatformId := xo_externalPlatformId dto,
        p_externalPlatformOrderId := Some (trim (nullish (xo_externalPlatformOrderId dto) [])),
        p_paymentStatus := PS_COMPLETED, p_openPayment := False, p_includeInReportDigestion := True\<rparr>"

text \<open>The snapshots, and the insertion of the payment with its items and taxes.\<close>

definition insert_external ::
  "external_env \<Rightarrow> external_dto \<Rightarrow> calculation \<Rightarrow> account_row \<Rightarrow> address_row \<Rightarrow> (store, payment_row) act"
where
  "insert_external X dto calc customer address =
     bindS (liftS (mergeTaxesByPercent (xe_big X) (ca_taxes calc))) (\<lambda>taxes.
     bindS (applyItemSellerSnapshots (xe_env X) (ca_items calc)) (\<lambda>items.
     bindS (applyAccountSnapshot (xe_env X) (external_row X dto calc customer address)) (\<lambda>p.
     bindS (newId (xe_env X)) (\<lambda>i.
     insert_payment (xe_env X) (p\<lparr>p_customerSnapshotAddressId := Some i\<rparr>, items, map tax_toEntity taxes)))))"

definition createPayment :: "external_env \<Rightarrow> external_dto \<Rightarrow> (external_db, payment_row) act" where
  "createPayment X dto =
     (let platformId = nullish (xo_externalPlatformId dto) [] in
      bindS (readS (\<lambda>d. by_key sp_id (xd_platforms d) platformId)) (\<lambda>found.
      bindS (liftS (of_option (NotFound ''External platform not found'') found)) (\<lambda>platform.
      bindS (liftS (of_option (JsError ''TypeError'') (xo_customerAccount dto))) (\<lambda>c.
      bindS (xcore (resolve_customer X c platformId)) (\<lambda>customer.
      bindS (liftS (of_option (JsError ''TypeError'') (xo_billingAddress dto))) (\<lambda>a.
      bindS (resolve_address X a platformId) (\<lambda>address.
      bindS (if a_defaultAddressId customer \<noteq> Some (ar_id address)
        then xcore (modifyS (updateDefaultAddress (a_id customer) (ar_id address))) else returnS ()) (\<lambda>_.
      bindS (readS (\<lambda>d. external_calculation X platform (xo_items dto) (xd_core d))) (\<lambda>result.
      bindS (liftS result) (\<lambda>calc.
      xcore (insert_external X dto calc customer address)))))))))))"

definition order_recorded :: "external_dto \<Rightarrow> external_db \<Rightarrow> bool" where
  "order_recorded dto d \<longleftrightarrow>
     list_ex (\<lambda>p. p_externalPlatformId p = xo_externalPlatformId dto \<and>
       p_externalPlatformOrderId p = Some (trim (nullish (xo_externalPlatformOrderId dto) [])) \<and>
       p_type p = PURCHASE) (st_payments (xd_core d))"

text \<open>The transaction: the platform's row is locked, so that recordings for one platform run one after another.\<close>

definition record_order :: "external_env \<Rightarrow> external_dto \<Rightarrow> (external_db, payment_row) act" where
  "record_order X dto =
     transactionS
       (bindS (readS (\<lambda>d. by_key sp_id (xd_platforms d) (nullish (xo_externalPlatformId dto) []))) (\<lambda>found.
        bindS (liftS (of_option (NotFound ''External platform not found'') found)) (\<lambda>platform.
        bindS (guardS (\<not> sp_active platform) (BadRequest ''External platform is inactive'')) (\<lambda>_.
        bindS (readS (order_recorded dto)) (\<lambda>existing.
        bindS (guardS existing (Conflict ''This external platform order has already been recorded'')) (\<lambda>_.
        createPayment X dto))))))"

definition check_seller :: "external_env \<Rightarrow> auth_user \<Rightarrow> string option \<Rightarrow> (external_db, unit) act" where
  "check_seller X user sellerId =
     (let seller = nullish sellerId [] in
      bindS (guardS (''ADMIN'' \<notin> set (au_roles user) \<and> \<not> xe_mayEdit X (nullish (au_id user) []) seller)
        (Unauthorized ''seller account'')) (\<lambda>_.
      bindS (readS (\<lambda>d. find_account (xd_core d) seller)) (\<lambda>found.
      bindS (guardS (case found of None \<Rightarrow> True
          | Some a \<Rightarrow> a_deactivated a \<or> a_isExternal a \<or> a_type a \<noteq> COMMERCIAL)
        (BadRequest ''An active commercial seller account is required'')) (\<lambda>_.
      guardS (case found of None \<Rightarrow> True | Some a \<Rightarrow> falsy (a_defaultAddressId a))
        (BadRequest ''The seller account must have a default address'')))))"

definition not_completed :: exn where
  "not_completed = Conflict ''Payment was recorded, but completion processing failed.''"

definition createExternalPlatformPayment ::
  "external_env \<Rightarrow> external_dto \<Rightarrow> auth_user \<Rightarrow> (external_db, payment_row) act"
where
  "createExternalPlatformPayment X dto user =
     bindS (guardS (falsy (au_id user)) (Unauthorized ''Authentication is required'')) (\<lambda>_.
     bindS (liftS (validateInput dto)) (\<lambda>_.
     bindS (forS (unique (map xi_sellerAccountId (xo_items dto))) (check_seller X user)) (\<lambda>_.
     bindS (record_order X dto) (\<lambda>saved.
     bindS (catchS (xcore (onPaymentCompleted (xe_env X) saved))
       (\<lambda>_. throwS not_completed)) (\<lambda>_.
     xcore (stream (xe_env X) saved))))))"

end
