(* ===== verification/External_Properties.thy ===== *)
theory External_Properties
  imports External_Payments Payment_Properties
begin

text \<open>
  What recording an order of another platform does to the payments: an order that is recorded already is refused
  and nothing changes, and a recording is one completed payment or nothing at all.
\<close>

section \<open>The core inside the external store\<close>

lemma preserves_xcore: "preserves P m \<Longrightarrow> preserves (\<lambda>d. P (xd_core d)) (xcore m)"
  by (rule preservesI) (auto simp: xcore_def dest: preservesD split: prod.splits)

lemma triple_xcore:
  "triple P m Q X \<Longrightarrow> triple (\<lambda>d. P (xd_core d)) (xcore m) (\<lambda>x d. Q x (xd_core d)) (\<lambda>d. X (xd_core d))"
  by (fastforce simp: triple_def xcore_def split: prod.splits sum.splits)

context payments_only begin

lemma keep_resolve_customer: "preserves P (resolve_customer X c platform)"
  unfolding resolve_customer_def save_account_def
  by (intro keep keep_newId; (erule frame)?; simp add: Let_def)

end

definition order_payment :: "external_dto \<Rightarrow> calculation \<Rightarrow> payment_row \<Rightarrow> bool" where
  "order_payment dto calc q \<longleftrightarrow>
     p_type q = PURCHASE \<and> p_externalPlatformId q = xo_externalPlatformId dto \<and>
     p_externalPlatformOrderId q = Some (trim (nullish (xo_externalPlatformOrderId dto) [])) \<and>
     p_paymentStatus q = PS_COMPLETED \<and> \<not> p_openPayment q \<and> p_includeInReportDigestion q \<and>
     p_currency q = nullish (xo_currency dto) [] \<and> p_totalAmount q = ca_totalAmount calc \<and>
     p_taxAmount q = ca_totalTaxAmount calc"

definition order_appended :: "bigjs \<Rightarrow> payment_row list \<Rightarrow> payment_row \<Rightarrow> store \<Rightarrow> bool" where
  "order_appended B V q s \<longleftrightarrow> st_payments s = V @ [payment_columns B q]"

interpretation order_appended: payments_only "order_appended B V q" for B V q
  by unfold_locales (simp add: order_appended_def)

lemma insert_appends:
  assumes "inj (env_uuid E)"
  shows "triple (pinned (env_uuid E) V) (insert_payment E (p, items, taxes))
    (\<lambda>q s. order_appended (env_big E) V q s \<and> (\<exists>i. q = p\<lparr>p_id := i\<rparr>)) (\<lambda>_. True)"
proof -
  let ?U = "env_uuid E"
  let ?fresh = "\<lambda>pid s. st_payments s = V \<and> pid \<notin> p_id ` set V"
  have new: "triple (pinned ?U V) (newId E) ?fresh (\<lambda>_. True)"
  proof (rule tripleI)
    fix s t pid
    assume s: "pinned ?U V s" "newId E s = (t, Inr pid)"
    then have "pinned ?U V t" by (rule preservesD [OF pinned.keep_newId])
    with s known_ids_fresh [OF assms(1), of s] show "?fresh pid t" by (auto simp: pinned_def)
  qed simp
  have row: "order_appended (env_big E) V (p\<lparr>p_id := pid\<rparr>) (save_payment (env_big E) (p\<lparr>p_id := pid\<rparr>) s)"
    if "?fresh pid s" for pid s
    using that by (auto simp: order_appended_def save_payment_def payment_columns_def upsert_fresh)
  show ?thesis
    unfolding insert_payment_def prod.case
    by (intro triple_bindS [OF new] triple_bind_modifyS, erule row)
      (rule triple_bind_keep triple_last; (intro preserves order_appended.writes order_appended.row_writes)?;
       auto simp: insert_item_def insert_tax_def intro!: preserves order_appended.writes order_appended.row_writes)+
qed

lemma insert_external_appends:
  assumes "inj (env_uuid (xe_env X))"
  shows "triple (pinned (env_uuid (xe_env X)) V) (insert_external X dto calc customer address)
    (\<lambda>q s. order_appended (xe_big X) V q s \<and> order_payment dto calc q) (\<lambda>_. True)"
proof -
  let ?U = "env_uuid (xe_env X)"
  have insert: "triple (pinned ?U V) (insert_payment (xe_env X) (p, items, taxes))
      (\<lambda>q s. order_appended (xe_big X) V q s \<and> order_payment dto calc q) (\<lambda>_. True)"
    if "order_payment dto calc p" for p items taxes
    by (rule triple_weaken [OF insert_appends [OF assms]]) (use that in \<open>auto simp: order_payment_def\<close>)
  have account: "triple (pinned ?U V) (applyAccountSnapshot (xe_env X) (external_row X dto calc customer address))
      (\<lambda>p s. pinned ?U V s \<and> order_payment dto calc p) (\<lambda>_. True)"
    unfolding applyAccountSnapshot_def
    by (intro triple_bind_keep [OF pinned.keep_newId] triple_last)
      (simp_all add: order_payment_def external_row_def new_payment_def)
  show ?thesis
    unfolding insert_external_def
    by (rule triple_bind, rule triple_bind_keep [OF pinned.keep_snapshots(1)], rule triple_bindS [OF account],
        rule triple_pure, rule triple_bind_keep [OF pinned.keep_newId], rule insert)
      (simp_all add: order_payment_def)
qed

abbreviation xpinned :: "external_env \<Rightarrow> payment_row list \<Rightarrow> external_db \<Rightarrow> bool" where
  "xpinned X V d \<equiv> pinned (env_uuid (xe_env X)) V (xd_core d)"

lemma resolve_address_pinned: "preserves (xpinned X V) (resolve_address X a platform)"
  unfolding resolve_address_def save_address_def
  by (intro preserves preserves_xcore [OF pinned.keep_newId]; (erule pinned.frame)?; simp add: Let_def)

text \<open>The payment that records an order, with the amounts of its items.\<close>

definition order_stored :: "external_env \<Rightarrow> external_dto \<Rightarrow> payment_row list \<Rightarrow> payment_row \<Rightarrow> external_db \<Rightarrow> bool" where
  "order_stored X dto V q d \<longleftrightarrow> order_appended (xe_big X) V q (xd_core d) \<and>
     (\<exists>platform calc s. external_calculation X platform (xo_items dto) s = Inr calc \<and> order_payment dto calc q)"

lemma createPayment_appends:
  assumes "inj (env_uuid (xe_env X))"
  shows "triple (xpinned X V) (createPayment X dto) (order_stored X dto V) (\<lambda>_. True)"
proof -
  have insert: "triple (xpinned X V) (xcore (insert_external X dto calc customer address)) (order_stored X dto V) (\<lambda>_. True)"
    if "external_calculation X platform (xo_items dto) s = Inr calc" for platform s calc customer address
    by (rule triple_weaken [OF triple_xcore [OF insert_external_appends [OF assms]]])
      (use that in \<open>auto simp: order_stored_def\<close>)
  have default: "preserves (xpinned X V) (if c then xcore (modifyS (updateDefaultAddress i j)) else returnS ())" for c i j
    by (intro preserves preserves_xcore) (auto simp: updateDefaultAddress_def elim: pinned.frame)
  show ?thesis
    unfolding createPayment_def Let_def
    by (rule triple_bind, rule triple_bind, rule triple_bind,
        rule triple_bind_keep [OF preserves_xcore [OF pinned.keep_resolve_customer]], rule triple_bind,
        rule triple_bind_keep [OF resolve_address_pinned], rule triple_bind_keep [OF default],
        rule triple_bind, rule triple_bind, rule insert) simp_all
qed

text \<open>The transaction leaves nothing of a recording that fails.\<close>

lemma record_order_outcome:
  assumes inj: "inj (env_uuid (xe_env X))" and ids: "known_ids (env_uuid (xe_env X)) (xd_core d)"
    and run: "record_order X dto d = (d', r)"
  shows "case r of Inl e \<Rightarrow> d' = d
    | Inr q \<Rightarrow> \<not> order_recorded dto d \<and> order_stored X dto (st_payments (xd_core d)) q d'"
proof (cases r)
  case (Inl e)
  then show ?thesis using run unfolding record_order_def by (auto dest: transactionS_Inl)
next
  case (Inr q)
  let ?V = "st_payments (xd_core d)"
  have create: "triple (\<lambda>u. u = d) (createPayment X dto) (order_stored X dto ?V) (\<lambda>_. True)"
    by (rule triple_weaken [OF createPayment_appends [OF inj]]) (use ids in \<open>auto simp: pinned_def\<close>)
  have "triple (\<lambda>u. u = d) (record_order X dto)
      (\<lambda>q d'. \<not> order_recorded dto d \<and> order_stored X dto ?V q d') (\<lambda>_. True)"
    unfolding record_order_def
    by (rule triple_transactionS, rule triple_bind, rule triple_bind, rule triple_bind, rule triple_bind,
        rule triple_bind, rule triple_weaken [OF create]) simp_all
  from tripleD [OF this refl run] Inr show ?thesis by simp
qed

lemma completion_keeps_order:
  "preserves (order_stored X dto V q) (xcore (onPaymentCompleted E p))"
  "preserves (order_stored X dto V q) (xcore (stream E p))"
  unfolding order_stored_def
  by (rule preserves_xcore [where P = "\<lambda>s. order_appended (xe_big X) V q s \<and> C" for C];
      rule preservesI; auto dest: preservesD [OF order_appended.keep_completion(3)] preservesD [OF order_appended.keep_stream])+

lemma check_seller_reads: "preserves (\<lambda>u. u = d) (check_seller X user i)"
  unfolding check_seller_def Let_def by (intro preserves)

text \<open>A first statement that only reads.\<close>

lemma bindS_read:
  assumes "bindS m f d = (t, r)" and "preserves (\<lambda>u. u = d) m"
  obtains (failed) "isl r" "t = d" | (went_on) x where "f x d = (t, r)"
proof -
  obtain e q where m: "m d = (e, q)" by (rule prod.exhaust)
  then have e: "e = d" using preservesD [OF assms(2) refl m] by simp
  show thesis
  proof (cases q)
    case (Inl z) then show ?thesis using assms(1) m e by (intro failed) (auto simp: bindS_def)
  next
    case (Inr x) then show ?thesis using assms(1) m e by (intro went_on) (auto simp: bindS_def)
  qed
qed

text \<open>After the transaction the order stays recorded.\<close>

lemma finish_outcome:
  assumes stored: "order_stored X dto V q e"
    and run: "bindS (catchS (xcore (onPaymentCompleted (xe_env X) q)) (\<lambda>_. throwS not_completed))
         (\<lambda>_. xcore (stream (xe_env X) q)) e = (d', r)"
  shows "order_stored X dto V q d' \<and> (r = Inr q \<or> r = Inl not_completed)"
proof -
  obtain u z where u: "xcore (onPaymentCompleted (xe_env X) q) e = (u, z)" by (rule prod.exhaust)
  then have kept: "order_stored X dto V q u" by (rule preservesD [OF completion_keeps_order(1) stored])
  obtain w y where w: "xcore (stream (xe_env X) q) u = (w, y)" by (rule prod.exhaust)
  have y: "y = Inr q" using w by (auto simp: xcore_def stream_def emit_def bindS_def modifyS_def returnS_def split: prod.splits)
  have "order_stored X dto V q w" by (rule preservesD [OF completion_keeps_order(2) kept w])
  then show ?thesis
    using run u w y kept by (cases z) (auto simp: bindS_def catchS_def throwS_def)
qed

text \<open>
  C7: An order of another platform is recorded at most once, and entirely or not at all. When the platform already
  has a purchase with this order number (surrounding blanks apart), the operation is refused and changes nothing.
  Otherwise it either fails and changes nothing (customer, address and payment are rolled back together), or it adds
  exactly one payment: a completed purchase under the platform and the trimmed order number, in the order's currency,
  with the totals calculated from its items, not open and part of the reports. It then returns that payment, unless
  the processing after completion fails: then it answers with the conflict that says so, and the payment stays.
\<close>

theorem external_order_recorded_once:
  assumes inj: "inj (env_uuid (xe_env X))" and ids: "known_ids (env_uuid (xe_env X)) (xd_core d)"
    and run: "createExternalPlatformPayment X dto user d = (d', r)"
  shows "if order_recorded dto d then isl r \<and> d' = d
    else isl r \<and> d' = d \<or>
      (\<exists>q. order_stored X dto (st_payments (xd_core d)) q d' \<and> (r = Inr q \<or> r = Inl not_completed))"
proof -
  let ?finish = "\<lambda>q. bindS (catchS (xcore (onPaymentCompleted (xe_env X) q)) (\<lambda>_. throwS not_completed))
    (\<lambda>_. xcore (stream (xe_env X) q))"
  have book: ?thesis if go: "bindS (record_order X dto) ?finish d = (d', r)"
  proof -
    obtain e z where e: "record_order X dto d = (e, z)" by (rule prod.exhaust)
    show ?thesis
    proof (cases z)
      case (Inl x) then show ?thesis
        using go e record_order_outcome [OF inj ids e] by (auto simp: bindS_def)
    next
      case (Inr q)
      then have new: "\<not> order_recorded dto d" "order_stored X dto (st_payments (xd_core d)) q e"
        using record_order_outcome [OF inj ids e] by auto
      have "?finish q e = (d', r)" using go e Inr by (simp add: bindS_def)
      from finish_outcome [OF new(2) this] new(1) show ?thesis by auto
    qed
  qed
  note run' = run [unfolded createExternalPlatformPayment_def]
  show ?thesis
    by (rule bindS_read [OF run'], intro preserves, simp, erule bindS_read, intro preserves, simp,
        erule bindS_read, intro preserves check_seller_reads, simp, erule book)
qed

text \<open>A marketplace whose order of two teas at 12.50 with a tax of 25 percent is recorded.\<close>

definition sample_external_env :: external_env where
  "sample_external_env =
     \<lparr>xe_env = sample_env OS_COMPLETED, xe_crypt = \<lparr>ce_mode = None, ce_encrypt = Some, ce_decrypt = Some\<rparr>,
      xe_catalog = sample_catalog, xe_mayEdit = (\<lambda>_ _. False), xe_numberText = (\<lambda>_. ''25'')\<rparr>"

definition sample_external :: external_db where
  "sample_external =
     \<lparr>xd_core = sample_store, xd_addresses = [],
      xd_platforms = [\<lparr>sp_id = ''market'', sp_name = ''Market'', sp_code = ''M'', sp_active = True\<rparr>]\<rparr>"

definition sample_external_order :: external_dto where
  "sample_external_order =
     \<lparr>xo_externalPlatformId = Some ''market'', xo_externalPlatformOrderId = Some '' A-1 '', xo_currency = Some ''TRY'',
      xo_customerAccount = Some
        \<lparr>dc_id = None, dc_name = Some ''Ada'', dc_phone = None, dc_contactName = None, dc_website = None,
         dc_emailAddress = None, dc_legalIdentity = Some ''1'', dc_type = Some INDIVIDUAL, dc_isExternal = None,
         dc_defaultAddressId = None, dc_ownerUserId = None, dc_entityOwnershipGroupId = None,
         dc_deactivated = False, dc_taxOffice = None, dc_bankName = None, dc_bankIban = None, dc_bankBic = None,
         dc_bankSwift = None, dc_hasBankAccounts = False, dc_externalPlatformId = None,
         dc_externalPlatformAccountId = None\<rparr>,
      xo_billingAddress = Some
        \<lparr>da_id = None, da_entityOwnershipGroupId = None, da_name = Some ''Home'',
         da_columns = map (\<lambda>k. (k, ''x'')) [''streetName'', ''cityName'', ''citySubdivisionName'', ''postalZone'', ''country''],
         da_externalPlatformId = None, da_externalPlatformAddressId = None\<rparr>,
      xo_items = [\<lparr>xi_itemId = None, xi_name = Some ''Tea'', xi_quantity = Fin 2, xi_unitAmount = Fin (25 / 2),
        xi_taxRate = Fin 25, xi_sellerAccountId = Some ''seller'', xi_itemClass = Some ''FOOD'', xi_variation = None,
        xi_unit = None\<rparr>]\<rparr>"

definition sample_recording :: "external_db \<times> payment_row res" where
  "sample_recording = createExternalPlatformPayment sample_external_env sample_external_order
     \<lparr>au_id = Some ''root'', au_roles = [''ADMIN'']\<rparr> sample_external"

lemma sample_recorded:
  "map (\<lambda>p. (p_externalPlatformOrderId p, p_totalAmount p, p_taxAmount p)) (st_payments (xd_core (fst sample_recording)))
     = [(Some ''A-1'', 25, 5)]"
  by code_simp

lemma sample_returned: "\<not> isl (snd sample_recording)"
  by code_simp

theorem external_order_recorded_once_witness:
  "\<exists>q. order_stored sample_external_env sample_external_order [] q (fst sample_recording) \<and> snd sample_recording = Inr q"
proof -
  obtain d r where run: "sample_recording = (d, r)" by (rule prod.exhaust)
  have start: "inj (env_uuid (xe_env sample_external_env))" "known_ids U (xd_core sample_external)"
    "st_payments (xd_core sample_external) = []" "\<not> order_recorded sample_external_order sample_external" for U
    by (simp_all add: sample_external_env_def sample_external_def order_recorded_def)
  have "\<not> isl r" using sample_returned by (simp add: run)
  with external_order_recorded_once [OF start(1,2) run [unfolded sample_recording_def]] start
  show ?thesis by (auto simp: run)
qed

end
