(* ===== verification/Spec2Isabelle.thy ===== *)
theory Spec2Isabelle
  imports Prelude Decimal_Text Numbers Grouping Tax_Calc Return_Url Entities Order_Calculation Ledger
    Channel_Operations Refund_Allocations Refund_Settlement Channel_Properties
    Payments Triples Payment_Machine Payment_Lifecycle Payment_Properties Payment_Completion
    Refunds Refund_Invariants Refund_Quantities Refund_Amounts Refund_Properties
    Calendar Report_Entities Report_Setup Reports Report_Frames Report_Totals Report_Queue
    Report_Blocking Report_Properties
    Iyzico_Entities Iyzico_Refunds Iyzico_Checkout Iyzico_Operations Iyzico_Machine Iyzico_Evidence
    Iyzico_Captures Iyzico_Reservations Iyzico_Submissions Iyzico_Sample Iyzico_Properties
    Iyzico_Cancellation
    Encryption Webhooks Webhook_Properties Billing Payment_Cleanup External_Payments External_Properties
begin

text \<open>
  A verification development of the Postral payment core
  (\<open>libs/payment-core-webservice\<close>, \<open>libs/common-utils\<close>, \<open>libs/postral-entities\<close>) and of its
  payment channel for iyzico (\<open>apps/integration-iyzico\<close>).

  \<^bold>\<open>The program.\<close> A shop calculates an order, creates a payment with its items, and starts operations of
  payment channels for it. A channel is another process the core talks to by messages; it reports the status
  of an operation, and the core completes or fails the payment, books an order and account entries for each
  seller, and puts the payment in the queue of the reports. A purchase is refunded by requests a seller
  approves: the core plans with the channel what goes back, creates a refund payment, and settles what the
  channel has paid back. Iyzico's adapter keeps tables of its own and talks to the provider through an SDK.

  \<^bold>\<open>How it is modelled.\<close> A table is the list of its rows, a row a record with the entity's fields; the
  core's tables are the record \<open>store\<close>, those of the reports \<open>report_db\<close>, those of the adapter \<open>iyzico_db\<close>.
  A method that may throw is a value of \<open>exn + 'a\<close> (\<open>bindE\<close>, \<open>throwIf\<close>, \<open>mapE\<close>, \<open>foldE\<close>), one that reads
  and writes tables a function of the store (\<open>bindS\<close>, \<open>readS\<close>, \<open>modifyS\<close>, \<open>transactionS\<close>, \<open>catchS\<close>, \<open>forS\<close>)
  that keeps what it wrote when it throws, unless a transaction rolls it back. Every throw and early return of
  the source is a branch. Messages to channels and events are appended to the log of the store, and a reply is
  a function of the log, so the channels may answer anything. Amounts are rationals: a \<open>number\<close> is the
  decimal it is written and read as. Strings are lists of bytes; \<open>undefined\<close> and \<open>null\<close> are \<open>None\<close>.

  \<^bold>\<open>What is a parameter.\<close> Code outside the repository is: \<open>big.js\<close> and the native floating-point operators
  (\<open>bigjs\<close>, with the laws \<open>bigjs_ok\<close>, \<open>num_exact\<close>, \<open>num_close\<close> and \<open>native_close\<close>, all satisfied by
  \<open>exact_bigjs\<close>), \<open>randomUUID\<close> (a function of a counter, injective where a theorem says so), the clock, the URL
  class (\<open>url_api\<close>), the channels, the authorisation service, the cipher and the
  HTTP client of webhooks, \<open>mysqldump\<close> and SHA-256, and for the adapter the SDK, the HMAC and the
  Turkish case mappings (\<open>iyzico_env\<close>).

  \<^bold>\<open>The theories.\<close>
  \<^item> \<open>Prelude\<close>, \<open>Triples\<close>: the monads, tables and their interface (\<open>keyed_table\<close>), the rules \<open>preserves\<close> and
    the Hoare triples that take a handler apart, and the frames \<open>service_frame\<close>, \<open>payments_only\<close>, \<open>refunds_only\<close>.
  \<^item> \<open>Decimal_Text\<close>, \<open>Numbers\<close>, \<open>Grouping\<close>, \<open>Tax_Calc\<close>, \<open>Return_Url\<close>: the utilities
    (\<open>amount-calculations.ts\<close>, \<open>type-assertion.ts\<close>, \<open>array-to-object.ts\<close>, \<open>tax-calculations.ts\<close>,
    \<open>payment-return-url.util.ts\<close>): sums do not depend on their order, taxes split and merge exactly, a return
    address needs a whitelisted origin.
  \<^item> \<open>Entities\<close>, \<open>Order_Calculation\<close>, \<open>Ledger\<close>: rows and queries of the core; prices, taxes and commissions of an
    order (\<open>order-calculation.service.ts\<close>); orders and entries of the sellers
    (\<open>seller-payment-order.service.ts\<close>, \<open>account-payment-transaction.service.ts\<close>): exact totals and balance.
  \<^item> \<open>Channel_Operations\<close>, \<open>Channel_Properties\<close>, \<open>Refund_Allocations\<close>, \<open>Refund_Settlement\<close>:
    \<open>payment-operation-management.service.ts\<close>: what is charged, cancelled and refunded; a refund is distributed
    over the captures exactly and within what each has left; a settlement books each line once.
  \<^item> \<open>Payments\<close>, \<open>Payment_Machine\<close>, \<open>Payment_Lifecycle\<close>, \<open>Payment_Properties\<close>, \<open>Payment_Completion\<close>:
    \<open>payment.service.ts\<close>, the abstract machine of a payment's life, and the refinement: every operation, on every
    path, is a sequence of the machine's moves, so its invariants hold of every store that is reached.
  \<^item> \<open>Refunds\<close>, \<open>Refund_Invariants\<close>, \<open>Refund_Quantities\<close>, \<open>Refund_Amounts\<close>, \<open>Refund_Lease\<close>,
    \<open>Refund_Properties\<close>: \<open>refund.service.ts\<close> as transactions that interleave with one another and with anything
    that leaves refunds alone: quantities and amounts are bounded by the purchase, and the lease of an approval is
    exclusive.
  \<^item> \<open>Calendar\<close>, \<open>Report_Entities\<close>, \<open>Report_Setup\<close>, \<open>Reports\<close>, \<open>Report_Frames\<close>, \<open>Report_Totals\<close>,
    \<open>Report_Queue\<close>, \<open>Report_Blocking\<close>, \<open>Report_Properties\<close>: \<open>report-digestion.service.ts\<close>,
    \<open>report.service.ts\<close>, \<open>seller-report-setup.service.ts\<close>: the period labels, the queue as the statements of
    several instances, exact totals of a seller's report against a reference sum, and what a failure blocks.
  \<^item> \<open>Iyzico_Entities\<close>, \<open>Iyzico_Refunds\<close>, \<open>Iyzico_Checkout\<close>, \<open>Iyzico_Operations\<close>: the adapter's client, refunds,
    checkout mapping and operations, each handler whole.
  \<^item> \<open>Iyzico_Machine\<close>: the same handlers cut into the statements between which they wait, as tasks of a world that
    run in any order and may die; its interface for invariants is the locale \<open>iyzico_invariant\<close>.
    \<open>Iyzico_Evidence\<close>, \<open>Iyzico_Captures\<close>, \<open>Iyzico_Reservations\<close>, \<open>Iyzico_Submissions\<close> hold the invariant in
    four parts: authentic replies, rows of operations, reserved amounts, and who may submit which line.
    \<open>Iyzico_Properties\<close> concludes that captures are verified and refunds safe, \<open>Iyzico_Sample\<close> computes runs, and
    \<open>Iyzico_Cancellation\<close> shows the payment that a cancellation misses.
  \<^item> \<open>Encryption\<close>, \<open>Webhooks\<close>, \<open>Webhook_Properties\<close>: \<open>cryption-util.ts\<close>, \<open>webhook-config.service.ts\<close> and
    \<open>webhook-dispatch.service.ts\<close>: the key a subscriber was shown is the one it is sent, and each event is attempted
    three times at most and delivered once, if passes over the failed ones do not overlap.
  \<^item> \<open>Billing\<close>: \<open>billing.service.ts\<close> for any payment service that can charge (\<open>charging\<close>), then with the one
    there is: each report is charged once, respectively never.
  \<^item> \<open>Payment_Cleanup\<close>: \<open>payment-cleanup.service.ts\<close> with its archive directory: exactly the payments archived are
    deleted, with all that belongs to them, or nothing.
  \<^item> \<open>External_Payments\<close>, \<open>External_Properties\<close>: \<open>external-platform-payment.service.ts\<close> with the resolution of customers and
    addresses (\<open>account.service.ts\<close>, \<open>address.service.ts\<close>): an order of another platform is recorded once.

  \<^bold>\<open>Bounds.\<close> The loop that draws a session identifier (\<open>generateActiveSessionId\<close>) has as fuel the number of
  payments and two: each round that is repeated has met a payment of its own, so it ends before (theorem
  \<open>generateActiveSessionId_returns\<close>). All other loops are structural. Exactness of native arithmetic is assumed
  within the bounds stated in each theorem, as doubles have them up to fifteen digits. \<open>localeCompare\<close> is the
  order of characters, which it is on the lower-case identifiers it is applied to.

  \<^bold>\<open>Not modelled.\<close> Controllers, modules and start-up (routing); the CRUD services of accounts, addresses, items and
  settings, and the searches, which the core only reads; the set-up wizard, the migration, invoices and UBL documents,
  the copies that snapshots are, sub-merchants, the message broker; the generators in \<open>tools\<close> and the test driver.
  Failures of the database itself are not branches, the deletions of a clean-up apart; a process that dies between
  two statements is one in the adapter's machine and in the runs of the refund service.
\<close>

end
